(* ===== verification/Prelude.thy ===== *)
theory Prelude
  imports Main "HOL-Library.Sublist"
begin

text \<open>
  Shared vocabulary of the development: Python exceptions as values, the result type of
  fallible code, the sequencing of checks that append to an error list, and the list
  helpers (\<open>_dedupe\<close>, \<open>max\<close> with a key) that nearly every module of the program has a
  copy of.

  A Python function that may raise returns \<open>'a res\<close>: \<open>Inl e\<close> is "raised \<open>e\<close>",
  \<open>Inr x\<close> is "returned \<open>x\<close>".  A validator of the program is a sequence of statements
  \<open>if cond: errors.append(msg)\<close>; it is modelled by \<open>collect\<close> over the list of its
  statements, each statement being \<open>fail_if cond msg\<close> (the condition cannot raise) or
  \<open>fail_ifM cond msg\<close> (the condition may raise).
\<close>

section \<open>Exceptions and results\<close>

datatype pyexc = TypeError | ValueError | KeyError | AttributeError | OverflowError | OSError

type_synonym 'a res = "pyexc + 'a"

definition res_bind :: "'a res \<Rightarrow> ('a \<Rightarrow> 'b res) \<Rightarrow> 'b res" where
  "res_bind m f = (case m of Inl e \<Rightarrow> Inl e | Inr x \<Rightarrow> f x)"

definition res_map :: "('a \<Rightarrow> 'b) \<Rightarrow> 'a res \<Rightarrow> 'b res" where
  "res_map f m = (case m of Inl e \<Rightarrow> Inl e | Inr x \<Rightarrow> Inr (f x))"

text \<open>Python's \<open>or\<close> and \<open>and\<close>: the right operand is evaluated, and may raise, only
  when the left one does not decide.\<close>

definition res_or :: "bool res \<Rightarrow> bool res \<Rightarrow> bool res" where
  "res_or a b = res_bind a (\<lambda>x. if x then Inr True else b)"

definition res_and :: "bool res \<Rightarrow> bool res \<Rightarrow> bool res" where
  "res_and a b = res_bind a (\<lambda>x. if x then b else Inr False)"

definition res_not :: "bool res \<Rightarrow> bool res" where
  "res_not = res_map Not"

definition returns :: "'a res \<Rightarrow> bool" where
  "returns m = (case m of Inl _ \<Rightarrow> False | Inr _ \<Rightarrow> True)"

text \<open>The computation returns, and what it returns satisfies \<open>P\<close>.\<close>

definition returning :: "('a \<Rightarrow> bool) \<Rightarrow> 'a res \<Rightarrow> bool" where
  "returning P m = (case m of Inl _ \<Rightarrow> False | Inr x \<Rightarrow> P x)"

lemma returningE:
  assumes "returning P m"
  obtains x where "m = Inr x" and "P x"
  using assms by (cases m) (auto simp: returning_def)

lemma res_bind_simps [simp]:
  "res_bind (Inr x) f = f x"
  "res_bind (Inl e) f = Inl e"
  by (simp_all add: res_bind_def)

lemma res_map_simps [simp]:
  "res_map f (Inr x) = Inr (f x)"
  "res_map f (Inl e) = Inl e"
  by (simp_all add: res_map_def)

text \<open>Evaluation takes the first argument of a bind apart before it looks at the rest.\<close>

lemma res_bind_unfold [code_unfold]: "res_bind m f = (case m of Inl e \<Rightarrow> Inl e | Inr x \<Rightarrow> f x)"
  by (rule res_bind_def)

lemma res_map_unfold [code_unfold]: "res_map f m = (case m of Inl e \<Rightarrow> Inl e | Inr x \<Rightarrow> Inr (f x))"
  by (rule res_map_def)

lemma res_or_simps [simp]:
  "res_or (Inr True) b = Inr True"
  "res_or (Inr False) b = b"
  "res_or (Inl e) b = Inl e"
  by (simp_all add: res_or_def)

lemma res_and_simps [simp]:
  "res_and (Inr True) b = b"
  "res_and (Inr False) b = Inr False"
  "res_and (Inl e) b = Inl e"
  by (simp_all add: res_and_def)

lemma res_not_simps [simp]:
  "res_not (Inr b) = Inr (\<not> b)"
  "res_not (Inl e) = Inl e"
  by (simp_all add: res_not_def)

lemma returns_simps [simp]:
  "returns (Inr x)"
  "\<not> returns (Inl e)"
  by (simp_all add: returns_def)

lemma returns_iff: "returns m \<longleftrightarrow> (\<exists>x. m = Inr x)"
  by (cases m) auto

lemma res_bind_Inr_iff:
  "res_bind m f = Inr y \<longleftrightarrow> (\<exists>x. m = Inr x \<and> f x = Inr y)"
  by (cases m) auto

lemma res_bindE:
  assumes "res_bind m f = Inr y"
  obtains x where "m = Inr x" and "f x = Inr y"
  using assms by (cases m) auto

lemma res_mapE:
  assumes "res_map f m = Inr y"
  obtains x where "m = Inr x" and "y = f x"
  using assms by (cases m) auto

lemma res_map_Inr_iff:
  "res_map f m = Inr y \<longleftrightarrow> (\<exists>x. m = Inr x \<and> y = f x)"
  by (cases m) auto

lemma returns_bind_iff:
  "returns (res_bind m f) \<longleftrightarrow> (\<exists>x. m = Inr x \<and> returns (f x))"
  by (cases m) auto

lemma returns_map_iff [simp]: "returns (res_map f m) \<longleftrightarrow> returns m"
  by (cases m) auto

lemma res_or_False_iff:
  "res_or a b = Inr False \<longleftrightarrow> a = Inr False \<and> b = Inr False"
  by (cases a) (auto simp: res_or_def)

lemma res_and_False_iff:
  "res_and a b = Inr False \<longleftrightarrow> a = Inr False \<or> (a = Inr True \<and> b = Inr False)"
  by (cases a) (auto simp: res_and_def)

lemma returns_or: "returns a \<Longrightarrow> returns b \<Longrightarrow> returns (res_or a b)"
  by (cases a) (auto simp: res_or_def)

lemma returns_and: "returns a \<Longrightarrow> returns b \<Longrightarrow> returns (res_and a b)"
  by (cases a) (auto simp: res_and_def)

lemma returns_not [simp]: "returns (res_not a) \<longleftrightarrow> returns a"
  by (simp add: res_not_def)

section \<open>Statements that append to an error list\<close>

definition fail_if :: "bool \<Rightarrow> string \<Rightarrow> string list res" where
  "fail_if b msg = Inr (if b then [msg] else [])"

definition fail_ifM :: "bool res \<Rightarrow> string \<Rightarrow> string list res" where
  "fail_ifM b msg = res_map (\<lambda>b. if b then [msg] else []) b"

fun collect :: "'a list res list \<Rightarrow> 'a list res" where
  "collect [] = Inr []"
| "collect (c # cs) = res_bind c (\<lambda>xs. res_map (\<lambda>ys. xs @ ys) (collect cs))"

lemma fail_if_Nil [simp]: "fail_if b msg = Inr [] \<longleftrightarrow> \<not> b"
  by (simp add: fail_if_def)

lemma fail_ifM_Nil [simp]: "fail_ifM b msg = Inr [] \<longleftrightarrow> b = Inr False"
  by (cases b) (auto simp: fail_ifM_def)

lemma returns_fail_if [simp]: "returns (fail_if b msg)"
  by (simp add: fail_if_def)

lemma returns_fail_ifM [simp]: "returns (fail_ifM b msg) \<longleftrightarrow> returns b"
  by (simp add: fail_ifM_def)

lemma collect_Nil_iff: "collect cs = Inr [] \<longleftrightarrow> (\<forall>c\<in>set cs. c = Inr [])"
  by (induction cs) (auto simp: res_bind_Inr_iff res_map_Inr_iff)

lemma collect_returns_iff: "returns (collect cs) \<longleftrightarrow> (\<forall>c\<in>set cs. returns c)"
proof (induction cs)
  case (Cons c cs)
  then show ?case by (cases c) auto
qed simp

lemma collect_append:
  "collect (as @ bs) = res_bind (collect as) (\<lambda>xs. res_map (\<lambda>ys. xs @ ys) (collect bs))"
proof (induction as)
  case Nil
  show ?case by (cases "collect bs") simp_all
next
  case (Cons a as)
  then show ?case
    by (cases a; cases "collect as"; cases "collect bs") simp_all
qed

text \<open>A message that some statement appends is in the collected list.\<close>

lemma collect_member:
  "collect cs = Inr es \<Longrightarrow> Inr xs \<in> set cs \<Longrightarrow> set xs \<subseteq> set es"
  by (induction cs arbitrary: es) (auto simp: res_bind_Inr_iff res_map_Inr_iff)

lemma collect_set:
  "collect cs = Inr es \<Longrightarrow> e \<in> set es \<longleftrightarrow> (\<exists>xs. Inr xs \<in> set cs \<and> e \<in> set xs)"
  by (induction cs arbitrary: es) (fastforce simp: res_bind_Inr_iff res_map_Inr_iff)+

lemma mem_flag: "x \<in> set (if b then [y] else []) \<longleftrightarrow> b \<and> x = y"
  by auto

lemma flag_Nil: "(if b then [x] else []) = [] \<longleftrightarrow> \<not> b"
  by simp

section \<open>Sequencing over a list\<close>

fun mapM :: "('a \<Rightarrow> 'b res) \<Rightarrow> 'a list \<Rightarrow> 'b list res" where
  "mapM f [] = Inr []"
| "mapM f (x # xs) = res_bind (f x) (\<lambda>y. res_map (\<lambda>ys. y # ys) (mapM f xs))"

lemma mapM_Inr_iff: "mapM f xs = Inr ys \<longleftrightarrow> list_all2 (\<lambda>x y. f x = Inr y) xs ys"
  by (induction xs arbitrary: ys)
    (auto simp: res_bind_Inr_iff res_map_Inr_iff list_all2_Cons1)

lemma mapM_returns_iff: "returns (mapM f xs) \<longleftrightarrow> (\<forall>x\<in>set xs. returns (f x))"
proof (induction xs)
  case (Cons x xs)
  then show ?case by (cases "f x") auto
qed simp

text \<open>\<open>any(...)\<close> over a generator whose condition may raise.\<close>

fun anyM :: "('a \<Rightarrow> bool res) \<Rightarrow> 'a list \<Rightarrow> bool res" where
  "anyM p [] = Inr False"
| "anyM p (x # xs) = res_or (p x) (anyM p xs)"

lemma anyM_False_iff: "anyM p xs = Inr False \<longleftrightarrow> (\<forall>x\<in>set xs. p x = Inr False)"
  by (induction xs) (auto simp: res_or_False_iff)

lemma anyM_Inr: "anyM (\<lambda>x. Inr (p x)) xs = Inr (\<exists>x\<in>set xs. p x)"
  by (induction xs) (auto simp: res_or_def)

section \<open>Order-preserving removal of duplicates\<close>

text \<open>\<open>list(dict.fromkeys(values))\<close>: the first occurrence of each value, in order.\<close>

fun dedupe :: "'a list \<Rightarrow> 'a list" where
  "dedupe [] = []"
| "dedupe (x # xs) = x # filter (\<lambda>y. y \<noteq> x) (dedupe xs)"

lemma set_dedupe [simp]: "set (dedupe xs) = set xs"
  by (induction xs) auto

lemma distinct_dedupe [simp]: "distinct (dedupe xs)"
  by (induction xs) auto

lemma dedupe_Nil_iff [simp]: "dedupe xs = [] \<longleftrightarrow> xs = []"
  by (cases xs) auto

lemma Nil_dedupe_iff [simp]: "[] = dedupe xs \<longleftrightarrow> xs = []"
  by (cases xs) auto

lemma dedupe_distinct_id: "distinct xs \<Longrightarrow> dedupe xs = xs"
proof (induction xs)
  case (Cons x xs)
  then show ?case by (simp add: filter_id_conv) blast
qed simp

lemma dedupe_idem [simp]: "dedupe (dedupe xs) = dedupe xs"
  by (simp add: dedupe_distinct_id)

lemma subseq_dedupe: "subseq (dedupe xs) xs"
proof (induction xs)
  case (Cons x xs)
  have "subseq (filter (\<lambda>y. y \<noteq> x) (dedupe xs)) (dedupe xs)"
    by (rule subseq_filter_left)
  from subseq_order.order_trans [OF this Cons.IH] show ?case
    by simp
qed simp

section \<open>Python's max with a key\<close>

text \<open>\<open>max(xs, key=f)\<close> returns the first element whose key is maximal.\<close>

fun max_by :: "('a \<Rightarrow> int) \<Rightarrow> 'a \<Rightarrow> 'a list \<Rightarrow> 'a" where
  "max_by f best [] = best"
| "max_by f best (x # xs) = max_by f (if f best < f x then x else best) xs"

lemma max_by_mem: "max_by f b xs \<in> insert b (set xs)"
proof (induction xs arbitrary: b)
  case (Cons x xs)
  from Cons.IH [of x] Cons.IH [of b] show ?case by auto
qed simp

lemma max_by_ge: "f b \<le> f (max_by f b xs)"
proof (induction xs arbitrary: b)
  case (Cons x xs)
  from Cons.IH [of x] Cons.IH [of b] show ?case by simp
qed simp

lemma max_by_upper: "x \<in> set xs \<Longrightarrow> f x \<le> f (max_by f b xs)"
proof (induction xs arbitrary: b)
  case (Cons y ys)
  from max_by_ge [of f y ys] max_by_ge [of f b ys] Cons show ?case
    by (auto split: if_splits)
qed simp

section \<open>Association lists as dictionaries\<close>

lemma map_of_mem_keys: "map_of d k \<noteq> None \<longleftrightarrow> k \<in> fst ` set d"
  by (induction d) auto

named_theorems dict_simps

end
