(* ===== verification/Py_Text.thy ===== *)
theory Py_Text
  imports Prelude
begin

text \<open>
  The part of Python's \<open>str\<close> and \<open>re\<close> that the program uses.  A Python string is a
  \<open>string\<close>, one \<open>char\<close> per code point; the model covers the code points below 256, and
  the character tables (\<open>lower\<close>, \<open>isalnum\<close>, \<open>isspace\<close>) are those of Python on that
  range.  \<open>re\<close> patterns are values of the datatype \<open>rx\<close>; \<open>rx_fullmatch\<close> decides
  \<open>fullmatch\<close> by derivatives and is proved equal to membership in the language of the
  pattern, and \<open>rx_search\<close> is proved to find exactly the strings with a matching part.
\<close>

section \<open>Characters\<close>

definition code :: "char \<Rightarrow> nat" where
  "code c = of_char c"

definition in_range :: "nat \<Rightarrow> nat \<Rightarrow> char \<Rightarrow> bool" where
  "in_range a b c \<longleftrightarrow> a \<le> code c \<and> code c \<le> b"

definition is_digit :: "char \<Rightarrow> bool" where
  "is_digit = in_range 48 57"

definition is_upper_ascii :: "char \<Rightarrow> bool" where
  "is_upper_ascii = in_range 65 90"

definition is_lower_ascii :: "char \<Rightarrow> bool" where
  "is_lower_ascii = in_range 97 122"

definition is_ascii_alnum :: "char \<Rightarrow> bool" where
  "is_ascii_alnum c \<longleftrightarrow> is_digit c \<or> is_upper_ascii c \<or> is_lower_ascii c"

definition is_hex_lower :: "char \<Rightarrow> bool" where
  "is_hex_lower c \<longleftrightarrow> is_digit c \<or> in_range 97 102 c"

text \<open>\<open>str.isalnum\<close> on one character: letters, digits and the superscripts and
  fractions of the upper half.\<close>

definition is_alnum :: "char \<Rightarrow> bool" where
  "is_alnum c \<longleftrightarrow> is_ascii_alnum c
     \<or> code c \<in> {170, 178, 179, 181, 185, 186, 188, 189, 190}
     \<or> (192 \<le> code c \<and> code c \<noteq> 215 \<and> code c \<noteq> 247)"

text \<open>\<open>str.isspace\<close>, \<open>str.strip\<close> and the \<open>\s\<close> of a \<open>str\<close> pattern.\<close>

definition is_space :: "char \<Rightarrow> bool" where
  "is_space c \<longleftrightarrow> in_range 9 13 c \<or> in_range 28 32 c \<or> code c = 133 \<or> code c = 160"

definition lower_char :: "char \<Rightarrow> char" where
  "lower_char c =
     (if is_upper_ascii c \<or> (in_range 192 222 c \<and> code c \<noteq> 215) then char_of (code c + 32) else c)"

definition py_lower :: "string \<Rightarrow> string" where
  "py_lower s = map lower_char s"

text \<open>The same on the bits of the character, for evaluation.\<close>

lemma lower_char_bits [code]:
  "lower_char (Char b0 b1 b2 b3 b4 b5 b6 b7) =
     (if b6 \<and> \<not> b5 \<and> (if b7 then \<not> (b4 \<and> b2 \<and> b1 \<and> b0)
                     else (b0 \<or> b1 \<or> b2 \<or> b3 \<or> b4) \<and> \<not> (b4 \<and> b3 \<and> (b2 \<or> (b1 \<and> b0))))
      then Char b0 b1 b2 b3 b4 True b6 b7 else Char b0 b1 b2 b3 b4 b5 b6 b7)"
proof -
  have "\<forall>b0 b1 b2 b3 b4 b5 b6 b7. lower_char (Char b0 b1 b2 b3 b4 b5 b6 b7) =
     (if b6 \<and> \<not> b5 \<and> (if b7 then \<not> (b4 \<and> b2 \<and> b1 \<and> b0)
                     else (b0 \<or> b1 \<or> b2 \<or> b3 \<or> b4) \<and> \<not> (b4 \<and> b3 \<and> (b2 \<or> (b1 \<and> b0))))
      then Char b0 b1 b2 b3 b4 True b6 b7 else Char b0 b1 b2 b3 b4 b5 b6 b7)"
    unfolding all_bool_eq lower_char_def is_upper_ascii_def in_range_def code_def
    by (simp add: char_of_def bit_iff_odd)
  then show ?thesis by blast
qed

lemma lower_char_idem [simp]: "lower_char (lower_char c) = lower_char c"
proof -
  have "code c < 256" by (simp add: code_def)
  then show ?thesis
    by (auto simp: lower_char_def is_upper_ascii_def in_range_def code_def)
qed

lemma py_lower_idem [simp]: "py_lower (py_lower s) = py_lower s"
  by (simp add: py_lower_def)

lemma length_py_lower [simp]: "length (py_lower s) = length s"
  by (simp add: py_lower_def)

section \<open>Substrings, prefixes and replacement\<close>

text \<open>\<open>needle in haystack\<close>.\<close>

fun str_in :: "string \<Rightarrow> string \<Rightarrow> bool" where
  "str_in p [] \<longleftrightarrow> p = []"
| "str_in p (c # s) \<longleftrightarrow> prefix p (c # s) \<or> str_in p s"

lemma str_in_iff: "str_in p s \<longleftrightarrow> sublist p s"
proof (induction s)
  case (Cons c s)
  then show ?case by (auto simp: sublist_Cons_right)
qed simp

lemma str_in_refl [simp]: "str_in s s"
  by (simp add: str_in_iff)

lemma str_in_append: "str_in p s \<Longrightarrow> str_in p (a @ s @ b)"
  unfolding str_in_iff by (meson sublist_appendI sublist_order.order_trans)

definition starts_with :: "string \<Rightarrow> string \<Rightarrow> bool" where
  "starts_with s p \<longleftrightarrow> prefix p s"

definition ends_with :: "string \<Rightarrow> string \<Rightarrow> bool" where
  "ends_with s p \<longleftrightarrow> suffix p s"

text \<open>\<open>s.replace(old, new)\<close> for a one-character \<open>old\<close>.\<close>

definition replace_char :: "char \<Rightarrow> string \<Rightarrow> string \<Rightarrow> string" where
  "replace_char c new s = concat (map (\<lambda>x. if x = c then new else [x]) s)"

lemma replace_char_absent: "c \<notin> set new \<Longrightarrow> c \<notin> set (replace_char c new s)"
  by (induction s) (auto simp: replace_char_def)

lemma replace_char_id: "c \<notin> set s \<Longrightarrow> replace_char c new s = s"
  by (induction s) (auto simp: replace_char_def)

definition strip_by :: "(char \<Rightarrow> bool) \<Rightarrow> string \<Rightarrow> string" where
  "strip_by p s = rev (dropWhile p (rev (dropWhile p s)))"

definition py_strip :: "string \<Rightarrow> string" where
  "py_strip = strip_by is_space"

lemma strip_by_ends:
  assumes "strip_by p s \<noteq> []"
  shows "\<not> p (hd (strip_by p s))" and "\<not> p (last (strip_by p s))"
proof -
  let ?t = "dropWhile p s"
  have ne: "dropWhile p (rev ?t) \<noteq> []" using assms by (simp add: strip_by_def)
  then have "?t \<noteq> []" by (cases ?t) simp_all
  then have hd_t: "\<not> p (hd ?t)" by (rule hd_dropWhile)
  show "\<not> p (last (strip_by p s))"
    using hd_dropWhile [OF ne] ne by (simp add: strip_by_def last_rev)
  obtain xs where "rev ?t = xs @ dropWhile p (rev ?t)"
    by (metis takeWhile_dropWhile_id)
  then have "?t = strip_by p s @ rev xs"
    by (metis rev_append rev_rev_ident strip_by_def)
  then show "\<not> p (hd (strip_by p s))"
    using hd_t assms by (metis hd_append2)
qed

text \<open>\<open>sep.join(parts)\<close>.\<close>

fun py_join :: "string \<Rightarrow> string list \<Rightarrow> string" where
  "py_join sep [] = []"
| "py_join sep [x] = x"
| "py_join sep (x # y # ys) = x @ sep @ py_join sep (y # ys)"

text \<open>\<open>str.splitlines()\<close>: the line boundaries below code point 256, \<open>\r\n\<close> being one.\<close>

definition is_linebreak :: "char \<Rightarrow> bool" where
  "is_linebreak c \<longleftrightarrow> in_range 10 13 c \<or> in_range 28 30 c \<or> code c = 133"

fun split_lines :: "string \<Rightarrow> string \<Rightarrow> string list" where
  "split_lines cur [] = (if cur = [] then [] else [rev cur])"
| "split_lines cur [c] = (if is_linebreak c then [rev cur] else [rev (c # cur)])"
| "split_lines cur (c # d # s) =
     (if code c = 13 \<and> code d = 10 then rev cur # split_lines [] s
      else if is_linebreak c then rev cur # split_lines [] (d # s)
      else split_lines (c # cur) (d # s))"

definition py_splitlines :: "string \<Rightarrow> string list" where
  "py_splitlines = split_lines []"

section \<open>Decimal text\<close>

definition digit_char :: "nat \<Rightarrow> char" where
  "digit_char d = char_of (48 + d)"

fun nat_text :: "nat \<Rightarrow> string" where
  "nat_text n = (if n < 10 then [digit_char n] else nat_text (n div 10) @ [digit_char (n mod 10)])"

declare nat_text.simps [simp del]

definition int_text :: "int \<Rightarrow> string" where
  "int_text i = (if i < 0 then CHR ''-'' # nat_text (nat (- i)) else nat_text (nat i))"

text \<open>\<open>int(s)\<close> for a string of ASCII digits.\<close>

definition digits_value :: "string \<Rightarrow> nat" where
  "digits_value s = fold (\<lambda>c v. 10 * v + (code c - 48)) s 0"

lemma code_digit_char: "d < 10 \<Longrightarrow> code (digit_char d) = 48 + d"
  by (simp add: code_def digit_char_def)

lemma is_digit_digit_char: "d < 10 \<Longrightarrow> is_digit (digit_char d)"
  by (simp add: is_digit_def in_range_def code_digit_char)

lemma digits_value_snoc: "digits_value (s @ [c]) = 10 * digits_value s + (code c - 48)"
  by (simp add: digits_value_def)

lemma nat_text_digits: "\<forall>c\<in>set (nat_text n). is_digit c"
proof (induction n rule: nat_text.induct)
  case (1 n)
  then show ?case
    by (subst nat_text.simps) (auto simp: is_digit_digit_char)
qed

lemma nat_text_nonempty [simp]: "nat_text n \<noteq> []"
  by (subst nat_text.simps) simp

text \<open>Printing a number and reading it back.\<close>

lemma digits_value_nat_text: "digits_value (nat_text n) = n"
proof (induction n rule: nat_text.induct)
  case (1 n)
  show ?case
  proof (cases "n < 10")
    case True
    then show ?thesis
      by (subst nat_text.simps) (simp add: digits_value_def code_digit_char)
  next
    case False
    with 1 have "digits_value (nat_text (n div 10)) = n div 10" by simp
    with False show ?thesis
      by (subst nat_text.simps) (simp add: digits_value_snoc code_digit_char)
  qed
qed

lemma nat_text_inj: "nat_text m = nat_text n \<longleftrightarrow> m = n"
  by (metis digits_value_nat_text)

section \<open>Regular expressions\<close>

datatype rx =
    Never
  | Empty
  | Cls "char \<Rightarrow> bool"
  | Alt rx rx
  | Cat rx rx
  | Rep rx

text \<open>The strings a pattern describes.\<close>

inductive rx_lang :: "rx \<Rightarrow> string \<Rightarrow> bool" where
  lang_empty: "rx_lang Empty []"
| lang_cls: "p c \<Longrightarrow> rx_lang (Cls p) [c]"
| lang_altL: "rx_lang r s \<Longrightarrow> rx_lang (Alt r q) s"
| lang_altR: "rx_lang q s \<Longrightarrow> rx_lang (Alt r q) s"
| lang_cat: "rx_lang r s \<Longrightarrow> rx_lang q t \<Longrightarrow> rx_lang (Cat r q) (s @ t)"
| lang_rep0: "rx_lang (Rep r) []"
| lang_repS: "rx_lang r s \<Longrightarrow> rx_lang (Rep r) t \<Longrightarrow> rx_lang (Rep r) (s @ t)"

inductive_simps rx_lang_Never [simp]: "rx_lang Never s"
inductive_simps rx_lang_Empty [simp]: "rx_lang Empty s"
inductive_simps rx_lang_Cls: "rx_lang (Cls p) s"
inductive_simps rx_lang_Alt [simp]: "rx_lang (Alt r q) s"
inductive_simps rx_lang_Cat: "rx_lang (Cat r q) s"

lemma rx_lang_Cls_Cat:
  "rx_lang (Cat (Cls p) q) s \<longleftrightarrow> (\<exists>c t. s = c # t \<and> p c \<and> rx_lang q t)"
proof
  assume "rx_lang (Cat (Cls p) q) s"
  then show "\<exists>c t. s = c # t \<and> p c \<and> rx_lang q t"
    by (auto simp: rx_lang_Cat rx_lang_Cls)
next
  assume "\<exists>c t. s = c # t \<and> p c \<and> rx_lang q t"
  then obtain c t where "s = [c] @ t" "p c" "rx_lang q t" by auto
  then show "rx_lang (Cat (Cls p) q) s"
    using lang_cat [OF lang_cls] by metis
qed

fun nullable :: "rx \<Rightarrow> bool" where
  "nullable Never = False"
| "nullable Empty = True"
| "nullable (Cls p) = False"
| "nullable (Alt r q) = (nullable r \<or> nullable q)"
| "nullable (Cat r q) = (nullable r \<and> nullable q)"
| "nullable (Rep r) = True"

fun alt :: "rx \<Rightarrow> rx \<Rightarrow> rx" where
  "alt Never q = q"
| "alt r Never = r"
| "alt r q = Alt r q"

fun cat :: "rx \<Rightarrow> rx \<Rightarrow> rx" where
  "cat Never q = Never"
| "cat Empty q = q"
| "cat r q = Cat r q"

fun derivative :: "char \<Rightarrow> rx \<Rightarrow> rx" where
  "derivative c Never = Never"
| "derivative c Empty = Never"
| "derivative c (Cls p) = (if p c then Empty else Never)"
| "derivative c (Alt r q) = alt (derivative c r) (derivative c q)"
| "derivative c (Cat r q) =
     (if nullable r then alt (cat (derivative c r) q) (derivative c q)
      else cat (derivative c r) q)"
| "derivative c (Rep r) = cat (derivative c r) (Rep r)"

fun rx_fullmatch :: "rx \<Rightarrow> string \<Rightarrow> bool" where
  "rx_fullmatch r [] = nullable r"
| "rx_fullmatch r (c # s) = rx_fullmatch (derivative c r) s"

lemma nullable_iff: "nullable r \<longleftrightarrow> rx_lang r []"
  by (induction r) (auto simp: rx_lang_Cls rx_lang_Cat intro: lang_rep0)

lemma alt_lang [simp]: "rx_lang (alt r q) s \<longleftrightarrow> rx_lang r s \<or> rx_lang q s"
  by (cases "(r, q)" rule: alt.cases) auto

lemma cat_lang [simp]: "rx_lang (cat r q) s \<longleftrightarrow> rx_lang (Cat r q) s"
  by (cases "(r, q)" rule: cat.cases) (auto simp: rx_lang_Cat)

lemma rep_Cons_iff:
  "rx_lang (Rep r) (c # s) \<longleftrightarrow> (\<exists>u v. s = u @ v \<and> rx_lang r (c # u) \<and> rx_lang (Rep r) v)"
proof
  assume "rx_lang (Rep r) (c # s)"
  then show "\<exists>u v. s = u @ v \<and> rx_lang r (c # u) \<and> rx_lang (Rep r) v"
    by (induction "Rep r" "c # s" arbitrary: s rule: rx_lang.induct)
      (auto simp: append_eq_Cons_conv)
next
  assume "\<exists>u v. s = u @ v \<and> rx_lang r (c # u) \<and> rx_lang (Rep r) v"
  then show "rx_lang (Rep r) (c # s)"
    using lang_repS by fastforce
qed

lemma derivative_lang: "rx_lang (derivative c r) s \<longleftrightarrow> rx_lang r (c # s)"
proof (induction r arbitrary: s)
  case (Cat r q)
  then show ?case
    by (auto simp: rx_lang_Cat nullable_iff Cons_eq_append_conv)
next
  case (Rep r)
  then show ?case
    by (simp add: rep_Cons_iff rx_lang_Cat)
qed (auto simp: rx_lang_Cls)

theorem rx_fullmatch_lang: "rx_fullmatch r s \<longleftrightarrow> rx_lang r s"
  by (induction s arbitrary: r) (simp_all add: nullable_iff derivative_lang)

subsection \<open>Building patterns\<close>

definition chars :: "string \<Rightarrow> rx" where
  "chars s = Cls (\<lambda>c. c \<in> set s)"

fun lit :: "string \<Rightarrow> rx" where
  "lit [] = Empty"
| "lit (c # s) = Cat (Cls (\<lambda>x. x = c)) (lit s)"

fun cats :: "rx list \<Rightarrow> rx" where
  "cats [] = Empty"
| "cats [r] = r"
| "cats (r # rs) = Cat r (cats rs)"

fun alts :: "rx list \<Rightarrow> rx" where
  "alts [] = Never"
| "alts [r] = r"
| "alts (r # rs) = Alt r (alts rs)"

fun rx_times :: "nat \<Rightarrow> rx \<Rightarrow> rx" where
  "rx_times 0 r = Empty"
| "rx_times (Suc n) r = Cat r (rx_times n r)"

fun rx_upto :: "nat \<Rightarrow> rx \<Rightarrow> rx" where
  "rx_upto 0 r = Empty"
| "rx_upto (Suc n) r = Alt Empty (Cat r (rx_upto n r))"

definition opt :: "rx \<Rightarrow> rx" where
  "opt r = Alt Empty r"

definition rep1 :: "rx \<Rightarrow> rx" where
  "rep1 r = Cat r (Rep r)"

definition any_char :: rx where
  "any_char = Cls (\<lambda>_. True)"

text \<open>\<open>pattern.search(s)\<close> for a pattern without anchors, and \<open>rx_match\<close> for
  \<open>pattern.match(s)\<close> (an unanchored tail).\<close>

definition rx_search :: "rx \<Rightarrow> string \<Rightarrow> bool" where
  "rx_search r s = rx_fullmatch (Cat (Rep any_char) (Cat r (Rep any_char))) s"

definition rx_match :: "rx \<Rightarrow> string \<Rightarrow> bool" where
  "rx_match r s = rx_fullmatch (Cat r (Rep any_char)) s"

lemma rx_lang_any [simp]: "rx_lang (Rep any_char) s"
proof (induction s)
  case (Cons c s)
  have "rx_lang any_char [c]" by (simp add: any_char_def lang_cls)
  from lang_repS [OF this Cons.IH] show ?case by simp
qed (rule lang_rep0)

lemma rx_search_iff: "rx_search r s \<longleftrightarrow> (\<exists>a m b. s = a @ m @ b \<and> rx_lang r m)"
  by (auto simp: rx_search_def rx_fullmatch_lang rx_lang_Cat)

lemma rx_match_iff: "rx_match r s \<longleftrightarrow> (\<exists>m b. s = m @ b \<and> rx_lang r m)"
  by (auto simp: rx_match_def rx_fullmatch_lang rx_lang_Cat)

lemma rx_lang_lit [simp]: "rx_lang (lit w) s \<longleftrightarrow> s = w"
  by (induction w arbitrary: s) (auto simp: rx_lang_Cat rx_lang_Cls)

lemma rx_search_lit: "rx_search (lit w) s \<longleftrightarrow> str_in w s"
  by (auto simp: rx_search_iff str_in_iff sublist_def)

lemma rx_lang_rep_cls: "rx_lang (Rep (Cls p)) s \<longleftrightarrow> (\<forall>c\<in>set s. p c)"
proof (induction s)
  case Nil
  show ?case by (simp add: lang_rep0)
next
  case (Cons c s)
  then show ?case
    by (auto simp: rep_Cons_iff rx_lang_Cls)
qed

lemma rx_lang_times_cls:
  "rx_lang (rx_times n (Cls p)) s \<longleftrightarrow> length s = n \<and> (\<forall>c\<in>set s. p c)"
proof (induction n arbitrary: s)
  case (Suc n)
  then show ?case
    by (cases s) (auto simp: rx_lang_Cls_Cat)
qed auto

lemma rx_lang_upto_cls:
  "rx_lang (rx_upto n (Cls p)) s \<longleftrightarrow> length s \<le> n \<and> (\<forall>c\<in>set s. p c)"
proof (induction n arbitrary: s)
  case (Suc n)
  then show ?case
    by (cases s) (auto simp: rx_lang_Cls_Cat)
qed auto

section \<open>The patterns shared by several modules\<close>

text \<open>\<open>sha256:[0-9a-f]{64}\<close>.\<close>

definition sha256_rx :: rx where
  "sha256_rx = Cat (lit ''sha256:'') (rx_times 64 (Cls is_hex_lower))"

text \<open>The spelled-out test \<open>_is_fingerprint\<close> on a string.\<close>

definition fingerprint_text :: "string \<Rightarrow> bool" where
  "fingerprint_text s \<longleftrightarrow> starts_with s ''sha256:'' \<and> length s = 71
     \<and> list_all (\<lambda>c. c \<in> set ''0123456789abcdef'') (drop 7 s)"

text \<open>The host path pattern: an anchored alternative at the start of the string or after a
  blank, a quote or an equals sign.\<close>

definition host_path_body :: rx where
  "host_path_body = alts
     [cats [lit ''/'', Alt (lit ''home'') (lit ''Users''), lit ''/''],
      cats [lit ''/mnt/'', Cls (\<lambda>c. is_upper_ascii c \<or> is_lower_ascii c), lit ''/Users/''],
      cats [Cls (\<lambda>c. is_upper_ascii c \<or> is_lower_ascii c), lit '':'', lit [CHR 92], lit ''Users'',
        lit [CHR 92]]]"

definition host_path_lead :: "char \<Rightarrow> bool" where
  "host_path_lead c \<longleftrightarrow> is_space c \<or> c = CHR 34 \<or> c = CHR 39 \<or> c = CHR ''=''"

definition raw_host_path :: "string \<Rightarrow> bool" where
  "raw_host_path s \<longleftrightarrow> rx_match host_path_body s \<or> rx_search (Cat (Cls host_path_lead) host_path_body) s"

text \<open>Every host path has a slash or a backslash, which decides most strings at once.\<close>

lemma rx_lang_lit_Cat: "rx_lang (Cat (lit w) q) m \<longleftrightarrow> (\<exists>t. m = w @ t \<and> rx_lang q t)"
  by (auto simp: rx_lang_Cat)

lemma host_path_body_sep:
  assumes "rx_lang host_path_body m"
  shows "CHR ''/'' \<in> set m \<or> CHR 92 \<in> set m"
proof -
  from assms consider t where "m = ''/'' @ t" | t where "m = ''/mnt/'' @ t"
    | c t where "m = c # '':'' @ [CHR 92] @ t"
    unfolding host_path_body_def alts.simps cats.simps rx_lang_Alt rx_lang_lit_Cat rx_lang_Cls_Cat
    by blast
  then show ?thesis by cases simp_all
qed

lemma raw_host_path_code [code]:
  "raw_host_path s \<longleftrightarrow> (CHR ''/'' \<in> set s \<or> CHR 92 \<in> set s)
     \<and> (rx_match host_path_body s \<or> rx_search (Cat (Cls host_path_lead) host_path_body) s)"
proof -
  have "CHR ''/'' \<in> set s \<or> CHR 92 \<in> set s" if "raw_host_path s"
  proof -
    from that obtain u m v where s: "s = u @ m @ v" and m: "rx_lang host_path_body m"
      unfolding raw_host_path_def rx_match_iff rx_search_iff rx_lang_Cls_Cat
      by (metis append_Cons append_Nil append_assoc)
    from host_path_body_sep [OF m] s show ?thesis by auto
  qed
  then show ?thesis by (auto simp: raw_host_path_def)
qed

end
