(* ===== verification/Py_Json.thy ===== *)
theory Py_Json
  imports Complex_Main Py_Text "HOL-Library.Char_ord" "HOL-Library.List_Lexorder"
begin

text \<open>
  JSON-compatible Python values and the operations the program performs on them.  A
  \<open>dict\<close> is an association list in insertion order; the dictionaries that Python builds
  have distinct keys (\<open>json_wf\<close>).  A \<open>float\<close> carries its exact value and the text that
  \<open>repr\<close> prints for it; NaN and the infinities, which JSON does not have, are left out.
  Operations that can raise (\<open>x in {...}\<close> on an unhashable value, \<open>x < 0\<close> on a value that
  is not a number) return a \<open>res\<close>.
\<close>

section \<open>Values\<close>

datatype json =
    JNull
  | JBool bool
  | JInt int
  | JFloat rat string
  | JStr string
  | JList "json list"
  | JObj "(string \<times> json) list"

type_synonym dict = "(string \<times> json) list"

lemma size_list_mem: "x \<in> set xs \<Longrightarrow> f x < Suc (size_list f xs)"
  by (induction xs) auto

lemma size_json_list: "x \<in> set xs \<Longrightarrow> size x < size (JList xs)"
  using size_list_mem [of x xs size] by simp

lemma size_json_dict: "(k, v) \<in> set d \<Longrightarrow> size v < Suc (size_list (size_prod (\<lambda>_. 0) size) d)"
  by (induction d) auto

section \<open>Dictionaries\<close>

definition keys :: "dict \<Rightarrow> string list" where
  "keys d = map fst d"

text \<open>\<open>d.get(k)\<close>, \<open>d.get(k, default)\<close>, \<open>k in d\<close>.\<close>

definition dget_or :: "dict \<Rightarrow> string \<Rightarrow> json \<Rightarrow> json" where
  "dget_or d k def = (case map_of d k of None \<Rightarrow> def | Some v \<Rightarrow> v)"

abbreviation dget :: "dict \<Rightarrow> string \<Rightarrow> json" where
  "dget d k \<equiv> dget_or d k JNull"

definition has_key :: "dict \<Rightarrow> string \<Rightarrow> bool" where
  "has_key d k \<longleftrightarrow> k \<in> set (keys d)"

text \<open>\<open>d[k] = v\<close>: in place when the key is there, at the end otherwise.\<close>

fun dset :: "dict \<Rightarrow> string \<Rightarrow> json \<Rightarrow> dict" where
  "dset [] k v = [(k, v)]"
| "dset ((k', v') # d) k v = (if k' = k then (k, v) # d else (k', v') # dset d k v)"

text \<open>\<open>d.pop(k, None)\<close> as a copy, and \<open>d.setdefault(k, v)\<close>.\<close>

definition dpop :: "dict \<Rightarrow> string \<Rightarrow> dict" where
  "dpop d k = filter (\<lambda>(k', v). k' \<noteq> k) d"

definition dsetdefault :: "dict \<Rightarrow> string \<Rightarrow> json \<Rightarrow> dict" where
  "dsetdefault d k v = (if has_key d k then d else d @ [(k, v)])"

text \<open>\<open>set(d) == F\<close>, \<open>F.issubset(d)\<close>, \<open>set(d) <= F\<close>.\<close>

definition keys_eq :: "dict \<Rightarrow> string list \<Rightarrow> bool" where
  "keys_eq d F \<longleftrightarrow> set (keys d) = set F"

definition keys_include :: "dict \<Rightarrow> string list \<Rightarrow> bool" where
  "keys_include d F \<longleftrightarrow> set F \<subseteq> set (keys d)"

definition keys_within :: "dict \<Rightarrow> string list \<Rightarrow> bool" where
  "keys_within d F \<longleftrightarrow> set (keys d) \<subseteq> set F"

lemma dget_or_dset [dict_simps]:
  "dget_or (dset d k v) k' def = (if k' = k then v else dget_or d k' def)"
  by (induction d) (auto simp: dget_or_def split: if_splits)

lemma keys_dset [dict_simps]:
  "set (keys (dset d k v)) = insert k (set (keys d))"
  by (induction d k v rule: dset.induct) (auto simp: keys_def)

lemma distinct_keys_dset [dict_simps]:
  "distinct (keys d) \<Longrightarrow> distinct (keys (dset d k v))"
  by (induction d) (use keys_dset in \<open>auto simp: keys_def\<close>)

lemma dget_or_dpop [dict_simps]:
  "dget_or (dpop d k) k' def = (if k' = k then def else dget_or d k' def)"
  by (induction d) (auto simp: dget_or_def dpop_def split: if_splits)

lemma dpop_absent: "\<not> has_key d k \<Longrightarrow> dpop d k = d"
  by (induction d) (auto simp: dpop_def has_key_def keys_def)

lemma dget_absent: "\<not> has_key d k \<Longrightarrow> dget_or d k def = def"
  unfolding has_key_def keys_def dget_or_def
  by (metis list.set_map map_of_eq_None_iff option.simps(4))

lemma dget_Cons [dict_simps]:
  "dget_or ((k', v) # d) k def = (if k = k' then v else dget_or d k def)"
  by (simp add: dget_or_def)

lemma dget_Nil [simp]: "dget_or [] k def = def"
  by (simp add: dget_or_def)

section \<open>Type tests and projections\<close>

fun is_obj :: "json \<Rightarrow> bool" where
  "is_obj (JObj _) = True" | "is_obj _ = False"

fun is_list :: "json \<Rightarrow> bool" where
  "is_list (JList _) = True" | "is_list _ = False"

fun is_str :: "json \<Rightarrow> bool" where
  "is_str (JStr _) = True" | "is_str _ = False"

fun is_bool :: "json \<Rightarrow> bool" where
  "is_bool (JBool _) = True" | "is_bool _ = False"

text \<open>\<open>isinstance(x, int)\<close> holds of booleans too.\<close>

fun is_int :: "json \<Rightarrow> bool" where
  "is_int (JInt _) = True" | "is_int (JBool _) = True" | "is_int _ = False"

fun is_null :: "json \<Rightarrow> bool" where
  "is_null JNull = True" | "is_null _ = False"

definition is_true :: "json \<Rightarrow> bool" where
  "is_true v \<longleftrightarrow> v = JBool True"

definition is_false :: "json \<Rightarrow> bool" where
  "is_false v \<longleftrightarrow> v = JBool False"

text \<open>Python's truth value, and \<open>a or b\<close> on values.\<close>

fun truthy :: "json \<Rightarrow> bool" where
  "truthy JNull = False"
| "truthy (JBool b) = b"
| "truthy (JInt i) = (i \<noteq> 0)"
| "truthy (JFloat r t) = (r \<noteq> 0)"
| "truthy (JStr s) = (s \<noteq> [])"
| "truthy (JList xs) = (xs \<noteq> [])"
| "truthy (JObj d) = (d \<noteq> [])"

definition py_or :: "json \<Rightarrow> json \<Rightarrow> json" where
  "py_or a b = (if truthy a then a else b)"

fun nonempty_str :: "json \<Rightarrow> bool" where
  "nonempty_str (JStr s) = (s \<noteq> [])" | "nonempty_str _ = False"

text \<open>\<open>_mapping(value)\<close>: the value if it is a mapping, \<open>{}\<close> otherwise; \<open>opt_mapping\<close> is the
  variant that yields \<open>None\<close>.\<close>

fun mapping_or_empty :: "json \<Rightarrow> dict" where
  "mapping_or_empty (JObj d) = d" | "mapping_or_empty _ = []"

fun opt_mapping :: "json \<Rightarrow> dict option" where
  "opt_mapping (JObj d) = Some d" | "opt_mapping _ = None"

fun opt_str :: "json \<Rightarrow> string option" where
  "opt_str (JStr s) = Some s" | "opt_str _ = None"

fun opt_list :: "json \<Rightarrow> json list option" where
  "opt_list (JList xs) = Some xs" | "opt_list _ = None"

text \<open>\<open>x if isinstance(x, str) else None\<close> as a value.\<close>

definition str_or_null :: "json \<Rightarrow> json" where
  "str_or_null v = (if is_str v then v else JNull)"

definition str_json :: "string option \<Rightarrow> json" where
  "str_json s = (case s of None \<Rightarrow> JNull | Some t \<Rightarrow> JStr t)"

fun list_strings :: "json list \<Rightarrow> string list" where
  "list_strings [] = []"
| "list_strings (JStr s # xs) = s # list_strings xs"
| "list_strings (_ # xs) = list_strings xs"

text \<open>\<open>_string_items(value)\<close> and \<open>_list_of_mappings(value)\<close>.\<close>

fun string_items :: "json \<Rightarrow> string list" where
  "string_items (JList xs) = list_strings xs" | "string_items _ = []"

fun list_dicts :: "json list \<Rightarrow> dict list" where
  "list_dicts [] = []"
| "list_dicts (JObj d # xs) = d # list_dicts xs"
| "list_dicts (_ # xs) = list_dicts xs"

fun list_of_mappings :: "json \<Rightarrow> dict list" where
  "list_of_mappings (JList xs) = list_dicts xs" | "list_of_mappings _ = []"

definition jstrs :: "string list \<Rightarrow> json" where
  "jstrs xs = JList (map JStr xs)"

definition strs_only :: "json \<Rightarrow> bool" where
  "strs_only v = (case v of JList xs \<Rightarrow> list_all is_str xs | _ \<Rightarrow> False)"

lemma list_strings_map_JStr [simp]: "list_strings (map JStr xs) = xs"
  by (induction xs) auto

lemma string_items_jstrs [simp]: "string_items (jstrs xs) = xs"
  by (simp add: jstrs_def)

lemma set_list_strings: "s \<in> set (list_strings xs) \<longleftrightarrow> JStr s \<in> set xs"
  by (induction xs rule: list_strings.induct) auto

lemma set_list_dicts: "d \<in> set (list_dicts xs) \<longleftrightarrow> JObj d \<in> set xs"
  by (induction xs rule: list_dicts.induct) auto

lemma opt_mapping_Some [simp]: "opt_mapping v = Some d \<longleftrightarrow> v = JObj d"
  by (cases v) auto

lemma is_obj_iff: "is_obj v \<longleftrightarrow> (\<exists>d. v = JObj d)"
  by (cases v) auto

lemma is_str_iff: "is_str v \<longleftrightarrow> (\<exists>s. v = JStr s)"
  by (cases v) auto

lemma is_list_iff: "is_list v \<longleftrightarrow> (\<exists>xs. v = JList xs)"
  by (cases v) auto

lemma is_bool_iff: "is_bool v \<longleftrightarrow> (\<exists>b. v = JBool b)"
  by (cases v) auto

lemma nonempty_str_iff: "nonempty_str v \<longleftrightarrow> (\<exists>s. v = JStr s \<and> s \<noteq> [])"
  by (cases v) auto

lemma strs_only_jstrs [simp]: "strs_only (jstrs xs)"
  by (simp add: strs_only_def jstrs_def list_all_iff)

section \<open>Comparison and membership\<close>

fun py_num :: "json \<Rightarrow> rat option" where
  "py_num (JBool b) = Some (if b then 1 else 0)"
| "py_num (JInt i) = Some (of_int i)"
| "py_num (JFloat r t) = Some r"
| "py_num _ = None"

text \<open>\<open>x < n\<close> and \<open>x <= n\<close> against an integer literal.\<close>

definition py_lt :: "json \<Rightarrow> int \<Rightarrow> bool res" where
  "py_lt v n = (case py_num v of None \<Rightarrow> Inl TypeError | Some r \<Rightarrow> Inr (r < of_int n))"

definition py_le :: "json \<Rightarrow> int \<Rightarrow> bool res" where
  "py_le v n = (case py_num v of None \<Rightarrow> Inl TypeError | Some r \<Rightarrow> Inr (r \<le> of_int n))"

text \<open>\<open>==\<close>: numbers by value, lists element by element, dictionaries without regard to
  the order of their keys.\<close>

function py_eq :: "json \<Rightarrow> json \<Rightarrow> bool" where
  "py_eq v w =
     (case (py_num v, py_num w) of
        (Some a, Some b) \<Rightarrow> a = b
      | _ \<Rightarrow>
        (case v of
           JNull \<Rightarrow> w = JNull
         | JStr s \<Rightarrow> w = JStr s
         | JList xs \<Rightarrow>
             (case w of
                JList ys \<Rightarrow> length xs = length ys \<and> list_all (\<lambda>(x, y). py_eq x y) (zip xs ys)
              | _ \<Rightarrow> False)
         | JObj d \<Rightarrow>
             (case w of
                JObj e \<Rightarrow> length d = length e
                  \<and> list_all (\<lambda>(k, x). case map_of e k of None \<Rightarrow> False | Some y \<Rightarrow> py_eq x y) d
              | _ \<Rightarrow> False)
         | _ \<Rightarrow> False))"
  by pat_completeness auto
termination
  by (relation "measure (\<lambda>(v, w). size v)")
    (auto dest!: set_zip_leftD simp: size_json_dict size_list_mem)

declare py_eq.simps [simp del]

definition py_ne :: "json \<Rightarrow> json \<Rightarrow> bool" where
  "py_ne v w \<longleftrightarrow> \<not> py_eq v w"

fun hashable :: "json \<Rightarrow> bool" where
  "hashable (JList _) = False" | "hashable (JObj _) = False" | "hashable _ = True"

text \<open>\<open>x in {...}\<close> for a set of strings, and for a set of values.\<close>

definition in_strs :: "json \<Rightarrow> string list \<Rightarrow> bool res" where
  "in_strs v S = (if hashable v then Inr (case v of JStr s \<Rightarrow> s \<in> set S | _ \<Rightarrow> False) else Inl TypeError)"

definition notin_strs :: "json \<Rightarrow> string list \<Rightarrow> bool res" where
  "notin_strs v S = res_not (in_strs v S)"

definition in_vals :: "json \<Rightarrow> json list \<Rightarrow> bool res" where
  "in_vals v S = (if hashable v then Inr (\<exists>w\<in>set S. py_eq v w) else Inl TypeError)"

definition notin_vals :: "json \<Rightarrow> json list \<Rightarrow> bool res" where
  "notin_vals v S = res_not (in_vals v S)"

lemma py_eq_str [simp]: "py_eq v (JStr s) \<longleftrightarrow> v = JStr s"
  by (cases v) (auto simp: py_eq.simps)

lemma py_eq_str' [simp]: "py_eq (JStr s) v \<longleftrightarrow> v = JStr s"
  by (cases v) (auto simp: py_eq.simps)

lemma py_eq_null [simp]: "py_eq v JNull \<longleftrightarrow> v = JNull"
  by (cases v) (simp_all add: py_eq.simps)

lemma py_eq_null' [simp]: "py_eq JNull v \<longleftrightarrow> v = JNull"
  by (cases v) (simp_all add: py_eq.simps)

lemma in_strs_True [simp]: "in_strs v S = Inr True \<longleftrightarrow> (\<exists>s\<in>set S. v = JStr s)"
  by (cases v) (auto simp: in_strs_def)

lemma in_strs_False: "in_strs v S = Inr False \<longleftrightarrow> hashable v \<and> (\<forall>s\<in>set S. v \<noteq> JStr s)"
  by (cases v) (auto simp: in_strs_def)

lemma notin_strs_False [simp]: "notin_strs v S = Inr False \<longleftrightarrow> (\<exists>s\<in>set S. v = JStr s)"
  by (cases v) (auto simp: in_strs_def notin_strs_def)

lemma returns_in_strs [simp]: "returns (in_strs v S) \<longleftrightarrow> hashable v"
  by (simp add: in_strs_def)

lemma returns_notin_strs [simp]: "returns (notin_strs v S) \<longleftrightarrow> hashable v"
  by (simp add: notin_strs_def)

lemma returns_in_vals [simp]: "returns (in_vals v S) \<longleftrightarrow> hashable v"
  by (simp add: in_vals_def)

lemma returns_notin_vals [simp]: "returns (notin_vals v S) \<longleftrightarrow> hashable v"
  by (simp add: notin_vals_def)

lemma py_eq_list:
  "py_eq (JList xs) (JList ys) \<longleftrightarrow> list_all2 py_eq xs ys"
  by (simp add: py_eq.simps [of "JList xs"] list_all2_iff list_all_iff)

lemma py_eq_list_right: "py_eq v (JList ys) \<longleftrightarrow> (\<exists>xs. v = JList xs \<and> list_all2 py_eq xs ys)"
  by (cases v) (simp_all add: py_eq_list, simp_all add: py_eq.simps)

lemma py_eq_obj:
  "py_eq (JObj d) (JObj e) \<longleftrightarrow> length d = length e
     \<and> (\<forall>(k, x)\<in>set d. \<exists>y. map_of e k = Some y \<and> py_eq x y)"
  by (subst py_eq.simps) (auto simp: list_all_iff split: option.splits)

lemma py_eq_strs: "list_all2 py_eq xs (map JStr ys) \<longleftrightarrow> xs = map JStr ys"
  by (induction ys arbitrary: xs) (auto simp: list_all2_Cons2)

text \<open>Well-formed values: no dictionary repeats a key.\<close>

fun json_wf :: "json \<Rightarrow> bool" where
  "json_wf (JList xs) = list_all json_wf xs"
| "json_wf (JObj d) = (distinct (map fst d) \<and> list_all (\<lambda>(k, v). json_wf v) d)"
| "json_wf _ = True"

lemma py_eq_refl: "json_wf v \<Longrightarrow> py_eq v v"
proof (induction v rule: json_wf.induct)
  case (1 xs)
  then show ?case
    by (auto simp: py_eq_list list_all_iff list_all2_same)
next
  case (2 d)
  have "map_of d k = Some v \<and> py_eq v v" if "(k, v) \<in> set d" for k v
    using that 2 by (auto simp: list_all_iff)
  then show ?case by (auto simp: py_eq_obj)
qed (simp_all add: py_eq.simps)

end
