(* ===== verification/Sha256.thy ===== *)
theory Sha256
  imports Py_Text "HOL-Library.Word"
begin

unbundle bit_operations_syntax

text \<open>
  \<open>hashlib.sha256(data).hexdigest()\<close>: the hash behind every fingerprint of the program.
  The definition follows FIPS 180-4 on 32-bit words, whose \<open>+\<close> wraps around, so the
  fingerprints of the model are computed values and not an assumed function.  The lemmas
  show what the code relies on: the digest is always 64 lower-case hexadecimal digits.
\<close>

section \<open>The compression function\<close>

type_synonym w32 = "32 word"

definition rotr :: "nat \<Rightarrow> w32 \<Rightarrow> w32" where
  "rotr n x = drop_bit n x OR push_bit (32 - n) x"

definition round_constants :: "w32 list" where
  "round_constants =
    [1116352408, 1899447441, 3049323471, 3921009573, 961987163, 1508970993, 2453635748,
     2870763221, 3624381080, 310598401, 607225278, 1426881987, 1925078388, 2162078206,
     2614888103, 3248222580, 3835390401, 4022224774, 264347078, 604807628, 770255983,
     1249150122, 1555081692, 1996064986, 2554220882, 2821834349, 2952996808, 3210313671,
     3336571891, 3584528711, 113926993, 338241895, 666307205, 773529912, 1294757372,
     1396182291, 1695183700, 1986661051, 2177026350, 2456956037, 2730485921, 2820302411,
     3259730800, 3345764771, 3516065817, 3600352804, 4094571909, 275423344, 430227734,
     506948616, 659060556, 883997877, 958139571, 1322822218, 1537002063, 1747873779,
     1955562222, 2024104815, 2227730452, 2361852424, 2428436474, 2756734187, 3204031479,
     3329325298]"

definition initial_hash :: "w32 list" where
  "initial_hash =
    [1779033703, 3144134277, 1013904242, 2773480762, 1359893119, 2600822924, 528734635,
     1541459225]"

text \<open>The message schedule, built from its last sixteen words, newest first.\<close>

definition next_schedule :: "w32 list \<Rightarrow> w32" where
  "next_schedule ws =
     (let a = ws ! 14; b = ws ! 1
      in (rotr 17 b XOR rotr 19 b XOR drop_bit 10 b) + ws ! 6
         + (rotr 7 a XOR rotr 18 a XOR drop_bit 3 a) + ws ! 15)"

fun extend_schedule :: "nat \<Rightarrow> w32 list \<Rightarrow> w32 list" where
  "extend_schedule 0 ws = ws"
| "extend_schedule (Suc n) ws = extend_schedule n (next_schedule ws # ws)"

definition schedule :: "w32 list \<Rightarrow> w32 list" where
  "schedule block = rev (extend_schedule 48 (rev block))"

fun sha_round :: "w32 list \<Rightarrow> w32 \<times> w32 \<Rightarrow> w32 list" where
  "sha_round [a, b, c, d, e, f, g, h] (k, w) =
     (let s1 = rotr 6 e XOR rotr 11 e XOR rotr 25 e;
          ch = (e AND f) XOR (NOT e AND g);
          t1 = h + s1 + ch + k + w;
          s0 = rotr 2 a XOR rotr 13 a XOR rotr 22 a;
          maj = (a AND b) XOR (a AND c) XOR (b AND c);
          t2 = s0 + maj
      in [t1 + t2, a, b, c, d + t1, e, f, g])"
| "sha_round st kw = st"

definition compress :: "w32 list \<Rightarrow> w32 list \<Rightarrow> w32 list" where
  "compress st block =
     map2 (+) st (foldl sha_round st (zip round_constants (schedule block)))"

section \<open>Padding and blocks\<close>

definition be_bytes :: "nat \<Rightarrow> nat \<Rightarrow> nat list" where
  "be_bytes k n = map (\<lambda>i. n div 256 ^ (k - 1 - i) mod 256) [0..<k]"

definition pad_message :: "nat list \<Rightarrow> nat list" where
  "pad_message bytes =
     (let n = length bytes; zeros = (119 - n mod 64) mod 64
      in bytes @ [128] @ replicate zeros 0 @ be_bytes 8 (8 * n))"

fun pack_words :: "nat list \<Rightarrow> w32 list" where
  "pack_words (a # b # c # d # rest) =
     of_nat (((a * 256 + b) * 256 + c) * 256 + d) # pack_words rest"
| "pack_words _ = []"

function process_words :: "w32 list \<Rightarrow> w32 list \<Rightarrow> w32 list" where
  "process_words st ws =
     (if ws = [] then st else process_words (compress st (take 16 ws)) (drop 16 ws))"
  by pat_completeness auto
termination
  by (relation "measure (\<lambda>(st, ws). length ws)") auto

declare process_words.simps [simp del]

section \<open>The digest\<close>

definition hex_char :: "nat \<Rightarrow> char" where
  "hex_char d = (if d < 10 then char_of (48 + d) else char_of (87 + d))"

definition hex_byte :: "nat \<Rightarrow> string" where
  "hex_byte b = [hex_char (b div 16), hex_char (b mod 16)]"

definition sha256_words :: "nat list \<Rightarrow> w32 list" where
  "sha256_words bytes = process_words initial_hash (pack_words (pad_message bytes))"

definition sha256_hexdigest :: "string \<Rightarrow> string" where
  "sha256_hexdigest s =
     concat (map (\<lambda>w. concat (map hex_byte (be_bytes 4 (unat w)))) (sha256_words (map code s)))"

section \<open>Shape of the digest\<close>

lemma length_pad_message: "length (pad_message bytes) mod 64 = 0"
proof -
  let ?r = "length bytes mod 64"
  have r: "?r < 64" by simp
  have "(?r + 9 + (119 - ?r) mod 64) mod 64 = 0"
  proof (cases "?r \<le> 55")
    case True
    then have "(119 - ?r) mod 64 = 55 - ?r" by (simp add: le_mod_geq)
    with True show ?thesis by simp
  next
    case False
    then have "(119 - ?r) mod 64 = 119 - ?r" by simp
    with r show ?thesis by simp
  qed
  moreover have "length (pad_message bytes) = length bytes + 9 + (119 - ?r) mod 64"
    by (simp add: pad_message_def be_bytes_def Let_def)
  ultimately show ?thesis by (metis mod_add_left_eq)
qed

lemma length_sha_round: "length st = 8 \<Longrightarrow> length (sha_round st kw) = 8"
  by (cases "(st, kw)" rule: sha_round.cases) (auto simp: Let_def)

lemma length_rounds: "length st = 8 \<Longrightarrow> length (foldl sha_round st kws) = 8"
  by (induction kws arbitrary: st) (simp_all add: length_sha_round)

lemma length_compress: "length st = 8 \<Longrightarrow> length (compress st b) = 8"
  by (simp add: compress_def length_rounds)

lemma length_process_words: "length st = 8 \<Longrightarrow> length (process_words st ws) = 8"
proof (induction st ws rule: process_words.induct)
  case (1 st ws)
  then show ?case
    by (subst process_words.simps) (simp add: length_compress)
qed

lemma length_sha256_words: "length (sha256_words bytes) = 8"
  by (simp add: sha256_words_def length_process_words initial_hash_def)

lemma is_hex_hex_char: "d < 16 \<Longrightarrow> is_hex_lower (hex_char d)"
  by (auto simp: hex_char_def is_hex_lower_def is_digit_def in_range_def code_def)

lemma hex_byte_hex: "b < 256 \<Longrightarrow> c \<in> set (hex_byte b) \<Longrightarrow> is_hex_lower c"
  by (auto simp: hex_byte_def intro!: is_hex_hex_char)

lemma sha256_hexdigest_hex: "c \<in> set (sha256_hexdigest s) \<Longrightarrow> is_hex_lower c"
  unfolding sha256_hexdigest_def be_bytes_def
  by (auto intro: hex_byte_hex [rotated])

lemma length_concat_const: "(\<And>x. x \<in> set xs \<Longrightarrow> length (f x) = n) \<Longrightarrow> length (concat (map f xs)) = n * length xs"
  by (induction xs) auto

lemma length_sha256_hexdigest: "length (sha256_hexdigest s) = 64"
proof -
  have byte: "length (concat (map hex_byte (be_bytes 4 n))) = 8" for n
    by (subst length_concat_const [where n = 2]) (simp_all add: hex_byte_def be_bytes_def)
  then show ?thesis
    unfolding sha256_hexdigest_def
    by (subst length_concat_const [where n = 8]) (simp_all add: length_sha256_words)
qed

text \<open>The text \<open>"sha256:" + hexdigest\<close> has the shape that the validators ask of a
  fingerprint.\<close>

definition sha256_label :: "string \<Rightarrow> string" where
  "sha256_label s = ''sha256:'' @ sha256_hexdigest s"

lemma sha256_label_rx: "rx_fullmatch sha256_rx (sha256_label s)"
proof -
  have "rx_lang (rx_times 64 (Cls is_hex_lower)) (sha256_hexdigest s)"
    by (simp add: rx_lang_times_cls length_sha256_hexdigest sha256_hexdigest_hex)
  moreover have "rx_lang (lit ''sha256:'') ''sha256:''" by (simp only: rx_lang_lit)
  ultimately show ?thesis
    unfolding rx_fullmatch_lang sha256_rx_def sha256_label_def by (rule lang_cat [rotated])
qed

end
