(* ===== verification/Py_Dumps.thy ===== *)
theory Py_Dumps
  imports Py_Json Sha256 "HOL-Library.Multiset"
begin

text \<open>
  Text renderings of values: \<open>str(x)\<close> and \<open>repr(x)\<close>, and the canonical JSON text
  \<open>json.dumps(x, sort_keys=True, separators=(",", ":"), ensure_ascii=True)\<close> whose SHA-256
  is the program's fingerprint.  The canonical text does not depend on the order in which
  the keys of a dictionary were inserted.
\<close>

section \<open>repr and str\<close>

definition hex_escape :: "char \<Rightarrow> string" where
  "hex_escape c = hex_byte (code c)"

definition repr_char :: "char \<Rightarrow> char \<Rightarrow> string" where
  "repr_char q c =
     (if c = CHR 92 \<or> c = q then [CHR 92, c]
      else if code c = 10 then [CHR 92, CHR ''n'']
      else if code c = 13 then [CHR 92, CHR ''r'']
      else if code c = 9 then [CHR 92, CHR ''t'']
      else if code c < 32 \<or> in_range 127 160 c \<or> code c = 173 then [CHR 92, CHR ''x''] @ hex_escape c
      else [c])"

definition repr_str :: "string \<Rightarrow> string" where
  "repr_str s =
     (let q = (if CHR 39 \<in> set s \<and> CHR 34 \<notin> set s then CHR 34 else CHR 39)
      in [q] @ concat (map (repr_char q) s) @ [q])"

function py_repr :: "json \<Rightarrow> string" where
  "py_repr JNull = ''None''"
| "py_repr (JBool b) = (if b then ''True'' else ''False'')"
| "py_repr (JInt i) = int_text i"
| "py_repr (JFloat r t) = t"
| "py_repr (JStr s) = repr_str s"
| "py_repr (JList xs) = ''['' @ py_join '', '' (map py_repr xs) @ '']''"
| "py_repr (JObj d) =
     ''{'' @ py_join '', '' (map (\<lambda>(k, v). repr_str k @ '': '' @ py_repr v) d) @ ''}''"
  by pat_completeness auto
termination
  by (relation "measure size") (auto simp: size_list_mem size_json_dict)

fun py_str :: "json \<Rightarrow> string" where
  "py_str (JStr s) = s"
| "py_str v = py_repr v"

section \<open>Canonical JSON text\<close>

definition dumps_char :: "char \<Rightarrow> string" where
  "dumps_char c =
     (if c = CHR 34 then [CHR 92, CHR 34]
      else if c = CHR 92 then [CHR 92, CHR 92]
      else if code c = 10 then [CHR 92, CHR ''n'']
      else if code c = 13 then [CHR 92, CHR ''r'']
      else if code c = 9 then [CHR 92, CHR ''t'']
      else if code c = 12 then [CHR 92, CHR ''f'']
      else if code c = 8 then [CHR 92, CHR ''b'']
      else if code c < 32 \<or> 126 < code c then [CHR 92] @ ''u00'' @ hex_byte (code c)
      else [c])"

definition dumps_str :: "string \<Rightarrow> string" where
  "dumps_str s = [CHR 34] @ concat (map dumps_char s) @ [CHR 34]"

function dumps :: "json \<Rightarrow> string" where
  "dumps JNull = ''null''"
| "dumps (JBool b) = (if b then ''true'' else ''false'')"
| "dumps (JInt i) = int_text i"
| "dumps (JFloat r t) = t"
| "dumps (JStr s) = dumps_str s"
| "dumps (JList xs) = ''['' @ py_join '','' (map dumps xs) @ '']''"
| "dumps (JObj d) =
     ''{'' @ py_join '','' (map (\<lambda>(k, v). dumps_str k @ '':'' @ dumps v) (sort_key fst d)) @ ''}''"
  by pat_completeness auto
termination
  by (relation "measure size") (auto simp: size_list_mem size_json_dict)

lemma sort_key_mset_eq:
  assumes "mset d = mset e" and "distinct (map fst d)"
  shows "sort_key fst d = sort_key fst (e :: (string \<times> 'a) list)"
proof (rule map_sorted_distinct_set_unique [where f = fst])
  have e: "distinct (map fst e)"
    using assms by (metis mset_eq_imp_distinct_iff mset_map)
  have sets: "set d = set e" using assms(1) by (rule mset_eq_setD)
  show "inj_on fst (set (sort_key fst d) \<union> set (sort_key fst e))"
    using assms(2) sets by (simp add: distinct_map)
  have perm: "distinct (map fst (sort_key fst xs)) = distinct (map fst xs)"
    for xs :: "(string \<times> 'a) list"
    by (rule mset_eq_imp_distinct_iff) simp
  show "distinct (map fst (sort_key fst d))" "distinct (map fst (sort_key fst e))"
    using assms(2) e by (simp_all only: perm)
  show "set (sort_key fst d) = set (sort_key fst e)" using sets by simp
qed simp_all

text \<open>Two insertion orders of one dictionary have the same canonical text.\<close>

lemma dumps_perm:
  assumes "mset d = mset e" and "distinct (map fst d)"
  shows "dumps (JObj d) = dumps (JObj e)"
  by (simp add: sort_key_mset_eq [OF assms])

section \<open>Fingerprints\<close>

definition canonical_fingerprint :: "json \<Rightarrow> string" where
  "canonical_fingerprint v = sha256_label (dumps v)"

lemma canonical_fingerprint_rx [simp]: "rx_fullmatch sha256_rx (canonical_fingerprint v)"
  by (simp add: canonical_fingerprint_def sha256_label_rx)

section \<open>Strings anywhere in a value\<close>

text \<open>\<open>_iter_strings\<close>: the string values of a value, keys not included, in order;
  \<open>any_string p\<close> is the recursive search the validators use.\<close>

function json_strings :: "json \<Rightarrow> string list" where
  "json_strings (JStr s) = [s]"
| "json_strings (JObj d) = concat (map (\<lambda>(k, v). json_strings v) d)"
| "json_strings (JList xs) = concat (map json_strings xs)"
| "json_strings JNull = []"
| "json_strings (JBool b) = []"
| "json_strings (JInt i) = []"
| "json_strings (JFloat r t) = []"
  by pat_completeness auto
termination
  by (relation "measure size") (auto simp: size_list_mem size_json_dict)

function any_string :: "(string \<Rightarrow> bool) \<Rightarrow> json \<Rightarrow> bool" where
  "any_string p (JStr s) = p s"
| "any_string p (JObj d) = list_ex (\<lambda>(k, v). any_string p v) d"
| "any_string p (JList xs) = list_ex (any_string p) xs"
| "any_string p JNull = False"
| "any_string p (JBool b) = False"
| "any_string p (JInt i) = False"
| "any_string p (JFloat r t) = False"
  by pat_completeness auto
termination
  by (relation "measure (\<lambda>(p, v). size v)") (auto simp: size_list_mem size_json_dict)

lemma any_string_iff: "any_string p v \<longleftrightarrow> (\<exists>s\<in>set (json_strings v). p s)"
  by (induction p v rule: any_string.induct) (fastforce simp: list_ex_iff)+

text \<open>A string value that sits under some path of a dictionary is found.\<close>

lemma any_string_dget:
  "dget d k = v \<Longrightarrow> v \<noteq> JNull \<Longrightarrow> any_string p v \<Longrightarrow> any_string p (JObj d)"
  by (auto simp: dget_or_def list_ex_iff split: option.splits dest: map_of_SomeD)

definition contains_raw_host_path :: "json \<Rightarrow> bool" where
  "contains_raw_host_path = any_string raw_host_path"

end
