(* ===== verification/Evidence_Check.thy ===== *)
theory Evidence_Check
  imports Py_Dumps
begin

text \<open>
  \<open>evidence/validation.py\<close> and \<open>evidence/models.py\<close>: the static validator of one evidence
  item.  The validator appends to an error list statement by statement; the model keeps the
  statements in the source's order, one group per section of the item, and marks the
  conditions that raise \<open>TypeError\<close> on values they do not expect.
\<close>

section \<open>Vocabulary\<close>

definition evidence_top_level_fields :: "string list" where
  "evidence_top_level_fields =
     [''evidence_id'', ''schema_version'', ''evidence_kind'', ''source'', ''subject'',
      ''classification'', ''finding'', ''raw_handling'', ''trust'', ''effects'', ''residual_risks'']"

definition evidence_source_fields :: "string list" where
  "evidence_source_fields =
     [''tool_name'', ''tool_version'', ''adapter_name'', ''adapter_version'', ''execution_mode'']"

definition evidence_legacy_subject_fields :: "string list" where
  "evidence_legacy_subject_fields =
     [''repo_identity'', ''commit'', ''tree_hash'', ''path_scope'', ''binding_kind'']"

definition evidence_subject_fields :: "string list" where
  "evidence_subject_fields = evidence_legacy_subject_fields @ [''snapshot_id'', ''manifest_fingerprint'']"

definition classification_fields :: "string list" where
  "classification_fields =
     [''category'', ''subcategory'', ''severity'', ''confidence'', ''confidence_reason'']"

definition finding_fields :: "string list" where
  "finding_fields = [''present'', ''count'', ''locations'', ''redacted_summary'']"

definition raw_handling_fields :: "string list" where
  "raw_handling_fields =
     [''raw_output_retained'', ''raw_stdout_retained'', ''raw_stderr_retained'',
      ''redaction_status'', ''redaction_failures'']"

definition trust_fields :: "string list" where
  "trust_fields = [''level'', ''commit_bound'', ''signature_verified'', ''binary_attested'', ''limitations'']"

definition effects_fields :: "string list" where
  "effects_fields = [''can_lower_risk'', ''can_authorize_execution'', ''recommended_gate_effect'']"

definition execution_modes :: "string list" where
  "execution_modes =
     [''native_static'', ''imported_report'', ''local_no_network'', ''docker_isolated'',
      ''sandbox_observer'', ''synthetic_fixture'']"

definition trust_levels :: "string list" where
  "trust_levels =
     [''untrusted_import'', ''schema_validated'', ''redaction_validated'', ''commit_bound'',
      ''policy_bound'', ''docker_isolated_reproduced'', ''attested_binary_reproduced'']"

definition low_trust_levels :: "string list" where
  "low_trust_levels = [''untrusted_import'', ''schema_validated'']"

definition evidence_categories :: "string list" where
  "evidence_categories =
     [''secret'', ''known_vulnerability'', ''sbom'', ''ci_cd'', ''runtime_behavior'',
      ''repo_posture'', ''sandbox_observation'', ''external_scanner'', ''approval'', ''limitation'']"

definition evidence_severities :: "string list" where
  "evidence_severities = [''info'', ''warn'', ''block'', ''unknown'']"

definition evidence_confidences :: "string list" where
  "evidence_confidences = [''low'', ''medium'', ''high'', ''unknown'']"

definition recommended_gate_effects :: "string list" where
  "recommended_gate_effects =
     [''evidence_only'', ''requires_human_review'', ''allow_limited'', ''warn'', ''quarantine'', ''block'']"

definition evidence_binding_kinds :: "string list" where
  "evidence_binding_kinds =
     [''unbound'', ''path_bound'', ''commit_bound'', ''tree_bound'', ''snapshot_bound'', ''synthetic'']"

record evidence_result =
  ev_valid :: bool
  ev_blocking_errors :: "string list"
  ev_warnings :: "string list"
  ev_limitations :: "string list"
  ev_residual_risks :: "string list"

definition evidence_result_to_dict :: "evidence_result \<Rightarrow> dict" where
  "evidence_result_to_dict r =
     [(''valid'', JBool (ev_valid r)),
      (''blocking_errors'', jstrs (ev_blocking_errors r)),
      (''warnings'', jstrs (ev_warnings r)),
      (''limitations'', jstrs (ev_limitations r)),
      (''residual_risks'', jstrs (ev_residual_risks r))]"

section \<open>Helpers of the validators\<close>

text \<open>\<open>_mapping(value, fs, name, errors)\<close>: what it appends; what it returns is
  \<open>opt_mapping value\<close>.\<close>

definition mapping_errors :: "json \<Rightarrow> string list \<Rightarrow> string \<Rightarrow> string list res" where
  "mapping_errors value fs name =
     (case value of
        JObj d \<Rightarrow> fail_if (\<not> keys_eq d fs) (name @ ''_required_or_unknown_field'')
      | _ \<Rightarrow> Inr [name @ ''_must_be_object''])"

definition require_strings :: "dict \<Rightarrow> string list \<Rightarrow> string \<Rightarrow> string list res list" where
  "require_strings d fs pre =
     map (\<lambda>f. fail_if (\<not> nonempty_str (dget d f)) (pre @ ''_'' @ f @ ''_required'')) fs"

fun is_fingerprint :: "json \<Rightarrow> bool" where
  "is_fingerprint (JStr s) = fingerprint_text s" | "is_fingerprint _ = False"

text \<open>The statements guarded by \<open>if section is not None\<close>.\<close>

definition when_some :: "'a option \<Rightarrow> ('a \<Rightarrow> 'b list) \<Rightarrow> 'b list" where
  "when_some x f = (case x of None \<Rightarrow> [] | Some y \<Rightarrow> f y)"

lemma when_some_simps [simp]:
  "when_some None f = []" "when_some (Some x) f = f x"
  by (simp_all add: when_some_def)

lemma mapping_errors_Nil [simp]:
  "mapping_errors v fs name = Inr [] \<longleftrightarrow> (\<exists>d. v = JObj d \<and> keys_eq d fs)"
  by (cases v) (auto simp: mapping_errors_def)

lemma returns_mapping_errors [simp]: "returns (mapping_errors v fs name)"
  by (cases v) (auto simp: mapping_errors_def)

lemma returns_require_strings: "c \<in> set (require_strings d fs pre) \<Longrightarrow> returns c"
  by (auto simp: require_strings_def)

lemma require_strings_Nil:
  "(\<forall>c\<in>set (require_strings d fs pre). c = Inr []) \<longleftrightarrow> (\<forall>f\<in>set fs. nonempty_str (dget d f))"
  by (auto simp: require_strings_def)

text \<open>The character test of \<open>_is_fingerprint\<close> is the pattern \<open>sha256:[0-9a-f]{64}\<close>.\<close>

lemma hex_digit_set: "c \<in> set ''0123456789abcdef'' \<longleftrightarrow> is_hex_lower c"
proof -
  have eq: "c = d \<longleftrightarrow> code c = code d" for d by (simp add: code_def)
  show ?thesis
    unfolding is_hex_lower_def is_digit_def in_range_def
    by (auto simp: eq) (simp_all add: code_def, arith)
qed

lemma fingerprint_text_rx: "fingerprint_text s \<longleftrightarrow> rx_fullmatch sha256_rx s"
proof -
  have "rx_fullmatch sha256_rx s \<longleftrightarrow>
    (\<exists>t. s = ''sha256:'' @ t \<and> length t = 64 \<and> (\<forall>c\<in>set t. is_hex_lower c))"
    by (auto simp: rx_fullmatch_lang sha256_rx_def rx_lang_Cat rx_lang_times_cls
        simp del: lit.simps)
  also have "\<dots> \<longleftrightarrow> fingerprint_text s"
    unfolding fingerprint_text_def starts_with_def list_all_iff hex_digit_set
    by (auto simp: prefix_def)
  finally show ?thesis by simp
qed

lemma is_fingerprint_iff: "is_fingerprint v \<longleftrightarrow> (\<exists>s. v = JStr s \<and> rx_fullmatch sha256_rx s)"
  by (cases v) (auto simp: fingerprint_text_rx)

lemma is_fingerprint_canonical [simp]: "is_fingerprint (JStr (canonical_fingerprint v))"
  by (simp add: is_fingerprint_iff)

section \<open>validate_evidence\<close>

definition evidence_top_checks :: "dict \<Rightarrow> string list res list" where
  "evidence_top_checks data =
     [fail_if (\<not> keys_eq data evidence_top_level_fields) ''evidence_top_level_required_or_unknown_field'',
      fail_if (dget data ''schema_version'' \<noteq> JStr ''0.1-draft'') ''evidence_schema_version_unsupported'',
      fail_if (dget data ''evidence_kind'' \<noteq> JStr ''repo_health_evidence'') ''evidence_kind_unsupported'',
      fail_if (\<not> nonempty_str (dget data ''evidence_id'')) ''evidence_id_required'']"

definition evidence_section_checks :: "dict \<Rightarrow> string list res list" where
  "evidence_section_checks data =
     [mapping_errors (dget data ''source'') evidence_source_fields ''source'',
      (case dget data ''subject'' of
         JObj subject \<Rightarrow>
           fail_if (\<not> keys_eq subject evidence_legacy_subject_fields
                    \<and> \<not> keys_eq subject evidence_subject_fields) ''subject_required_or_unknown_field''
       | _ \<Rightarrow> Inr [''subject_must_be_object'']),
      mapping_errors (dget data ''classification'') classification_fields ''classification'',
      mapping_errors (dget data ''finding'') finding_fields ''finding'',
      mapping_errors (dget data ''raw_handling'') raw_handling_fields ''raw_handling'',
      mapping_errors (dget data ''trust'') trust_fields ''trust'',
      mapping_errors (dget data ''effects'') effects_fields ''effects'']"

definition evidence_source_checks :: "dict \<Rightarrow> string list res list" where
  "evidence_source_checks source =
     fail_ifM (notin_strs (dget source ''execution_mode'') execution_modes) ''source_execution_mode_invalid''
     # require_strings source [''tool_name'', ''tool_version'', ''adapter_name'', ''adapter_version''] ''source''"

definition evidence_subject_checks :: "dict \<Rightarrow> string list res list" where
  "evidence_subject_checks subject =
     [fail_ifM (notin_strs (dget subject ''binding_kind'') evidence_binding_kinds)
        ''subject_binding_kind_invalid'',
      fail_if (\<not> is_list (dget subject ''path_scope'')) ''subject_path_scope_must_be_array'',
      fail_if (\<not> nonempty_str (dget subject ''repo_identity'')) ''subject_repo_identity_required'']
     @ (if dget subject ''binding_kind'' = JStr ''snapshot_bound''
        then [fail_if (\<not> is_fingerprint (dget subject ''snapshot_id'')) ''subject_snapshot_id_invalid'',
              fail_if (\<not> is_fingerprint (dget subject ''manifest_fingerprint''))
                ''subject_manifest_fingerprint_invalid'']
        else [])"

definition evidence_classification_checks :: "dict \<Rightarrow> string list res list" where
  "evidence_classification_checks c =
     [fail_ifM (notin_strs (dget c ''category'') evidence_categories) ''classification_category_invalid'',
      fail_ifM (notin_strs (dget c ''severity'') evidence_severities) ''classification_severity_invalid'',
      fail_ifM (notin_strs (dget c ''confidence'') evidence_confidences) ''classification_confidence_invalid'']
     @ require_strings c [''subcategory'', ''confidence_reason''] ''classification''"

definition evidence_finding_checks :: "dict \<Rightarrow> string list res list" where
  "evidence_finding_checks finding =
     (let present = dget finding ''present''; count = dget finding ''count'' in
      [fail_if (\<not> is_bool present) ''finding_present_must_be_boolean'',
       fail_ifM (res_or (Inr (\<not> is_int count)) (py_lt count 0)) ''finding_count_invalid'',
       fail_if (is_false present \<and> py_ne count (JInt 0)) ''finding_absent_count_must_be_zero'',
       fail_ifM (res_and (Inr (is_true present)) (py_le count 0)) ''finding_present_count_must_be_positive'',
       fail_if (\<not> is_list (dget finding ''locations'')) ''finding_locations_must_be_array'',
       fail_if (\<not> is_str (dget finding ''redacted_summary'')) ''finding_redacted_summary_must_be_string''])"

definition retained_check :: "dict \<Rightarrow> string \<Rightarrow> string list res" where
  "retained_check raw_handling field =
     (if is_true (dget raw_handling field) then Inr [field @ ''_must_be_false'']
      else fail_if (\<not> is_false (dget raw_handling field)) (field @ ''_must_be_boolean_false''))"

definition evidence_raw_handling_checks :: "dict \<Rightarrow> string list res list" where
  "evidence_raw_handling_checks raw_handling =
     map (retained_check raw_handling) [''raw_output_retained'', ''raw_stdout_retained'', ''raw_stderr_retained'']
     @ [fail_if (dget raw_handling ''redaction_status'' = JStr ''failed'') ''redaction_status_failed'',
        fail_if (\<not> is_list (dget raw_handling ''redaction_failures'')) ''redaction_failures_must_be_array'']"

definition evidence_trust_checks :: "dict \<Rightarrow> string list res list" where
  "evidence_trust_checks trust =
     fail_ifM (notin_strs (dget trust ''level'') trust_levels) ''trust_level_invalid''
     # map (\<lambda>f. fail_if (\<not> is_bool (dget trust f)) (''trust_'' @ f @ ''_must_be_boolean''))
         [''commit_bound'', ''signature_verified'', ''binary_attested'']
     @ [fail_if (string_items (dget trust ''limitations'') = []) ''limitations_empty'']"

definition evidence_effects_checks :: "dict option \<Rightarrow> dict option \<Rightarrow> dict \<Rightarrow> string list res list" where
  "evidence_effects_checks finding trust effects =
     (let no_finding = (case finding of None \<Rightarrow> False | Some f \<Rightarrow> is_false (dget f ''present''));
          low_trust = (case trust of None \<Rightarrow> Inr False
                       | Some t \<Rightarrow> in_strs (dget t ''level'') low_trust_levels);
          lowers = is_true (dget effects ''can_lower_risk'') in
      [fail_if (\<not> is_false (dget effects ''can_authorize_execution''))
         ''effects_can_authorize_execution_must_be_false'',
       fail_if (\<not> is_bool (dget effects ''can_lower_risk'')) ''effects_can_lower_risk_must_be_boolean'',
       fail_ifM (notin_strs (dget effects ''recommended_gate_effect'') recommended_gate_effects)
         ''effects_recommended_gate_effect_invalid'',
       fail_if (no_finding \<and> lowers) ''no_finding_cannot_lower_risk'',
       fail_ifM (res_and low_trust (Inr lowers)) ''low_trust_cannot_lower_risk''])"

definition evidence_checks :: "dict \<Rightarrow> string list res list" where
  "evidence_checks data =
     (let source = opt_mapping (dget data ''source'');
          subject = opt_mapping (dget data ''subject'');
          classification = opt_mapping (dget data ''classification'');
          finding = opt_mapping (dget data ''finding'');
          raw_handling = opt_mapping (dget data ''raw_handling'');
          trust = opt_mapping (dget data ''trust'');
          effects = opt_mapping (dget data ''effects'') in
      evidence_top_checks data
      @ evidence_section_checks data
      @ when_some source evidence_source_checks
      @ when_some subject evidence_subject_checks
      @ when_some classification evidence_classification_checks
      @ when_some finding evidence_finding_checks
      @ when_some raw_handling evidence_raw_handling_checks
      @ when_some trust evidence_trust_checks
      @ when_some effects (evidence_effects_checks finding trust)
      @ [fail_if (\<not> is_list (dget data ''residual_risks'')) ''residual_risks_must_be_array'',
         fail_if (contains_raw_host_path (JObj data)) ''raw_host_path_pattern_present''])"

definition evidence_warnings :: "dict \<Rightarrow> string list" where
  "evidence_warnings data =
     (let finding = mapping_or_empty (dget data ''finding'');
          subject = mapping_or_empty (dget data ''subject'');
          raw_handling = mapping_or_empty (dget data ''raw_handling'') in
      (if is_false (dget finding ''present'') then [''no_finding_is_not_safety_proof''] else [])
      @ (if dget subject ''binding_kind'' = JStr ''unbound'' then [''evidence_subject_unbound''] else [])
      @ (if dget raw_handling ''redaction_status'' = JStr ''unknown'' then [''redaction_status_unknown''] else []))"

definition evidence_limitations :: "dict \<Rightarrow> string list" where
  "evidence_limitations data =
     (case dget data ''trust'' of JObj t \<Rightarrow> string_items (dget t ''limitations'') | _ \<Rightarrow> [])"

definition validate_evidence :: "json \<Rightarrow> evidence_result res" where
  "validate_evidence value =
     (case value of
        JObj data \<Rightarrow>
          res_map (\<lambda>errors.
             \<lparr>ev_valid = (errors = []),
              ev_blocking_errors = dedupe errors,
              ev_warnings = dedupe (evidence_warnings data),
              ev_limitations = evidence_limitations data,
              ev_residual_risks = string_items (dget data ''residual_risks'')\<rparr>)
            (collect (evidence_checks data))
      | _ \<Rightarrow>
          Inr \<lparr>ev_valid = False,
               ev_blocking_errors = [''evidence_must_be_object''],
               ev_warnings = [],
               ev_limitations = [],
               ev_residual_risks = [''invalid_evidence_input'']\<rparr>)"

section \<open>What a valid item guarantees\<close>

text \<open>A section of an item, \<open>{}\<close> when it is not a mapping.\<close>

definition sect :: "dict \<Rightarrow> string \<Rightarrow> dict" where
  "sect data k = mapping_or_empty (dget data k)"

text \<open>The contract the gate relies on, stated on the item and not on the validator.\<close>

definition evidence_contract :: "dict \<Rightarrow> bool" where
  "evidence_contract data \<longleftrightarrow>
     dget (sect data ''effects'') ''can_authorize_execution'' = JBool False
     \<and> (\<forall>f\<in>{''raw_output_retained'', ''raw_stdout_retained'', ''raw_stderr_retained''}.
          dget (sect data ''raw_handling'') f = JBool False)
     \<and> dget (sect data ''raw_handling'') ''redaction_status'' \<noteq> JStr ''failed''
     \<and> (dget (sect data ''finding'') ''present'' = JBool False
        \<or> (\<exists>l\<in>set low_trust_levels. dget (sect data ''trust'') ''level'' = JStr l)
        \<longrightarrow> dget (sect data ''effects'') ''can_lower_risk'' = JBool False)
     \<and> (\<exists>b. dget (sect data ''finding'') ''present'' = JBool b
          \<and> (\<exists>n. py_num (dget (sect data ''finding'') ''count'') = Some n \<and> 0 \<le> n \<and> (b \<longleftrightarrow> 0 < n)))
     \<and> string_items (dget (sect data ''trust'') ''limitations'') \<noteq> []
     \<and> (dget (sect data ''subject'') ''binding_kind'' = JStr ''snapshot_bound'' \<longrightarrow>
          is_fingerprint (dget (sect data ''subject'') ''snapshot_id'')
          \<and> is_fingerprint (dget (sect data ''subject'') ''manifest_fingerprint''))
     \<and> \<not> (\<exists>s\<in>set (json_strings (JObj data)). raw_host_path s)"

lemma py_eq_zero: "py_eq v (JInt 0) \<longleftrightarrow> py_num v = Some 0"
  by (cases v) (simp_all add: py_eq.simps)

lemma py_num_int: "is_int v \<Longrightarrow> \<exists>n. py_num v = Some n"
  by (cases v) auto

lemma all_append_checks: "(\<forall>c\<in>set (as @ bs). P c) \<longleftrightarrow> (\<forall>c\<in>set as. P c) \<and> (\<forall>c\<in>set bs. P c)"
  by auto

text \<open>A valid item passed every statement.\<close>

lemma valid_evidence_checks:
  assumes "validate_evidence v = Inr r" and "ev_valid r"
  obtains data where "v = JObj data" and "\<forall>c\<in>set (evidence_checks data). c = Inr []"
    and "ev_limitations r = evidence_limitations data"
proof (cases v)
  case (JObj data)
  with assms have "collect (evidence_checks data) = Inr []"
    and "ev_limitations r = evidence_limitations data"
    by (auto simp: validate_evidence_def res_map_Inr_iff)
  with JObj that show thesis by (simp add: collect_Nil_iff)
qed (use assms in \<open>auto simp: validate_evidence_def\<close>)

text \<open>The sections of an item that passed are mappings.\<close>

lemma passed_sections:
  assumes "\<forall>c\<in>set (evidence_section_checks data). c = Inr []"
  obtains s su c f h t e where
    "dget data ''source'' = JObj s" "dget data ''subject'' = JObj su"
    "dget data ''classification'' = JObj c" "dget data ''finding'' = JObj f"
    "dget data ''raw_handling'' = JObj h" "dget data ''trust'' = JObj t"
    "dget data ''effects'' = JObj e"
proof -
  have "\<exists>su. dget data ''subject'' = JObj su"
    using assms by (cases "dget data ''subject''") (auto simp: evidence_section_checks_def)
  with assms that show thesis
    by (auto simp: evidence_section_checks_def)
qed

lemma passed_finding:
  assumes "\<forall>c\<in>set (evidence_finding_checks f). c = Inr []"
  shows "\<exists>b. dget f ''present'' = JBool b
    \<and> (\<exists>n. py_num (dget f ''count'') = Some n \<and> 0 \<le> n \<and> (b \<longleftrightarrow> 0 < n))"
proof -
  let ?p = "dget f ''present''" and ?c = "dget f ''count''"
  from assms have b: "is_bool ?p" and i: "res_or (Inr (\<not> is_int ?c)) (py_lt ?c 0) = Inr False"
    and absent: "\<not> (is_false ?p \<and> py_ne ?c (JInt 0))"
    and present: "res_and (Inr (is_true ?p)) (py_le ?c 0) = Inr False"
    by (simp_all add: evidence_finding_checks_def Let_def)
  from i have "is_int ?c" and ge: "py_lt ?c 0 = Inr False" by (auto simp: res_or_False_iff)
  then obtain n where n: "py_num ?c = Some n" using py_num_int by blast
  with ge have "0 \<le> n" by (simp add: py_lt_def)
  from b obtain x where x: "?p = JBool x" by (auto simp: is_bool_iff)
  have "x \<longleftrightarrow> 0 < n"
    using absent present n x \<open>0 \<le> n\<close>
    by (cases x) (auto simp: is_false_def is_true_def py_ne_def py_eq_zero py_le_def)
  with x n \<open>0 \<le> n\<close> show ?thesis by blast
qed

lemma passed_effects:
  assumes "\<forall>c\<in>set (evidence_effects_checks (Some f) (Some t) e). c = Inr []"
  shows "dget e ''can_authorize_execution'' = JBool False"
    and "dget f ''present'' = JBool False \<or> (\<exists>l\<in>set low_trust_levels. dget t ''level'' = JStr l)
         \<Longrightarrow> dget e ''can_lower_risk'' = JBool False"
proof -
  from assms show "dget e ''can_authorize_execution'' = JBool False"
    by (simp add: evidence_effects_checks_def Let_def is_false_def)
  let ?l = "dget e ''can_lower_risk''"
  from assms have "is_bool ?l" and nf: "\<not> (is_false (dget f ''present'') \<and> is_true ?l)"
    and lt: "res_and (in_strs (dget t ''level'') low_trust_levels) (Inr (is_true ?l)) = Inr False"
    by (simp_all add: evidence_effects_checks_def Let_def)
  then obtain x where x: "?l = JBool x" by (auto simp: is_bool_iff)
  assume "dget f ''present'' = JBool False \<or> (\<exists>l\<in>set low_trust_levels. dget t ''level'' = JStr l)"
  with nf lt x show "?l = JBool False"
    by (auto simp: is_false_def is_true_def in_strs_def res_and_False_iff)
qed

lemma passed_raw_handling:
  assumes "\<forall>c\<in>set (evidence_raw_handling_checks h). c = Inr []"
  shows "\<forall>k\<in>{''raw_output_retained'', ''raw_stdout_retained'', ''raw_stderr_retained''}. dget h k = JBool False"
    and "dget h ''redaction_status'' \<noteq> JStr ''failed''"
proof -
  have one: "retained_check h k = Inr [] \<Longrightarrow> dget h k = JBool False" for k
    by (simp add: retained_check_def is_false_def split: if_splits)
  from assms show "\<forall>k\<in>{''raw_output_retained'', ''raw_stdout_retained'', ''raw_stderr_retained''}. dget h k = JBool False"
    by (simp add: evidence_raw_handling_checks_def one)
  from assms show "dget h ''redaction_status'' \<noteq> JStr ''failed''"
    by (simp add: evidence_raw_handling_checks_def)
qed

section \<open>When the validator returns at all\<close>

text \<open>The values the validator tests for membership must be hashable, and the count of a
  finding that is marked present must be a number; otherwise it raises \<open>TypeError\<close>.\<close>

definition evidence_comparable :: "dict \<Rightarrow> bool" where
  "evidence_comparable data \<longleftrightarrow>
     hashable (dget (sect data ''source'') ''execution_mode'')
     \<and> hashable (dget (sect data ''subject'') ''binding_kind'')
     \<and> (\<forall>k\<in>{''category'', ''severity'', ''confidence''}. hashable (dget (sect data ''classification'') k))
     \<and> (dget (sect data ''finding'') ''present'' = JBool True
        \<longrightarrow> py_num (dget (sect data ''finding'') ''count'') \<noteq> None)
     \<and> hashable (dget (sect data ''trust'') ''level'')
     \<and> hashable (dget (sect data ''effects'') ''recommended_gate_effect'')"

lemma returns_py_le [simp]: "returns (py_le v n) \<longleftrightarrow> py_num v \<noteq> None"
  by (simp add: py_le_def split: option.splits)

lemma returns_py_lt [simp]: "returns (py_lt v n) \<longleftrightarrow> py_num v \<noteq> None"
  by (simp add: py_lt_def split: option.splits)

lemma returns_when_some:
  "(\<forall>c\<in>set (when_some (opt_mapping v) f). returns c) \<longleftrightarrow> (\<forall>d. v = JObj d \<longrightarrow> (\<forall>c\<in>set (f d). returns c))"
  by (cases v) auto

lemma returns_finding_checks:
  "(\<forall>c\<in>set (evidence_finding_checks f). returns c) \<longleftrightarrow>
     (dget f ''present'' = JBool True \<longrightarrow> py_num (dget f ''count'') \<noteq> None)"
proof -
  have "returns (res_or (Inr (\<not> is_int c)) (py_lt c 0))" for c
    using py_num_int [of c] by (cases "is_int c") auto
  moreover have "returns (res_and (Inr b) (py_le c 0)) \<longleftrightarrow> (b \<longrightarrow> py_num c \<noteq> None)" for b c
    by (cases b) auto
  ultimately show ?thesis
    by (simp add: evidence_finding_checks_def Let_def is_true_def)
qed

lemma returns_effects_checks:
  "(\<forall>c\<in>set (evidence_effects_checks f t e). returns c) \<longleftrightarrow>
     hashable (dget e ''recommended_gate_effect'')
     \<and> (\<forall>d. t = Some d \<longrightarrow> hashable (dget d ''level''))"
proof -
  have "returns (res_and m (Inr b)) \<longleftrightarrow> returns m" for m b by (cases m) (auto simp: res_and_def)
  then show ?thesis
    by (cases t) (auto simp: evidence_effects_checks_def Let_def)
qed

lemma evidence_checks_returns:
  "(\<forall>c\<in>set (evidence_checks data). returns c) \<longleftrightarrow> evidence_comparable data"
proof -
  have top: "\<forall>c\<in>set (evidence_top_checks data). returns c" by (simp add: evidence_top_checks_def)
  have sections: "\<forall>c\<in>set (evidence_section_checks data). returns c"
    by (simp add: evidence_section_checks_def split: json.splits)
  have source: "(\<forall>c\<in>set (evidence_source_checks s). returns c) \<longleftrightarrow> hashable (dget s ''execution_mode'')" for s
    using returns_require_strings by (auto simp: evidence_source_checks_def)
  have subject: "(\<forall>c\<in>set (evidence_subject_checks s). returns c) \<longleftrightarrow> hashable (dget s ''binding_kind'')" for s
    by (auto simp: evidence_subject_checks_def)
  have cls: "(\<forall>c\<in>set (evidence_classification_checks s). returns c) \<longleftrightarrow>
      (\<forall>k\<in>{''category'', ''severity'', ''confidence''}. hashable (dget s k))" for s
    using returns_require_strings by (auto simp: evidence_classification_checks_def)
  have raw: "\<forall>c\<in>set (evidence_raw_handling_checks s). returns c" for s
    by (auto simp: evidence_raw_handling_checks_def retained_check_def)
  have trust: "(\<forall>c\<in>set (evidence_trust_checks s). returns c) \<longleftrightarrow> hashable (dget s ''level'')" for s
    by (auto simp: evidence_trust_checks_def)
  have sect_iff: "(\<forall>d. dget data k = JObj d \<longrightarrow> P d) \<longleftrightarrow> P (sect data k)" if "P []" for k P
    using that by (cases "dget data k") (auto simp: sect_def)
  have effects: "(\<forall>d. dget data k = JObj d \<longrightarrow> hashable (dget d r) \<and> Q)
      \<longleftrightarrow> hashable (dget (sect data k) r) \<and> (is_obj (dget data k) \<longrightarrow> Q)" for k r Q
    by (cases "dget data k") (auto simp: sect_def)
  show ?thesis
    unfolding evidence_checks_def Let_def all_append_checks returns_when_some source subject cls
      trust returns_finding_checks returns_effects_checks
    by (auto simp: top sections raw sect_iff effects evidence_comparable_def)
qed

lemma validate_evidence_returns_iff:
  "returns (validate_evidence (JObj data)) \<longleftrightarrow> evidence_comparable data"
  by (simp add: validate_evidence_def collect_returns_iff evidence_checks_returns)

section \<open>Properties\<close>

text \<open>An item that passes: a finding of a native check, bound to a verified snapshot.\<close>

definition sample_fingerprint :: string where
  "sample_fingerprint = ''sha256:'' @ replicate 64 CHR ''a''"

definition sample_evidence :: dict where
  "sample_evidence =
     [(''evidence_id'', JStr ''e1''), (''schema_version'', JStr ''0.1-draft''),
      (''evidence_kind'', JStr ''repo_health_evidence''),
      (''source'', JObj [(''tool_name'', JStr ''t''), (''tool_version'', JStr ''1''),
        (''adapter_name'', JStr ''a''), (''adapter_version'', JStr ''1''),
        (''execution_mode'', JStr ''sandbox_observer'')]),
      (''subject'', JObj [(''repo_identity'', JStr ''<repo>''), (''commit'', JNull), (''tree_hash'', JNull),
        (''path_scope'', JList []), (''binding_kind'', JStr ''snapshot_bound''),
        (''snapshot_id'', JStr sample_fingerprint), (''manifest_fingerprint'', JStr sample_fingerprint)]),
      (''classification'', JObj [(''category'', JStr ''sbom''), (''subcategory'', JStr ''s''),
        (''severity'', JStr ''info''), (''confidence'', JStr ''high''), (''confidence_reason'', JStr ''r'')]),
      (''finding'', JObj [(''present'', JBool True), (''count'', JInt 2), (''locations'', JList []),
        (''redacted_summary'', JStr ''two packages'')]),
      (''raw_handling'', JObj [(''raw_output_retained'', JBool False), (''raw_stdout_retained'', JBool False),
        (''raw_stderr_retained'', JBool False), (''redaction_status'', JStr ''redacted''),
        (''redaction_failures'', JList [])]),
      (''trust'', JObj [(''level'', JStr ''policy_bound''), (''commit_bound'', JBool True),
        (''signature_verified'', JBool False), (''binary_attested'', JBool False),
        (''limitations'', jstrs [''scoped''])]),
      (''effects'', JObj [(''can_lower_risk'', JBool False), (''can_authorize_execution'', JBool False),
        (''recommended_gate_effect'', JStr ''evidence_only'')]),
      (''residual_risks'', JList [])]"

lemma sample_evidence_valid:
  "validate_evidence (JObj sample_evidence) =
     Inr \<lparr>ev_valid = True, ev_blocking_errors = [], ev_warnings = [],
          ev_limitations = [''scoped''], ev_residual_risks = []\<rparr>"
  by code_simp

text \<open>C18: an evidence item that \<open>validate_evidence\<close> accepts satisfies the evidence contract: it
  cannot authorize execution, retains no raw output, may lower risk only when it reports a
  finding at a trust level above import, has a non-negative count that is positive exactly
  when the finding is present, names at least one limitation, carries well-formed
  fingerprints when it is snapshot-bound, and has no host path in any of its strings.\<close>

theorem valid_evidence_contract:
  assumes "validate_evidence v = Inr r" and "ev_valid r"
  shows "\<exists>data. v = JObj data \<and> evidence_contract data \<and> ev_limitations r \<noteq> []"
proof -
  from assms obtain data where v: "v = JObj data" and lim: "ev_limitations r = evidence_limitations data"
    and all: "\<forall>c\<in>set (evidence_checks data). c = Inr []"
    by (rule valid_evidence_checks)
  from all have "\<forall>c\<in>set (evidence_section_checks data). c = Inr []"
    by (simp add: evidence_checks_def Let_def all_append_checks)
  then obtain s su c f h t e where sections:
    "dget data ''source'' = JObj s" "dget data ''subject'' = JObj su"
    "dget data ''classification'' = JObj c" "dget data ''finding'' = JObj f"
    "dget data ''raw_handling'' = JObj h" "dget data ''trust'' = JObj t"
    "dget data ''effects'' = JObj e"
    by (rule passed_sections)
  with all have subject: "\<forall>c\<in>set (evidence_subject_checks su). c = Inr []"
    and finding: "\<forall>c\<in>set (evidence_finding_checks f). c = Inr []"
    and raw: "\<forall>c\<in>set (evidence_raw_handling_checks h). c = Inr []"
    and trust: "\<forall>c\<in>set (evidence_trust_checks t). c = Inr []"
    and effects: "\<forall>c\<in>set (evidence_effects_checks (Some f) (Some t) e). c = Inr []"
    and paths: "\<not> contains_raw_host_path (JObj data)"
    by (simp_all add: evidence_checks_def Let_def all_append_checks)
  from trust have "string_items (dget t ''limitations'') \<noteq> []" by (simp add: evidence_trust_checks_def)
  moreover from subject have "dget su ''binding_kind'' = JStr ''snapshot_bound'' \<Longrightarrow>
      is_fingerprint (dget su ''snapshot_id'') \<and> is_fingerprint (dget su ''manifest_fingerprint'')"
    by (simp add: evidence_subject_checks_def)
  ultimately have "evidence_contract data" "ev_limitations r \<noteq> []"
    using passed_finding [OF finding] passed_effects [OF effects] passed_raw_handling [OF raw] paths
    by (simp_all add: evidence_contract_def sect_def sections lim evidence_limitations_def
        contains_raw_host_path_def any_string_iff del: json_strings.simps)
  with v show ?thesis by blast
qed

theorem valid_evidence_contract_witness:
  "\<exists>r. validate_evidence (JObj sample_evidence) = Inr r \<and> ev_valid r
     \<and> evidence_contract sample_evidence"
  using valid_evidence_contract [OF sample_evidence_valid] by (simp add: sample_evidence_valid)

text \<open>the two spellings of the fingerprint test in the program agree: the character loop of
  \<open>_fingerprint\<close> accepts exactly the strings of the pattern \<open>sha256:[0-9a-f]{64}\<close>, and the
  fingerprint the program computes from any value is accepted.\<close>

theorem fingerprint_tests_agree:
  "is_fingerprint (JStr s) = rx_fullmatch sha256_rx s
   \<and> is_fingerprint (JStr (canonical_fingerprint v))"
  by (simp add: fingerprint_text_rx)

text \<open>\<open>validate_evidence\<close> returns a result exactly when the values it tests for membership
  are hashable and the count of a present finding is a number; on every other mapping it
  raises instead of reporting a blocking error.\<close>

theorem validate_evidence_total_iff:
  "returns (validate_evidence (JObj data)) \<longleftrightarrow> evidence_comparable data"
  by (rule validate_evidence_returns_iff)

end
