(* ===== verification/Ranking.thy ===== *)
theory Ranking
  imports Prelude
begin

text \<open>
  The interface of the program's ordered labels.  Verdicts, limitation severities, risk
  tiers and gate effects are all strings with a table of ranks, and every one of them is
  combined by \<open>max(..., key=table lookup)\<close>.  The locale states what such a table promises;
  the theories of the four tables interpret it.
\<close>

definition rank_in :: "(string \<times> int) list \<Rightarrow> string \<Rightarrow> int" where
  "rank_in table x = (case map_of table x of None \<Rightarrow> -1 | Some r \<Rightarrow> r)"

locale ranked_labels =
  fixes table :: "(string \<times> int) list" and top :: string
  assumes distinct_labels: "distinct (map fst table)"
    and distinct_ranks: "distinct (map snd table)"
    and ranks_nonneg: "\<And>x r. (x, r) \<in> set table \<Longrightarrow> 0 \<le> r"
    and top_label: "top \<in> fst ` set table"
    and top_rank: "\<And>x r. (x, r) \<in> set table \<Longrightarrow> r \<le> rank_in table top"
begin

abbreviation rank :: "string \<Rightarrow> int" where
  "rank \<equiv> rank_in table"

abbreviation strongest :: "string \<Rightarrow> string list \<Rightarrow> string" where
  "strongest \<equiv> max_by rank"

lemma known_iff: "x \<in> fst ` set table \<longleftrightarrow> (\<exists>r. map_of table x = Some r)"
  using map_of_mem_keys [of table x] by auto

lemma rank_known: "map_of table x = Some r \<Longrightarrow> rank x = r \<and> (x, r) \<in> set table"
  by (simp add: rank_in_def map_of_SomeD)

lemma rank_nonneg_iff: "0 \<le> rank x \<longleftrightarrow> x \<in> fst ` set table"
  unfolding known_iff
  by (cases "map_of table x") (auto simp: rank_in_def dest: map_of_SomeD ranks_nonneg)

lemma rank_le_top: "rank x \<le> rank top"
proof (cases "map_of table x")
  case None
  have "0 \<le> rank top" using top_label rank_nonneg_iff by blast
  with None show ?thesis by (simp add: rank_in_def)
next
  case (Some r)
  with rank_known [OF Some] top_rank show ?thesis by auto
qed

lemma rank_inj:
  assumes "x \<in> fst ` set table" and "rank x = rank y"
  shows "x = y"
proof -
  have "y \<in> fst ` set table" using assms rank_nonneg_iff by metis
  with assms obtain r q where xr: "map_of table x = Some r" and yq: "map_of table y = Some q"
    unfolding known_iff by blast
  with rank_known assms have "(x, r) \<in> set table" "(y, r) \<in> set table" by force+
  moreover have "inj_on snd (set table)" using distinct_ranks by (simp add: distinct_map)
  ultimately show ?thesis
    using inj_onD [of snd "set table" "(x, r)" "(y, r)"] by simp
qed

lemma strongest_upper: "x \<in> insert b (set xs) \<Longrightarrow> rank x \<le> rank (strongest b xs)"
  using max_by_ge [of rank b xs] max_by_upper [of x xs rank b] by auto

lemma strongest_mem: "strongest b xs \<in> insert b (set xs)"
  by (rule max_by_mem)

lemma strongest_mono:
  "insert b (set xs) \<subseteq> insert c (set ys) \<Longrightarrow> rank (strongest b xs) \<le> rank (strongest c ys)"
  using strongest_mem [of b xs] strongest_upper [of "strongest b xs" c ys] by blast

lemma strongest_top: "top \<in> insert b (set xs) \<Longrightarrow> strongest b xs = top"
  using rank_inj [OF top_label, of "strongest b xs"] rank_le_top [of "strongest b xs"]
    strongest_upper [of top b xs] by auto

end

end
