(* ===== verification/Gate_Verdict.thy ===== *)
theory Gate_Verdict
  imports Py_Dumps Ranking
begin

text \<open>
  The gate's vocabulary: \<open>gate/verdict.py\<close> (verdict precedence), \<open>gate/limitation_policy.py\<close>
  (the severity of a limitation text) and \<open>gate/policy.py\<close> (the default policy and its
  loading).
\<close>

section \<open>Verdict precedence\<close>

definition verdict_order :: "(string \<times> int) list" where
  "verdict_order =
     [(''allow_limited'', 0), (''warn'', 1), (''unknown'', 2), (''quarantine'', 3), (''block'', 4)]"

fun strongest_verdict :: "string list \<Rightarrow> string" where
  "strongest_verdict [] = ''allow_limited''"
| "strongest_verdict (c # cs) = max_by (rank_in verdict_order) c cs"

interpretation verdicts: ranked_labels verdict_order "''block''"
  by unfold_locales (auto simp: verdict_order_def rank_in_def)

definition verdict_rank :: "string \<Rightarrow> int" where
  "verdict_rank = rank_in verdict_order"

lemma verdict_rank_simps [simp]:
  "verdict_rank ''allow_limited'' = 0" "verdict_rank ''warn'' = 1" "verdict_rank ''unknown'' = 2"
  "verdict_rank ''quarantine'' = 3" "verdict_rank ''block'' = 4"
  by (simp_all add: verdict_rank_def verdict_order_def rank_in_def)

definition verdict_labels :: "string list" where
  "verdict_labels = [''allow_limited'', ''warn'', ''unknown'', ''quarantine'', ''block'']"

lemma verdict_labels_keys: "fst ` set verdict_order = set verdict_labels"
  by (simp add: verdict_order_def verdict_labels_def)

lemma strongest_verdict_mem:
  "cs \<noteq> [] \<Longrightarrow> strongest_verdict cs \<in> set cs"
  by (cases cs) (use verdicts.strongest_mem in auto)

lemma strongest_verdict_known:
  "set cs \<subseteq> set verdict_labels \<Longrightarrow> strongest_verdict cs \<in> set verdict_labels"
  using strongest_verdict_mem [of cs] by (cases cs) (auto simp: verdict_labels_def)

lemma strongest_verdict_upper:
  "c \<in> set cs \<Longrightarrow> verdict_rank c \<le> verdict_rank (strongest_verdict cs)"
  unfolding verdict_rank_def
  by (cases cs) (use verdicts.strongest_upper in auto)

lemma strongest_verdict_block: "''block'' \<in> set cs \<Longrightarrow> strongest_verdict cs = ''block''"
  by (cases cs) (use verdicts.strongest_top in auto)

lemma strongest_verdict_mono:
  assumes "set cs \<subseteq> set ds"
  shows "verdict_rank (strongest_verdict cs) \<le> verdict_rank (strongest_verdict ds)
         \<or> set ds \<inter> set verdict_labels = {} \<and> ds \<noteq> []"
proof (cases cs)
  case Nil
  show ?thesis
  proof (cases "\<exists>d\<in>set ds. d \<in> set verdict_labels")
    case True
    then obtain d where d: "d \<in> set ds" "d \<in> set verdict_labels" by blast
    then have "0 \<le> verdict_rank d"
      using verdicts.rank_nonneg_iff verdict_labels_keys by (simp add: verdict_rank_def)
    with Nil strongest_verdict_upper [OF d(1)] show ?thesis by simp
  next
    case False
    then show ?thesis using Nil by (cases ds) auto
  qed
next
  case (Cons c cs')
  with strongest_verdict_mem [of cs] strongest_verdict_upper [of _ ds] assms show ?thesis by auto
qed

section \<open>The severity of a limitation\<close>

definition severity_order :: "(string \<times> int) list" where
  "severity_order = [(''low'', 0), (''medium'', 1), (''high'', 2), (''critical'', 3)]"

interpretation severities: ranked_labels severity_order "''critical''"
  by unfold_locales (auto simp: severity_order_def rank_in_def)

text \<open>The policy's patterns of one severity, and whether one of them occurs in the text.\<close>

definition severity_pattern_hit :: "dict \<Rightarrow> string \<Rightarrow> string \<Rightarrow> bool" where
  "severity_pattern_hit severity_map text severity =
     (case dget severity_map severity of
        JList patterns \<Rightarrow> list_ex (\<lambda>p. str_in (py_lower (py_str p)) text) patterns
      | _ \<Rightarrow> False)"

definition limitation_severity :: "string \<Rightarrow> dict \<Rightarrow> string" where
  "limitation_severity limitation policy =
     (let text = py_lower limitation;
          mapped = (case dget policy ''limitation_severity'' of
                      JObj m \<Rightarrow> find (severity_pattern_hit m text) [''critical'', ''high'', ''medium'', ''low'']
                    | _ \<Rightarrow> None)
      in case mapped of
           Some severity \<Rightarrow> severity
         | None \<Rightarrow>
             if str_in ''critical'' text \<or> str_in ''mismatch'' text \<or> str_in ''raw output retained'' text
             then ''critical''
             else if str_in ''runtime observer'' text \<or> str_in ''degraded'' text \<or> str_in ''unavailable'' text
             then ''high''
             else if str_in ''missing'' text \<or> str_in ''unverified'' text \<or> str_in ''parse failed'' text
             then ''medium''
             else ''low'')"

definition highest_limitation_severity :: "string list \<Rightarrow> dict \<Rightarrow> string" where
  "highest_limitation_severity limitations policy =
     foldl (\<lambda>highest limitation.
              let severity = limitation_severity limitation policy
              in if rank_in severity_order highest < rank_in severity_order severity then severity else highest)
           ''low'' limitations"

lemma limitation_severity_known:
  "limitation_severity l p \<in> {''critical'', ''high'', ''medium'', ''low''}"
proof -
  define mapped where "mapped =
    (case dget p ''limitation_severity'' of
       JObj m \<Rightarrow> find (severity_pattern_hit m (py_lower l)) [''critical'', ''high'', ''medium'', ''low'']
     | _ \<Rightarrow> None)"
  have labels: "find P [''critical'', ''high'', ''medium'', ''low''] = Some s
        \<Longrightarrow> s \<in> {''critical'', ''high'', ''medium'', ''low''}" for P s
    by (auto split: if_splits)
  show ?thesis
  proof (cases mapped)
    case None
    then show ?thesis by (simp add: limitation_severity_def Let_def mapped_def)
  next
    case (Some s)
    then have "s \<in> {''critical'', ''high'', ''medium'', ''low''}"
      unfolding mapped_def
      by (cases "dget p ''limitation_severity''") (simp_all only: json.case option.distinct labels)
    with Some show ?thesis by (simp add: limitation_severity_def Let_def mapped_def)
  qed
qed

lemma highest_limitation_severity_max:
  "highest_limitation_severity ls p = max_by (rank_in severity_order) ''low''
     (map (\<lambda>l. limitation_severity l p) ls)"
proof -
  have "foldl (\<lambda>h l. let s = limitation_severity l p
           in if rank_in severity_order h < rank_in severity_order s then s else h) b ls
        = max_by (rank_in severity_order) b (map (\<lambda>l. limitation_severity l p) ls)" for b
    by (induction ls arbitrary: b) (simp_all add: Let_def)
  then show ?thesis by (simp add: highest_limitation_severity_def)
qed

lemma highest_limitation_severity_single:
  "highest_limitation_severity [l] p = limitation_severity l p"
  using limitation_severity_known [of l p]
  by (auto simp: highest_limitation_severity_max severity_order_def rank_in_def)

section \<open>The policy document\<close>

definition gate_policy_default :: dict where
  "gate_policy_default =
     [(''schema_version'', JStr ''0.1-draft''),
      (''policy_kind'', JStr ''pre_execution_gate_policy''),
      (''policy_version'', JStr ''0.1''),
      (''fail_closed'', JBool True),
      (''mandatory_evidence'', JList []),
      (''accepted_missing_evidence'', JList []),
      (''missing_evidence'', JList []),
      (''requested_dynamic_judgment'', JBool False),
      (''limitation_severity'', JObj
        [(''low'', jstrs
           [''external scanner output format unverified'', ''Docker integration test not run'']),
         (''medium'', jstrs
           [''scanner unavailable'', ''scanner output parse failed'', ''commit binding missing'',
            ''dirty workspace binding'', ''content digest binding without commit'']),
         (''high'', jstrs
           [''runtime observer degraded'', ''runtime observer unavailable'',
            ''observer missing for requested dynamic judgment'']),
         (''critical'', jstrs
           [''expected commit mismatch'', ''approval mismatch'', ''raw output redaction incomplete'',
            ''raw output retained unknown'',
            ''policy violation that attempted execution without approval'',
            ''network allowed during target scan'', ''Docker socket mount'', ''host HOME mount'',
            ''credential mount''])])]"

text \<open>The file is read by the caller of the model: \<open>None\<close> is a read or parse error.\<close>

definition load_pre_execution_gate_policy :: "json option \<Rightarrow> dict" where
  "load_pre_execution_gate_policy file =
     (case file of Some (JObj d) \<Rightarrow> d | _ \<Rightarrow> gate_policy_default)"

end
