(* ===== verification/V3_Adapter.thy ===== *)
theory V3_Adapter
  imports Evidence_Check Gate_Verdict
begin

text \<open>
  evidence/v3_adapter.py: the evidence items and the candidate gate decision that are derived
  from a report of the repository check (schema 1.1).  The adapter is total on objects except
  for \<open>report["checks"]\<close>, which it iterates without a type test in one place.
\<close>

definition v3_missing_evidence :: "string list" where
  "v3_missing_evidence =
     [''v3_report_lacks_commit_binding'', ''v3_report_lacks_tree_hash'',
      ''v3_report_lacks_formal_confidence_model'', ''v3_report_lacks_structured_raw_handling'',
      ''v3_report_is_check_oriented_not_gate_evaluator'']"

definition base_limitations :: "string list" where
  "base_limitations =
     [''v3_report_candidate_only'', ''not_execution_authorization'', ''no_finding_is_not_safety_proof'',
      ''missing_evidence_must_not_become_confidence'']"

definition base_residual_risks :: "string list" where
  "base_residual_risks = [''v3_report_does_not_prove_safety'', ''commit_and_tree_binding_missing'']"

text \<open>The items a value yields when iterated.\<close>

fun iterate :: "json \<Rightarrow> json list res" where
  "iterate (JList xs) = Inr xs"
| "iterate (JObj d) = Inr (map JStr (keys d))"
| "iterate (JStr s) = Inr (map (\<lambda>c. JStr [c]) s)"
| "iterate _ = Inl TypeError"

definition safe_token :: "json \<Rightarrow> string" where
  "safe_token v =
     (let raw = py_str (py_or v (JStr ''unknown''));
          cleaned = map (\<lambda>c. if is_alnum c then c else CHR ''_'') (py_lower raw);
          stripped = strip_by (\<lambda>c. c = CHR ''_'') cleaned in
      if stripped = [] then ''unknown'' else stripped)"

definition v3_severity :: "string \<Rightarrow> string" where
  "v3_severity status =
     (if status = ''block'' then ''block'' else if status = ''warn'' then ''warn''
      else if status = ''pass'' then ''info'' else ''unknown'')"

definition category_for_check :: "string \<Rightarrow> string" where
  "category_for_check check_name =
     (if check_name = ''ci'' then ''ci_cd'' else if check_name = ''secrets_scan'' then ''secret''
      else if check_name = ''policy'' then ''approval'' else ''repo_posture'')"

definition category_for_rule_or_check :: "string \<Rightarrow> string \<Rightarrow> string" where
  "category_for_rule_or_check rule_id check_name =
     (if str_in ''.secret.'' rule_id then ''secret''
      else if str_in ''.public_text.'' rule_id \<or> str_in ''.tracked_artifact.'' rule_id then ''repo_posture''
      else if str_in ''.policy.'' rule_id then ''approval''
      else category_for_check check_name)"

definition v3_path_scope :: "dict \<Rightarrow> dict list \<Rightarrow> string list" where
  "v3_path_scope details locations =
     (if locations \<noteq> [] then map (\<lambda>l. py_str (dget_or l ''path'' (JStr ''<repo>''))) locations
      else
        (case dget details ''scan_scope'' of
           JStr s \<Rightarrow> [s]
         | _ \<Rightarrow>
             (case dget details ''found'' of
                JList xs \<Rightarrow> if xs \<noteq> [] then list_strings xs else [''<repo>'']
              | _ \<Rightarrow> [''<repo>''])))"

text \<open>What the callers of \<open>_base_candidate\<close> supply.\<close>

record candidate_parts =
  cp_evidence_id :: string
  cp_category :: string
  cp_subcategory :: string
  cp_severity :: string
  cp_present :: bool
  cp_count :: int
  cp_locations :: "dict list"
  cp_summary :: string
  cp_redaction_status :: string

definition candidate_limitations :: "dict \<Rightarrow> candidate_parts \<Rightarrow> string list" where
  "candidate_limitations check p =
     base_limitations @ [''v3_check:'' @ safe_token (dget check ''name'')]
     @ (if cp_present p then [] else [''no_finding_scoped_to_current_check_only''])"

definition base_candidate :: "dict \<Rightarrow> dict \<Rightarrow> candidate_parts \<Rightarrow> dict" where
  "base_candidate report check p =
     [(''evidence_id'', JStr (cp_evidence_id p)),
      (''schema_version'', JStr ''0.1-draft''),
      (''evidence_kind'', JStr ''repo_health_evidence''),
      (''source'', JObj
        [(''tool_name'', JStr (py_str (dget_or report ''tool'' (JStr ''repo-health-doctor'')))),
         (''tool_version'', JStr (py_str (dget_or report ''version'' (JStr ''unknown'')))),
         (''adapter_name'', JStr ''v3_report_compatibility_adapter''),
         (''adapter_version'', JStr ''0.1-draft''),
         (''execution_mode'', JStr ''native_static'')]),
      (''subject'', JObj
        [(''repo_identity'', JStr ''<repo>''), (''commit'', JNull), (''tree_hash'', JNull),
         (''path_scope'', jstrs (v3_path_scope (sect check ''details'') (cp_locations p))),
         (''binding_kind'', JStr ''path_bound'')]),
      (''classification'', JObj
        [(''category'', JStr (cp_category p)), (''subcategory'', JStr (cp_subcategory p)),
         (''severity'', JStr (cp_severity p)), (''confidence'', JStr ''low''),
         (''confidence_reason'',
           JStr ''derived from v3 check report; commit binding, tree hash, and formal trust are unavailable'')]),
      (''finding'', JObj
        [(''present'', JBool (cp_present p)), (''count'', JInt (cp_count p)),
         (''locations'', JList (map JObj (cp_locations p))), (''redacted_summary'', JStr (cp_summary p))]),
      (''raw_handling'', JObj
        [(''raw_output_retained'', JBool False), (''raw_stdout_retained'', JBool False),
         (''raw_stderr_retained'', JBool False), (''redaction_status'', JStr (cp_redaction_status p)),
         (''redaction_failures'', JList [])]),
      (''trust'', JObj
        [(''level'', JStr ''schema_validated''), (''commit_bound'', JBool False),
         (''signature_verified'', JBool False), (''binary_attested'', JBool False),
         (''limitations'', jstrs (candidate_limitations check p))]),
      (''effects'', JObj
        [(''can_lower_risk'', JBool False), (''can_authorize_execution'', JBool False),
         (''recommended_gate_effect'',
           JStr (if cp_severity p = ''block'' then ''block'' else ''requires_human_review''))]),
      (''residual_risks'', jstrs base_residual_risks)]"

definition parts_for_check :: "dict \<Rightarrow> nat \<Rightarrow> candidate_parts" where
  "parts_for_check check check_index =
     \<lparr>cp_evidence_id = ''v3-check-'' @ nat_text check_index @ ''-'' @ safe_token (dget check ''name''),
      cp_category = category_for_check (py_str (dget_or check ''name'' (JStr ''unknown''))),
      cp_subcategory = ''check_'' @ safe_token (dget check ''name''),
      cp_severity = v3_severity (py_str (dget_or check ''status'' (JStr ''warn''))),
      cp_present = False, cp_count = 0, cp_locations = [],
      cp_summary = py_str (dget_or check ''summary'' (JStr [])),
      cp_redaction_status = ''not_applicable''\<rparr>"

definition candidate_for_check :: "dict \<Rightarrow> dict \<Rightarrow> nat \<Rightarrow> dict" where
  "candidate_for_check report check check_index = base_candidate report check (parts_for_check check check_index)"

definition finding_location :: "dict \<Rightarrow> dict" where
  "finding_location finding =
     [(''path'', case dget finding ''file'' of JStr s \<Rightarrow> JStr s | _ \<Rightarrow> JStr ''<repo>''),
      (''line'', if is_int (dget finding ''line'') then dget finding ''line'' else JNull)]"

definition parts_for_finding :: "dict \<Rightarrow> dict \<Rightarrow> nat \<Rightarrow> nat \<Rightarrow> candidate_parts" where
  "parts_for_finding check finding check_index finding_index =
     \<lparr>cp_evidence_id = ''v3-finding-'' @ nat_text check_index @ ''-'' @ nat_text finding_index @ ''-''
        @ safe_token (dget finding ''rule_id''),
      cp_category = category_for_rule_or_check (py_str (dget_or finding ''rule_id'' (JStr [])))
        (py_str (dget_or check ''name'' (JStr ''unknown''))),
      cp_subcategory = py_str (py_or (dget finding ''pattern'') (py_or (dget finding ''rule_id'') (JStr ''unknown''))),
      cp_severity = (if is_true (dget finding ''allowed'') then ''warn''
        else v3_severity (py_str (dget_or finding ''severity'' (dget_or check ''status'' (JStr ''warn''))))),
      cp_present = True, cp_count = 1, cp_locations = [finding_location finding],
      cp_summary = py_str (dget_or check ''summary'' (JStr [])),
      cp_redaction_status = (if is_true (dget finding ''redacted'') then ''redacted'' else ''unknown'')\<rparr>"

definition candidate_for_finding :: "dict \<Rightarrow> dict \<Rightarrow> dict \<Rightarrow> nat \<Rightarrow> nat \<Rightarrow> dict" where
  "candidate_for_finding report check finding check_index finding_index =
     base_candidate report check (parts_for_finding check finding check_index finding_index)"

text \<open>The items one check contributes: one per finding, or one for the check as a whole.\<close>

definition check_candidates :: "dict \<Rightarrow> nat \<Rightarrow> json \<Rightarrow> dict list" where
  "check_candidates report check_index c =
     (case c of
        JObj check \<Rightarrow>
          (case dget (sect check ''details'') ''findings'' of
             JList (f # fs) \<Rightarrow>
               concat (map (\<lambda>(finding_index, v). case v of
                   JObj finding \<Rightarrow> [candidate_for_finding report check finding check_index finding_index]
                 | _ \<Rightarrow> []) (zip [0..<length (f # fs)] (f # fs)))
           | _ \<Rightarrow> [candidate_for_check report check check_index])
      | _ \<Rightarrow> [])"

definition extract_evidence_candidates_from_v3_report :: "dict \<Rightarrow> dict list" where
  "extract_evidence_candidates_from_v3_report report =
     (case dget report ''checks'' of
        JList checks \<Rightarrow>
          concat (map (\<lambda>(i, c). check_candidates report i c) (zip [0..<length checks] checks))
      | _ \<Rightarrow> [])"

definition v3_finding_count :: "dict list \<Rightarrow> int" where
  "v3_finding_count checks =
     sum_list (map (\<lambda>c. case dget (sect c ''details'') ''findings'' of
                          JList xs \<Rightarrow> int (length xs) | _ \<Rightarrow> 0) checks)"

definition candidate_explanation :: "string \<Rightarrow> dict" where
  "candidate_explanation verdict =
     [(''summary'', JStr (if verdict = ''block''
         then ''Gate evidence blocks execution review; this is not execution authorization.''
         else ''Static checks did not find blocking issues, but this is not enough to authorize execution.'')),
      (''key_reasons'', jstrs
         [''No scanner finding is not proof of safety.'',
          ''Evidence is missing, degraded, or not strongly bound enough to authorize execution.'',
          ''Gate decisions and execution authorization are intentionally separate.'']),
      (''next_actions'', jstrs
         [''Do not run install scripts locally based only on scanner silence.'',
          ''Review limitations and evidence gaps.'',
          ''Use a stronger isolated environment if execution is necessary.''])]"

definition names_with_status :: "string \<Rightarrow> dict list \<Rightarrow> string list" where
  "names_with_status status checks =
     map (\<lambda>c. py_str (dget c ''name'')) (filter (\<lambda>c. dget c ''status'' = JStr status) checks)"

definition v3_decision_candidate :: "dict \<Rightarrow> dict list \<Rightarrow> dict" where
  "v3_decision_candidate report checks =
     (let verdict = (if dget report ''overall_status'' = JStr ''block'' then ''block'' else ''warn'') in
      [(''decision_kind'', JStr ''repo_health_gate_decision''), (''schema_version'', JStr ''0.1-draft''),
       (''subject'', JObj [(''repo'', JStr ''<repo>''), (''commit'', JNull), (''tree_hash'', JNull),
          (''binding_kind'', JStr ''path_bound'')]),
       (''verdict'', JStr verdict), (''execution_authorized'', JBool False), (''confidence'', JStr ''low''),
       (''confidence_reason'',
          JStr ''current v3 report lacks formal evidence binding, trust, and gate evaluator semantics''),
       (''explanation'', JObj (candidate_explanation verdict)),
       (''evidence_summary'', JObj
          [(''findings_count'', JInt (v3_finding_count checks)),
           (''blocking_evidence'', jstrs (names_with_status ''block'' checks)),
           (''warning_evidence'', jstrs (names_with_status ''warn'' checks)),
           (''missing_evidence'', jstrs v3_missing_evidence), (''degraded_observers'', JList [])]),
       (''required_actions'', jstrs (if verdict = ''block'' then [''review blocking evidence before execution'']
          else [''review limitations before execution''])),
       (''limitations'', jstrs base_limitations),
       (''policy'', JObj
          [(''policy_version'', JStr (''v3-report:'' @ py_str (dget_or report ''schema_version'' (JStr ''unknown'')))),
           (''fail_closed'', JBool True)]),
       (''residual_risks'', jstrs base_residual_risks)])"

definition build_gate_decision_candidate_from_v3_report :: "dict \<Rightarrow> dict res" where
  "build_gate_decision_candidate_from_v3_report report =
     res_map (\<lambda>items. v3_decision_candidate report (list_dicts items))
       (iterate (dget_or report ''checks'' (JList [])))"

section \<open>The candidates are acceptable evidence\<close>

definition sound_parts :: "candidate_parts \<Rightarrow> bool" where
  "sound_parts p \<longleftrightarrow> cp_evidence_id p \<noteq> [] \<and> cp_category p \<in> set evidence_categories
     \<and> cp_severity p \<in> set evidence_severities \<and> cp_count p = (if cp_present p then 1 else 0)
     \<and> cp_redaction_status p \<noteq> ''failed''"

lemma v3_severity_known: "v3_severity s \<in> set evidence_severities"
  by (simp add: v3_severity_def evidence_severities_def)

lemma category_for_check_known: "category_for_check n \<in> set evidence_categories"
  by (simp add: category_for_check_def evidence_categories_def)

lemma category_for_rule_known: "category_for_rule_or_check r n \<in> set evidence_categories"
  using category_for_check_known [of n]
  by (simp add: category_for_rule_or_check_def) (simp add: evidence_categories_def)

lemma sound_check: "sound_parts (parts_for_check check i)"
  by (simp add: sound_parts_def parts_for_check_def v3_severity_known category_for_check_known)

lemma sound_finding: "sound_parts (parts_for_finding check finding i j)"
  using v3_severity_known category_for_rule_known
  by (simp add: sound_parts_def parts_for_finding_def) (simp add: evidence_severities_def)

lemma extracted_candidate:
  assumes "c \<in> set (extract_evidence_candidates_from_v3_report report)"
  obtains check p where "c = base_candidate report check p" and "sound_parts p"
proof -
  from assms obtain i v where v: "c \<in> set (check_candidates report i v)"
    unfolding extract_evidence_candidates_from_v3_report_def by (auto split: json.splits)
  then obtain check where check: "v = JObj check" by (cases v) (simp_all add: check_candidates_def)
  show thesis
  proof (cases "\<exists>f fs. dget (sect check ''details'') ''findings'' = JList (f # fs)")
    case True
    with v check obtain j finding where "c = candidate_for_finding report check finding i j"
      unfolding check_candidates_def by (auto split: json.splits)
    with that show thesis unfolding candidate_for_finding_def using sound_finding by blast
  next
    case False
    with v check have "c = candidate_for_check report check i"
      unfolding check_candidates_def by (auto split: json.splits list.splits)
    with that show thesis unfolding candidate_for_check_def using sound_check by blast
  qed
qed

lemma candidate_sections:
  fixes report check p
  defines "c \<equiv> base_candidate report check p"
  shows "dget c ''finding'' = JObj [(''present'', JBool (cp_present p)), (''count'', JInt (cp_count p)),
         (''locations'', JList (map JObj (cp_locations p))), (''redacted_summary'', JStr (cp_summary p))]"
    and "dget c ''classification'' = JObj [(''category'', JStr (cp_category p)), (''subcategory'', JStr (cp_subcategory p)),
         (''severity'', JStr (cp_severity p)), (''confidence'', JStr ''low''),
         (''confidence_reason'',
           JStr ''derived from v3 check report; commit binding, tree hash, and formal trust are unavailable'')]"
    and "dget c ''source'' = JObj
        [(''tool_name'', JStr (py_str (dget_or report ''tool'' (JStr ''repo-health-doctor'')))),
         (''tool_version'', JStr (py_str (dget_or report ''version'' (JStr ''unknown'')))),
         (''adapter_name'', JStr ''v3_report_compatibility_adapter''),
         (''adapter_version'', JStr ''0.1-draft''),
         (''execution_mode'', JStr ''native_static'')]"
    and "dget c ''trust'' = JObj
        [(''level'', JStr ''schema_validated''), (''commit_bound'', JBool False),
         (''signature_verified'', JBool False), (''binary_attested'', JBool False),
         (''limitations'', jstrs (candidate_limitations check p))]"
    and "dget c ''effects'' = JObj
        [(''can_lower_risk'', JBool False), (''can_authorize_execution'', JBool False),
         (''recommended_gate_effect'',
           JStr (if cp_severity p = ''block'' then ''block'' else ''requires_human_review''))]"
    and "dget c ''raw_handling'' = JObj
        [(''raw_output_retained'', JBool False), (''raw_stdout_retained'', JBool False),
         (''raw_stderr_retained'', JBool False), (''redaction_status'', JStr (cp_redaction_status p)),
         (''redaction_failures'', JList [])]"
    and "dget c ''subject'' = JObj
        [(''repo_identity'', JStr ''<repo>''), (''commit'', JNull), (''tree_hash'', JNull),
         (''path_scope'', jstrs (v3_path_scope (sect check ''details'') (cp_locations p))),
         (''binding_kind'', JStr ''path_bound'')]"
    and "dget c ''residual_risks'' = jstrs base_residual_risks"
  unfolding c_def base_candidate_def by (simp_all add: dget_Cons)

lemma candidate_top:
  assumes "sound_parts p"
  shows "\<forall>k\<in>set (evidence_top_checks (base_candidate report check p)). k = Inr []"
  using assms unfolding evidence_top_checks_def base_candidate_def
  by (simp add: dget_Cons keys_eq_def keys_def evidence_top_level_fields_def sound_parts_def)

lemma not_lowering: "hashable v \<Longrightarrow> res_and (in_strs v S) (Inr False) = Inr False"
  by (cases "in_strs v S = Inr True") (auto simp: in_strs_def res_and_def)

lemma candidate_checks:
  assumes sound: "sound_parts p"
    and texts: "nonempty_str (dget (sect (base_candidate report check p) ''source'') ''tool_name'')"
      "nonempty_str (dget (sect (base_candidate report check p) ''source'') ''tool_version'')"
      "nonempty_str (dget (sect (base_candidate report check p) ''classification'') ''subcategory'')"
    and clean: "\<not> contains_raw_host_path (JObj (base_candidate report check p))"
  shows "\<forall>k\<in>set (evidence_checks (base_candidate report check p)). k = Inr []"
proof -
  let ?c = "base_candidate report check p"
  note f = candidate_sections [of report check p]
  have sections: "\<forall>k\<in>set (evidence_section_checks ?c). k = Inr []"
    unfolding evidence_section_checks_def f
    by (simp add: mapping_errors_def keys_eq_def keys_def evidence_source_fields_def evidence_legacy_subject_fields_def
        classification_fields_def finding_fields_def raw_handling_fields_def trust_fields_def effects_fields_def)
  have source: "\<forall>k\<in>set (evidence_source_checks (sect ?c ''source'')). k = Inr []"
    using texts unfolding sect_def f
    by (simp add: evidence_source_checks_def require_strings_def dget_Cons execution_modes_def)
  have subject: "\<forall>k\<in>set (evidence_subject_checks (sect ?c ''subject'')). k = Inr []"
    unfolding sect_def f by (simp add: evidence_subject_checks_def dget_Cons evidence_binding_kinds_def jstrs_def)
  have cls: "\<forall>k\<in>set (evidence_classification_checks (sect ?c ''classification'')). k = Inr []"
    using texts sound unfolding sect_def f
    by (simp add: evidence_classification_checks_def require_strings_def dget_Cons sound_parts_def evidence_confidences_def)
  have finding: "\<forall>k\<in>set (evidence_finding_checks (sect ?c ''finding'')). k = Inr []"
    using sound unfolding sect_def f
    by (simp add: evidence_finding_checks_def dget_Cons sound_parts_def py_lt_def py_le_def is_true_def is_false_def
        py_ne_def py_eq.simps [of "JInt 0"])
  have raw: "\<forall>k\<in>set (evidence_raw_handling_checks (sect ?c ''raw_handling'')). k = Inr []"
    using sound unfolding sect_def f
    by (simp add: evidence_raw_handling_checks_def retained_check_def dget_Cons is_true_def is_false_def sound_parts_def)
  have trust: "\<forall>k\<in>set (evidence_trust_checks (sect ?c ''trust'')). k = Inr []"
    unfolding sect_def f
    by (simp add: evidence_trust_checks_def dget_Cons trust_levels_def candidate_limitations_def base_limitations_def)
  have effects: "\<forall>k\<in>set (evidence_effects_checks fo to (sect ?c ''effects'')). k = Inr []"
    if "to = None \<or> (\<exists>t. to = Some t \<and> hashable (dget t ''level''))" for fo to
    using that unfolding sect_def f
    by (auto simp: evidence_effects_checks_def dget_Cons is_true_def is_false_def recommended_gate_effects_def
        not_lowering)
  have eff: "\<forall>k\<in>set (evidence_effects_checks (opt_mapping (dget ?c ''finding'')) (opt_mapping (dget ?c ''trust''))
      (sect ?c ''effects'')). k = Inr []"
    by (rule effects) (simp add: f dget_Cons)
  show ?thesis
    unfolding evidence_checks_def Let_def set_append ball_Un
    using candidate_top [OF sound] sections source subject cls finding raw trust eff clean
    unfolding sect_def by (simp add: f when_some_def dget_Cons jstrs_def)
qed

section \<open>Properties\<close>

text \<open>every evidence item that the adapter derives from a report passes the evidence validator,
  provided the report names its tool and version, the finding has a label and no text of the
  item is a host path; and no such item ever claims authority or lowers risk.\<close>

theorem v3_candidates_accepted:
  assumes "c \<in> set (extract_evidence_candidates_from_v3_report report)"
    and "nonempty_str (dget (sect c ''source'') ''tool_name'')" "nonempty_str (dget (sect c ''source'') ''tool_version'')"
    and "nonempty_str (dget (sect c ''classification'') ''subcategory'')"
    and "\<not> contains_raw_host_path (JObj c)"
  shows "\<exists>r. validate_evidence (JObj c) = Inr r \<and> ev_valid r
    \<and> dget (sect c ''effects'') ''can_authorize_execution'' = JBool False
    \<and> dget (sect c ''effects'') ''can_lower_risk'' = JBool False"
proof -
  from assms(1) obtain check p where c: "c = base_candidate report check p" and sound: "sound_parts p"
    by (rule extracted_candidate)
  from candidate_checks [OF sound] assms(2-5) have "collect (evidence_checks c) = Inr []"
    unfolding collect_Nil_iff c by blast
  then show ?thesis
    by (simp add: validate_evidence_def c sect_def candidate_sections dget_Cons)
qed

definition sample_v3_report :: dict where
  "sample_v3_report =
     [(''tool'', JStr ''repo-health-doctor''), (''version'', JStr ''1.0''), (''overall_status'', JStr ''warn''),
      (''checks'', JList [JObj [(''name'', JStr ''secrets_scan''), (''status'', JStr ''warn''), (''summary'', JStr ''one''),
         (''details'', JObj [(''findings'', JList [JObj [(''rule_id'', JStr ''x.secret.y''), (''file'', JStr ''a.txt''),
            (''line'', JInt 3)]])])]])]"

theorem v3_candidates_accepted_witness:
  "list_all (\<lambda>c. \<exists>r. validate_evidence (JObj c) = Inr r \<and> ev_valid r) (extract_evidence_candidates_from_v3_report sample_v3_report)
   \<and> length (extract_evidence_candidates_from_v3_report sample_v3_report) = 1"
proof -
  have "list_all (\<lambda>c. nonempty_str (dget (sect c ''source'') ''tool_name'') \<and> nonempty_str (dget (sect c ''source'') ''tool_version'')
      \<and> nonempty_str (dget (sect c ''classification'') ''subcategory'') \<and> \<not> contains_raw_host_path (JObj c))
      (extract_evidence_candidates_from_v3_report sample_v3_report)"
    and n: "length (extract_evidence_candidates_from_v3_report sample_v3_report) = 1"
    by code_simp+
  then show ?thesis
    unfolding list_all_iff using v3_candidates_accepted by blast
qed

end
