(* ===== verification/Repo_Shape.thy ===== *)
theory Repo_Shape
  imports V3_Adapter
begin

text \<open>
  The static shape of a repository that gate/v3_evaluator.py looks for: install hooks,
  environment enumeration, credential paths, network calls, obfuscated evaluation, workflows
  that can write.  The repository is a finite tree of entries by relative path; a file has a
  text, what \<open>json.loads\<close> makes of that text (the JSON parser of the standard library is not
  modelled), and a size, or it cannot be read or is not UTF-8.  Reading a file that is not UTF-8
  raises \<open>UnicodeDecodeError\<close>, a \<open>ValueError\<close>.
\<close>

section \<open>Repositories\<close>

datatype file_body = Text string "json option" | Undecodable | Unreadable

datatype entry = Directory | RegularFile file_body nat

type_synonym relative = "string list"

record repo_tree =
  rt_name :: string
  rt_is_dir :: bool
  rt_entries :: "(relative \<times> entry) list"

definition as_posix :: "relative \<Rightarrow> string" where
  "as_posix parts = py_join ''/'' parts"

definition is_file :: "repo_tree \<Rightarrow> relative \<Rightarrow> bool" where
  "is_file rt p = (case map_of (rt_entries rt) p of Some (RegularFile b n) \<Rightarrow> True | _ \<Rightarrow> False)"

definition v3_read_text :: "repo_tree \<Rightarrow> relative \<Rightarrow> string res" where
  "v3_read_text rt p =
     (case map_of (rt_entries rt) p of
        Some (RegularFile (Text s j) n) \<Rightarrow> Inr s
      | Some (RegularFile Undecodable n) \<Rightarrow> Inl ValueError
      | _ \<Rightarrow> Inr [])"

definition v3_load_json :: "repo_tree \<Rightarrow> relative \<Rightarrow> dict res" where
  "v3_load_json rt p =
     (case map_of (rt_entries rt) p of
        Some (RegularFile (Text s j) n) \<Rightarrow> Inr (case j of Some (JObj d) \<Rightarrow> d | _ \<Rightarrow> [])
      | Some (RegularFile Undecodable n) \<Rightarrow> Inl ValueError
      | _ \<Rightarrow> Inr [])"

definition package_name :: "repo_tree \<Rightarrow> string option res" where
  "package_name rt = res_map (\<lambda>d. opt_str (dget d ''name'')) (v3_load_json rt [''package.json''])"

text \<open>\<open>path.suffix\<close>: from the last dot on, unless that is the first or the last character.\<close>

definition path_suffix :: "relative \<Rightarrow> string" where
  "path_suffix parts =
     (case parts of
        [] \<Rightarrow> []
      | _ \<Rightarrow>
        (let name = last parts; tail = takeWhile (\<lambda>c. c \<noteq> CHR ''.'') (rev name) in
         if length tail < length name - 1 \<and> tail \<noteq> [] then CHR ''.'' # rev tail else []))"

definition redacted_location :: "relative \<Rightarrow> string" where
  "redacted_location p = ''<repo>/'' @ as_posix p"

section \<open>What counts as execution relevant\<close>

definition shape_scan_suffixes :: "string list" where
  "shape_scan_suffixes =
     [''.cfg'', ''.ini'', ''.js'', ''.json'', ''.mjs'', ''.py'', ''.sh'', ''.toml'', ''.ts'', ''.yaml'', ''.yml'']"

definition shape_ignored_dirs :: "string list" where
  "shape_ignored_dirs =
     [''.git'', ''.hg'', ''.svn'', ''.venv'', ''venv'', ''node_modules'', ''dist'', ''build'', ''__pycache__'']"

definition shape_scan_limit_bytes :: nat where "shape_scan_limit_bytes = 1048576"

definition shape_scan_max_files :: nat where "shape_scan_max_files = 200"

definition install_lifecycle_scripts :: "string list" where
  "install_lifecycle_scripts = [''preinstall'', ''install'', ''postinstall'']"

definition is_execution_relevant_shape_path :: "relative \<Rightarrow> bool" where
  "is_execution_relevant_shape_path parts \<longleftrightarrow>
     parts \<noteq> []
     \<and> (as_posix parts \<in> {''package.json'', ''pyproject.toml'', ''setup.py'', ''setup.cfg''}
        \<or> hd parts \<in> {''scripts'', ''script'', ''bin''}
        \<or> 3 \<le> length parts \<and> hd parts = ''.github'' \<and> parts ! 1 = ''workflows'')"

text \<open>The text of an entry the scan looks at.\<close>

definition shape_text :: "relative \<times> entry \<Rightarrow> (relative \<times> string) option" where
  "shape_text pe =
     (case pe of (p, e) \<Rightarrow>
        if list_ex (\<lambda>d. d \<in> set shape_ignored_dirs) p \<or> \<not> is_execution_relevant_shape_path p
           \<or> py_lower (path_suffix p) \<notin> set shape_scan_suffixes then None
        else (case e of
                RegularFile (Text s j) n \<Rightarrow> if shape_scan_limit_bytes < n then None else Some (p, s)
              | _ \<Rightarrow> None))"

definition iter_shape_texts :: "repo_tree \<Rightarrow> (relative \<times> string) list" where
  "iter_shape_texts rt =
     (if rt_is_dir rt
      then take shape_scan_max_files
             (List.map_filter shape_text (sort_key (\<lambda>pe. as_posix (fst pe)) (rt_entries rt)))
      else [])"

section \<open>Shapes of a text\<close>

definition url_literal :: rx where
  "url_literal = cats [lit ''http'', opt (lit ''s''), lit ''://'',
     Cls (\<lambda>c. \<not> is_space c \<and> c \<notin> {CHR 39, CHR 34, CHR ''<'', CHR ''>''})]"

definition env_enumeration_patterns :: "string list" where
  "env_enumeration_patterns =
     [''Object.keys(process.env)'', ''JSON.stringify(process.env)'', ''console.log(process.env)'',
      ''dict(os.environ)'', ''os.environ.items()'', ''os.environ.keys()'', ''printenv'']"

definition spaces1 :: rx where "spaces1 = rep1 (Cls is_space)"

definition spaces0 :: rx where "spaces0 = Rep (Cls is_space)"

definition word_char :: "char \<Rightarrow> bool" where "word_char c \<longleftrightarrow> is_alnum c \<or> c = CHR ''_''"

text \<open>\<open>for\s*\([^)]*\s+in\s+process\.env\<close> and \<open>for\s+\w+\s+in\s+os\.environ\<close>.\<close>

definition js_env_loop :: rx where
  "js_env_loop = cats [lit ''for'', spaces0, lit ''('', Rep (Cls (\<lambda>c. c \<noteq> CHR '')'')), spaces1, lit ''in'', spaces1,
     lit ''process.env'']"

definition py_env_loop :: rx where
  "py_env_loop = cats [lit ''for'', spaces1, rep1 (Cls word_char), spaces1, lit ''in'', spaces1, lit ''os.environ'']"

definition has_env_enumeration :: "string \<Rightarrow> bool" where
  "has_env_enumeration text \<longleftrightarrow>
     list_ex (\<lambda>p. str_in p text) env_enumeration_patterns
     \<or> rx_search js_env_loop text \<or> rx_search py_env_loop text"

text \<open>The credential patterns ignore case: they are matched, in lower case, against the text in
  lower case.\<close>

definition home_path :: "rx \<Rightarrow> rx" where
  "home_path r = cats [alts [lit ''~'', lit (CHR 36 # ''home''), lit ''%userprofile%''], spaces0, opt (lit ''/''), spaces0, r]"

definition credential_path_patterns :: "rx list" where
  "credential_path_patterns =
     [home_path (lit ''.ssh''), home_path (lit ''.aws''),
      home_path (Cat (lit ''.'') (alts [lit ''npmrc'', lit ''pypirc'', lit ''netrc''])),
      cats [lit ''kube'', opt (lit ''rnetes''), Cls (\<lambda>c. c = CHR ''/'' \<or> c = CHR 92), lit ''config''],
      lit ''google_application_credentials'']"

definition credential_placeholder_markers :: "string list" where
  "credential_placeholder_markers =
     [''<redacted-credential-path>'', ''credentialpathcandidate'', ''credential_path_candidate'']"

definition has_credential_path_reference :: "string \<Rightarrow> bool" where
  "has_credential_path_reference text \<longleftrightarrow>
     (let lowered = py_lower text in
      list_ex (\<lambda>m. str_in m lowered) credential_placeholder_markers
      \<or> list_ex (\<lambda>r. rx_search r lowered) credential_path_patterns)"

definition network_call_markers :: "string list" where
  "network_call_markers =
     [''fetch('', ''curl '', ''wget '', ''requests.'', ''urllib.request'', ''http.client'', ''socket.'', ''axios.'',
      ''node-fetch'']"

definition eval_markers :: "string list" where
  "eval_markers =
     [''eval('', ''Function('', ''new Function'', ''child_process.exec'', ''subprocess.'', ''shell=True'', ''exec('',
      ''dynamic import'', ''import('']"

definition obfuscation_markers :: "string list" where
  "obfuscation_markers =
     [''base64'', ''atob('', ''Buffer.from'', ''.join('',
      ''['' @ [CHR 34] @ ''ev'' @ [CHR 34] @ '', '' @ [CHR 34] @ ''al'' @ [CHR 34] @ '']'', ''decode('']"

definition any_marker :: "string list \<Rightarrow> string \<Rightarrow> bool" where
  "any_marker markers lowered \<longleftrightarrow> list_ex (\<lambda>m. str_in (py_lower m) lowered) markers"

definition has_outbound_network_shape :: "string \<Rightarrow> bool" where
  "has_outbound_network_shape text \<longleftrightarrow>
     rx_search url_literal text \<and> any_marker network_call_markers (py_lower text)"

definition has_obfuscated_eval_shape :: "string \<Rightarrow> bool" where
  "has_obfuscated_eval_shape text \<longleftrightarrow>
     any_marker eval_markers (py_lower text) \<and> any_marker obfuscation_markers (py_lower text)"

definition known_pyproject_backends :: "string list" where
  "known_pyproject_backends =
     [''setuptools.build_meta'', ''hatchling.build'', ''flit_core.buildapi'', ''poetry.core.masonry.api'']"

text \<open>\<open>stripped.split("=", 1)[1].strip().strip("\"'")\<close> of the first such line.\<close>

definition after_equals :: "string \<Rightarrow> string" where
  "after_equals s = tl (dropWhile (\<lambda>c. c \<noteq> CHR ''='') s)"

definition pyproject_build_backend :: "string \<Rightarrow> string option" where
  "pyproject_build_backend text =
     (case filter (\<lambda>l. starts_with l ''build-backend'' \<and> CHR ''='' \<in> set l) (map py_strip (py_splitlines text)) of
        [] \<Rightarrow> None
      | l # ls \<Rightarrow> Some (strip_by (\<lambda>c. c = CHR 34 \<or> c = CHR 39) (py_strip (after_equals l))))"

definition has_python_build_hook :: "repo_tree \<Rightarrow> bool res" where
  "has_python_build_hook rt =
     res_bind (v3_read_text rt [''setup.py'']) (\<lambda>setup_py.
     if str_in ''cmdclass'' setup_py \<or> str_in ''distutils.command'' setup_py then Inr True else
     res_bind (v3_read_text rt [''setup.cfg'']) (\<lambda>setup_cfg.
     if str_in ''cmdclass'' setup_cfg \<or> str_in ''setup_requires'' setup_cfg then Inr True else
     res_map (\<lambda>pyproject.
       str_in ''backend-path'' pyproject \<or> str_in ''[tool.setuptools.cmdclass]'' pyproject
       \<or> (case pyproject_build_backend pyproject of
            None \<Rightarrow> False | Some b \<Rightarrow> b \<noteq> [] \<and> b \<notin> set known_pyproject_backends))
       (v3_read_text rt [''pyproject.toml''])))"

definition python_build_hook_locations :: "repo_tree \<Rightarrow> string list" where
  "python_build_hook_locations rt =
     map redacted_location (filter (is_file rt) [[''pyproject.toml''], [''setup.py''], [''setup.cfg'']])"

definition untrusted_checkout_markers :: "string list" where
  "untrusted_checkout_markers =
     [''github.event.pull_request.head.sha'', ''github.event.pull_request.head.ref'']"

definition has_workflow_write_risk :: "string \<Rightarrow> bool" where
  "has_workflow_write_risk text \<longleftrightarrow>
     (let lowered = py_lower text in
      str_in ''pull_request_target'' lowered \<and> list_ex (\<lambda>m. str_in m lowered) untrusted_checkout_markers
      \<or> list_ex (\<lambda>m. str_in m lowered)
          [''contents: write'', ''workflows: write'', ''actions: write'', ''pull-requests: write''])"

text \<open>The workflow files of the tree by name, with their texts when they carry the risk.\<close>

definition workflow_files :: "repo_tree \<Rightarrow> relative list" where
  "workflow_files rt =
     (if map_of (rt_entries rt) [''.github'', ''workflows''] = Some Directory
      then filter (\<lambda>p. is_file rt p \<and> py_lower (path_suffix p) \<in> {''.yml'', ''.yaml''})
             (sort_key last (filter (\<lambda>p. length p = 3 \<and> butlast p = [''.github'', ''workflows''])
                (map fst (rt_entries rt))))
      else [])"

definition workflow_write_risks :: "repo_tree \<Rightarrow> (relative \<times> string) list res" where
  "workflow_write_risks rt =
     res_map (filter (\<lambda>(p, text). has_workflow_write_risk text))
       (mapM (\<lambda>p. res_map (\<lambda>t. (p, t)) (v3_read_text rt p)) (workflow_files rt))"

definition workflow_write_risk_locations :: "repo_tree \<Rightarrow> string list res" where
  "workflow_write_risk_locations rt =
     res_map (map (\<lambda>(p, text). redacted_location p)) (workflow_write_risks rt)"

section \<open>The evidence of the static shape\<close>

record demo_parts =
  dp_evidence_id :: string
  dp_category :: string
  dp_subcategory :: string
  dp_confidence :: string
  dp_present :: bool
  dp_count :: nat
  dp_locations :: "string list"
  dp_summary :: string
  dp_limitations :: "string list"
  dp_residual_risks :: "string list"
  dp_effect :: string
  dp_trust_level :: string
  dp_adapter_name :: string
  dp_execution_mode :: string
  dp_binding_kind :: string
  dp_path_scope :: "string list"
  dp_confidence_reason :: string

definition base_demo_evidence :: "dict \<Rightarrow> demo_parts \<Rightarrow> dict" where
  "base_demo_evidence report p =
     [(''evidence_id'', JStr (dp_evidence_id p)),
      (''schema_version'', JStr ''0.1-draft''),
      (''evidence_kind'', JStr ''repo_health_evidence''),
      (''source'', JObj
        [(''tool_name'', JStr (py_str (dget_or report ''tool'' (JStr ''repo-health-doctor'')))),
         (''tool_version'', JStr (py_str (dget_or report ''version'' (JStr ''unknown'')))),
         (''adapter_name'', JStr (dp_adapter_name p)),
         (''adapter_version'', JStr ''0.1-draft''),
         (''execution_mode'', JStr (dp_execution_mode p))]),
      (''subject'', JObj
        [(''repo_identity'', JStr ''<repo>''), (''commit'', JNull), (''tree_hash'', JNull),
         (''path_scope'', jstrs (if dp_path_scope p = [] then [''<repo>''] else dp_path_scope p)),
         (''binding_kind'', JStr (dp_binding_kind p))]),
      (''classification'', JObj
        [(''category'', JStr (dp_category p)), (''subcategory'', JStr (dp_subcategory p)),
         (''severity'', JStr ''warn''), (''confidence'', JStr (dp_confidence p)),
         (''confidence_reason'', JStr (dp_confidence_reason p))]),
      (''finding'', JObj
        [(''present'', JBool (dp_present p)), (''count'', JInt (int (dp_count p))),
         (''locations'', JList (map (\<lambda>l. JObj [(''path'', JStr l), (''line'', JNull)]) (dp_locations p))),
         (''redacted_summary'', JStr (dp_summary p))]),
      (''raw_handling'', JObj
        [(''raw_output_retained'', JBool False), (''raw_stdout_retained'', JBool False),
         (''raw_stderr_retained'', JBool False), (''redaction_status'', JStr ''validated''),
         (''redaction_failures'', JList [])]),
      (''trust'', JObj
        [(''level'', JStr (dp_trust_level p)), (''commit_bound'', JBool False),
         (''signature_verified'', JBool False), (''binary_attested'', JBool False),
         (''limitations'', jstrs (dp_limitations p))]),
      (''effects'', JObj
        [(''can_lower_risk'', JBool False), (''can_authorize_execution'', JBool False),
         (''recommended_gate_effect'', JStr (dp_effect p))]),
      (''residual_risks'', jstrs (dp_residual_risks p))]"

definition demo_no_finding_evidence :: "dict \<Rightarrow> dict" where
  "demo_no_finding_evidence report = base_demo_evidence report
     \<lparr>dp_evidence_id = ''demo-context-no-finding-but-degraded'', dp_category = ''sandbox_observation'',
      dp_subcategory = ''runtime_observer_missing'', dp_confidence = ''low'', dp_present = False, dp_count = 0,
      dp_locations = [],
      dp_summary = ''No runtime observer evidence is available for this clean static demo.'',
      dp_limitations = [''observer evidence missing for demo context'', ''not_execution_authorization'',
        ''no_finding_is_not_safety_proof''],
      dp_residual_risks = [''runtime_observer_missing'', ''no_finding_not_safety_proof'',
        ''scanner_silence_not_execution_authorization''],
      dp_effect = ''warn'', dp_trust_level = ''schema_validated'', dp_adapter_name = ''demo_context'',
      dp_execution_mode = ''synthetic_fixture'', dp_binding_kind = ''synthetic'', dp_path_scope = [],
      dp_confidence_reason =
        ''safe synthetic demo context; no scanner execution or target code execution performed''\<rparr>"

text \<open>One observation: its group, the tokens it leaves as residual risks and where it was seen.\<close>

record shape_signal =
  ss_group :: string
  ss_tokens :: "string list"
  ss_locations :: "string list"

definition lifecycle_hooks :: "dict \<Rightarrow> string list" where
  "lifecycle_hooks package_payload =
     (case dget package_payload ''scripts'' of
        JObj scripts \<Rightarrow>
          filter (\<lambda>n. case dget scripts n of JStr s \<Rightarrow> py_strip s \<noteq> [] | _ \<Rightarrow> False) install_lifecycle_scripts
      | _ \<Rightarrow> [])"

definition lifecycle_signals :: "dict \<Rightarrow> shape_signal list" where
  "lifecycle_signals package_payload =
     (let hooks = lifecycle_hooks package_payload in
      if hooks = [] then []
      else [\<lparr>ss_group = ''package install lifecycle hook'',
             ss_tokens = [''install_script_execution'', ''package_lifecycle_hook''] @ hooks,
             ss_locations = [''<repo>/package.json'']\<rparr>])"

definition build_hook_signals :: "repo_tree \<Rightarrow> shape_signal list res" where
  "build_hook_signals rt =
     res_map (\<lambda>hook. if hook
         then [\<lparr>ss_group = ''python build hook shape'', ss_tokens = [''python_build_hook'', ''build_hook_candidate''],
                ss_locations = python_build_hook_locations rt\<rparr>] else [])
       (has_python_build_hook rt)"

definition text_signals :: "relative \<times> string \<Rightarrow> shape_signal list" where
  "text_signals pt =
     (let text = snd pt; at_file = [redacted_location (fst pt)] in
      (if has_env_enumeration text
       then [\<lparr>ss_group = ''environment enumeration shape'', ss_tokens = [''environment_access_candidate''],
              ss_locations = at_file\<rparr>] else [])
      @ (if has_credential_path_reference text
         then [\<lparr>ss_group = ''credential path reference shape'', ss_tokens = [''credential_path_reference''],
                ss_locations = at_file\<rparr>] else [])
      @ (if has_outbound_network_shape text
         then [\<lparr>ss_group = ''outbound network target shape'',
                ss_tokens = [''network_request'', ''network_target_string'', ''outbound_network_target''],
                ss_locations = at_file\<rparr>] else [])
      @ (if has_obfuscated_eval_shape text
         then [\<lparr>ss_group = ''obfuscated eval candidate'', ss_tokens = [''obfuscation'', ''dynamic_eval'', ''eval_candidate''],
                ss_locations = at_file\<rparr>] else []))"

definition workflow_tokens :: "string \<Rightarrow> string list" where
  "workflow_tokens text =
     [''workflow_modification'']
     @ (if str_in ''pull_request_target'' text then [''pull_request_target_misuse''] else [])
     @ (if str_in ''github.event.pull_request.head.sha'' text \<or> str_in ''github.event.pull_request.head.ref'' text
        then [''untrusted_checkout''] else [])
     @ (if str_in ''contents: write'' text then [''broad_token_permission''] else [])
     @ (if str_in ''workflows: write'' text \<or> str_in ''actions: write'' text then [''workflow_write_permission''] else [])"

definition workflow_signals :: "repo_tree \<Rightarrow> shape_signal list res" where
  "workflow_signals rt =
     res_map (\<lambda>risks. if risks = [] then []
         else [\<lparr>ss_group = ''workflow write-risk shape'',
                ss_tokens = workflow_tokens (py_join [CHR 10] (map snd risks)),
                ss_locations = map (\<lambda>(p, text). redacted_location p) risks\<rparr>])
       (workflow_write_risks rt)"

definition shape_signals :: "repo_tree \<Rightarrow> shape_signal list res" where
  "shape_signals rt =
     res_bind (v3_load_json rt [''package.json'']) (\<lambda>package_payload.
     res_bind (build_hook_signals rt) (\<lambda>build.
     res_map (\<lambda>workflow.
         lifecycle_signals package_payload @ build @ concat (map text_signals (iter_shape_texts rt)) @ workflow)
       (workflow_signals rt)))"

definition shape_evidence_of :: "dict \<Rightarrow> shape_signal list \<Rightarrow> dict" where
  "shape_evidence_of report signals =
     (let groups = dedupe (map ss_group signals); locations = dedupe (concat (map ss_locations signals)) in
      base_demo_evidence report
        \<lparr>dp_evidence_id = ''static-supply-chain-shape'', dp_category = ''runtime_behavior'',
         dp_subcategory = ''supply_chain_static_shape'', dp_confidence = ''medium'', dp_present = True,
         dp_count = length groups, dp_locations = locations,
         dp_summary = ''Supply-chain static shape: '' @ py_join '', '' groups @ ''.'',
         dp_limitations = [''static shape only; not proof of malicious behavior'', ''not_execution_authorization'',
           ''raw output not retained''],
         dp_residual_risks = dedupe (''supply_chain_static_shape'' # concat (map ss_tokens signals)),
         dp_effect = (if 2 \<le> length groups then ''quarantine'' else ''warn''),
         dp_trust_level = ''redaction_validated'', dp_adapter_name = ''supply_chain_shape_static'',
         dp_execution_mode = ''native_static'', dp_binding_kind = ''path_bound'', dp_path_scope = locations,
         dp_confidence_reason =
           ''bounded static shape evidence; no scanner execution or target code execution performed''\<rparr>)"

definition supply_chain_shape_evidence :: "dict \<Rightarrow> repo_tree \<Rightarrow> dict option res" where
  "supply_chain_shape_evidence report rt =
     res_map (\<lambda>signals. if signals = [] then None else Some (shape_evidence_of report signals)) (shape_signals rt)"

text \<open>Which directory is scanned: the argument, or the path the report names unless it is empty or
  redacted.  \<open>fs\<close> maps a path to the tree found there.\<close>

definition demo_root :: "(string \<Rightarrow> repo_tree) \<Rightarrow> dict \<Rightarrow> repo_tree option \<Rightarrow> repo_tree option" where
  "demo_root fs report repo_root =
     (case repo_root of
        Some rt \<Rightarrow> Some rt
      | None \<Rightarrow>
          (case dget report ''repo_path'' of
             JStr p \<Rightarrow> if p = [] \<or> starts_with p ''<repo'' then None else Some (fs p)
           | _ \<Rightarrow> None))"

definition demo_no_finding_context :: "dict \<Rightarrow> repo_tree \<Rightarrow> (dict list \<times> string list) res" where
  "demo_no_finding_context report rt =
     (if rt_name rt = ''demo-no-finding-but-degraded''
      then res_map (\<lambda>name. if name = Some ''repo-health-doctor-demo-no-finding-but-degraded''
             then ([demo_no_finding_evidence report], [''runtime-observer'']) else ([], []))
           (package_name rt)
      else Inr ([], []))"

definition demo_context_from_v3_report ::
  "(string \<Rightarrow> repo_tree) \<Rightarrow> dict \<Rightarrow> repo_tree option \<Rightarrow> (dict list \<times> string list) res" where
  "demo_context_from_v3_report fs report repo_root =
     (case demo_root fs report repo_root of
        None \<Rightarrow> Inr ([], [])
      | Some rt \<Rightarrow>
          res_bind (demo_no_finding_context report rt) (\<lambda>(evidence, missing).
          res_map (\<lambda>shape. (case shape of None \<Rightarrow> evidence | Some e \<Rightarrow> evidence @ [e], missing))
            (supply_chain_shape_evidence report rt)))"

end
