(* ===== verification/Snapshot_Manifest.thy ===== *)
theory Snapshot_Manifest
  imports Py_Dumps "HOL-Library.Product_Lexorder"
begin

text \<open>
  The manifest of a verified snapshot (sandbox/run_workspace.py): its entries, the copy budget,
  the canonical order, and the two fingerprints, which hash a length-prefixed encoding of the
  ordered entries.  A byte string is a \<open>string\<close>; \<open>utf8\<close> is the encoding of the code points
  below 256.  A refusal (\<open>_SnapshotRefusal\<close>) is a value.
\<close>

section \<open>Text as bytes\<close>

definition utf8_char :: "char \<Rightarrow> string" where
  "utf8_char c = (if code c < 128 then [c] else [char_of (192 + code c div 64), char_of (128 + code c mod 64)])"

definition utf8 :: "string \<Rightarrow> string" where
  "utf8 s = concat (map utf8_char s)"

lemma code_lt: "code c < 256"
  by (simp add: code_def)

lemma code_inj: "code c = code d \<longleftrightarrow> c = d"
  by (simp add: code_def)

lemma code_char_of [simp]: "n < 256 \<Longrightarrow> code (char_of n) = n"
  by (simp add: code_def)

lemma utf8_char_prefix_free:
  assumes "utf8_char c @ x = utf8_char d @ y"
  shows "c = d \<and> x = y"
proof (cases "code c < 128 \<and> code d < 128")
  case True
  with assms show ?thesis by (simp add: utf8_char_def)
next
  case False
  have bound: "192 + code z div 64 < 256" "128 + code z mod 64 < 256" for z
    using code_lt [of z] by simp_all
  have lead: "code (char_of (192 + code z div 64)) = 192 + code z div 64"
    "code (char_of (128 + code z mod 64)) = 128 + code z mod 64" for z
    using bound [of z] by simp_all
  show ?thesis
  proof (cases "code c < 128 \<or> code d < 128")
    case True
    then have False using assms False lead by (auto simp: utf8_char_def split: if_splits)
    then show ?thesis ..
  next
    case both: False
    with assms have "char_of (192 + code c div 64) = (char_of (192 + code d div 64) :: char)"
      and "char_of (128 + code c mod 64) = (char_of (128 + code d mod 64) :: char)" and xy: "x = y"
      by (simp_all add: utf8_char_def)
    then have "code c div 64 = code d div 64" "code c mod 64 = code d mod 64"
      using lead [of c] lead [of d] by (simp_all, metis add_left_cancel, metis add_left_cancel)
    then have "code c = code d" by (metis div_mult_mod_eq)
    with xy show ?thesis by (simp add: code_inj)
  qed
qed

lemma utf8_inj: "utf8 s = utf8 t \<longleftrightarrow> s = t"
proof
  show "utf8 s = utf8 t \<Longrightarrow> s = t"
  proof (induction s arbitrary: t)
    case Nil
    then show ?case by (cases t) (auto simp: utf8_def utf8_char_def split: if_splits)
  next
    case (Cons c s)
    then obtain d t' where t: "t = d # t'"
      by (cases t) (auto simp: utf8_def utf8_char_def split: if_splits)
    with Cons.prems have "utf8_char c @ utf8 s = utf8_char d @ utf8 t'" by (simp add: utf8_def)
    from utf8_char_prefix_free [OF this] Cons.IH t show ?case by blast
  qed
qed simp

section \<open>Entries and budgets\<close>

record manifest_entry =
  me_path :: string
  me_type :: string
  me_mode :: string
  me_size :: int
  me_sha256 :: "string option"

record copy_budget =
  max_file_count :: int
  max_directory_count :: int
  max_depth :: int
  max_total_bytes :: int
  max_file_bytes :: int
  max_relative_path_bytes :: int
  max_manifest_path_bytes :: int

definition default_copy_budget :: copy_budget where
  "default_copy_budget =
     \<lparr>max_file_count = 20000, max_directory_count = 10000, max_depth = 64, max_total_bytes = 250 * 1024 * 1024,
      max_file_bytes = 25 * 1024 * 1024, max_relative_path_bytes = 4096,
      max_manifest_path_bytes = 128 * 1024 * 1024\<rparr>"

definition check_copy_budget :: "copy_budget \<Rightarrow> copy_budget res" where
  "check_copy_budget b =
     (if list_ex (\<lambda>v. v \<le> 0)
           [max_file_count b, max_directory_count b, max_depth b, max_total_bytes b, max_file_bytes b,
            max_relative_path_bytes b, max_manifest_path_bytes b]
      then Inl ValueError else Inr b)"

definition budget_dict :: "copy_budget \<Rightarrow> dict" where
  "budget_dict b =
     [(''max_file_count'', JInt (max_file_count b)), (''max_directory_count'', JInt (max_directory_count b)),
      (''max_depth'', JInt (max_depth b)), (''max_total_bytes'', JInt (max_total_bytes b)),
      (''max_file_bytes'', JInt (max_file_bytes b)), (''max_relative_path_bytes'', JInt (max_relative_path_bytes b)),
      (''max_manifest_path_bytes'', JInt (max_manifest_path_bytes b))]"

definition entry_limit :: "copy_budget \<Rightarrow> int" where
  "entry_limit b = max_file_count b + max_directory_count b"

text \<open>How a step of the intake fails: a \<open>_SnapshotRefusal\<close> with its reason and path, an \<open>OSError\<close> with its
  file name, or another exception.\<close>

datatype refusal = Refusal string "string option" | OsFailure "string option" | Raised pyexc

section \<open>The canonical order\<close>

definition path_bytes :: "manifest_entry \<Rightarrow> int" where
  "path_bytes e = int (length (utf8 (me_path e)))"

text \<open>The first loop: the number of entries, the length of each path and their running sum.\<close>

fun manifest_budget_check :: "copy_budget \<Rightarrow> int \<Rightarrow> int \<Rightarrow> manifest_entry list \<Rightarrow> refusal option" where
  "manifest_budget_check b n used [] = None"
| "manifest_budget_check b n used (e # es) =
     (if n + 1 > entry_limit b then Some (Refusal ''max_manifest_entry_count'' None)
      else if path_bytes e > max_relative_path_bytes b then Some (Refusal ''max_relative_path_bytes'' (Some (me_path e)))
      else if used + path_bytes e > max_manifest_path_bytes b
      then Some (Refusal ''max_manifest_path_bytes'' (Some (me_path e)))
      else manifest_budget_check b (n + 1) (used + path_bytes e) es)"

text \<open>The last loop: neighbours with the same path.\<close>

fun duplicate_check :: "manifest_entry list \<Rightarrow> refusal option" where
  "duplicate_check (a # e # es) =
     (if me_path e = me_path a
      then Some (Refusal (if me_type e \<noteq> me_type a then ''manifest_path_type_collision'' else ''manifest_duplicate_path'')
                   (Some (me_path e)))
      else duplicate_check (e # es))"
| "duplicate_check _ = None"

definition manifest_key :: "manifest_entry \<Rightarrow> string \<times> string" where
  "manifest_key e = (utf8 (me_path e), me_type e)"

definition sort_manifest :: "copy_budget \<Rightarrow> manifest_entry list \<Rightarrow> refusal + manifest_entry list" where
  "sort_manifest b es =
     (case manifest_budget_check b 0 0 es of
        Some r \<Rightarrow> Inl r
      | None \<Rightarrow>
          (let sorted_entries = sort_key manifest_key es in
           case duplicate_check sorted_entries of Some r \<Rightarrow> Inl r | None \<Rightarrow> Inr sorted_entries))"

section \<open>The encoding that is hashed\<close>

definition hash_length_prefixed :: "string \<Rightarrow> string" where
  "hash_length_prefixed v = map char_of (be_bytes 8 (length v)) @ v"

text \<open>The values of the fields: an optional text or a number.\<close>

datatype field_value = FNull | FText string | FNumber int

definition hash_canonical_field :: "string \<Rightarrow> field_value \<Rightarrow> string" where
  "hash_canonical_field field_name v =
     ''field'' @ [CHR 0x00] @ hash_length_prefixed field_name
     @ (case v of
          FNull \<Rightarrow> ''null'' @ [CHR 0x00]
        | FNumber i \<Rightarrow> ''int'' @ [CHR 0x00] @ hash_length_prefixed (int_text i)
        | FText s \<Rightarrow> ''str'' @ [CHR 0x00] @ hash_length_prefixed (utf8 s))"

definition sha_field :: "string option \<Rightarrow> field_value" where
  "sha_field s = (case s of None \<Rightarrow> FNull | Some t \<Rightarrow> FText t)"

definition encode_entry :: "manifest_entry \<Rightarrow> string" where
  "encode_entry e =
     ''entry'' @ [CHR 0x00]
     @ hash_canonical_field ''entry_type'' (FText (me_type e))
     @ hash_canonical_field ''mode'' (FText (me_mode e))
     @ hash_canonical_field ''path'' (FText (me_path e))
     @ hash_canonical_field ''sha256'' (sha_field (me_sha256 e))
     @ hash_canonical_field ''size'' (FNumber (me_size e))"

definition snapshot_schema_version :: string where "snapshot_schema_version = ''1.0''"

definition copy_policy_version :: string where "copy_policy_version = ''verified-snapshot-copy-policy-v1''"

definition encode_manifest :: "string \<Rightarrow> manifest_entry list \<Rightarrow> string" where
  "encode_manifest label es =
     label @ [CHR 0x00]
     @ hash_canonical_field ''schema_version'' (FText snapshot_schema_version)
     @ hash_canonical_field ''copy_policy_version'' (FText copy_policy_version)
     @ concat (map encode_entry es)"

definition manifest_label :: string where "manifest_label = ''repo-health-doctor-verified-snapshot-manifest-v2''"

definition snapshot_id_label :: string where "snapshot_id_label = ''repo-health-doctor-verified-snapshot-id-v2''"

definition manifest_identity ::
  "copy_budget \<Rightarrow> manifest_entry list \<Rightarrow> refusal + manifest_entry list \<times> string \<times> string" where
  "manifest_identity b es =
     (case sort_manifest b es of
        Inl r \<Rightarrow> Inl r
      | Inr sorted_entries \<Rightarrow>
          Inr (sorted_entries, sha256_label (encode_manifest snapshot_id_label sorted_entries),
               sha256_label (encode_manifest manifest_label sorted_entries)))"

section \<open>The encoding loses nothing\<close>

text \<open>Every field is shorter than \<open>2 ^ 64\<close> bytes: \<open>int.to_bytes\<close> raises otherwise.\<close>

definition encodable :: "manifest_entry \<Rightarrow> bool" where
  "encodable e \<longleftrightarrow> list_all (\<lambda>s. length s < 2 ^ 64)
     [utf8 (me_type e), utf8 (me_mode e), utf8 (me_path e), int_text (me_size e),
      case me_sha256 e of None \<Rightarrow> [] | Some s \<Rightarrow> utf8 s]"

lemma encodable_code [code]:
  "encodable e \<longleftrightarrow> list_all (\<lambda>s. int (length s) < 18446744073709551616)
     [utf8 (me_type e), utf8 (me_mode e), utf8 (me_path e), int_text (me_size e),
      case me_sha256 e of None \<Rightarrow> [] | Some s \<Rightarrow> utf8 s]"
  by (simp add: encodable_def del: int_text_def)

lemma be_bytes_length [simp]: "length (be_bytes k n) = k"
  by (simp add: be_bytes_def)

lemma be_bytes_Suc: "be_bytes (Suc k) n = be_bytes k (n div 256) @ [n mod 256]"
proof (rule nth_equalityI)
  fix i assume "i < length (be_bytes (Suc k) n)"
  then have i: "i < Suc k" by simp
  show "be_bytes (Suc k) n ! i = (be_bytes k (n div 256) @ [n mod 256]) ! i"
  proof (cases "i < k")
    case True
    then have "k - i = Suc (k - 1 - i)" by simp
    then have "n div 256 ^ (k - i) = n div 256 div 256 ^ (k - 1 - i)" by (simp add: div_mult2_eq)
    with True i show ?thesis by (simp add: be_bytes_def nth_append del: upt_Suc)
  next
    case False
    with i have "i = k" by simp
    then show ?thesis by (simp add: be_bytes_def nth_append del: upt_Suc)
  qed
qed simp

lemma be_bytes_inj: "m < 256 ^ k \<Longrightarrow> n < 256 ^ k \<Longrightarrow> be_bytes k m = be_bytes k n \<Longrightarrow> m = n"
proof (induction k arbitrary: m n)
  case (Suc k)
  from Suc.prems have "be_bytes k (m div 256) = be_bytes k (n div 256)" and low: "m mod 256 = n mod 256"
    by (simp_all add: be_bytes_Suc)
  with Suc.IH [of "m div 256" "n div 256"] Suc.prems have "m div 256 = n div 256"
    by (simp add: less_mult_imp_div_less mult.commute)
  with low show ?case by (metis div_mult_mod_eq)
qed simp

lemma be_bytes_small: "x \<in> set (be_bytes k n) \<Longrightarrow> x < 256"
  by (auto simp: be_bytes_def)

lemma char_of_bytes_inj: "map char_of xs = (map char_of ys :: string) \<Longrightarrow> \<forall>x\<in>set (xs @ ys). x < (256::nat) \<Longrightarrow> xs = ys"
proof (induction xs arbitrary: ys)
  case (Cons x xs)
  then obtain y ys' where ys: "ys = y # ys'" by (cases ys) auto
  with Cons.prems have "(char_of x :: char) = char_of y" "x < 256" "y < 256" by simp_all
  then have "x = y" by (metis code_char_of)
  with Cons ys show ?case by simp
qed simp

text \<open>A length-prefixed text can be taken off the front in one way only.\<close>

lemma length_prefixed_prefix_free:
  assumes "hash_length_prefixed v @ x = hash_length_prefixed w @ y" and "length v < 2 ^ 64" and "length w < 2 ^ 64"
  shows "v = w \<and> x = y"
proof -
  from assms(1) have heads: "map char_of (be_bytes 8 (length v)) = (map char_of (be_bytes 8 (length w)) :: string)"
    and tails: "v @ x = w @ y"
    by (simp_all add: hash_length_prefixed_def append_eq_append_conv)
  from char_of_bytes_inj [OF heads] be_bytes_small have "be_bytes 8 (length v) = be_bytes 8 (length w)" by auto
  with be_bytes_inj [of "length v" 8] assms(2,3) have "length v = length w" by simp
  with tails show ?thesis by simp
qed

lemma nat_text_unsigned: "nat_text n \<noteq> CHR ''-'' # s"
proof -
  have "is_digit (hd (nat_text n))"
    using nat_text_digits [of n] hd_in_set [OF nat_text_nonempty, of n] by blast
  then have "hd (nat_text n) \<noteq> CHR ''-''" by (auto simp: is_digit_def in_range_def code_def)
  then show ?thesis by (metis list.sel(1))
qed

lemma int_text_inj: "int_text i = int_text j \<longleftrightarrow> i = j"
  using nat_text_unsigned [symmetric]
  by (auto simp: int_text_def nat_text_inj nat_text_unsigned simp del: nat_text.simps)

fun field_short :: "field_value \<Rightarrow> bool" where
  "field_short FNull = True"
| "field_short (FText s) = (length (utf8 s) < 2 ^ 64)"
| "field_short (FNumber i) = (length (int_text i) < 2 ^ 64)"

lemma field_prefix_free:
  assumes "hash_canonical_field n v @ x = hash_canonical_field n w @ y" and "field_short v" and "field_short w"
  shows "v = w \<and> x = y"
  using assms
  by (cases v; cases w)
    (auto simp: hash_canonical_field_def utf8_inj int_text_inj dest: length_prefixed_prefix_free)

lemma encodable_fields:
  assumes "encodable e"
  shows "field_short (FText (me_type e))" "field_short (FText (me_mode e))" "field_short (FText (me_path e))"
    "field_short (sha_field (me_sha256 e))" "field_short (FNumber (me_size e))"
  using assms by (simp_all add: encodable_def sha_field_def split: option.splits)

lemma sha_field_inj: "sha_field s = sha_field t \<longleftrightarrow> s = t"
  by (simp add: sha_field_def split: option.splits)

lemma entry_prefix_free:
  assumes "encode_entry e @ x = encode_entry f @ y" and e: "encodable e" and f: "encodable f"
  shows "e = f \<and> x = y"
proof -
  note fields = encodable_fields [OF e] encodable_fields [OF f]
  from assms(1) have 1: "hash_canonical_field ''entry_type'' (FText (me_type e))
      @ hash_canonical_field ''mode'' (FText (me_mode e)) @ hash_canonical_field ''path'' (FText (me_path e))
      @ hash_canonical_field ''sha256'' (sha_field (me_sha256 e)) @ hash_canonical_field ''size'' (FNumber (me_size e)) @ x
    = hash_canonical_field ''entry_type'' (FText (me_type f))
      @ hash_canonical_field ''mode'' (FText (me_mode f)) @ hash_canonical_field ''path'' (FText (me_path f))
      @ hash_canonical_field ''sha256'' (sha_field (me_sha256 f)) @ hash_canonical_field ''size'' (FNumber (me_size f)) @ y"
    by (simp add: encode_entry_def)
  from field_prefix_free [OF 1 fields(1,6)] have t: "me_type e = me_type f"
    and 2: "hash_canonical_field ''mode'' (FText (me_mode e)) @ hash_canonical_field ''path'' (FText (me_path e))
      @ hash_canonical_field ''sha256'' (sha_field (me_sha256 e)) @ hash_canonical_field ''size'' (FNumber (me_size e)) @ x
    = hash_canonical_field ''mode'' (FText (me_mode f)) @ hash_canonical_field ''path'' (FText (me_path f))
      @ hash_canonical_field ''sha256'' (sha_field (me_sha256 f)) @ hash_canonical_field ''size'' (FNumber (me_size f)) @ y"
    by simp_all
  from field_prefix_free [OF 2 fields(2,7)] have m: "me_mode e = me_mode f"
    and 3: "hash_canonical_field ''path'' (FText (me_path e))
      @ hash_canonical_field ''sha256'' (sha_field (me_sha256 e)) @ hash_canonical_field ''size'' (FNumber (me_size e)) @ x
    = hash_canonical_field ''path'' (FText (me_path f))
      @ hash_canonical_field ''sha256'' (sha_field (me_sha256 f)) @ hash_canonical_field ''size'' (FNumber (me_size f)) @ y"
    by simp_all
  from field_prefix_free [OF 3 fields(3,8)] have p: "me_path e = me_path f"
    and 4: "hash_canonical_field ''sha256'' (sha_field (me_sha256 e))
      @ hash_canonical_field ''size'' (FNumber (me_size e)) @ x
    = hash_canonical_field ''sha256'' (sha_field (me_sha256 f))
      @ hash_canonical_field ''size'' (FNumber (me_size f)) @ y"
    by simp_all
  from field_prefix_free [OF 4 fields(4,9)] have d: "me_sha256 e = me_sha256 f"
    and 5: "hash_canonical_field ''size'' (FNumber (me_size e)) @ x = hash_canonical_field ''size'' (FNumber (me_size f)) @ y"
    by (simp_all add: sha_field_inj)
  from field_prefix_free [OF 5 fields(5,10)] t m p d show ?thesis by simp
qed

lemma encode_entry_nonempty: "encode_entry e \<noteq> []"
  by (simp add: encode_entry_def)

lemma encode_entries_inj:
  assumes "concat (map encode_entry es) = concat (map encode_entry fs)"
    and "\<forall>e\<in>set es. encodable e" and "\<forall>f\<in>set fs. encodable f"
  shows "es = fs"
  using assms
proof (induction es arbitrary: fs)
  case Nil
  then show ?case by (cases fs) (simp_all add: encode_entry_nonempty)
next
  case (Cons e es)
  then obtain f fs' where fs: "fs = f # fs'" by (cases fs) (simp_all add: encode_entry_nonempty)
  with Cons.prems entry_prefix_free [of e "concat (map encode_entry es)" f "concat (map encode_entry fs')"]
  have "e = f" "concat (map encode_entry es) = concat (map encode_entry fs')" by simp_all
  with Cons.IH [of fs'] Cons.prems fs show ?case by simp
qed

section \<open>The canonical order\<close>

lemma path_bytes_nonneg [simp]: "0 \<le> path_bytes e"
  by (simp add: path_bytes_def)

lemma path_bytes_sum_nonneg [simp]: "0 \<le> sum_list (map path_bytes es)"
  by (induction es) simp_all

lemma manifest_budget_check_None:
  "manifest_budget_check b n used es = None \<longleftrightarrow>
     es = [] \<or> (n + int (length es) \<le> entry_limit b
       \<and> (\<forall>e\<in>set es. path_bytes e \<le> max_relative_path_bytes b)
       \<and> used + sum_list (map path_bytes es) \<le> max_manifest_path_bytes b)"
proof (induction es arbitrary: n used)
  case (Cons e es)
  have mono: "used + path_bytes e + sum_list (map path_bytes es) \<le> max_manifest_path_bytes b
      \<Longrightarrow> used + path_bytes e \<le> max_manifest_path_bytes b"
    using path_bytes_sum_nonneg [of es] by linarith
  show ?case
    by (cases "es = []") (use Cons mono in \<open>auto simp: add.assoc\<close>)
qed simp

lemma manifest_budget_check_perm:
  assumes "mset es = mset fs"
  shows "manifest_budget_check b n used es = None \<longleftrightarrow> manifest_budget_check b n used fs = None"
proof -
  from assms have "length es = length fs" "set es = set fs" "es = [] \<longleftrightarrow> fs = []"
    by (auto dest: mset_eq_length mset_eq_setD)
  moreover from assms have "sum_list (map path_bytes es) = sum_list (map path_bytes fs)"
    by (metis mset_map sum_mset_sum_list)
  ultimately show ?thesis by (simp only: manifest_budget_check_None)
qed

lemma duplicate_check_distinct:
  assumes "sorted (map manifest_key es)" and "duplicate_check es = None"
  shows "distinct (map me_path es)"
  using assms
proof (induction es rule: duplicate_check.induct)
  case (1 a e es)
  then have IH: "distinct (map me_path (e # es))" and ne: "me_path e \<noteq> me_path a"
    by (simp_all split: if_splits)
  have "me_path a \<noteq> me_path x" if x: "x \<in> set es" for x
  proof
    assume eq: "me_path a = me_path x"
    from 1 x have "manifest_key a \<le> manifest_key e" "manifest_key e \<le> manifest_key x" by simp_all
    with eq have "utf8 (me_path e) = utf8 (me_path a)"
      by (auto simp: manifest_key_def less_eq_prod_def)
    with ne show False by (simp add: utf8_inj)
  qed
  with IH ne show ?case by auto
qed simp_all

lemma sort_manifest_unfold:
  "sort_manifest b es = Inr ss \<longleftrightarrow>
     manifest_budget_check b 0 0 es = None \<and> ss = sort_key manifest_key es \<and> duplicate_check ss = None"
  by (auto simp: sort_manifest_def Let_def split: option.splits)

lemma sort_manifest_facts:
  assumes "sort_manifest b es = Inr ss"
  shows "mset ss = mset es \<and> sorted (map manifest_key ss) \<and> distinct (map me_path ss)"
  using assms duplicate_check_distinct [of ss] by (auto simp: sort_manifest_unfold)

lemma sort_manifest_perm:
  assumes "sort_manifest b es = Inr ss" and "mset fs = mset es"
  shows "sort_manifest b fs = Inr ss"
proof -
  from sort_manifest_facts [OF assms(1)] have ss: "mset ss = mset es" "sorted (map manifest_key ss)"
    "distinct (map me_path ss)" by simp_all
  have "inj_on manifest_key (set fs)"
  proof (rule inj_onI)
    fix x y assume "x \<in> set fs" "y \<in> set fs" and key: "manifest_key x = manifest_key y"
    then have "x \<in> set ss" "y \<in> set ss" using ss(1) assms(2) by (metis mset_eq_setD)+
    moreover from key have "me_path x = me_path y" by (simp add: manifest_key_def utf8_inj)
    ultimately show "x = y" using ss(3) by (meson distinct_map inj_onD)
  qed
  moreover from ss(1) assms(2) have "mset fs = mset ss" by simp
  ultimately have "sort_key manifest_key fs = ss" using ss(2) by (intro sort_key_inj_key_eq)
  moreover from assms(1) have "manifest_budget_check b 0 0 es = None" "duplicate_check ss = None"
    unfolding sort_manifest_unfold by blast+
  ultimately show ?thesis using manifest_budget_check_perm [OF assms(2)] unfolding sort_manifest_unfold by simp
qed

section \<open>Properties\<close>

text \<open>C39: the hashed encoding of a manifest determines the manifest: two manifests with the same
  encoding have the same entries in the same order, so equal fingerprints of different manifests
  are a collision of the hash function itself.\<close>

theorem manifest_encoding_injective:
  assumes "encode_manifest label es = encode_manifest label fs"
    and "\<forall>e\<in>set es. encodable e" and "\<forall>f\<in>set fs. encodable f"
  shows "es = fs"
  using assms encode_entries_inj by (simp add: encode_manifest_def)

text \<open>the identity of a snapshot does not depend on the order in which its entries were found:
  every permutation of the entries has the same ordered manifest and the same two fingerprints;
  the ordered manifest has the entries that were found, in increasing byte order of their paths
  and no path twice.\<close>

theorem manifest_identity_canonical:
  assumes "manifest_identity b es = Inr (ss, snapshot_id, fingerprint)" and "mset fs = mset es"
  shows "manifest_identity b fs = Inr (ss, snapshot_id, fingerprint) \<and> mset ss = mset es
    \<and> sorted (map manifest_key ss) \<and> distinct (map me_path ss)"
proof -
  from assms(1) have ss: "sort_manifest b es = Inr ss"
    by (auto simp: manifest_identity_def split: sum.splits)
  from sort_manifest_perm [OF ss assms(2)] assms(1) ss sort_manifest_facts [OF ss] show ?thesis
    by (simp add: manifest_identity_def)
qed

definition sample_entries :: "manifest_entry list" where
  "sample_entries =
     [\<lparr>me_path = ''src/a.py'', me_type = ''file'', me_mode = ''100644'', me_size = 3, me_sha256 = Some ''ab''\<rparr>,
      \<lparr>me_path = ''src'', me_type = ''directory'', me_mode = ''040755'', me_size = 0, me_sha256 = None\<rparr>]"

theorem manifest_encoding_injective_witness:
  "encode_manifest manifest_label sample_entries \<noteq> encode_manifest manifest_label (rev sample_entries)"
proof
  assume eq: "encode_manifest manifest_label sample_entries = encode_manifest manifest_label (rev sample_entries)"
  have ok: "list_all encodable sample_entries" "list_all encodable (rev sample_entries)" by code_simp+
  from manifest_encoding_injective [OF eq] ok have "sample_entries = rev sample_entries"
    by (simp only: list_all_iff)
  then show False by (simp add: sample_entries_def)
qed

theorem manifest_identity_canonical_witness:
  "\<exists>i f. manifest_identity default_copy_budget sample_entries = Inr (rev sample_entries, i, f)
     \<and> manifest_identity default_copy_budget (rev sample_entries) = Inr (rev sample_entries, i, f)"
proof -
  have "sort_manifest default_copy_budget sample_entries = Inr (rev sample_entries)" by code_simp
  then obtain i f where r: "manifest_identity default_copy_budget sample_entries = Inr (rev sample_entries, i, f)"
    by (simp add: manifest_identity_def)
  from manifest_identity_canonical [OF r, of "rev sample_entries"] r show ?thesis by simp
qed

end
