(* ===== verification/Snapshot_Copy.thy ===== *)
theory Snapshot_Copy
  imports Snapshot_Manifest
begin

text \<open>
  Copying a source tree into a snapshot (sandbox/run_workspace.py): the walk with its budgets,
  exclusions and refusals, the copy of one file with its race checks, and the inventory that
  reads the copy back.  The operating system's answers are the input: an \<open>os_node\<close> says what
  \<open>lstat\<close>, \<open>open\<close>, \<open>fstat\<close> and the reads answered for a directory entry.  The counters of the
  walk survive a refusal, so a walk returns a refusal or a value together with the state.
\<close>

section \<open>Names that are left out\<close>

definition directory_exclusions :: "(string \<times> string) list" where
  "directory_exclusions =
     [(''.git'', ''vcs_metadata''), (''.venv'', ''virtualenv''), (''venv'', ''virtualenv''),
      (''node_modules'', ''dependency_tree''), (''.mypy_cache'', ''cache''), (''.pytest_cache'', ''cache''),
      (''__pycache__'', ''cache''), (''.ruff_cache'', ''cache''), (''.tox'', ''cache''), (''.nox'', ''cache''),
      (''dist'', ''build_output''), (''build'', ''build_output''), (''logs'', ''generated_output''),
      (''log'', ''generated_output''), (''.cache'', ''cache''), (''.aws'', ''credential_like''),
      (''.azure'', ''credential_like''), (''.gcp'', ''credential_like''), (''.gnupg'', ''credential_like''),
      (''.ssh'', ''credential_like''), (''.kube'', ''credential_like''), (''.config/gcloud'', ''credential_like''),
      (''.idea'', ''ide_metadata''), (''.vscode'', ''ide_metadata''), (''.history'', ''history''),
      (''.Trash'', ''os_metadata''), (CHR 36 # ''RECYCLE.BIN'', ''os_metadata''), (''coverage'', ''coverage_artifact''),
      (''htmlcov'', ''coverage_artifact''), (''.coverage'', ''coverage_artifact'')]"

definition file_exclusions :: "(string \<times> string) list" where
  "file_exclusions =
     [(''.env'', ''credential_like''), (''.bash_history'', ''history''), (''.zsh_history'', ''history''),
      (''.python_history'', ''history''), (''.psql_history'', ''history''), (''.mysql_history'', ''history''),
      (''.npmrc'', ''credential_like''), (''.pypirc'', ''credential_like''), (''.netrc'', ''credential_like''),
      (''.git-credentials'', ''credential_like''), (''.gitconfig'', ''credential_like''),
      (''credentials'', ''credential_like''), (''.DS_Store'', ''os_metadata''), (''Thumbs.db'', ''os_metadata''),
      (''Desktop.ini'', ''os_metadata''), (''.coverage'', ''coverage_artifact'')]"

definition file_suffix_exclusions :: "(string \<times> string) list" where
  "file_suffix_exclusions =
     [(''.pyc'', ''bytecode''), (''.pyo'', ''bytecode''), ('':Zone.Identifier'', ''os_metadata''),
      (''.cover'', ''coverage_artifact''), (''.lcov'', ''coverage_artifact'')]"

definition authorization_control_filename :: string where
  "authorization_control_filename = ''.repo-health-doctor.authorization.json''"

definition file_exclusion_category :: "string \<Rightarrow> string option" where
  "file_exclusion_category name =
     (if name = ''.git'' then Some ''vcs_metadata''
      else if name = authorization_control_filename \<or> starts_with name (authorization_control_filename @ ''.'')
      then Some ''control_plane_artifact''
      else if starts_with name ''.env.'' then Some ''credential_like''
      else (case map_of file_exclusions name of
              Some category \<Rightarrow> Some category
            | None \<Rightarrow> map_option snd (find (\<lambda>(suff, category). ends_with name suff) file_suffix_exclusions)))"

text \<open>\<open>s.split(sep)\<close> for one separator character.\<close>

fun split_on :: "char \<Rightarrow> string \<Rightarrow> string list" where
  "split_on sep [] = [[]]"
| "split_on sep (c # s) =
     (if c = sep then [] # split_on sep s
      else (case split_on sep s of [] \<Rightarrow> [[c]] | w # ws \<Rightarrow> (c # w) # ws))"

definition path_exclusion_category :: "string \<Rightarrow> string \<Rightarrow> string option" where
  "path_exclusion_category rel name =
     (case List.map_filter (map_of directory_exclusions) (butlast (split_on (CHR ''/'') rel)) of
        category # cs \<Rightarrow> Some category
      | [] \<Rightarrow> file_exclusion_category name)"

definition validate_relative_path :: "string \<Rightarrow> copy_budget \<Rightarrow> refusal option" where
  "validate_relative_path rel b =
     (if rel = [] \<or> starts_with rel ''/'' \<or> CHR 92 \<in> set rel then Some (Refusal ''relative_path_invalid'' None)
      else if list_ex (\<lambda>part. part \<in> {'''', ''.'', ''..''}) (split_on (CHR ''/'') rel)
      then Some (Refusal ''relative_path_invalid'' None)
      else if int (length (utf8 rel)) > max_relative_path_bytes b then Some (Refusal ''max_relative_path_bytes'' None)
      else None)"

section \<open>What the operating system answers\<close>

datatype file_kind = Regular | Directory_kind | Link_kind | Other_kind

record file_stat =
  st_kind :: file_kind
  st_dev :: int
  st_ino :: int
  st_perm :: nat
  st_size :: int
  st_mtime_ns :: int
  st_ctime_ns :: int

text \<open>The answers while one file is copied: opening it without following a link may fail; the
  chunks of the first and of the second read; \<open>fstat\<close> of the source after each and of the
  copy.\<close>

record file_reads =
  fr_opened :: "file_stat option"
  fr_chunks :: "string list"
  fr_after :: file_stat
  fr_copy :: file_stat
  fr_chunks_again :: "string list"
  fr_validated :: file_stat

datatype os_node =
    LstatFails
  | Link
  | SpecialFile
  | RegularFile file_stat file_reads
  | Directory file_stat "file_stat option" "(string \<times> os_node) list" file_stat

definition same_identity :: "file_stat \<Rightarrow> file_stat \<Rightarrow> bool" where
  "same_identity a b \<longleftrightarrow> st_dev a = st_dev b \<and> st_ino a = st_ino b"

definition same_file_metadata :: "file_stat \<Rightarrow> file_stat \<Rightarrow> bool" where
  "same_file_metadata a b \<longleftrightarrow> same_identity a b \<and> st_kind a = Regular \<and> st_kind b = Regular
     \<and> st_perm a = st_perm b \<and> st_size a = st_size b \<and> st_mtime_ns a = st_mtime_ns b
     \<and> st_ctime_ns a = st_ctime_ns b"

definition same_directory :: "file_stat \<Rightarrow> file_stat \<Rightarrow> bool" where
  "same_directory a b \<longleftrightarrow> same_identity a b \<and> st_kind a = Directory_kind \<and> st_kind b = Directory_kind
     \<and> st_mtime_ns a = st_mtime_ns b \<and> st_ctime_ns a = st_ctime_ns b"

text \<open>\<open>mode & 0o111\<close>: one of the three execute bits.\<close>

definition canonical_file_mode :: "nat \<Rightarrow> string" where
  "canonical_file_mode perm = (if odd perm \<or> odd (perm div 8) \<or> odd (perm div 64) then ''100755'' else ''100644'')"

section \<open>The state of a walk\<close>

record copy_state =
  cs_files_copied :: int
  cs_files_examined :: int
  cs_total_bytes :: int
  cs_directories :: int
  cs_entries :: int
  cs_path_bytes :: int
  cs_excluded :: "(string \<times> int) list"
  cs_symlinks :: "string list"
  cs_exceeded :: bool
  cs_exceeded_reason :: "string option"

type_synonym 'a walk = "copy_state \<Rightarrow> (refusal + 'a) \<times> copy_state"

definition walk_return :: "'a \<Rightarrow> 'a walk" where
  "walk_return x s = (Inr x, s)"

definition walk_bind :: "'a walk \<Rightarrow> ('a \<Rightarrow> 'b walk) \<Rightarrow> 'b walk" where
  "walk_bind m f s = (case m s of (Inl r, s') \<Rightarrow> (Inl r, s') | (Inr x, s') \<Rightarrow> f x s')"

definition walk_update :: "(copy_state \<Rightarrow> copy_state) \<Rightarrow> unit walk" where
  "walk_update f s = (Inr (), f s)"

definition refuse_walk :: "string \<Rightarrow> string option \<Rightarrow> 'a walk" where
  "refuse_walk why rel s = (Inl (Refusal why rel), s)"

definition lift_check :: "refusal option \<Rightarrow> unit walk" where
  "lift_check c s = (case c of Some r \<Rightarrow> (Inl r, s) | None \<Rightarrow> (Inr (), s))"

fun count_category :: "(string \<times> int) list \<Rightarrow> string \<Rightarrow> (string \<times> int) list" where
  "count_category [] category = [(category, 1)]"
| "count_category ((c, n) # counts) category =
     (if c = category then (c, n + 1) # counts else (c, n) # count_category counts category)"

definition tally :: "string \<Rightarrow> copy_state \<Rightarrow> copy_state" where
  "tally category s = s\<lparr>cs_excluded := count_category (cs_excluded s) category\<rparr>"

definition budget_refusal :: "string \<Rightarrow> string option \<Rightarrow> 'a walk" where
  "budget_refusal why rel s =
     (Inl (Refusal why rel), tally ''copy_budget_exceeded'' (s\<lparr>cs_exceeded := True, cs_exceeded_reason := Some why\<rparr>))"

definition stop_if :: "(copy_state \<Rightarrow> bool) \<Rightarrow> string \<Rightarrow> string option \<Rightarrow> unit walk" where
  "stop_if c why rel s = (if c s then budget_refusal why rel s else (Inr (), s))"

definition register_manifest_path :: "copy_budget \<Rightarrow> string \<Rightarrow> unit walk" where
  "register_manifest_path b rel s =
     (let next_total = cs_path_bytes s + int (length (utf8 rel)) in
      if next_total > max_manifest_path_bytes b then budget_refusal ''max_manifest_path_bytes'' (Some rel) s
      else (Inr (), s\<lparr>cs_path_bytes := next_total\<rparr>))"

definition register_file_examined :: "copy_budget \<Rightarrow> string \<Rightarrow> unit walk" where
  "register_file_examined b rel =
     walk_bind (walk_update (\<lambda>s. s\<lparr>cs_files_examined := cs_files_examined s + 1\<rparr>)) (\<lambda>_.
     stop_if (\<lambda>s. cs_files_examined s > max_file_count b) ''max_file_count'' (Some rel))"

definition preflight_file_budget_values :: "copy_budget \<Rightarrow> string \<Rightarrow> int \<Rightarrow> int \<Rightarrow> int \<Rightarrow> unit walk" where
  "preflight_file_budget_values b rel file_size next_file_count next_total_bytes =
     walk_bind (stop_if (\<lambda>_. file_size > max_file_bytes b) ''max_file_bytes'' (Some rel)) (\<lambda>_.
     walk_bind (stop_if (\<lambda>_. next_file_count > max_file_count b) ''max_file_count'' (Some rel)) (\<lambda>_.
     stop_if (\<lambda>_. next_total_bytes > max_total_bytes b) ''max_total_bytes'' (Some rel)))"

definition preflight_file_budget :: "copy_budget \<Rightarrow> string \<Rightarrow> int \<Rightarrow> unit walk" where
  "preflight_file_budget b rel file_size s =
     preflight_file_budget_values b rel file_size (cs_files_examined s) (cs_total_bytes s + file_size) s"

section \<open>One file\<close>

text \<open>What is in the copy.\<close>

datatype copied = CopiedFile string string | CopiedDir "(string \<times> copied) list"

definition total_length :: "string list \<Rightarrow> int" where
  "total_length chunks = int (length (concat chunks))"

definition copy_regular_file :: "string \<Rightarrow> file_stat \<Rightarrow> file_reads \<Rightarrow> refusal + manifest_entry \<times> copied" where
  "copy_regular_file rel before reads =
     (case fr_opened reads of
        None \<Rightarrow> Inl (Refusal ''source_open_no_follow_failed'' (Some rel))
      | Some opened \<Rightarrow>
          if \<not> same_file_metadata before opened then Inl (Refusal ''source_file_swap_detected'' (Some rel))
          else if total_length (fr_chunks reads) > st_size before
          then Inl (Refusal ''source_file_grew_during_copy'' (Some rel))
          else if total_length (fr_chunks reads) \<noteq> st_size before
            \<or> \<not> same_file_metadata before (fr_after reads)
            \<or> total_length (fr_chunks_again reads) \<noteq> total_length (fr_chunks reads)
            \<or> sha256_hexdigest (concat (fr_chunks_again reads)) \<noteq> sha256_hexdigest (concat (fr_chunks reads))
            \<or> \<not> same_file_metadata (fr_after reads) (fr_validated reads)
            \<or> st_kind (fr_copy reads) \<noteq> Regular
            \<or> st_size (fr_copy reads) \<noteq> total_length (fr_chunks reads)
          then Inl (Refusal ''source_file_mutated_during_copy'' (Some rel))
          else Inr (\<lparr>me_path = rel, me_type = ''file'', me_mode = canonical_file_mode (st_perm before),
                     me_size = st_size before, me_sha256 = Some (sha256_hexdigest (concat (fr_chunks reads)))\<rparr>,
                    CopiedFile (concat (fr_chunks reads)) (canonical_file_mode (st_perm before))))"

definition lift_result :: "(refusal + 'a) \<Rightarrow> 'a walk" where
  "lift_result r s = (r, s)"

section \<open>The walk\<close>

definition directory_entry :: "string \<Rightarrow> manifest_entry" where
  "directory_entry rel = \<lparr>me_path = rel, me_type = ''directory'', me_mode = ''040755'', me_size = 0, me_sha256 = None\<rparr>"

text \<open>What is done for every entry before its kind is looked at, and for a file.\<close>

definition begin_entry :: "copy_budget \<Rightarrow> string \<Rightarrow> unit walk" where
  "begin_entry b rel =
     walk_bind (walk_update (\<lambda>s. s\<lparr>cs_entries := cs_entries s + 1\<rparr>)) (\<lambda>_.
     walk_bind (lift_check (validate_relative_path rel b)) (\<lambda>_. register_manifest_path b rel))"

definition copy_file_entry ::
  "copy_budget \<Rightarrow> string \<Rightarrow> string \<Rightarrow> file_stat \<Rightarrow> file_reads \<Rightarrow> (manifest_entry list \<times> (string \<times> copied) list) walk" where
  "copy_file_entry b name rel before reads =
     walk_bind (register_file_examined b rel) (\<lambda>_.
       case file_exclusion_category name of
         Some category \<Rightarrow> walk_bind (walk_update (tally category)) (\<lambda>_. walk_return ([], []))
       | None \<Rightarrow>
           walk_bind (preflight_file_budget b rel (st_size before)) (\<lambda>_.
           walk_bind (lift_result (copy_regular_file rel before reads)) (\<lambda>(e, c).
           walk_bind (walk_update (\<lambda>s. s\<lparr>cs_files_copied := cs_files_copied s + 1,
               cs_total_bytes := cs_total_bytes s + st_size before\<rparr>)) (\<lambda>_.
           walk_return ([e], [(name, c)])))))"

definition open_directory :: "copy_budget \<Rightarrow> nat \<Rightarrow> string \<Rightarrow> string \<Rightarrow> file_stat \<Rightarrow> file_stat option \<Rightarrow> file_stat walk" where
  "open_directory b depth name rel before opened =
     walk_bind (stop_if (\<lambda>_. int depth > max_depth b) ''max_depth'' (Some rel)) (\<lambda>_.
     walk_bind (walk_update (\<lambda>s. s\<lparr>cs_directories := cs_directories s + 1\<rparr>)) (\<lambda>_.
     walk_bind (stop_if (\<lambda>s. cs_directories s > max_directory_count b) ''max_directory_count'' (Some rel)) (\<lambda>_.
       case opened of
         None \<Rightarrow> lift_result (Inl (OsFailure (Some name)))
       | Some st \<Rightarrow>
           if \<not> same_identity before st \<or> st_kind st \<noteq> Directory_kind
           then refuse_walk ''source_directory_swap_detected'' (Some rel) else walk_return st)))"

definition close_directory :: "string \<Rightarrow> file_stat \<Rightarrow> file_stat \<Rightarrow> unit walk" where
  "close_directory rel opened after =
     (if same_directory opened after then walk_return () else refuse_walk ''source_directory_mutated'' (Some rel))"

definition refuse_link :: "string \<Rightarrow> 'a walk" where
  "refuse_link rel =
     walk_bind (walk_update (\<lambda>s. tally ''symlink'' (s\<lparr>cs_symlinks := cs_symlinks s @ [rel]\<rparr>))) (\<lambda>_.
     refuse_walk ''source_symlink_refused'' (Some rel))"

definition refuse_special :: "string \<Rightarrow> 'a walk" where
  "refuse_special rel =
     walk_bind (walk_update (tally ''unsupported_filesystem_entry'')) (\<lambda>_.
     refuse_walk ''source_special_file_refused'' (Some rel))"

definition rel_path :: "string list \<Rightarrow> string \<Rightarrow> string" where
  "rel_path parts name = py_join ''/'' (parts @ [name])"

function copy_node :: "copy_budget \<Rightarrow> string list \<Rightarrow> string \<Rightarrow> os_node \<Rightarrow> (manifest_entry list \<times> (string \<times> copied) list) walk"
  and copy_entries ::
  "copy_budget \<Rightarrow> string list \<Rightarrow> (string \<times> os_node) list \<Rightarrow> (manifest_entry list \<times> (string \<times> copied) list) walk" where
  "copy_node b parts name LstatFails = refuse_walk ''source_entry_lstat_failed'' (Some (rel_path parts name))"
| "copy_node b parts name Link = refuse_link (rel_path parts name)"
| "copy_node b parts name SpecialFile = refuse_special (rel_path parts name)"
| "copy_node b parts name (RegularFile before reads) = copy_file_entry b name (rel_path parts name) before reads"
| "copy_node b parts name (Directory before opened children after) =
     (case map_of directory_exclusions name of
        Some category \<Rightarrow> walk_bind (walk_update (tally category)) (\<lambda>_. walk_return ([], []))
      | None \<Rightarrow>
          walk_bind (open_directory b (length (parts @ [name])) name (rel_path parts name) before opened) (\<lambda>st.
          walk_bind (copy_entries b (parts @ [name]) children) (\<lambda>(es, cs).
          walk_bind (close_directory (rel_path parts name) st after) (\<lambda>_.
          walk_return (directory_entry (rel_path parts name) # es, [(name, CopiedDir cs)])))))"
| "copy_entries b parts [] = walk_return ([], [])"
| "copy_entries b parts ((name, node) # rest) =
     walk_bind (begin_entry b (rel_path parts name)) (\<lambda>_.
     walk_bind (copy_node b parts name node) (\<lambda>(es, cs).
     walk_bind (copy_entries b parts rest) (\<lambda>(es', cs').
     walk_return (es @ es', cs @ cs'))))"
  by pat_completeness auto
termination
  by (relation "measure (\<lambda>x. case x of Inl (b, parts, name, node) \<Rightarrow> size node
       | Inr (b, parts, nodes) \<Rightarrow> size_list (size_prod (\<lambda>_. 0) size) nodes)") auto

text \<open>The root of the tree: its opened \<open>fstat\<close>, its entries, and its \<open>fstat\<close> at the end.\<close>

definition copy_filesystem_tree ::
  "copy_budget \<Rightarrow> file_stat \<Rightarrow> (string \<times> os_node) list \<Rightarrow> file_stat \<Rightarrow> (manifest_entry list \<times> (string \<times> copied) list) walk" where
  "copy_filesystem_tree b source_stat children after =
     (if st_kind source_stat \<noteq> Directory_kind then refuse_walk ''source_root_not_directory'' None
      else
        walk_bind (walk_update (\<lambda>s. s\<lparr>cs_directories := 1\<rparr>)) (\<lambda>_.
        walk_bind (stop_if (\<lambda>s. cs_directories s > max_directory_count b) ''max_directory_count'' None) (\<lambda>_.
        walk_bind (copy_entries b [] children) (\<lambda>(es, cs).
        walk_bind (close_directory ''.'' source_stat after) (\<lambda>_.
          case sort_manifest b es of Inl r \<Rightarrow> lift_result (Inl r) | Inr ss \<Rightarrow> walk_return (ss, cs))))))"

section \<open>Runs of the walk that are not refused\<close>

lemma walk_simps [simp]:
  "walk_return x s = (Inr x, s)"
  "walk_update f s = (Inr (), f s)"
  "refuse_walk why rel s = (Inl (Refusal why rel), s)"
  "lift_result r s = (r, s)"
  by (simp_all add: walk_return_def walk_update_def refuse_walk_def lift_result_def)

lemma walk_bindE:
  assumes "walk_bind m f s = (Inr y, s')"
  obtains x t where "m s = (Inr x, t)" and "f x t = (Inr y, s')"
  using assms unfolding walk_bind_def by (auto split: prod.splits sum.splits)

lemma walk_bind_Inr: "m s = (Inr x, t) \<Longrightarrow> walk_bind m f s = f x t"
  by (simp add: walk_bind_def)

lemma budget_refusal_refuses [simp]: "budget_refusal why rel s \<noteq> (Inr x, t)"
  by (simp add: budget_refusal_def)

lemma stop_if_Inr: "stop_if c why rel s = (Inr x, t) \<longleftrightarrow> \<not> c s \<and> t = s"
  by (simp add: stop_if_def) auto

lemma lift_check_Inr: "lift_check c s = (Inr x, t) \<longleftrightarrow> c = None \<and> t = s"
  by (simp add: lift_check_def split: option.splits) auto

lemma register_manifest_path_Inr:
  "register_manifest_path b rel s = (Inr x, t) \<longleftrightarrow>
     cs_path_bytes s + int (length (utf8 rel)) \<le> max_manifest_path_bytes b
     \<and> t = s\<lparr>cs_path_bytes := cs_path_bytes s + int (length (utf8 rel))\<rparr>"
  by (simp add: register_manifest_path_def Let_def not_less [symmetric]) auto

text \<open>The counters that the budgets bound.\<close>

definition in_budget :: "copy_budget \<Rightarrow> copy_state \<Rightarrow> bool" where
  "in_budget b s \<longleftrightarrow> cs_files_examined s \<le> max_file_count b \<and> cs_total_bytes s \<le> max_total_bytes b
     \<and> cs_directories s \<le> max_directory_count b \<and> cs_path_bytes s \<le> max_manifest_path_bytes b"

text \<open>\<open>grows b p f n d s t\<close>: from \<open>s\<close> to \<open>t\<close> the walk looked at \<open>p\<close> bytes of paths, copied \<open>f\<close> files
  with \<open>n\<close> bytes and entered \<open>d\<close> directories, and stayed within the budgets.\<close>

definition grows :: "copy_budget \<Rightarrow> int \<Rightarrow> int \<Rightarrow> int \<Rightarrow> int \<Rightarrow> copy_state \<Rightarrow> copy_state \<Rightarrow> bool" where
  "grows b p f n d s t \<longleftrightarrow>
     cs_path_bytes s + p \<le> cs_path_bytes t \<and> cs_files_examined s + f \<le> cs_files_examined t
     \<and> cs_files_copied t = cs_files_copied s + f \<and> cs_total_bytes t = cs_total_bytes s + n
     \<and> cs_directories t = cs_directories s + d \<and> (in_budget b s \<longrightarrow> in_budget b t)"

lemma grows_refl: "grows b 0 0 0 0 s s"
  by (simp add: grows_def)

lemma grows_trans: "grows b p f n d s t \<Longrightarrow> grows b p' f' n' d' t u \<Longrightarrow> grows b (p + p') (f + f') (n + n') (d + d') s u"
  by (simp add: grows_def)

lemma begin_entry_Inr:
  assumes "begin_entry b rel s = (Inr x, t)"
  shows "validate_relative_path rel b = None \<and> grows b (int (length (utf8 rel))) 0 0 0 s t"
  using assms unfolding begin_entry_def
  by (elim walk_bindE) (auto simp: lift_check_Inr register_manifest_path_Inr grows_def in_budget_def)

lemma copy_regular_file_Inr:
  assumes "copy_regular_file rel before reads = Inr (e, c)"
  shows "fr_opened reads \<noteq> None
    \<and> same_file_metadata before (the (fr_opened reads)) \<and> same_file_metadata before (fr_after reads)
    \<and> same_file_metadata (fr_after reads) (fr_validated reads)
    \<and> total_length (fr_chunks reads) = st_size before \<and> total_length (fr_chunks_again reads) = st_size before
    \<and> sha256_hexdigest (concat (fr_chunks_again reads)) = sha256_hexdigest (concat (fr_chunks reads))
    \<and> e = \<lparr>me_path = rel, me_type = ''file'', me_mode = canonical_file_mode (st_perm before),
           me_size = st_size before, me_sha256 = Some (sha256_hexdigest (concat (fr_chunks reads)))\<rparr>
    \<and> c = CopiedFile (concat (fr_chunks reads)) (canonical_file_mode (st_perm before))"
  using assms unfolding copy_regular_file_def
  by (auto split: option.splits if_splits)

lemma copy_file_entry_Inr:
  assumes "copy_file_entry b name rel before reads s = (Inr (es, cs), t)"
  shows "file_exclusion_category name \<noteq> None \<and> es = [] \<and> cs = [] \<and> grows b 0 0 0 0 s t
    \<or> (\<exists>e c. copy_regular_file rel before reads = Inr (e, c) \<and> file_exclusion_category name = None
         \<and> es = [e] \<and> cs = [(name, c)] \<and> st_size before \<le> max_file_bytes b
         \<and> grows b 0 1 (st_size before) 0 s t)"
proof (cases "file_exclusion_category name")
  case (Some category)
  with assms show ?thesis unfolding copy_file_entry_def register_file_examined_def
    by (elim walk_bindE) (auto simp: stop_if_Inr tally_def grows_def in_budget_def elim!: walk_bindE)
next
  case None
  with assms show ?thesis
    unfolding copy_file_entry_def register_file_examined_def preflight_file_budget_def
      preflight_file_budget_values_def
    by (elim walk_bindE) (auto simp: stop_if_Inr grows_def in_budget_def elim!: walk_bindE split: prod.splits)
qed

lemma open_directory_Inr:
  assumes "open_directory b depth name rel before opened s = (Inr st, t)"
  shows "opened = Some st \<and> int depth \<le> max_depth b \<and> grows b 0 0 0 1 s t"
  using assms unfolding open_directory_def
  by (elim walk_bindE) (auto simp: stop_if_Inr grows_def in_budget_def split: option.splits if_splits elim!: walk_bindE)

lemma close_directory_Inr:
  "close_directory rel opened after s = (Inr x, t) \<longleftrightarrow> same_directory opened after \<and> t = s"
  by (simp add: close_directory_def) auto

text \<open>The runs as a relation: an entry that is left out, a file, a directory.\<close>

definition rel_bytes :: "string list \<Rightarrow> string \<Rightarrow> int" where
  "rel_bytes parts name = int (length (utf8 (rel_path parts name)))"

definition left_out :: "string \<Rightarrow> os_node \<Rightarrow> bool" where
  "left_out name node =
     (case node of
        RegularFile before reads \<Rightarrow> file_exclusion_category name \<noteq> None
      | Directory before opened children after \<Rightarrow> map_of directory_exclusions name \<noteq> None
      | _ \<Rightarrow> False)"

inductive copies ::
  "copy_budget \<Rightarrow> string list \<Rightarrow> (string \<times> os_node) list \<Rightarrow> copy_state
   \<Rightarrow> manifest_entry list \<Rightarrow> (string \<times> copied) list \<Rightarrow> copy_state \<Rightarrow> bool" for b where
  copies_nil: "copies b parts [] s [] [] s"
| copies_skip: "left_out name node \<Longrightarrow> grows b (rel_bytes parts name) 0 0 0 s t \<Longrightarrow> copies b parts rest t es cs u
    \<Longrightarrow> copies b parts ((name, node) # rest) s es cs u"
| copies_file: "validate_relative_path (rel_path parts name) b = None
    \<Longrightarrow> copy_regular_file (rel_path parts name) before reads = Inr (e, c)
    \<Longrightarrow> file_exclusion_category name = None \<Longrightarrow> st_size before \<le> max_file_bytes b
    \<Longrightarrow> grows b (rel_bytes parts name) 1 (st_size before) 0 s t \<Longrightarrow> copies b parts rest t es cs u
    \<Longrightarrow> copies b parts ((name, RegularFile before reads) # rest) s (e # es) ((name, c) # cs) u"
| copies_dir: "validate_relative_path (rel_path parts name) b = None
    \<Longrightarrow> map_of directory_exclusions name = None \<Longrightarrow> int (length (parts @ [name])) \<le> max_depth b
    \<Longrightarrow> grows b (rel_bytes parts name) 0 0 1 s t
    \<Longrightarrow> copies b (parts @ [name]) children t es cs u
    \<Longrightarrow> copies b parts rest u es' cs' v
    \<Longrightarrow> copies b parts ((name, Directory before opened children after) # rest) s
          (directory_entry (rel_path parts name) # es @ es') ((name, CopiedDir cs) # cs') v"

lemma tally_grows: "grows b 0 0 0 0 s (tally category s)"
  by (simp add: grows_def tally_def in_budget_def)

lemma copies_result:
  assumes "begin_entry b (rel_path parts name) s = (Inr (), t)"
    and "copy_node b parts name node t = (Inr (es, cs), u)" and "copies b parts rest u es' cs' v"
    and inner: "\<And>before opened children after x y es cs. node = Directory before opened children after
        \<Longrightarrow> map_of directory_exclusions name = None
        \<Longrightarrow> copy_entries b (parts @ [name]) children x = (Inr (es, cs), y)
        \<Longrightarrow> copies b (parts @ [name]) children x es cs y"
  shows "copies b parts ((name, node) # rest) s (es @ es') (cs @ cs') v"
proof -
  from begin_entry_Inr [OF assms(1)] have valid: "validate_relative_path (rel_path parts name) b = None"
    and begun: "grows b (rel_bytes parts name) 0 0 0 s t" by (simp_all add: rel_bytes_def)
  show ?thesis
  proof (cases node)
    case (RegularFile before reads)
    with assms(2) have "copy_file_entry b name (rel_path parts name) before reads t = (Inr (es, cs), u)" by simp
    from copy_file_entry_Inr [OF this] show ?thesis
    proof (elim disjE exE conjE)
      assume "file_exclusion_category name \<noteq> None" "es = []" "cs = []" "grows b 0 0 0 0 t u"
      with grows_trans [OF begun, of 0 0 0 0 u] assms(3) RegularFile show ?thesis
        by (simp add: copies_skip left_out_def)
    next
      fix e c assume c: "copy_regular_file (rel_path parts name) before reads = Inr (e, c)"
        and "file_exclusion_category name = None" "es = [e]" "cs = [(name, c)]" "st_size before \<le> max_file_bytes b"
        and "grows b 0 1 (st_size before) 0 t u"
      with grows_trans [OF begun, of 0 1 "st_size before" 0 u] copies_file [OF valid c, of s u] assms(3) RegularFile
      show ?thesis by simp
    qed
  next
    case (Directory before opened children after)
    show ?thesis
    proof (cases "map_of directory_exclusions name")
      case (Some category)
      with Directory assms(2) have "es = []" "cs = []" "u = tally category t" by (auto elim!: walk_bindE)
      with grows_trans [OF begun tally_grows [of b t category]] assms(3) Directory Some show ?thesis
        by (simp add: copies_skip left_out_def)
    next
      case None
      with Directory assms(2) obtain st t1 es1 ds t2
        where o: "open_directory b (length (parts @ [name])) name (rel_path parts name) before opened t = (Inr st, t1)"
          and c: "copy_entries b (parts @ [name]) children t1 = (Inr (es1, ds), t2)"
          and "close_directory (rel_path parts name) st after t2 = (Inr (), u)"
          and es: "es = directory_entry (rel_path parts name) # es1" and cs: "cs = [(name, CopiedDir ds)]"
        by (auto elim!: walk_bindE)
      then have u: "u = t2" by (simp add: close_directory_Inr)
      from open_directory_Inr [OF o] have depth: "int (length (parts @ [name])) \<le> max_depth b"
        and opened: "grows b 0 0 0 1 t t1" by simp_all
      from inner [OF Directory None c] have "copies b (parts @ [name]) children t1 es1 ds u" by (simp add: u)
      from copies_dir [OF valid None depth _ this assms(3)] grows_trans [OF begun opened]
      show ?thesis by (simp add: es cs Directory)
    qed
  qed (use assms(2) in \<open>auto simp: refuse_link_def refuse_special_def elim!: walk_bindE\<close>)
qed

lemma copy_runs:
  "node = Directory before opened children after \<Longrightarrow> map_of directory_exclusions name = None
     \<Longrightarrow> copy_entries b (parts @ [name]) children x = (Inr (es0, cs0), y) \<Longrightarrow> copies b (parts @ [name]) children x es0 cs0 y"
  "copy_entries b parts nodes s = (Inr (es, cs), v) \<Longrightarrow> copies b parts nodes s es cs v"
proof (induction b parts name node and b parts nodes arbitrary: before opened children after x es0 cs0 y
    and s es cs v rule: copy_node_copy_entries.induct)
  case (7 b parts name node rest)
  then show ?case by (auto elim!: walk_bindE intro!: copies_result)
qed (simp_all add: copies_nil)

section \<open>Paths and their parts\<close>

lemma split_on_nonempty [simp]: "split_on c s \<noteq> []"
  by (induction c s rule: split_on.induct) (auto split: list.splits)

lemma split_on_no_sep: "w \<in> set (split_on c s) \<Longrightarrow> c \<notin> set w"
proof (induction c s arbitrary: w rule: split_on.induct)
  case (2 sep c s)
  then show ?case by (cases "split_on sep s") (auto split: if_splits)
qed simp

lemma split_on_word: "c \<notin> set w \<Longrightarrow> split_on c w = [w]"
  by (induction w) auto

lemma split_on_append: "c \<notin> set w \<Longrightarrow> split_on c (w @ c # s) = w # split_on c s"
  by (induction w) auto

lemma split_on_join:
  assumes "ws \<noteq> []" and "\<forall>w\<in>set ws. c \<notin> set w"
  shows "split_on c (py_join [c] ws) = ws"
  using assms by (induction "[c]" ws rule: py_join.induct) (simp_all add: split_on_word split_on_append)

lemma split_rel_path:
  assumes "\<forall>w\<in>set (parts @ [name]). CHR ''/'' \<notin> set w"
  shows "split_on (CHR ''/'') (rel_path parts name) = parts @ [name]"
  using split_on_join [of "parts @ [name]" "CHR ''/''"] assms by (simp add: rel_path_def)

text \<open>\<open>.config/gcloud\<close> is listed as a credential directory, but no part of a path can be equal to it:
  the entry of the table never excludes anything.\<close>

lemma gcloud_entry_is_dead:
  "map_of directory_exclusions ''.config/gcloud'' = Some ''credential_like''
   \<and> ''.config/gcloud'' \<notin> set (split_on (CHR ''/'') rel)
   \<and> path_exclusion_category ''.config/gcloud/credentials.db'' ''credentials.db'' = None"
proof (intro conjI)
  show "''.config/gcloud'' \<notin> set (split_on (CHR ''/'') rel)"
    using split_on_no_sep [of "''.config/gcloud''" "CHR ''/''" rel] by auto
  show "map_of directory_exclusions ''.config/gcloud'' = Some ''credential_like''" by code_simp
  show "path_exclusion_category ''.config/gcloud/credentials.db'' ''credentials.db'' = None" by code_simp
qed

section \<open>What a manifest can contain\<close>

text \<open>The names that the operating system reports contain no slash.\<close>

function slash_free :: "(string \<times> os_node) list \<Rightarrow> bool" where
  "slash_free [] = True"
| "slash_free ((name, Directory before opened children after) # rest) \<longleftrightarrow>
     CHR ''/'' \<notin> set name \<and> slash_free children \<and> slash_free rest"
| "slash_free ((name, RegularFile before reads) # rest) \<longleftrightarrow> CHR ''/'' \<notin> set name \<and> slash_free rest"
| "slash_free ((name, LstatFails) # rest) \<longleftrightarrow> CHR ''/'' \<notin> set name \<and> slash_free rest"
| "slash_free ((name, Link) # rest) \<longleftrightarrow> CHR ''/'' \<notin> set name \<and> slash_free rest"
| "slash_free ((name, SpecialFile) # rest) \<longleftrightarrow> CHR ''/'' \<notin> set name \<and> slash_free rest"
  by pat_completeness auto
termination
  by (relation "measure (size_list (size_prod (\<lambda>_. 0) size))") auto

lemma slash_free_rest: "slash_free ((name, node) # rest) \<Longrightarrow> slash_free rest"
  by (cases node) simp_all

text \<open>An admissible entry: a valid relative path, none of whose directories is on the exclusion list,
  not too deep, a file that is neither excluded nor too large, or a directory.\<close>

definition admissible :: "copy_budget \<Rightarrow> manifest_entry \<Rightarrow> bool" where
  "admissible b e \<longleftrightarrow> validate_relative_path (me_path e) b = None
     \<and> (let parts = split_on (CHR ''/'') (me_path e) in
        int (length parts) \<le> max_depth b + 1
        \<and> (if me_type e = ''file''
           then path_exclusion_category (me_path e) (last parts) = None \<and> me_size e \<le> max_file_bytes b
             \<and> me_mode e \<in> {''100644'', ''100755''} \<and> me_sha256 e \<noteq> None
           else e = directory_entry (me_path e) \<and> list_all (\<lambda>p. map_of directory_exclusions p = None) parts))"

definition allowed_parts :: "copy_budget \<Rightarrow> string list \<Rightarrow> bool" where
  "allowed_parts b parts \<longleftrightarrow> (\<forall>p\<in>set parts. CHR ''/'' \<notin> set p \<and> map_of directory_exclusions p = None)
     \<and> int (length parts) \<le> max_depth b"

lemma no_excluded_parts: "\<forall>p\<in>set ps. map_of m p = None \<Longrightarrow> List.map_filter (map_of m) ps = []"
  by (induction ps) (auto simp: List.map_filter_simps)

lemma admissible_file:
  assumes "allowed_parts b parts" and "CHR ''/'' \<notin> set name"
    and "validate_relative_path (rel_path parts name) b = None" and "file_exclusion_category name = None"
    and "copy_regular_file (rel_path parts name) before reads = Inr (e, c)" and "st_size before \<le> max_file_bytes b"
  shows "admissible b e"
proof -
  have split: "split_on (CHR ''/'') (rel_path parts name) = parts @ [name]"
    by (rule split_rel_path) (use assms(1,2) in \<open>auto simp: allowed_parts_def\<close>)
  have "List.map_filter (map_of directory_exclusions) parts = []"
    by (rule no_excluded_parts) (use assms(1) in \<open>simp add: allowed_parts_def\<close>)
  with assms copy_regular_file_Inr [OF assms(5)] show ?thesis
    by (simp add: admissible_def Let_def split path_exclusion_category_def allowed_parts_def canonical_file_mode_def)
qed

lemma admissible_directory:
  assumes "allowed_parts b (parts @ [name])" and "validate_relative_path (rel_path parts name) b = None"
  shows "admissible b (directory_entry (rel_path parts name))"
proof -
  have "split_on (CHR ''/'') (rel_path parts name) = parts @ [name]"
    by (rule split_rel_path) (use assms(1) in \<open>auto simp: allowed_parts_def\<close>)
  with assms show ?thesis by (simp add: admissible_def directory_entry_def allowed_parts_def list_all_iff)
qed

lemma copies_admissible:
  "copies b parts nodes s es cs t \<Longrightarrow> slash_free nodes \<Longrightarrow> allowed_parts b parts \<Longrightarrow> \<forall>e\<in>set es. admissible b e"
proof (induction rule: copies.induct)
  case (copies_file parts name before reads e c s t rest es cs u)
  from copies_file.prems(1) have "CHR ''/'' \<notin> set name" "slash_free rest" by simp_all
  with admissible_file [OF copies_file.prems(2) _ copies_file.hyps(1,3,2,4)] copies_file.IH copies_file.prems(2)
  show ?case by simp
next
  case (copies_dir parts name s t children es cs u rest es' cs' v before opened after)
  from copies_dir.prems(1) have "CHR ''/'' \<notin> set name" "slash_free rest" "slash_free children"
    by simp_all
  moreover from this copies_dir.prems(2) copies_dir.hyps(2,3) have "allowed_parts b (parts @ [name])"
    by (simp add: allowed_parts_def)
  ultimately show ?case
    using copies_dir.IH copies_dir.prems(2) admissible_directory [OF _ copies_dir.hyps(1)] by auto
qed (auto dest: slash_free_rest)

text \<open>The sums over the copied entries.\<close>

definition file_entries :: "manifest_entry list \<Rightarrow> manifest_entry list" where
  "file_entries es = filter (\<lambda>e. me_type e = ''file'') es"

definition file_bytes :: "manifest_entry list \<Rightarrow> int" where
  "file_bytes es = sum_list (map me_size (file_entries es))"

definition directory_count :: "manifest_entry list \<Rightarrow> int" where
  "directory_count es = int (length (filter (\<lambda>e. me_type e \<noteq> ''file'') es))"

lemma entry_sums [simp]:
  "file_entries [] = []" "file_bytes [] = 0" "directory_count [] = 0"
  "file_entries (es @ fs) = file_entries es @ file_entries fs"
  "file_bytes (es @ fs) = file_bytes es + file_bytes fs"
  "directory_count (es @ fs) = directory_count es + directory_count fs"
  by (simp_all add: file_entries_def file_bytes_def directory_count_def)

lemma entry_sums_Cons [simp]:
  "file_entries (e # es) = (if me_type e = ''file'' then e # file_entries es else file_entries es)"
  "file_bytes (e # es) = (if me_type e = ''file'' then me_size e else 0) + file_bytes es"
  "directory_count (e # es) = (if me_type e = ''file'' then 0 else 1) + directory_count es"
  by (simp_all add: file_entries_def file_bytes_def directory_count_def)

lemma directory_entry_fields [simp]:
  "me_type (directory_entry rel) = ''directory''" "me_path (directory_entry rel) = rel"
  "me_size (directory_entry rel) = 0" "path_bytes (directory_entry rel) = int (length (utf8 rel))"
  by (simp_all add: directory_entry_def path_bytes_def)

lemma grows_more_paths: "grows b p f n d s t \<Longrightarrow> q \<le> p \<Longrightarrow> grows b q f n d s t"
  by (simp add: grows_def)

lemma rel_bytes_nonneg [simp]: "0 \<le> rel_bytes parts name"
  by (simp add: rel_bytes_def)

lemma copies_grows:
  "copies b parts nodes s es cs t \<Longrightarrow>
     grows b (sum_list (map path_bytes es)) (int (length (file_entries es))) (file_bytes es) (directory_count es) s t"
proof (induction rule: copies.induct)
  case (copies_nil parts s)
  show ?case by (simp add: grows_refl)
next
  case (copies_skip parts name s t rest es cs u node)
  from grows_more_paths [OF grows_trans [OF copies_skip(2,4)]] show ?case by simp
next
  case (copies_file parts name before reads e c s t rest es cs u)
  from copy_regular_file_Inr [OF copies_file.hyps(2)] have "me_type e = ''file''" "me_size e = st_size before"
    "path_bytes e = rel_bytes parts name" by (simp_all add: path_bytes_def rel_bytes_def)
  with grows_trans [OF copies_file.hyps(5) copies_file.IH] show ?case by (simp add: ac_simps)
next
  case (copies_dir parts name s t children es cs u rest es' cs' v before opened after)
  from grows_trans [OF grows_trans [OF copies_dir.hyps(4) copies_dir.IH(1)] copies_dir.IH(2)]
  show ?case by (simp add: ac_simps rel_bytes_def)
qed

text \<open>Trees without links, special files and unreadable entries, outside of the excluded
  directories.\<close>

inductive plain_nodes :: "(string \<times> os_node) list \<Rightarrow> bool" where
  "plain_nodes []"
| "plain_nodes rest \<Longrightarrow> plain_nodes ((name, RegularFile before reads) # rest)"
| "map_of directory_exclusions name \<noteq> None \<Longrightarrow> plain_nodes rest
    \<Longrightarrow> plain_nodes ((name, Directory before opened children after) # rest)"
| "plain_nodes children \<Longrightarrow> plain_nodes rest \<Longrightarrow> plain_nodes ((name, Directory before opened children after) # rest)"

lemma copies_plain: "copies b parts nodes s es cs t \<Longrightarrow> plain_nodes nodes"
proof (induction rule: copies.induct)
  case (copies_skip name node parts s t rest es cs u)
  then show ?case by (cases node) (auto simp: left_out_def intro: plain_nodes.intros)
qed (auto intro: plain_nodes.intros)

definition empty_copy_state :: copy_state where
  "empty_copy_state =
     \<lparr>cs_files_copied = 0, cs_files_examined = 0, cs_total_bytes = 0, cs_directories = 0, cs_entries = 0,
      cs_path_bytes = 0, cs_excluded = [], cs_symlinks = [], cs_exceeded = False, cs_exceeded_reason = None\<rparr>"

definition root_copy_state :: copy_state where
  "root_copy_state = empty_copy_state\<lparr>cs_directories := 1\<rparr>"

lemma copy_filesystem_tree_Inr:
  assumes "copy_filesystem_tree b st nodes after empty_copy_state = (Inr (ss, cs), t)"
  obtains es where "copies b [] nodes root_copy_state es cs t" and "sort_manifest b es = Inr ss"
    and "1 \<le> max_directory_count b" and "same_directory st after"
  using assms that unfolding copy_filesystem_tree_def root_copy_state_def
  by (auto simp: stop_if_Inr close_directory_Inr dest!: copy_runs(2) elim!: walk_bindE split: if_splits prod.splits sum.splits)

lemma entry_sums_perm:
  assumes "mset es = mset fs"
  shows "length (file_entries es) = length (file_entries fs)" "file_bytes es = file_bytes fs"
    "directory_count es = directory_count fs"
    "(sum_list (map path_bytes es)) = (sum_list (map path_bytes fs))"
proof -
  have same: "mset (filter P es) = mset (filter P fs)" for P by (simp add: assms)
  have sums: "sum_list (map f xs) = sum_list (map f ys)" if "mset xs = mset ys" for f :: "manifest_entry \<Rightarrow> int" and xs ys
    using that by (simp flip: sum_mset_sum_list)
  show "length (file_entries es) = length (file_entries fs)"
    unfolding file_entries_def by (rule mset_eq_length [OF same])
  show "file_bytes es = file_bytes fs"
    unfolding file_bytes_def file_entries_def by (rule sums [OF same])
  show "directory_count es = directory_count fs"
    unfolding directory_count_def using mset_eq_length [OF same] by simp
  show "(sum_list (map path_bytes es)) = (sum_list (map path_bytes fs))" by (rule sums [OF assms])
qed

text \<open>The names that the policy keeps out, written out.  A component of a path has no slash, so the entry
  \<open>.config/gcloud\<close> of the code's table is the name of no component: such a directory is copied.\<close>

definition excluded_directory_names :: "string list" where
  "excluded_directory_names =
     [''.git'', ''.venv'', ''venv'', ''node_modules'', ''.mypy_cache'', ''.pytest_cache'', ''__pycache__'', ''.ruff_cache'',
      ''.tox'', ''.nox'', ''dist'', ''build'', ''logs'', ''log'', ''.cache'', ''.aws'', ''.azure'', ''.gcp'', ''.gnupg'', ''.ssh'',
      ''.kube'', ''.idea'', ''.vscode'', ''.history'', ''.Trash'', CHR 36 # ''RECYCLE.BIN'', ''coverage'', ''htmlcov'', ''.coverage'']"

definition excluded_file_names :: "string list" where
  "excluded_file_names =
     [''.git'', ''.env'', ''.bash_history'', ''.zsh_history'', ''.python_history'', ''.psql_history'', ''.mysql_history'',
       ''.npmrc'', ''.pypirc'', ''.netrc'', ''.git-credentials'', ''.gitconfig'', ''credentials'', ''.DS_Store'', ''Thumbs.db'',
       ''Desktop.ini'', ''.coverage'', ''.repo-health-doctor.authorization.json'']"

definition excluded_file_name :: "string \<Rightarrow> bool" where
  "excluded_file_name name \<longleftrightarrow>
     name \<in> set excluded_file_names
     \<or> (\<exists>rest. name = ''.env.'' @ rest) \<or> (\<exists>rest. name = ''.repo-health-doctor.authorization.json.'' @ rest)
     \<or> (\<exists>stem ext. name = stem @ ext \<and> ext \<in> {''.pyc'', ''.pyo'', '':Zone.Identifier'', ''.cover'', ''.lcov''})"

definition free_of_excluded_names :: "manifest_entry \<Rightarrow> bool" where
  "free_of_excluded_names e \<longleftrightarrow>
     (let parts = split_on (CHR ''/'') (me_path e) in
      (\<forall>p\<in>set (butlast parts). p \<notin> set excluded_directory_names)
      \<and> (if me_type e = ''file'' then \<not> excluded_file_name (last parts) else last parts \<notin> set excluded_directory_names))"

lemma excluded_directory_listed: "p \<in> set excluded_directory_names \<Longrightarrow> map_of directory_exclusions p \<noteq> None"
proof -
  have "list_all (\<lambda>p. map_of directory_exclusions p \<noteq> None) excluded_directory_names" by code_simp
  then show "p \<in> set excluded_directory_names \<Longrightarrow> map_of directory_exclusions p \<noteq> None" by (simp add: list_all_iff)
qed

lemma kept_file_name:
  assumes "file_exclusion_category name = None"
  shows "\<not> excluded_file_name name"
proof
  assume "excluded_file_name name"
  then consider
      (name) "name \<in> set excluded_file_names"
    | (env) rest where "name = ''.env.'' @ rest"
    | (control) rest where "name = ''.repo-health-doctor.authorization.json.'' @ rest"
    | (suff) stem ext where "name = stem @ ext" "ext \<in> {''.pyc'', ''.pyo'', '':Zone.Identifier'', ''.cover'', ''.lcov''}"
    unfolding excluded_file_name_def by (elim disjE exE conjE)
  then show False
  proof cases
    case name
    have "list_all (\<lambda>n. file_exclusion_category n \<noteq> None) excluded_file_names" by code_simp
    with name assms show False unfolding list_all_iff by blast
  next
    case env
    then have "starts_with name ''.env.''" by (simp add: starts_with_def)
    with assms show False by (simp add: file_exclusion_category_def split: if_splits)
  next
    case control
    then have "starts_with name (authorization_control_filename @ ''.'')"
      by (simp add: starts_with_def authorization_control_filename_def)
    with assms show False by (simp add: file_exclusion_category_def split: if_splits)
  next
    case suff
    have "fst ` set file_suffix_exclusions = {''.pyc'', ''.pyo'', '':Zone.Identifier'', ''.cover'', ''.lcov''}"
      by (simp add: file_suffix_exclusions_def)
    with suff(2) have "ext \<in> fst ` set file_suffix_exclusions" by (simp only:)
    then obtain category where "(ext, category) \<in> set file_suffix_exclusions" by (elim imageE) (metis prod.collapse)
    moreover have "ends_with name ext" unfolding ends_with_def suff(1) by (rule suffixI) (rule refl)
    ultimately have "\<exists>(s, category)\<in>set file_suffix_exclusions. ends_with name s" by blast
    then have "find (\<lambda>(s, category). ends_with name s) file_suffix_exclusions \<noteq> None"
      unfolding find_None_iff by auto
    with assms show False by (simp add: file_exclusion_category_def split: if_splits option.splits)
  qed
qed

lemma admissible_free: "admissible b e \<Longrightarrow> free_of_excluded_names e"
proof -
  assume a: "admissible b e"
  let ?parts = "split_on (CHR ''/'') (me_path e)"
  show ?thesis
  proof (cases "me_type e = ''file''")
    case True
    with a have c: "path_exclusion_category (me_path e) (last ?parts) = None" by (simp add: admissible_def Let_def)
    then have none: "List.map_filter (map_of directory_exclusions) (butlast ?parts) = []"
      and leaf: "file_exclusion_category (last ?parts) = None"
      by (auto simp: path_exclusion_category_def split: list.splits)
    from none have "\<forall>p\<in>set (butlast ?parts). map_of directory_exclusions p = None"
      by (auto simp: List.map_filter_def filter_empty_conv)
    with True kept_file_name [OF leaf] excluded_directory_listed show ?thesis
      unfolding free_of_excluded_names_def Let_def by (metis (no_types))
  next
    case False
    with a have "\<forall>p\<in>set ?parts. map_of directory_exclusions p = None" by (simp add: admissible_def Let_def list_all_iff)
    then have "\<forall>p\<in>set ?parts. p \<notin> set excluded_directory_names" using excluded_directory_listed by blast
    moreover have "last ?parts \<in> set ?parts" by simp
    ultimately show ?thesis unfolding free_of_excluded_names_def Let_def using False in_set_butlastD by fastforce
  qed
qed

section \<open>Properties\<close>

text \<open>C38: a copy of a source tree that is not refused obeys the copy policy: the tree has no links or
  special files outside of excluded directories, the manifest names no path twice, every entry
  has a valid relative path within the depth and size limits, no directory on it has one of the 29 excluded
  directory names and no file one of the excluded file names, prefixes or suffixes, and
  the numbers of files, directories and bytes are within the budget.  The thirtieth entry of the code's
  table, \<open>.config/gcloud\<close>, excludes nothing.\<close>

theorem copied_tree_obeys_policy:
  assumes "copy_filesystem_tree b st nodes after empty_copy_state = (Inr (ss, cs), t)"
    and "slash_free nodes" and "check_copy_budget b = Inr b"
  shows "plain_nodes nodes \<and> list_all (admissible b) ss \<and> (\<forall>e\<in>set ss. free_of_excluded_names e) \<and> distinct (map me_path ss)
    \<and> int (length (file_entries ss)) \<le> max_file_count b \<and> file_bytes ss \<le> max_total_bytes b
    \<and> directory_count ss < max_directory_count b
    \<and> sum_list (map path_bytes ss) \<le> max_manifest_path_bytes b"
proof -
  from assms(1) obtain es where run: "copies b [] nodes root_copy_state es cs t" and sort: "sort_manifest b es = Inr ss"
    and root: "1 \<le> max_directory_count b" by (rule copy_filesystem_tree_Inr)
  from assms(3) have budget: "0 < max_file_count b" "0 < max_total_bytes b" "0 < max_manifest_path_bytes b"
    "0 < max_depth b" by (auto simp: check_copy_budget_def split: if_splits)
  from sort_manifest_facts [OF sort] have ss: "mset ss = mset es" "distinct (map me_path ss)" by simp_all
  have "allowed_parts b []" using budget by (simp add: allowed_parts_def)
  with copies_admissible [OF run assms(2)] have adm: "list_all (admissible b) ss"
    unfolding list_all_iff using mset_eq_setD [OF ss(1)] by simp
  have "in_budget b root_copy_state"
    using budget root by (simp add: in_budget_def root_copy_state_def empty_copy_state_def)
  with copies_grows [OF run] have "in_budget b t"
    and "sum_list (map path_bytes es) \<le> cs_path_bytes t" "int (length (file_entries es)) \<le> cs_files_examined t"
      "file_bytes es = cs_total_bytes t" "directory_count es + 1 = cs_directories t"
    by (simp_all add: grows_def root_copy_state_def empty_copy_state_def)
  moreover from adm have "\<forall>e\<in>set ss. free_of_excluded_names e" unfolding list_all_iff using admissible_free by blast
  ultimately show ?thesis using adm ss(2) copies_plain [OF run]
    unfolding entry_sums_perm [OF ss(1)] by (simp add: in_budget_def)
qed

text \<open>a file that is copied was not changed while it was read: it was the same file with the same
  mode, size and times when it was listed, opened, read and read again, both reads had the
  listed length and the same digest, and the entry has the digest and the size of the bytes
  that were written to the copy.\<close>

theorem copied_file_unchanged:
  assumes "copy_regular_file rel before reads = Inr (e, c)"
  shows "\<exists>opened content. fr_opened reads = Some opened
    \<and> same_file_metadata before opened \<and> same_file_metadata before (fr_after reads)
    \<and> same_file_metadata (fr_after reads) (fr_validated reads)
    \<and> sha256_hexdigest (concat (fr_chunks_again reads)) = sha256_hexdigest content
    \<and> total_length (fr_chunks_again reads) = me_size e
    \<and> c = CopiedFile content (me_mode e) \<and> me_sha256 e = Some (sha256_hexdigest content)
    \<and> me_size e = int (length content) \<and> me_path e = rel"
  using copy_regular_file_Inr [OF assms] by (auto simp: total_length_def)

definition sample_stat :: "file_kind \<Rightarrow> int \<Rightarrow> file_stat" where
  "sample_stat k n = \<lparr>st_kind = k, st_dev = 1, st_ino = n, st_perm = 420, st_size = 2, st_mtime_ns = 5, st_ctime_ns = 5\<rparr>"

definition sample_reads :: file_reads where
  "sample_reads = (let st = sample_stat Regular 8 in
     \<lparr>fr_opened = Some st, fr_chunks = [''o'', ''k''], fr_after = st, fr_copy = st, fr_chunks_again = [''ok''],
      fr_validated = st\<rparr>)"

definition sample_nodes :: "(string \<times> os_node) list" where
  "sample_nodes =
     [(''src'', Directory (sample_stat Directory_kind 7) (Some (sample_stat Directory_kind 7))
         [(''.env'', RegularFile (sample_stat Regular 8) sample_reads)] (sample_stat Directory_kind 7)),
      (''.git'', Directory (sample_stat Directory_kind 9) (Some (sample_stat Directory_kind 9)) [(''link'', Link)]
         (sample_stat Directory_kind 9))]"

lemma sample_slash_free: "slash_free sample_nodes"
  by code_simp

lemma sample_file_copied: "\<exists>e c. copy_regular_file ''src/a.py'' (sample_stat Regular 8) sample_reads = Inr (e, c)"
  by (simp add: copy_regular_file_def sample_reads_def sample_stat_def Let_def same_file_metadata_def same_identity_def
      total_length_def)

theorem copied_file_unchanged_witness:
  "\<exists>e content. copy_regular_file ''src/a.py'' (sample_stat Regular 8) sample_reads = Inr (e, CopiedFile content (me_mode e))
     \<and> me_size e = int (length content)"
proof -
  from sample_file_copied obtain e c
    where r: "copy_regular_file ''src/a.py'' (sample_stat Regular 8) sample_reads = Inr (e, c)" by blast
  from copied_file_unchanged [OF r] r show ?thesis by blast
qed

theorem copied_tree_obeys_policy_witness:
  "\<exists>ss cs t. copy_filesystem_tree default_copy_budget (sample_stat Directory_kind 1) sample_nodes
       (sample_stat Directory_kind 1) empty_copy_state = (Inr (ss, cs), t)
     \<and> map me_path ss = [''src''] \<and> list_all (admissible default_copy_budget) ss"
proof -
  let ?run = "copy_filesystem_tree default_copy_budget (sample_stat Directory_kind 1) sample_nodes
       (sample_stat Directory_kind 1) empty_copy_state"
  have "case ?run of (Inr (ss, cs), t) \<Rightarrow> map me_path ss = [''src''] | _ \<Rightarrow> False" by code_simp
  then obtain ss cs t where r: "?run = (Inr (ss, cs), t)" and paths: "map me_path ss = [''src'']"
    by (auto split: prod.splits sum.splits)
  have "check_copy_budget default_copy_budget = Inr default_copy_budget" by code_simp
  from copied_tree_obeys_policy [OF r sample_slash_free this] r paths show ?thesis
    by (intro exI [of _ ss] exI [of _ cs] exI [of _ t]) simp
qed

end
