(* ===== verification/Path_Pattern.thy ===== *)
theory Path_Pattern
  imports Repo_Shape Snapshot_Copy
begin

text \<open>
  The path patterns of doctor.py: which paths an \<open>ignore_paths\<close> entry or an allow covers.
  A pattern with one of \<open>*?[]\<close> is matched by \<open>fnmatch\<close> of the standard library (on POSIX, where
  \<open>normcase\<close> is the identity), which is modelled as its translation to a regular expression;
  any other pattern is an exact path or a directory prefix.
\<close>

section \<open>Shell patterns\<close>

text \<open>A set \<open>[...]\<close>: where it ends (the first \<open>]\<close> that is not its first character), what it holds, and
  whether a character is in it.  A range that runs backwards is empty.\<close>

definition set_body_start :: "string \<Rightarrow> nat" where
  "set_body_start p =
     (let i = (case p of c # _ \<Rightarrow> if c = CHR ''!'' then 1 else 0 | [] \<Rightarrow> 0) in
      (case drop i p of c # _ \<Rightarrow> if c = CHR '']'' then i + 1 else i | [] \<Rightarrow> i))"

definition split_set :: "string \<Rightarrow> (string \<times> string) option" where
  "split_set p =
     (let j = set_body_start p; body = takeWhile (\<lambda>c. c \<noteq> CHR '']'') (drop j p);
          rest = dropWhile (\<lambda>c. c \<noteq> CHR '']'') (drop j p) in
      (case rest of [] \<Rightarrow> None | _ # after \<Rightarrow> Some (take j p @ body, after)))"

fun in_ranges :: "string \<Rightarrow> char \<Rightarrow> bool" where
  "in_ranges (a # d # b # s) c =
     (if d = CHR ''-'' then (code a \<le> code c \<and> code c \<le> code b) \<or> in_ranges s c
      else c = a \<or> in_ranges (d # b # s) c)"
| "in_ranges (a # s) c = (c = a \<or> in_ranges s c)"
| "in_ranges [] c = False"

definition set_member :: "string \<Rightarrow> char \<Rightarrow> bool" where
  "set_member stuff c =
     (case stuff of
        x # s \<Rightarrow> if x = CHR ''!'' then \<not> in_ranges s c else in_ranges stuff c
      | [] \<Rightarrow> False)"

lemma split_set_shorter: "split_set p = Some (stuff, after) \<Longrightarrow> length after < length p"
proof -
  assume "split_set p = Some (stuff, after)"
  then obtain x where "dropWhile (\<lambda>c. c \<noteq> CHR '']'') (drop (set_body_start p) p) = x # after"
    by (auto simp: split_set_def Let_def split: list.splits)
  from arg_cong [OF this, of length] have "length after < length (dropWhile (\<lambda>c. c \<noteq> CHR '']'') (drop (set_body_start p) p))"
    by simp
  also have "\<dots> \<le> length p"
    using length_dropWhile_le [of "\<lambda>c. c \<noteq> CHR '']''" "drop (set_body_start p) p"] by simp
  finally show ?thesis .
qed

text \<open>\<open>fnmatch.translate\<close>.\<close>

function glob_rx :: "string \<Rightarrow> rx" where
  "glob_rx [] = Empty"
| "glob_rx (c # p) =
     (if c = CHR ''*'' then Cat (Rep any_char) (glob_rx p)
      else if c = CHR ''?'' then Cat any_char (glob_rx p)
      else if c = CHR ''['' then
        (case split_set p of
           None \<Rightarrow> Cat (lit ''['') (glob_rx p)
         | Some (stuff, after) \<Rightarrow> Cat (Cls (set_member stuff)) (glob_rx after))
      else Cat (Cls (\<lambda>x. x = c)) (glob_rx p))"
  by pat_completeness auto
termination
  by (relation "measure length") (auto dest: split_set_shorter)

definition fnmatch :: "string \<Rightarrow> string \<Rightarrow> bool" where
  "fnmatch name pattern = rx_fullmatch (glob_rx pattern) name"

section \<open>Patterns of the policy\<close>

definition glob_chars :: string where "glob_chars = ''*?[]''"

definition has_glob :: "string \<Rightarrow> bool" where
  "has_glob s = list_ex (\<lambda>c. c \<in> set glob_chars) s"

text \<open>\<open>text.replace("\\", "/").strip()\<close>, and with \<open>.lstrip("/")\<close> after it.\<close>

definition slashed :: "string \<Rightarrow> string" where
  "slashed s = py_strip (replace_char (CHR 92) ''/'' s)"

definition normalized_path :: "string \<Rightarrow> string" where
  "normalized_path s = dropWhile (\<lambda>c. c = CHR ''/'') (slashed s)"

definition normalize_ignore_pattern :: "string \<Rightarrow> string" where
  "normalize_ignore_pattern pattern =
     (let normalized = slashed pattern in
      if normalized = [] then normalized
      else if ends_with normalized ''/'' then normalized else normalized @ ''/'')"

definition ignored_by :: "string \<Rightarrow> string \<Rightarrow> bool" where
  "ignored_by relative_text pattern =
     (let normalized = slashed pattern in
      if normalized = [] then False
      else if has_glob normalized then fnmatch relative_text normalized
      else starts_with (relative_text @ ''/'') (normalize_ignore_pattern normalized))"

definition is_ignored_path :: "string \<Rightarrow> string list \<Rightarrow> bool" where
  "is_ignored_path relative_text ignore_patterns = list_ex (ignored_by relative_text) ignore_patterns"

definition is_ignored_for_secrets :: "string \<Rightarrow> string list \<Rightarrow> bool" where
  "is_ignored_for_secrets relative_text ignore_patterns = is_ignored_path relative_text ignore_patterns"

definition secret_allow_fixture_prefixes :: "string list" where
  "secret_allow_fixture_prefixes = [''tests/fixtures/'', ''test/fixtures/'']"

definition is_secret_fixture_path :: "string \<Rightarrow> bool" where
  "is_secret_fixture_path path_pattern =
     list_ex (starts_with (normalized_path path_pattern)) secret_allow_fixture_prefixes"

definition classify_policy_path_scope :: "string \<Rightarrow> string" where
  "classify_policy_path_scope path_pattern =
     (let normalized = normalized_path path_pattern in
      if has_glob normalized then ''wildcard_pattern''
      else if ends_with normalized ''/'' then ''directory_prefix'' else ''exact_path'')"

definition matches_path_pattern :: "string \<Rightarrow> string \<Rightarrow> bool" where
  "matches_path_pattern relative_path pattern =
     (let path = normalized_path relative_path; normalized = normalized_path pattern in
      if normalized = [] then False
      else if has_glob normalized then fnmatch path normalized
      else if ends_with normalized ''/'' then starts_with path normalized
      else path = normalized \<or> starts_with path (normalized @ ''/''))"

section \<open>A literal prefix stays literal\<close>

lemma glob_literal:
  assumes "\<not> has_glob w"
  shows "rx_lang (glob_rx (w @ p)) s \<longleftrightarrow> (\<exists>t. s = w @ t \<and> rx_lang (glob_rx p) t)"
  using assms
proof (induction w arbitrary: s)
  case (Cons c w)
  then have plain: "c \<noteq> CHR ''*''" "c \<noteq> CHR ''?''" "c \<noteq> CHR ''[''" and rest: "\<not> has_glob w"
    by (auto simp: has_glob_def glob_chars_def)
  show ?case using plain Cons.IH [OF rest] by (auto simp: rx_lang_Cls_Cat)
qed simp

lemma fnmatch_literal_prefix:
  assumes "\<not> has_glob w" and "fnmatch name (w @ p)"
  shows "starts_with name w"
  using assms(2) unfolding fnmatch_def rx_fullmatch_lang glob_literal [OF assms(1)]
  by (auto simp: starts_with_def)

lemma fnmatch_plain:
  assumes "\<not> has_glob w"
  shows "fnmatch name w \<longleftrightarrow> name = w"
  using glob_literal [OF assms, of "[]" name] by (simp add: fnmatch_def rx_fullmatch_lang)

text \<open>A trailing \<open>*\<close> matches every continuation, slashes included.\<close>

lemma fnmatch_star:
  assumes "\<not> has_glob w"
  shows "fnmatch name (w @ ''*'') \<longleftrightarrow> starts_with name w"
  unfolding fnmatch_def rx_fullmatch_lang glob_literal [OF assms]
  by (auto simp: starts_with_def prefix_def rx_lang_Cat)

lemma matches_below:
  assumes "matches_path_pattern f pattern" and "starts_with (normalized_path pattern) w" and "\<not> has_glob w"
  shows "starts_with (normalized_path f) w"
proof -
  from assms(2) obtain p where p: "normalized_path pattern = w @ p" by (auto simp: starts_with_def prefix_def)
  show ?thesis
  proof (cases "has_glob (w @ p)")
    case True
    with assms(1) p have "fnmatch (normalized_path f) (w @ p)"
      by (auto simp: matches_path_pattern_def Let_def split: if_splits)
    with fnmatch_literal_prefix [OF assms(3)] show ?thesis by blast
  next
    case False
    with assms(1) p have "starts_with (normalized_path f) (w @ p)"
      by (auto simp: matches_path_pattern_def Let_def starts_with_def prefix_def split: if_splits)
    then show ?thesis by (auto simp: starts_with_def prefix_def)
  qed
qed

definition in_fixture_dir :: "string \<Rightarrow> bool" where
  "in_fixture_dir f = list_ex (starts_with (normalized_path f)) secret_allow_fixture_prefixes"

lemma fixture_pattern_confined:
  assumes "is_secret_fixture_path pattern" and "matches_path_pattern f pattern"
  shows "in_fixture_dir f"
proof -
  from assms(1) obtain w where w: "w \<in> set secret_allow_fixture_prefixes" "starts_with (normalized_path pattern) w"
    by (auto simp: is_secret_fixture_path_def list_ex_iff)
  from w(1) have "\<not> has_glob w"
    by (auto simp: secret_allow_fixture_prefixes_def has_glob_def glob_chars_def)
  from matches_below [OF assms(2) w(2) this] w(1) show ?thesis
    by (auto simp: in_fixture_dir_def list_ex_iff)
qed

text \<open>A path as Git lists it, without a backslash and with visible first and last characters, is its own
  normal form.\<close>

lemma dropWhile_hd: "s \<noteq> [] \<Longrightarrow> \<not> p (hd s) \<Longrightarrow> dropWhile p s = s"
  by (cases s) simp_all

lemma strip_by_id: "s \<noteq> [] \<Longrightarrow> \<not> p (hd s) \<Longrightarrow> \<not> p (last s) \<Longrightarrow> strip_by p s = s"
  by (simp add: strip_by_def dropWhile_hd hd_rev)

lemma normalized_plain:
  assumes "CHR 92 \<notin> set f" and "f \<noteq> []" and "\<not> is_space (hd f)" and "\<not> is_space (last f)" and "hd f \<noteq> CHR ''/''"
  shows "normalized_path f = f"
  using assms strip_by_id [of f is_space]
  by (cases f) (auto simp: normalized_path_def slashed_def replace_char_id py_strip_def)

end
