(* ===== verification/Doctor_Rules.thy ===== *)
theory Doctor_Rules
  imports Path_Pattern
begin

text \<open>
  The vocabulary of doctor.py: statuses, rule ids with their severity and family, the patterns of
  the secret and public text scans, findings, checks, the classification of tracked files and the
  report that the checks are put into.  The model's texts hold the code points below 256, so the
  restricted terms that are written in Japanese, which no such text holds, are not in the list.
\<close>

section \<open>Statuses and rules\<close>

definition status_pass :: string where "status_pass = ''pass''"
definition status_warn :: string where "status_warn = ''warn''"
definition status_block :: string where "status_block = ''block''"

definition allow_active :: string where "allow_active = ''active''"
definition allow_expiring_soon :: string where "allow_expiring_soon = ''expiring-soon''"
definition allow_expired :: string where "allow_expired = ''expired''"

definition runtime_status_values :: "string list" where
  "runtime_status_values = [status_pass, status_warn, status_block]"

definition report_schema_version :: string where "report_schema_version = ''1.1''"
definition doctor_version :: string where "doctor_version = ''0.1.0''"
definition report_kind_diff :: string where "report_kind_diff = ''report_diff''"
definition report_kind_release_check :: string where "report_kind_release_check = ''release_check''"

definition max_scanned_files :: nat where "max_scanned_files = 200"
definition text_file_scan_limit_bytes :: nat where "text_file_scan_limit_bytes = 1 * 1024 * 1024"
definition policy_allow_expiring_soon_days :: int where "policy_allow_expiring_soon_days = 30"

definition rule_id_large_file :: string where "rule_id_large_file = ''rhd.repository.large_file''"
definition rule_id_missing_readme :: string where "rule_id_missing_readme = ''rhd.repository.missing_readme''"
definition rule_id_missing_license :: string where "rule_id_missing_license = ''rhd.repository.missing_license''"
definition rule_id_missing_ci :: string where "rule_id_missing_ci = ''rhd.repository.missing_ci''"
definition rule_id_missing_tests :: string where "rule_id_missing_tests = ''rhd.repository.missing_tests''"

definition secret_rule_ids :: "(string \<times> string) list" where
  "secret_rule_ids =
     [(''aws_access_key'', ''rhd.secret.aws_access_key''), (''github_token'', ''rhd.secret.github_token''),
      (''slack_token'', ''rhd.secret.slack_token''), (''private_key'', ''rhd.secret.private_key''),
      (''generic_api_key'', ''rhd.secret.generic_api_key'')]"

definition public_text_rule_ids :: "(string \<times> string) list" where
  "public_text_rule_ids =
     [(''restricted_term'', ''rhd.public_text.restricted_term''),
      (''private_path'', ''rhd.public_text.private_path''), (''local_ip'', ''rhd.public_text.local_ip'')]"

definition tracked_artifact_rule_ids :: "(string \<times> string) list" where
  "tracked_artifact_rule_ids =
     [(''generated_dir'', ''rhd.tracked_artifact.generated_dir''),
      (''cache_dir'', ''rhd.tracked_artifact.cache_dir''),
      (''generated_file'', ''rhd.tracked_artifact.generated_file''),
      (''env_file'', ''rhd.tracked_artifact.env_file'')]"

definition policy_rule_ids :: "(string \<times> string) list" where
  "policy_rule_ids =
     [(''invalid_config'', ''rhd.policy.invalid_config''), (''invalid_ignore'', ''rhd.policy.invalid_ignore''),
      (''invalid_allow'', ''rhd.policy.invalid_allow''), (''expired_allow'', ''rhd.policy.expired_allow''),
      (''unknown_rule_id'', ''rhd.policy.unknown_rule_id''),
      (''unknown_top_level_key'', ''rhd.policy.unknown_top_level_key''),
      (''restricted_secret_allow'', ''rhd.policy.restricted_secret_allow'')]"

text \<open>\<open>RULE_REGISTRY\<close>: rule id, severity, family.\<close>

definition family_rules :: "string \<Rightarrow> string \<Rightarrow> (string \<times> string) list \<Rightarrow> (string \<times> string \<times> string) list" where
  "family_rules severity family ids = map (\<lambda>(_, rule_id). (rule_id, severity, family)) ids"

definition rule_registry :: "(string \<times> string \<times> string) list" where
  "rule_registry =
     [(rule_id_missing_readme, status_warn, ''repository''), (rule_id_missing_license, status_warn, ''repository''),
      (rule_id_missing_ci, status_warn, ''repository''), (rule_id_missing_tests, status_warn, ''repository''),
      (rule_id_large_file, status_warn, ''repository'')]
     @ family_rules status_block ''secret'' secret_rule_ids
     @ family_rules status_block ''public_text'' public_text_rule_ids
     @ family_rules status_block ''tracked_artifact'' tracked_artifact_rule_ids
     @ family_rules status_block ''policy'' policy_rule_ids"

definition known_finding_rule_ids :: "string list" where
  "known_finding_rule_ids = map fst rule_registry"

definition secret_rule_id_values :: "string list" where
  "secret_rule_id_values = map fst (filter (\<lambda>(_, _, family). family = ''secret'') rule_registry)"

definition policy_top_level_keys :: "string list" where
  "policy_top_level_keys = [''ignore_paths'', ''allow_findings'']"

section \<open>Patterns\<close>

definition rx_min :: "nat \<Rightarrow> rx \<Rightarrow> rx" where
  "rx_min n r = Cat (rx_times n r) (Rep r)"

definition ci_lit :: "string \<Rightarrow> rx" where
  "ci_lit w = cats (map (\<lambda>c. Cls (\<lambda>x. lower_char x = c)) w)"

definition word_dash :: "char \<Rightarrow> bool" where
  "word_dash c \<longleftrightarrow> is_ascii_alnum c \<or> c = CHR ''_'' \<or> c = CHR ''-''"

definition secret_scan_patterns :: "(string \<times> rx) list" where
  "secret_scan_patterns =
     [(''aws_access_key'', Cat (lit ''AKIA'') (rx_times 16 (Cls (\<lambda>c. is_digit c \<or> is_upper_ascii c)))),
      (''github_token'', Cat (lit ''github_pat_'') (rx_min 20 (Cls (\<lambda>c. is_ascii_alnum c \<or> c = CHR ''_'')))),
      (''slack_token'', cats [lit ''xox'', chars ''baprs'', lit ''-'',
         rx_min 10 (Cls (\<lambda>c. is_ascii_alnum c \<or> c = CHR ''-''))]),
      (''private_key'', cats [lit ''-----BEGIN '', alts (map lit [''RSA'', ''EC'', ''OPENSSH'', ''DSA'', ''PGP'']),
         lit '' PRIVATE KEY-----'']),
      (''generic_api_key'', cats
        [alts [cats [ci_lit ''api'', opt (chars ''_-''), ci_lit ''key''], ci_lit ''secret'', ci_lit ''token''],
         Rep (Cls is_space), chars '':='', Rep (Cls is_space), opt (chars [CHR 39, CHR 34]),
         rx_min 16 (Cls word_dash)])]"

definition not_in_component :: "char \<Rightarrow> char \<Rightarrow> bool" where
  "not_in_component sep c \<longleftrightarrow> c = sep \<or> is_space c"

definition private_home :: "string \<Rightarrow> char \<Rightarrow> rx" where
  "private_home w sep = cats [lit w, rep1 (Cls (\<lambda>c. \<not> not_in_component sep c)), lit [sep]]"

definition octet :: rx where
  "octet = Cat (Cls is_digit) (rx_upto 2 (Cls is_digit))"

text \<open>\<open>first\<close> followed by \<open>n\<close> groups of a dot and one to three digits.\<close>

definition address_rx :: "nat \<Rightarrow> rx \<Rightarrow> rx" where
  "address_rx n first = Cat first (rx_times n (Cat (lit ''.'') octet))"

definition restricted_public_terms :: "string list" where
  "restricted_public_terms = [''Findy'', ''findy'']"

definition public_text_patterns :: "(string \<times> rx) list" where
  "public_text_patterns =
     [(''restricted_term'', alts (map lit restricted_public_terms)),
      (''private_path'', alts
        [private_home ''/home/'' CHR ''/'', private_home ''/Users/'' CHR ''/'',
         private_home ''/mnt/c/Users/'' CHR ''/'',
         private_home ([CHR ''C'', CHR '':'', CHR 92] @ ''Users'' @ [CHR 92]) (CHR 92)]),
      (''local_ip'', alts
        [address_rx 3 (lit ''10''), address_rx 3 (lit ''127''),
         address_rx 2 (Cat (lit ''172.'') (alts
           [Cat (lit ''1'') (Cls (in_range 54 57)), Cat (lit ''2'') (Cls is_digit), Cat (lit ''3'') (Cls (in_range 48 49))])),
         address_rx 2 (lit ''192.168''),
         address_rx 2 (Cat (lit ''100.'') (alts
           [Cat (lit ''6'') (Cls (in_range 52 57)), Cat (Cls (in_range 55 57)) (Cls is_digit),
            cats [lit ''1'', Cls (in_range 48 49), Cls is_digit], Cat (lit ''12'') (Cls (in_range 48 55))]))])]"

text \<open>\<open>pattern.search(content).start()\<close>: the first position at which the pattern matches; the number
  of the line it is on.\<close>

fun match_start :: "rx \<Rightarrow> string \<Rightarrow> nat option" where
  "match_start r [] = (if nullable r then Some 0 else None)"
| "match_start r (c # s) =
     (if rx_match r (c # s) then Some 0 else map_option Suc (match_start r s))"

definition line_number :: "string \<Rightarrow> nat \<Rightarrow> int" where
  "line_number content start = int (length (filter (\<lambda>c. code c = 10) (take start content))) + 1"

lemma match_start_found: "match_start r s \<noteq> None \<longleftrightarrow> rx_search r s"
proof (induction s)
  case Nil
  show ?case by (auto simp: rx_search_iff nullable_iff)
next
  case (Cons c s)
  have "rx_search r (c # s) \<longleftrightarrow> rx_match r (c # s) \<or> rx_search r s"
    unfolding rx_search_iff rx_match_iff by (metis Cons_eq_append_conv append.left_neutral append_Cons)
  with Cons show ?case by auto
qed

lemma match_start_first:
  "match_start r s = Some n \<Longrightarrow> rx_match r (drop n s) \<and> (\<forall>m<n. \<not> rx_match r (drop m s))"
proof (induction s arbitrary: n)
  case Nil
  then show ?case by (auto simp: rx_match_iff nullable_iff split: if_splits)
next
  case (Cons c s)
  show ?case
  proof (cases "rx_match r (c # s)")
    case False
    with Cons.prems obtain k where k: "n = Suc k" "match_start r s = Some k" by auto
    have "\<not> rx_match r (drop m (c # s))" if "m < n" for m
      using that k(1) False Cons.IH [OF k(2)] by (cases m) auto
    with k Cons.IH [OF k(2)] show ?thesis by simp
  qed (use Cons.prems in simp)
qed

section \<open>Findings and checks\<close>

definition when_given :: "string \<Rightarrow> ('a \<Rightarrow> json) \<Rightarrow> 'a option \<Rightarrow> dict" where
  "when_given k f v = (case v of None \<Rightarrow> [] | Some x \<Rightarrow> [(k, f x)])"

definition make_finding ::
  "string \<Rightarrow> string \<Rightarrow> string \<Rightarrow> string \<Rightarrow> bool \<Rightarrow> int option \<Rightarrow> nat option \<Rightarrow> bool option \<Rightarrow> string option
   \<Rightarrow> string option \<Rightarrow> dict" where
  "make_finding rule_id severity file pattern redacted line size_bytes allowed matched_policy_id policy_source =
     [(''rule_id'', JStr rule_id), (''severity'', JStr severity), (''file'', JStr file),
      (''pattern'', JStr pattern), (''redacted'', JBool redacted)]
     @ when_given ''line'' JInt line @ when_given ''size_bytes'' (\<lambda>n. JInt (int n)) size_bytes
     @ when_given ''allowed'' JBool allowed @ when_given ''matched_policy_id'' JStr matched_policy_id
     @ when_given ''policy_source'' JStr policy_source"

record check_result =
  cr_name :: string
  cr_status :: string
  cr_summary :: string
  cr_details :: dict

definition check_dict :: "check_result \<Rightarrow> dict" where
  "check_dict c =
     [(''name'', JStr (cr_name c)), (''status'', JStr (cr_status c)), (''summary'', JStr (cr_summary c)),
      (''details'', JObj (cr_details c))]"

definition findings_json :: "dict list \<Rightarrow> json" where
  "findings_json fs = JList (map JObj fs)"

definition repository_presence_check ::
  "string \<Rightarrow> string list \<Rightarrow> string \<Rightarrow> string \<Rightarrow> string \<Rightarrow> string \<Rightarrow> check_result" where
  "repository_presence_check check_name found missing_rule_id missing_pattern pass_summary warn_summary =
     (let findings = (if found = []
            then [make_finding missing_rule_id status_warn ''.'' missing_pattern False None None None None None] else []) in
      \<lparr>cr_name = check_name, cr_status = (if found \<noteq> [] then status_pass else status_warn),
       cr_summary = (if found \<noteq> [] then pass_summary else warn_summary),
       cr_details = [(''found'', jstrs found), (''findings'', findings_json findings)]\<rparr>)"

section \<open>Tracked files\<close>

text \<open>\<open>Path(text).parts\<close> of a relative path.\<close>

definition path_parts :: "string \<Rightarrow> string list" where
  "path_parts text = filter (\<lambda>p. p \<noteq> [] \<and> p \<noteq> ''.'') (split_on (CHR ''/'') text)"

definition posix_text :: "string \<Rightarrow> string" where
  "posix_text text = (case path_parts text of [] \<Rightarrow> ''.'' | p # ps \<Rightarrow> as_posix (p # ps))"

definition path_name :: "string \<Rightarrow> string" where
  "path_name text = (case path_parts text of [] \<Rightarrow> [] | p # ps \<Rightarrow> last (p # ps))"

definition tracked_artifact_top_level_dirs :: "string list" where
  "tracked_artifact_top_level_dirs =
     [''artifacts'', ''logs'', ''log'', ''tmp'', ''temp'', ''cache'', ''build'', ''dist'', ''coverage'', ''generated'']"

definition tracked_artifact_cache_dirs :: "string list" where
  "tracked_artifact_cache_dirs = [''.cache'', ''.pytest_cache'', ''.mypy_cache'', ''.ruff_cache'', ''htmlcov'']"

definition tracked_artifact_file_names :: "string list" where
  "tracked_artifact_file_names = [''.coverage'', ''coverage.xml'']"

definition tracked_artifact_suffixes :: "string list" where
  "tracked_artifact_suffixes = [''.log'', ''.tmp'', ''.cache'']"

definition tracked_env_allowed_names :: "string list" where
  "tracked_env_allowed_names = [''.env.example'', ''.env.sample'', ''.env.template'']"

definition tracked_env_prefix :: string where "tracked_env_prefix = ''.env.''"

definition classify_tracked_artifact :: "string \<Rightarrow> string option" where
  "classify_tracked_artifact relative =
     (let lowered_parts = map py_lower (path_parts relative); name = py_lower (path_name relative) in
      if lowered_parts \<noteq> [] \<and> hd lowered_parts \<in> set tracked_artifact_top_level_dirs then Some ''generated_dir''
      else if list_ex (\<lambda>part. part \<in> set tracked_artifact_cache_dirs) (butlast lowered_parts) then Some ''cache_dir''
      else if name \<in> set tracked_artifact_file_names then Some ''generated_file''
      else if name = ''.env'' then Some ''env_file''
      else if starts_with name tracked_env_prefix \<and> name \<notin> set tracked_env_allowed_names then Some ''env_file''
      else if py_lower (path_suffix (path_parts relative)) \<in> set tracked_artifact_suffixes then Some ''generated_file''
      else None)"

section \<open>The report\<close>

definition status_count :: "string \<Rightarrow> check_result list \<Rightarrow> int" where
  "status_count status checks = int (length (filter (\<lambda>c. cr_status c = status) checks))"

definition overall_status_of :: "check_result list \<Rightarrow> string" where
  "overall_status_of checks =
     (if status_count status_block checks \<noteq> 0 then status_block
      else if status_count status_warn checks \<noteq> 0 then status_warn else status_pass)"

text \<open>\<open>repo_path\<close> is \<open>_safe_repo_path(root)\<close>, which looks at the working directory.\<close>

definition build_report :: "string \<Rightarrow> check_result list \<Rightarrow> dict" where
  "build_report repo_path checks =
     [(''tool'', JStr ''repo-health-doctor''), (''version'', JStr doctor_version),
      (''schema_version'', JStr report_schema_version), (''repo_path'', JStr repo_path),
      (''overall_status'', JStr (overall_status_of checks)),
      (''summary'', JObj
        [(status_pass, JInt (status_count status_pass checks)), (status_warn, JInt (status_count status_warn checks)),
         (status_block, JInt (status_count status_block checks))]),
      (''checks'', JList (map (\<lambda>c. JObj (check_dict c)) checks))]"

text \<open>\<open>_safe_repo_path\<close>: the resolved root and, unless it cannot be had, the working directory, both as
  parts; \<open>name\<close> is the last part of the root.\<close>

definition safe_repo_path :: "string list \<Rightarrow> string list option \<Rightarrow> string" where
  "safe_repo_path root_parts cwd =
     (case cwd of
        None \<Rightarrow> ''<repo>''
      | Some here \<Rightarrow>
          if root_parts = here then ''.''
          else if prefix here root_parts then as_posix (drop (length here) root_parts)
          else ''<repo:'' @ (case root_parts of [] \<Rightarrow> [] | p # ps \<Rightarrow> last (p # ps)) @ ''>'')"

end
