(* ===== verification/Control_File.thy ===== *)
theory Control_File
  imports Snapshot_Copy
begin

text \<open>
  control_file.py: bounded reads of the files an operator controls (authorizations, approvals).
  A read opens the file without following links, compares what \<open>lstat\<close>, \<open>fstat\<close> and a second
  \<open>fstat\<close> report, and returns the bytes with their digest and the state of the file.  What the
  operating system answers is an argument; so is the JSON parser of the standard library.  One answer
  is left out: an input error of the read itself, which this code does not catch.
\<close>

section \<open>The answers\<close>

definition control_file_max_bytes :: nat where "control_file_max_bytes = 64 * 1024"

definition control_file_read_chunk_bytes :: nat where "control_file_read_chunk_bytes = 8192"

text \<open>A \<open>ControlFileState\<close> has every field of a \<open>stat\<close> result that the snapshots use, with the kind and
  the permissions in one mode.\<close>

type_synonym control_file_state = file_stat

record bounded_control_file =
  cf_content :: string
  cf_sha256 :: string
  cf_state :: control_file_state

record bounded_json_document =
  cd_payload :: json
  cd_sha256 :: string
  cd_state :: control_file_state

datatype lstat_answer = NotFound | LstatError | Found file_stat

datatype control_open = OpenLoop | OpenFailed | OpenedFile

text \<open>One run of the reader: the bytes that the descriptor delivers until it reports the end, and how
  many of them each single read hands over (no read hands over more than it was asked for, and
  none hands over nothing before the end).\<close>

record file_answers =
  fa_no_follow :: bool
  fa_lstat :: lstat_answer
  fa_open :: control_open
  fa_opened :: "file_stat option"
  fa_bytes :: string
  fa_sizes :: "nat list"
  fa_after :: "file_stat option"

section \<open>The bounded read\<close>

definition read_size :: "nat \<Rightarrow> nat list \<Rightarrow> nat" where
  "read_size wanted sizes = (case sizes of [] \<Rightarrow> wanted | n # ns \<Rightarrow> max 1 (min wanted n))"

function read_chunks :: "nat \<Rightarrow> string \<Rightarrow> nat list \<Rightarrow> string list" where
  "read_chunks remaining available sizes =
     (if remaining = 0 \<or> available = [] then []
      else
        (let chunk = take (read_size (min control_file_read_chunk_bytes remaining) sizes) available in
         chunk # read_chunks (remaining - length chunk) (drop (length chunk) available) (tl sizes)))"
  by pat_completeness auto
termination
  by (relation "measure (\<lambda>(remaining, available, sizes). length available)")
    (auto simp: read_size_def control_file_read_chunk_bytes_def Let_def split: list.splits)

declare read_chunks.simps [simp del]

definition bounded_read :: "nat \<Rightarrow> string \<Rightarrow> nat list \<Rightarrow> string option" where
  "bounded_read max_bytes available sizes =
     (let content = concat (read_chunks (max_bytes + 1) available sizes) in
      if length content > max_bytes then None else Some content)"

text \<open>\<open>ControlFileState.from_stat(left) == ControlFileState.from_stat(right)\<close>.\<close>

definition same_file_state :: "file_stat \<Rightarrow> file_stat \<Rightarrow> bool" where
  "same_file_state left right \<longleftrightarrow> left = right"

section \<open>The read\<close>

definition check_listed :: "nat \<Rightarrow> file_answers \<Rightarrow> string + file_stat" where
  "check_listed max_bytes a =
     (if max_bytes < 1 then Inl ''too_large''
      else if \<not> fa_no_follow a then Inl ''no_follow_unsupported''
      else
        (case fa_lstat a of
           NotFound \<Rightarrow> Inl ''not_found''
         | LstatError \<Rightarrow> Inl ''file_changed''
         | Found before \<Rightarrow>
             if st_kind before = Link_kind then Inl ''symlink_refused''
             else if st_kind before \<noteq> Regular then Inl ''not_regular''
             else if st_size before > int max_bytes then Inl ''too_large''
             else Inr before))"

definition check_opened :: "nat \<Rightarrow> file_stat \<Rightarrow> file_answers \<Rightarrow> string + file_stat" where
  "check_opened max_bytes before a =
     (case fa_open a of
        OpenLoop \<Rightarrow> Inl ''symlink_refused''
      | OpenFailed \<Rightarrow> Inl ''file_changed''
      | OpenedFile \<Rightarrow>
          (case fa_opened a of
             None \<Rightarrow> Inl ''file_changed''
           | Some opened \<Rightarrow>
               if st_kind opened \<noteq> Regular \<or> \<not> same_file_state before opened then Inl ''file_changed''
               else if st_size opened > int max_bytes then Inl ''too_large''
               else Inr opened))"

definition read_content :: "nat \<Rightarrow> file_stat \<Rightarrow> file_answers \<Rightarrow> string + bounded_control_file" where
  "read_content max_bytes opened a =
     (case bounded_read max_bytes (fa_bytes a) (fa_sizes a) of
        None \<Rightarrow> Inl ''too_large''
      | Some content \<Rightarrow>
          (case fa_after a of
             None \<Rightarrow> Inl ''file_changed''
           | Some after \<Rightarrow>
               if \<not> same_file_state opened after \<or> int (length content) \<noteq> st_size after then Inl ''file_changed''
               else Inr \<lparr>cf_content = content, cf_sha256 = ''sha256:'' @ sha256_hexdigest content, cf_state = after\<rparr>))"

definition read_bounded_control_file :: "nat \<Rightarrow> file_answers \<Rightarrow> string + bounded_control_file" where
  "read_bounded_control_file max_bytes a =
     (case check_listed max_bytes a of
        Inl reason \<Rightarrow> Inl reason
      | Inr before \<Rightarrow>
          (case check_opened max_bytes before a of
             Inl reason \<Rightarrow> Inl reason
           | Inr opened \<Rightarrow> read_content max_bytes opened a))"

text \<open>\<open>parse\<close> is \<open>json.loads\<close> with the errors that are caught here as \<open>None\<close>.\<close>

definition load_bounded_json_document ::
  "(string \<Rightarrow> json option) \<Rightarrow> nat \<Rightarrow> file_answers \<Rightarrow> string + bounded_json_document" where
  "load_bounded_json_document parse max_bytes a =
     (case read_bounded_control_file max_bytes a of
        Inl reason \<Rightarrow> Inl reason
      | Inr f \<Rightarrow>
          (case parse (cf_content f) of
             None \<Rightarrow> Inl ''parse_failed''
           | Some payload \<Rightarrow> Inr \<lparr>cd_payload = payload, cd_sha256 = cf_sha256 f, cd_state = cf_state f\<rparr>))"

definition control_file_matches :: "bounded_json_document \<Rightarrow> bounded_json_document \<Rightarrow> bool" where
  "control_file_matches left right \<longleftrightarrow> cd_sha256 left = cd_sha256 right \<and> cd_state left = cd_state right"

section \<open>What a read returns\<close>

lemma take_split:
  assumes "n \<le> m"
  shows "take m xs = take n xs @ take (m - length (take n xs)) (drop (length (take n xs)) xs)"
proof (cases "n \<le> length xs")
  case True
  with assms take_add [of n "m - n" xs] show ?thesis by simp
next
  case False
  with assms show ?thesis by simp
qed

lemma read_chunks_take: "concat (read_chunks remaining available sizes) = take remaining available"
proof (induction remaining available sizes rule: read_chunks.induct)
  case (1 remaining available sizes)
  show ?case
  proof (cases "remaining = 0 \<or> available = []")
    case True
    then show ?thesis by (subst read_chunks.simps) auto
  next
    case False
    let ?n = "read_size (min control_file_read_chunk_bytes remaining) sizes"
    let ?c = "take ?n available"
    have "?n \<le> remaining" "1 \<le> ?n"
      using False by (auto simp: read_size_def control_file_read_chunk_bytes_def split: list.split)
    then have "take remaining available = ?c @ take (remaining - length ?c) (drop (length ?c) available)"
      by (simp add: take_split)
    with 1 [OF False refl] False show ?thesis by (subst read_chunks.simps) (simp add: Let_def)
  qed
qed

lemma bounded_read_bytes: "bounded_read n available sizes = (if length available > n then None else Some available)"
  by (simp add: bounded_read_def read_chunks_take Let_def min_def)

lemma read_Inr:
  assumes "read_bounded_control_file max_bytes a = Inr f"
  shows "fa_lstat a = Found (cf_state f) \<and> fa_opened a = Some (cf_state f) \<and> fa_after a = Some (cf_state f)
    \<and> fa_open a = OpenedFile \<and> fa_no_follow a
    \<and> st_kind (cf_state f) = Regular \<and> cf_content f = fa_bytes a \<and> int (length (cf_content f)) = st_size (cf_state f)
    \<and> length (cf_content f) \<le> max_bytes \<and> cf_sha256 f = ''sha256:'' @ sha256_hexdigest (cf_content f)"
  using assms unfolding read_bounded_control_file_def check_listed_def check_opened_def read_content_def
    bounded_read_bytes same_file_state_def
  by (auto split: if_splits sum.splits option.splits lstat_answer.splits control_open.splits)

section \<open>Properties\<close>

text \<open>C34: a control file that is accepted is a regular file, not a link, whose identity, mode, size and
  times were the same when it was listed, after it was opened and after it was read; its content
  is every byte the descriptor delivered, however the reads were split, within the size limit.\<close>

theorem control_file_read_exact:
  assumes "load_bounded_json_document parse max_bytes a = Inr d"
  shows "fa_lstat a = Found (cd_state d) \<and> fa_opened a = Some (cd_state d) \<and> fa_after a = Some (cd_state d)
    \<and> st_kind (cd_state d) = Regular \<and> parse (fa_bytes a) = Some (cd_payload d)
    \<and> cd_sha256 d = ''sha256:'' @ sha256_hexdigest (fa_bytes a)
    \<and> int (length (fa_bytes a)) = st_size (cd_state d) \<and> length (fa_bytes a) \<le> max_bytes"
proof -
  from assms obtain f where f: "read_bounded_control_file max_bytes a = Inr f"
    and d: "parse (cf_content f) = Some (cd_payload d)" "cd_sha256 d = cf_sha256 f" "cd_state d = cf_state f"
    unfolding load_bounded_json_document_def by (auto split: sum.splits option.splits)
  from read_Inr [OF f] have b: "fa_bytes a = cf_content f" by simp
  from read_Inr [OF f] show ?thesis unfolding b d by simp
qed

definition sample_control_state :: file_stat where
  "sample_control_state = \<lparr>st_kind = Regular, st_dev = 1, st_ino = 7, st_perm = 384, st_size = 2, st_mtime_ns = 5, st_ctime_ns = 5\<rparr>"

definition sample_control_answers :: "string \<Rightarrow> file_answers" where
  "sample_control_answers bytes =
     \<lparr>fa_no_follow = True, fa_lstat = Found sample_control_state, fa_open = OpenedFile, fa_opened = Some sample_control_state,
      fa_bytes = bytes, fa_sizes = [1], fa_after = Some sample_control_state\<rparr>"

theorem control_file_read_exact_witness:
  "\<exists>d. load_bounded_json_document (\<lambda>_. Some (JObj [])) 8 (sample_control_answers ''{}'') = Inr d
     \<and> st_size (cd_state d) = int (length ''{}'')"
proof -
  have "\<exists>d. load_bounded_json_document (\<lambda>_. Some (JObj [])) 8 (sample_control_answers ''{}'') = Inr d"
    by (simp add: load_bounded_json_document_def read_bounded_control_file_def check_listed_def check_opened_def
        read_content_def bounded_read_bytes same_file_state_def sample_control_answers_def sample_control_state_def)
  then obtain d where d: "load_bounded_json_document (\<lambda>_. Some (JObj [])) 8 (sample_control_answers ''{}'') = Inr d" ..
  from control_file_read_exact [OF d] have "int (length (fa_bytes (sample_control_answers ''{}''))) = st_size (cd_state d)" by blast
  with d show ?thesis by (simp add: sample_control_answers_def)
qed

end
