(* ===== verification/Py_Time.thy ===== *)
theory Py_Time
  imports Py_Text
begin

text \<open>
  The part of \<open>datetime\<close> that the program uses: \<open>fromisoformat\<close> with the grammar that the
  oldest supported Python (3.10) documents, \<open>YYYY-MM-DD[*HH[:MM[:SS[.fff[fff]]]][+HH:MM[:SS[.ffffff]]]]\<close>,
  aware and naive values, conversion to UTC (which raises \<open>OverflowError\<close> when the result
  leaves the years 1 to 9999), comparison by instant and \<open>isoformat\<close> of a UTC value.

  A value is a count of microseconds since 0001-01-01T00:00 of its own clock and, when it
  is aware, its offset from UTC in microseconds.
\<close>

section \<open>The calendar\<close>

record datetime =
  clock_us :: int
  tz_us :: "int option"

definition is_leap :: "int \<Rightarrow> bool" where
  "is_leap y \<longleftrightarrow> y mod 4 = 0 \<and> (y mod 100 \<noteq> 0 \<or> y mod 400 = 0)"

definition days_before_year :: "int \<Rightarrow> int" where
  "days_before_year y = (let p = y - 1 in p * 365 + p div 4 - p div 100 + p div 400)"

definition month_days :: "int \<Rightarrow> int \<Rightarrow> int" where
  "month_days y m =
     (if m = 2 then if is_leap y then 29 else 28
      else if m \<in> {4, 6, 9, 11} then 30 else 31)"

definition days_before_month :: "int \<Rightarrow> int \<Rightarrow> int" where
  "days_before_month y m =
     [0, 0, 31, 59, 90, 120, 151, 181, 212, 243, 273, 304, 334] ! nat m
       + (if 2 < m \<and> is_leap y then 1 else 0)"

definition day_us :: int where "day_us = 86400000000"

definition max_clock :: int where "max_clock = 3652059 * day_us"

section \<open>Parsing\<close>

text \<open>A run of exactly \<open>n\<close> digits.\<close>

definition take_digits :: "nat \<Rightarrow> string \<Rightarrow> (int \<times> string) option" where
  "take_digits n s =
     (if n \<le> length s \<and> list_all is_digit (take n s)
      then Some (int (digits_value (take n s)), drop n s) else None)"

fun expect :: "char \<Rightarrow> string \<Rightarrow> string option" where
  "expect c [] = None"
| "expect c (x # s) = (if x = c then Some s else None)"

definition parse_date :: "string \<Rightarrow> (int \<times> int \<times> int \<times> string) option" where
  "parse_date s =
     Option.bind (take_digits 4 s) (\<lambda>(y, s).
     Option.bind (expect CHR ''-'' s) (\<lambda>s.
     Option.bind (take_digits 2 s) (\<lambda>(m, s).
     Option.bind (expect CHR ''-'' s) (\<lambda>s.
     Option.bind (take_digits 2 s) (\<lambda>(d, s). Some (y, m, d, s))))))"

text \<open>The fraction: three or six digits after the dot and nothing else.\<close>

definition parse_fraction :: "string \<Rightarrow> int option" where
  "parse_fraction s =
     (if list_all is_digit s \<and> length s = 6 then Some (int (digits_value s))
      else if list_all is_digit s \<and> length s = 3 then Some (1000 * int (digits_value s))
      else None)"

text \<open>\<open>HH[:MM[:SS[.fff[fff]]]]\<close>, in microseconds; \<open>hh\<close> etc. are returned for the range
  check of a time of day.\<close>

definition parse_clock :: "string \<Rightarrow> (int \<times> int \<times> int \<times> int) option" where
  "parse_clock s =
     Option.bind (take_digits 2 s) (\<lambda>(h, s).
     if s = [] then Some (h, 0, 0, 0) else
     Option.bind (expect CHR '':'' s) (\<lambda>s.
     Option.bind (take_digits 2 s) (\<lambda>(m, s).
     if s = [] then Some (h, m, 0, 0) else
     Option.bind (expect CHR '':'' s) (\<lambda>s.
     Option.bind (take_digits 2 s) (\<lambda>(sec, s).
     if s = [] then Some (h, m, sec, 0) else
     Option.bind (expect CHR ''.'' s) (\<lambda>s.
     Option.bind (parse_fraction s) (\<lambda>f. Some (h, m, sec, f))))))))"

definition clock_value :: "int \<times> int \<times> int \<times> int \<Rightarrow> int" where
  "clock_value = (\<lambda>(h, m, s, f). ((h * 60 + m) * 60 + s) * 1000000 + f)"

text \<open>The UTC offset: its length fixes which of the three forms it has, and it must be
  shorter than a day.\<close>

definition parse_offset :: "string \<Rightarrow> int option" where
  "parse_offset s =
     (if length s \<notin> {5, 8, 15} then None
      else Option.bind (parse_clock s) (\<lambda>c. if clock_value c < day_us then Some (clock_value c) else None))"

definition is_sign :: "char \<Rightarrow> bool" where
  "is_sign c \<longleftrightarrow> c = CHR ''+'' \<or> c = CHR ''-''"

definition parse_time :: "string \<Rightarrow> (int \<times> int option) option" where
  "parse_time s =
     (let t = takeWhile (\<lambda>c. \<not> is_sign c) s; z = dropWhile (\<lambda>c. \<not> is_sign c) s
      in Option.bind (parse_clock t) (\<lambda>(h, m, sec, f).
         if 24 \<le> h \<or> 60 \<le> m \<or> 60 \<le> sec then None
         else
           (case z of
              [] \<Rightarrow> Some (clock_value (h, m, sec, f), None)
            | sign # off \<Rightarrow>
                Option.bind (parse_offset off) (\<lambda>v.
                  Some (clock_value (h, m, sec, f), Some (if sign = CHR ''-'' then - v else v))))))"

definition fromisoformat :: "string \<Rightarrow> datetime option" where
  "fromisoformat s =
     Option.bind (parse_date s) (\<lambda>(y, m, d, rest).
       if y < 1 \<or> m < 1 \<or> 12 < m \<or> d < 1 \<or> month_days y m < d then None
       else
         (let base = (days_before_year y + days_before_month y m + d - 1) * day_us
          in if rest = [] then Some \<lparr>clock_us = base, tz_us = None\<rparr>
             else Option.bind (parse_time (tl rest)) (\<lambda>(c, z).
                    Some \<lparr>clock_us = base + c, tz_us = z\<rparr>)))"

text \<open>\<open>value.replace("Z", "+00:00")\<close>, which every caller applies first.\<close>

definition zulu :: "string \<Rightarrow> string" where
  "zulu s = replace_char CHR ''Z'' ''+00:00'' s"

section \<open>Instants\<close>

text \<open>\<open>dt.replace(tzinfo=utc)\<close> when naive, \<open>dt.astimezone(utc)\<close> otherwise.\<close>

definition instant :: "datetime \<Rightarrow> int" where
  "instant t = clock_us t - (case tz_us t of None \<Rightarrow> 0 | Some z \<Rightarrow> z)"

definition in_calendar :: "int \<Rightarrow> bool" where
  "in_calendar u \<longleftrightarrow> 0 \<le> u \<and> u < max_clock"

text \<open>\<open>dt.astimezone(timezone.utc)\<close> of an aware value, as an instant: \<open>OverflowError\<close> when
  the UTC date leaves the calendar.\<close>

definition astimezone_utc :: "datetime \<Rightarrow> int option" where
  "astimezone_utc t = (if in_calendar (instant t) then Some (instant t) else None)"

definition day_of_ordinal :: "int \<Rightarrow> int \<times> int \<times> int" where
  "day_of_ordinal days =
     (let n400 = days div 146097; a = days mod 146097;
          n100 = a div 36524; b = a mod 36524;
          n4 = b div 1461; c = b mod 1461;
          n1 = c div 365; n = c mod 365;
          y = n400 * 400 + n100 * 100 + n4 * 4 + n1 + 1
      in if n1 = 4 \<or> n100 = 4 then (y - 1, 12, 31)
         else
           (let m0 = (n + 50) div 32; m = (if n < days_before_month y m0 then m0 - 1 else m0)
            in (y, m, n - days_before_month y m + 1)))"

definition pad_digits :: "nat \<Rightarrow> int \<Rightarrow> string" where
  "pad_digits n i = (let t = int_text i in replicate (n - length t) CHR ''0'' @ t)"

text \<open>\<open>isoformat()\<close> of an instant in UTC.\<close>

definition isoformat_utc :: "int \<Rightarrow> string" where
  "isoformat_utc u =
     (let (y, mo, d) = day_of_ordinal (u div day_us); r = u mod day_us;
          f = r mod 1000000; s = r div 1000000
      in pad_digits 4 y @ ''-'' @ pad_digits 2 mo @ ''-'' @ pad_digits 2 d @ ''T''
         @ pad_digits 2 (s div 3600) @ '':'' @ pad_digits 2 (s div 60 mod 60) @ '':''
         @ pad_digits 2 (s mod 60)
         @ (if f = 0 then [] else ''.'' @ pad_digits 6 f) @ ''+00:00'')"

section \<open>Facts\<close>

lemma take_digits_length: "take_digits n s = Some (v, r) \<Longrightarrow> length s = n + length r"
  by (auto simp: take_digits_def split: if_splits)

lemma fromisoformat_Nil [simp]: "fromisoformat [] = None"
  by (simp add: fromisoformat_def parse_date_def take_digits_def)

lemma zulu_no_Z: "CHR ''Z'' \<notin> set (zulu s)"
  unfolding zulu_def by (rule replace_char_absent) simp

end
