(* ===== verification/Pipe_Reader.thy ===== *)
theory Pipe_Reader
  imports Snapshot_Manifest
begin

text \<open>
  The bounded reader of a git process' output (\<open>_BoundedPipeReader\<close> of
  sandbox/run_workspace.py).  What the pipes deliver is a list of events, one per read; each
  reading operation pumps events until its answer is in the buffer, and a missing event is the
  deadline.  The lemmas show that the answers depend on the bytes only, not on how the pipe cut
  them into chunks.
\<close>

record pipe =
  pp_out :: string
  pp_err :: string
  pp_eof :: bool

datatype pipe_event = OutChunk string | ErrChunk string | OutEof | ErrEof | Deadline

definition stream_chunk_bytes :: nat where "stream_chunk_bytes = 64 * 1024"

definition git_stderr_limit_bytes :: nat where "git_stderr_limit_bytes = 64 * 1024"

definition pump :: "nat \<Rightarrow> pipe_event \<Rightarrow> pipe \<Rightarrow> refusal + pipe" where
  "pump stderr_limit ev p =
     (case ev of
        OutChunk c \<Rightarrow> Inr (p\<lparr>pp_out := pp_out p @ c\<rparr>)
      | ErrChunk c \<Rightarrow>
          if length (pp_err p) + length c > stderr_limit then Inl (Refusal ''git_stderr_budget_exceeded'' None)
          else Inr (p\<lparr>pp_err := pp_err p @ c\<rparr>)
      | OutEof \<Rightarrow> Inr (p\<lparr>pp_eof := True\<rparr>)
      | ErrEof \<Rightarrow> Inr p
      | Deadline \<Rightarrow> Inl (Refusal ''git_command_timeout'' None))"

definition before_mark :: "char \<Rightarrow> string \<Rightarrow> string" where
  "before_mark d s = takeWhile (\<lambda>c. c \<noteq> d) s"

definition after_mark :: "char \<Rightarrow> string \<Rightarrow> string" where
  "after_mark d s = tl (dropWhile (\<lambda>c. c \<noteq> d) s)"

text \<open>\<open>readline\<close>: the line with its newline.\<close>

fun pipe_readline :: "nat \<Rightarrow> nat \<Rightarrow> pipe \<Rightarrow> pipe_event list \<Rightarrow> refusal + string \<times> pipe \<times> pipe_event list" where
  "pipe_readline stderr_limit limit p evs =
     (if CHR 0x0A \<in> set (pp_out p)
      then if length (before_mark (CHR 0x0A) (pp_out p)) + 1 > limit
           then Inl (Refusal ''git_output_line_budget_exceeded'' None)
           else Inr (before_mark (CHR 0x0A) (pp_out p) @ [CHR 0x0A],
                     p\<lparr>pp_out := after_mark (CHR 0x0A) (pp_out p)\<rparr>, evs)
      else if length (pp_out p) \<ge> limit then Inl (Refusal ''git_output_line_budget_exceeded'' None)
      else if pp_eof p then Inl (Refusal ''git_output_truncated'' None)
      else (case evs of
              [] \<Rightarrow> Inl (Refusal ''git_command_timeout'' None)
            | ev # evs' \<Rightarrow>
                (case pump stderr_limit ev p of
                   Inl r \<Rightarrow> Inl r | Inr p' \<Rightarrow> pipe_readline stderr_limit limit p' evs')))"

text \<open>\<open>read_delimited\<close>: the record without its delimiter, \<open>None\<close> at the end of the output.\<close>

fun pipe_read_delimited ::
  "nat \<Rightarrow> char \<Rightarrow> nat \<Rightarrow> pipe \<Rightarrow> pipe_event list \<Rightarrow> refusal + string option \<times> pipe \<times> pipe_event list" where
  "pipe_read_delimited stderr_limit d limit p evs =
     (if d \<in> set (pp_out p)
      then if length (before_mark d (pp_out p)) > limit
           then Inl (Refusal ''git_output_record_budget_exceeded'' None)
           else Inr (Some (before_mark d (pp_out p)), p\<lparr>pp_out := after_mark d (pp_out p)\<rparr>, evs)
      else if length (pp_out p) > limit then Inl (Refusal ''git_output_record_budget_exceeded'' None)
      else if pp_eof p
      then if pp_out p \<noteq> [] then Inl (Refusal ''git_output_truncated'' None) else Inr (None, p, evs)
      else (case evs of
              [] \<Rightarrow> Inl (Refusal ''git_command_timeout'' None)
            | ev # evs' \<Rightarrow>
                (case pump stderr_limit ev p of
                   Inl r \<Rightarrow> Inl r | Inr p' \<Rightarrow> pipe_read_delimited stderr_limit d limit p' evs')))"

text \<open>\<open>read_exact\<close>: the chunks it yields, joined.\<close>

function pipe_read_exact :: "nat \<Rightarrow> nat \<Rightarrow> pipe \<Rightarrow> pipe_event list \<Rightarrow> refusal + string \<times> pipe \<times> pipe_event list" where
  "pipe_read_exact stderr_limit remaining p evs =
     (if remaining = 0 then Inr ([], p, evs)
      else if pp_out p = []
      then if pp_eof p then Inl (Refusal ''git_output_truncated'' None)
           else (case evs of
                   [] \<Rightarrow> Inl (Refusal ''git_command_timeout'' None)
                 | ev # evs' \<Rightarrow>
                     (case pump stderr_limit ev p of
                        Inl r \<Rightarrow> Inl r | Inr p' \<Rightarrow> pipe_read_exact stderr_limit remaining p' evs'))
      else (let n = min remaining (min stream_chunk_bytes (length (pp_out p))) in
            case pipe_read_exact stderr_limit (remaining - n) (p\<lparr>pp_out := drop n (pp_out p)\<rparr>) evs of
              Inl r \<Rightarrow> Inl r
            | Inr (rest, q) \<Rightarrow> Inr (take n (pp_out p) @ rest, q)))"
  by pat_completeness auto
termination
  by (relation "measures [\<lambda>(l, remaining, p, evs). length evs, \<lambda>(l, remaining, p, evs). remaining]")
    (auto simp: stream_chunk_bytes_def)

declare pipe_readline.simps [simp del] pipe_read_delimited.simps [simp del] pipe_read_exact.simps [simp del]

section \<open>Reading from the bytes themselves\<close>

text \<open>The operations on a byte string that is there as a whole.\<close>

definition line_of :: "nat \<Rightarrow> string \<Rightarrow> refusal + string \<times> string" where
  "line_of limit s =
     (if CHR 0x0A \<in> set s
      then if length (before_mark (CHR 0x0A) s) + 1 > limit then Inl (Refusal ''git_output_line_budget_exceeded'' None)
           else Inr (before_mark (CHR 0x0A) s @ [CHR 0x0A], after_mark (CHR 0x0A) s)
      else if length s \<ge> limit then Inl (Refusal ''git_output_line_budget_exceeded'' None)
      else Inl (Refusal ''git_output_truncated'' None))"

definition record_of :: "char \<Rightarrow> nat \<Rightarrow> string \<Rightarrow> refusal + string option \<times> string" where
  "record_of d limit s =
     (if d \<in> set s
      then if length (before_mark d s) > limit then Inl (Refusal ''git_output_record_budget_exceeded'' None)
           else Inr (Some (before_mark d s), after_mark d s)
      else if length s > limit then Inl (Refusal ''git_output_record_budget_exceeded'' None)
      else if s \<noteq> [] then Inl (Refusal ''git_output_truncated'' None)
      else Inr (None, []))"

definition exact_of :: "nat \<Rightarrow> string \<Rightarrow> refusal + string \<times> string" where
  "exact_of n s = (if length s < n then Inl (Refusal ''git_output_truncated'' None) else Inr (take n s, drop n s))"

text \<open>The events deliver these bytes: chunks up to the end of the output.\<close>

fun delivers :: "pipe \<Rightarrow> pipe_event list \<Rightarrow> string \<Rightarrow> bool" where
  "delivers p [] s \<longleftrightarrow> pp_eof p \<and> s = pp_out p"
| "delivers p (OutChunk c # evs) s \<longleftrightarrow> \<not> pp_eof p \<and> delivers (p\<lparr>pp_out := pp_out p @ c\<rparr>) evs s"
| "delivers p (OutEof # evs) s \<longleftrightarrow> \<not> pp_eof p \<and> evs = [] \<and> s = pp_out p"
| "delivers p _ s \<longleftrightarrow> False"

text \<open>The outcome of an operation on the pipe is that of the operation on the bytes.\<close>

definition reads_as :: "(refusal + 'a \<times> pipe \<times> pipe_event list) \<Rightarrow> (refusal + 'a \<times> string) \<Rightarrow> bool" where
  "reads_as r spec =
     (case spec of
        Inl e \<Rightarrow> r = Inl e
      | Inr (v, rest) \<Rightarrow> (\<exists>p evs. r = Inr (v, p, evs) \<and> delivers p evs rest))"

lemma delivers_prefix: "delivers p evs s \<Longrightarrow> \<exists>t. s = pp_out p @ t"
  by (induction p evs s rule: delivers.induct) auto

lemma mark_append:
  assumes "d \<in> set s"
  shows "before_mark d (s @ t) = before_mark d s" and "after_mark d (s @ t) = after_mark d s @ t"
  using assms by (induction s) (auto simp: before_mark_def after_mark_def)

lemma mark_absent: "d \<notin> set s \<Longrightarrow> length s \<le> length (before_mark d (s @ t))"
  by (induction s) (auto simp: before_mark_def)

lemma delivers_drop:
  "delivers p evs (u @ s) \<Longrightarrow> pp_out p = u @ w \<Longrightarrow> delivers (p\<lparr>pp_out := w\<rparr>) evs s"
proof (induction p evs "u @ s" arbitrary: w rule: delivers.induct)
  case (2 p c evs)
  from 2(1) [of "w @ c"] 2(2,3) show ?case by simp
qed auto

lemma mark_split: "d \<in> set s \<Longrightarrow> (before_mark d s @ [d]) @ after_mark d s = s"
  by (induction s) (auto simp: before_mark_def after_mark_def)

text \<open>Taking a marked part off the buffer takes it off the bytes that are delivered.\<close>

lemma delivers_taken:
  assumes "delivers p evs s" and "d \<in> set (pp_out p)"
  shows "d \<in> set s \<and> before_mark d s = before_mark d (pp_out p)
    \<and> delivers (p\<lparr>pp_out := after_mark d (pp_out p)\<rparr>) evs (after_mark d s)"
proof -
  from delivers_prefix [OF assms(1)] obtain t where s: "s = pp_out p @ t" ..
  with assms(2) have mem: "d \<in> set s" and before: "before_mark d s = before_mark d (pp_out p)"
    by (simp_all add: mark_append)
  have "delivers (p\<lparr>pp_out := after_mark d (pp_out p)\<rparr>) evs (after_mark d s)"
  proof (rule delivers_drop)
    show "delivers p evs ((before_mark d (pp_out p) @ [d]) @ after_mark d s)"
      unfolding before [symmetric] mark_split [OF mem] by (rule assms(1))
    show "pp_out p = (before_mark d (pp_out p) @ [d]) @ after_mark d (pp_out p)"
      by (rule mark_split [OF assms(2), symmetric])
  qed
  with assms(2) s show ?thesis by (simp add: mark_append)
qed

text \<open>A buffer without the mark says that the mark is far, or not there.\<close>

lemma delivers_unmarked:
  assumes "delivers p evs s" and "d \<notin> set (pp_out p)"
  shows "length (pp_out p) \<le> length (before_mark d s)" and "length (pp_out p) \<le> length s"
  using delivers_prefix [OF assms(1)] mark_absent [OF assms(2)] by auto

lemma delivers_eof: "delivers p evs s \<Longrightarrow> pp_eof p \<Longrightarrow> evs = [] \<and> s = pp_out p"
  by (cases "(p, evs, s)" rule: delivers.cases) auto

lemma delivers_pump:
  assumes "delivers p evs s" and "\<not> pp_eof p"
  shows "\<exists>ev evs' p'. evs = ev # evs' \<and> (\<forall>el. pump el ev p = Inr p') \<and> delivers p' evs' s"
  using assms by (cases "(p, evs, s)" rule: delivers.cases) (auto simp: pump_def)

lemma read_delimited_bytes:
  "delivers p evs s \<Longrightarrow> reads_as (pipe_read_delimited el d limit p evs) (record_of d limit s)"
proof (induction evs arbitrary: p)
  case Nil
  then show ?case by (subst pipe_read_delimited.simps) (auto simp: reads_as_def record_of_def)
next
  case (Cons e evs)
  show ?case
  proof (cases "d \<in> set (pp_out p)")
    case True
    from delivers_taken [OF Cons.prems True] True show ?thesis
      by (subst pipe_read_delimited.simps) (auto simp: reads_as_def record_of_def)
  next
    case False
    note far = delivers_unmarked [OF Cons.prems False]
    show ?thesis
    proof (cases "length (pp_out p) > limit")
      case True
      with False far show ?thesis
        by (subst pipe_read_delimited.simps) (auto simp: reads_as_def record_of_def)
    next
      case small: False
      from delivers_eof [OF Cons.prems] have "\<not> pp_eof p" by auto
      from delivers_pump [OF Cons.prems this] obtain p'
        where "\<forall>el. pump el e p = Inr p'" "delivers p' evs s" by auto
      with Cons.IH [of p'] False small \<open>\<not> pp_eof p\<close> show ?thesis
        by (subst pipe_read_delimited.simps) simp
    qed
  qed
qed

lemma readline_bytes:
  "delivers p evs s \<Longrightarrow> reads_as (pipe_readline el limit p evs) (line_of limit s)"
proof (induction evs arbitrary: p)
  case Nil
  then show ?case by (subst pipe_readline.simps) (auto simp: reads_as_def line_of_def)
next
  case (Cons e evs)
  show ?case
  proof (cases "CHR 0x0A \<in> set (pp_out p)")
    case True
    from delivers_taken [OF Cons.prems True] True show ?thesis
      by (subst pipe_readline.simps) (auto simp: reads_as_def line_of_def)
  next
    case False
    note far = delivers_unmarked [OF Cons.prems False]
    show ?thesis
    proof (cases "length (pp_out p) \<ge> limit")
      case True
      with False far show ?thesis
        by (subst pipe_readline.simps) (auto simp: reads_as_def line_of_def)
    next
      case small: False
      from delivers_eof [OF Cons.prems] have "\<not> pp_eof p" by auto
      from delivers_pump [OF Cons.prems this] obtain p'
        where "\<forall>el. pump el e p = Inr p'" "delivers p' evs s" by auto
      with Cons.IH [of p'] False small \<open>\<not> pp_eof p\<close> show ?thesis
        by (subst pipe_readline.simps) simp
    qed
  qed
qed

lemma read_exact_bytes:
  "delivers p evs s \<Longrightarrow> reads_as (pipe_read_exact el n p evs) (exact_of n s)"
proof (induction el n p evs arbitrary: s rule: pipe_read_exact.induct)
  case (1 el n p evs)
  show ?case
  proof (cases "n = 0")
    case True
    with 1(3) show ?thesis by (subst pipe_read_exact.simps) (simp add: reads_as_def exact_of_def)
  next
    case nonzero: False
    show ?thesis
    proof (cases "pp_out p = []")
      case True
      show ?thesis
      proof (cases "pp_eof p")
        case eof: True
        with delivers_eof [OF 1(3)] True nonzero show ?thesis
          by (subst pipe_read_exact.simps) (simp add: reads_as_def exact_of_def)
      next
        case False
        from delivers_pump [OF 1(3) False] obtain ev evs' p'
          where "evs = ev # evs'" "\<forall>el. pump el ev p = Inr p'" "delivers p' evs' s" by (elim exE conjE)
        with 1(1) [OF nonzero True False] nonzero True False show ?thesis
          by (subst pipe_read_exact.simps) simp
      qed
    next
      case False
      define k where "k = min n (min stream_chunk_bytes (length (pp_out p)))"
      from delivers_prefix [OF 1(3)] obtain t where s: "s = pp_out p @ t" ..
      have k: "k \<le> length (pp_out p)" "k \<le> n" by (simp_all add: k_def)
      have "delivers (p\<lparr>pp_out := drop k (pp_out p)\<rparr>) evs (drop k s)"
      proof (rule delivers_drop)
        have "take k (pp_out p) @ drop k s = s" using k append_take_drop_id [of k "pp_out p"] by (simp add: s flip: append.assoc)
        with 1(3) show "delivers p evs (take k (pp_out p) @ drop k s)" by (simp only:)
      qed simp
      from 1(2) [OF nonzero False k_def this] have IH: "reads_as (pipe_read_exact el (n - k) (p\<lparr>pp_out := drop k (pp_out p)\<rparr>) evs)
          (exact_of (n - k) (drop k s))" .
      have step: "pipe_read_exact el n p evs =
          (case pipe_read_exact el (n - k) (p\<lparr>pp_out := drop k (pp_out p)\<rparr>) evs of
              Inl r \<Rightarrow> Inl r | Inr (rest, q) \<Rightarrow> Inr (take k (pp_out p) @ rest, q))"
        using nonzero False unfolding k_def by (subst pipe_read_exact.simps) (simp add: Let_def)
      show ?thesis
      proof (cases "length s < n")
        case True
        with k s have "length (drop k s) < n - k" by simp
        with True IH show ?thesis unfolding step by (simp add: reads_as_def exact_of_def)
      next
        case long: False
        with k have "exact_of (n - k) (drop k s) = Inr (take (n - k) (drop k s), drop n s)"
          by (simp add: exact_of_def)
        with IH obtain q evs' where "pipe_read_exact el (n - k) (p\<lparr>pp_out := drop k (pp_out p)\<rparr>) evs
            = Inr (take (n - k) (drop k s), q, evs')" and "delivers q evs' (drop n s)"
          by (auto simp: reads_as_def)
        moreover have "take n s = take k (pp_out p) @ take (n - k) (drop k s)"
          using take_add [of k "n - k" s] k s by simp
        ultimately show ?thesis
          using long unfolding step by (simp add: reads_as_def exact_of_def)
      qed
    qed
  qed
qed

section \<open>Properties\<close>

text \<open>the three reads give an answer that depends only on the bytes of the output and on the
  limits, not on the chunks in which the pipe delivers them: each agrees with the same read of
  the whole byte string, errors included, and leaves the rest of that string to be read.\<close>

theorem pipe_reads_ignore_chunks:
  assumes "delivers p evs s"
  shows "reads_as (pipe_read_delimited stderr_limit d limit p evs) (record_of d limit s)
    \<and> reads_as (pipe_readline stderr_limit limit p evs) (line_of limit s)
    \<and> reads_as (pipe_read_exact stderr_limit n p evs) (exact_of n s)"
  using read_delimited_bytes [OF assms] readline_bytes [OF assms] read_exact_bytes [OF assms] by blast

definition empty_pipe :: pipe where
  "empty_pipe = \<lparr>pp_out = [], pp_err = [], pp_eof = False\<rparr>"

theorem pipe_reads_ignore_chunks_witness:
  "reads_as (pipe_read_delimited 10 (CHR ''|'') 4 empty_pipe [OutChunk ''ab'', OutChunk ''c|d'', OutEof])
     (Inr (Some ''abc'', ''d''))"
proof -
  have "delivers empty_pipe [OutChunk ''ab'', OutChunk ''c|d'', OutEof] ''abc|d''" by (simp add: empty_pipe_def)
  from pipe_reads_ignore_chunks [OF this, of 10 "CHR ''|''" 4] show ?thesis
    by (simp add: record_of_def before_mark_def after_mark_def)
qed

end
