(* ===== verification/Doctor_Policy.thy ===== *)
theory Doctor_Policy
  imports Doctor_Rules Control_File Py_Time Pipe_Reader
begin

text \<open>
  The policy files of doctor.py: \<open>repo-health-doctor.yml\<close> and the local override, in JSON or in the
  small YAML dialect of \<open>_parse_simple_policy_yaml\<close>, and what they are loaded into: ignored paths,
  allows for findings, an inventory of the allows and a list of issues.  What the operating system
  answers for a path, the UTF-8 decoder and the JSON parser are arguments, and so is the day,
  which does not change during a load.
\<close>

section \<open>The YAML dialect\<close>

definition rstrip :: "string \<Rightarrow> string" where
  "rstrip s = rev (dropWhile is_space (rev s))"

definition quote_char :: "char \<Rightarrow> bool" where
  "quote_char c \<longleftrightarrow> c = CHR 39 \<or> c = CHR 34"

definition parse_scalar :: "string \<Rightarrow> string" where
  "parse_scalar text =
     (let stripped = py_strip text in
      if 2 \<le> length stripped \<and> hd stripped = last stripped \<and> quote_char (hd stripped)
      then butlast (tl stripped) else stripped)"

text \<open>\<open>text.partition(":")\<close>: the parts before and after the first colon, if there is one.\<close>

definition partition_colon :: "string \<Rightarrow> (string \<times> string) option" where
  "partition_colon text =
     (if CHR '':'' \<in> set text then Some (before_mark (CHR '':'') text, after_mark (CHR '':'') text) else None)"

text \<open>\<open>current_item\<close>, when it is a dictionary, is the last element of the list under \<open>current_key\<close>.\<close>

record yaml_state =
  ys_parsed :: dict
  ys_key :: "string option"
  ys_item :: bool

definition list_at :: "dict \<Rightarrow> string \<Rightarrow> json list" where
  "list_at d k = (case dget d k of JList xs \<Rightarrow> xs | _ \<Rightarrow> [])"

definition yaml_top :: "string \<Rightarrow> yaml_state \<Rightarrow> yaml_state res" where
  "yaml_top stripped st =
     (case partition_colon stripped of
        None \<Rightarrow> Inl ValueError
      | Some (key, v) \<Rightarrow>
          Inr \<lparr>ys_parsed = dset (ys_parsed st) (py_strip key)
                 (JList (if py_strip v \<noteq> [] then [JStr (parse_scalar v)] else [])),
               ys_key = Some (py_strip key), ys_item = False\<rparr>)"

definition yaml_append :: "string \<Rightarrow> json \<Rightarrow> bool \<Rightarrow> yaml_state \<Rightarrow> yaml_state" where
  "yaml_append key item is_item st =
     st\<lparr>ys_parsed := dset (ys_parsed st) key (JList (list_at (ys_parsed st) key @ [item])), ys_item := is_item\<rparr>"

definition yaml_item :: "string \<Rightarrow> string \<Rightarrow> yaml_state \<Rightarrow> yaml_state res" where
  "yaml_item key rest st =
     (if rest = [] then Inl ValueError
      else
        (case partition_colon rest of
           Some (k, v) \<Rightarrow> Inr (yaml_append key (JObj [(py_strip k, JStr (parse_scalar v))]) True st)
         | None \<Rightarrow> Inr (yaml_append key (JStr (parse_scalar rest)) False st)))"

definition set_in_last :: "json list \<Rightarrow> string \<Rightarrow> json \<Rightarrow> json list" where
  "set_in_last xs k v =
     (case xs of
        [] \<Rightarrow> []
      | y # ys \<Rightarrow> (case last (y # ys) of JObj d \<Rightarrow> butlast (y # ys) @ [JObj (dset d k v)] | _ \<Rightarrow> y # ys))"

definition yaml_field :: "string \<Rightarrow> string \<Rightarrow> yaml_state \<Rightarrow> yaml_state res" where
  "yaml_field key stripped st =
     (if \<not> ys_item st then Inl ValueError
      else
        (case partition_colon stripped of
           None \<Rightarrow> Inl ValueError
         | Some (k, v) \<Rightarrow>
             Inr (st\<lparr>ys_parsed := dset (ys_parsed st) key
               (JList (set_in_last (list_at (ys_parsed st) key) (py_strip k) (JStr (parse_scalar v))))\<rparr>)))"

definition yaml_line :: "string \<Rightarrow> yaml_state \<Rightarrow> yaml_state res" where
  "yaml_line raw_line st =
     (let line = rstrip (before_mark (CHR ''#'') raw_line); stripped = py_strip line in
      if stripped = [] then Inr st
      else if \<not> starts_with line '' '' then yaml_top stripped st
      else
        (case ys_key st of
           None \<Rightarrow> Inl ValueError
         | Some key \<Rightarrow>
             if starts_with stripped ''- '' then yaml_item key (py_strip (drop 2 stripped)) st
             else yaml_field key stripped st))"

fun foldM :: "('a \<Rightarrow> 's \<Rightarrow> 's res) \<Rightarrow> 'a list \<Rightarrow> 's \<Rightarrow> 's res" where
  "foldM f [] s = Inr s"
| "foldM f (x # xs) s = res_bind (f x s) (foldM f xs)"

definition parse_simple_policy_yaml :: "string \<Rightarrow> dict res" where
  "parse_simple_policy_yaml content =
     res_map ys_parsed (foldM yaml_line (py_splitlines content) \<lparr>ys_parsed = [], ys_key = None, ys_item = False\<rparr>)"

section \<open>Reading a document\<close>

text \<open>What \<open>json.loads\<close> answers: a value, the \<open>JSONDecodeError\<close> that is caught, or another \<open>ValueError\<close> (a
  number with too many digits).\<close>

datatype json_answer = Decoded json | JsonDecodeError | OtherValueError

record policy_parsers =
  pp_decode :: "string \<Rightarrow> string option"
  pp_json :: "string \<Rightarrow> json_answer"

definition load_policy_document :: "policy_parsers \<Rightarrow> file_answers \<Rightarrow> dict res" where
  "load_policy_document pp a =
     (case read_bounded_control_file control_file_max_bytes a of
        Inl reason \<Rightarrow> Inl ValueError
      | Inr f \<Rightarrow>
          (case pp_decode pp (cf_content f) of
             None \<Rightarrow> Inl ValueError
           | Some content \<Rightarrow>
               if py_strip content = [] then Inr []
               else
                 (case pp_json pp content of
                    JsonDecodeError \<Rightarrow> parse_simple_policy_yaml content
                  | OtherValueError \<Rightarrow> Inl ValueError
                  | Decoded (JObj d) \<Rightarrow> Inr d
                  | Decoded _ \<Rightarrow> Inl ValueError)))"

section \<open>Allows\<close>

record allow_finding_policy =
  al_policy_id :: string
  al_source :: string
  al_rule_id :: string
  al_path_pattern :: string
  al_expires :: int

record allow_inventory_entry =
  ai_policy_source :: string
  ai_policy_id :: string
  ai_rule_id :: string
  ai_path_scope :: string
  ai_expires :: string
  ai_status :: string
  ai_redacted :: bool

definition inventory_entry_dict :: "allow_inventory_entry \<Rightarrow> dict" where
  "inventory_entry_dict e =
     [(''policy_source'', JStr (ai_policy_source e)), (''policy_id'', JStr (ai_policy_id e)),
      (''rule_id'', JStr (ai_rule_id e)), (''path_scope'', JStr (ai_path_scope e)),
      (''expires'', JStr (ai_expires e)), (''status'', JStr (ai_status e)), (''redacted'', JBool (ai_redacted e))]"

record policy_config =
  pc_ignore_paths :: "string list"
  pc_allow_findings :: "allow_finding_policy list"
  pc_allow_inventory :: "allow_inventory_entry list"
  pc_issues :: "dict list"
  pc_sources :: "string list"
  pc_ignore_path_count :: int
  pc_allow_finding_count :: int

definition no_policy :: policy_config where
  "no_policy = \<lparr>pc_ignore_paths = [], pc_allow_findings = [], pc_allow_inventory = [], pc_issues = [],
     pc_sources = [], pc_ignore_path_count = 0, pc_allow_finding_count = 0\<rparr>"

text \<open>\<open>IDS[label]\<close>; every label that is looked up is a key of its table.\<close>

definition rule_of :: "(string \<times> string) list \<Rightarrow> string \<Rightarrow> string" where
  "rule_of ids label = (case map_of ids label of Some rule_id \<Rightarrow> rule_id | None \<Rightarrow> [])"

definition policy_issue :: "string \<Rightarrow> string \<Rightarrow> string \<Rightarrow> dict" where
  "policy_issue pattern source policy_id =
     make_finding (rule_of policy_rule_ids pattern) status_block ''<policy>'' pattern True None None None
       (Some policy_id) (Some source)"

text \<open>\<open>date.fromisoformat\<close> as an ordinal (1 is 0001-01-01), and \<open>isoformat\<close> of an ordinal.\<close>

definition date_of_text :: "string \<Rightarrow> int option" where
  "date_of_text s =
     Option.bind (parse_date s) (\<lambda>(y, m, d, rest).
       if rest \<noteq> [] \<or> y < 1 \<or> m < 1 \<or> 12 < m \<or> d < 1 \<or> month_days y m < d then None
       else Some (days_before_year y + days_before_month y m + d))"

definition text_of_date :: "int \<Rightarrow> string" where
  "text_of_date ordinal =
     (let (y, mo, d) = day_of_ordinal (ordinal - 1) in
      pad_digits 4 y @ ''-'' @ pad_digits 2 mo @ ''-'' @ pad_digits 2 d)"

definition max_ordinal :: int where "max_ordinal = 3652059"

text \<open>\<open>date.fromordinal\<close> raises \<open>ValueError\<close> past the year 9999.\<close>

definition policy_allow_status :: "int \<Rightarrow> int \<Rightarrow> string res" where
  "policy_allow_status today expires =
     (if expires < today then Inr allow_expired
      else if today + policy_allow_expiring_soon_days > max_ordinal then Inl ValueError
      else if expires \<le> today + policy_allow_expiring_soon_days then Inr allow_expiring_soon
      else Inr allow_active)"

definition policy_allow_inventory_entry ::
  "int \<Rightarrow> string \<Rightarrow> string \<Rightarrow> string \<Rightarrow> string \<Rightarrow> int \<Rightarrow> allow_inventory_entry res" where
  "policy_allow_inventory_entry today source policy_id rule_id path_pattern expires =
     res_map (\<lambda>status. \<lparr>ai_policy_source = source, ai_policy_id = policy_id, ai_rule_id = rule_id,
         ai_path_scope = classify_policy_path_scope path_pattern, ai_expires = text_of_date expires,
         ai_status = status, ai_redacted = True\<rparr>)
       (policy_allow_status today expires)"

section \<open>Loading the policy\<close>

definition with_issue :: "dict \<Rightarrow> policy_config \<Rightarrow> policy_config" where
  "with_issue issue c = c\<lparr>pc_issues := pc_issues c @ [issue]\<rparr>"

definition blank_or_no_text :: "json \<Rightarrow> bool" where
  "blank_or_no_text v = (case v of JStr s \<Rightarrow> py_strip s = [] | _ \<Rightarrow> True)"

definition text_of :: "json \<Rightarrow> string" where
  "text_of v = (case v of JStr s \<Rightarrow> py_strip s | _ \<Rightarrow> [])"

definition load_ignore_item :: "string \<Rightarrow> nat \<times> json \<Rightarrow> policy_config \<Rightarrow> policy_config res" where
  "load_ignore_item source ix c =
     (case ix of (index, item) \<Rightarrow>
        Inr (if blank_or_no_text item
             then with_issue (policy_issue ''invalid_ignore'' source (source @ '':ignore:'' @ nat_text index)) c
             else c\<lparr>pc_ignore_path_count := pc_ignore_path_count c + 1,
                    pc_ignore_paths := pc_ignore_paths c @ (case item of JStr s \<Rightarrow> [s] | _ \<Rightarrow> [])\<rparr>))"

definition required_allow_keys :: "string list" where
  "required_allow_keys = [''rule_id'', ''path'', ''reason'', ''owner'', ''expires'']"

definition accept_allow :: "int \<Rightarrow> string \<Rightarrow> string \<Rightarrow> dict \<Rightarrow> policy_config \<Rightarrow> policy_config res" where
  "accept_allow today source policy_id item c =
     (let rule_id = text_of (dget item ''rule_id''); path_pattern = text_of (dget item ''path'') in
      if rule_id \<notin> set known_finding_rule_ids then Inr (with_issue (policy_issue ''unknown_rule_id'' source policy_id) c)
      else
        (case date_of_text (text_of (dget item ''expires'')) of
           None \<Rightarrow> Inr (with_issue (policy_issue ''invalid_allow'' source policy_id) c)
         | Some expires \<Rightarrow>
             res_map (\<lambda>entry.
                 (let c = c\<lparr>pc_allow_inventory := pc_allow_inventory c @ [entry]\<rparr> in
                  if ai_status entry = allow_expired
                  then with_issue (policy_issue ''expired_allow'' source policy_id) c
                  else if rule_id \<in> set secret_rule_id_values \<and> \<not> is_secret_fixture_path path_pattern
                  then with_issue (policy_issue ''restricted_secret_allow'' source policy_id) c
                  else c\<lparr>pc_allow_findings := pc_allow_findings c
                         @ [\<lparr>al_policy_id = policy_id, al_source = source, al_rule_id = rule_id,
                             al_path_pattern = path_pattern, al_expires = expires\<rparr>]\<rparr>))
               (policy_allow_inventory_entry today source policy_id rule_id path_pattern expires)))"

definition load_allow_item :: "int \<Rightarrow> string \<Rightarrow> nat \<times> json \<Rightarrow> policy_config \<Rightarrow> policy_config res" where
  "load_allow_item today source ix c =
     (case ix of (index, item) \<Rightarrow>
        (let policy_id = source @ '':allow:'' @ nat_text index;
             c = c\<lparr>pc_allow_finding_count := pc_allow_finding_count c + 1\<rparr> in
         case item of
           JObj d \<Rightarrow>
             if list_ex (\<lambda>k. blank_or_no_text (dget d k)) required_allow_keys
             then Inr (with_issue (policy_issue ''invalid_allow'' source policy_id) c)
             else accept_allow today source policy_id d c
         | _ \<Rightarrow> Inr (with_issue (policy_issue ''invalid_allow'' source policy_id) c)))"

definition load_unknown_keys :: "string \<Rightarrow> dict \<Rightarrow> policy_config \<Rightarrow> policy_config" where
  "load_unknown_keys source payload c =
     c\<lparr>pc_issues := pc_issues c
        @ map (\<lambda>(index, k). policy_issue ''unknown_top_level_key'' source (source @ '':top-level:'' @ nat_text index))
            (enumerate 1 (filter (\<lambda>k. k \<notin> set policy_top_level_keys) (keys payload)))\<rparr>"

definition load_ignores :: "string \<Rightarrow> dict \<Rightarrow> policy_config \<Rightarrow> policy_config res" where
  "load_ignores source payload c =
     (case dget_or payload ''ignore_paths'' (JList []) of
        JList xs \<Rightarrow> foldM (load_ignore_item source) (enumerate 1 xs) c
      | _ \<Rightarrow> Inr (with_issue (policy_issue ''invalid_ignore'' source (source @ '':ignore'')) c))"

definition load_allows :: "int \<Rightarrow> string \<Rightarrow> dict \<Rightarrow> policy_config \<Rightarrow> policy_config res" where
  "load_allows today source payload c =
     (case dget_or payload ''allow_findings'' (JList []) of
        JList xs \<Rightarrow> foldM (load_allow_item today source) (enumerate 1 xs) c
      | _ \<Rightarrow> Inr (with_issue (policy_issue ''invalid_allow'' source (source @ '':allow'')) c))"

text \<open>A source: its name, the path as it is given, whether it was asked for.  What is at a path is
  answered by the file system: nothing, or a file.\<close>

type_synonym policy_source = "string \<times> string \<times> bool"

type_synonym policy_files = "string \<Rightarrow> file_answers option"

definition policy_sources :: "string option \<Rightarrow> string option \<Rightarrow> bool \<Rightarrow> policy_source list" where
  "policy_sources config_path local_config_path load_local_config =
     (case config_path of
        None \<Rightarrow> (''repo'', ''repo-health-doctor.yml'', False)
      | Some p \<Rightarrow> (''repo'', p, True))
     # (if load_local_config
        then [(''local'', (case local_config_path of None \<Rightarrow> ''.repo-health-doctor.local.yml'' | Some p \<Rightarrow> p),
               local_config_path \<noteq> None)]
        else [])"

definition invalid_config :: "string \<Rightarrow> dict" where
  "invalid_config source = policy_issue ''invalid_config'' source (source @ '':config'')"

definition load_source ::
  "policy_parsers \<Rightarrow> policy_files \<Rightarrow> int \<Rightarrow> policy_source \<Rightarrow> policy_config \<Rightarrow> policy_config res" where
  "load_source pp files today src c =
     (case src of (source, path, required) \<Rightarrow>
        (case files path of
           None \<Rightarrow>
             Inr (if required
                  then (with_issue (invalid_config source) c)\<lparr>pc_sources := pc_sources c @ [source]\<rparr> else c)
         | Some a \<Rightarrow>
             (let c = c\<lparr>pc_sources := pc_sources c @ [source]\<rparr> in
              case load_policy_document pp a of
                Inl e \<Rightarrow> Inr (with_issue (invalid_config source) c)
              | Inr payload \<Rightarrow>
                  res_bind (load_ignores source payload (load_unknown_keys source payload c))
                    (load_allows today source payload))))"

definition load_policy_config ::
  "policy_parsers \<Rightarrow> policy_files \<Rightarrow> int \<Rightarrow> policy_source list \<Rightarrow> policy_config res" where
  "load_policy_config pp files today sources =
     res_map (\<lambda>c. c\<lparr>pc_sources := dedupe (pc_sources c)\<rparr>) (foldM (load_source pp files today) sources no_policy)"

section \<open>What a loaded policy promises\<close>

lemma foldM_invariant:
  assumes "foldM f xs s = Inr s'" and "P s"
    and "\<And>x s s'. x \<in> set xs \<Longrightarrow> f x s = Inr s' \<Longrightarrow> P s \<Longrightarrow> P s'"
  shows "P s'"
  using assms
proof (induction xs arbitrary: s)
  case (Cons x xs)
  from Cons.prems(1) obtain t where t: "f x s = Inr t" "foldM f xs t = Inr s'" by (auto elim: res_bindE)
  from Cons.prems(3) [OF _ t(1) Cons.prems(2)] have "P t" by simp
  from t(2) this show ?case
  proof (rule Cons.IH)
    show "P v" if "y \<in> set xs" "f y u = Inr v" "P u" for y u v using Cons.prems(3) [of y u v] that by simp
  qed
qed simp

definition allow_sound :: "int \<Rightarrow> allow_finding_policy \<Rightarrow> bool" where
  "allow_sound today a \<longleftrightarrow> al_rule_id a \<in> set known_finding_rule_ids \<and> today \<le> al_expires a
     \<and> (al_rule_id a \<in> set secret_rule_id_values \<longrightarrow> is_secret_fixture_path (al_path_pattern a))"

definition policy_sound :: "int \<Rightarrow> policy_config \<Rightarrow> bool" where
  "policy_sound today c \<longleftrightarrow> (\<forall>a\<in>set (pc_allow_findings c). allow_sound today a)
     \<and> (\<forall>e\<in>set (pc_allow_inventory c). ai_redacted e
          \<and> ai_status e \<in> {allow_active, allow_expiring_soon, allow_expired}
          \<and> (ai_status e = allow_expired \<longrightarrow> pc_issues c \<noteq> []))"

lemma policy_sound_issue: "policy_sound today c \<Longrightarrow> policy_sound today (with_issue d c)"
  by (simp add: policy_sound_def with_issue_def)

lemma policy_sound_counters [simp]:
  "policy_sound today (c\<lparr>pc_allow_finding_count := n\<rparr>) = policy_sound today c"
  "policy_sound today (c\<lparr>pc_ignore_path_count := n\<rparr>) = policy_sound today c"
  "policy_sound today (c\<lparr>pc_ignore_paths := ps\<rparr>) = policy_sound today c"
  "policy_sound today (c\<lparr>pc_sources := ss\<rparr>) = policy_sound today c"
  by (simp_all add: policy_sound_def)

lemma allow_status_cases:
  assumes "policy_allow_status today expires = Inr s"
  shows "s \<in> {allow_active, allow_expiring_soon, allow_expired} \<and> (s = allow_expired \<longleftrightarrow> expires < today)"
  using assms
  by (auto simp: policy_allow_status_def allow_active_def allow_expiring_soon_def allow_expired_def split: if_splits)

lemma accept_allow_sound:
  assumes "accept_allow today source policy_id item c = Inr c'" and "policy_sound today c"
  shows "policy_sound today c'"
proof (cases "text_of (dget item ''rule_id'') \<in> set known_finding_rule_ids")
  case False
  with assms show ?thesis by (auto simp: accept_allow_def Let_def intro: policy_sound_issue)
next
  case True
  show ?thesis
  proof (cases "date_of_text (text_of (dget item ''expires''))")
    case None
    with assms True show ?thesis by (auto simp: accept_allow_def Let_def intro: policy_sound_issue)
  next
    case (Some expires)
    from assms(1) True Some obtain s where s: "policy_allow_status today expires = Inr s"
      by (auto simp: accept_allow_def Let_def policy_allow_inventory_entry_def elim!: res_mapE)
    from assms True Some s allow_status_cases [OF s] show ?thesis
      by (auto simp: accept_allow_def Let_def policy_allow_inventory_entry_def policy_sound_def with_issue_def
          allow_sound_def split: if_splits)
  qed
qed

lemma load_allow_item_sound:
  assumes "load_allow_item today source ix c = Inr c'" and "policy_sound today c"
  shows "policy_sound today c'"
proof -
  obtain index item where ix: "ix = (index, item)" by (cases ix)
  show ?thesis
  proof (cases item)
    case (JObj d)
    with assms ix show ?thesis
      by (auto simp: load_allow_item_def Let_def intro: policy_sound_issue accept_allow_sound split: if_splits)
  qed (use assms ix in \<open>auto simp: load_allow_item_def Let_def intro: policy_sound_issue\<close>)
qed

lemma load_ignore_item_sound:
  assumes "load_ignore_item source ix c = Inr c'" and "policy_sound today c"
  shows "policy_sound today c'"
  using assms by (auto simp: load_ignore_item_def intro: policy_sound_issue split: prod.splits if_splits)

lemma load_ignores_sound:
  assumes "load_ignores source payload c = Inr c'" and "policy_sound today c"
  shows "policy_sound today c'"
proof (cases "\<exists>xs. dget_or payload ''ignore_paths'' (JList []) = JList xs")
  case True
  then obtain xs where "dget_or payload ''ignore_paths'' (JList []) = JList xs" ..
  with assms(1) have "foldM (load_ignore_item source) (enumerate 1 xs) c = Inr c'" by (simp add: load_ignores_def)
  from this assms(2) show ?thesis by (rule foldM_invariant) (rule load_ignore_item_sound)
next
  case False
  with assms show ?thesis by (auto simp: load_ignores_def intro: policy_sound_issue split: json.splits)
qed

lemma load_allows_sound:
  assumes "load_allows today source payload c = Inr c'" and "policy_sound today c"
  shows "policy_sound today c'"
proof (cases "\<exists>xs. dget_or payload ''allow_findings'' (JList []) = JList xs")
  case True
  then obtain xs where "dget_or payload ''allow_findings'' (JList []) = JList xs" ..
  with assms(1) have "foldM (load_allow_item today source) (enumerate 1 xs) c = Inr c'" by (simp add: load_allows_def)
  from this assms(2) show ?thesis by (rule foldM_invariant) (rule load_allow_item_sound)
next
  case False
  with assms show ?thesis by (auto simp: load_allows_def intro: policy_sound_issue split: json.splits)
qed

lemma load_unknown_keys_sound:
  "policy_sound today c \<Longrightarrow> policy_sound today (load_unknown_keys source payload c)"
  by (auto simp: load_unknown_keys_def policy_sound_def)

lemma load_source_sound:
  assumes "load_source pp files today src c = Inr c'" and "policy_sound today c"
  shows "policy_sound today c'"
proof -
  obtain source path required where src: "src = (source, path, required)" by (cases src)
  show ?thesis
  proof (cases "files path")
    case None
    with assms src show ?thesis by (auto simp: load_source_def intro: policy_sound_issue split: if_splits)
  next
    case (Some a)
    let ?c = "c\<lparr>pc_sources := pc_sources c @ [source]\<rparr>"
    show ?thesis
    proof (cases "load_policy_document pp a")
      case (Inl e)
      with assms src Some show ?thesis by (auto simp: load_source_def Let_def intro: policy_sound_issue)
    next
      case (Inr payload)
      with assms(1) src Some obtain d where
        d: "load_ignores source payload (load_unknown_keys source payload ?c) = Inr d"
          "load_allows today source payload d = Inr c'"
        by (auto simp: load_source_def Let_def elim: res_bindE)
      have "policy_sound today (load_unknown_keys source payload ?c)"
        by (rule load_unknown_keys_sound) (simp add: assms(2))
      from load_ignores_sound [OF d(1) this] load_allows_sound [OF d(2)] show ?thesis by blast
    qed
  qed
qed

lemma loaded_policy_sound:
  assumes "load_policy_config pp files today sources = Inr c"
  shows "policy_sound today c"
proof -
  from assms obtain d where d: "foldM (load_source pp files today) sources no_policy = Inr d"
    and c: "c = d\<lparr>pc_sources := dedupe (pc_sources d)\<rparr>" by (auto simp: load_policy_config_def elim: res_mapE)
  have "policy_sound today no_policy" by (simp add: policy_sound_def no_policy_def)
  from d this have "policy_sound today d" by (rule foldM_invariant) (rule load_source_sound)
  with c show ?thesis by simp
qed

text \<open>Only a clock near the end of the calendar makes a load raise.\<close>

lemma allow_status_returns: "today + policy_allow_expiring_soon_days \<le> max_ordinal \<Longrightarrow> returns (policy_allow_status today e)"
  by (simp add: policy_allow_status_def)

lemma foldM_returns:
  assumes "\<And>x s. x \<in> set xs \<Longrightarrow> returns (f x s)"
  shows "returns (foldM f xs s)"
  using assms
proof (induction xs arbitrary: s)
  case (Cons x xs)
  then show ?case by (auto simp: returns_bind_iff) (metis returns_iff)
qed simp

lemma load_allows_returns:
  assumes "today + policy_allow_expiring_soon_days \<le> max_ordinal"
  shows "returns (load_allows today source payload c)"
proof -
  have item: "returns (load_allow_item today source ix c)" for ix c
    using allow_status_returns [OF assms]
    by (auto simp: load_allow_item_def accept_allow_def Let_def policy_allow_inventory_entry_def
        split: prod.split json.split option.split)
  show ?thesis by (auto simp: load_allows_def item intro!: foldM_returns split: json.split)
qed

lemma load_policy_returns:
  assumes "today + policy_allow_expiring_soon_days \<le> max_ordinal"
  shows "returns (load_policy_config pp files today sources)"
proof -
  have ignores: "returns (load_ignores source payload c)" for source payload c
    by (auto simp: load_ignores_def load_ignore_item_def intro!: foldM_returns split: json.split prod.split)
  have "returns (load_source pp files today src c)" for src c
  proof -
    obtain source path required where "src = (source, path, required)" by (cases src)
    moreover have "returns (res_bind (load_ignores source payload d) (load_allows today source payload))" for payload d
      using ignores [of source payload d] load_allows_returns [OF assms]
      by (cases "load_ignores source payload d") simp_all
    ultimately show ?thesis by (simp add: load_source_def Let_def split: option.split sum.split)
  qed
  then show ?thesis unfolding load_policy_config_def returns_map_iff by (rule foldM_returns)
qed

end
