(* ===== verification/Git_Tree.thy ===== *)
theory Git_Tree
  imports Snapshot_Copy Pipe_Reader
begin

text \<open>
  Reading a commit out of a git repository (sandbox/run_workspace.py): the parser of
  \<open>git ls-tree -rz -l\<close>, and the export of the blobs through \<open>git cat-file --batch\<close> with the
  check of every object id.  The output of git is an input: the bytes of its standard output
  (read as \<open>Pipe_Reader\<close> shows, whatever their chunks) and how the process ended.
\<close>

section \<open>SHA-1\<close>

text \<open>Object ids of 40 digits are SHA-1 digests.\<close>

definition sha1_initial :: "w32 list" where
  "sha1_initial = [1732584193, 4023233417, 2562383102, 271733878, 3285377520]"

definition rotl :: "nat \<Rightarrow> w32 \<Rightarrow> w32" where
  "rotl n x = rotr (32 - n) x"

fun extend_sha1 :: "nat \<Rightarrow> w32 list \<Rightarrow> w32 list" where
  "extend_sha1 0 ws = ws"
| "extend_sha1 (Suc n) ws = extend_sha1 n (rotl 1 (ws ! 2 XOR ws ! 7 XOR ws ! 13 XOR ws ! 15) # ws)"

definition sha1_function :: "nat \<Rightarrow> w32 \<Rightarrow> w32 \<Rightarrow> w32 \<Rightarrow> w32" where
  "sha1_function t b c d =
     (if t < 20 then (b AND c) XOR (NOT b AND d)
      else if t < 40 then b XOR c XOR d
      else if t < 60 then (b AND c) XOR (b AND d) XOR (c AND d)
      else b XOR c XOR d)"

definition sha1_constant :: "nat \<Rightarrow> w32" where
  "sha1_constant t =
     (if t < 20 then 1518500249 else if t < 40 then 1859775393 else if t < 60 then 2400959708 else 3395469782)"

fun sha1_round :: "w32 list \<Rightarrow> nat \<times> w32 \<Rightarrow> w32 list" where
  "sha1_round [a, b, c, d, e] (t, w) =
     [rotl 5 a + sha1_function t b c d + e + sha1_constant t + w, a, rotl 30 b, c, d]"
| "sha1_round st tw = st"

function sha1_blocks :: "w32 list \<Rightarrow> w32 list \<Rightarrow> w32 list" where
  "sha1_blocks st ws =
     (if ws = [] then st
      else sha1_blocks
             (map2 (+) st (foldl sha1_round st (zip [0..<80] (rev (extend_sha1 64 (rev (take 16 ws)))))))
             (drop 16 ws))"
  by pat_completeness auto
termination by (relation "measure (\<lambda>(st, ws). length ws)") auto

declare sha1_blocks.simps [simp del]

definition sha1_hexdigest :: "string \<Rightarrow> string" where
  "sha1_hexdigest s =
     concat (map (\<lambda>w. concat (map hex_byte (be_bytes 4 (unat w))))
       (sha1_blocks sha1_initial (pack_words (pad_message (map code s)))))"

section \<open>Small parsers\<close>

text \<open>\<open>s.split(sep, 1)\<close> into exactly two parts.\<close>

definition split_once :: "char \<Rightarrow> string \<Rightarrow> (string \<times> string) option" where
  "split_once c s = (if c \<in> set s then Some (before_mark c s, after_mark c s) else None)"

text \<open>\<open>int\<close> of a byte string: surrounding blanks, a sign, digits with single underscores between them.\<close>

definition digit_groups_ok :: "string \<Rightarrow> bool" where
  "digit_groups_ok s \<longleftrightarrow> list_all (\<lambda>g. g \<noteq> [] \<and> list_all is_digit g) (split_on (CHR ''_'') s)"

definition unsigned_int :: "string \<Rightarrow> int option" where
  "unsigned_int s = (if digit_groups_ok s then Some (int (digits_value (filter is_digit s))) else None)"

definition is_ascii_space :: "char \<Rightarrow> bool" where
  "is_ascii_space c \<longleftrightarrow> in_range 9 13 c \<or> code c = 32"

definition py_int :: "string \<Rightarrow> int option" where
  "py_int s =
     (case strip_by is_ascii_space s of
        c # t \<Rightarrow>
          if c = CHR ''-'' then map_option uminus (unsigned_int t)
          else if c = CHR ''+'' then unsigned_int t
          else unsigned_int (c # t)
      | [] \<Rightarrow> None)"

text \<open>\<open>bytes.decode("utf-8", "strict")\<close> where the text has code points below 256.\<close>

fun utf8_decode :: "string \<Rightarrow> string option" where
  "utf8_decode [] = Some []"
| "utf8_decode (c # s) =
     (if code c < 128 then map_option (\<lambda>t. c # t) (utf8_decode s)
      else (case s of
              d # s' \<Rightarrow>
                if (code c = 194 \<or> code c = 195) \<and> in_range 128 191 d
                then map_option (\<lambda>t. char_of ((code c - 192) * 64 + (code d - 128)) # t) (utf8_decode s') else None
            | [] \<Rightarrow> None))"

definition is_ascii_text :: "string \<Rightarrow> bool" where
  "is_ascii_text s \<longleftrightarrow> list_all (\<lambda>c. code c < 128) s"

definition valid_object_id :: "string \<Rightarrow> bool" where
  "valid_object_id v \<longleftrightarrow> length v \<in> {40, 64} \<and> v = py_lower v
     \<and> list_all (\<lambda>c. c \<in> set ''0123456789abcdef'') v"

section \<open>The tree\<close>

text \<open>A blob of the tree: path, mode, size, object id.\<close>

record git_entry =
  git_path :: string
  git_mode :: string
  git_size :: int
  git_oid :: string

record tree_walk =
  tw_directories :: "string list"
  tw_tracked :: "string list"
  tw_total :: int
  tw_entries :: "git_entry list"

definition empty_tree_walk :: tree_walk where
  "empty_tree_walk = \<lparr>tw_directories = [], tw_tracked = [], tw_total = 0, tw_entries = []\<rparr>"

text \<open>One record: \<open>mode type oid size TAB path\<close>.\<close>

definition parse_record :: "string \<Rightarrow> (string \<times> string \<times> string \<times> string \<times> string) option" where
  "parse_record record_bytes =
     (case split_once (CHR 0x09) record_bytes of
        None \<Rightarrow> None
      | Some (metadata, raw_path) \<Rightarrow>
          (case split_once (CHR '' '') metadata of
             None \<Rightarrow> None
           | Some (mode, m1) \<Rightarrow>
               (case split_once (CHR '' '') m1 of
                  None \<Rightarrow> None
                | Some (object_type, m2) \<Rightarrow>
                    (case split_once (CHR '' '') m2 of
                       None \<Rightarrow> None
                     | Some (object_id, raw_size) \<Rightarrow>
                         map_option (\<lambda>p. (mode, object_type, object_id, raw_size, p)) (utf8_decode raw_path)))))"

text \<open>The directories above a path, outermost first, that have not been seen.\<close>

fun register_directories :: "copy_budget \<Rightarrow> string \<Rightarrow> string list \<Rightarrow> string list list \<Rightarrow> string list walk" where
  "register_directories b rel seen [] = walk_return seen"
| "register_directories b rel seen (parts # others) =
     (let directory = py_join ''/'' parts in
      if directory \<in> set seen then register_directories b rel seen others
      else
        walk_bind (register_manifest_path b directory) (\<lambda>_.
        walk_bind (stop_if (\<lambda>_. int (length (directory # seen)) + 1 > max_directory_count b)
                     ''max_directory_count'' (Some rel)) (\<lambda>_.
        register_directories b rel (directory # seen) others)))"

definition proper_prefixes :: "string list \<Rightarrow> string list list" where
  "proper_prefixes parts = map (\<lambda>i. take i parts) [1..<length parts]"

definition refuse_if :: "bool \<Rightarrow> refusal \<Rightarrow> unit walk" where
  "refuse_if c r s = (if c then (Inl r, s) else (Inr (), s))"

text \<open>What follows once the entry is known to be a regular blob: its size, the exclusions, the budget
  and its object id.\<close>

definition accept_blob ::
  "copy_budget \<Rightarrow> string \<Rightarrow> string \<Rightarrow> string \<Rightarrow> string \<Rightarrow> tree_walk \<Rightarrow> tree_walk walk" where
  "accept_blob b rel mode object_id raw_size t =
     (case py_int raw_size of
        None \<Rightarrow> refuse_walk ''git_tree_size_invalid'' (Some rel)
      | Some n \<Rightarrow>
          walk_bind (refuse_if (rel = authorization_control_filename)
                       (Refusal ''tracked_authorization_artifact_refused'' None)) (\<lambda>_.
            case path_exclusion_category rel (last (split_on (CHR ''/'') rel)) of
              Some category \<Rightarrow> walk_bind (walk_update (tally category)) (\<lambda>_. walk_return t)
            | None \<Rightarrow>
                walk_bind (refuse_if (n < 0) (Refusal ''git_tree_size_invalid'' (Some rel))) (\<lambda>_.
                walk_bind (\<lambda>s. preflight_file_budget_values b rel n (cs_files_examined s) (tw_total t + n) s) (\<lambda>_.
                walk_bind (refuse_if (\<not> is_ascii_text object_id) (Raised ValueError)) (\<lambda>_.
                walk_bind (refuse_if (\<not> valid_object_id object_id) (Refusal ''git_tree_object_id_invalid'' (Some rel))) (\<lambda>_.
                walk_return (t\<lparr>tw_total := tw_total t + n,
                  tw_entries := tw_entries t @ [\<lparr>git_path = rel, git_mode = mode, git_size = n, git_oid = object_id\<rparr>]\<rparr>)))))))"

definition tree_record :: "copy_budget \<Rightarrow> string \<Rightarrow> tree_walk \<Rightarrow> tree_walk walk" where
  "tree_record b record_bytes t =
     walk_bind (walk_update (\<lambda>s. s\<lparr>cs_entries := cs_entries s + 1\<rparr>)) (\<lambda>_.
       case parse_record record_bytes of
         None \<Rightarrow> refuse_walk ''git_tree_output_invalid'' None
       | Some (mode, object_type, object_id, raw_size, rel) \<Rightarrow>
           walk_bind (lift_check (validate_relative_path rel b)) (\<lambda>_.
           walk_bind (register_manifest_path b rel) (\<lambda>_.
           walk_bind (register_file_examined b rel) (\<lambda>_.
           walk_bind (stop_if (\<lambda>_. int (length (butlast (split_on (CHR ''/'') rel))) > max_depth b)
                        ''max_depth'' (Some rel)) (\<lambda>_.
           walk_bind (register_directories b rel (tw_directories t) (proper_prefixes (split_on (CHR ''/'') rel))) (\<lambda>seen.
           walk_bind (refuse_if (object_type \<noteq> ''blob'' \<or> mode \<notin> {''100644'', ''100755''})
                        (Refusal ''git_tree_unsupported_entry'' (Some rel))) (\<lambda>_.
           accept_blob b rel mode object_id raw_size
             (t\<lparr>tw_directories := seen, tw_tracked := tw_tracked t @ [rel]\<rparr>))))))))"

lemma record_of_shorter: "record_of d limit s = Inr (Some r, rest) \<Longrightarrow> length rest < length s"
proof -
  assume r: "record_of d limit s = Inr (Some r, rest)"
  then have "d \<in> set s" "rest = after_mark d s" by (auto simp: record_of_def split: if_splits)
  with mark_split [of d s] show "length rest < length s"
    by (metis length_append less_add_same_cancel2 list.size(3) list.size(4) add.commute not_add_less1
        length_greater_0_conv append_is_Nil_conv not_Cons_self2)
qed

function tree_records :: "copy_budget \<Rightarrow> string \<Rightarrow> tree_walk \<Rightarrow> tree_walk walk" where
  "tree_records b out_bytes t =
     (case record_of (CHR 0x00) (nat (max_relative_path_bytes b + 256)) out_bytes of
        Inl r \<Rightarrow> lift_result (Inl r)
      | Inr (None, rest) \<Rightarrow> walk_return t
      | Inr (Some r, rest) \<Rightarrow> walk_bind (tree_record b r t) (\<lambda>t'. tree_records b rest t'))"
  by pat_completeness auto
termination
  by (relation "measure (\<lambda>(b, out_bytes, t). length out_bytes)") (auto dest: record_of_shorter)

declare tree_records.simps [simp del]

text \<open>How the process ended: a time-out, or an exit code and whether something was on its standard
  error.\<close>

datatype git_exit = ExitTimeout | Exited int bool

definition exit_check :: "string \<Rightarrow> git_exit \<Rightarrow> refusal option" where
  "exit_check failed e =
     (case e of
        ExitTimeout \<Rightarrow> Some (Refusal ''git_command_timeout'' None)
      | Exited return_code noise \<Rightarrow> if return_code \<noteq> 0 \<or> noise then Some (Refusal failed None) else None)"

definition git_tree_entries :: "copy_budget \<Rightarrow> string \<Rightarrow> git_exit \<Rightarrow> tree_walk walk" where
  "git_tree_entries b out_bytes ended =
     walk_bind (tree_records b out_bytes empty_tree_walk) (\<lambda>t.
     walk_bind (lift_check (exit_check ''git_command_failed'' ended)) (\<lambda>_.
     walk_bind (walk_update (\<lambda>s. s\<lparr>cs_directories := max (cs_directories s) (int (length (tw_directories t)) + 1)\<rparr>)) (\<lambda>_.
     walk_return t)))"

section \<open>The blobs\<close>

definition git_object_digest :: "string \<Rightarrow> string \<Rightarrow> string" where
  "git_object_digest expected_oid content =
     (let object_bytes = ''blob '' @ nat_text (length content) @ [CHR 0x00] @ content in
      if length expected_oid = 40 then sha1_hexdigest object_bytes else sha256_hexdigest object_bytes)"

text \<open>The header line and the content of one object.\<close>

definition read_blob :: "git_entry \<Rightarrow> string \<Rightarrow> refusal + string \<times> string" where
  "read_blob g out_bytes =
     (case line_of 512 out_bytes of
        Inl r \<Rightarrow> Inl r
      | Inr (line, rest) \<Rightarrow>
          (case split_on (CHR '' '') (butlast line) of
             [returned_oid, object_type, raw_size] \<Rightarrow>
               (case py_int raw_size of
                  None \<Rightarrow> Inl (Refusal ''git_batch_size_invalid'' None)
                | Some observed_size \<Rightarrow>
                    if \<not> is_ascii_text returned_oid then Inl (Raised ValueError)
                    else if returned_oid \<noteq> git_oid g \<or> object_type \<noteq> ''blob'' \<or> observed_size \<noteq> git_size g
                    then Inl (Refusal ''git_batch_object_mismatch'' None)
                    else (case exact_of (nat (git_size g)) rest of
                            Inl r \<Rightarrow> Inl r
                          | Inr (content, rest') \<Rightarrow>
                              (case exact_of 1 rest' of
                                 Inl r \<Rightarrow> Inl r
                               | Inr (separator, rest'') \<Rightarrow>
                                   if separator \<noteq> [CHR 0x0A] then Inl (Refusal ''git_batch_separator_invalid'' None)
                                   else if git_object_digest (git_oid g) content \<noteq> git_oid g
                                   then Inl (Refusal ''git_blob_integrity_mismatch'' None)
                                   else Inr (content, rest''))))
           | _ \<Rightarrow> Inl (Refusal ''git_batch_header_invalid'' None)))"

text \<open>The directories of the copy that the blob needs and that are not there yet.\<close>

definition new_directories :: "string list \<Rightarrow> string \<Rightarrow> string list" where
  "new_directories created rel =
     filter (\<lambda>d. d \<notin> set created) (map (py_join ''/'') (proper_prefixes (split_on (CHR ''/'') rel)))"

fun export_blobs :: "string list \<Rightarrow> git_entry list \<Rightarrow> string \<Rightarrow> refusal + manifest_entry list" where
  "export_blobs created [] out_bytes = Inr []"
| "export_blobs created (g # gs) out_bytes =
     (case read_blob g out_bytes of
        Inl r \<Rightarrow> Inl r
      | Inr (content, rest) \<Rightarrow>
          (let directories = new_directories created (git_path g) in
           case export_blobs (directories @ created) gs rest of
             Inl r \<Rightarrow> Inl r
           | Inr es \<Rightarrow>
               Inr (map directory_entry directories
                 @ \<lparr>me_path = git_path g, me_type = ''file'', me_mode = git_mode g, me_size = git_size g,
                    me_sha256 = Some (sha256_hexdigest content)\<rparr> # es)))"

definition export_git_blobs :: "copy_budget \<Rightarrow> git_entry list \<Rightarrow> string \<Rightarrow> git_exit \<Rightarrow> refusal + manifest_entry list" where
  "export_git_blobs b gs out_bytes ended =
     (case export_blobs [] gs out_bytes of
        Inl r \<Rightarrow> Inl r
      | Inr es \<Rightarrow> (case exit_check ''git_batch_failed'' ended of Some r \<Rightarrow> Inl r | None \<Rightarrow> sort_manifest b es))"

section \<open>What is exported\<close>

lemma read_blob_Inr:
  assumes "read_blob g out_bytes = Inr (content, rest)"
  shows "git_object_digest (git_oid g) content = git_oid g"
    and "int (length content) = git_size g \<or> git_size g < 0 \<and> content = []"
proof -
  from assms obtain line r1 parts observed r2
    where "exact_of (nat (git_size g)) r1 = Inr (content, r2)" and digest: "git_object_digest (git_oid g) content = git_oid g"
    unfolding read_blob_def by (auto split: sum.splits list.splits option.splits if_splits)
  then have "length content = nat (git_size g)" by (auto simp: exact_of_def split: if_splits)
  then show "int (length content) = git_size g \<or> git_size g < 0 \<and> content = []" by auto
  show "git_object_digest (git_oid g) content = git_oid g" by (rule digest)
qed

text \<open>The entry of a blob: its path, mode and size from the tree, the digest of a content that has the
  object id of the tree.\<close>

definition authentic :: "git_entry \<Rightarrow> manifest_entry \<Rightarrow> bool" where
  "authentic g e \<longleftrightarrow> me_path e = git_path g \<and> me_type e = ''file'' \<and> me_mode e = git_mode g \<and> me_size e = git_size g
     \<and> (\<exists>content. me_sha256 e = Some (sha256_hexdigest content) \<and> git_object_digest (git_oid g) content = git_oid g
          \<and> (int (length content) = git_size g \<or> git_size g < 0 \<and> content = []))"

lemma file_entries_directories [simp]: "file_entries (map directory_entry ds) = []"
  by (induction ds) simp_all

lemma export_blobs_authentic:
  "export_blobs created gs out_bytes = Inr es \<Longrightarrow> list_all2 authentic gs (file_entries es)"
proof (induction created gs out_bytes arbitrary: es rule: export_blobs.induct)
  case (2 created g gs out_bytes)
  from 2(2) obtain content rest es'
    where blob: "read_blob g out_bytes = Inr (content, rest)"
      and rest: "export_blobs (new_directories created (git_path g) @ created) gs rest = Inr es'"
      and es: "es = map directory_entry (new_directories created (git_path g))
        @ \<lparr>me_path = git_path g, me_type = ''file'', me_mode = git_mode g, me_size = git_size g,
            me_sha256 = Some (sha256_hexdigest content)\<rparr> # es'"
    by (auto simp: Let_def split: sum.splits)
  from 2(1) [OF blob refl refl rest] read_blob_Inr [OF blob] show ?case
    by (auto simp: es authentic_def)
qed simp

section \<open>Properties\<close>

text \<open>the export of a commit is authentic: the files of the manifest are, up to order, exactly the
  blobs of the tree with their paths, modes and sizes, and the bytes that were written for each
  of them hash to the object id that the tree names; everything else in the manifest is a
  directory.\<close>

theorem exported_blobs_authentic:
  assumes "export_git_blobs b gs out_bytes ended = Inr ss"
  shows "\<exists>es. mset es = mset (file_entries ss) \<and> list_all2 authentic gs es
    \<and> sorted (map manifest_key ss) \<and> distinct (map me_path ss)"
proof -
  from assms obtain es where es: "export_blobs [] gs out_bytes = Inr es" and sort: "sort_manifest b es = Inr ss"
    unfolding export_git_blobs_def by (auto split: sum.splits option.splits)
  from sort_manifest_facts [OF sort] have ss: "mset ss = mset es" "sorted (map manifest_key ss)"
    "distinct (map me_path ss)" by simp_all
  from ss(1) have "mset (file_entries es) = mset (file_entries ss)" by (simp add: file_entries_def)
  with export_blobs_authentic [OF es] ss(2,3) show ?thesis by blast
qed

definition empty_blob_id :: string where
  "empty_blob_id = git_object_digest (replicate 64 (CHR ''0'')) []"

definition sample_git_entry :: git_entry where
  "sample_git_entry = \<lparr>git_path = ''d/x'', git_mode = ''100644'', git_size = 0, git_oid = empty_blob_id\<rparr>"

definition sample_batch_output :: string where
  "sample_batch_output = empty_blob_id @ '' blob 0'' @ [CHR 0x0A] @ [CHR 0x0A]"

lemma empty_blob_id_sha256: "empty_blob_id = sha256_hexdigest (''blob '' @ nat_text 0 @ [CHR 0x00])"
  by (simp add: empty_blob_id_def git_object_digest_def Let_def)

lemma empty_blob_id_chars: "c \<in> set empty_blob_id \<Longrightarrow> is_hex_lower c"
  unfolding empty_blob_id_sha256 by (rule sha256_hexdigest_hex)

lemma length_empty_blob_id [simp]: "length empty_blob_id = 64"
  by (simp add: empty_blob_id_sha256 length_sha256_hexdigest)

lemma empty_blob_id_free: "CHR 0x0A \<notin> set empty_blob_id" "CHR '' '' \<notin> set empty_blob_id" "is_ascii_text empty_blob_id"
  using empty_blob_id_chars
  by (fastforce simp: is_hex_lower_def is_digit_def in_range_def code_def is_ascii_text_def list_all_iff)+

lemma empty_blob_id_digest: "git_object_digest empty_blob_id [] = empty_blob_id"
  by (simp add: git_object_digest_def Let_def) (simp add: empty_blob_id_sha256)

lemma sample_blob_read: "read_blob sample_git_entry sample_batch_output = Inr ([], [])"
proof -
  have line: "before_mark (CHR 0x0A) sample_batch_output = empty_blob_id @ '' blob 0''"
    "after_mark (CHR 0x0A) sample_batch_output = [CHR 0x0A]"
    using empty_blob_id_free(1) by (simp_all add: sample_batch_output_def before_mark_def after_mark_def
        takeWhile_append dropWhile_append)
  have "CHR 0x0A \<in> set sample_batch_output" by (simp add: sample_batch_output_def)
  with line have read: "line_of 512 sample_batch_output = Inr ((empty_blob_id @ '' blob 0'') @ [CHR 0x0A], [CHR 0x0A])"
    by (simp add: line_of_def)
  have parts: "split_on (CHR '' '') (empty_blob_id @ '' blob 0'') = [empty_blob_id, ''blob'', ''0'']"
    using split_on_append [OF empty_blob_id_free(2), of "''blob 0''"] by simp
  have "py_int ''0'' = Some 0" by code_simp
  then show ?thesis
    unfolding read_blob_def read sum.case prod.case butlast_snoc parts
    by (simp add: empty_blob_id_free(3) exact_of_def empty_blob_id_digest sample_git_entry_def)
qed

theorem exported_blobs_authentic_witness:
  "\<exists>ss. export_git_blobs default_copy_budget [sample_git_entry] sample_batch_output (Exited 0 False) = Inr ss
     \<and> (\<exists>e. list_all2 authentic [sample_git_entry] [e])"
proof -
  have "new_directories [] ''d/x'' = [''d'']" by code_simp
  then have "export_blobs [] [sample_git_entry] sample_batch_output = Inr [directory_entry ''d'',
      \<lparr>me_path = ''d/x'', me_type = ''file'', me_mode = ''100644'', me_size = 0, me_sha256 = Some (sha256_hexdigest [])\<rparr>]"
    by (simp add: sample_blob_read) (simp add: sample_git_entry_def)
  moreover have "\<exists>ss. sort_manifest default_copy_budget [directory_entry ''d'',
      \<lparr>me_path = ''d/x'', me_type = ''file'', me_mode = ''100644'', me_size = 0, me_sha256 = Some x\<rparr>] = Inr ss" for x
    by (simp add: sort_manifest_def Let_def directory_entry_def manifest_key_def sort_key_simps utf8_def utf8_char_def
      code_def path_bytes_def entry_limit_def default_copy_budget_def)
  ultimately obtain ss where r: "export_git_blobs default_copy_budget [sample_git_entry] sample_batch_output (Exited 0 False) = Inr ss"
    by (auto simp: export_git_blobs_def exit_check_def)
  from exported_blobs_authentic [OF r] obtain es where "list_all2 authentic [sample_git_entry] es" by blast
  then obtain e where "list_all2 authentic [sample_git_entry] [e]" by (auto simp: list_all2_Cons1)
  with r show ?thesis by blast
qed

end
