(* ===== verification/Snapshot.thy ===== *)
theory Snapshot
  imports Git_Tree
begin

text \<open>
  Verified snapshots (sandbox/run_workspace.py): the records and their reports, the inventory that
  reads a copy back, the check of a snapshot against it, and the intake of a source directory,
  either as plain files or as the commit of a git repository whose worktree must be exactly that
  commit.
\<close>

section \<open>Records\<close>

record verified_snapshot =
  vs_schema_version :: string
  vs_snapshot_id :: string
  vs_source_identity :: string
  vs_source_kind :: string
  vs_source_commit :: "string option"
  vs_source_tree :: "string option"
  vs_manifest_fingerprint :: string
  vs_file_count :: int
  vs_total_bytes :: int
  vs_copied_at :: string
  vs_copy_policy_version :: string
  vs_budget_policy :: dict
  vs_integrity_status :: string
  vs_limitations :: "string list"
  vs_refusal_reasons :: "string list"
  vs_manifest :: "manifest_entry list"
  vs_tracked_paths :: "string list"

definition snapshot_to_report :: "verified_snapshot \<Rightarrow> dict" where
  "snapshot_to_report v =
     [(''schema_version'', JStr (vs_schema_version v)), (''snapshot_id'', JStr (vs_snapshot_id v)),
      (''source_identity_redacted'', JStr (vs_source_identity v)), (''source_kind'', JStr (vs_source_kind v)),
      (''source_commit'', str_json (vs_source_commit v)), (''source_tree'', str_json (vs_source_tree v)),
      (''manifest_fingerprint'', JStr (vs_manifest_fingerprint v)), (''file_count'', JInt (vs_file_count v)),
      (''total_bytes'', JInt (vs_total_bytes v)), (''copied_at'', JStr (vs_copied_at v)),
      (''copy_policy_version'', JStr (vs_copy_policy_version v)), (''budget_policy'', JObj (vs_budget_policy v)),
      (''integrity_status'', JStr (vs_integrity_status v)), (''limitations'', jstrs (vs_limitations v)),
      (''refusal_reasons'', jstrs (vs_refusal_reasons v)), (''raw_host_path_recorded'', JBool False),
      (''file_contents_recorded'', JBool False)]"

record inventory =
  nv_fingerprint :: string
  nv_file_count :: int
  nv_total_bytes :: int
  nv_files :: "(string \<times> string) list"
  nv_excluded :: "(string \<times> int) list"
  nv_symlinks :: "string list"
  nv_errors :: "string list"

definition inventory_limitations :: "inventory \<Rightarrow> string list" where
  "inventory_limitations r =
     (if nv_symlinks r = [] then [] else [''One or more symlinks were refused by snapshot intake.''])
     @ (if nv_errors r = [] then [] else [''Snapshot intake or integrity verification was incomplete.''])"

text \<open>The disposable workspace: the counters of the walk, and what became of the intake.\<close>

record workspace =
  dw_state :: copy_state
  dw_budget :: copy_budget
  dw_created :: bool
  dw_cleanup :: string
  dw_copy_errors :: "string list"
  dw_refusal_reasons :: "string list"
  dw_snapshot :: "verified_snapshot option"
  dw_commit :: "string option"
  dw_tree :: "string option"
  dw_tracked :: "string list"

definition new_workspace :: "copy_budget \<Rightarrow> workspace" where
  "new_workspace b =
     \<lparr>dw_state = empty_copy_state, dw_budget = b, dw_created = True, dw_cleanup = ''not_started'', dw_copy_errors = [],
      dw_refusal_reasons = [], dw_snapshot = None, dw_commit = None, dw_tree = None, dw_tracked = []\<rparr>"

definition copy_safety_ok :: "workspace \<Rightarrow> bool" where
  "copy_safety_ok w \<longleftrightarrow>
     (case dw_snapshot w of None \<Rightarrow> False | Some v \<Rightarrow> vs_integrity_status v = ''verified'')
     \<and> cs_symlinks (dw_state w) = [] \<and> dw_copy_errors w = [] \<and> \<not> cs_exceeded (dw_state w) \<and> dw_refusal_reasons w = []"

definition excluded_categories :: "(string \<times> int) list \<Rightarrow> json" where
  "excluded_categories counts =
     JList (map (\<lambda>(c, n). JObj [(''category'', JStr c), (''count'', JInt n)]) (sort_key (\<lambda>cn. cn) counts))"

definition budget_report :: "workspace \<Rightarrow> dict" where
  "budget_report w =
     budget_dict (dw_budget w)
     @ [(''manifest_path_bytes_examined'', JInt (cs_path_bytes (dw_state w))),
        (''files_copied'', JInt (cs_files_copied (dw_state w))),
        (''directories_examined'', JInt (cs_directories (dw_state w))),
        (''total_bytes_copied'', JInt (cs_total_bytes (dw_state w))),
        (''copy_budget_exceeded'', JBool (cs_exceeded (dw_state w))),
        (''copy_budget_exceeded_reason'', str_json (cs_exceeded_reason (dw_state w)))]"

definition workspace_copy_policy :: string where
  "workspace_copy_policy =
     ''create a bounded no-follow immutable snapshot; exclude .git, .env, common caches, and credential-like files; refuse symlinks and special files''"

definition workspace_to_report :: "workspace \<Rightarrow> dict" where
  "workspace_to_report w =
     (let s = dw_state w; links = JInt (int (length (cs_symlinks s))) in
      [(''created'', JBool (dw_created w)), (''cleanup'', JStr (dw_cleanup w)),
       (''copy_policy'', JStr workspace_copy_policy), (''copy_policy_version'', JStr copy_policy_version),
       (''excluded_path_categories'', excluded_categories (cs_excluded s)),
       (''files_copied'', JInt (cs_files_copied s)), (''files_examined'', JInt (cs_files_examined s)),
       (''directories_examined'', JInt (cs_directories s)), (''entries_examined'', JInt (cs_entries s)),
       (''manifest_path_bytes_examined'', JInt (cs_path_bytes s)), (''total_bytes_copied'', JInt (cs_total_bytes s)),
       (''copy_safety_ok'', JBool (copy_safety_ok w)), (''unsafe_symlink_count'', links),
       (''copy_error_count'', JInt (int (length (dw_copy_errors w)))),
       (''refusal_reasons'', jstrs (dw_refusal_reasons w)),
       (''verified_snapshot'', case dw_snapshot w of None \<Rightarrow> JNull | Some v \<Rightarrow> JObj (snapshot_to_report v)),
       (''copy_budget'', JObj (budget_report w)),
       (''symlink_policy'', JObj
         [(''follow_symlinks'', JBool False), (''absolute_symlinks'', JStr ''refuse''),
          (''outside_repo_symlinks'', JStr ''refuse''), (''copied_symlink_count'', JInt 0),
          (''unsafe_symlink_count'', links)]),
       (''special_file_policy'', JObj
         [(''copy_special_files'', JBool False),
          (''unsupported_entry_count'', JInt (case map_of (cs_excluded s) ''unsupported_filesystem_entry'' of
              None \<Rightarrow> 0 | Some n \<Rightarrow> n))]),
       (''source_path_redacted'', JStr ''<repo>''), (''workspace_path_redacted'', JStr ''<verified-snapshot>''),
       (''out_path_redacted'', JStr ''<sandbox-out>'')])"

definition target_identity :: "string \<Rightarrow> string" where
  "target_identity path_text = sha256_label (''repo-health-doctor-local-repository-identity-v1'' @ [CHR 0x00] @ path_text)"

section \<open>Reading a copy back\<close>

definition chain :: "(refusal + 'a) \<Rightarrow> ('a \<Rightarrow> refusal + 'b) \<Rightarrow> refusal + 'b" where
  "chain m f = (case m of Inl r \<Rightarrow> Inl r | Inr x \<Rightarrow> f x)"

definition demand :: "bool \<Rightarrow> refusal \<Rightarrow> refusal + unit" where
  "demand c r = (if c then Inr () else Inl r)"

lemma chain_Inr_iff: "chain m f = Inr y \<longleftrightarrow> (\<exists>x. m = Inr x \<and> f x = Inr y)"
  by (cases m) (simp_all add: chain_def)

lemma chain_simps [simp]: "chain (Inr x) f = f x" "chain (Inl r) f = Inl r"
  by (simp_all add: chain_def)

lemma demand_Inr_iff [simp]: "demand c r = Inr u \<longleftrightarrow> c"
  by (simp add: demand_def)

record counters =
  ct_files :: int
  ct_directories :: int
  ct_bytes :: int
  ct_paths :: int

definition inventory_file ::
  "copy_budget \<Rightarrow> string \<Rightarrow> string \<Rightarrow> file_stat \<Rightarrow> file_reads \<Rightarrow> counters \<Rightarrow> refusal + manifest_entry list \<times> counters" where
  "inventory_file b name rel before reads c =
     (let c' = c\<lparr>ct_files := ct_files c + 1, ct_bytes := ct_bytes c + st_size before\<rparr> in
      chain (demand (ct_files c' \<le> max_file_count b) (Refusal ''max_file_count'' None)) (\<lambda>_.
      chain (demand (st_size before \<le> max_file_bytes b) (Refusal ''max_file_bytes'' None)) (\<lambda>_.
      chain (demand (ct_bytes c' \<le> max_total_bytes b) (Refusal ''max_total_bytes'' None)) (\<lambda>_.
        case fr_opened reads of
          None \<Rightarrow> Inl (OsFailure (Some name))
        | Some opened \<Rightarrow>
            chain (demand (same_file_metadata before opened) (Refusal ''snapshot_file_swap_detected'' None)) (\<lambda>_.
            chain (demand (total_length (fr_chunks reads) = st_size before \<and> same_file_metadata before (fr_after reads))
                     (Refusal ''snapshot_file_mutated'' None)) (\<lambda>_.
            Inr ([\<lparr>me_path = rel, me_type = ''file'', me_mode = canonical_file_mode (st_perm before),
                   me_size = st_size before, me_sha256 = Some (sha256_hexdigest (concat (fr_chunks reads)))\<rparr>], c')))))))"

definition inventory_open ::
  "copy_budget \<Rightarrow> nat \<Rightarrow> string \<Rightarrow> file_stat \<Rightarrow> file_stat option \<Rightarrow> counters \<Rightarrow> refusal + file_stat \<times> counters" where
  "inventory_open b depth name before opened c =
     (let c' = c\<lparr>ct_directories := ct_directories c + 1\<rparr> in
      chain (demand (int depth \<le> max_depth b) (Refusal ''max_depth'' None)) (\<lambda>_.
      chain (demand (ct_directories c' \<le> max_directory_count b) (Refusal ''max_directory_count'' None)) (\<lambda>_.
        case opened of
          None \<Rightarrow> Inl (OsFailure (Some name))
        | Some st \<Rightarrow>
            chain (demand (same_identity before st) (Refusal ''snapshot_directory_swap_detected'' None)) (\<lambda>_.
            Inr (st, c')))))"

definition inventory_begin :: "copy_budget \<Rightarrow> string \<Rightarrow> counters \<Rightarrow> refusal + counters" where
  "inventory_begin b rel c =
     (case validate_relative_path rel b of
        Some r \<Rightarrow> Inl r
      | None \<Rightarrow>
          (let next_total = ct_paths c + int (length (utf8 rel)) in
           chain (demand (next_total \<le> max_manifest_path_bytes b) (Refusal ''max_manifest_path_bytes'' (Some rel))) (\<lambda>_.
           Inr (c\<lparr>ct_paths := next_total\<rparr>))))"

function inventory_node ::
  "copy_budget \<Rightarrow> string list \<Rightarrow> string \<Rightarrow> os_node \<Rightarrow> counters \<Rightarrow> refusal + manifest_entry list \<times> counters"
  and inventory_entries ::
  "copy_budget \<Rightarrow> string list \<Rightarrow> (string \<times> os_node) list \<Rightarrow> counters \<Rightarrow> refusal + manifest_entry list \<times> counters" where
  "inventory_node b parts name LstatFails c = Inl (OsFailure (Some name))"
| "inventory_node b parts name Link c = Inl (Refusal ''snapshot_symlink_detected'' None)"
| "inventory_node b parts name SpecialFile c = Inl (Refusal ''snapshot_special_file_detected'' None)"
| "inventory_node b parts name (RegularFile before reads) c = inventory_file b name (rel_path parts name) before reads c"
| "inventory_node b parts name (Directory before opened children after) c =
     chain (inventory_open b (length (parts @ [name])) name before opened c) (\<lambda>(st, c').
     chain (inventory_entries b (parts @ [name]) children c') (\<lambda>(es, c'').
     chain (demand (same_directory st after) (Refusal ''snapshot_directory_mutated'' None)) (\<lambda>_.
     Inr (directory_entry (rel_path parts name) # es, c''))))"
| "inventory_entries b parts [] c = Inr ([], c)"
| "inventory_entries b parts ((name, node) # rest) c =
     chain (inventory_begin b (rel_path parts name) c) (\<lambda>c1.
     chain (inventory_node b parts name node c1) (\<lambda>(es, c2).
     chain (inventory_entries b parts rest c2) (\<lambda>(es', c3).
     Inr (es @ es', c3))))"
  by pat_completeness auto
termination
  by (relation "measure (\<lambda>x. case x of Inl (b, parts, name, node, c) \<Rightarrow> size node
       | Inr (b, parts, nodes, c) \<Rightarrow> size_list (size_prod (\<lambda>_. 0) size) nodes)") auto

definition inventory_existing_tree ::
  "copy_budget \<Rightarrow> file_stat \<Rightarrow> (string \<times> os_node) list \<Rightarrow> file_stat \<Rightarrow> refusal + manifest_entry list" where
  "inventory_existing_tree b root_stat children after =
     chain (inventory_entries b [] children \<lparr>ct_files = 0, ct_directories = 1, ct_bytes = 0, ct_paths = 0\<rparr>) (\<lambda>(es, c).
     chain (demand (same_directory root_stat after) (Refusal ''snapshot_directory_mutated'' None)) (\<lambda>_.
     sort_manifest b es))"

text \<open>What reading a tree answers: the root and its entries.\<close>

record tree_view =
  tv_before :: file_stat
  tv_entries :: "(string \<times> os_node) list"
  tv_after :: file_stat

definition inventory_of_view :: "copy_budget \<Rightarrow> tree_view \<Rightarrow> refusal + manifest_entry list" where
  "inventory_of_view b v = inventory_existing_tree b (tv_before v) (tv_entries v) (tv_after v)"

text \<open>\<open>verify_verified_snapshot\<close>: a refusal is the answer no, an \<open>OSError\<close> is raised.\<close>

definition verify_verified_snapshot :: "copy_budget \<Rightarrow> verified_snapshot option \<Rightarrow> tree_view \<Rightarrow> refusal + bool" where
  "verify_verified_snapshot b snapshot view =
     (case snapshot of
        None \<Rightarrow> Inr False
      | Some v \<Rightarrow>
          if vs_integrity_status v \<noteq> ''verified'' then Inr False
          else (case chain (inventory_of_view b view) (\<lambda>es. chain (manifest_identity b es) (\<lambda>identity. Inr (es, identity))) of
                  Inl (Refusal why rel) \<Rightarrow> Inr False
                | Inl r \<Rightarrow> Inl r
                | Inr (es, _, snapshot_id, fingerprint) \<Rightarrow>
                    Inr (snapshot_id = vs_snapshot_id v \<and> fingerprint = vs_manifest_fingerprint v \<and> es = vs_manifest v)))"

section \<open>The end of an intake\<close>

definition snapshot_of ::
  "copy_budget \<Rightarrow> workspace \<Rightarrow> string \<Rightarrow> string \<Rightarrow> string \<Rightarrow> string option \<Rightarrow> string option \<Rightarrow> string list
   \<Rightarrow> manifest_entry list \<times> string \<times> string \<Rightarrow> verified_snapshot" where
  "snapshot_of b w path_text copied_at source_kind source_commit source_tree limitations identity =
     (case identity of (entries, snapshot_id, fingerprint) \<Rightarrow>
       \<lparr>vs_schema_version = snapshot_schema_version, vs_snapshot_id = snapshot_id,
        vs_source_identity = target_identity path_text, vs_source_kind = source_kind, vs_source_commit = source_commit,
        vs_source_tree = source_tree, vs_manifest_fingerprint = fingerprint,
        vs_file_count = int (length (file_entries entries)), vs_total_bytes = file_bytes entries,
        vs_copied_at = copied_at, vs_copy_policy_version = copy_policy_version, vs_budget_policy = budget_dict b,
        vs_integrity_status = ''verified'', vs_limitations = limitations, vs_refusal_reasons = [],
        vs_manifest = entries,
        vs_tracked_paths = (if source_kind = ''git_commit'' then dw_tracked w else map me_path (file_entries entries))\<rparr>)"

definition with_copied :: "verified_snapshot \<Rightarrow> workspace \<Rightarrow> workspace" where
  "with_copied v w =
     w\<lparr>dw_snapshot := Some v,
       dw_state := (dw_state w)\<lparr>cs_files_copied := vs_file_count v, cs_total_bytes := vs_total_bytes v\<rparr>\<rparr>"

text \<open>What the intake is told about the source: its path, the platform, the answers for the root and
  its entries, the clock, and what reading the finished copy back answers.\<close>

record source_view =
  so_path :: string
  so_no_follow :: bool
  so_lstat :: "file_stat option"
  so_opened :: file_stat
  so_entries :: "(string \<times> os_node) list"
  so_after :: file_stat
  so_final_lstat :: "file_stat option"
  so_copied_at :: string
  so_copy :: tree_view

type_synonym intake = "refusal option \<times> workspace"

definition finish_snapshot ::
  "source_view \<Rightarrow> manifest_entry list \<Rightarrow> string \<Rightarrow> string option \<Rightarrow> string option \<Rightarrow> string list \<Rightarrow> workspace \<Rightarrow> intake" where
  "finish_snapshot so entries source_kind source_commit source_tree limitations w =
     (case manifest_identity (dw_budget w) entries of
        Inl r \<Rightarrow> (Some r, w)
      | Inr identity \<Rightarrow>
          (let v = snapshot_of (dw_budget w) w (so_path so) (so_copied_at so) source_kind source_commit source_tree
                     limitations identity;
               w' = with_copied v w in
           case verify_verified_snapshot (dw_budget w) (Some v) (so_copy so) of
             Inl r \<Rightarrow> (Some r, w')
           | Inr ok \<Rightarrow>
               if ok then (None, w')
               else (Some (Refusal ''snapshot_post_copy_verification_failed'' None), w'\<lparr>dw_snapshot := None\<rparr>)))"

definition create_filesystem_snapshot :: "source_view \<Rightarrow> workspace \<Rightarrow> intake" where
  "create_filesystem_snapshot so w =
     (case copy_filesystem_tree (dw_budget w) (so_opened so) (so_entries so) (so_after so) (dw_state w) of
        (Inl r, s) \<Rightarrow> (Some r, w\<lparr>dw_state := s\<rparr>)
      | (Inr (entries, copy), s) \<Rightarrow>
          finish_snapshot so entries ''filesystem'' None None
            [''non_git_snapshot_static_scan_only'', ''real_execution_requires_git_commit_tree_binding'']
            (w\<lparr>dw_state := s\<rparr>))"

section \<open>The intake of a commit\<close>

definition git_minimum_version :: "int \<times> int \<times> int" where
  "git_minimum_version = (2, 42, 0)"

text \<open>What git and the repository answer: the layout, the version, the commit and the tree of HEAD
  before and after, and the output of the two commands.\<close>

record git_view =
  gv_plain_layout :: bool
  gv_unsupported_objects :: bool
  gv_version :: "(int \<times> int \<times> int) option"
  gv_commit :: "string option"
  gv_tree :: "string option"
  gv_listing :: string
  gv_listing_exit :: git_exit
  gv_batch :: string
  gv_batch_exit :: git_exit
  gv_final_commit :: "string option"
  gv_final_tree :: "string option"

text \<open>\<open>_git_object_id\<close> on what the command printed.\<close>

definition git_object_id :: "string option \<Rightarrow> string option" where
  "git_object_id printed =
     (case printed of
        None \<Rightarrow> None
      | Some out_bytes \<Rightarrow>
          (let value = strip_by is_ascii_space out_bytes in
           if is_ascii_text value \<and> valid_object_id value then Some value else None))"

fun add_counts :: "(string \<times> int) list \<Rightarrow> (string \<times> int) list \<Rightarrow> (string \<times> int) list" where
  "add_counts counts [] = counts"
| "add_counts counts ((category, n) # rest) =
     add_counts
       (if category \<in> fst ` set counts
        then map (\<lambda>(c, m). if c = category then (c, m + n) else (c, m)) counts else counts @ [(category, n)]) rest"

definition merge_comparison :: "copy_state \<Rightarrow> copy_state \<Rightarrow> copy_state" where
  "merge_comparison s live =
     s\<lparr>cs_entries := cs_entries s + cs_entries live,
       cs_files_examined := max (cs_files_examined s) (cs_files_examined live),
       cs_directories := max (cs_directories s) (cs_directories live),
       cs_path_bytes := max (cs_path_bytes s) (cs_path_bytes live),
       cs_excluded := add_counts (cs_excluded s) (cs_excluded live),
       cs_symlinks := cs_symlinks s @ cs_symlinks live\<rparr>"

definition compare_worktree :: "source_view \<Rightarrow> git_view \<Rightarrow> string \<Rightarrow> string \<Rightarrow> manifest_entry list \<Rightarrow> workspace \<Rightarrow> intake" where
  "compare_worktree so g source_commit source_tree exported w =
     (case copy_filesystem_tree (dw_budget w) (so_opened so) (so_entries so) (so_after so) empty_copy_state of
        (Inl r, live) \<Rightarrow> (Some r, w\<lparr>dw_state := merge_comparison (dw_state w) live\<rparr>)
      | (Inr (live_entries, copy), live) \<Rightarrow>
          (let w' = w\<lparr>dw_state := merge_comparison (dw_state w) live\<rparr> in
           if live_entries \<noteq> exported then (Some (Refusal ''source_worktree_not_exact_commit'' None), w')
           else if git_object_id (gv_final_commit g) \<noteq> Some source_commit \<or> git_object_id (gv_final_tree g) \<noteq> Some source_tree
           then (Some (Refusal ''git_subject_changed_during_intake'' None), w')
           else finish_snapshot so exported ''git_commit'' (Some source_commit) (Some source_tree)
                  [''snapshot_uses_copy_policy_exclusions'', ''linked_worktrees_and_object_alternates_are_unsupported'']
                  w'))"

definition create_git_snapshot :: "source_view \<Rightarrow> git_view \<Rightarrow> workspace \<Rightarrow> intake" where
  "create_git_snapshot so g w =
     (if \<not> gv_plain_layout g then (Some (Refusal ''unsupported_git_layout'' None), w)
      else if gv_unsupported_objects g then (Some (Refusal ''unsupported_git_object_layout'' None), w)
      else if (case gv_version g of None \<Rightarrow> True | Some version \<Rightarrow> version < git_minimum_version)
      then (Some (Refusal ''unsupported_git_version'' None), w)
      else
        (let w1 = w\<lparr>dw_commit := git_object_id (gv_commit g), dw_tree := git_object_id (gv_tree g)\<rparr> in
         case (dw_commit w1, dw_tree w1) of
           (Some source_commit, Some source_tree) \<Rightarrow>
             (case git_tree_entries (dw_budget w) (gv_listing g) (gv_listing_exit g) (dw_state w) of
                (Inl r, s) \<Rightarrow> (Some r, w1\<lparr>dw_state := s\<rparr>)
              | (Inr tree, s) \<Rightarrow>
                  (let w2 = w1\<lparr>dw_state := s, dw_tracked := tw_tracked tree\<rparr> in
                   case export_git_blobs (dw_budget w) (tw_entries tree) (gv_batch g) (gv_batch_exit g) of
                     Inl r \<Rightarrow> (Some r, w2)
                   | Inr exported \<Rightarrow> compare_worktree so g source_commit source_tree exported w2))
         | _ \<Rightarrow> (Some (Refusal ''git_subject_unresolved'' None), w1)))"

section \<open>The intake of a source\<close>

text \<open>\<open>_looks_like_direct_git_repository\<close> on the \<open>lstat\<close> of \<open>.git\<close>, \<open>.git/HEAD\<close> and \<open>.git/objects\<close>.\<close>

definition looks_like_direct_git_repository ::
  "file_stat option \<Rightarrow> file_stat option \<Rightarrow> file_stat option \<Rightarrow> bool" where
  "looks_like_direct_git_repository git_stat head_stat objects_stat \<longleftrightarrow>
     (case (git_stat, head_stat, objects_stat) of
        (Some g, Some h, Some d) \<Rightarrow> st_kind g = Directory_kind \<and> st_kind h = Regular \<and> st_kind d = Directory_kind
      | _ \<Rightarrow> False)"

definition refusal_message :: "string \<Rightarrow> string option \<Rightarrow> string" where
  "refusal_message why rel =
     (case rel of Some r \<Rightarrow> if r \<noteq> [] \<and> r \<noteq> ''.'' then r @ '': '' @ why else why | None \<Rightarrow> why)"

definition add_new :: "'a list \<Rightarrow> 'a \<Rightarrow> 'a list" where
  "add_new xs x = (if x \<in> set xs then xs else xs @ [x])"

definition record_refusal :: "string \<Rightarrow> string option \<Rightarrow> workspace \<Rightarrow> workspace" where
  "record_refusal why rel w =
     w\<lparr>dw_refusal_reasons := add_new (dw_refusal_reasons w) why,
       dw_state := (dw_state w)\<lparr>cs_symlinks :=
         (case rel of
            Some r \<Rightarrow> if starts_with why ''source_symlink'' \<and> r \<noteq> [] then add_new (cs_symlinks (dw_state w)) r
                      else cs_symlinks (dw_state w)
          | None \<Rightarrow> cs_symlinks (dw_state w))\<rparr>,
       dw_copy_errors := add_new (dw_copy_errors w) (refusal_message why rel)\<rparr>"

definition invalidate_partial_workspace :: "bool \<Rightarrow> workspace \<Rightarrow> workspace" where
  "invalidate_partial_workspace removed w =
     (let w' = w\<lparr>dw_snapshot := None, dw_state := (dw_state w)\<lparr>cs_files_copied := 0, cs_total_bytes := 0\<rparr>\<rparr> in
      if removed then w' else w'\<lparr>dw_refusal_reasons := add_new (dw_refusal_reasons w') ''partial_snapshot_cleanup_failed''\<rparr>)"

text \<open>A refusal and an \<open>OSError\<close> are recorded, and nothing of the partial copy is kept; any other
  exception leaves the function.\<close>

definition settle :: "bool \<Rightarrow> intake \<Rightarrow> workspace res" where
  "settle removed x =
     (case x of
        (None, w) \<Rightarrow> Inr w
      | (Some (Refusal why rel), w) \<Rightarrow> Inr (invalidate_partial_workspace removed (record_refusal why rel w))
      | (Some (OsFailure name), w) \<Rightarrow>
          Inr (invalidate_partial_workspace removed (record_refusal ''snapshot_filesystem_error'' name w))
      | (Some (Raised e), w) \<Rightarrow> Inl e)"

definition root_recheck :: "source_view \<Rightarrow> file_stat \<Rightarrow> intake \<Rightarrow> intake" where
  "root_recheck so source_lstat x =
     (case x of
        (Some r, w) \<Rightarrow> (Some r, w)
      | (None, w) \<Rightarrow>
          (case so_final_lstat so of
             None \<Rightarrow> (Some (OsFailure (Some (so_path so))), w)
           | Some final \<Rightarrow>
               if same_directory source_lstat final then (None, w)
               else (Some (Refusal ''source_root_swap_detected'' None), w)))"

text \<open>The git view is there when the directory looks like a repository and plain files are not
  forced.\<close>

definition intake_source :: "source_view \<Rightarrow> git_view option \<Rightarrow> workspace \<Rightarrow> intake" where
  "intake_source so git w =
     (if \<not> so_no_follow so then (Some (Refusal ''snapshot_platform_no_follow_unsupported'' None), w)
      else
        (case so_lstat so of
           None \<Rightarrow> (Some (OsFailure (Some (so_path so))), w)
         | Some source_lstat \<Rightarrow>
             if st_kind source_lstat = Link_kind then (Some (Refusal ''source_root_symlink'' None), w)
             else if st_kind source_lstat \<noteq> Directory_kind then (Some (Refusal ''source_root_not_directory'' None), w)
             else root_recheck so source_lstat
                    (case git of Some g \<Rightarrow> create_git_snapshot so g w | None \<Rightarrow> create_filesystem_snapshot so w)))"

definition create_verified_snapshot :: "copy_budget \<Rightarrow> bool \<Rightarrow> source_view \<Rightarrow> git_view option \<Rightarrow> workspace res" where
  "create_verified_snapshot b removed so git = settle removed (intake_source so git (new_workspace b))"

text \<open>\<open>create_static_scan_snapshot\<close>: a refused commit falls back to the files; the paths that the
  commit tracks are kept when the only objection was that the worktree differs.  The second
  intake has its own answers; \<open>linked\<close> are the tracked paths of a linked worktree.\<close>

definition with_tracked :: "string list \<Rightarrow> workspace \<Rightarrow> workspace" where
  "with_tracked tracked w = w\<lparr>dw_snapshot := map_option (\<lambda>v. v\<lparr>vs_tracked_paths := tracked\<rparr>) (dw_snapshot w)\<rparr>"

definition create_static_scan_snapshot ::
  "copy_budget \<Rightarrow> bool \<Rightarrow> source_view \<Rightarrow> git_view option \<Rightarrow> string list option \<Rightarrow> string \<Rightarrow> source_view \<Rightarrow> workspace res" where
  "create_static_scan_snapshot b removed so git linked cleanup so_again =
     res_bind (create_verified_snapshot b removed so git) (\<lambda>strict.
       if dw_snapshot strict \<noteq> None
       then Inr (case linked of None \<Rightarrow> strict | Some tracked \<Rightarrow> with_tracked tracked strict)
       else
         (let tracked = (if dw_refusal_reasons strict = [''source_worktree_not_exact_commit'']
                            \<and> dw_commit strict \<noteq> None \<and> dw_tree strict \<noteq> None
                         then dw_tracked strict else []) in
          if cleanup \<noteq> ''ok'' then Inr (strict\<lparr>dw_cleanup := cleanup\<rparr>)
          else res_map (\<lambda>fallback. if dw_snapshot fallback \<noteq> None \<and> tracked \<noteq> [] then with_tracked tracked fallback
                                   else fallback)
                 (create_verified_snapshot b removed so_again None)))"

section \<open>Observations of a source\<close>

definition inspect_git_worktree :: "string \<Rightarrow> bool \<Rightarrow> workspace \<Rightarrow> dict" where
  "inspect_git_worktree path_text git_layout w =
     (case dw_snapshot w of
        Some v \<Rightarrow>
          if vs_source_kind v = ''git_commit''
          then [(''git_available'', JBool True), (''repo_identity'', JStr (target_identity path_text)),
                (''repo_root_matches_target'', JBool True), (''commit'', str_json (vs_source_commit v)),
                (''tree_hash'', str_json (vs_source_tree v)), (''snapshot_id'', JStr (vs_snapshot_id v)),
                (''manifest_fingerprint'', JStr (vs_manifest_fingerprint v)), (''dirty_state'', JStr ''clean'')]
          else
            [(''git_available'', JBool git_layout),
             (''repo_identity'', if git_layout then JStr (target_identity path_text) else JNull),
             (''repo_root_matches_target'', JBool git_layout), (''commit'', str_json (dw_commit w)),
             (''tree_hash'', str_json (dw_tree w)), (''snapshot_id'', JNull), (''manifest_fingerprint'', JNull),
             (''dirty_state'', JStr (if ''source_worktree_not_exact_commit'' \<in> set (dw_refusal_reasons w)
                then ''dirty'' else ''unknown''))]
      | None \<Rightarrow>
          [(''git_available'', JBool git_layout),
           (''repo_identity'', if git_layout then JStr (target_identity path_text) else JNull),
           (''repo_root_matches_target'', JBool git_layout), (''commit'', str_json (dw_commit w)),
           (''tree_hash'', str_json (dw_tree w)), (''snapshot_id'', JNull), (''manifest_fingerprint'', JNull),
           (''dirty_state'', JStr (if ''source_worktree_not_exact_commit'' \<in> set (dw_refusal_reasons w)
              then ''dirty'' else ''unknown''))])"

definition manifest_files :: "manifest_entry list \<Rightarrow> (string \<times> string) list" where
  "manifest_files es =
     List.map_filter (\<lambda>e. if me_type e = ''file'' then map_option (\<lambda>d. (me_path e, ''sha256:'' @ d)) (me_sha256 e) else None) es"

definition inventory_from_snapshot :: "verified_snapshot \<Rightarrow> inventory" where
  "inventory_from_snapshot v =
     \<lparr>nv_fingerprint = vs_manifest_fingerprint v, nv_file_count = vs_file_count v, nv_total_bytes = vs_total_bytes v,
      nv_files = manifest_files (vs_manifest v), nv_excluded = [], nv_symlinks = [], nv_errors = []\<rparr>"

definition unavailable_fingerprint :: string where
  "unavailable_fingerprint = ''sha256:'' @ replicate 64 (CHR ''0'')"

definition fingerprint_target :: "workspace \<Rightarrow> inventory" where
  "fingerprint_target w =
     (case dw_snapshot w of
        Some v \<Rightarrow> inventory_from_snapshot v
      | None \<Rightarrow>
          \<lparr>nv_fingerprint = unavailable_fingerprint, nv_file_count = 0, nv_total_bytes = 0, nv_files = [],
           nv_excluded = cs_excluded (dw_state w), nv_symlinks = cs_symlinks (dw_state w),
           nv_errors = (if dw_copy_errors w \<noteq> [] then dw_copy_errors w else dw_refusal_reasons w)\<rparr>)"

definition snapshot_workspace :: "tree_view \<Rightarrow> refusal + inventory" where
  "snapshot_workspace view =
     (case inventory_of_view default_copy_budget view of
        Inl (Refusal why rel) \<Rightarrow>
          Inr \<lparr>nv_fingerprint = unavailable_fingerprint, nv_file_count = 0, nv_total_bytes = 0, nv_files = [],
               nv_excluded = [], nv_symlinks = [], nv_errors = [why]\<rparr>
      | Inl r \<Rightarrow> Inl r
      | Inr es \<Rightarrow>
          (case manifest_identity default_copy_budget es of
             Inl r \<Rightarrow> Inl r
           | Inr (ss, snapshot_id, fingerprint) \<Rightarrow>
               Inr \<lparr>nv_fingerprint = fingerprint, nv_file_count = int (length (manifest_files es)),
                    nv_total_bytes = file_bytes es, nv_files = manifest_files es, nv_excluded = [], nv_symlinks = [],
                    nv_errors = []\<rparr>))"

text \<open>The paths that were created, modified and deleted between two inventories.\<close>

definition diff_paths :: "(string \<times> string) list \<Rightarrow> (string \<times> string) list \<Rightarrow> string list \<times> string list \<times> string list" where
  "diff_paths before after =
     (sort (filter (\<lambda>p. map_of before p = None) (dedupe (map fst after))),
      sort (filter (\<lambda>p. map_of after p \<noteq> None \<and> map_of after p \<noteq> map_of before p) (dedupe (map fst before))),
      sort (filter (\<lambda>p. map_of after p = None) (dedupe (map fst before))))"

definition summarize_workspace_diff :: "inventory option \<Rightarrow> inventory option \<Rightarrow> dict" where
  "summarize_workspace_diff before after =
     (case (before, after) of
        (Some b, Some a) \<Rightarrow>
          (case diff_paths (nv_files b) (nv_files a) of (created, modified, deleted) \<Rightarrow>
            (let limitations = (if nv_errors b \<noteq> [] \<or> nv_errors a \<noteq> []
                   then [''Workspace inventory had errors; diff evidence is degraded.''] else []) in
             [(''available'', JBool (limitations = [])), (''before_fingerprint'', JStr (nv_fingerprint b)),
              (''after_fingerprint'', JStr (nv_fingerprint a)), (''created_count'', JInt (int (length created))),
              (''modified_count'', JInt (int (length modified))), (''deleted_count'', JInt (int (length deleted))),
              (''interesting_paths_redacted'', jstrs (map (\<lambda>p. ''<workspace>/'' @ p)
                 (take 10 (take 3 created @ take 3 modified @ take 3 deleted)))),
              (''raw_contents_persisted'', JBool False), (''limitations'', jstrs limitations)]))
      | _ \<Rightarrow>
          [(''available'', JBool False), (''before_fingerprint'', JNull), (''after_fingerprint'', JNull),
           (''created_count'', JInt 0), (''modified_count'', JInt 0), (''deleted_count'', JInt 0),
           (''interesting_paths_redacted'', JList []), (''raw_contents_persisted'', JBool False),
           (''limitations'', jstrs [''Workspace diff summary was not available.''])])"

section \<open>A copy that is read back unchanged\<close>

fun copied_entries :: "string list \<Rightarrow> (string \<times> copied) list \<Rightarrow> manifest_entry list" where
  "copied_entries parts [] = []"
| "copied_entries parts ((name, CopiedFile content mode) # cs) =
     \<lparr>me_path = rel_path parts name, me_type = ''file'', me_mode = mode, me_size = int (length content),
      me_sha256 = Some (sha256_hexdigest content)\<rparr> # copied_entries parts cs"
| "copied_entries parts ((name, CopiedDir ds) # cs) =
     directory_entry (rel_path parts name) # copied_entries (parts @ [name]) ds @ copied_entries parts cs"

fun copied_ok :: "copy_budget \<Rightarrow> string list \<Rightarrow> (string \<times> copied) list \<Rightarrow> bool" where
  "copied_ok b parts [] \<longleftrightarrow> True"
| "copied_ok b parts ((name, CopiedFile content mode) # cs) \<longleftrightarrow>
     validate_relative_path (rel_path parts name) b = None \<and> int (length content) \<le> max_file_bytes b
     \<and> copied_ok b parts cs"
| "copied_ok b parts ((name, CopiedDir ds) # cs) \<longleftrightarrow>
     validate_relative_path (rel_path parts name) b = None \<and> int (length (parts @ [name])) \<le> max_depth b
     \<and> copied_ok b (parts @ [name]) ds \<and> copied_ok b parts cs"

text \<open>The manifest of a walk is the list of what it copied.\<close>

lemma copies_entries: "copies b parts nodes s es cs t \<Longrightarrow> es = copied_entries parts cs \<and> copied_ok b parts cs"
proof (induction rule: copies.induct)
  case (copies_file parts name before reads e c s t rest es cs u)
  from copy_regular_file_Inr [OF copies_file.hyps(2)] copies_file show ?case by (auto simp: total_length_def)
qed simp_all

text \<open>\<open>shown cs nodes\<close>: the directory listing \<open>nodes\<close>, in any order, is what the operating system answers
  for a directory that holds \<open>cs\<close> when nobody changes it.\<close>

inductive shown :: "(string \<times> copied) list \<Rightarrow> (string \<times> os_node) list \<Rightarrow> bool" where
  shown_nil: "shown [] []"
| shown_file: "shown (ps @ qs) nodes \<Longrightarrow> same_file_metadata st st \<Longrightarrow> fr_opened reads = Some st \<Longrightarrow> fr_after reads = st
    \<Longrightarrow> concat (fr_chunks reads) = content \<Longrightarrow> st_size st = int (length content)
    \<Longrightarrow> canonical_file_mode (st_perm st) = mode
    \<Longrightarrow> shown (ps @ (name, CopiedFile content mode) # qs) ((name, RegularFile st reads) # nodes)"
| shown_dir: "shown (ps @ qs) nodes \<Longrightarrow> shown ds children \<Longrightarrow> same_directory st st
    \<Longrightarrow> shown (ps @ (name, CopiedDir ds) # qs) ((name, Directory st (Some st) children st) # nodes)"

lemma copied_entries_append: "copied_entries parts (ps @ qs) = copied_entries parts ps @ copied_entries parts qs"
proof (induction parts ps rule: copied_entries.induct)
qed simp_all

lemma copied_ok_append: "copied_ok b parts (ps @ qs) \<longleftrightarrow> copied_ok b parts ps \<and> copied_ok b parts qs"
proof (induction b parts ps rule: copied_ok.induct)
qed auto

definition add_entries :: "counters \<Rightarrow> manifest_entry list \<Rightarrow> counters" where
  "add_entries c es =
     c\<lparr>ct_files := ct_files c + int (length (file_entries es)), ct_directories := ct_directories c + directory_count es,
       ct_bytes := ct_bytes c + file_bytes es, ct_paths := ct_paths c + sum_list (map path_bytes es)\<rparr>"

definition counters_ok :: "copy_budget \<Rightarrow> counters \<Rightarrow> bool" where
  "counters_ok b c \<longleftrightarrow> ct_files c \<le> max_file_count b \<and> ct_directories c \<le> max_directory_count b
     \<and> ct_bytes c \<le> max_total_bytes b \<and> ct_paths c \<le> max_manifest_path_bytes b"

definition sized :: "manifest_entry list \<Rightarrow> bool" where
  "sized es \<longleftrightarrow> (\<forall>e\<in>set es. 0 \<le> me_size e)"

lemma copied_entries_sized: "sized (copied_entries parts cs)"
  unfolding sized_def by (induction parts cs rule: copied_entries.induct) (auto simp: directory_entry_def)

lemma file_bytes_nonneg: "sized es \<Longrightarrow> 0 \<le> file_bytes es"
  unfolding sized_def by (induction es) auto

lemma directory_count_nonneg [simp]: "0 \<le> directory_count es"
  by (simp add: directory_count_def)

lemma add_entries_append: "add_entries c (es @ fs) = add_entries (add_entries c es) fs"
  by (simp add: add_entries_def)

lemma add_entries_perm: "mset es = mset fs \<Longrightarrow> add_entries c es = add_entries c fs"
  by (simp only: add_entries_def entry_sums_perm [of es fs])

lemma counters_ok_prefix: "counters_ok b (add_entries c (es @ fs)) \<Longrightarrow> sized fs \<Longrightarrow> counters_ok b (add_entries c es)"
  by (simp add: counters_ok_def add_entries_def)
    (use file_bytes_nonneg [of fs] path_bytes_sum_nonneg [of fs] directory_count_nonneg [of fs] in linarith)

lemma inventory_file_step:
  assumes st: "same_file_metadata st st" "fr_opened reads = Some st" "fr_after reads = st"
    "st_size st = int (length (concat (fr_chunks reads)))" and "validate_relative_path (rel_path parts name) b = None"
    and "st_size st \<le> max_file_bytes b"
    and e: "e = \<lparr>me_path = rel_path parts name, me_type = ''file'', me_mode = canonical_file_mode (st_perm st),
      me_size = st_size st, me_sha256 = Some (sha256_hexdigest (concat (fr_chunks reads)))\<rparr>"
    and "counters_ok b (add_entries c [e])"
    and rest: "inventory_entries b parts nodes (add_entries c [e]) = Inr (es, c')"
  shows "inventory_entries b parts ((name, RegularFile st reads) # nodes) c = Inr (e # es, c')"
proof -
  let ?c = "c\<lparr>ct_paths := ct_paths c + int (length (utf8 (rel_path parts name)))\<rparr>"
  have sums: "add_entries c [e] = ?c\<lparr>ct_files := ct_files c + 1, ct_bytes := ct_bytes c + st_size st\<rparr>"
    by (simp add: add_entries_def e path_bytes_def)
  from assms(8) have bounds: "ct_files c + 1 \<le> max_file_count b" "ct_bytes c + st_size st \<le> max_total_bytes b"
    "ct_paths c + int (length (utf8 (rel_path parts name))) \<le> max_manifest_path_bytes b"
    unfolding sums counters_ok_def by simp_all
  with assms(5) have "inventory_begin b (rel_path parts name) c = Inr ?c"
    by (simp add: inventory_begin_def Let_def demand_def)
  moreover have "inventory_file b name (rel_path parts name) st reads ?c = Inr ([e], add_entries c [e])"
    unfolding sums using bounds st assms(6)
    by (simp add: inventory_file_def Let_def demand_def total_length_def) (simp add: e)
  ultimately show ?thesis using rest by simp
qed

lemma inventory_directory_step:
  assumes "same_directory st st" and "validate_relative_path (rel_path parts name) b = None"
    and "int (length (parts @ [name])) \<le> max_depth b"
    and e: "e = directory_entry (rel_path parts name)"
    and "counters_ok b (add_entries c [e])"
    and inner: "inventory_entries b (parts @ [name]) children (add_entries c [e]) = Inr (ds, c')"
    and rest: "inventory_entries b parts nodes c' = Inr (es, c'')"
  shows "inventory_entries b parts ((name, Directory st (Some st) children st) # nodes) c = Inr (e # ds @ es, c'')"
proof -
  let ?c = "c\<lparr>ct_paths := ct_paths c + int (length (utf8 (rel_path parts name)))\<rparr>"
  have sums: "add_entries c [e] = ?c\<lparr>ct_directories := ct_directories c + 1\<rparr>"
    by (simp add: add_entries_def e)
  from assms(5) have bounds: "ct_directories c + 1 \<le> max_directory_count b"
    "ct_paths c + int (length (utf8 (rel_path parts name))) \<le> max_manifest_path_bytes b"
    unfolding sums counters_ok_def by simp_all
  with assms(2) have "inventory_begin b (rel_path parts name) c = Inr ?c"
    by (simp add: inventory_begin_def Let_def demand_def)
  moreover have "inventory_open b (length (parts @ [name])) name st (Some st) ?c = Inr (st, add_entries c [e])"
    unfolding sums using bounds assms(1,3)
    by (simp add: inventory_open_def Let_def demand_def same_directory_def)
  ultimately show ?thesis using inner rest assms(1) by (simp add: demand_def) (simp add: e)
qed

lemma inventory_of_shown:
  "shown cs nodes \<Longrightarrow> copied_ok b parts cs \<Longrightarrow> counters_ok b (add_entries c (copied_entries parts cs)) \<Longrightarrow>
     \<exists>es. inventory_entries b parts nodes c = Inr (es, add_entries c (copied_entries parts cs))
       \<and> mset es = mset (copied_entries parts cs)"
proof (induction arbitrary: parts c rule: shown.induct)
  case shown_nil
  show ?case by (simp add: add_entries_def)
next
  case (shown_file ps qs nodes st reads content mode name)
  let ?e = "\<lparr>me_path = rel_path parts name, me_type = ''file'', me_mode = mode, me_size = int (length content),
      me_sha256 = Some (sha256_hexdigest content)\<rparr>"
  let ?rest = "copied_entries parts (ps @ qs)"
  have perm: "mset (copied_entries parts (ps @ (name, CopiedFile content mode) # qs)) = mset ([?e] @ ?rest)"
    by (simp add: copied_entries_append)
  note all = add_entries_perm [OF perm, of c]
  from shown_file.prems(2) have ok: "counters_ok b (add_entries c ([?e] @ ?rest))" unfolding all .
  from counters_ok_prefix [OF ok copied_entries_sized] have first: "counters_ok b (add_entries c [?e])" .
  from shown_file.prems(1) have rest_ok: "copied_ok b parts (ps @ qs)" by (simp add: copied_ok_append)
  from shown_file.IH [OF rest_ok, of "add_entries c [?e]", folded add_entries_append, OF ok]
  obtain es where es: "inventory_entries b parts nodes (add_entries c [?e]) = Inr (es, add_entries c ([?e] @ ?rest))"
    and m: "mset es = mset ?rest" by (elim exE conjE)
  have "inventory_entries b parts ((name, RegularFile st reads) # nodes) c = Inr (?e # es, add_entries c ([?e] @ ?rest))"
    by (rule inventory_file_step [OF _ _ _ _ _ _ _ first es]) (use shown_file in \<open>auto simp: copied_ok_append\<close>)
  with perm m show ?case unfolding all by simp
next
  case (shown_dir ps qs nodes ds children st name)
  let ?e = "directory_entry (rel_path parts name)"
  let ?ds = "copied_entries (parts @ [name]) ds" and ?rest = "copied_entries parts (ps @ qs)"
  have perm: "mset (copied_entries parts (ps @ (name, CopiedDir ds) # qs)) = mset (([?e] @ ?ds) @ ?rest)"
    by (simp add: copied_entries_append)
  note all = add_entries_perm [OF perm, of c]
  from shown_dir.prems(2) have ok: "counters_ok b (add_entries c (([?e] @ ?ds) @ ?rest))" unfolding all .
  from counters_ok_prefix [OF ok copied_entries_sized] have two: "counters_ok b (add_entries c ([?e] @ ?ds))" .
  from counters_ok_prefix [OF two copied_entries_sized] have one: "counters_ok b (add_entries c [?e])" .
  from shown_dir.prems(1) have oks: "copied_ok b (parts @ [name]) ds" "copied_ok b parts (ps @ qs)"
    by (simp_all add: copied_ok_append)
  from shown_dir.IH(2) [OF oks(1), of "add_entries c [?e]", folded add_entries_append, OF two]
  obtain es1 where es1: "inventory_entries b (parts @ [name]) children (add_entries c [?e])
      = Inr (es1, add_entries c ([?e] @ ?ds))" and m1: "mset es1 = mset ?ds" by (elim exE conjE)
  from shown_dir.IH(1) [OF oks(2), of "add_entries c ([?e] @ ?ds)", folded add_entries_append [of c "[?e] @ ?ds"], OF ok]
  obtain es2 where es2: "inventory_entries b parts nodes (add_entries c ([?e] @ ?ds))
      = Inr (es2, add_entries c (([?e] @ ?ds) @ ?rest))" and m2: "mset es2 = mset ?rest"
    by (elim exE conjE)
  have "inventory_entries b parts ((name, Directory st (Some st) children st) # nodes) c
      = Inr (?e # es1 @ es2, add_entries c (([?e] @ ?ds) @ ?rest))"
    by (rule inventory_directory_step [OF _ _ _ _ one es1 es2]) (use shown_dir in \<open>auto simp: copied_ok_append\<close>)
  with perm m1 m2 show ?case unfolding all by simp
qed

lemma root_counters_ok:
  assumes "copies b [] nodes root_copy_state es cs t" and "check_copy_budget b = Inr b" and "1 \<le> max_directory_count b"
  shows "counters_ok b (add_entries \<lparr>ct_files = 0, ct_directories = 1, ct_bytes = 0, ct_paths = 0\<rparr> es)"
proof -
  from assms(2) have "0 < max_file_count b" "0 < max_total_bytes b" "0 < max_manifest_path_bytes b"
    by (auto simp: check_copy_budget_def split: if_splits)
  with assms(3) have "in_budget b root_copy_state"
    by (simp add: in_budget_def root_copy_state_def empty_copy_state_def)
  with copies_grows [OF assms(1)] show ?thesis
    by (simp add: grows_def in_budget_def counters_ok_def add_entries_def root_copy_state_def empty_copy_state_def)
qed

lemma sort_manifest_again: "sort_manifest b es = Inr ss \<Longrightarrow> sort_manifest b ss = Inr ss"
  using sort_manifest_perm [of b es ss ss] sort_manifest_facts [of b es ss] by simp

lemma inventory_of_copy:
  assumes "copy_filesystem_tree b st nodes after empty_copy_state = (Inr (ss, cs), t)" and "check_copy_budget b = Inr b"
    and "shown cs (tv_entries view)" and "same_directory (tv_before view) (tv_after view)"
  shows "inventory_of_view b view = Inr ss"
proof -
  from assms(1) obtain es where run: "copies b [] nodes root_copy_state es cs t" and sort: "sort_manifest b es = Inr ss"
    and root: "1 \<le> max_directory_count b" by (rule copy_filesystem_tree_Inr)
  from copies_entries [OF run] have es: "es = copied_entries [] cs" and ok: "copied_ok b [] cs" by simp_all
  from inventory_of_shown [OF assms(3) ok root_counters_ok [OF run assms(2) root, unfolded es]]
  obtain fs where fs: "inventory_entries b [] (tv_entries view) \<lparr>ct_files = 0, ct_directories = 1, ct_bytes = 0, ct_paths = 0\<rparr>
      = Inr (fs, add_entries \<lparr>ct_files = 0, ct_directories = 1, ct_bytes = 0, ct_paths = 0\<rparr> (copied_entries [] cs))"
    and m: "mset fs = mset es" unfolding es by (elim exE conjE)
  from sort_manifest_perm [OF sort m] show ?thesis
    by (simp add: inventory_of_view_def inventory_existing_tree_def fs demand_def assms(4))
qed

lemma verify_Inr_True:
  "verify_verified_snapshot b (Some v) view = Inr True \<longleftrightarrow> vs_integrity_status v = ''verified''
     \<and> inventory_of_view b view = Inr (vs_manifest v)
     \<and> (\<exists>ss. manifest_identity b (vs_manifest v) = Inr (ss, vs_snapshot_id v, vs_manifest_fingerprint v))"
  by (auto simp: verify_verified_snapshot_def chain_def split: sum.splits refusal.splits)

lemma finish_snapshot_done:
  assumes "finish_snapshot so entries kind c t lims w = (None, w')"
  shows "\<exists>v identity. manifest_identity (dw_budget w) entries = Inr identity
    \<and> v = snapshot_of (dw_budget w) w (so_path so) (so_copied_at so) kind c t lims identity
    \<and> verify_verified_snapshot (dw_budget w) (Some v) (so_copy so) = Inr True \<and> w' = with_copied v w"
  using assms unfolding finish_snapshot_def by (auto simp: Let_def split: sum.splits if_splits)

lemma snapshot_of_fields [simp]:
  "vs_manifest (snapshot_of b w p a k c t l (es, i, f)) = es" "vs_source_kind (snapshot_of b w p a k c t l x) = k"
  "vs_source_commit (snapshot_of b w p a k c t l x) = c" "vs_source_tree (snapshot_of b w p a k c t l x) = t"
  "vs_integrity_status (snapshot_of b w p a k c t l x) = ''verified''"
  "vs_snapshot_id (snapshot_of b w p a k c t l (es, i, f)) = i"
  "vs_manifest_fingerprint (snapshot_of b w p a k c t l (es, i, f)) = f"
  by (simp_all add: snapshot_of_def split: prod.splits)

lemma with_copied_fields [simp]:
  "dw_snapshot (with_copied v w) = Some v" "dw_refusal_reasons (with_copied v w) = dw_refusal_reasons w"
  "dw_copy_errors (with_copied v w) = dw_copy_errors w"
  by (simp_all add: with_copied_def)

lemma compare_worktree_finishes:
  assumes "compare_worktree so g c t exported w = (None, w')"
  shows "\<exists>lims w1. finish_snapshot so exported ''git_commit'' (Some c) (Some t) lims w1 = (None, w') \<and> dw_budget w1 = dw_budget w"
  using assms unfolding compare_worktree_def
  by (auto simp: Let_def split: prod.splits sum.splits if_splits) (intro exI conjI, assumption, simp)

lemma compare_worktree_done:
  assumes "compare_worktree so g c t exported w = (None, w')" and "sort_manifest (dw_budget w) exported = Inr exported"
  shows "\<exists>v cs live. dw_snapshot w' = Some v \<and> vs_source_kind v = ''git_commit'' \<and> vs_source_commit v = Some c
    \<and> vs_source_tree v = Some t \<and> vs_manifest v = exported
    \<and> git_object_id (gv_final_commit g) = Some c \<and> git_object_id (gv_final_tree g) = Some t
    \<and> copy_filesystem_tree (dw_budget w) (so_opened so) (so_entries so) (so_after so) empty_copy_state = (Inr (exported, cs), live)
    \<and> inventory_of_view (dw_budget w) (so_copy so) = Inr exported
    \<and> dw_refusal_reasons w' = dw_refusal_reasons w \<and> dw_copy_errors w' = dw_copy_errors w"
proof -
  from assms(1) obtain cs live lims w1
    where live: "copy_filesystem_tree (dw_budget w) (so_opened so) (so_entries so) (so_after so) empty_copy_state
        = (Inr (exported, cs), live)"
      and final: "git_object_id (gv_final_commit g) = Some c" "git_object_id (gv_final_tree g) = Some t"
      and w1: "w1 = w\<lparr>dw_state := merge_comparison (dw_state w) live\<rparr>"
      and fin: "finish_snapshot so exported ''git_commit'' (Some c) (Some t) lims w1 = (None, w')"
    unfolding compare_worktree_def by (auto simp: Let_def split: prod.splits sum.splits if_splits)
  from finish_snapshot_done [OF fin] obtain identity where
    id: "manifest_identity (dw_budget w) exported = Inr identity"
    and v: "verify_verified_snapshot (dw_budget w) (Some (snapshot_of (dw_budget w) w1 (so_path so) (so_copied_at so)
        ''git_commit'' (Some c) (Some t) lims identity)) (so_copy so) = Inr True"
    and w': "w' = with_copied (snapshot_of (dw_budget w) w1 (so_path so) (so_copied_at so) ''git_commit'' (Some c) (Some t)
        lims identity) w1" by (auto simp: w1)
  from id assms(2) obtain i f where identity: "identity = (exported, i, f)" by (auto simp: manifest_identity_def)
  from v identity have "inventory_of_view (dw_budget w) (so_copy so) = Inr exported" by (simp add: verify_Inr_True)
  with live final w' identity show ?thesis by (simp add: w1)
qed

lemma create_git_snapshot_done:
  assumes "create_git_snapshot so g w = (None, w')"
  shows "\<exists>c t listing s exported w2. git_object_id (gv_commit g) = Some c \<and> git_object_id (gv_tree g) = Some t
    \<and> git_tree_entries (dw_budget w) (gv_listing g) (gv_listing_exit g) (dw_state w) = (Inr listing, s)
    \<and> export_git_blobs (dw_budget w) (tw_entries listing) (gv_batch g) (gv_batch_exit g) = Inr exported
    \<and> compare_worktree so g c t exported w2 = (None, w') \<and> dw_budget w2 = dw_budget w
    \<and> dw_refusal_reasons w2 = dw_refusal_reasons w \<and> dw_copy_errors w2 = dw_copy_errors w \<and> dw_state w2 = s"
proof -
  from assms obtain c t where c: "git_object_id (gv_commit g) = Some c" and t: "git_object_id (gv_tree g) = Some t"
    unfolding create_git_snapshot_def by (simp add: Let_def split: if_splits option.splits)
  from assms obtain listing s
    where listing: "git_tree_entries (dw_budget w) (gv_listing g) (gv_listing_exit g) (dw_state w) = (Inr listing, s)"
    unfolding create_git_snapshot_def by (simp add: Let_def c t split: if_splits prod.splits sum.splits)
  from assms obtain exported
    where exported: "export_git_blobs (dw_budget w) (tw_entries listing) (gv_batch g) (gv_batch_exit g) = Inr exported"
    unfolding create_git_snapshot_def by (simp add: Let_def c t listing split: if_splits sum.splits)
  from assms show ?thesis
    unfolding create_git_snapshot_def using c t listing exported by (auto simp: Let_def split: if_splits)
qed

lemma intake_source_done:
  assumes "intake_source so git w = (None, w')"
  shows "(case git of Some g \<Rightarrow> create_git_snapshot so g w | None \<Rightarrow> create_filesystem_snapshot so w) = (None, w')"
  using assms unfolding intake_source_def root_recheck_def
  by (auto split: if_splits option.splits prod.splits)

lemma settle_snapshot:
  assumes "settle removed x = Inr w" and "dw_snapshot w \<noteq> None"
  shows "x = (None, w)"
  using assms unfolding settle_def
  by (auto simp: invalidate_partial_workspace_def Let_def split: prod.splits option.splits refusal.splits if_splits)

lemma add_new_nonempty [simp]: "add_new xs x \<noteq> []"
  by (auto simp: add_new_def)

lemma settle_refused:
  assumes "settle removed (Some r, w0) = Inr w"
  shows "dw_snapshot w = None \<and> dw_refusal_reasons w \<noteq> [] \<and> dw_copy_errors w \<noteq> []
    \<and> cs_files_copied (dw_state w) = 0 \<and> cs_total_bytes (dw_state w) = 0"
  using assms unfolding settle_def
  by (auto simp: invalidate_partial_workspace_def record_refusal_def Let_def split: refusal.splits if_splits)

lemma new_workspace_fields [simp]:
  "dw_budget (new_workspace b) = b" "dw_state (new_workspace b) = empty_copy_state"
  "dw_refusal_reasons (new_workspace b) = []" "dw_copy_errors (new_workspace b) = []"
  by (simp_all add: new_workspace_def)

text \<open>Everything that a snapshot of a commit rests on.\<close>

lemma git_snapshot_facts:
  assumes "create_verified_snapshot b removed so (Some g) = Inr w" and "dw_snapshot w = Some v"
  shows "\<exists>c t listing s cs live files.
    vs_source_kind v = ''git_commit'' \<and> vs_source_commit v = Some c \<and> vs_source_tree v = Some t
    \<and> git_object_id (gv_commit g) = Some c \<and> git_object_id (gv_final_commit g) = Some c
    \<and> git_object_id (gv_tree g) = Some t \<and> git_object_id (gv_final_tree g) = Some t
    \<and> git_tree_entries b (gv_listing g) (gv_listing_exit g) empty_copy_state = (Inr listing, s)
    \<and> mset files = mset (file_entries (vs_manifest v)) \<and> list_all2 authentic (tw_entries listing) files
    \<and> copy_filesystem_tree b (so_opened so) (so_entries so) (so_after so) empty_copy_state = (Inr (vs_manifest v, cs), live)
    \<and> inventory_of_view b (so_copy so) = Inr (vs_manifest v) \<and> dw_refusal_reasons w = []"
proof -
  from settle_snapshot [OF assms(1) [unfolded create_verified_snapshot_def]] assms(2)
  have "intake_source so (Some g) (new_workspace b) = (None, w)" by simp
  from intake_source_done [OF this] have "create_git_snapshot so g (new_workspace b) = (None, w)" by simp
  from create_git_snapshot_done [OF this] obtain c t listing s exported w2
    where ids: "git_object_id (gv_commit g) = Some c" "git_object_id (gv_tree g) = Some t"
      and listing: "git_tree_entries b (gv_listing g) (gv_listing_exit g) empty_copy_state = (Inr listing, s)"
      and exported: "export_git_blobs b (tw_entries listing) (gv_batch g) (gv_batch_exit g) = Inr exported"
      and live: "compare_worktree so g c t exported w2 = (None, w)" and w2: "dw_budget w2 = b" "dw_refusal_reasons w2 = []"
    by auto
  from exported obtain es where es: "export_blobs [] (tw_entries listing) (gv_batch g) = Inr es"
    and sort: "sort_manifest b es = Inr exported"
    unfolding export_git_blobs_def by (auto split: sum.splits option.splits)
  have files: "mset (file_entries es) = mset (file_entries exported)"
    using sort_manifest_facts [OF sort] by (simp add: file_entries_def)
  from compare_worktree_done [OF live] sort_manifest_again [OF sort] w2 assms(2) obtain cs lv
    where "vs_source_kind v = ''git_commit''" "vs_source_commit v = Some c" "vs_source_tree v = Some t" "vs_manifest v = exported"
      "git_object_id (gv_final_commit g) = Some c" "git_object_id (gv_final_tree g) = Some t"
      "copy_filesystem_tree b (so_opened so) (so_entries so) (so_after so) empty_copy_state = (Inr (exported, cs), lv)"
      "inventory_of_view b (so_copy so) = Inr exported" "dw_refusal_reasons w = []" by auto
  then show ?thesis
    using ids listing files export_blobs_authentic [OF es]
    by (intro exI [of _ c] exI [of _ t] exI [of _ listing] exI [of _ s] exI [of _ cs] exI [of _ lv]
        exI [of _ "file_entries es"]) simp
qed

section \<open>Properties\<close>

text \<open>C40: a copy that nobody changes passes its own verification: whenever the walk over the source
  succeeds and reading the copy back answers what was written, in whatever order the directories
  are listed, the intake ends with a verified snapshot of exactly the manifest of the walk.\<close>

theorem unchanged_copy_verifies:
  assumes "copy_filesystem_tree b (so_opened so) (so_entries so) (so_after so) empty_copy_state = (Inr (ss, cs), t)"
    and "check_copy_budget b = Inr b"
    and "shown cs (tv_entries (so_copy so))" and "same_directory (tv_before (so_copy so)) (tv_after (so_copy so))"
  shows "\<exists>w v. create_filesystem_snapshot so (new_workspace b) = (None, w) \<and> dw_snapshot w = Some v
    \<and> vs_manifest v = ss \<and> vs_integrity_status v = ''verified''"
proof -
  from assms(1) obtain es where "sort_manifest b es = Inr ss" by (rule copy_filesystem_tree_Inr)
  from sort_manifest_again [OF this] obtain i f where id: "manifest_identity b ss = Inr (ss, i, f)"
    by (simp add: manifest_identity_def)
  from inventory_of_copy [OF assms] have "inventory_of_view b (so_copy so) = Inr ss" .
  with id have "verify_verified_snapshot b (Some (snapshot_of b w p a k c u l (ss, i, f))) (so_copy so) = Inr True"
    for w p a k c u l by (simp add: verify_Inr_True)
  then show ?thesis
    by (simp add: create_filesystem_snapshot_def assms(1) finish_snapshot_def id Let_def)
qed

text \<open>C37: a verified snapshot of a git repository is its commit as far as the copy policy keeps it: the commit
  and the tree are valid object ids that HEAD had before and after the intake, the files of the manifest
  are the blobs that the tree lists and the policy keeps, each with bytes of the listed object id; walking
  the worktree under the same policy gave the same manifest, and so did reading the copy back.  A
  tracked file that the policy leaves out, an \<open>.env\<close> or a file below \<open>dist\<close>, is in none of them.\<close>

theorem git_snapshot_is_commit:
  assumes "create_verified_snapshot b removed so (Some g) = Inr w" and "dw_snapshot w = Some v"
  shows "\<exists>c t listing s cs live files.
    vs_source_kind v = ''git_commit'' \<and> vs_source_commit v = Some c \<and> vs_source_tree v = Some t
    \<and> git_object_id (gv_commit g) = Some c \<and> git_object_id (gv_final_commit g) = Some c
    \<and> git_object_id (gv_tree g) = Some t \<and> git_object_id (gv_final_tree g) = Some t
    \<and> git_tree_entries b (gv_listing g) (gv_listing_exit g) empty_copy_state = (Inr listing, s)
    \<and> mset files = mset (file_entries (vs_manifest v)) \<and> list_all2 authentic (tw_entries listing) files
    \<and> copy_filesystem_tree b (so_opened so) (so_entries so) (so_after so) empty_copy_state = (Inr (vs_manifest v, cs), live)
    \<and> inventory_of_view b (so_copy so) = Inr (vs_manifest v) \<and> dw_refusal_reasons w = []"
  using assms by (rule git_snapshot_facts)

text \<open>a refused intake keeps nothing: when there is no snapshot the workspace names a reason, records
  an error, counts no copied file and is not safe to use; when there is one, reading the copy back
  verified it.\<close>

theorem intake_outcome:
  assumes "create_verified_snapshot b removed so git = Inr w"
  shows "(dw_snapshot w = None \<and> dw_refusal_reasons w \<noteq> [] \<and> dw_copy_errors w \<noteq> [] \<and> \<not> copy_safety_ok w
        \<and> cs_files_copied (dw_state w) = 0 \<and> cs_total_bytes (dw_state w) = 0)
    \<or> (\<exists>v. dw_snapshot w = Some v \<and> verify_verified_snapshot b (Some v) (so_copy so) = Inr True)"
proof -
  obtain x w0 where x: "intake_source so git (new_workspace b) = (x, w0)" by (cases "intake_source so git (new_workspace b)")
  show ?thesis
  proof (cases x)
    case (Some r)
    with settle_refused [of removed r w0 w] assms x show ?thesis
      by (simp add: create_verified_snapshot_def copy_safety_ok_def)
  next
    case None
    with assms x have w: "w0 = w" by (simp add: create_verified_snapshot_def settle_def)
    have fin: "\<exists>v. dw_snapshot w = Some v \<and> verify_verified_snapshot b (Some v) (so_copy so) = Inr True"
      if "finish_snapshot so entries k c t l w1 = (None, w)" and "dw_budget w1 = b" for entries k c t l w1
      using finish_snapshot_done [OF that(1)] that(2) by (auto simp: with_copied_def)
    show ?thesis
    proof (cases git)
      case (Some g)
      with intake_source_done [of so git] x None w have "create_git_snapshot so g (new_workspace b) = (None, w)" by auto
      from create_git_snapshot_done [OF this] obtain c t exported w2
        where "compare_worktree so g c t exported w2 = (None, w)" "dw_budget w2 = b" by auto
      from compare_worktree_finishes [OF this(1)] this(2) fin show ?thesis by metis
    next
      case n: None
      with intake_source_done [of so git] x None w have "create_filesystem_snapshot so (new_workspace b) = (None, w)" by auto
      with fin show ?thesis unfolding create_filesystem_snapshot_def by (auto split: prod.splits sum.splits)
    qed
  qed
qed

section \<open>Samples\<close>

definition sample_root :: file_stat where
  "sample_root = sample_stat Directory_kind 1"

definition sample_view :: tree_view where
  "sample_view = \<lparr>tv_before = sample_root, tv_entries =
     [(''src'', Directory (sample_stat Directory_kind 20) (Some (sample_stat Directory_kind 20)) []
         (sample_stat Directory_kind 20))], tv_after = sample_root\<rparr>"

definition sample_source :: source_view where
  "sample_source =
     \<lparr>so_path = ''/r'', so_no_follow = True, so_lstat = Some sample_root, so_opened = sample_root,
      so_entries = sample_nodes, so_after = sample_root, so_final_lstat = Some sample_root,
      so_copied_at = ''2026-01-01T00:00:00Z'', so_copy = sample_view\<rparr>"

lemma sample_copied:
  "\<exists>t. copy_filesystem_tree default_copy_budget sample_root sample_nodes sample_root empty_copy_state
     = (Inr ([directory_entry ''src''], [(''src'', CopiedDir [])]), t)"
proof -
  have "case copy_filesystem_tree default_copy_budget sample_root sample_nodes sample_root empty_copy_state of
      (Inr (ss, cs), t) \<Rightarrow> ss = [directory_entry ''src''] \<and> cs = [(''src'', CopiedDir [])] | _ \<Rightarrow> False"
    by code_simp
  then show ?thesis by (auto split: prod.splits sum.splits)
qed

lemma sample_budget: "check_copy_budget default_copy_budget = Inr default_copy_budget"
  by code_simp

lemma sample_shown: "shown [(''src'', CopiedDir [])] (tv_entries sample_view)"
  using shown_dir [of "[]" "[]" "[]" "[]" "[]" "sample_stat Directory_kind 20" "''src''"] shown_nil
  by (simp add: sample_view_def same_directory_def same_identity_def sample_stat_def)

theorem unchanged_copy_verifies_witness:
  "\<exists>w v. create_filesystem_snapshot sample_source (new_workspace default_copy_budget) = (None, w)
     \<and> dw_snapshot w = Some v \<and> vs_manifest v = [directory_entry ''src'']"
proof -
  from sample_copied obtain t where "copy_filesystem_tree default_copy_budget (so_opened sample_source)
      (so_entries sample_source) (so_after sample_source) empty_copy_state
      = (Inr ([directory_entry ''src''], [(''src'', CopiedDir [])]), t)"
    by (auto simp: sample_source_def)
  from unchanged_copy_verifies [OF this sample_budget] sample_shown show ?thesis
    by (auto simp: sample_source_def sample_view_def same_directory_def same_identity_def sample_root_def sample_stat_def)
qed

text \<open>A worktree with a file that the copy policy leaves out and nothing else in its directory.\<close>

definition npmrc_record :: string where
  "npmrc_record = ''100644 blob '' @ replicate 40 (CHR ''a'') @ '' 0'' @ [CHR 0x09] @ ''conf/.npmrc'' @ [CHR 0x00]"

definition head_view :: "string \<Rightarrow> git_view" where
  "head_view listing =
     \<lparr>gv_plain_layout = True, gv_unsupported_objects = False, gv_version = Some (2, 43, 0),
      gv_commit = Some (replicate 40 (CHR ''c'')), gv_tree = Some (replicate 40 (CHR ''d'')), gv_listing = listing,
      gv_listing_exit = Exited 0 False, gv_batch = [], gv_batch_exit = Exited 0 False,
      gv_final_commit = Some (replicate 40 (CHR ''c'')), gv_final_tree = Some (replicate 40 (CHR ''d''))\<rparr>"

definition small_budget :: copy_budget where
  "small_budget = default_copy_budget\<lparr>max_relative_path_bytes := 20\<rparr>"

definition quiet_directory :: "int \<Rightarrow> (string \<times> os_node) list \<Rightarrow> os_node" where
  "quiet_directory n children =
     Directory (sample_stat Directory_kind n) (Some (sample_stat Directory_kind n)) children (sample_stat Directory_kind n)"

definition npmrc_source :: source_view where
  "npmrc_source = sample_source\<lparr>so_entries :=
     [(''conf'', quiet_directory 30 [(''.npmrc'', RegularFile (sample_stat Regular 31) sample_reads)]),
      (''.git'', quiet_directory 32 [])]\<rparr>"

definition empty_source :: source_view where
  "empty_source = sample_source\<lparr>so_entries := [(''.git'', quiet_directory 32 [])],
     so_copy := sample_view\<lparr>tv_entries := []\<rparr>\<rparr>"

lemma empty_commit_pieces:
  "fst (git_tree_entries small_budget [] (Exited 0 False) empty_copy_state) = Inr empty_tree_walk"
  "export_git_blobs small_budget [] [] (Exited 0 False) = Inr []"
  "fst (copy_filesystem_tree small_budget sample_root (so_entries empty_source) sample_root empty_copy_state) = Inr ([], [])"
  "inventory_of_view small_budget (so_copy empty_source) = Inr []"
  "git_object_id (Some (replicate 40 (CHR ''c''))) = Some (replicate 40 (CHR ''c''))"
  "git_object_id (Some (replicate 40 (CHR ''d''))) = Some (replicate 40 (CHR ''d''))"
  "sort_manifest small_budget [] = Inr []"
  by code_simp+

lemma head_view_fields:
  "gv_plain_layout (head_view l) = True" "gv_unsupported_objects (head_view l) = False"
  "gv_version (head_view l) = Some (2, 43, 0)" "gv_commit (head_view l) = Some (replicate 40 (CHR ''c''))"
  "gv_tree (head_view l) = Some (replicate 40 (CHR ''d''))" "gv_listing (head_view l) = l"
  "gv_listing_exit (head_view l) = Exited 0 False" "gv_batch (head_view l) = []"
  "gv_batch_exit (head_view l) = Exited 0 False" "gv_final_commit (head_view l) = Some (replicate 40 (CHR ''c''))"
  "gv_final_tree (head_view l) = Some (replicate 40 (CHR ''d''))"
  by (simp_all add: head_view_def)

lemma empty_commit_verified: "\<exists>w. create_verified_snapshot small_budget True empty_source (Some (head_view [])) = Inr w
    \<and> dw_snapshot w \<noteq> None"
proof -
  obtain s where listing: "git_tree_entries small_budget [] (Exited 0 False) empty_copy_state = (Inr empty_tree_walk, s)"
    using empty_commit_pieces(1) by (metis prod.collapse)
  obtain t where copied: "copy_filesystem_tree small_budget sample_root (so_entries empty_source) sample_root empty_copy_state
      = (Inr ([], []), t)" using empty_commit_pieces(3) by (metis prod.collapse)
  have version: "((2, 43, 0) < git_minimum_version) = False" by code_simp
  have source: "so_opened empty_source = sample_root" "so_after empty_source = sample_root" "so_no_follow empty_source"
    "so_lstat empty_source = Some sample_root" "so_final_lstat empty_source = Some sample_root"
    "same_directory sample_root sample_root" "st_kind sample_root = Directory_kind"
    by (simp_all add: empty_source_def sample_source_def sample_root_def sample_stat_def same_directory_def same_identity_def)
  have "\<exists>i f. manifest_identity small_budget [] = Inr ([], i, f)"
    by (simp add: manifest_identity_def empty_commit_pieces)
  then obtain i f where id: "manifest_identity small_budget [] = Inr ([], i, f)" by blast
  have "verify_verified_snapshot small_budget (Some (snapshot_of small_budget w p a k c u l ([], i, f))) (so_copy empty_source)
      = Inr True" for w p a k c u l
    by (simp add: verify_Inr_True empty_commit_pieces id)
  then have fin: "\<exists>w'. finish_snapshot empty_source [] k c u l w = (None, w') \<and> dw_snapshot w' \<noteq> None"
    if "dw_budget w = small_budget" for k c u l w
    by (simp add: finish_snapshot_def that id Let_def)
  have "\<exists>w'. compare_worktree empty_source (head_view []) (replicate 40 (CHR ''c'')) (replicate 40 (CHR ''d'')) [] w = (None, w')
      \<and> dw_snapshot w' \<noteq> None" if "dw_budget w = small_budget" for w
    using fin by (simp add: compare_worktree_def that source copied Let_def head_view_fields empty_commit_pieces)
  moreover have "\<exists>w2. dw_budget w2 = small_budget
      \<and> create_git_snapshot empty_source (head_view []) (new_workspace small_budget)
        = compare_worktree empty_source (head_view []) (replicate 40 (CHR ''c'')) (replicate 40 (CHR ''d'')) [] w2"
    unfolding create_git_snapshot_def head_view_fields Let_def option.case version if_False simp_thms
    by (simp add: listing empty_commit_pieces)
      (rule exI [of _ "new_workspace small_budget\<lparr>dw_commit := Some (replicate 40 (CHR ''c'')),
          dw_tree := Some (replicate 40 (CHR ''d'')), dw_state := s, dw_tracked := []\<rparr>"],
       simp add: empty_tree_walk_def empty_commit_pieces)
  ultimately obtain w where "create_git_snapshot empty_source (head_view []) (new_workspace small_budget) = (None, w)"
    and "dw_snapshot w \<noteq> None" by metis
  then show ?thesis
    by (simp add: create_verified_snapshot_def intake_source_def source root_recheck_def settle_def)
qed

theorem git_snapshot_is_commit_witness:
  "\<exists>w v. create_verified_snapshot small_budget True empty_source (Some (head_view [])) = Inr w \<and> dw_snapshot w = Some v
     \<and> vs_source_commit v = Some (replicate 40 (CHR ''c''))"
proof -
  from empty_commit_verified obtain w v
    where r: "create_verified_snapshot small_budget True empty_source (Some (head_view [])) = Inr w" "dw_snapshot w = Some v"
    by auto
  from git_snapshot_is_commit [OF r] r show ?thesis by (auto simp: head_view_fields empty_commit_pieces)
qed

text \<open>A clean worktree is refused when the files of one of its directories are all left out by the copy
  policy: the walk over the worktree has an entry for the directory, the export of the commit has
  none.\<close>

lemma clean_worktree_refused:
  "returning (\<lambda>w. dw_snapshot w = None \<and> dw_refusal_reasons w = [''source_worktree_not_exact_commit''])
     (create_verified_snapshot small_budget True npmrc_source (Some (head_view npmrc_record)))"
  by code_simp

theorem intake_outcome_witness:
  "\<exists>w. create_verified_snapshot small_budget True npmrc_source (Some (head_view npmrc_record)) = Inr w
     \<and> \<not> copy_safety_ok w"
proof -
  from clean_worktree_refused obtain w
    where r: "create_verified_snapshot small_budget True npmrc_source (Some (head_view npmrc_record)) = Inr w"
      and "dw_snapshot w = None" by (rule returningE) blast
  with intake_outcome [OF r] show ?thesis by auto
qed

end
