(* ===== verification/Doctor_Scan.thy ===== *)
theory Doctor_Scan
  imports Doctor_Policy Snapshot
begin

text \<open>
  The repository check of doctor.py: the presence checks, the scans for secrets, large files,
  public text and tracked artifacts over a list of relative paths, the allows of the policy applied
  to their findings, and \<open>diagnose_repo\<close>, which builds the report.  What the operating system
  answers about the files under the root is a record of functions of the relative path; a text is
  what \<open>read_text(encoding="utf-8", errors="ignore")\<close> returns.
\<close>

section \<open>What the scans look at\<close>

definition readme_names :: "string list" where "readme_names = [''README'', ''README.md'', ''README.rst'', ''README.txt'']"
definition license_names :: "string list" where "license_names = [''LICENSE'', ''LICENSE.txt'', ''LICENSE.md'', ''COPYING'']"
definition gitignore_names :: "string list" where "gitignore_names = [''.gitignore'', ''.git/info/exclude'']"
definition test_dir_names :: "string list" where "test_dir_names = [''tests'', ''test'']"
definition docs_dir_names :: "string list" where "docs_dir_names = [''docs'', ''doc'']"
definition script_dir_names :: "string list" where "script_dir_names = [''scripts'', ''script'', ''bin'']"
definition workflow_file_suffixes :: "string list" where "workflow_file_suffixes = [''.yml'', ''.yaml'']"

definition default_secrets_ignores :: "string list" where
  "default_secrets_ignores =
     [''.git/'', ''.venv/'', ''venv/'', ''node_modules/'', ''__pycache__/'', ''.pytest_cache/'', ''dist/'', ''build/'']"

definition ignored_dirs :: "string list" where
  "ignored_dirs = [''.git'', ''.hg'', ''.svn'', ''__pycache__'', ''.venv'', ''node_modules'', ''dist'', ''build'']"

definition text_extensions :: "string list" where
  "text_extensions =
     [''.py'', ''.md'', ''.rst'', ''.txt'', ''.json'', ''.toml'', ''.yaml'', ''.yml'', ''.ini'',
      ''.cfg'', ''.env'', ''.sh'', ''.bash'', ''.zsh'', ''.js'', ''.ts'', ''.tsx'', ''.jsx'',
      ''.java'', ''.go'', ''.rs'', ''.rb'', ''.php'', ''.c'', ''.cc'', ''.cpp'', ''.h'', ''.hpp'']"

record repo_answers =
  ra_exists :: "string \<Rightarrow> bool"
  ra_is_dir :: "string \<Rightarrow> bool"
  ra_workflows :: "(string \<times> bool) list option"
  ra_is_file :: "string \<Rightarrow> bool"
  ra_is_symlink :: "string \<Rightarrow> bool"
  ra_sample :: "string \<Rightarrow> string option"
  ra_size :: "string \<Rightarrow> nat option"
  ra_text :: "string \<Rightarrow> string option"

definition has_any_file :: "repo_answers \<Rightarrow> string list \<Rightarrow> string list" where
  "has_any_file ra names = filter (ra_exists ra) names"

definition has_dir :: "repo_answers \<Rightarrow> string list \<Rightarrow> string list" where
  "has_dir ra names = filter (ra_is_dir ra) names"

definition list_workflow_files :: "repo_answers \<Rightarrow> string list" where
  "list_workflow_files ra =
     (case ra_workflows ra of
        None \<Rightarrow> []
      | Some entries \<Rightarrow>
          map (\<lambda>(name, _). ''.github/workflows/'' @ name)
            (filter (\<lambda>(name, regular). regular \<and> py_lower (path_suffix [name]) \<in> set workflow_file_suffixes)
              (sort_key fst entries)))"

definition in_ignored_dir :: "string \<Rightarrow> bool" where
  "in_ignored_dir relative_text = list_ex (\<lambda>part. part \<in> set ignored_dirs) (path_parts relative_text)"

definition iter_files :: "repo_answers \<Rightarrow> string list \<Rightarrow> string list \<Rightarrow> string list" where
  "iter_files ra relative_paths ignore_patterns =
     map posix_text (filter (\<lambda>t. \<not> in_ignored_dir t \<and> \<not> is_ignored_path (posix_text t) ignore_patterns
         \<and> ra_is_file ra (posix_text t) \<and> \<not> ra_is_symlink ra (posix_text t))
       (sort relative_paths))"

text \<open>\<open>_iter_candidate_files\<close> over the files \<open>root / relative\<close>, sorted by their path text.\<close>

definition iter_candidate_files :: "repo_answers \<Rightarrow> string list option \<Rightarrow> bool \<Rightarrow> string list \<Rightarrow> string list" where
  "iter_candidate_files ra tracked_files include_ignored ignore_patterns =
     (case tracked_files of
        None \<Rightarrow> []
      | Some files \<Rightarrow>
          filter (\<lambda>t. (include_ignored \<or> \<not> in_ignored_dir t) \<and> ra_is_file ra t \<and> \<not> is_ignored_path t ignore_patterns)
            (map posix_text (sort_key posix_text files)))"

definition is_binary_file :: "repo_answers \<Rightarrow> string \<Rightarrow> bool" where
  "is_binary_file ra path = (case ra_sample ra path of None \<Rightarrow> True | Some sample \<Rightarrow> list_ex (\<lambda>c. code c = 0) sample)"

text \<open>The text of a file that a scan reads: a text extension or one of the given names, no NUL byte in
  the first 1024, at most one MiB, readable.\<close>

definition scannable_text :: "repo_answers \<Rightarrow> string list \<Rightarrow> string \<Rightarrow> string option" where
  "scannable_text ra names path =
     (if py_lower (path_suffix (path_parts path)) \<notin> set text_extensions \<and> path_name path \<notin> set names then None
      else if is_binary_file ra path then None
      else
        (case ra_size ra path of
           None \<Rightarrow> None
         | Some bytes \<Rightarrow> if bytes > text_file_scan_limit_bytes then None else ra_text ra path))"

definition pattern_findings ::
  "(string \<times> rx) list \<Rightarrow> (string \<times> string) list \<Rightarrow> string \<Rightarrow> string \<Rightarrow> dict list" where
  "pattern_findings patterns rule_ids path content =
     List.map_filter (\<lambda>(label, pattern).
       map_option (\<lambda>start. make_finding (rule_of rule_ids label) status_block path label True
           (Some (line_number content start)) None None None None)
         (match_start pattern content)) patterns"

fun scan_secret_files :: "repo_answers \<Rightarrow> string list \<Rightarrow> string list \<Rightarrow> nat \<Rightarrow> dict list \<times> nat" where
  "scan_secret_files ra ignore_patterns [] scanned = ([], scanned)"
| "scan_secret_files ra ignore_patterns (path # rest) scanned =
     (if scanned \<ge> max_scanned_files then ([], scanned)
      else if is_ignored_for_secrets path ignore_patterns then scan_secret_files ra ignore_patterns rest scanned
      else
        (case scannable_text ra [''.env'', ''.env.local''] path of
           None \<Rightarrow> scan_secret_files ra ignore_patterns rest scanned
         | Some content \<Rightarrow>
             (let (findings, n) = scan_secret_files ra ignore_patterns rest (scanned + 1) in
              (pattern_findings secret_scan_patterns secret_rule_ids path content @ findings, n))))"

definition scan_secrets :: "repo_answers \<Rightarrow> string list \<Rightarrow> string list \<Rightarrow> dict list \<times> nat" where
  "scan_secrets ra ignore_patterns relative_paths =
     scan_secret_files ra ignore_patterns (iter_files ra relative_paths []) 0"

definition scan_large_files :: "repo_answers \<Rightarrow> int \<Rightarrow> string list \<Rightarrow> string list \<Rightarrow> dict list" where
  "scan_large_files ra threshold_bytes ignore_patterns relative_paths =
     map snd (sort_key (\<lambda>(bytes, _). - int bytes)
       (List.map_filter (\<lambda>path.
          case ra_size ra path of
            None \<Rightarrow> None
          | Some bytes \<Rightarrow>
              if int bytes \<ge> threshold_bytes
              then Some (bytes, make_finding rule_id_large_file status_warn path ''large_file'' False None (Some bytes)
                     None None None)
              else None)
         (iter_files ra relative_paths ignore_patterns)))"

definition scan_public_text_safety ::
  "repo_answers \<Rightarrow> string list option \<Rightarrow> string list \<Rightarrow> dict list \<times> nat \<times> string" where
  "scan_public_text_safety ra tracked_files ignore_patterns =
     (let texts = List.map_filter (\<lambda>path. map_option (Pair path) (scannable_text ra [''.env'', ''.env.local'', ''.envrc''] path))
            (iter_candidate_files ra tracked_files True ignore_patterns) in
      (concat (map (\<lambda>(path, content). pattern_findings public_text_patterns public_text_rule_ids path content) texts),
       length texts, if tracked_files \<noteq> None then ''tracked'' else ''all''))"

definition scan_tracked_artifacts :: "string list option \<Rightarrow> string list \<Rightarrow> dict list \<times> string" where
  "scan_tracked_artifacts tracked_files ignore_patterns =
     (case tracked_files of
        None \<Rightarrow> ([], ''unavailable'')
      | Some files \<Rightarrow>
          (List.map_filter (\<lambda>path.
             if is_ignored_path path ignore_patterns then None
             else map_option (\<lambda>category. make_finding (rule_of tracked_artifact_rule_ids category) status_block path
                    category True None None None None None)
                  (classify_tracked_artifact path))
             (map posix_text (sort_key posix_text files)),
           ''tracked''))"

section \<open>The allows applied\<close>

text \<open>The findings of the scans have a text in \<open>rule_id\<close> and \<open>file\<close>.\<close>

definition str_of :: "json \<Rightarrow> string" where
  "str_of v = (case v of JStr s \<Rightarrow> s | _ \<Rightarrow> [])"

definition matching_allow :: "policy_config \<Rightarrow> dict \<Rightarrow> allow_finding_policy option" where
  "matching_allow policy finding =
     find (\<lambda>a. al_rule_id a = str_of (dget finding ''rule_id'')
       \<and> matches_path_pattern (str_of (dget finding ''file'')) (al_path_pattern a)) (pc_allow_findings policy)"

definition apply_allow :: "policy_config \<Rightarrow> dict \<Rightarrow> dict" where
  "apply_allow policy finding =
     (case matching_allow policy finding of
        None \<Rightarrow> dset finding ''allowed'' (JBool False)
      | Some a \<Rightarrow>
          dset (dset (dset finding ''allowed'' (JBool True)) ''matched_policy_id'' (JStr (al_policy_id a)))
            ''policy_source'' (JStr (al_source a)))"

definition apply_allow_findings :: "dict list \<Rightarrow> policy_config \<Rightarrow> dict list" where
  "apply_allow_findings findings policy = map (apply_allow policy) findings"

definition has_unallowed_findings :: "dict list \<Rightarrow> bool" where
  "has_unallowed_findings findings = list_ex (\<lambda>f. \<not> truthy (dget_or f ''allowed'' (JBool False))) findings"

section \<open>The policy checks\<close>

definition policy_check :: "policy_config \<Rightarrow> check_result" where
  "policy_check policy =
     \<lparr>cr_name = ''policy'',
      cr_status = (if pc_issues policy \<noteq> [] then status_block else status_pass),
      cr_summary = (if pc_issues policy \<noteq> [] then ''Policy configuration has blocking issues.''
        else if pc_sources policy \<noteq> [] then ''Policy configuration loaded.'' else ''No policy configuration found.''),
      cr_details =
        [(''findings'', findings_json (pc_issues policy)), (''policy_sources'', jstrs (pc_sources policy)),
         (''ignore_path_count'', JInt (pc_ignore_path_count policy)),
         (''allow_finding_count'', JInt (pc_allow_finding_count policy))]\<rparr>"

definition inventory_count :: "string \<Rightarrow> policy_config \<Rightarrow> int" where
  "inventory_count status policy = int (length (filter (\<lambda>e. ai_status e = status) (pc_allow_inventory policy)))"

definition policy_allow_inventory_check_with_filter ::
  "policy_config \<Rightarrow> string option \<Rightarrow> string option \<Rightarrow> check_result" where
  "policy_allow_inventory_check_with_filter policy status_filter fail_on =
     (let active = inventory_count allow_active policy;
          expiring_soon = inventory_count allow_expiring_soon policy;
          expired = inventory_count allow_expired policy;
          allows = filter (\<lambda>e. case status_filter of None \<Rightarrow> True | Some s \<Rightarrow> ai_status e = s) (pc_allow_inventory policy) in
      \<lparr>cr_name = ''policy_allow_inventory'',
       cr_status = (if expired \<noteq> 0 then status_block else if expiring_soon \<noteq> 0 then status_warn else status_pass),
       cr_summary =
         (if expired \<noteq> 0 then ''Expired allow entries require review.''
          else if expiring_soon \<noteq> 0 then ''Some allow entries are expiring soon.''
          else if pc_allow_inventory policy \<noteq> [] \<and> status_filter \<noteq> None \<and> allows = []
          then ''No allow entries matched filter.''
          else if allows \<noteq> [] then ''Allow inventory loaded.'' else ''No allow entries found.''),
       cr_details =
         [(''policy_sources'', jstrs (pc_sources policy)), (''allow_finding_count'', JInt (pc_allow_finding_count policy)),
          (''active_count'', JInt active), (''expiring_soon_count'', JInt expiring_soon),
          (''expired_count'', JInt expired), (''displayed_allow_count'', JInt (int (length allows))),
          (''allows'', JList (map (\<lambda>e. JObj (inventory_entry_dict e)) allows))]
         @ when_given ''filter'' JStr status_filter @ when_given ''fail_on'' JStr fail_on\<rparr>)"

section \<open>The check of a repository\<close>

record doctor_options =
  do_threshold_mb :: int
  do_secrets_ignores :: "string list"
  do_public_safety :: bool
  do_config_path :: "string option"
  do_local_config_path :: "string option"
  do_load_local_config :: bool

text \<open>What a run finds around it: the files under the root, the policy files and their parsers, the day,
  and the root as the report names it.\<close>

record doctor_env =
  de_answers :: repo_answers
  de_policy_files :: policy_files
  de_parsers :: policy_parsers
  de_today :: int
  de_repo_path :: string

definition env_policy :: "doctor_env \<Rightarrow> doctor_options \<Rightarrow> policy_config res" where
  "env_policy env o' =
     load_policy_config (de_parsers env) (de_policy_files env) (de_today env)
       (policy_sources (do_config_path o') (do_local_config_path o') (do_load_local_config o'))"

definition plain_check :: "string \<Rightarrow> string list \<Rightarrow> string \<Rightarrow> string \<Rightarrow> check_result" where
  "plain_check check_name found pass_summary warn_summary =
     \<lparr>cr_name = check_name, cr_status = (if found \<noteq> [] then status_pass else status_warn),
      cr_summary = (if found \<noteq> [] then pass_summary else warn_summary), cr_details = [(''found'', jstrs found)]\<rparr>"

definition presence_checks :: "repo_answers \<Rightarrow> bool \<Rightarrow> check_result list" where
  "presence_checks ra git_repository =
     (let gitignores = has_any_file ra gitignore_names;
          gitignores = (if git_repository \<and> ''.git/info/exclude'' \<notin> set gitignores
            then gitignores @ [''.git/info/exclude''] else gitignores) in
      [repository_presence_check ''readme'' (has_any_file ra readme_names) rule_id_missing_readme ''missing_readme''
         ''README found.'' ''README is missing.'',
       repository_presence_check ''license'' (has_any_file ra license_names) rule_id_missing_license ''missing_license''
         ''License file found.'' ''License file is missing.'',
       plain_check ''gitignore'' gitignores ''.gitignore found.'' ''.gitignore is missing.'',
       repository_presence_check ''ci'' (list_workflow_files ra) rule_id_missing_ci ''missing_ci''
         ''Workflow file found.'' ''Workflow file is missing.'',
       repository_presence_check ''tests'' (has_dir ra test_dir_names) rule_id_missing_tests ''missing_tests''
         ''Test directory found.'' ''Test directory is missing.'',
       plain_check ''docs'' (has_dir ra docs_dir_names) ''Docs directory found.'' ''Docs directory is missing.'',
       plain_check ''scripts'' (has_dir ra script_dir_names) ''Scripts directory found.''
         ''Scripts directory is missing.''])"

text \<open>A check of findings: \<open>bad\<close> and the first summary when one of them is not allowed.\<close>

definition findings_check :: "string \<Rightarrow> string \<Rightarrow> string \<Rightarrow> string \<Rightarrow> dict list \<Rightarrow> dict \<Rightarrow> check_result" where
  "findings_check check_name bad bad_summary good_summary findings details =
     \<lparr>cr_name = check_name, cr_status = (if has_unallowed_findings findings then bad else status_pass),
      cr_summary = (if has_unallowed_findings findings then bad_summary else good_summary), cr_details = details\<rparr>"

definition secrets_check :: "repo_answers \<Rightarrow> string list \<Rightarrow> string list \<Rightarrow> policy_config \<Rightarrow> check_result" where
  "secrets_check ra secrets_ignores scan_paths policy =
     (let combined = default_secrets_ignores @ secrets_ignores; (found, scanned) = scan_secrets ra combined scan_paths;
          findings = apply_allow_findings found policy in
      findings_check ''secrets_scan'' status_block ''Potential secrets detected.''
        ''No obvious unallowed secrets detected.'' findings
        [(''findings'', findings_json findings), (''scanned_files'', JInt (int scanned)),
         (''ignored_path_count'', JInt (int (length combined)))])"

definition large_files_check :: "repo_answers \<Rightarrow> int \<Rightarrow> string list \<Rightarrow> policy_config \<Rightarrow> check_result" where
  "large_files_check ra threshold_mb scan_paths policy =
     (let threshold_bytes = threshold_mb * 1024 * 1024;
          findings = apply_allow_findings
            (scan_large_files ra threshold_bytes (pc_ignore_paths policy) scan_paths) policy in
      findings_check ''large_files'' status_warn ''Large files detected.'' ''No unallowed large files detected.'' findings
        [(''threshold_mb'', JInt threshold_mb), (''threshold_bytes'', JInt threshold_bytes),
         (''findings'', findings_json findings)])"

definition public_text_check :: "repo_answers \<Rightarrow> string list \<Rightarrow> policy_config \<Rightarrow> check_result" where
  "public_text_check ra scan_paths policy =
     (let (found, scanned, scope) = scan_public_text_safety ra (Some scan_paths) [];
          findings = apply_allow_findings found policy in
      findings_check ''public_text_safety'' status_block ''Public-facing text should be reviewed before release.''
        ''No obvious public-facing text issues detected.'' findings
        [(''findings'', findings_json findings), (''scanned_files'', JInt (int scanned)), (''scan_scope'', JStr scope)])"

definition tracked_artifacts_check :: "string list option \<Rightarrow> policy_config \<Rightarrow> check_result" where
  "tracked_artifacts_check tracked_files policy =
     (let (found, scope) = scan_tracked_artifacts tracked_files []; findings = apply_allow_findings found policy;
          c = findings_check ''tracked_artifacts'' status_block
            ''Tracked generated or environment files should be reviewed before release.''
            (if scope = ''tracked'' then ''Tracked generated or environment files were not detected.''
             else ''Tracked file scan was unavailable.'') findings
            [(''findings'', findings_json findings), (''scan_scope'', JStr scope)] in
      if scope = ''unavailable'' then c\<lparr>cr_status := status_warn\<rparr> else c)"

definition diagnose_checks ::
  "repo_answers \<Rightarrow> doctor_options \<Rightarrow> bool \<Rightarrow> string list \<Rightarrow> string list \<Rightarrow> policy_config \<Rightarrow> check_result list" where
  "diagnose_checks ra o' git_repository tracked_paths scan_paths policy =
     presence_checks ra git_repository
     @ [secrets_check ra (do_secrets_ignores o') scan_paths policy,
        large_files_check ra (do_threshold_mb o') scan_paths policy]
     @ (if do_public_safety o'
        then [public_text_check ra scan_paths policy, tracked_artifacts_check (Some tracked_paths) policy] else [])
     @ (if pc_sources policy \<noteq> [] \<or> pc_issues policy \<noteq> [] then [policy_check policy] else [])"

text \<open>\<open>diagnose_repo\<close> with the tracked paths given: the scan paths default to them.\<close>

definition diagnose_repo ::
  "doctor_env \<Rightarrow> doctor_options \<Rightarrow> bool \<Rightarrow> string list \<Rightarrow> string list option \<Rightarrow> dict res" where
  "diagnose_repo env o' git_repository tracked_paths scan_paths =
     res_map (\<lambda>policy. build_report (de_repo_path env)
         (diagnose_checks (de_answers env) o' git_repository tracked_paths
           (case scan_paths of None \<Rightarrow> tracked_paths | Some ps \<Rightarrow> ps) policy))
       (env_policy env o')"

definition manifest_file_paths :: "verified_snapshot \<Rightarrow> string list" where
  "manifest_file_paths v = map me_path (filter (\<lambda>e. me_type e = ''file'') (vs_manifest v))"

text \<open>A verified snapshot is scanned with its own tracked paths and files.\<close>

definition diagnose_snapshot :: "doctor_env \<Rightarrow> doctor_options \<Rightarrow> verified_snapshot \<Rightarrow> dict res" where
  "diagnose_snapshot env o' v =
     diagnose_repo env o' (vs_source_kind v = ''git_commit'') (vs_tracked_paths v) (Some (manifest_file_paths v))"

text \<open>\<open>diagnose_repo\<close> without tracked paths: the outcome of \<open>create_static_scan_snapshot\<close> is scanned; \<open>env_of\<close>
  is what a run in the workspace finds.\<close>

definition diagnose_source :: "(workspace \<Rightarrow> doctor_env) \<Rightarrow> doctor_options \<Rightarrow> workspace res \<Rightarrow> dict res" where
  "diagnose_source env_of o' intake =
     res_bind intake (\<lambda>w. case dw_snapshot w of
         None \<Rightarrow> Inl ValueError
       | Some v \<Rightarrow> diagnose_snapshot (env_of w) o' v)"

section \<open>The other reports and the exit code\<close>

definition validate_policy :: "doctor_env \<Rightarrow> doctor_options \<Rightarrow> dict res" where
  "validate_policy env o' = res_map (\<lambda>policy. build_report (de_repo_path env) [policy_check policy]) (env_policy env o')"

definition list_policy_allows :: "doctor_env \<Rightarrow> doctor_options \<Rightarrow> string option \<Rightarrow> string option \<Rightarrow> dict res" where
  "list_policy_allows env o' status_filter fail_on =
     res_map (\<lambda>policy. build_report (de_repo_path env)
         [policy_check policy, policy_allow_inventory_check_with_filter policy status_filter fail_on])
       (env_policy env o')"

definition summary_count :: "dict \<Rightarrow> string \<Rightarrow> int" where
  "summary_count report k = (case dget (sect report ''summary'') k of JInt i \<Rightarrow> i | _ \<Rightarrow> 0)"

definition int_at :: "dict \<Rightarrow> string \<Rightarrow> int" where
  "int_at d k = (case dget d k of JInt i \<Rightarrow> i | _ \<Rightarrow> 0)"

definition report_checks :: "dict \<Rightarrow> dict list" where
  "report_checks report = (case dget report ''checks'' of JList xs \<Rightarrow> list_dicts xs | _ \<Rightarrow> [])"

text \<open>\<open>determine_exit_code\<close> of a report of this module: the counts are integers, the details objects.\<close>

definition determine_exit_code :: "dict \<Rightarrow> bool \<Rightarrow> string \<Rightarrow> int res" where
  "determine_exit_code report strict fail_on =
     (if dget report ''report_kind'' = JStr report_kind_diff then Inr 0
      else if fail_on \<notin> {status_block, status_warn, allow_expired, allow_expiring_soon} then Inl ValueError
      else if summary_count report ''block'' > 0 then Inr 1
      else if (strict \<or> fail_on = status_warn) \<and> summary_count report ''warn'' > 0 then Inr 1
      else if fail_on \<in> {allow_expired, allow_expiring_soon} then
        (let details = (case find (\<lambda>c. dget c ''name'' = JStr ''policy_allow_inventory'') (report_checks report) of
               None \<Rightarrow> [] | Some c \<Rightarrow> sect c ''details'');
             expired = int_at details ''expired_count''; expiring_soon = int_at details ''expiring_soon_count'' in
         if fail_on = allow_expired then Inr (if expired > 0 then 1 else 0)
         else Inr (if expired > 0 \<or> expiring_soon > 0 then 1 else 0))
      else Inr 0)"

end
