(* ===== verification/Doctor_Properties.thy ===== *)
theory Doctor_Properties
  imports Doctor_Scan
begin

text \<open>
  What the repository check guarantees: the secret scan reads exactly the first 200 readable files,
  no policy hides a secret outside the fixture directories, an expired allow blocks every report,
  the counts of a report partition its checks, and the exit code says whether one of them blocks.
\<close>

section \<open>Findings and allows\<close>

lemma finding_fields:
  "dget (make_finding r s f p red l n a i src) ''rule_id'' = JStr r"
  "dget (make_finding r s f p red l n a i src) ''severity'' = JStr s"
  "dget (make_finding r s f p red l n a i src) ''file'' = JStr f"
  "dget (make_finding r s f p red l n a i src) ''redacted'' = JBool red"
  by (simp_all add: make_finding_def dget_Cons)

lemma apply_allow_keeps:
  assumes "k \<notin> {''allowed'', ''matched_policy_id'', ''policy_source''}"
  shows "dget (apply_allow policy d) k = dget d k"
  using assms by (auto simp: apply_allow_def dget_or_dset split: option.split)

lemma apply_allow_allowed:
  "dget_or (apply_allow policy d) ''allowed'' def = JBool (matching_allow policy d \<noteq> None)"
  by (simp add: apply_allow_def dget_or_dset split: option.split)

lemma matching_allow_Some:
  assumes "matching_allow policy d = Some a"
  shows "a \<in> set (pc_allow_findings policy)" and "al_rule_id a = str_of (dget d ''rule_id'')"
    and "matches_path_pattern (str_of (dget d ''file'')) (al_path_pattern a)"
  using assms unfolding matching_allow_def find_Some_iff by (auto simp: in_set_conv_nth)

lemma secret_not_allowed:
  assumes "policy_sound today policy" and "str_of (dget d ''rule_id'') \<in> set secret_rule_id_values"
    and "\<not> in_fixture_dir (str_of (dget d ''file''))"
  shows "matching_allow policy d = None"
proof (rule ccontr)
  assume "matching_allow policy d \<noteq> None"
  then obtain a where a: "matching_allow policy d = Some a" by blast
  from assms(1) matching_allow_Some(1) [OF a] have "allow_sound today a" unfolding policy_sound_def by blast
  with assms(2) matching_allow_Some(2) [OF a] have "is_secret_fixture_path (al_path_pattern a)"
    unfolding allow_sound_def by simp
  from fixture_pattern_confined [OF this matching_allow_Some(3) [OF a]] assms(3) show False by contradiction
qed

lemma unallowed_iff: "has_unallowed_findings (apply_allow_findings fs policy) \<longleftrightarrow> (\<exists>f\<in>set fs. matching_allow policy f = None)"
  by (auto simp: has_unallowed_findings_def apply_allow_findings_def list_ex_iff apply_allow_allowed)

lemma secret_rule_listed: "label \<in> set (map fst secret_scan_patterns) \<Longrightarrow> rule_of secret_rule_ids label \<in> set secret_rule_id_values"
  unfolding secret_scan_patterns_def secret_rule_id_values_def
  by (auto simp: rule_of_def secret_rule_ids_def rule_registry_def family_rules_def)

section \<open>The bounded scan\<close>

text \<open>The files that can be read for secrets, in the order of the scan; the scan takes the first 200.\<close>

definition secret_texts :: "repo_answers \<Rightarrow> string list \<Rightarrow> string list \<Rightarrow> (string \<times> string) list" where
  "secret_texts ra ignore_patterns paths =
     List.map_filter (\<lambda>path. if is_ignored_for_secrets path ignore_patterns then None
         else map_option (Pair path) (scannable_text ra [''.env'', ''.env.local''] path)) paths"

definition text_findings :: "string \<times> string \<Rightarrow> dict list" where
  "text_findings pc = pattern_findings secret_scan_patterns secret_rule_ids (fst pc) (snd pc)"

lemma secret_texts_simps:
  "secret_texts ra ign [] = []"
  "secret_texts ra ign (p # ps) =
     (if is_ignored_for_secrets p ign then secret_texts ra ign ps
      else case scannable_text ra [''.env'', ''.env.local''] p of
             None \<Rightarrow> secret_texts ra ign ps | Some c \<Rightarrow> (p, c) # secret_texts ra ign ps)"
  by (simp_all add: secret_texts_def List.map_filter_simps split: option.split)

lemma scan_secret_files_take:
  "n \<le> max_scanned_files \<Longrightarrow>
   scan_secret_files ra ign files n =
     (let texts = take (max_scanned_files - n) (secret_texts ra ign files) in
      (concat (map text_findings texts), n + length texts))"
proof (induction files arbitrary: n)
  case Nil
  show ?case by (simp add: secret_texts_simps)
next
  case (Cons p ps)
  show ?case
  proof (cases "n = max_scanned_files")
    case False
    with Cons.prems have n: "Suc n \<le> max_scanned_files"
      "max_scanned_files - n = Suc (max_scanned_files - Suc n)" "\<not> max_scanned_files \<le> n" by simp_all
    show ?thesis
    proof (cases "is_ignored_for_secrets p ign \<or> scannable_text ra [''.env'', ''.env.local''] p = None")
      case True
      with n(3) Cons.IH [OF Cons.prems] show ?thesis by (auto simp: secret_texts_simps)
    next
      case False
      then obtain c where "scannable_text ra [''.env'', ''.env.local''] p = Some c" "\<not> is_ignored_for_secrets p ign" by auto
      with n Cons.IH [OF n(1)] show ?thesis
        by (simp add: secret_texts_simps Let_def text_findings_def)
    qed
  qed simp
qed

definition scanned_texts :: "repo_answers \<Rightarrow> string list \<Rightarrow> string list \<Rightarrow> (string \<times> string) list" where
  "scanned_texts ra secrets_ignores scan_paths =
     take max_scanned_files (secret_texts ra (default_secrets_ignores @ secrets_ignores) (iter_files ra scan_paths []))"

lemma scan_secrets_exact:
  "scan_secrets ra (default_secrets_ignores @ ignores) paths =
     (concat (map text_findings (scanned_texts ra ignores paths)), length (scanned_texts ra ignores paths))"
  by (simp add: scan_secrets_def scan_secret_files_take scanned_texts_def Let_def)

lemma text_findings_mem:
  assumes "(label, pattern) \<in> set secret_scan_patterns" and "rx_search pattern content"
  shows "\<exists>line. make_finding (rule_of secret_rule_ids label) status_block path label True (Some line) None None None None
    \<in> set (text_findings (path, content))"
proof -
  from assms(2) obtain n where n: "match_start pattern content = Some n" unfolding match_start_found [symmetric] by blast
  let ?g = "\<lambda>(label, pattern). map_option (\<lambda>start. make_finding (rule_of secret_rule_ids label) status_block path label True
           (Some (line_number content start)) None None None None) (match_start pattern content)"
  have "?g (label, pattern) = Some (make_finding (rule_of secret_rule_ids label) status_block path label True
      (Some (line_number content n)) None None None None)" using n by simp
  then have "make_finding (rule_of secret_rule_ids label) status_block path label True
      (Some (line_number content n)) None None None None \<in> set (List.map_filter ?g secret_scan_patterns)"
    using assms(1) unfolding List.map_filter_def by (simp add: rev_image_eqI) force
  then show ?thesis unfolding text_findings_def pattern_findings_def by auto
qed

section \<open>Reports\<close>

lemma report_fields:
  "dget (build_report p cs) ''overall_status'' = JStr (overall_status_of cs)"
  "dget (build_report p cs) ''checks'' = JList (map (\<lambda>c. JObj (check_dict c)) cs)"
  "dget (build_report p cs) ''report_kind'' = JNull"
  "dget (build_report p cs) ''repo_path'' = JStr p"
  "summary_count (build_report p cs) ''block'' = status_count status_block cs"
  "summary_count (build_report p cs) ''warn'' = status_count status_warn cs"
  "summary_count (build_report p cs) ''pass'' = status_count status_pass cs"
  by (simp_all add: build_report_def dget_Cons summary_count_def sect_def status_pass_def status_warn_def status_block_def)

lemma status_count_pos: "c \<in> set cs \<Longrightarrow> cr_status c = s \<Longrightarrow> status_count s cs > 0"
  by (auto simp: status_count_def filter_empty_conv)

lemma status_count_zero: "status_count s cs = 0 \<longleftrightarrow> (\<forall>c\<in>set cs. cr_status c \<noteq> s)"
  by (auto simp: status_count_def filter_empty_conv)

lemma status_count_nonneg [simp]: "0 \<le> status_count s cs"
  by (simp add: status_count_def)

lemma overall_block_iff: "overall_status_of cs = status_block \<longleftrightarrow> (\<exists>c\<in>set cs. cr_status c = status_block)"
  using status_count_zero [of status_block cs]
  by (auto simp: overall_status_of_def status_block_def status_warn_def status_pass_def)

lemma status_count_partition:
  "\<forall>c\<in>set cs. cr_status c \<in> set runtime_status_values \<Longrightarrow>
     status_count status_pass cs + status_count status_warn cs + status_count status_block cs = int (length cs)"
  by (induction cs)
    (auto simp: status_count_def runtime_status_values_def status_pass_def status_warn_def status_block_def)

section \<open>The checks of a run\<close>

lemma secrets_check_view:
  "secrets_check ra ignores paths policy =
     findings_check ''secrets_scan'' status_block ''Potential secrets detected.''
        ''No obvious unallowed secrets detected.''
        (apply_allow_findings (concat (map text_findings (scanned_texts ra ignores paths))) policy)
        [(''findings'', findings_json (apply_allow_findings (concat (map text_findings (scanned_texts ra ignores paths))) policy)),
         (''scanned_files'', JInt (int (length (scanned_texts ra ignores paths)))),
         (''ignored_path_count'', JInt (int (length (default_secrets_ignores @ ignores))))]"
  by (simp add: secrets_check_def scan_secrets_exact Let_def)

text \<open>A secret that was read outside the fixture directories is a finding that no allow matches.\<close>

lemma planted_secret_unallowed:
  assumes "policy_sound today policy" and "(path, content) \<in> set (scanned_texts ra ignores paths)"
    and "(label, pattern) \<in> set secret_scan_patterns" and "rx_search pattern content" and "\<not> in_fixture_dir path"
  obtains d where "d \<in> set (concat (map text_findings (scanned_texts ra ignores paths)))"
    and "matching_allow policy d = None" and "dget d ''severity'' = JStr status_block"
proof -
  from text_findings_mem [OF assms(3,4), of path] obtain line where
    d: "make_finding (rule_of secret_rule_ids label) status_block path label True (Some line) None None None None
      \<in> set (text_findings (path, content))" (is "?d \<in> _") ..
  from assms(3) have "label \<in> set (map fst secret_scan_patterns)" by force
  from secret_rule_listed [OF this] assms(5) have "matching_allow policy ?d = None"
    by (intro secret_not_allowed [OF assms(1)]) (simp_all add: finding_fields str_of_def)
  moreover from d assms(2) have "?d \<in> set (concat (map text_findings (scanned_texts ra ignores paths)))" by auto
  ultimately show ?thesis using that by (simp add: finding_fields)
qed

lemma secrets_check_blocks:
  assumes "d \<in> set (concat (map text_findings (scanned_texts ra ignores paths)))" and "matching_allow policy d = None"
  shows "cr_status (secrets_check ra ignores paths policy) = status_block"
proof -
  from assms have "has_unallowed_findings
      (apply_allow_findings (concat (map text_findings (scanned_texts ra ignores paths))) policy)"
    unfolding unallowed_iff by (rule bexI [rotated])
  then show ?thesis unfolding secrets_check_view findings_check_def by simp
qed

lemma env_policy_sound: "env_policy env o' = Inr policy \<Longrightarrow> policy_sound (de_today env) policy"
  unfolding env_policy_def by (rule loaded_policy_sound)

lemma diagnose_repoE:
  assumes "diagnose_repo env o' g tracked scan = Inr report"
  obtains policy where "env_policy env o' = Inr policy"
    and "report = build_report (de_repo_path env) (diagnose_checks (de_answers env) o' g tracked
      (case scan of None \<Rightarrow> tracked | Some ps \<Rightarrow> ps) policy)"
  using assms unfolding diagnose_repo_def by (auto elim: res_mapE)

lemma known_status: "status_pass \<in> set runtime_status_values" "status_warn \<in> set runtime_status_values"
    "status_block \<in> set runtime_status_values"
  by (simp_all add: runtime_status_values_def)

lemma findings_check_status:
  "bad \<in> set runtime_status_values \<Longrightarrow> cr_status (findings_check n bad x y fs d) \<in> set runtime_status_values"
  by (simp add: findings_check_def known_status)

lemma presence_status: "cr_status (repository_presence_check n found r m x y) \<in> set runtime_status_values"
  by (simp add: repository_presence_check_def Let_def known_status)

lemma plain_status: "cr_status (plain_check n found x y) \<in> set runtime_status_values"
  by (simp add: plain_check_def known_status)

lemma large_files_status: "cr_status (large_files_check ra mb paths policy) \<in> set runtime_status_values"
  unfolding large_files_check_def Let_def by (rule findings_check_status) (rule known_status)

lemma public_text_status: "cr_status (public_text_check ra paths policy) \<in> set runtime_status_values"
  unfolding public_text_check_def Let_def by (simp split: prod.split add: findings_check_status known_status)

lemma tracked_artifacts_status: "cr_status (tracked_artifacts_check files policy) \<in> set runtime_status_values"
  unfolding tracked_artifacts_check_def Let_def by (simp split: prod.split add: findings_check_status known_status)

lemma secrets_status: "cr_status (secrets_check ra ignores paths policy) \<in> set runtime_status_values"
  unfolding secrets_check_view by (rule findings_check_status) (rule known_status)

lemma policy_status: "cr_status (policy_check policy) \<in> set runtime_status_values"
  by (simp add: policy_check_def known_status)

lemmas check_statuses = presence_status plain_status large_files_status public_text_status tracked_artifacts_status
  secrets_status policy_status

lemma diagnose_statuses: "\<forall>c\<in>set (diagnose_checks ra o' g tracked paths policy). cr_status c \<in> set runtime_status_values"
  by (auto simp add: diagnose_checks_def presence_checks_def Let_def check_statuses)

lemma report_checks_built: "report_checks (build_report p cs) = map check_dict cs"
proof -
  have "list_dicts (map (\<lambda>c. JObj (check_dict c)) cs) = map check_dict cs" by (induction cs) simp_all
  then show ?thesis by (simp add: report_checks_def report_fields)
qed

lemma check_status: "dget (check_dict c) ''status'' = JStr (cr_status c)"
  by (simp add: check_dict_def dget_Cons)

lemma check_name: "dget (check_dict c) ''name'' = JStr (cr_name c)"
  by (simp add: check_dict_def dget_Cons)

lemma check_details: "dget (check_dict c) ''details'' = JObj (cr_details c)"
  by (simp add: check_dict_def dget_Cons)

definition exit_levels :: "string list" where
  "exit_levels = [status_block, status_warn, allow_expired, allow_expiring_soon]"

lemma exit_code_block:
  assumes "\<exists>c\<in>set cs. cr_status c = status_block" and "fail_on \<in> set exit_levels"
  shows "determine_exit_code (build_report p cs) strict fail_on = Inr 1"
proof -
  from assms(1) have "status_count status_block cs > 0" using status_count_pos by blast
  moreover from assms(2) have "fail_on \<in> {status_block, status_warn, allow_expired, allow_expiring_soon}"
    by (simp add: exit_levels_def)
  ultimately show ?thesis by (simp add: determine_exit_code_def report_fields)
qed

section \<open>Properties\<close>

text \<open>C7: A secret in a file that the scan reads outside the fixture directories blocks: whatever the policy
  files and the options say, the report is \<open>block\<close> and the exit code is 1 at every level.\<close>

theorem secret_outside_fixtures_blocks:
  assumes "diagnose_repo env o' g tracked scan = Inr report"
    and "(path, content) \<in> set (scanned_texts (de_answers env) (do_secrets_ignores o')
      (case scan of None \<Rightarrow> tracked | Some ps \<Rightarrow> ps))"
    and "(label, pattern) \<in> set secret_scan_patterns" and "rx_search pattern content" and "\<not> in_fixture_dir path"
  shows "dget report ''overall_status'' = JStr ''block''
    \<and> (\<forall>fail_on\<in>set exit_levels. determine_exit_code report strict fail_on = Inr 1)"
proof -
  from assms(1) obtain policy where policy: "env_policy env o' = Inr policy"
    and report: "report = build_report (de_repo_path env) (diagnose_checks (de_answers env) o' g tracked
      (case scan of None \<Rightarrow> tracked | Some ps \<Rightarrow> ps) policy)" (is "_ = build_report _ ?cs") by (rule diagnose_repoE)
  let ?c = "secrets_check (de_answers env) (do_secrets_ignores o') (case scan of None \<Rightarrow> tracked | Some ps \<Rightarrow> ps) policy"
  from planted_secret_unallowed [OF env_policy_sound [OF policy] assms(2-5)] obtain d
    where "d \<in> set (concat (map text_findings (scanned_texts (de_answers env) (do_secrets_ignores o')
        (case scan of None \<Rightarrow> tracked | Some ps \<Rightarrow> ps))))" "matching_allow policy d = None" .
  then have "cr_status ?c = status_block" by (rule secrets_check_blocks)
  moreover have "?c \<in> set ?cs" by (simp add: diagnose_checks_def)
  ultimately have "\<exists>c\<in>set ?cs. cr_status c = status_block" by blast
  from exit_code_block [OF this] this [folded overall_block_iff] report show ?thesis
    by (simp add: report_fields) (simp add: status_block_def)
qed

text \<open>C14: Every allow that a policy brings into a run names a known rule and has not expired, and an allow
  for a secret covers only paths below the fixture directories.\<close>

theorem loaded_allows_are_sound:
  assumes "load_policy_config pp files today sources = Inr c" and "a \<in> set (pc_allow_findings c)"
  shows "al_rule_id a \<in> set known_finding_rule_ids \<and> today \<le> al_expires a
    \<and> (al_rule_id a \<in> set secret_rule_id_values \<longrightarrow>
        (\<forall>f. matches_path_pattern f (al_path_pattern a) \<longrightarrow> in_fixture_dir f))"
  using loaded_policy_sound [OF assms(1)] assms(2) fixture_pattern_confined
  unfolding policy_sound_def allow_sound_def by blast

text \<open>C15: An allow that has expired blocks the validation of the policy, the list of the allows and the
  check of the repository.\<close>

theorem expired_allow_blocks:
  assumes "env_policy env o' = Inr policy" and "e \<in> set (pc_allow_inventory policy)" and "ai_status e = allow_expired"
  shows "\<exists>v l d. validate_policy env o' = Inr v \<and> list_policy_allows env o' status_filter fail_on = Inr l
    \<and> diagnose_repo env o' g tracked scan = Inr d
    \<and> (\<forall>r\<in>{v, l, d}. dget r ''overall_status'' = JStr ''block'')"
proof -
  from env_policy_sound [OF assms(1)] assms(2,3) have "pc_issues policy \<noteq> []" unfolding policy_sound_def by blast
  then have "cr_status (policy_check policy) = status_block"
    "policy_check policy \<in> set (diagnose_checks ra o' g tracked ps policy)" for ra ps
    by (simp_all add: policy_check_def diagnose_checks_def)
  then have "overall_status_of [policy_check policy] = status_block"
    "overall_status_of [policy_check policy, c] = status_block"
    "overall_status_of (diagnose_checks ra o' g tracked ps policy) = status_block" for c ra ps
    unfolding overall_block_iff by auto
  then show ?thesis
    by (simp add: validate_policy_def list_policy_allows_def diagnose_repo_def assms(1) report_fields status_block_def)
qed

text \<open>The three counts of a report add up to its checks, and its status is \<open>block\<close> exactly when one of
  them blocks.\<close>

theorem report_counts_partition:
  assumes "diagnose_repo env o' g tracked scan = Inr report"
  shows "summary_count report ''pass'' + summary_count report ''warn'' + summary_count report ''block''
      = int (length (report_checks report))
    \<and> (dget report ''overall_status'' = JStr ''block'' \<longleftrightarrow>
        (\<exists>c\<in>set (report_checks report). dget c ''status'' = JStr ''block''))"
proof -
  from assms obtain policy where "report = build_report (de_repo_path env) (diagnose_checks (de_answers env) o' g tracked
      (case scan of None \<Rightarrow> tracked | Some ps \<Rightarrow> ps) policy)" (is "_ = build_report _ ?cs") by (rule diagnose_repoE)
  then show ?thesis using status_count_partition [OF diagnose_statuses] overall_block_iff [of ?cs]
    by (simp add: report_fields report_checks_built check_status status_block_def)
qed

text \<open>The exit code of a check at the default level: 1 exactly when a check blocks or, in strict mode,
  warns.\<close>

theorem exit_code_of_diagnosis:
  assumes "diagnose_repo env o' g tracked scan = Inr report"
  shows "determine_exit_code report strict ''block'' =
    Inr (if (\<exists>c\<in>set (report_checks report). dget c ''status'' = JStr ''block'')
           \<or> strict \<and> (\<exists>c\<in>set (report_checks report). dget c ''status'' = JStr ''warn'') then 1 else 0)"
proof -
  from assms obtain policy where report: "report = build_report (de_repo_path env) (diagnose_checks (de_answers env) o' g tracked
      (case scan of None \<Rightarrow> tracked | Some ps \<Rightarrow> ps) policy)" (is "_ = build_report _ ?cs") by (rule diagnose_repoE)
  have pos: "status_count s ?cs > 0 \<longleftrightarrow> (\<exists>c\<in>set (report_checks report). dget c ''status'' = JStr s)" for s
    using status_count_zero [of s ?cs] status_count_nonneg [of s ?cs]
    unfolding report report_checks_built by (auto simp: check_status order_less_le)
  have "determine_exit_code report strict ''block'' =
    Inr (if status_count status_block ?cs > 0 \<or> strict \<and> status_count status_warn ?cs > 0 then 1 else 0)"
    unfolding report determine_exit_code_def report_fields
    by (simp add: status_block_def status_warn_def allow_expired_def allow_expiring_soon_def)
  then show ?thesis unfolding pos by (simp only: status_block_def status_warn_def)
qed

text \<open>What the secret scan should do, without its loop: a file may be read when it is a regular file below
  no ignored directory, no pattern ignores it, its name is that of a text file, and its first bytes
  and its size can be read and are those of a text of at most 1 MiB.\<close>

definition secret_readable :: "repo_answers \<Rightarrow> string list \<Rightarrow> string \<Rightarrow> bool" where
  "secret_readable ra ignores t \<longleftrightarrow>
     (\<forall>part\<in>set (path_parts t). part \<notin> {''.git'', ''.hg'', ''.svn'', ''__pycache__'', ''.venv'', ''node_modules'', ''dist'', ''build''})
     \<and> ra_is_file ra (posix_text t) \<and> \<not> ra_is_symlink ra (posix_text t)
     \<and> (\<forall>g\<in>set ignores. \<not> ignored_by (posix_text t) g)
     \<and> (py_lower (path_suffix (path_parts (posix_text t))) \<in> set text_extensions \<or> path_name (posix_text t) \<in> {''.env'', ''.env.local''})
     \<and> (\<exists>sample. ra_sample ra (posix_text t) = Some sample \<and> (\<forall>c\<in>set sample. code c \<noteq> 0))
     \<and> (\<exists>bytes. ra_size ra (posix_text t) = Some bytes \<and> bytes \<le> 1048576)
     \<and> ra_text ra (posix_text t) \<noteq> None"

text \<open>The finding for a pattern that occurs in a text: the line is that of the first place where it matches.\<close>

definition secret_report :: "string \<Rightarrow> string \<Rightarrow> string \<Rightarrow> rx \<Rightarrow> dict" where
  "secret_report path content label pattern =
     [(''rule_id'', JStr (''rhd.secret.'' @ label)), (''severity'', JStr ''block''), (''file'', JStr path),
      (''pattern'', JStr label), (''redacted'', JBool True),
      (''line'', JInt (1 + int (card {i. i < (LEAST k. rx_match pattern (drop k content)) \<and> i < length content
         \<and> code (content ! i) = 10})))]"

lemma filter_card: "length (filter P xs) = card {i. i < length xs \<and> P (xs ! i)}"
  by (rule length_filter_conv_card)

lemma line_number_card:
  "line_number content n = 1 + int (card {i. i < n \<and> i < length content \<and> code (content ! i) = 10})"
proof -
  have "{i. i < length (take n content) \<and> code (take n content ! i) = 10}
    = {i. i < n \<and> i < length content \<and> code (content ! i) = 10}" by auto
  then show ?thesis by (simp add: line_number_def filter_card)
qed

lemma match_start_Least:
  assumes "match_start r s = Some n"
  shows "n = (LEAST k. rx_match r (drop k s))"
  using match_start_first [OF assms] by (intro Least_equality [symmetric]) (auto simp: not_less [symmetric])

lemma text_finding_report:
  assumes "(label, pattern) \<in> set secret_scan_patterns" and "match_start pattern content = Some n"
  shows "make_finding (rule_of secret_rule_ids label) status_block path label True (Some (line_number content n)) None None None None
    = secret_report path content label pattern"
proof -
  have "label \<in> {''aws_access_key'', ''github_token'', ''slack_token'', ''private_key'', ''generic_api_key''}"
    using assms(1) by (auto simp: secret_scan_patterns_def)
  then have "rule_of secret_rule_ids label = ''rhd.secret.'' @ label"
    by (auto simp: rule_of_def secret_rule_ids_def)
  with match_start_Least [OF assms(2)] show ?thesis
    by (simp add: make_finding_def when_given_def secret_report_def line_number_card status_block_def)
qed

lemma text_findings_reports:
  "text_findings (path, content) =
     map (\<lambda>(label, pattern). secret_report path content label pattern)
       (filter (\<lambda>(label, pattern). rx_search pattern content) secret_scan_patterns)"
proof -
  have "List.map_filter (\<lambda>(label, pattern). map_option (\<lambda>start. make_finding (rule_of secret_rule_ids label) status_block
        path label True (Some (line_number content start)) None None None None) (match_start pattern content)) ps
    = map (\<lambda>(label, pattern). secret_report path content label pattern) (filter (\<lambda>(label, pattern). rx_search pattern content) ps)"
    if "set ps \<subseteq> set secret_scan_patterns" for ps
    using that
  proof (induction ps)
    case (Cons lp ps)
    obtain label pattern where lp: "lp = (label, pattern)" by (cases lp)
    with Cons have m: "(label, pattern) \<in> set secret_scan_patterns" and ih: "set ps \<subseteq> set secret_scan_patterns" by auto
    show ?case
    proof (cases "match_start pattern content")
      case None
      with Cons.IH [OF ih] match_start_found [of pattern content] show ?thesis by (simp add: lp List.map_filter_simps)
    next
      case (Some n)
      with Cons.IH [OF ih] match_start_found [of pattern content] text_finding_report [OF m Some]
      show ?thesis by (simp add: lp List.map_filter_simps)
    qed
  qed (simp add: List.map_filter_simps)
  then show ?thesis by (simp add: text_findings_def pattern_findings_def)
qed

lemma secret_readable_iff:
  "secret_readable ra ign t \<longleftrightarrow> \<not> in_ignored_dir t \<and> ra_is_file ra (posix_text t) \<and> \<not> ra_is_symlink ra (posix_text t)
     \<and> \<not> is_ignored_for_secrets (posix_text t) ign \<and> scannable_text ra [''.env'', ''.env.local''] (posix_text t) \<noteq> None"
  "secret_readable ra ign t \<Longrightarrow> scannable_text ra [''.env'', ''.env.local''] (posix_text t) = ra_text ra (posix_text t)"
proof -
  have limit: "text_file_scan_limit_bytes = 1048576" by (simp add: text_file_scan_limit_bytes_def)
  let ?named = "py_lower (path_suffix (path_parts (posix_text t))) \<in> set text_extensions \<or> path_name (posix_text t) \<in> {''.env'', ''.env.local''}"
  have named: "?named \<longleftrightarrow> \<not> (py_lower (path_suffix (path_parts (posix_text t))) \<notin> set text_extensions
      \<and> path_name (posix_text t) \<notin> set [''.env'', ''.env.local''])" by simp
  have s: "scannable_text ra [''.env'', ''.env.local''] (posix_text t) =
    (if ?named \<and> (\<exists>sample. ra_sample ra (posix_text t) = Some sample \<and> (\<forall>c\<in>set sample. code c \<noteq> 0))
       \<and> (\<exists>bytes. ra_size ra (posix_text t) = Some bytes \<and> bytes \<le> 1048576) then ra_text ra (posix_text t) else None)"
    unfolding named scannable_text_def is_binary_file_def limit
    by (auto simp: list_ex_iff split: option.split)
  show "secret_readable ra ign t \<longleftrightarrow> \<not> in_ignored_dir t \<and> ra_is_file ra (posix_text t) \<and> \<not> ra_is_symlink ra (posix_text t)
     \<and> \<not> is_ignored_for_secrets (posix_text t) ign \<and> scannable_text ra [''.env'', ''.env.local''] (posix_text t) \<noteq> None"
    unfolding secret_readable_def s in_ignored_dir_def list_ex_iff is_ignored_for_secrets_def is_ignored_path_def ignored_dirs_def
      list.set by auto
  show "secret_readable ra ign t \<Longrightarrow> scannable_text ra [''.env'', ''.env.local''] (posix_text t) = ra_text ra (posix_text t)"
    unfolding secret_readable_def s by simp
qed

lemma secret_texts_readable:
  "secret_texts ra ign (iter_files ra paths []) =
     map (\<lambda>t. (posix_text t, the (ra_text ra (posix_text t)))) (filter (secret_readable ra ign) (sort paths))"
proof -
  have "secret_texts ra ign (map posix_text (filter (\<lambda>t. \<not> in_ignored_dir t \<and> \<not> is_ignored_path (posix_text t) []
         \<and> ra_is_file ra (posix_text t) \<and> \<not> ra_is_symlink ra (posix_text t)) ts))
     = map (\<lambda>t. (posix_text t, the (ra_text ra (posix_text t)))) (filter (secret_readable ra ign) ts)" for ts
  proof (induction ts)
    case (Cons t ts)
    show ?case
    proof (cases "secret_readable ra ign t")
      case True
      with secret_readable_iff(2) [OF True] Cons show ?thesis
        by (auto simp: secret_readable_iff(1) secret_texts_simps is_ignored_path_def)
    next
      case False
      with Cons show ?thesis
        by (auto simp: secret_readable_iff(1) secret_texts_simps is_ignored_path_def)
    qed
  qed (simp add: secret_texts_simps)
  then show ?thesis by (simp add: iter_files_def)
qed

text \<open>C29: The secret scan, a loop with a counter and a break, is this: sort the paths, keep the files that
  may be read, take the first 200 of them, and for each of them and each pattern that occurs in its
  text report one finding, at the line of the first match; and count those files.\<close>

theorem secret_scan_reads_first_files:
  "scan_secrets ra (default_secrets_ignores @ ignores) paths =
     (let read = take 200 (filter (secret_readable ra (default_secrets_ignores @ ignores)) (sort paths)) in
      (concat (map (\<lambda>t. map (\<lambda>(label, pattern). secret_report (posix_text t) (the (ra_text ra (posix_text t))) label pattern)
           (filter (\<lambda>(label, pattern). rx_search pattern (the (ra_text ra (posix_text t)))) secret_scan_patterns)) read),
       length read))"
  by (simp add: scan_secrets_exact scanned_texts_def max_scanned_files_def secret_texts_readable Let_def take_map comp_def
      text_findings_reports)

section \<open>Samples\<close>

definition regular_answers :: "string \<Rightarrow> file_answers" where
  "regular_answers bytes =
     (let st = sample_control_state\<lparr>st_size := int (length bytes)\<rparr> in
      \<lparr>fa_no_follow = True, fa_lstat = Found st, fa_open = OpenedFile, fa_opened = Some st,
       fa_bytes = bytes, fa_sizes = [], fa_after = Some st\<rparr>)"

definition yaml_parsers :: policy_parsers where
  "yaml_parsers = \<lparr>pp_decode = Some, pp_json = (\<lambda>_. JsonDecodeError)\<rparr>"

lemma regular_document:
  "length t \<le> control_file_max_bytes \<Longrightarrow> py_strip t \<noteq> [] \<Longrightarrow>
   load_policy_document yaml_parsers (regular_answers t) = parse_simple_policy_yaml t"
  by (simp add: load_policy_document_def read_bounded_control_file_def check_listed_def check_opened_def Let_def
      read_content_def bounded_read_bytes same_file_state_def regular_answers_def sample_control_state_def
      control_file_max_bytes_def yaml_parsers_def)

definition sample_policy_lines :: "string list" where
  "sample_policy_lines =
     [''# shared policy'', ''allow_findings:'', ''  - rule_id: rhd.secret.aws_access_key'', ''    path: tests/fixtures/'',
      ''    reason: '' @ [CHR 34] @ ''fake key'' @ [CHR 34], ''    owner: qa'', ''    expires: 2026-01-31'']"

definition sample_policy_text :: string where
  "sample_policy_text = py_join [CHR 0x0A] sample_policy_lines"

definition sample_payload :: dict where
  "sample_payload =
     [(''allow_findings'', JList [JObj
        [(''rule_id'', JStr ''rhd.secret.aws_access_key''), (''path'', JStr ''tests/fixtures/''),
         (''reason'', JStr ''fake key''), (''owner'', JStr ''qa''), (''expires'', JStr ''2026-01-31'')]])]"

lemma sample_policy_parsed:
  "parse_simple_policy_yaml sample_policy_text = Inr sample_payload" "py_strip sample_policy_text \<noteq> []"
  "length sample_policy_text \<le> 200"
  by code_simp+

definition sample_policy_files :: policy_files where
  "sample_policy_files p = (if p = ''repo-health-doctor.yml'' then Some (regular_answers sample_policy_text) else None)"

lemma sample_policy_loaded:
  assumes "load_allows today ''repo'' sample_payload (no_policy\<lparr>pc_sources := [''repo'']\<rparr>) = Inr c"
  shows "load_policy_config yaml_parsers sample_policy_files today (policy_sources None None True)
    = Inr (c\<lparr>pc_sources := dedupe (pc_sources c)\<rparr>)"
proof -
  have doc: "load_policy_document yaml_parsers (regular_answers sample_policy_text) = Inr sample_payload"
    using sample_policy_parsed by (simp add: regular_document control_file_max_bytes_def)
  have rest: "load_ignores ''repo'' sample_payload c = Inr c" "load_unknown_keys ''repo'' sample_payload c = c" for c
    by (simp_all add: load_ignores_def load_unknown_keys_def sample_payload_def keys_def policy_top_level_keys_def
        dget_Cons dget_or_def)
  have "load_source yaml_parsers sample_policy_files today (''repo'', ''repo-health-doctor.yml'', False) no_policy = Inr c"
    using assms by (simp add: load_source_def sample_policy_files_def doc rest no_policy_def)
  moreover have "load_source yaml_parsers sample_policy_files today (''local'', ''.repo-health-doctor.local.yml'', False) c = Inr c"
    by (simp add: load_source_def sample_policy_files_def)
  ultimately show ?thesis by (simp add: load_policy_config_def policy_sources_def)
qed

definition sample_allow_view :: "int \<Rightarrow> (string list \<times> string list) option" where
  "sample_allow_view today =
     (case load_allows today ''repo'' sample_payload (no_policy\<lparr>pc_sources := [''repo'']\<rparr>) of
        Inl e \<Rightarrow> None
      | Inr c \<Rightarrow> Some (map al_rule_id (pc_allow_findings c), map ai_status (pc_allow_inventory c)))"

lemma sample_allow_values:
  "sample_allow_view 739617 = Some ([''rhd.secret.aws_access_key''], [''expiring-soon''])"
  "sample_allow_view 740000 = Some ([], [''expired''])"
  by code_simp+

theorem loaded_allows_are_sound_witness:
  "\<exists>c a. load_policy_config yaml_parsers sample_policy_files 739617 (policy_sources None None True) = Inr c
     \<and> a \<in> set (pc_allow_findings c) \<and> (\<forall>f. matches_path_pattern f (al_path_pattern a) \<longrightarrow> in_fixture_dir f)"
proof -
  from sample_allow_values(1) obtain c where c: "load_allows 739617 ''repo'' sample_payload (no_policy\<lparr>pc_sources := [''repo'']\<rparr>) = Inr c"
    and r: "map al_rule_id (pc_allow_findings c) = [''rhd.secret.aws_access_key'']"
    unfolding sample_allow_view_def by (auto split: sum.splits)
  let ?c = "c\<lparr>pc_sources := dedupe (pc_sources c)\<rparr>"
  from sample_policy_loaded [OF c] have load: "load_policy_config yaml_parsers sample_policy_files 739617 (policy_sources None None True) = Inr ?c" .
  from r obtain a where a: "a \<in> set (pc_allow_findings ?c)" "al_rule_id a = ''rhd.secret.aws_access_key''" by auto
  have "''rhd.secret.aws_access_key'' \<in> set secret_rule_id_values" by code_simp
  with loaded_allows_are_sound [OF load a(1)] a(2) have "\<forall>f. matches_path_pattern f (al_path_pattern a) \<longrightarrow> in_fixture_dir f" by simp
  with load a(1) show ?thesis by blast
qed

definition sample_answers :: "(string \<times> string) list \<Rightarrow> repo_answers" where
  "sample_answers files =
     \<lparr>ra_exists = (\<lambda>p. p \<in> fst ` set files), ra_is_dir = (\<lambda>_. False), ra_workflows = None,
      ra_is_file = (\<lambda>p. p \<in> fst ` set files), ra_is_symlink = (\<lambda>_. False), ra_sample = map_of files,
      ra_size = (\<lambda>p. map_option length (map_of files p)), ra_text = map_of files\<rparr>"

definition sample_env :: "(string \<times> string) list \<Rightarrow> int \<Rightarrow> doctor_env" where
  "sample_env files today =
     \<lparr>de_answers = sample_answers files, de_policy_files = sample_policy_files, de_parsers = yaml_parsers,
      de_today = today, de_repo_path = ''.''\<rparr>"

definition default_options :: doctor_options where
  "default_options = \<lparr>do_threshold_mb = 10, do_secrets_ignores = [], do_public_safety = True, do_config_path = None,
     do_local_config_path = None, do_load_local_config = True\<rparr>"

definition sample_key_file :: "string \<times> string" where
  "sample_key_file = (''src/config.py'', ''key = AKIA0123456789ABCDEF'')"

lemma sample_env_policy: "env_policy (sample_env files today) default_options =
    load_policy_config yaml_parsers sample_policy_files today (policy_sources None None True)"
  by (simp add: env_policy_def sample_env_def default_options_def)

lemma sample_diagnosis: "returns (diagnose_repo (sample_env files 739617) default_options g tracked scan)"
  using load_policy_returns [of 739617 yaml_parsers sample_policy_files "policy_sources None None True"]
  by (simp add: diagnose_repo_def sample_env_policy policy_allow_expiring_soon_days_def max_ordinal_def)

lemma sample_key_listed:
  "iter_files (sample_answers [sample_key_file]) [''src/config.py''] [] = [''src/config.py'']"
  "\<not> is_ignored_for_secrets ''src/config.py'' (default_secrets_ignores @ [])"
  "py_lower (path_suffix (path_parts ''src/config.py'')) \<in> set text_extensions"
  "\<not> is_binary_file (sample_answers [sample_key_file]) ''src/config.py''"
  "\<not> in_fixture_dir ''src/config.py''"
  by code_simp+

lemma sample_key_scannable:
  "scannable_text (sample_answers [sample_key_file]) names ''src/config.py'' = Some (snd sample_key_file)"
  using sample_key_listed(3,4)
  by (simp add: scannable_text_def sample_answers_def sample_key_file_def text_file_scan_limit_bytes_def)

lemma sample_key_read:
  "sample_key_file \<in> set (scanned_texts (sample_answers [sample_key_file]) [] [''src/config.py''])"
  using sample_key_listed(2)
  by (simp add: scanned_texts_def sample_key_listed(1) secret_texts_simps sample_key_scannable max_scanned_files_def)
    (simp add: sample_key_file_def)

lemma sample_key_found:
  "list_ex (\<lambda>(label, pattern). rx_search pattern (snd sample_key_file)) (take 1 secret_scan_patterns)"
  by code_simp

theorem secret_outside_fixtures_blocks_witness:
  "\<exists>report. diagnose_repo (sample_env [sample_key_file] 739617) default_options False [''src/config.py''] None = Inr report
     \<and> dget report ''overall_status'' = JStr ''block'' \<and> determine_exit_code report False ''block'' = Inr 1"
proof -
  from sample_diagnosis obtain report where r: "diagnose_repo (sample_env [sample_key_file] 739617) default_options False
      [''src/config.py''] None = Inr report" unfolding returns_iff by blast
  from sample_key_found obtain label pattern where p: "(label, pattern) \<in> set secret_scan_patterns"
    "rx_search pattern (snd sample_key_file)" unfolding list_ex_iff by (auto dest: in_set_takeD)
  have read: "(''src/config.py'', snd sample_key_file) \<in> set (scanned_texts (de_answers (sample_env [sample_key_file] 739617))
      (do_secrets_ignores default_options) (case None of None \<Rightarrow> [''src/config.py''] | Some ps \<Rightarrow> ps))"
    using sample_key_read by (simp add: sample_env_def default_options_def sample_key_file_def)
  from secret_outside_fixtures_blocks [OF r read p sample_key_listed(5)] have "dget report ''overall_status'' = JStr ''block''"
    "determine_exit_code report False status_block = Inr 1" by (simp_all add: exit_levels_def)
  with r show ?thesis by (simp add: status_block_def)
qed

theorem expired_allow_blocks_witness:
  "\<exists>policy e v. env_policy (sample_env [] 740000) default_options = Inr policy \<and> e \<in> set (pc_allow_inventory policy)
     \<and> validate_policy (sample_env [] 740000) default_options = Inr v \<and> dget v ''overall_status'' = JStr ''block''"
proof -
  from sample_allow_values(2) obtain c where c: "load_allows 740000 ''repo'' sample_payload (no_policy\<lparr>pc_sources := [''repo'']\<rparr>) = Inr c"
    and r: "map ai_status (pc_allow_inventory c) = [''expired'']"
    unfolding sample_allow_view_def by (auto split: sum.splits)
  let ?c = "c\<lparr>pc_sources := dedupe (pc_sources c)\<rparr>"
  from sample_policy_loaded [OF c] have load: "env_policy (sample_env [] 740000) default_options = Inr ?c"
    unfolding sample_env_policy .
  from r obtain e where e: "e \<in> set (pc_allow_inventory ?c)" "ai_status e = allow_expired" by (auto simp: allow_expired_def)
  from expired_allow_blocks [OF load e, of None None False "[]" None] obtain v
    where "validate_policy (sample_env [] 740000) default_options = Inr v" "dget v ''overall_status'' = JStr ''block''" by blast
  with load e(1) show ?thesis by blast
qed

theorem report_counts_partition_witness:
  "\<exists>report. diagnose_repo (sample_env [] 739617) default_options False [] None = Inr report
     \<and> summary_count report ''pass'' + summary_count report ''warn'' + summary_count report ''block''
       = int (length (report_checks report))"
proof -
  from sample_diagnosis obtain report where r: "diagnose_repo (sample_env [] 739617) default_options False [] None = Inr report"
    unfolding returns_iff by blast
  with report_counts_partition [OF r] show ?thesis by blast
qed

theorem exit_code_of_diagnosis_witness:
  "\<exists>report code. diagnose_repo (sample_env [] 739617) default_options False [] None = Inr report
     \<and> determine_exit_code report True ''block'' = Inr code"
proof -
  from sample_diagnosis obtain report where r: "diagnose_repo (sample_env [] 739617) default_options False [] None = Inr report"
    unfolding returns_iff by blast
  with exit_code_of_diagnosis [OF r, of True] show ?thesis by blast
qed

end
