(* ===== verification/Scanner_Result.thy ===== *)
theory Scanner_Result
  imports Evidence_Check Ranking
begin

text \<open>
  \<open>external_scanner/result_validator.py\<close>: the fail-closed validator of an imported external
  scanner result.  Its \<open>_block\<close> and \<open>_warn\<close> append to two lists at once (the errors or the
  warnings, and the fired invariants); a run of the validator is one list of notices from
  which the three lists are read off.  Loops over Python sets run in the order in which the
  set is written down here.
\<close>

section \<open>Notes\<close>

datatype notice = Block string | Warn string

fun note_label :: "notice \<Rightarrow> string" where
  "note_label (Block s) = s" | "note_label (Warn s) = s"

fun blocks_of :: "notice list \<Rightarrow> string list" where
  "blocks_of [] = []"
| "blocks_of (Block s # ns) = s # blocks_of ns"
| "blocks_of (Warn s # ns) = blocks_of ns"

fun warns_of :: "notice list \<Rightarrow> string list" where
  "warns_of [] = []"
| "warns_of (Warn s # ns) = s # warns_of ns"
| "warns_of (Block s # ns) = warns_of ns"

definition note_if :: "bool \<Rightarrow> notice \<Rightarrow> notice list res" where
  "note_if b n = Inr (if b then [n] else [])"

definition note_ifM :: "bool res \<Rightarrow> notice \<Rightarrow> notice list res" where
  "note_ifM b n = res_map (\<lambda>b. if b then [n] else []) b"

lemma set_blocks_of: "s \<in> set (blocks_of ns) \<longleftrightarrow> Block s \<in> set ns"
  by (induction ns rule: blocks_of.induct) auto

lemma set_warns_of: "s \<in> set (warns_of ns) \<longleftrightarrow> Warn s \<in> set ns"
  by (induction ns rule: warns_of.induct) auto

lemma blocks_of_append [simp]: "blocks_of (as @ bs) = blocks_of as @ blocks_of bs"
  by (induction as rule: blocks_of.induct) auto

lemma blocks_of_Nil_iff: "blocks_of ns = [] \<longleftrightarrow> (\<forall>n\<in>set ns. \<exists>s. n = Warn s)"
  by (induction ns rule: blocks_of.induct) auto

text \<open>A statement appends no blocking error.\<close>

definition clean :: "notice list res \<Rightarrow> bool" where
  "clean c \<longleftrightarrow> (\<exists>ns. c = Inr ns \<and> blocks_of ns = [])"

lemma clean_note_if_Block [simp]: "clean (note_if b (Block s)) \<longleftrightarrow> \<not> b"
  by (simp add: clean_def note_if_def)

lemma clean_note_if_Warn [simp]: "clean (note_if b (Warn s))"
  by (simp add: clean_def note_if_def)

lemma clean_note_ifM_Block [simp]: "clean (note_ifM b (Block s)) \<longleftrightarrow> b = Inr False"
  by (cases b) (auto simp: clean_def note_ifM_def)

lemma clean_note_ifM_Warn [simp]: "clean (note_ifM b (Warn s)) \<longleftrightarrow> returns b"
  by (cases b) (auto simp: clean_def note_ifM_def)

lemma clean_Nil [simp]: "clean (Inr [])"
  by (simp add: clean_def)

lemma clean_Block [simp]: "\<not> clean (Inr (Block s # ns))"
  by (simp add: clean_def)

lemma collect_clean_iff:
  "(\<exists>ns. collect cs = Inr ns \<and> blocks_of ns = []) \<longleftrightarrow> (\<forall>c\<in>set cs. clean c)"
  by (induction cs) (fastforce simp: res_bind_Inr_iff res_map_Inr_iff clean_def)+

section \<open>Vocabulary\<close>

definition allowed_outcomes :: "string list" where
  "allowed_outcomes = [''no_findings_in_scope'', ''findings_present'', ''block'', ''unknown'', ''not_applicable'']"

definition scanner_low_trust_levels :: "string list" where
  "scanner_low_trust_levels = [''untrusted_import'', ''schema_validated_import'']"

definition safe_no_finding_gate_effects :: "string list" where
  "safe_no_finding_gate_effects = [''evidence_only'']"

definition gate_effect_order :: "(string \<times> int) list" where
  "gate_effect_order =
     [(''evidence_only'', 0), (''raises_risk'', 1), (''requires_human_review'', 2),
      (''blocks_live_execution'', 3), (''requires_dedicated_vm'', 4), (''quarantine'', 5)]"

interpretation gate_effect_ranks: ranked_labels gate_effect_order "''quarantine''"
  by unfold_locales (auto simp: gate_effect_order_def rank_in_def)

definition result_top_level_fields :: "string list" where
  "result_top_level_fields =
     [''schema_version'', ''report_kind'', ''scanner'', ''input_scope'', ''execution_context'',
      ''trust_level'', ''execution_authorized'', ''findings'', ''evidence_nodes'',
      ''evidence_edges'', ''summary'', ''mapping_result'', ''redaction_status'', ''limitations'',
      ''residual_risks'', ''binding'']"

definition result_scanner_fields :: "string list" where
  "result_scanner_fields =
     [''name'', ''version'', ''adapter_version'', ''category'', ''mode'', ''scanner_source'',
      ''trusted_binary_status'', ''unsupported_version'']"

definition execution_context_fields :: "string list" where
  "execution_context_fields =
     [''network_used'', ''target_code_executed'', ''docker_used'',
      ''scanner_downloaded_dependencies'', ''raw_output_available'', ''raw_output_retained'',
      ''timeout_occurred'', ''scanner_completed'']"

definition result_summary_fields :: "string list" where
  "result_summary_fields =
     [''outcome'', ''unknown_reason'', ''finding_count'', ''highest_risk_tier_effect'', ''gate_effects'']"

definition result_summary_required_fields :: "string list" where
  "result_summary_required_fields =
     [''outcome'', ''finding_count'', ''highest_risk_tier_effect'', ''gate_effects'']"

definition mapping_result_fields :: "string list" where
  "mapping_result_fields = [''risk_tier_effect'', ''gate_effects'', ''rules_fired'', ''risk_lowering_allowed'']"

definition redaction_status_fields :: "string list" where
  "redaction_status_fields =
     [''raw_secret_present'', ''raw_host_path_present'', ''raw_scanner_output_included'',
      ''raw_stdout_stderr_included'', ''unredacted_snippet_present'', ''redaction_validated'']"

definition limitation_fields :: "string list" where
  "limitation_fields = [''limitation_id'', ''description'']"

definition residual_risk_fields :: "string list" where
  "residual_risk_fields = [''risk_id'', ''description'']"

definition scanner_modes :: "string list" where
  "scanner_modes =
     [''imported_report'', ''local_static_no_network'', ''local_static_network'', ''remote_api'',
      ''local_dynamic_sandbox'']"

record scanner_result =
  sr_valid :: bool
  sr_blocking_errors :: "string list"
  sr_warnings :: "string list"
  sr_fired_invariants :: "string list"
  sr_highest_gate_effect :: string
  sr_execution_authorized :: bool
  sr_limitations :: "string list"
  sr_residual_risks :: "string list"

definition scanner_result_to_dict :: "scanner_result \<Rightarrow> dict" where
  "scanner_result_to_dict r =
     [(''valid'', JBool (sr_valid r)),
      (''blocking_errors'', jstrs (sr_blocking_errors r)),
      (''warnings'', jstrs (sr_warnings r)),
      (''fired_invariants'', jstrs (sr_fired_invariants r)),
      (''highest_gate_effect'', JStr (sr_highest_gate_effect r)),
      (''execution_authorized'', JBool (sr_execution_authorized r)),
      (''limitations'', jstrs (sr_limitations r)),
      (''residual_risks'', jstrs (sr_residual_risks r))]"

section \<open>The schema contract\<close>

text \<open>\<open>None\<close> stands for a schema file that cannot be read or parsed.\<close>

definition load_external_scanner_result_schema :: "json option \<Rightarrow> dict res" where
  "load_external_scanner_result_schema file =
     (case file of None \<Rightarrow> Inl OSError | Some (JObj d) \<Rightarrow> Inr d | Some _ \<Rightarrow> Inl ValueError)"

definition schema_notes :: "json option \<Rightarrow> notice list res" where
  "schema_notes file =
     (case load_external_scanner_result_schema file of
        Inl _ \<Rightarrow> Inr [Block ''schema_contract_unavailable'']
      | Inr schema \<Rightarrow>
          note_if (schema \<noteq> [] \<and> \<not> is_false (dget schema ''additionalProperties''))
            (Block ''schema_top_level_must_be_closed''))"

section \<open>Shape\<close>

definition result_mapping :: "json \<Rightarrow> string list \<Rightarrow> string list \<Rightarrow> string \<Rightarrow> notice list res" where
  "result_mapping value expected allow_missing label =
     (case value of
        JObj d \<Rightarrow>
          note_if (\<not> keys_include d (filter (\<lambda>f. f \<notin> set allow_missing) expected) \<or> \<not> keys_within d expected)
            (Block (label @ ''_required_or_unknown_field''))
      | _ \<Rightarrow> Inr [Block (label @ ''_must_be_object'')])"

definition result_top_notes :: "dict \<Rightarrow> notice list res list" where
  "result_top_notes data =
     [note_if (\<not> keys_eq data result_top_level_fields) (Block ''schema_top_level_required_or_unknown_field''),
      note_if (dget data ''schema_version'' \<noteq> JStr ''0.1-draft'') (Block ''schema_version_unsupported''),
      note_if (dget data ''report_kind'' \<noteq> JStr ''external_scanner_result'') (Block ''report_kind_unsupported''),
      note_if (\<not> is_false (dget data ''execution_authorized'')) (Block ''execution_authorized_must_be_false'')]"

definition result_scanner_notes :: "dict \<Rightarrow> notice list res list" where
  "result_scanner_notes scanner =
     [note_if (\<not> is_bool (dget scanner ''unsupported_version''))
        (Block ''scanner_unsupported_version_must_be_boolean''),
      note_ifM (notin_strs (dget scanner ''mode'') scanner_modes) (Block ''scanner_mode_invalid'')]"

definition bool_fields_notes :: "dict \<Rightarrow> string list \<Rightarrow> string \<Rightarrow> notice list res list" where
  "bool_fields_notes d fs label =
     map (\<lambda>f. note_if (\<not> is_bool (dget d f)) (Block (label @ ''_'' @ f @ ''_must_be_boolean''))) fs"

definition result_summary_notes :: "dict \<Rightarrow> notice list res list" where
  "result_summary_notes summary =
     (let outcome = dget summary ''outcome'' in
      [note_if (\<not> keys_include summary result_summary_required_fields) (Block ''summary_required_field_missing''),
       (if outcome = JStr ''pass'' then Inr [Block ''outcome_pass_is_forbidden'']
        else note_ifM (notin_strs outcome allowed_outcomes) (Block ''outcome_invalid'')),
       note_if (outcome = JStr ''unknown'' \<and> \<not> has_key summary ''unknown_reason'') (Block ''unknown_reason_missing''),
       note_if (\<not> is_list (dget summary ''gate_effects'')) (Block ''summary_gate_effects_invalid'')])"

definition result_mapping_result_notes :: "dict \<Rightarrow> notice list res list" where
  "result_mapping_result_notes m =
     [note_if (\<not> is_false (dget m ''risk_lowering_allowed'')) (Block ''risk_lowering_allowed_must_be_false''),
      note_if (\<not> is_list (dget m ''gate_effects'')) (Block ''mapping_result_gate_effects_invalid''),
      note_if (\<not> is_list (dget m ''rules_fired'')) (Block ''mapping_result_rules_fired_invalid'')]"

definition result_array_notes :: "dict \<Rightarrow> notice list res list" where
  "result_array_notes data =
     map (\<lambda>f. note_if (\<not> is_list (dget data f)) (Block (f @ ''_must_be_array'')))
       [''findings'', ''evidence_nodes'', ''evidence_edges'', ''limitations'', ''residual_risks'']"

definition result_shape_notes :: "dict \<Rightarrow> notice list res list" where
  "result_shape_notes data =
     result_top_notes data
     @ result_mapping (dget data ''scanner'') result_scanner_fields [] ''scanner''
     # when_some (opt_mapping (dget data ''scanner'')) result_scanner_notes
     @ result_mapping (dget data ''execution_context'') execution_context_fields [] ''execution_context''
     # when_some (opt_mapping (dget data ''execution_context''))
         (\<lambda>d. bool_fields_notes d execution_context_fields ''execution_context'')
     @ result_mapping (dget data ''summary'') result_summary_fields [''unknown_reason''] ''summary''
     # when_some (opt_mapping (dget data ''summary'')) result_summary_notes
     @ result_mapping (dget data ''mapping_result'') mapping_result_fields [] ''mapping_result''
     # when_some (opt_mapping (dget data ''mapping_result'')) result_mapping_result_notes
     @ result_mapping (dget data ''redaction_status'') redaction_status_fields [] ''redaction_status''
     # when_some (opt_mapping (dget data ''redaction_status''))
         (\<lambda>d. bool_fields_notes d redaction_status_fields ''redaction_status'')
     @ result_array_notes data"

section \<open>Semantics and redaction\<close>

definition failure_finding :: "json \<Rightarrow> bool" where
  "failure_finding item =
     (case item of JObj f \<Rightarrow> dget f ''primary_category'' = JStr ''scanner_failure'' | _ \<Rightarrow> False)"

definition safe_no_finding_mapping :: "dict \<Rightarrow> dict \<Rightarrow> bool" where
  "safe_no_finding_mapping mapping_result summary \<longleftrightarrow>
     is_false (dget mapping_result ''risk_lowering_allowed'')
     \<and> dget mapping_result ''risk_tier_effect'' = JStr ''none''
     \<and> dget summary ''highest_risk_tier_effect'' = JStr ''none''
     \<and> set (string_items (dget mapping_result ''gate_effects'')) \<subseteq> set safe_no_finding_gate_effects
     \<and> set (string_items (dget summary ''gate_effects'')) \<subseteq> set safe_no_finding_gate_effects"

definition result_semantics_notes :: "dict \<Rightarrow> notice list res list" where
  "result_semantics_notes data =
     (let scanner = sect data ''scanner''; execution = sect data ''execution_context'';
          summary = sect data ''summary''; mapping_result = sect data ''mapping_result'';
          findings = (case dget data ''findings'' of JList xs \<Rightarrow> xs | _ \<Rightarrow> []);
          outcome = dget summary ''outcome''; none_found = outcome = JStr ''no_findings_in_scope'';
          no_network = dget scanner ''mode'' = JStr ''local_static_no_network'' in
      [note_if none_found (Warn ''no_findings_in_scope_is_not_safety_proof''),
       note_if (is_false (dget execution ''scanner_completed'') \<and> none_found)
         (Block ''scanner_incomplete_claims_no_findings''),
       note_if (list_ex failure_finding findings \<and> none_found) (Block ''scanner_failure_claims_no_findings''),
       note_if (no_network \<and> is_true (dget execution ''network_used''))
         (Block ''local_static_no_network_used_network''),
       note_if (no_network \<and> is_true (dget execution ''target_code_executed''))
         (Block ''local_static_no_network_executed_target_code''),
       note_if (dget scanner ''mode'' = JStr ''imported_report'' \<and> is_true (dget execution ''raw_output_retained''))
         (Block ''imported_report_raw_output_retained''),
       note_if (is_true (dget scanner ''unsupported_version'') \<and> none_found)
         (Block ''unsupported_version_claims_no_findings''),
       note_if (outcome = JStr ''unknown'' \<and> \<not> has_key summary ''unknown_reason'') (Block ''unknown_reason_missing''),
       note_if (dget data ''limitations'' = JList []) (Block ''limitations_empty''),
       note_if (is_true (dget data ''execution_authorized'')) (Block ''external_result_cannot_authorize_execution''),
       res_map (\<lambda>low_trust.
           if low_trust \<and> none_found
           then Warn ''low_trust_no_finding_import_cannot_lower_risk''
                # (if safe_no_finding_mapping mapping_result summary then []
                   else [Block ''low_trust_no_finding_attempts_to_lower_or_clear_risk''])
           else [])
         (in_strs (dget data ''trust_level'') scanner_low_trust_levels)])"

definition redaction_blockers :: "string list" where
  "redaction_blockers =
     [''raw_secret_present'', ''raw_host_path_present'', ''raw_scanner_output_included'',
      ''raw_stdout_stderr_included'', ''unredacted_snippet_present'']"

definition result_redaction_notes :: "dict \<Rightarrow> notice list res list" where
  "result_redaction_notes data =
     (let redaction = sect data ''redaction_status'' in
      map (\<lambda>f. note_if (is_true (dget redaction f)) (Block f)) redaction_blockers
      @ [note_if (redaction \<noteq> [] \<and> \<not> is_true (dget redaction ''redaction_validated''))
           (Block ''redaction_not_validated''),
         note_if (\<exists>s\<in>set (json_strings (JObj data)). raw_host_path s) (Block ''raw_host_path_pattern_present'')])"

section \<open>The result\<close>

definition id_items :: "string list \<Rightarrow> string \<Rightarrow> json \<Rightarrow> string list" where
  "id_items fs key value =
     List.map_filter
       (\<lambda>d. if keys_eq d fs then opt_str (dget d key) else None)
       (list_of_mappings value)"

definition limitation_ids :: "json \<Rightarrow> string list" where
  "limitation_ids = id_items limitation_fields ''limitation_id''"

definition residual_risk_ids :: "json \<Rightarrow> string list" where
  "residual_risk_ids = id_items residual_risk_fields ''risk_id''"

definition highest_gate_effect :: "dict \<Rightarrow> bool \<Rightarrow> string" where
  "highest_gate_effect data has_blocking_errors =
     (if has_blocking_errors then ''quarantine''
      else
        (let effects = string_items (dget (sect data ''summary'') ''gate_effects'')
                       @ string_items (dget (sect data ''mapping_result'') ''gate_effects'')
         in case effects of [] \<Rightarrow> ''evidence_only'' | e # es \<Rightarrow> max_by (rank_in gate_effect_order) e es))"

definition result_notes :: "json option \<Rightarrow> dict \<Rightarrow> notice list res list" where
  "result_notes file data =
     schema_notes file # result_shape_notes data @ result_semantics_notes data @ result_redaction_notes data"

definition validate_external_scanner_result :: "json option \<Rightarrow> json \<Rightarrow> scanner_result res" where
  "validate_external_scanner_result file value =
     (case value of
        JObj data \<Rightarrow>
          res_map (\<lambda>notes.
             \<lparr>sr_valid = (blocks_of notes = []),
              sr_blocking_errors = dedupe (blocks_of notes),
              sr_warnings = dedupe (warns_of notes),
              sr_fired_invariants = dedupe (map note_label notes),
              sr_highest_gate_effect = highest_gate_effect data (blocks_of notes \<noteq> []),
              sr_execution_authorized = is_true (dget data ''execution_authorized''),
              sr_limitations = limitation_ids (dget data ''limitations''),
              sr_residual_risks = residual_risk_ids (dget data ''residual_risks'')\<rparr>)
            (collect (result_notes file data))
      | _ \<Rightarrow>
          Inr \<lparr>sr_valid = False,
               sr_blocking_errors = [''schema_input_must_be_object''],
               sr_warnings = [],
               sr_fired_invariants = [''schema_input_must_be_object''],
               sr_highest_gate_effect = ''quarantine'',
               sr_execution_authorized = False,
               sr_limitations = [],
               sr_residual_risks = [''unknown_or_unsupported_external_scanner_result'']\<rparr>)"

section \<open>What a valid scanner result guarantees\<close>

definition scanner_contract :: "dict \<Rightarrow> bool" where
  "scanner_contract data \<longleftrightarrow>
     (let scanner = sect data ''scanner''; execution = sect data ''execution_context'';
          summary = sect data ''summary''; mapping = sect data ''mapping_result'';
          redaction = sect data ''redaction_status'';
          none_found = dget summary ''outcome'' = JStr ''no_findings_in_scope'' in
      dget data ''execution_authorized'' = JBool False
      \<and> dget mapping ''risk_lowering_allowed'' = JBool False
      \<and> (\<exists>w\<in>set allowed_outcomes. dget summary ''outcome'' = JStr w)
      \<and> (\<forall>f\<in>set redaction_blockers. dget redaction f = JBool False)
      \<and> dget redaction ''redaction_validated'' = JBool True
      \<and> \<not> (\<exists>s\<in>set (json_strings (JObj data)). raw_host_path s)
      \<and> (none_found \<longrightarrow> dget execution ''scanner_completed'' = JBool True
           \<and> dget scanner ''unsupported_version'' = JBool False)
      \<and> (none_found \<and> (\<exists>l\<in>set scanner_low_trust_levels. dget data ''trust_level'' = JStr l) \<longrightarrow>
           dget mapping ''risk_tier_effect'' = JStr ''none''
           \<and> set (string_items (dget summary ''gate_effects'')) \<subseteq> {''evidence_only''}))"

lemma valid_scanner_checks:
  assumes "validate_external_scanner_result file v = Inr r" and "sr_valid r"
  obtains data where "v = JObj data" and "\<forall>c\<in>set (result_notes file data). clean c"
    and "sr_execution_authorized r = is_true (dget data ''execution_authorized'')"
    and "sr_highest_gate_effect r = highest_gate_effect data False"
proof (cases v)
  case (JObj data)
  with assms obtain ns where "collect (result_notes file data) = Inr ns" "blocks_of ns = []"
    and "sr_execution_authorized r = is_true (dget data ''execution_authorized'')"
    and "sr_highest_gate_effect r = highest_gate_effect data False"
    by (auto simp: validate_external_scanner_result_def res_map_Inr_iff)
  with JObj that collect_clean_iff show thesis by blast
qed (use assms in \<open>auto simp: validate_external_scanner_result_def\<close>)

lemma clean_result_mapping:
  "clean (result_mapping v fs am label) \<Longrightarrow> \<exists>d. v = JObj d"
  by (cases v) (auto simp: result_mapping_def)

lemma clean_bool_fields:
  "\<forall>c\<in>set (bool_fields_notes d fs label). clean c \<Longrightarrow> f \<in> set fs \<Longrightarrow> \<exists>b. dget d f = JBool b"
  by (auto simp: bool_fields_notes_def is_bool_iff)

lemma clean_res_map: "clean (res_map f m) \<longleftrightarrow> (\<exists>x. m = Inr x \<and> blocks_of (f x) = [])"
  by (cases m) (auto simp: clean_def)

text \<open>The sections of a result whose shape raised no blocking error.\<close>

lemma clean_shape:
  assumes "\<forall>c\<in>set (result_shape_notes data). clean c"
  obtains ex su mr re where
    "dget data ''execution_context'' = JObj ex" "dget data ''summary'' = JObj su"
    "dget data ''mapping_result'' = JObj mr" "dget data ''redaction_status'' = JObj re"
    "\<forall>c\<in>set (result_top_notes data). clean c"
    "\<forall>c\<in>set (bool_fields_notes ex execution_context_fields ''execution_context''). clean c"
    "\<forall>c\<in>set (result_summary_notes su). clean c"
    "\<forall>c\<in>set (result_mapping_result_notes mr). clean c"
    "\<forall>c\<in>set (bool_fields_notes re redaction_status_fields ''redaction_status''). clean c"
    "\<forall>sc. dget data ''scanner'' = JObj sc \<longrightarrow> (\<forall>c\<in>set (result_scanner_notes sc). clean c)"
    "\<exists>sc. dget data ''scanner'' = JObj sc"
proof -
  from assms have cl: "\<forall>c\<in>set (result_top_notes data). clean c"
    "clean (result_mapping (dget data ''scanner'') result_scanner_fields [] ''scanner'')"
    "clean (result_mapping (dget data ''execution_context'') execution_context_fields [] ''execution_context'')"
    "clean (result_mapping (dget data ''summary'') result_summary_fields [''unknown_reason''] ''summary'')"
    "clean (result_mapping (dget data ''mapping_result'') mapping_result_fields [] ''mapping_result'')"
    "clean (result_mapping (dget data ''redaction_status'') redaction_status_fields [] ''redaction_status'')"
    unfolding result_shape_notes_def all_append_checks list.set ball_simps by blast+
  from cl(2-) [THEN clean_result_mapping] obtain sc ex su mr re where secs:
    "dget data ''scanner'' = JObj sc" "dget data ''execution_context'' = JObj ex"
    "dget data ''summary'' = JObj su" "dget data ''mapping_result'' = JObj mr"
    "dget data ''redaction_status'' = JObj re" by blast
  from assms have
    "\<forall>c\<in>set (bool_fields_notes ex execution_context_fields ''execution_context''). clean c"
    "\<forall>c\<in>set (result_summary_notes su). clean c"
    "\<forall>c\<in>set (result_mapping_result_notes mr). clean c"
    "\<forall>c\<in>set (bool_fields_notes re redaction_status_fields ''redaction_status''). clean c"
    "\<forall>c\<in>set (result_scanner_notes sc). clean c"
    unfolding result_shape_notes_def all_append_checks list.set ball_simps secs opt_mapping.simps when_some_simps
    by blast+
  with secs cl(1) that show thesis by simp
qed

lemma clean_semantics:
  assumes "\<forall>c\<in>set (result_semantics_notes data). clean c"
    and "dget (sect data ''summary'') ''outcome'' = JStr ''no_findings_in_scope''"
  shows "dget (sect data ''execution_context'') ''scanner_completed'' \<noteq> JBool False"
    and "dget (sect data ''scanner'') ''unsupported_version'' \<noteq> JBool True"
    and "\<exists>l\<in>set scanner_low_trust_levels. dget data ''trust_level'' = JStr l \<Longrightarrow>
      safe_no_finding_mapping (sect data ''mapping_result'') (sect data ''summary'')"
proof -
  from assms(1) show "dget (sect data ''execution_context'') ''scanner_completed'' \<noteq> JBool False"
    by (simp add: result_semantics_notes_def Let_def assms(2) is_false_def)
  from assms(1) show "dget (sect data ''scanner'') ''unsupported_version'' \<noteq> JBool True"
    by (simp add: result_semantics_notes_def Let_def assms(2) is_true_def)
  from assms(1) obtain low where low: "in_strs (dget data ''trust_level'') scanner_low_trust_levels = Inr low"
    and cl: "blocks_of (if low then Warn ''low_trust_no_finding_import_cannot_lower_risk''
                # (if safe_no_finding_mapping (sect data ''mapping_result'') (sect data ''summary'') then []
                   else [Block ''low_trust_no_finding_attempts_to_lower_or_clear_risk'']) else []) = []"
    by (simp add: result_semantics_notes_def Let_def assms(2) clean_res_map) blast
  assume "\<exists>l\<in>set scanner_low_trust_levels. dget data ''trust_level'' = JStr l"
  with low have low by (metis Inr_inject in_strs_True)
  with cl show "safe_no_finding_mapping (sect data ''mapping_result'') (sect data ''summary'')"
    by (simp split: if_splits)
qed

lemma clean_redaction:
  assumes "\<forall>c\<in>set (result_redaction_notes data). clean c"
    and "dget data ''redaction_status'' = JObj re" and "re \<noteq> []"
  shows "\<forall>f\<in>set redaction_blockers. dget re f \<noteq> JBool True"
    and "dget re ''redaction_validated'' = JBool True"
    and "\<not> (\<exists>s\<in>set (json_strings (JObj data)). raw_host_path s)"
  using assms unfolding result_redaction_notes_def Let_def all_append_checks sect_def
  by (simp_all add: is_true_def del: json_strings.simps)

lemma clean_result_contract:
  assumes "\<forall>c\<in>set (result_notes file data). clean c"
  shows "scanner_contract data"
proof -
  from assms have shape: "\<forall>c\<in>set (result_shape_notes data). clean c"
    and sem: "\<forall>c\<in>set (result_semantics_notes data). clean c"
    and red: "\<forall>c\<in>set (result_redaction_notes data). clean c"
    unfolding result_notes_def list.set ball_simps all_append_checks by blast+
  from shape obtain ex su mr re where secs:
    "dget data ''execution_context'' = JObj ex" "dget data ''summary'' = JObj su"
    "dget data ''mapping_result'' = JObj mr" "dget data ''redaction_status'' = JObj re"
    and top: "\<forall>c\<in>set (result_top_notes data). clean c"
    and exb: "\<forall>c\<in>set (bool_fields_notes ex execution_context_fields ''execution_context''). clean c"
    and sun: "\<forall>c\<in>set (result_summary_notes su). clean c"
    and mrn: "\<forall>c\<in>set (result_mapping_result_notes mr). clean c"
    and reb: "\<forall>c\<in>set (bool_fields_notes re redaction_status_fields ''redaction_status''). clean c"
    and scn: "\<forall>sc. dget data ''scanner'' = JObj sc \<longrightarrow> (\<forall>c\<in>set (result_scanner_notes sc). clean c)"
    and sc: "\<exists>sc. dget data ''scanner'' = JObj sc"
    by (rule clean_shape)
  from sc obtain sc where sc: "dget data ''scanner'' = JObj sc" by blast
  from clean_bool_fields [OF reb] have rb: "\<exists>b. dget re f = JBool b" if "f \<in> set redaction_status_fields" for f
    using that by blast
  then have "\<exists>b. dget re ''redaction_validated'' = JBool b" by (simp add: redaction_status_fields_def)
  then have "re \<noteq> []" by auto
  note red' = clean_redaction [OF red secs(4) this]
  have blk: "\<forall>f\<in>set redaction_blockers. dget re f = JBool False"
  proof
    fix f assume f: "f \<in> set redaction_blockers"
    have "set redaction_blockers \<subseteq> set redaction_status_fields"
      by (simp add: redaction_blockers_def redaction_status_fields_def)
    with f have "f \<in> set redaction_status_fields" by blast
    with rb red'(1) f show "dget re f = JBool False" by (metis (full_types))
  qed
  have finished: "\<exists>b. dget ex ''scanner_completed'' = JBool b"
    by (rule clean_bool_fields [OF exb]) (simp add: execution_context_fields_def)
  have uns: "\<exists>b. dget sc ''unsupported_version'' = JBool b"
    using scn sc by (simp add: result_scanner_notes_def is_bool_iff)
  have out: "\<exists>w\<in>set allowed_outcomes. dget su ''outcome'' = JStr w"
    using sun by (simp add: result_summary_notes_def Let_def split: if_splits)
  have mrl: "dget mr ''risk_lowering_allowed'' = JBool False" and ea: "dget data ''execution_authorized'' = JBool False"
    using mrn top by (simp_all add: result_mapping_result_notes_def result_top_notes_def is_false_def)
  show ?thesis
    unfolding scanner_contract_def Let_def sect_def secs sc mapping_or_empty.simps
    using mrl ea out blk red'(2,3) finished uns clean_semantics [OF sem, unfolded sect_def secs sc mapping_or_empty.simps]
    unfolding safe_no_finding_mapping_def safe_no_finding_gate_effects_def
    by (intro conjI impI) (simp_all, metis+)
qed

section \<open>Properties\<close>

definition sample_scanner_result :: dict where
  "sample_scanner_result =
     [(''schema_version'', JStr ''0.1-draft''), (''report_kind'', JStr ''external_scanner_result''),
      (''scanner'', JObj [(''name'', JStr ''s''), (''version'', JStr ''1''), (''adapter_version'', JStr ''1''),
        (''category'', JStr ''secret''), (''mode'', JStr ''imported_report''), (''scanner_source'', JStr ''x''),
        (''trusted_binary_status'', JStr ''unknown''), (''unsupported_version'', JBool False)]),
      (''input_scope'', JStr ''repo''),
      (''execution_context'', JObj (map (\<lambda>f. (f, JBool (f = ''scanner_completed''))) execution_context_fields)),
      (''trust_level'', JStr ''untrusted_import''), (''execution_authorized'', JBool False),
      (''findings'', JList []), (''evidence_nodes'', JList []), (''evidence_edges'', JList []),
      (''summary'', JObj [(''outcome'', JStr ''no_findings_in_scope''), (''finding_count'', JInt 0),
        (''highest_risk_tier_effect'', JStr ''none''), (''gate_effects'', jstrs [''evidence_only''])]),
      (''mapping_result'', JObj [(''risk_tier_effect'', JStr ''none''), (''gate_effects'', jstrs [''evidence_only'']),
        (''rules_fired'', JList []), (''risk_lowering_allowed'', JBool False)]),
      (''redaction_status'', JObj (map (\<lambda>f. (f, JBool (f = ''redaction_validated''))) redaction_status_fields)),
      (''limitations'', JList [JObj [(''limitation_id'', JStr ''l1''), (''description'', JStr ''d'')]]),
      (''residual_risks'', JList []), (''binding'', JNull)]"

lemma sample_scanner_result_valid:
  "validate_external_scanner_result (Some (JObj [(''additionalProperties'', JBool False)])) (JObj sample_scanner_result) =
     Inr \<lparr>sr_valid = True, sr_blocking_errors = [],
          sr_warnings = [''no_findings_in_scope_is_not_safety_proof'', ''low_trust_no_finding_import_cannot_lower_risk''],
          sr_fired_invariants = [''no_findings_in_scope_is_not_safety_proof'', ''low_trust_no_finding_import_cannot_lower_risk''],
          sr_highest_gate_effect = ''evidence_only'', sr_execution_authorized = False,
          sr_limitations = [''l1''], sr_residual_risks = []\<rparr>"
  by code_simp

text \<open>an external scanner result that the validator accepts never authorizes execution,
  cannot lower risk, carries no raw secret, host path, scanner output or snippet, and, when it
  claims to have found nothing, comes from a scanner that completed at a supported version;
  on a low-trust import such a claim keeps the tier effect \<open>none\<close> and gate effects within
  \<open>evidence_only\<close>.  The result record says so too: \<open>execution_authorized\<close> is false.\<close>

theorem valid_scanner_result_contract:
  assumes "validate_external_scanner_result file v = Inr r" and "sr_valid r"
  shows "\<exists>data. v = JObj data \<and> scanner_contract data \<and> \<not> sr_execution_authorized r"
proof -
  from assms obtain data where v: "v = JObj data"
    and cl: "\<forall>c\<in>set (result_notes file data). clean c"
    and ea: "sr_execution_authorized r = is_true (dget data ''execution_authorized'')"
    by (rule valid_scanner_checks)
  from clean_result_contract [OF cl] have "scanner_contract data" .
  moreover from this have "\<not> is_true (dget data ''execution_authorized'')"
    by (simp add: scanner_contract_def Let_def is_true_def)
  ultimately show ?thesis using v ea by blast
qed

theorem valid_scanner_result_contract_witness:
  "scanner_contract sample_scanner_result"
  using valid_scanner_result_contract [OF sample_scanner_result_valid] by simp

text \<open>a scanner result with any blocking error, and any value that is not an object, is
  reported at the highest gate effect: no other effect in the order exceeds it.\<close>

theorem invalid_scanner_result_quarantines:
  assumes "validate_external_scanner_result file v = Inr r" and "\<not> sr_valid r"
  shows "sr_highest_gate_effect r = ''quarantine''
    \<and> (\<forall>e. rank_in gate_effect_order e \<le> rank_in gate_effect_order (sr_highest_gate_effect r))"
proof -
  from assms have "sr_highest_gate_effect r = ''quarantine''"
    by (cases v) (auto simp: validate_external_scanner_result_def res_map_Inr_iff highest_gate_effect_def)
  moreover have "rank_in gate_effect_order e \<le> rank_in gate_effect_order ''quarantine''" for e
    by (rule gate_effect_ranks.rank_le_top)
  ultimately show ?thesis by simp
qed

theorem invalid_scanner_result_quarantines_witness:
  "\<exists>r. validate_external_scanner_result None (JObj sample_scanner_result) = Inr r
     \<and> sr_highest_gate_effect r = ''quarantine''"
proof -
  have "returns (validate_external_scanner_result None (JObj sample_scanner_result))
    \<and> (case validate_external_scanner_result None (JObj sample_scanner_result) of
         Inl _ \<Rightarrow> True | Inr r \<Rightarrow> \<not> sr_valid r)"
    by code_simp
  then obtain r where "validate_external_scanner_result None (JObj sample_scanner_result) = Inr r" "\<not> sr_valid r"
    by (auto simp: returns_iff)
  with invalid_scanner_result_quarantines show ?thesis by blast
qed

end
