(* ===== verification/Risk_Mapper.thy ===== *)
theory Risk_Mapper
  imports Scanner_Result
begin

text \<open>
  \<open>external_scanner/risk_policy.py\<close> and \<open>external_scanner/risk_mapper.py\<close>: the facts that an
  external scanner result carries, the twenty risk rules that fire on them, and the merge of
  the fired rules into one risk tier and a set of gate effects.  The policy file is an
  argument (\<open>None\<close>: it cannot be read).  The inner function \<open>fire\<close> changes four local lists
  and one local dictionary; they are the record \<open>risk_state\<close>.  Python sets of strings are lists
  without repetition, iterated in the order of first occurrence.
\<close>

section \<open>The policy\<close>

definition RISK_RULE_IDS :: "string list" where
  "RISK_RULE_IDS =
     [''RISK001'', ''RISK002'', ''RISK003'', ''RISK004'', ''RISK005'', ''RISK006'', ''RISK007'',
      ''RISK008'', ''RISK009'', ''RISK010'', ''RISK011'', ''RISK012'', ''RISK013'', ''RISK014'',
      ''RISK015'', ''RISK016'', ''RISK017'', ''RISK018'', ''RISK019'', ''RISK020'']"

definition load_external_scanner_risk_policy :: "json option \<Rightarrow> dict res" where
  "load_external_scanner_risk_policy file =
     (case file of None \<Rightarrow> Inl OSError | Some (JObj d) \<Rightarrow> Inr d | Some _ \<Rightarrow> Inl ValueError)"

definition risk_rules_by_id :: "dict \<Rightarrow> dict" where
  "risk_rules_by_id policy =
     fold (\<lambda>item indexed. case opt_str (dget item ''rule_id'') of
             None \<Rightarrow> indexed | Some k \<Rightarrow> dset indexed k (JObj item))
       (list_of_mappings (dget policy ''risk_rules'')) []"

section \<open>Vocabulary\<close>

definition risk_tier_order :: "(string \<times> int) list" where
  "risk_tier_order =
     [(''none'', 0), (''raise_to_T2'', 1), (''raise_to_T3'', 2), (''raise_to_T4'', 3),
      (''T5_candidate'', 4), (''raise_to_T5'', 5)]"

interpretation risk_tiers: ranked_labels risk_tier_order "''raise_to_T5''"
  by unfold_locales (auto simp: risk_tier_order_def rank_in_def)

definition known_primary_categories :: "string list" where
  "known_primary_categories =
     [''secret'', ''credential_access'', ''vulnerability'', ''malicious_behavior'', ''ci_cd_risk'',
      ''repo_posture'', ''dependency_risk'', ''sandbox_escape_risk'', ''scanner_failure'',
      ''redaction_failure'', ''unknown'']"

definition known_secondary_categories :: "string list" where
  "known_secondary_categories =
     [''verified_secret'', ''secret_like_value'', ''credential_path_reference'', ''host_home_reference'',
      ''known_critical_vulnerability'', ''install_script_execution'', ''download_exec_chain'',
      ''obfuscation'', ''dynamic_eval'', ''network_request'', ''network_exfiltration_indicator'',
      ''docker_socket_reference'', ''pull_request_target_misuse'', ''broad_token_permission'',
      ''unpinned_action'', ''dependency_confusion_signal'', ''low_security_posture'',
      ''unsupported_scanner_version'', ''scanner_timeout'', ''raw_secret_leak'', ''raw_host_path_leak'',
      ''unknown'']"

definition supported_chain_relations :: "string list" where
  "supported_chain_relations =
     [''same_execution_path'', ''credential_to_network'', ''ci_token_to_untrusted_code'',
      ''docker_to_host_access'', ''lifecycle_to_runtime'']"

definition allowed_risk_tier_effects :: "string list" where
  "allowed_risk_tier_effects = map fst risk_tier_order"

definition allowed_gate_effects :: "string list" where
  "allowed_gate_effects = map fst gate_effect_order"

definition suspicious_runtime_secondaries :: "string list" where
  "suspicious_runtime_secondaries =
     [''download_exec_chain'', ''dynamic_eval'', ''network_request'',
      ''network_exfiltration_indicator'', ''docker_socket_reference'']"

record fired_rule =
  fr_rule_id :: string
  fr_description :: string
  fr_risk_tier_effect :: string
  fr_gate_effects :: "string list"
  fr_evidence :: "string list"
  fr_requires_human_review :: bool
  fr_blocks_live_execution :: bool
  fr_cannot_lower_risk :: bool
  fr_limitations :: "string list"

definition fired_rule_to_dict :: "fired_rule \<Rightarrow> dict" where
  "fired_rule_to_dict r =
     [(''rule_id'', JStr (fr_rule_id r)),
      (''description'', JStr (fr_description r)),
      (''risk_tier_effect'', JStr (fr_risk_tier_effect r)),
      (''gate_effects'', jstrs (fr_gate_effects r)),
      (''evidence'', jstrs (fr_evidence r)),
      (''requires_human_review'', JBool (fr_requires_human_review r)),
      (''blocks_live_execution'', JBool (fr_blocks_live_execution r)),
      (''cannot_lower_risk'', JBool (fr_cannot_lower_risk r)),
      (''limitations'', jstrs (fr_limitations r))]"

record risk_result =
  rr_highest_risk_tier_effect :: string
  rr_gate_effects :: "string list"
  rr_fired_rules :: "fired_rule list"
  rr_blocking_rules :: "string list"
  rr_warnings :: "string list"
  rr_cannot_lower_risk :: bool
  rr_requires_human_review :: bool
  rr_blocks_live_execution :: bool
  rr_requires_dedicated_vm :: bool
  rr_quarantine :: bool
  rr_limitations :: "string list"
  rr_residual_risks :: "string list"
  rr_evidence_summary :: dict

definition risk_result_to_dict :: "risk_result \<Rightarrow> dict" where
  "risk_result_to_dict r =
     [(''highest_risk_tier_effect'', JStr (rr_highest_risk_tier_effect r)),
      (''gate_effects'', jstrs (rr_gate_effects r)),
      (''fired_rules'', JList (map (\<lambda>x. JObj (fired_rule_to_dict x)) (rr_fired_rules r))),
      (''blocking_rules'', jstrs (rr_blocking_rules r)),
      (''warnings'', jstrs (rr_warnings r)),
      (''cannot_lower_risk'', JBool (rr_cannot_lower_risk r)),
      (''requires_human_review'', JBool (rr_requires_human_review r)),
      (''blocks_live_execution'', JBool (rr_blocks_live_execution r)),
      (''requires_dedicated_vm'', JBool (rr_requires_dedicated_vm r)),
      (''quarantine'', JBool (rr_quarantine r)),
      (''limitations'', jstrs (rr_limitations r)),
      (''residual_risks'', jstrs (rr_residual_risks r)),
      (''evidence_summary'', JObj (rr_evidence_summary r))]"

section \<open>Facts\<close>

record risk_facts =
  fa_primary :: "string list"
  fa_secondary :: "string list"
  fa_tokens :: "string list"
  fa_relations :: "string list"

definition evidence_items :: "dict \<Rightarrow> dict list" where
  "evidence_items data =
     list_of_mappings (dget data ''findings'') @ list_of_mappings (dget data ''evidence_nodes'')"

definition item_tokens :: "dict \<Rightarrow> string list" where
  "item_tokens item =
     concat (map (\<lambda>f. case dget item f of JList xs \<Rightarrow> list_strings xs | JStr s \<Rightarrow> [s] | _ \<Rightarrow> [])
       [''evidence'', ''title'', ''redacted_description'', ''redacted_summary''])"

definition str_field :: "string \<Rightarrow> dict \<Rightarrow> string option" where
  "str_field k d = opt_str (dget d k)"

definition collect_facts :: "dict \<Rightarrow> risk_facts" where
  "collect_facts data =
     \<lparr>fa_primary = dedupe (List.map_filter (str_field ''primary_category'') (evidence_items data)),
      fa_secondary = dedupe (List.map_filter (str_field ''secondary_category'') (evidence_items data)),
      fa_tokens = dedupe (concat (map item_tokens (evidence_items data))),
      fa_relations = dedupe (List.map_filter (str_field ''relation'') (list_of_mappings (dget data ''evidence_edges'')))\<rparr>"

section \<open>The mutable state of a mapping\<close>

record risk_state =
  st_fired :: "fired_rule list"
  st_blocking :: "string list"
  st_warnings :: "string list"
  st_gates :: "string list"
  st_risks :: "string list"

text \<open>The append pattern of the module: a warning, a blocking rule, gate effects and risk
  effects, each at the end of its list.\<close>

definition note_risk :: "string list \<Rightarrow> string list \<Rightarrow> string list \<Rightarrow> string list \<Rightarrow> risk_state \<Rightarrow> risk_state" where
  "note_risk ws bs gs rs st =
     st\<lparr>st_warnings := st_warnings st @ ws, st_blocking := st_blocking st @ bs,
        st_gates := st_gates st @ gs, st_risks := st_risks st @ rs\<rparr>"

section \<open>Interpretability\<close>

definition check_categories :: "risk_facts \<Rightarrow> risk_state \<Rightarrow> risk_state" where
  "check_categories facts st =
     (if ''unknown'' \<in> set (fa_primary facts) \<or> ''unknown'' \<in> set (fa_secondary facts)
         \<or> \<not> set (fa_primary facts) \<subseteq> set known_primary_categories
         \<or> \<not> set (fa_secondary facts) \<subseteq> set known_secondary_categories
      then note_risk [''unknown_safety_relevant_category''] [''unknown_safety_relevant_category'']
             [''requires_human_review''] [''T5_candidate''] st
      else st)"

definition check_relation :: "string \<Rightarrow> risk_state \<Rightarrow> risk_state" where
  "check_relation relation st =
     (if relation \<in> set supported_chain_relations then st
      else note_risk [''unsupported_evidence_relation:'' @ relation] [] [''requires_human_review''] [] st)"

definition quarantine_note :: "string \<Rightarrow> risk_state \<Rightarrow> risk_state" where
  "quarantine_note label = note_risk [label] [label] [''quarantine''] [''T5_candidate'']"

definition check_finding_gate :: "dict \<Rightarrow> risk_state \<Rightarrow> risk_state" where
  "check_finding_gate finding st =
     (case dget finding ''gate_effect'' of
        JStr g \<Rightarrow> if g \<in> set allowed_gate_effects then st else quarantine_note ''unknown_gate_effect'' st
      | _ \<Rightarrow> st)"

definition check_finding_mapping :: "dict \<Rightarrow> risk_state \<Rightarrow> risk_state" where
  "check_finding_mapping finding st =
     (case dget finding ''risk_mapping'' of
        JObj m \<Rightarrow>
          fold (\<lambda>rule_id st. if rule_id \<in> set RISK_RULE_IDS then st
                             else quarantine_note ''unknown_risk_rule_id'' st)
            (string_items (dget m ''rule_ids''))
            (case dget m ''risk_tier_effect'' of
               JStr e \<Rightarrow> if e \<in> set allowed_risk_tier_effects then st
                         else quarantine_note ''unknown_risk_tier_effect'' st
             | _ \<Rightarrow> st)
      | _ \<Rightarrow> st)"

definition check_interpretability :: "dict \<Rightarrow> risk_facts \<Rightarrow> risk_state \<Rightarrow> risk_state" where
  "check_interpretability data facts st =
     fold (\<lambda>finding st. check_finding_mapping finding (check_finding_gate finding st))
       (list_of_mappings (dget data ''findings''))
       (fold check_relation (fa_relations facts) (check_categories facts st))"

section \<open>Firing a rule\<close>

definition fired_rule_of :: "string \<Rightarrow> dict \<Rightarrow> string list \<Rightarrow> fired_rule" where
  "fired_rule_of rule_id rule evidence =
     \<lparr>fr_rule_id = rule_id,
      fr_description = py_str (dget_or rule ''description'' (JStr [])),
      fr_risk_tier_effect = py_str (dget_or rule ''risk_tier_effect'' (JStr ''T5_candidate'')),
      fr_gate_effects = string_items (dget rule ''gate_effects''),
      fr_evidence = dedupe evidence,
      fr_requires_human_review = is_true (dget rule ''requires_human_review''),
      fr_blocks_live_execution = is_true (dget rule ''blocks_live_execution''),
      fr_cannot_lower_risk = (\<not> is_false (dget rule ''cannot_lower_risk'')),
      fr_limitations = string_items (dget rule ''limitations'')\<rparr>"

definition fire :: "dict \<Rightarrow> string \<Rightarrow> string list \<Rightarrow> risk_state \<Rightarrow> risk_state" where
  "fire policy_rules rule_id evidence st =
     (case map_of policy_rules rule_id of
        Some (JObj rule) \<Rightarrow>
          if rule_id \<in> set (map fr_rule_id (st_fired st)) then st
          else st\<lparr>st_fired := st_fired st @ [fired_rule_of rule_id rule evidence]\<rparr>
      | _ \<Rightarrow> note_risk [''risk_policy_rule_unavailable:'' @ rule_id] [rule_id] [''quarantine''] [''T5_candidate''] st)"

section \<open>The conditions of the rules\<close>

definition has_network_signal :: "risk_facts \<Rightarrow> bool" where
  "has_network_signal facts \<longleftrightarrow>
     ''network_request'' \<in> set (fa_secondary facts)
     \<or> ''network_exfiltration_indicator'' \<in> set (fa_secondary facts)
     \<or> ''credential_to_network'' \<in> set (fa_relations facts)"

definition has_credential_network_chain :: "risk_facts \<Rightarrow> bool" where
  "has_credential_network_chain facts \<longleftrightarrow>
     (''credential_path_reference'' \<in> set (fa_secondary facts)
      \<or> ''host_home_reference'' \<in> set (fa_secondary facts))
     \<and> has_network_signal facts"

definition redaction_flag :: "dict \<Rightarrow> string \<Rightarrow> bool" where
  "redaction_flag data field = is_true (dget (sect data ''redaction_status'') field)"

definition scanner_unsupported :: "dict \<Rightarrow> bool" where
  "scanner_unsupported data = is_true (dget (sect data ''scanner'') ''unsupported_version'')"

definition summary_value :: "dict \<Rightarrow> string \<Rightarrow> json" where
  "summary_value data field = dget (sect data ''summary'') field"

definition is_low_trust_no_finding :: "dict \<Rightarrow> bool res" where
  "is_low_trust_no_finding data =
     res_and (in_strs (dget data ''trust_level'') scanner_low_trust_levels)
       (Inr (summary_value data ''outcome'' = JStr ''no_findings_in_scope''))"

definition secondary_conditions :: "dict \<Rightarrow> risk_facts \<Rightarrow> (bool \<times> string \<times> string list) list" where
  "secondary_conditions data facts =
     (let sec = (\<lambda>c. c \<in> set (fa_secondary facts)); tok = (\<lambda>t. t \<in> set (fa_tokens facts));
          rel = (\<lambda>r. r \<in> set (fa_relations facts)) in
      [(sec ''verified_secret'' \<or> sec ''secret_like_value'',
        ''RISK001'', [''secondary_category:secret_or_secret_like'']),
       (redaction_flag data ''raw_secret_present'' \<or> sec ''raw_secret_leak'',
        ''RISK002'', [''redaction_status.raw_secret_present'', ''secondary_category:raw_secret_leak'']),
       (sec ''credential_path_reference'', ''RISK003'', [''secondary_category:credential_path_reference'']),
       (has_credential_network_chain facts,
        ''RISK004'', [''credential_access'', ''network_request'', ''credential_to_network'']),
       (sec ''install_script_execution'' \<and> sec ''download_exec_chain'',
        ''RISK005'', [''install_script_execution'', ''download_exec_chain'']),
       (sec ''obfuscation'' \<and> sec ''dynamic_eval'', ''RISK006'', [''obfuscation'', ''dynamic_eval'']),
       (sec ''obfuscation'' \<and> sec ''dynamic_eval'' \<and> has_network_signal facts,
        ''RISK007'', [''obfuscation'', ''dynamic_eval'', ''network_request'']),
       (sec ''docker_socket_reference'', ''RISK008'', [''secondary_category:docker_socket_reference'']),
       (sec ''docker_socket_reference'' \<and> (rel ''docker_to_host_access'' \<or> tok ''subprocess_indicator''),
        ''RISK009'', [''docker_socket_reference'', ''subprocess_indicator'', ''docker_to_host_access'']),
       (sec ''host_home_reference'' \<or> redaction_flag data ''raw_host_path_present'' \<or> sec ''raw_host_path_leak'',
        ''RISK010'', [''host_home_reference'', ''raw_host_path_present'']),
       (sec ''pull_request_target_misuse'' \<and> (tok ''untrusted_checkout'' \<or> rel ''ci_token_to_untrusted_code''),
        ''RISK011'', [''pull_request_target_misuse'', ''untrusted_checkout'']),
       (sec ''broad_token_permission'' \<and> sec ''unpinned_action'',
        ''RISK012'', [''broad_token_permission'', ''unpinned_action'']),
       (sec ''verified_secret'' \<and> (tok ''ci_exposure'' \<or> rel ''ci_token_to_untrusted_code''),
        ''RISK013'', [''verified_secret'', ''ci_exposure'']),
       (sec ''known_critical_vulnerability'', ''RISK014'', [''known_critical_vulnerability'']),
       (sec ''known_critical_vulnerability''
          \<and> ((\<exists>c\<in>set suspicious_runtime_secondaries. sec c) \<or> rel ''lifecycle_to_runtime''),
        ''RISK015'', [''known_critical_vulnerability'', ''suspicious_runtime_behavior'']),
       (sec ''low_security_posture'', ''RISK016'', [''low_security_posture''])])"

definition validation_conditions ::
  "dict \<Rightarrow> scanner_result \<Rightarrow> risk_facts \<Rightarrow> bool \<Rightarrow> (bool \<times> string \<times> string list) list" where
  "validation_conditions data validation facts low_trust_no_finding =
     (let err = (\<lambda>e. e \<in> set (sr_blocking_errors validation)) in
      [(err ''scanner_failure_claims_no_findings''
          \<or> (''scanner_failure'' \<in> set (fa_primary facts)
             \<and> summary_value data ''outcome'' = JStr ''no_findings_in_scope''),
        ''RISK017'', [''scanner_failure'', ''no_findings_in_scope'']),
       (scanner_unsupported data \<or> err ''unsupported_version_claims_no_findings'',
        ''RISK018'', [''scanner.unsupported_version'']),
       (sr_limitations validation = [] \<or> err ''limitations_empty'' \<or> err ''limitations_must_be_array'',
        ''RISK019'', [''limitations'']),
       (low_trust_no_finding, ''RISK020'', [''low_trust'', ''no_findings_in_scope''])])"

section \<open>Merging\<close>

definition merge_gate_effects :: "string list list \<Rightarrow> string list" where
  "merge_gate_effects groups = filter (\<lambda>e. e \<in> set allowed_gate_effects) (concat groups)"

definition highest_risk_tier_effect :: "string list \<Rightarrow> string" where
  "highest_risk_tier_effect effects =
     (case filter (\<lambda>e. e \<in> set (map fst risk_tier_order)) effects of
        [] \<Rightarrow> ''none''
      | e # es \<Rightarrow> max_by (rank_in risk_tier_order) e es)"

definition blocking_rule :: "fired_rule \<Rightarrow> bool" where
  "blocking_rule rule \<longleftrightarrow>
     fr_blocks_live_execution rule \<or> ''quarantine'' \<in> set (fr_gate_effects rule)
     \<or> ''blocks_live_execution'' \<in> set (fr_gate_effects rule)"

definition initial_risk_state :: "scanner_result \<Rightarrow> dict \<Rightarrow> risk_state" where
  "initial_risk_state validation policy_rules =
     (let st = \<lparr>st_fired = [], st_blocking = [], st_warnings = sr_warnings validation,
                st_gates = [], st_risks = []\<rparr>;
          missing = filter (\<lambda>r. \<not> has_key policy_rules r) RISK_RULE_IDS in
      if missing \<noteq> []
      then note_risk [''risk_policy_missing_required_rules''] missing [''quarantine''] [''T5_candidate''] st
      else st)"

definition fire_all :: "dict \<Rightarrow> (bool \<times> string \<times> string list) list \<Rightarrow> risk_state \<Rightarrow> risk_state" where
  "fire_all policy_rules conditions st =
     fold (\<lambda>(c, rule_id, evidence) st. if c then fire policy_rules rule_id evidence st else st) conditions st"

definition close_invalid :: "scanner_result \<Rightarrow> risk_state \<Rightarrow> risk_state" where
  "close_invalid validation st =
     (if sr_valid validation then st
      else note_risk [''invalid_validation_result_fail_closed''] (sr_blocking_errors validation)
             [''quarantine''] [''T5_candidate''] st)"

definition final_gate_effects :: "risk_state \<Rightarrow> string list" where
  "final_gate_effects st =
     (let gates = merge_gate_effects (map fr_gate_effects (st_fired st))
                  @ filter (\<lambda>e. e \<in> set allowed_gate_effects) (st_gates st)
      in sort_key (rank_in gate_effect_order) (dedupe (if gates = [] then [''evidence_only''] else gates)))"

definition final_risk_effects :: "risk_state \<Rightarrow> string list" where
  "final_risk_effects st =
     filter (\<lambda>e. e \<in> set allowed_risk_tier_effects) (map fr_risk_tier_effect (st_fired st))
     @ filter (\<lambda>e. e \<in> set allowed_risk_tier_effects) (st_risks st)"

definition risk_evidence_summary :: "dict \<Rightarrow> risk_facts \<Rightarrow> dict" where
  "risk_evidence_summary data facts =
     [(''outcome'', summary_value data ''outcome''),
      (''trust_level'', dget data ''trust_level''),
      (''execution_authorized'', JBool (is_true (dget data ''execution_authorized''))),
      (''finding_count'', JInt (case dget data ''findings'' of JList xs \<Rightarrow> int (length xs) | _ \<Rightarrow> 0)),
      (''primary_categories'', jstrs (sort (fa_primary facts))),
      (''secondary_categories'', jstrs (sort (fa_secondary facts))),
      (''edge_relations'', jstrs (sort (fa_relations facts)))]"

definition risk_result_of :: "dict \<Rightarrow> scanner_result \<Rightarrow> risk_facts \<Rightarrow> risk_state \<Rightarrow> risk_result" where
  "risk_result_of data validation facts st =
     (let gates = final_gate_effects st; fired = st_fired st in
      \<lparr>rr_highest_risk_tier_effect = highest_risk_tier_effect (final_risk_effects st),
       rr_gate_effects = gates,
       rr_fired_rules = sort_key fr_rule_id fired,
       rr_blocking_rules = dedupe (map fr_rule_id (filter blocking_rule fired) @ st_blocking st),
       rr_warnings = dedupe (st_warnings st),
       rr_cannot_lower_risk = True,
       rr_requires_human_review =
         (list_ex fr_requires_human_review fired \<or> ''requires_human_review'' \<in> set gates),
       rr_blocks_live_execution =
         (list_ex fr_blocks_live_execution fired \<or> ''blocks_live_execution'' \<in> set gates
          \<or> ''quarantine'' \<in> set gates),
       rr_requires_dedicated_vm = (''requires_dedicated_vm'' \<in> set gates),
       rr_quarantine = (''quarantine'' \<in> set gates),
       rr_limitations = sr_limitations validation,
       rr_residual_risks = sr_residual_risks validation,
       rr_evidence_summary = risk_evidence_summary data facts\<rparr>)"

definition run_risk_rules :: "dict \<Rightarrow> scanner_result \<Rightarrow> dict \<Rightarrow> bool \<Rightarrow> risk_state" where
  "run_risk_rules data validation policy_rules low_trust_no_finding =
     (let facts = collect_facts data in
      close_invalid validation
        (fire_all policy_rules
           (secondary_conditions data facts @ validation_conditions data validation facts low_trust_no_finding)
           (check_interpretability data facts (initial_risk_state validation policy_rules))))"

definition map_external_scanner_risk ::
  "json option \<Rightarrow> json option \<Rightarrow> dict \<Rightarrow> scanner_result option \<Rightarrow> dict option \<Rightarrow> risk_result res" where
  "map_external_scanner_risk schema_file policy_file data validation_result policy =
     res_bind (case validation_result of
                 Some v \<Rightarrow> Inr v
               | None \<Rightarrow> validate_external_scanner_result schema_file (JObj data)) (\<lambda>validation.
     res_bind (case policy of
                 Some (p # ps) \<Rightarrow> Inr (p # ps)
               | _ \<Rightarrow> load_external_scanner_risk_policy policy_file) (\<lambda>active_policy.
     res_bind (is_low_trust_no_finding data) (\<lambda>low.
       Inr (risk_result_of data validation (collect_facts data)
              (run_risk_rules data validation (risk_rules_by_id active_policy) low)))))"

section \<open>What the steps contribute\<close>

text \<open>Every step adds to the gate effects and to the risk effects a set that depends on its own
  argument only, whatever the state it runs in.\<close>

definition adds_gates :: "(risk_state \<Rightarrow> risk_state) \<Rightarrow> string set \<Rightarrow> bool" where
  "adds_gates f G \<longleftrightarrow> (\<forall>st. set (st_gates (f st)) = set (st_gates st) \<union> G)"

definition adds_risks :: "(risk_state \<Rightarrow> risk_state) \<Rightarrow> string set \<Rightarrow> bool" where
  "adds_risks f R \<longleftrightarrow> (\<forall>st. set (st_risks (f st)) = set (st_risks st) \<union> R)"

lemma adds_gates_fold:
  assumes "\<And>x. adds_gates (f x) (G x)"
  shows "adds_gates (fold f xs) (\<Union>x\<in>set xs. G x)"
  using assms by (induction xs) (auto simp: adds_gates_def)

lemma adds_risks_fold:
  assumes "\<And>x. adds_risks (f x) (R x)"
  shows "adds_risks (fold f xs) (\<Union>x\<in>set xs. R x)"
  using assms by (induction xs) (auto simp: adds_risks_def)

lemma note_risk_sel [simp]:
  "st_gates (note_risk ws bs gs rs st) = st_gates st @ gs"
  "st_risks (note_risk ws bs gs rs st) = st_risks st @ rs"
  "st_fired (note_risk ws bs gs rs st) = st_fired st"
  "st_blocking (note_risk ws bs gs rs st) = st_blocking st @ bs"
  by (simp_all add: note_risk_def)

text \<open>The fired rules are backed by the policy: apart from the evidence, a fired rule is
  determined by its identifier.\<close>

definition rule_backed :: "dict \<Rightarrow> fired_rule \<Rightarrow> bool" where
  "rule_backed policy_rules r \<longleftrightarrow>
     (\<exists>rule. map_of policy_rules (fr_rule_id r) = Some (JObj rule)
        \<and> r = fired_rule_of (fr_rule_id r) rule (fr_evidence r))"

definition fired_ids :: "risk_state \<Rightarrow> string set" where
  "fired_ids st = fr_rule_id ` set (st_fired st)"

definition well_fired :: "dict \<Rightarrow> risk_state \<Rightarrow> bool" where
  "well_fired policy_rules st \<longleftrightarrow>
     (\<forall>r\<in>set (st_fired st). rule_backed policy_rules r) \<and> distinct (map fr_rule_id (st_fired st))"

definition available :: "dict \<Rightarrow> string \<Rightarrow> bool" where
  "available policy_rules rule_id \<longleftrightarrow> (\<exists>rule. map_of policy_rules rule_id = Some (JObj rule))"

lemma fired_rule_id [simp]: "fr_rule_id (fired_rule_of i rule ev) = i"
  by (simp add: fired_rule_of_def)

lemma fired_rule_backed: "map_of pr i = Some (JObj rule) \<Longrightarrow> rule_backed pr (fired_rule_of i rule ev)"
  by (simp add: rule_backed_def fired_rule_of_def)

lemma fire_effect:
  shows "fired_ids (fire pr i ev st) = fired_ids st \<union> (if available pr i then {i} else {})"
    and "set (st_gates (fire pr i ev st)) = set (st_gates st) \<union> (if available pr i then {} else {''quarantine''})"
    and "set (st_risks (fire pr i ev st)) = set (st_risks st) \<union> (if available pr i then {} else {''T5_candidate''})"
    and "well_fired pr st \<Longrightarrow> well_fired pr (fire pr i ev st)"
    and "set (st_blocking st) \<subseteq> set (st_blocking (fire pr i ev st))"
  by (auto simp: fire_def fired_ids_def available_def well_fired_def fired_rule_backed
      split: option.splits json.splits)

lemma fire_all_fired_ids:
  "fired_ids (fire_all pr cs st) = fired_ids st \<union> {i. available pr i \<and> (\<exists>ev. (True, i, ev) \<in> set cs)}"
proof (induction cs arbitrary: st)
  case (Cons c cs)
  obtain b i ev where c: "c = (b, i, ev)" by (cases c)
  show ?case
    using Cons.IH [of "if b then fire pr i ev st else st"]
    by (auto simp: fire_all_def c fire_effect)
qed (simp add: fire_all_def)

lemma fire_all_well_fired: "well_fired pr st \<Longrightarrow> well_fired pr (fire_all pr cs st)"
  by (induction cs arbitrary: st) (auto simp: fire_all_def fire_effect(4))

lemma fire_all_blocking: "set (st_blocking st) \<subseteq> set (st_blocking (fire_all pr cs st))"
proof (induction cs arbitrary: st)
  case (Cons c cs)
  obtain b i ev where c: "c = (b, i, ev)" by (cases c)
  show ?case
    using Cons.IH [of "if b then fire pr i ev st else st"] fire_effect(5) [of st pr i ev]
    by (cases b) (auto simp: fire_all_def c)
qed (simp add: fire_all_def)

definition unavailable_condition :: "dict \<Rightarrow> bool \<times> string \<times> string list \<Rightarrow> bool" where
  "unavailable_condition pr = (\<lambda>(b, i, ev). b \<and> \<not> available pr i)"

lemma fire_all_gates:
  "adds_gates (fire_all pr cs) (\<Union>c\<in>set cs. if unavailable_condition pr c then {''quarantine''} else {})"
  unfolding fire_all_def
  by (rule adds_gates_fold) (simp add: adds_gates_def fire_effect unavailable_condition_def split: prod.split)

lemma fire_all_risks:
  "adds_risks (fire_all pr cs) (\<Union>c\<in>set cs. if unavailable_condition pr c then {''T5_candidate''} else {})"
  unfolding fire_all_def
  by (rule adds_risks_fold) (simp add: adds_risks_def fire_effect unavailable_condition_def split: prod.split)

text \<open>The interpretability checks leave the fired rules alone.\<close>

lemma fold_keeps_fired:
  assumes "\<And>x st. st_fired (f x st) = st_fired st"
  shows "st_fired (fold f xs st) = st_fired st"
  using assms by (induction xs arbitrary: st) auto

lemma check_categories_fired [simp]: "st_fired (check_categories facts st) = st_fired st"
  by (simp add: check_categories_def)

lemma check_relation_fired [simp]: "st_fired (check_relation r st) = st_fired st"
  by (simp add: check_relation_def)

lemma check_finding_gate_fired [simp]: "st_fired (check_finding_gate f st) = st_fired st"
  by (simp add: check_finding_gate_def quarantine_note_def split: json.splits)

lemma check_finding_mapping_fired [simp]: "st_fired (check_finding_mapping f st) = st_fired st"
  by (simp add: check_finding_mapping_def quarantine_note_def fold_keeps_fired split: json.splits)

lemma check_interpretability_fired [simp]: "st_fired (check_interpretability data facts st) = st_fired st"
  by (simp add: check_interpretability_def fold_keeps_fired)

lemma initial_fired [simp]: "st_fired (initial_risk_state v pr) = []"
  by (simp add: initial_risk_state_def Let_def)

lemma close_invalid_fired [simp]: "st_fired (close_invalid v st) = st_fired st"
  by (simp add: close_invalid_def)

lemma run_fired_ids:
  "fired_ids (run_risk_rules data v pr low) =
     {i. available pr i \<and> (\<exists>ev. (True, i, ev) \<in> set (secondary_conditions data (collect_facts data)
        @ validation_conditions data v (collect_facts data) low))}"
proof -
  have close: "fired_ids (close_invalid v st) = fired_ids st" for st by (simp add: fired_ids_def)
  have start: "fired_ids (check_interpretability data facts (initial_risk_state v pr)) = {}" for facts
    by (simp add: fired_ids_def)
  show ?thesis
    unfolding run_risk_rules_def Let_def close fire_all_fired_ids start by simp
qed

lemma run_well_fired: "well_fired pr (run_risk_rules data v pr low)"
proof -
  have close: "well_fired pr (close_invalid v st) = well_fired pr st" for st by (simp add: well_fired_def)
  have start: "well_fired pr (check_interpretability data facts (initial_risk_state v pr))" for facts
    by (simp add: well_fired_def)
  show ?thesis
    unfolding run_risk_rules_def Let_def close by (intro fire_all_well_fired start)
qed

section \<open>Merging, characterised\<close>

definition known_gates :: "risk_state \<Rightarrow> string set" where
  "known_gates st =
     {g \<in> set allowed_gate_effects. g \<in> set (st_gates st) \<or> (\<exists>r\<in>set (st_fired st). g \<in> set (fr_gate_effects r))}"

lemma set_final_gate_effects:
  "set (final_gate_effects st) = (if known_gates st = {} then {''evidence_only''} else known_gates st)"
proof -
  let ?gates = "merge_gate_effects (map fr_gate_effects (st_fired st))
    @ filter (\<lambda>e. e \<in> set allowed_gate_effects) (st_gates st)"
  have g: "set ?gates = known_gates st"
    unfolding merge_gate_effects_def known_gates_def by auto
  have "set (final_gate_effects st) = set (if ?gates = [] then [''evidence_only''] else ?gates)"
    by (simp only: final_gate_effects_def Let_def set_sort set_dedupe)
  also have "\<dots> = (if known_gates st = {} then {''evidence_only''} else known_gates st)"
    unfolding g [symmetric] set_empty by (simp only: if_distrib [of set] list.set)
  finally show ?thesis .
qed

lemma known_gate_final: "g \<in> known_gates st \<Longrightarrow> g \<in> set (final_gate_effects st)"
  unfolding set_final_gate_effects by (metis empty_iff)

lemma quarantine_final:
  assumes "''quarantine'' \<in> set (st_gates st)"
  shows "''quarantine'' \<in> set (final_gate_effects st)"
proof (rule known_gate_final)
  have "''quarantine'' \<in> set allowed_gate_effects"
    by (simp add: allowed_gate_effects_def gate_effect_order_def)
  with assms show "''quarantine'' \<in> known_gates st"
    unfolding known_gates_def by blast
qed

lemma highest_tier_upper:
  assumes "e \<in> set effects" and "e \<in> set allowed_risk_tier_effects"
  shows "rank_in risk_tier_order e \<le> rank_in risk_tier_order (highest_risk_tier_effect effects)"
proof (cases "filter (\<lambda>e. e \<in> set (map fst risk_tier_order)) effects")
  case Nil
  with assms show ?thesis by (auto simp: filter_empty_conv allowed_risk_tier_effects_def)
next
  case (Cons x xs)
  have "e \<in> set (filter (\<lambda>e. e \<in> set (map fst risk_tier_order)) effects)"
    using assms by (simp add: allowed_risk_tier_effects_def)
  with Cons have "e \<in> insert x (set xs)" by simp
  with risk_tiers.strongest_upper have
    "rank_in risk_tier_order e \<le> rank_in risk_tier_order (max_by (rank_in risk_tier_order) x xs)" by blast
  with Cons show ?thesis by (simp add: highest_risk_tier_effect_def)
qed

lemma highest_tier_mem:
  "highest_risk_tier_effect effects \<in> insert ''none'' (set effects \<inter> set allowed_risk_tier_effects)"
proof (cases "filter (\<lambda>e. e \<in> set (map fst risk_tier_order)) effects")
  case (Cons x xs)
  have "max_by (rank_in risk_tier_order) x xs \<in> insert x (set xs)" by (rule max_by_mem)
  also have "insert x (set xs) = set (filter (\<lambda>e. e \<in> set (map fst risk_tier_order)) effects)"
    using Cons by simp
  finally have "max_by (rank_in risk_tier_order) x xs \<in> set effects \<inter> set allowed_risk_tier_effects"
    by (simp add: allowed_risk_tier_effects_def)
  then show ?thesis unfolding highest_risk_tier_effect_def Cons list.case by blast
qed (simp add: highest_risk_tier_effect_def)

lemma highest_tier_mono:
  assumes "set effects \<inter> set allowed_risk_tier_effects \<subseteq> set effects'"
  shows "rank_in risk_tier_order (highest_risk_tier_effect effects)
    \<le> rank_in risk_tier_order (highest_risk_tier_effect effects')"
proof -
  have none: "rank_in risk_tier_order ''none'' \<le> rank_in risk_tier_order (highest_risk_tier_effect es)" for es
  proof -
    have "0 \<le> rank_in risk_tier_order (highest_risk_tier_effect es)"
      using highest_tier_mem [of es] risk_tiers.rank_nonneg_iff
      by (auto simp: allowed_risk_tier_effects_def risk_tier_order_def)
    then show ?thesis by (simp add: rank_in_def risk_tier_order_def)
  qed
  from highest_tier_mem [of effects] show ?thesis
  proof
    assume "highest_risk_tier_effect effects = ''none''"
    with none show ?thesis by simp
  next
    assume "highest_risk_tier_effect effects \<in> set effects \<inter> set allowed_risk_tier_effects"
    with assms highest_tier_upper show ?thesis by blast
  qed
qed

section \<open>Monotonicity of the contributions\<close>

text \<open>\<open>data'\<close> reports everything \<open>data\<close> reports, and possibly more findings, nodes and edges.\<close>

definition evidence_fields :: "string list" where
  "evidence_fields = [''findings'', ''evidence_nodes'', ''evidence_edges'']"

definition more_evidence :: "dict \<Rightarrow> dict \<Rightarrow> bool" where
  "more_evidence data data' \<longleftrightarrow>
     (\<forall>k. k \<notin> set evidence_fields \<longrightarrow> dget data' k = dget data k)
     \<and> (\<forall>k\<in>set evidence_fields. set (list_of_mappings (dget data k)) \<subseteq> set (list_of_mappings (dget data' k)))"

definition facts_le :: "risk_facts \<Rightarrow> risk_facts \<Rightarrow> bool" where
  "facts_le f f' \<longleftrightarrow> set (fa_primary f) \<subseteq> set (fa_primary f') \<and> set (fa_secondary f) \<subseteq> set (fa_secondary f')
     \<and> set (fa_tokens f) \<subseteq> set (fa_tokens f') \<and> set (fa_relations f) \<subseteq> set (fa_relations f')"

lemma more_evidence_mappings:
  assumes "more_evidence data data'"
  shows "set (list_of_mappings (dget data ''findings'')) \<subseteq> set (list_of_mappings (dget data' ''findings''))"
    and "set (list_of_mappings (dget data ''evidence_nodes'')) \<subseteq> set (list_of_mappings (dget data' ''evidence_nodes''))"
    and "set (list_of_mappings (dget data ''evidence_edges'')) \<subseteq> set (list_of_mappings (dget data' ''evidence_edges''))"
  using assms by (simp_all add: more_evidence_def evidence_fields_def)

lemma more_evidence_fields:
  assumes "more_evidence data data'"
  shows "redaction_flag data' = redaction_flag data" and "scanner_unsupported data' = scanner_unsupported data"
    and "summary_value data' = summary_value data" and "is_low_trust_no_finding data' = is_low_trust_no_finding data"
proof -
  have "dget data' k = dget data k" if "k \<in> {''redaction_status'', ''scanner'', ''summary'', ''trust_level''}" for k
  proof -
    have "k \<notin> set evidence_fields" using that by (auto simp: evidence_fields_def)
    with assms show ?thesis by (simp add: more_evidence_def)
  qed
  then show "redaction_flag data' = redaction_flag data" "scanner_unsupported data' = scanner_unsupported data"
    "summary_value data' = summary_value data" "is_low_trust_no_finding data' = is_low_trust_no_finding data"
    by (simp_all add: redaction_flag_def scanner_unsupported_def summary_value_def is_low_trust_no_finding_def
        sect_def fun_eq_iff)
qed

lemma set_map_filter: "set (List.map_filter f xs) = {y. \<exists>x\<in>set xs. f x = Some y}"
  by (induction xs) (auto simp: List.map_filter_simps split: option.splits)

lemma collect_facts_mono:
  assumes "more_evidence data data'"
  shows "facts_le (collect_facts data) (collect_facts data')"
proof -
  have "set (evidence_items data) \<subseteq> set (evidence_items data')"
    using more_evidence_mappings [OF assms] by (auto simp: evidence_items_def)
  then show ?thesis
    using more_evidence_mappings(3) [OF assms]
    unfolding facts_le_def collect_facts_def risk_facts.simps set_dedupe set_map_filter set_concat
    by (intro conjI) (auto simp only: set_map)
qed

lemma network_mono: "facts_le f f' \<Longrightarrow> has_network_signal f \<Longrightarrow> has_network_signal f'"
  unfolding facts_le_def has_network_signal_def by blast

lemma chain_mono: "facts_le f f' \<Longrightarrow> has_credential_network_chain f \<Longrightarrow> has_credential_network_chain f'"
  using network_mono unfolding facts_le_def has_credential_network_chain_def by blast

text \<open>The identifiers and the evidence of the conditions are fixed, and each condition is
  monotone in the facts.\<close>

lemma secondary_conditions_mono:
  assumes le: "facts_le f f'" and red: "redaction_flag data' = redaction_flag data"
  shows "list_all2 (\<lambda>(c, i, ev) (c', i', ev'). i' = i \<and> ev' = ev \<and> (c \<longrightarrow> c'))
    (secondary_conditions data f) (secondary_conditions data' f')"
proof -
  from le have sec: "c \<in> set (fa_secondary f) \<Longrightarrow> c \<in> set (fa_secondary f')"
    and tok: "t \<in> set (fa_tokens f) \<Longrightarrow> t \<in> set (fa_tokens f')"
    and rel: "r \<in> set (fa_relations f) \<Longrightarrow> r \<in> set (fa_relations f')" for c t r
    by (auto simp: facts_le_def)
  show ?thesis
    unfolding secondary_conditions_def Let_def list.rel_inject list_all2_Cons prod.case red
    using network_mono [OF le] chain_mono [OF le]
    by (intro conjI refl) (blast intro: sec tok rel | simp)+
qed

lemma validation_conditions_mono:
  assumes "facts_le f f'" and "scanner_unsupported data' = scanner_unsupported data"
    and "summary_value data' = summary_value data"
  shows "list_all2 (\<lambda>(c, i, ev) (c', i', ev'). i' = i \<and> ev' = ev \<and> (c \<longrightarrow> c'))
    (validation_conditions data v f low) (validation_conditions data' v f' low)"
  using assms unfolding validation_conditions_def Let_def list_all2_Cons prod.case facts_le_def
  by (intro conjI refl) (blast | simp)+

lemma conditions_member_mono:
  assumes "list_all2 (\<lambda>(c, i, ev) (c', i', ev'). i' = i \<and> ev' = ev \<and> (c \<longrightarrow> c')) cs cs'"
    and "(True, i, ev) \<in> set cs"
  shows "(True, i, ev) \<in> set cs'"
  using assms by (induction rule: list_all2_induct) auto

text \<open>What one finding contributes, and what a whole run contributes.\<close>

definition uninterpretable :: "dict \<Rightarrow> bool" where
  "uninterpretable finding \<longleftrightarrow>
     (\<exists>g. dget finding ''gate_effect'' = JStr g \<and> g \<notin> set allowed_gate_effects)
     \<or> (\<exists>m e. dget finding ''risk_mapping'' = JObj m \<and> dget m ''risk_tier_effect'' = JStr e
          \<and> e \<notin> set allowed_risk_tier_effects)
     \<or> (\<exists>m. dget finding ''risk_mapping'' = JObj m
          \<and> \<not> set (string_items (dget m ''rule_ids'')) \<subseteq> set RISK_RULE_IDS)"

definition uninterpretable_categories :: "risk_facts \<Rightarrow> bool" where
  "uninterpretable_categories facts \<longleftrightarrow>
     ''unknown'' \<in> set (fa_primary facts) \<or> ''unknown'' \<in> set (fa_secondary facts)
     \<or> \<not> set (fa_primary facts) \<subseteq> set known_primary_categories
     \<or> \<not> set (fa_secondary facts) \<subseteq> set known_secondary_categories"

lemma quarantine_note_adds:
  "set (st_gates (if b then st else quarantine_note l st)) = set (st_gates st) \<union> (if b then {} else {''quarantine''})"
  "set (st_risks (if b then st else quarantine_note l st)) = set (st_risks st) \<union> (if b then {} else {''T5_candidate''})"
  by (simp_all add: quarantine_note_def)

lemma check_rule_ids_adds:
  "set (st_gates (fold (\<lambda>i st. if P i then st else quarantine_note l st) ids st))
     = set (st_gates st) \<union> (if list_all P ids then {} else {''quarantine''})"
  "set (st_risks (fold (\<lambda>i st. if P i then st else quarantine_note l st) ids st))
     = set (st_risks st) \<union> (if list_all P ids then {} else {''T5_candidate''})"
  by (induction ids arbitrary: st) (simp_all add: quarantine_note_def)

lemma check_finding_adds:
  "set (st_gates (check_finding_mapping fd (check_finding_gate fd st)))
     = set (st_gates st) \<union> (if uninterpretable fd then {''quarantine''} else {})"
  "set (st_risks (check_finding_mapping fd (check_finding_gate fd st)))
     = set (st_risks st) \<union> (if uninterpretable fd then {''T5_candidate''} else {})"
proof -
  have gate: "check_finding_gate fd st =
      (if \<forall>g. dget fd ''gate_effect'' = JStr g \<longrightarrow> g \<in> set allowed_gate_effects then st
       else quarantine_note ''unknown_gate_effect'' st)" for st
    by (simp add: check_finding_gate_def split: json.split)
  have tier: "(case dget m ''risk_tier_effect'' of
               JStr e \<Rightarrow> if e \<in> set allowed_risk_tier_effects then st
                         else quarantine_note ''unknown_risk_tier_effect'' st
             | _ \<Rightarrow> st) =
      (if \<forall>e. dget m ''risk_tier_effect'' = JStr e \<longrightarrow> e \<in> set allowed_risk_tier_effects then st
       else quarantine_note ''unknown_risk_tier_effect'' st)" for m st
    by (simp split: json.split)
  have mapping: "check_finding_mapping fd st =
      (case opt_mapping (dget fd ''risk_mapping'') of None \<Rightarrow> st
       | Some m \<Rightarrow> fold (\<lambda>i st. if i \<in> set RISK_RULE_IDS then st else quarantine_note ''unknown_risk_rule_id'' st)
            (string_items (dget m ''rule_ids''))
            (if \<forall>e. dget m ''risk_tier_effect'' = JStr e \<longrightarrow> e \<in> set allowed_risk_tier_effects then st
             else quarantine_note ''unknown_risk_tier_effect'' st))" for st
    by (cases "dget fd ''risk_mapping''") (simp_all only: check_finding_mapping_def json.case opt_mapping.simps
        option.case tier)
  have sub: "list_all (\<lambda>i. i \<in> A) xs \<longleftrightarrow> set xs \<subseteq> A" for A :: "string set" and xs
    by (auto simp: list_all_iff)
  show "set (st_gates (check_finding_mapping fd (check_finding_gate fd st)))
     = set (st_gates st) \<union> (if uninterpretable fd then {''quarantine''} else {})"
    unfolding mapping gate uninterpretable_def
    by (cases "opt_mapping (dget fd ''risk_mapping'')")
      (simp_all only: option.case check_rule_ids_adds quarantine_note_adds sub opt_mapping_Some opt_mapping.simps, auto)
  show "set (st_risks (check_finding_mapping fd (check_finding_gate fd st)))
     = set (st_risks st) \<union> (if uninterpretable fd then {''T5_candidate''} else {})"
    unfolding mapping gate uninterpretable_def
    by (cases "opt_mapping (dget fd ''risk_mapping'')")
      (simp_all only: option.case check_rule_ids_adds quarantine_note_adds sub opt_mapping_Some opt_mapping.simps, auto)
qed

definition missing_rules :: "dict \<Rightarrow> string list" where
  "missing_rules policy_rules = filter (\<lambda>r. \<not> has_key policy_rules r) RISK_RULE_IDS"

text \<open>The whole run: why it adds \<open>quarantine\<close>, and why it asks for human review.\<close>

definition quarantine_reason ::
  "dict \<Rightarrow> scanner_result \<Rightarrow> dict \<Rightarrow> (bool \<times> string \<times> string list) list \<Rightarrow> bool" where
  "quarantine_reason data v pr cs \<longleftrightarrow>
     missing_rules pr \<noteq> [] \<or> \<not> sr_valid v
     \<or> (\<exists>fd\<in>set (list_of_mappings (dget data ''findings'')). uninterpretable fd)
     \<or> (\<exists>c\<in>set cs. unavailable_condition pr c)"

definition review_reason :: "risk_facts \<Rightarrow> bool" where
  "review_reason facts \<longleftrightarrow> uninterpretable_categories facts
     \<or> \<not> set (fa_relations facts) \<subseteq> set supported_chain_relations"

lemma initial_gates_risks:
  "set (st_gates (initial_risk_state v pr)) = (if missing_rules pr \<noteq> [] then {''quarantine''} else {})"
  "set (st_risks (initial_risk_state v pr)) = (if missing_rules pr \<noteq> [] then {''T5_candidate''} else {})"
  by (simp_all add: initial_risk_state_def missing_rules_def Let_def)

lemma close_gates_risks:
  "set (st_gates (close_invalid v st)) = set (st_gates st) \<union> (if sr_valid v then {} else {''quarantine''})"
  "set (st_risks (close_invalid v st)) = set (st_risks st) \<union> (if sr_valid v then {} else {''T5_candidate''})"
  by (simp_all add: close_invalid_def)

lemma categories_gates_risks:
  "set (st_gates (check_categories facts st)) = set (st_gates st)
     \<union> (if uninterpretable_categories facts then {''requires_human_review''} else {})"
  "set (st_risks (check_categories facts st)) = set (st_risks st)
     \<union> (if uninterpretable_categories facts then {''T5_candidate''} else {})"
  unfolding check_categories_def uninterpretable_categories_def [symmetric] by simp_all

lemma relations_gates_risks:
  "set (st_gates (fold check_relation rs st)) = set (st_gates st)
     \<union> (if set rs \<subseteq> set supported_chain_relations then {} else {''requires_human_review''})"
  "set (st_risks (fold check_relation rs st)) = set (st_risks st)"
  by (induction rs arbitrary: st) (simp_all add: check_relation_def)

lemma findings_gates_risks:
  "set (st_gates (fold (\<lambda>fd st. check_finding_mapping fd (check_finding_gate fd st)) fds st)) = set (st_gates st)
     \<union> (if \<exists>fd\<in>set fds. uninterpretable fd then {''quarantine''} else {})"
  "set (st_risks (fold (\<lambda>fd st. check_finding_mapping fd (check_finding_gate fd st)) fds st)) = set (st_risks st)
     \<union> (if \<exists>fd\<in>set fds. uninterpretable fd then {''T5_candidate''} else {})"
  by (induction fds arbitrary: st) (simp_all only: fold.simps o_apply list.set check_finding_adds id_apply, auto)

lemma UN_if: "(\<Union>c\<in>A. if P c then {x} else {}) = (if \<exists>c\<in>A. P c then {x} else {})"
  by auto

lemma merge_gate_ifs:
  "(if m then {q} else {}) \<union> (if u then {h} else {}) \<union> (if r then {} else {h}) \<union> (if f then {q} else {})
     \<union> (if c then {q} else {}) \<union> (if v then {} else {q})
   = (if m \<or> \<not> v \<or> f \<or> c then {q} else {}) \<union> (if u \<or> \<not> r then {h} else {})"
  by auto

lemma merge_risk_ifs:
  "(if m then {q} else {}) \<union> (if u then {q} else {}) \<union> (if f then {q} else {})
     \<union> (if c then {q} else {}) \<union> (if v then {} else {q})
   = (if (m \<or> \<not> v \<or> f \<or> c) \<or> u then {q} else {})"
  by auto

lemma run_gates_risks:
  assumes "cs = secondary_conditions data (collect_facts data)
    @ validation_conditions data v (collect_facts data) low"
  shows "set (st_gates (run_risk_rules data v pr low)) =
      (if quarantine_reason data v pr cs then {''quarantine''} else {})
      \<union> (if review_reason (collect_facts data) then {''requires_human_review''} else {})"
    and "set (st_risks (run_risk_rules data v pr low)) =
      (if quarantine_reason data v pr cs \<or> uninterpretable_categories (collect_facts data)
       then {''T5_candidate''} else {})"
proof -
  let ?f = "collect_facts data"
  have g: "set (st_gates (fire_all pr cs st)) = set (st_gates st)
      \<union> (if \<exists>c\<in>set cs. unavailable_condition pr c then {''quarantine''} else {})" for st
    using fire_all_gates [of pr cs] unfolding adds_gates_def UN_if by blast
  have r: "set (st_risks (fire_all pr cs st)) = set (st_risks st)
      \<union> (if \<exists>c\<in>set cs. unavailable_condition pr c then {''T5_candidate''} else {})" for st
    using fire_all_risks [of pr cs] unfolding adds_risks_def UN_if by blast
  show "set (st_gates (run_risk_rules data v pr low)) =
      (if quarantine_reason data v pr cs then {''quarantine''} else {})
      \<union> (if review_reason ?f then {''requires_human_review''} else {})"
    unfolding run_risk_rules_def Let_def assms [symmetric] check_interpretability_def quarantine_reason_def
      review_reason_def close_gates_risks g findings_gates_risks relations_gates_risks categories_gates_risks
      initial_gates_risks
    by (rule merge_gate_ifs)
  show "set (st_risks (run_risk_rules data v pr low)) =
      (if quarantine_reason data v pr cs \<or> uninterpretable_categories ?f then {''T5_candidate''} else {})"
    unfolding run_risk_rules_def Let_def assms [symmetric] check_interpretability_def quarantine_reason_def
      close_gates_risks r findings_gates_risks relations_gates_risks categories_gates_risks initial_gates_risks
    by (rule merge_risk_ifs)
qed

lemma risk_rules_values:
  "map_of (risk_rules_by_id policy) i = Some v \<Longrightarrow> is_obj v"
proof -
  have dset_obj: "\<forall>(k, v)\<in>set d. is_obj v \<Longrightarrow> is_obj w \<Longrightarrow> \<forall>(k, v)\<in>set (dset d i w). is_obj v" for d i w
    by (induction d i w rule: dset.induct) auto
  have "\<forall>(k, v)\<in>set d. is_obj v \<Longrightarrow>
      \<forall>(k, v)\<in>set (fold (\<lambda>item indexed. case opt_str (dget item ''rule_id'') of
             None \<Rightarrow> indexed | Some k \<Rightarrow> dset indexed k (JObj item)) xs d). is_obj v" for xs d
  proof (induction xs arbitrary: d)
    case (Cons x xs)
    show ?case
      unfolding fold.simps o_apply
      by (rule Cons.IH) (use Cons.prems dset_obj [of d "JObj x"] in \<open>auto split: option.splits\<close>)
  qed simp
  from this [of "[]"] show "map_of (risk_rules_by_id policy) i = Some v \<Longrightarrow> is_obj v"
    unfolding risk_rules_by_id_def by (fastforce dest: map_of_SomeD)
qed

lemma available_iff_key:
  "available (risk_rules_by_id policy) i \<longleftrightarrow> has_key (risk_rules_by_id policy) i"
proof -
  have "map_of d i \<noteq> None \<longleftrightarrow> has_key d i" for d :: dict
    unfolding has_key_def keys_def set_map by (rule map_of_mem_keys)
  with risk_rules_values [of policy i] show ?thesis
    unfolding available_def is_obj_iff by (metis not_None_eq)
qed

lemma mapping_run:
  assumes "map_external_scanner_risk sf pf data (Some v) (Some p) = Inr r" and "p \<noteq> []"
  obtains low where "is_low_trust_no_finding data = Inr low"
    and "r = risk_result_of data v (collect_facts data) (run_risk_rules data v (risk_rules_by_id p) low)"
proof (cases p)
  case (Cons x xs)
  with assms that show thesis
    by (auto simp: map_external_scanner_risk_def res_bind_Inr_iff)
qed (use assms in simp)

definition risk_conditions :: "dict \<Rightarrow> scanner_result \<Rightarrow> bool \<Rightarrow> (bool \<times> string \<times> string list) list" where
  "risk_conditions data v low =
     secondary_conditions data (collect_facts data) @ validation_conditions data v (collect_facts data) low"

lemmas run_totals = run_gates_risks [OF refl, folded risk_conditions_def]
lemmas run_ids = run_fired_ids [folded risk_conditions_def]

lemma run_blocking_errors:
  "\<not> sr_valid v \<Longrightarrow> set (sr_blocking_errors v) \<subseteq> set (st_blocking (run_risk_rules data v pr low))"
  by (simp add: run_risk_rules_def Let_def close_invalid_def)

lemma quarantine_result:
  assumes "quarantine_reason data v pr (risk_conditions data v low)"
  shows "rr_quarantine (risk_result_of data v facts (run_risk_rules data v pr low))"
    and "rr_blocks_live_execution (risk_result_of data v facts (run_risk_rules data v pr low))"
    and "4 \<le> rank_in risk_tier_order
      (rr_highest_risk_tier_effect (risk_result_of data v facts (run_risk_rules data v pr low)))"
proof -
  let ?st = "run_risk_rules data v pr low"
  have q: "''quarantine'' \<in> set (final_gate_effects ?st)"
    by (rule quarantine_final) (simp add: run_totals assms)
  then show "rr_quarantine (risk_result_of data v facts ?st)"
    and "rr_blocks_live_execution (risk_result_of data v facts ?st)"
    by (simp_all only: risk_result_of_def Let_def risk_result.simps simp_thms)
  have known: "''T5_candidate'' \<in> set allowed_risk_tier_effects"
    by (simp add: allowed_risk_tier_effects_def risk_tier_order_def)
  moreover have "''T5_candidate'' \<in> set (st_risks ?st)" by (simp add: run_totals assms)
  ultimately have "''T5_candidate'' \<in> set (final_risk_effects ?st)" by (simp add: final_risk_effects_def)
  from highest_tier_upper [OF this known] show "4 \<le> rank_in risk_tier_order
      (rr_highest_risk_tier_effect (risk_result_of data v facts ?st))"
    by (simp add: risk_result_of_def Let_def) (simp add: rank_in_def risk_tier_order_def)
qed

text \<open>Everything a run has is still there in a run on more evidence.\<close>

lemma backed_same_id:
  assumes "rule_backed pr r" and "rule_backed pr r'" and "fr_rule_id r = fr_rule_id r'"
  shows "fr_risk_tier_effect r = fr_risk_tier_effect r'" and "fr_gate_effects r = fr_gate_effects r'"
    and "fr_blocks_live_execution r = fr_blocks_live_execution r'"
proof -
  from assms obtain rule where "r = fired_rule_of (fr_rule_id r) rule (fr_evidence r)"
    "r' = fired_rule_of (fr_rule_id r) rule (fr_evidence r')"
    unfolding rule_backed_def by force
  then have "fr_risk_tier_effect r = fr_risk_tier_effect r' \<and> fr_gate_effects r = fr_gate_effects r'
      \<and> fr_blocks_live_execution r = fr_blocks_live_execution r'"
    by (metis fired_rule_of_def fired_rule.select_convs(3,4,7))
  then show "fr_risk_tier_effect r = fr_risk_tier_effect r'" "fr_gate_effects r = fr_gate_effects r'"
    "fr_blocks_live_execution r = fr_blocks_live_execution r'" by simp_all
qed

lemma conditions_mono:
  assumes "more_evidence data data'" and "(True, i, ev) \<in> set (risk_conditions data v low)"
  shows "(True, i, ev) \<in> set (risk_conditions data' v low)"
proof -
  note le = collect_facts_mono [OF assms(1)] and f = more_evidence_fields [OF assms(1)]
  show ?thesis
    using assms(2) conditions_member_mono [OF secondary_conditions_mono [OF le f(1)]]
      conditions_member_mono [OF validation_conditions_mono [OF le f(2,3)]]
    unfolding risk_conditions_def set_append by blast
qed

lemma if_set_mono: "(a \<Longrightarrow> b) \<Longrightarrow> (if a then X else {}) \<subseteq> (if b then X else {})"
  by simp

lemma run_grows:
  assumes "more_evidence data data'"
  shows "fired_ids (run_risk_rules data v pr low) \<subseteq> fired_ids (run_risk_rules data' v pr low)"
    and "set (st_risks (run_risk_rules data v pr low)) \<subseteq> set (st_risks (run_risk_rules data' v pr low))"
    and "\<forall>r\<in>set (st_fired (run_risk_rules data v pr low)). \<exists>r'\<in>set (st_fired (run_risk_rules data' v pr low)).
      fr_risk_tier_effect r = fr_risk_tier_effect r' \<and> fr_gate_effects r = fr_gate_effects r'"
    and "\<forall>r\<in>set (st_fired (run_risk_rules data v pr low)). \<exists>r'\<in>set (st_fired (run_risk_rules data' v pr low)).
      fr_blocks_live_execution r = fr_blocks_live_execution r'"
    and "set (st_gates (run_risk_rules data v pr low)) \<subseteq> set (st_gates (run_risk_rules data' v pr low))"
proof -
  note le = collect_facts_mono [OF assms] and conds = conditions_mono [OF assms, of _ _ v low]
  show ids: "fired_ids (run_risk_rules data v pr low) \<subseteq> fired_ids (run_risk_rules data' v pr low)"
    unfolding run_ids using conds by blast
  have q: "quarantine_reason data v pr (risk_conditions data v low) \<Longrightarrow>
      quarantine_reason data' v pr (risk_conditions data' v low)"
    using more_evidence_mappings(1) [OF assms] conds
    unfolding quarantine_reason_def unavailable_condition_def by fastforce
  have u: "uninterpretable_categories (collect_facts data) \<Longrightarrow> uninterpretable_categories (collect_facts data')"
    using le unfolding facts_le_def uninterpretable_categories_def by blast
  have h: "review_reason (collect_facts data) \<Longrightarrow> review_reason (collect_facts data')"
    using le u unfolding facts_le_def review_reason_def by blast
  show "set (st_risks (run_risk_rules data v pr low)) \<subseteq> set (st_risks (run_risk_rules data' v pr low))"
    unfolding run_totals by (rule if_set_mono) (use q u in blast)
  show "set (st_gates (run_risk_rules data v pr low)) \<subseteq> set (st_gates (run_risk_rules data' v pr low))"
    unfolding run_totals by (intro Un_mono if_set_mono q h)
  have "\<exists>r'\<in>set (st_fired (run_risk_rules data' v pr low)).
      fr_risk_tier_effect r = fr_risk_tier_effect r' \<and> fr_gate_effects r = fr_gate_effects r'
      \<and> fr_blocks_live_execution r = fr_blocks_live_execution r'"
    if r: "r \<in> set (st_fired (run_risk_rules data v pr low))" for r
  proof -
    from ids r obtain r' where r': "r' \<in> set (st_fired (run_risk_rules data' v pr low))" "fr_rule_id r = fr_rule_id r'"
      unfolding fired_ids_def by auto
    with r run_well_fired have "rule_backed pr r" "rule_backed pr r'" unfolding well_fired_def by blast+
    from backed_same_id [OF this r'(2)] r'(1) show ?thesis by blast
  qed
  then show "\<forall>r\<in>set (st_fired (run_risk_rules data v pr low)). \<exists>r'\<in>set (st_fired (run_risk_rules data' v pr low)).
      fr_risk_tier_effect r = fr_risk_tier_effect r' \<and> fr_gate_effects r = fr_gate_effects r'"
    and "\<forall>r\<in>set (st_fired (run_risk_rules data v pr low)). \<exists>r'\<in>set (st_fired (run_risk_rules data' v pr low)).
      fr_blocks_live_execution r = fr_blocks_live_execution r'"
    by blast+
qed

lemma final_gates_mono:
  assumes "\<forall>r\<in>set (st_fired st). \<exists>r'\<in>set (st_fired st').
      fr_risk_tier_effect r = fr_risk_tier_effect r' \<and> fr_gate_effects r = fr_gate_effects r'"
    and "set (st_gates st) \<subseteq> set (st_gates st')"
  shows "set (final_gate_effects st) \<subseteq> insert ''evidence_only'' (set (final_gate_effects st'))"
proof -
  have "known_gates st \<subseteq> known_gates st'"
    using assms unfolding known_gates_def by fastforce
  then show ?thesis
    using known_gate_final [of _ st'] unfolding set_final_gate_effects [of st] by (auto split: if_splits)
qed

lemma final_risks_mono:
  assumes "set (st_risks st) \<subseteq> set (st_risks st')"
    and "\<forall>r\<in>set (st_fired st). \<exists>r'\<in>set (st_fired st').
      fr_risk_tier_effect r = fr_risk_tier_effect r' \<and> fr_gate_effects r = fr_gate_effects r'"
  shows "set (final_risk_effects st) \<subseteq> set (final_risk_effects st')"
  using assms unfolding final_risk_effects_def by fastforce

section \<open>Properties\<close>

definition sample_risk_policy :: dict where
  "sample_risk_policy =
     [(''risk_rules'', JList (map (\<lambda>i. JObj
        [(''rule_id'', JStr i), (''description'', JStr ''d''), (''risk_tier_effect'', JStr ''raise_to_T4''),
         (''gate_effects'', jstrs [''requires_human_review'']), (''requires_human_review'', JBool True),
         (''blocks_live_execution'', JBool False), (''cannot_lower_risk'', JBool True),
         (''limitations'', JList [])]) [''RISK001'', ''RISK014'']))]"

definition sample_validation :: "bool \<Rightarrow> scanner_result" where
  "sample_validation ok =
     \<lparr>sr_valid = ok, sr_blocking_errors = (if ok then [] else [''outcome_invalid'']), sr_warnings = [],
      sr_fired_invariants = [], sr_highest_gate_effect = ''evidence_only'', sr_execution_authorized = False,
      sr_limitations = [''l1''], sr_residual_risks = []\<rparr>"

definition sample_report :: "string list \<Rightarrow> dict" where
  "sample_report secondaries =
     [(''trust_level'', JStr ''redaction_validated''),
      (''findings'', JList (map (\<lambda>c. JObj [(''primary_category'', JStr ''secret''),
         (''secondary_category'', JStr c)]) secondaries))]"

text \<open>C19: the risk mapper fails closed.  When the validation of the scanner result failed, or the
  policy lacks any of the twenty rules, or a finding names an unknown gate effect, risk tier
  or rule, the mapping quarantines, blocks live execution and reports at least the tier
  \<open>T5_candidate\<close>; the blocking errors of a failed validation are all among the blocking rules.\<close>

theorem risk_mapping_fail_closed:
  assumes "map_external_scanner_risk sf pf data (Some v) (Some p) = Inr r" and "p \<noteq> []"
    and "\<not> sr_valid v \<or> \<not> set RISK_RULE_IDS \<subseteq> set (keys (risk_rules_by_id p))
      \<or> (\<exists>fd\<in>set (list_of_mappings (dget data ''findings'')). uninterpretable fd)"
  shows "rr_quarantine r \<and> rr_blocks_live_execution r
    \<and> rank_in risk_tier_order ''T5_candidate'' \<le> rank_in risk_tier_order (rr_highest_risk_tier_effect r)
    \<and> (\<not> sr_valid v \<longrightarrow> set (sr_blocking_errors v) \<subseteq> set (rr_blocking_rules r))"
proof -
  from assms(1,2) obtain low where r: "r = risk_result_of data v (collect_facts data)
      (run_risk_rules data v (risk_rules_by_id p) low)"
    by (rule mapping_run)
  have "missing_rules (risk_rules_by_id p) \<noteq> [] \<longleftrightarrow> \<not> set RISK_RULE_IDS \<subseteq> set (keys (risk_rules_by_id p))"
    by (auto simp: missing_rules_def filter_empty_conv has_key_def)
  with assms(3) have q: "quarantine_reason data v (risk_rules_by_id p) (risk_conditions data v low)"
    unfolding quarantine_reason_def by blast
  have "set (sr_blocking_errors v) \<subseteq> set (rr_blocking_rules r)" if "\<not> sr_valid v"
    using run_blocking_errors [OF that, of data "risk_rules_by_id p" low]
    by (auto simp: r risk_result_of_def Let_def)
  moreover have "rank_in risk_tier_order ''T5_candidate'' = 4" by (simp add: rank_in_def risk_tier_order_def)
  ultimately show ?thesis using quarantine_result [OF q, of "collect_facts data", folded r] by simp
qed

theorem risk_mapping_fail_closed_witness:
  "\<exists>r. map_external_scanner_risk None None (sample_report []) (Some (sample_validation False))
         (Some sample_risk_policy) = Inr r \<and> rr_quarantine r"
proof -
  have "returns (map_external_scanner_risk None None (sample_report []) (Some (sample_validation False))
         (Some sample_risk_policy))"
    by code_simp
  then obtain r where r: "map_external_scanner_risk None None (sample_report []) (Some (sample_validation False))
         (Some sample_risk_policy) = Inr r"
    by (auto simp: returns_iff)
  have "\<not> sr_valid (sample_validation False)" "sample_risk_policy \<noteq> []"
    by (simp_all add: sample_validation_def sample_risk_policy_def)
  with risk_mapping_fail_closed [OF r] r show ?thesis by blast
qed

text \<open>the rules that fire are exactly those whose condition holds of the facts and which the
  policy has; they are reported once each, in the order of their identifiers, and every
  condition whose rule the policy lacks is reported as a blocking rule or raises the
  quarantine flag instead.\<close>

theorem risk_mapping_fires_exactly:
  assumes "map_external_scanner_risk sf pf data (Some v) (Some p) = Inr r" and "p \<noteq> []"
  shows "\<exists>low. is_low_trust_no_finding data = Inr low
    \<and> set (map fr_rule_id (rr_fired_rules r)) =
        {i \<in> set (keys (risk_rules_by_id p)). \<exists>ev. (True, i, ev) \<in> set (risk_conditions data v low)}
    \<and> sorted (map fr_rule_id (rr_fired_rules r)) \<and> distinct (map fr_rule_id (rr_fired_rules r))
    \<and> ((\<exists>i ev. (True, i, ev) \<in> set (risk_conditions data v low) \<and> i \<notin> set (keys (risk_rules_by_id p)))
        \<longrightarrow> rr_quarantine r)"
proof -
  from assms obtain low where low: "is_low_trust_no_finding data = Inr low"
    and r: "r = risk_result_of data v (collect_facts data) (run_risk_rules data v (risk_rules_by_id p) low)"
    by (rule mapping_run)
  let ?st = "run_risk_rules data v (risk_rules_by_id p) low"
  have fired: "rr_fired_rules r = sort_key fr_rule_id (st_fired ?st)"
    by (simp add: r risk_result_of_def Let_def)
  have ids: "set (map fr_rule_id (rr_fired_rules r)) =
      {i \<in> set (keys (risk_rules_by_id p)). \<exists>ev. (True, i, ev) \<in> set (risk_conditions data v low)}"
    unfolding fired set_map set_sort
    using run_ids [of data v "risk_rules_by_id p" low] by (auto simp: fired_ids_def available_iff_key has_key_def)
  have "distinct (map fr_rule_id (st_fired ?st))"
    using run_well_fired unfolding well_fired_def by blast
  then have "distinct (map fr_rule_id (rr_fired_rules r))"
    unfolding fired distinct_map by simp
  moreover have "rr_quarantine r" if "(True, i, ev) \<in> set (risk_conditions data v low)"
    and "i \<notin> set (keys (risk_rules_by_id p))" for i ev
  proof -
    have "unavailable_condition (risk_rules_by_id p) (True, i, ev)"
      using that by (simp add: unavailable_condition_def available_iff_key has_key_def)
    with that have "quarantine_reason data v (risk_rules_by_id p) (risk_conditions data v low)"
      unfolding quarantine_reason_def by blast
    from quarantine_result(1) [OF this] show ?thesis unfolding r .
  qed
  moreover have "sorted (map fr_rule_id (rr_fired_rules r))" unfolding fired by (rule sorted_sort_key)
  ultimately show ?thesis using low ids by blast
qed

theorem risk_mapping_fires_exactly_witness:
  "\<exists>r. map_external_scanner_risk None None (sample_report [''verified_secret'']) (Some (sample_validation True))
         (Some sample_risk_policy) = Inr r \<and> distinct (map fr_rule_id (rr_fired_rules r))
     \<and> map fr_rule_id (rr_fired_rules r) = [''RISK001'']"
proof -
  have "returning (\<lambda>r. map fr_rule_id (rr_fired_rules r) = [''RISK001''])
      (map_external_scanner_risk None None (sample_report [''verified_secret''])
         (Some (sample_validation True)) (Some sample_risk_policy))"
    by code_simp
  then obtain r where r: "map_external_scanner_risk None None (sample_report [''verified_secret''])
         (Some (sample_validation True)) (Some sample_risk_policy) = Inr r"
    and ids: "map fr_rule_id (rr_fired_rules r) = [''RISK001'']"
    by (rule returningE)
  have "sample_risk_policy \<noteq> []" by (simp add: sample_risk_policy_def)
  from risk_mapping_fires_exactly [OF r this] have "distinct (map fr_rule_id (rr_fired_rules r))" by blast
  with r ids show ?thesis by (intro exI conjI)
qed

text \<open>C23: more evidence never lowers the risk.  When a second report agrees with the first except
  for findings, evidence nodes and edges, and contains all of those, then under the same
  validation and policy every rule that fired still fires, the risk tier does not go down, no
  gate effect other than \<open>evidence_only\<close> disappears, and a quarantine or a block of live
  execution stays.\<close>

theorem risk_mapping_monotone:
  assumes "more_evidence data data'" and "p \<noteq> []"
    and run: "map_external_scanner_risk sf pf data (Some v) (Some p) = Inr r"
    and run': "map_external_scanner_risk sf pf data' (Some v) (Some p) = Inr r'"
  shows "set (map fr_rule_id (rr_fired_rules r)) \<subseteq> set (map fr_rule_id (rr_fired_rules r'))
    \<and> rank_in risk_tier_order (rr_highest_risk_tier_effect r) \<le> rank_in risk_tier_order (rr_highest_risk_tier_effect r')
    \<and> set (rr_gate_effects r) \<subseteq> insert ''evidence_only'' (set (rr_gate_effects r'))
    \<and> (rr_quarantine r \<longrightarrow> rr_quarantine r') \<and> (rr_blocks_live_execution r \<longrightarrow> rr_blocks_live_execution r')"
proof -
  let ?pr = "risk_rules_by_id p"
  from run assms(2) obtain low where low: "is_low_trust_no_finding data = Inr low"
    and r: "r = risk_result_of data v (collect_facts data) (run_risk_rules data v ?pr low)"
    by (rule mapping_run)
  from run' assms(2) obtain low' where low': "is_low_trust_no_finding data' = Inr low'"
    and r': "r' = risk_result_of data' v (collect_facts data') (run_risk_rules data' v ?pr low')"
    by (rule mapping_run)
  have same: "low' = low" using low low' more_evidence_fields(4) [OF assms(1)] by simp
  let ?st = "run_risk_rules data v ?pr low" and ?st' = "run_risk_rules data' v ?pr low"
  note grow = run_grows [OF assms(1), of v ?pr low]
  have gates: "set (rr_gate_effects r) = set (final_gate_effects ?st)"
    "set (rr_gate_effects r') = set (final_gate_effects ?st')"
    by (simp_all add: r r' same risk_result_of_def Let_def)
  have sub: "set (final_gate_effects ?st) \<subseteq> insert ''evidence_only'' (set (final_gate_effects ?st'))"
    using final_gates_mono grow by blast
  have flags: "rr_quarantine r \<longleftrightarrow> ''quarantine'' \<in> set (final_gate_effects ?st)"
    "rr_quarantine r' \<longleftrightarrow> ''quarantine'' \<in> set (final_gate_effects ?st')"
    "rr_blocks_live_execution r \<longleftrightarrow> list_ex fr_blocks_live_execution (st_fired ?st)
       \<or> ''blocks_live_execution'' \<in> set (final_gate_effects ?st) \<or> ''quarantine'' \<in> set (final_gate_effects ?st)"
    "rr_blocks_live_execution r' \<longleftrightarrow> list_ex fr_blocks_live_execution (st_fired ?st')
       \<or> ''blocks_live_execution'' \<in> set (final_gate_effects ?st') \<or> ''quarantine'' \<in> set (final_gate_effects ?st')"
    by (simp_all only: r r' same risk_result_of_def Let_def risk_result.simps)
  have lits: "''quarantine'' \<noteq> ''evidence_only''" "''blocks_live_execution'' \<noteq> ''evidence_only''" by simp_all
  have blocks: "list_ex fr_blocks_live_execution (st_fired ?st) \<Longrightarrow> list_ex fr_blocks_live_execution (st_fired ?st')"
    using grow(4) unfolding list_ex_iff by blast
  have ids: "set (map fr_rule_id (rr_fired_rules r)) = fired_ids ?st"
    "set (map fr_rule_id (rr_fired_rules r')) = fired_ids ?st'"
    by (simp_all add: r r' same risk_result_of_def Let_def fired_ids_def)
  have tier: "rr_highest_risk_tier_effect r = highest_risk_tier_effect (final_risk_effects ?st)"
    "rr_highest_risk_tier_effect r' = highest_risk_tier_effect (final_risk_effects ?st')"
    by (simp_all add: r r' same risk_result_of_def Let_def)
  have "rank_in risk_tier_order (rr_highest_risk_tier_effect r) \<le> rank_in risk_tier_order (rr_highest_risk_tier_effect r')"
    unfolding tier using final_risks_mono [OF grow(2,3)] by (intro highest_tier_mono) blast
  moreover have "rr_quarantine r \<longrightarrow> rr_quarantine r'"
    unfolding flags(1,2) using sub lits(1) by blast
  moreover have "rr_blocks_live_execution r \<longrightarrow> rr_blocks_live_execution r'"
    unfolding flags(3,4) using sub lits blocks by blast
  ultimately show ?thesis
    unfolding ids gates using grow(1) sub by simp
qed

theorem risk_mapping_monotone_witness:
  "\<exists>r r'. map_external_scanner_risk None None (sample_report [''verified_secret'']) (Some (sample_validation True))
         (Some sample_risk_policy) = Inr r
     \<and> map_external_scanner_risk None None (sample_report [''verified_secret'', ''obfuscation''])
         (Some (sample_validation True)) (Some sample_risk_policy) = Inr r'
     \<and> set (map fr_rule_id (rr_fired_rules r)) \<subseteq> set (map fr_rule_id (rr_fired_rules r'))"
proof -
  have "returns (map_external_scanner_risk None None (sample_report [''verified_secret''])
         (Some (sample_validation True)) (Some sample_risk_policy))"
    "returns (map_external_scanner_risk None None (sample_report [''verified_secret'', ''obfuscation''])
         (Some (sample_validation True)) (Some sample_risk_policy))"
    by code_simp+
  then obtain r r' where r: "map_external_scanner_risk None None (sample_report [''verified_secret''])
         (Some (sample_validation True)) (Some sample_risk_policy) = Inr r"
    and r': "map_external_scanner_risk None None (sample_report [''verified_secret'', ''obfuscation''])
         (Some (sample_validation True)) (Some sample_risk_policy) = Inr r'"
    unfolding returns_iff by blast
  have more: "more_evidence (sample_report [''verified_secret'']) (sample_report [''verified_secret'', ''obfuscation''])"
    by (simp add: more_evidence_def evidence_fields_def sample_report_def dget_or_def)
  have "sample_risk_policy \<noteq> []" by (simp add: sample_risk_policy_def)
  from risk_mapping_monotone [OF more this r r'] r r' show ?thesis by blast
qed

end
