(* ===== verification/Gate_Check.thy ===== *)
theory Gate_Check
  imports Evidence_Check Py_Time
begin

text \<open>
  \<open>gate/validation.py\<close> and \<open>gate/decision.py\<close>: the validator of a gate decision document,
  including the bounded references to external evidence that a decision may carry.
\<close>

section \<open>Vocabulary\<close>

definition decision_required_fields :: "string list" where
  "decision_required_fields =
     [''decision_kind'', ''schema_version'', ''subject'', ''verdict'', ''execution_authorized'',
      ''confidence'', ''confidence_reason'', ''explanation'', ''evidence_summary'',
      ''required_actions'', ''limitations'', ''policy'', ''residual_risks'']"

definition decision_top_level_fields :: "string list" where
  "decision_top_level_fields = decision_required_fields @ [''evidence_refs'']"

definition decision_legacy_subject_fields :: "string list" where
  "decision_legacy_subject_fields = [''repo'', ''commit'', ''tree_hash'', ''binding_kind'']"

definition decision_subject_fields :: "string list" where
  "decision_subject_fields = decision_legacy_subject_fields @ [''snapshot_id'', ''manifest_fingerprint'']"

definition explanation_fields :: "string list" where
  "explanation_fields = [''summary'', ''key_reasons'', ''next_actions'']"

definition evidence_summary_fields :: "string list" where
  "evidence_summary_fields =
     [''findings_count'', ''blocking_evidence'', ''warning_evidence'', ''missing_evidence'', ''degraded_observers'']"

definition decision_policy_fields :: "string list" where
  "decision_policy_fields = [''policy_version'', ''fail_closed'']"

definition external_evidence_ref_fields :: "string list" where
  "external_evidence_ref_fields =
     [''report_kind'', ''report_fingerprint'', ''generated_at'', ''subject'', ''size_bytes'',
      ''truncated'', ''validation_status'', ''reasons'']"

definition sandbox_evidence_ref_fields :: "string list" where
  "sandbox_evidence_ref_fields =
     [''report_kind'', ''report_fingerprint'', ''run_id'', ''gate_decision_fingerprint'',
      ''snapshot_id'', ''manifest_fingerprint'', ''validation_status'', ''reasons'']"

definition evidence_ref_subject_fields :: "string list" where
  "evidence_ref_subject_fields = [''repo_commit'', ''dirty_state'']"

definition evidence_ref_reasons :: "string list" where
  "evidence_ref_reasons =
     [''external_evidence_invalid'', ''external_evidence_fingerprint_mismatch'',
      ''external_evidence_stale'', ''external_evidence_subject_mismatch'',
      ''external_evidence_over_budget'', ''external_evidence_duplicate'',
      ''external_evidence_truncated'']"

definition sandbox_evidence_ref_reasons :: "string list" where
  "sandbox_evidence_ref_reasons =
     [''sandbox_evidence_invalid'', ''sandbox_evidence_fingerprint_mismatch'',
      ''sandbox_evidence_stale'', ''sandbox_evidence_subject_mismatch'',
      ''sandbox_evidence_policy_mismatch'', ''sandbox_evidence_over_budget'',
      ''sandbox_evidence_duplicate'', ''sandbox_evidence_truncated'']"

definition decision_verdicts :: "string list" where
  "decision_verdicts = [''allow_limited'', ''warn'', ''quarantine'', ''block'', ''unknown'']"

definition decision_confidences :: "string list" where
  "decision_confidences = [''low'', ''medium'', ''high'', ''unknown'']"

definition decision_binding_kinds :: "string list" where
  "decision_binding_kinds =
     [''unbound'', ''path_bound'', ''commit_bound'', ''tree_bound'', ''snapshot_bound'', ''synthetic'']"

record gate_decision_result =
  gd_valid :: bool
  gd_blocking_errors :: "string list"
  gd_warnings :: "string list"
  gd_limitations :: "string list"
  gd_residual_risks :: "string list"

definition gate_decision_result_to_dict :: "gate_decision_result \<Rightarrow> dict" where
  "gate_decision_result_to_dict r =
     [(''valid'', JBool (gd_valid r)),
      (''blocking_errors'', jstrs (gd_blocking_errors r)),
      (''warnings'', jstrs (gd_warnings r)),
      (''limitations'', jstrs (gd_limitations r)),
      (''residual_risks'', jstrs (gd_residual_risks r))]"

section \<open>References to evidence\<close>

text \<open>\<open>_is_timestamp\<close>.\<close>

fun is_timestamp :: "json \<Rightarrow> bool" where
  "is_timestamp (JStr s) =
     (s \<noteq> [] \<and> (case fromisoformat (zulu s) of None \<Rightarrow> False | Some t \<Rightarrow> tz_us t \<noteq> None))"
| "is_timestamp _ = False"

text \<open>The \<open>reasons\<close> of a reference: a list of distinct strings of a closed vocabulary.\<close>

definition reasons_invalid :: "json \<Rightarrow> string list \<Rightarrow> bool" where
  "reasons_invalid reasons allowed =
     (case reasons of
        JList xs \<Rightarrow>
          length xs > length allowed
          \<or> \<not> list_all is_str xs
          \<or> \<not> distinct (list_strings xs)
          \<or> \<not> set (list_strings xs) \<subseteq> set allowed
      | _ \<Rightarrow> True)"

definition hex_object_id :: "json \<Rightarrow> bool" where
  "hex_object_id v =
     (case v of JStr s \<Rightarrow> length s \<in> {40, 64} \<and> list_all (\<lambda>c. c \<in> set ''0123456789abcdef'') s | _ \<Rightarrow> False)"

definition sandbox_ref_checks :: "dict \<Rightarrow> string list res list" where
  "sandbox_ref_checks ref =
     map (\<lambda>f. fail_if (dget ref f \<noteq> JNull \<and> \<not> is_fingerprint (dget ref f)) (''evidence_ref_'' @ f @ ''_invalid''))
       [''report_fingerprint'', ''gate_decision_fingerprint'']
     @ map (\<lambda>f. fail_if (\<not> is_fingerprint (dget ref f)) (''evidence_ref_'' @ f @ ''_invalid''))
         [''snapshot_id'', ''manifest_fingerprint'']
     @ [fail_if
          (case dget ref ''run_id'' of
             JNull \<Rightarrow> False
           | JStr s \<Rightarrow> s = [] \<or> 128 < length s \<or> \<not> list_all (\<lambda>c. is_alnum c \<or> c \<in> set ''._:-'') s
           | _ \<Rightarrow> True)
          ''evidence_ref_run_id_invalid'',
        fail_ifM (notin_strs (dget ref ''validation_status'') [''valid'', ''invalid''])
          ''evidence_ref_validation_status_invalid'',
        fail_if (reasons_invalid (dget ref ''reasons'') sandbox_evidence_ref_reasons)
          ''evidence_ref_reasons_invalid'']"

definition external_ref_subject_checks :: "json \<Rightarrow> string list res list" where
  "external_ref_subject_checks value =
     (case value of
        JObj subject \<Rightarrow>
          if \<not> keys_within subject evidence_ref_subject_fields then [Inr [''evidence_ref_subject_invalid'']]
          else if subject \<noteq> [] then
            [fail_if (dget subject ''repo_commit'' \<noteq> JNull \<and> \<not> hex_object_id (dget subject ''repo_commit''))
               ''evidence_ref_subject_repo_commit_invalid'',
             fail_ifM (notin_strs (dget subject ''dirty_state'') [''clean'', ''dirty'', ''unknown'', ''not_applicable''])
               ''evidence_ref_subject_dirty_state_invalid'']
          else []
      | _ \<Rightarrow> [Inr [''evidence_ref_subject_invalid'']])"

definition external_ref_checks :: "dict \<Rightarrow> string list res list" where
  "external_ref_checks ref =
     [fail_ifM (notin_vals (dget ref ''report_kind'') [JStr ''real_scanner_suite'', JNull])
        ''evidence_ref_report_kind_invalid'',
      fail_if (dget ref ''report_fingerprint'' \<noteq> JNull \<and> \<not> is_fingerprint (dget ref ''report_fingerprint''))
        ''evidence_ref_fingerprint_invalid'',
      fail_if (dget ref ''generated_at'' \<noteq> JNull \<and> \<not> is_timestamp (dget ref ''generated_at''))
        ''evidence_ref_generated_at_invalid'']
     @ external_ref_subject_checks (dget ref ''subject'')
     @ [fail_if (case dget ref ''size_bytes'' of JNull \<Rightarrow> False | JInt n \<Rightarrow> n < 0 | _ \<Rightarrow> True)
          ''evidence_ref_size_bytes_invalid'',
        fail_if (\<not> is_bool (dget ref ''truncated'')) ''evidence_ref_truncated_invalid'',
        fail_ifM (notin_strs (dget ref ''validation_status'') [''valid'', ''invalid''])
          ''evidence_ref_validation_status_invalid'',
        fail_if (reasons_invalid (dget ref ''reasons'') evidence_ref_reasons)
          ''evidence_ref_reasons_invalid'']"

definition evidence_ref_checks :: "json \<Rightarrow> string list res list" where
  "evidence_ref_checks item =
     (case item of
        JObj ref \<Rightarrow>
          if dget ref ''report_kind'' = JStr ''sandbox_run''
          then mapping_errors item sandbox_evidence_ref_fields ''evidence_ref'' # sandbox_ref_checks ref
          else mapping_errors item external_evidence_ref_fields ''evidence_ref'' # external_ref_checks ref
      | _ \<Rightarrow> [Inr [''evidence_ref_must_be_object'']])"

definition validate_evidence_refs :: "json \<Rightarrow> string list res list" where
  "validate_evidence_refs value =
     (case value of
        JList items \<Rightarrow>
          if items = [] \<or> 16 < length items then [Inr [''evidence_refs_invalid'']]
          else concat (map evidence_ref_checks items)
      | _ \<Rightarrow> [Inr [''evidence_refs_invalid'']])"

section \<open>validate_gate_decision\<close>

definition decision_top_checks :: "dict \<Rightarrow> string list res list" where
  "decision_top_checks data =
     [fail_if (\<not> keys_include data decision_required_fields \<or> \<not> keys_within data decision_top_level_fields)
        ''gate_decision_top_level_required_or_unknown_field'',
      fail_if (dget data ''schema_version'' \<noteq> JStr ''0.1-draft'') ''gate_decision_schema_version_unsupported'',
      fail_if (dget data ''decision_kind'' \<noteq> JStr ''repo_health_gate_decision'') ''decision_kind_unsupported'',
      fail_ifM (notin_strs (dget data ''verdict'') decision_verdicts) ''verdict_invalid'',
      fail_if (\<not> is_false (dget data ''execution_authorized'')) ''execution_authorized_must_be_false'',
      fail_ifM (notin_strs (dget data ''confidence'') decision_confidences) ''confidence_invalid'',
      fail_if (\<not> nonempty_str (dget data ''confidence_reason'')) ''confidence_reason_required'']"

definition decision_explanation_checks :: "dict \<Rightarrow> string list res list" where
  "decision_explanation_checks explanation =
     [fail_if (\<not> nonempty_str (dget explanation ''summary'')) ''explanation_summary_required'',
      fail_if (string_items (dget explanation ''key_reasons'') = []) ''explanation_key_reasons_required'',
      fail_if (string_items (dget explanation ''next_actions'') = []) ''explanation_next_actions_required'']"

definition decision_subject_shape :: "json \<Rightarrow> string list res" where
  "decision_subject_shape value =
     (case value of
        JObj subject \<Rightarrow>
          fail_if (\<not> keys_eq subject decision_legacy_subject_fields \<and> \<not> keys_eq subject decision_subject_fields)
            ''subject_required_or_unknown_field''
      | _ \<Rightarrow> Inr [''subject_must_be_object''])"

definition decision_subject_checks :: "dict \<Rightarrow> string list res list" where
  "decision_subject_checks subject =
     [fail_if (\<not> nonempty_str (dget subject ''repo'')) ''subject_repo_required'',
      fail_ifM (notin_strs (dget subject ''binding_kind'') decision_binding_kinds) ''subject_binding_kind_invalid'']
     @ (if dget subject ''binding_kind'' = JStr ''snapshot_bound''
        then [fail_if (\<not> is_fingerprint (dget subject ''snapshot_id'')) ''subject_snapshot_id_invalid'',
              fail_if (\<not> is_fingerprint (dget subject ''manifest_fingerprint''))
                ''subject_manifest_fingerprint_invalid'']
        else [])"

definition decision_summary_checks :: "dict \<Rightarrow> string list res list" where
  "decision_summary_checks summary =
     fail_ifM (res_or (Inr (\<not> is_int (dget summary ''findings_count''))) (py_lt (dget summary ''findings_count'') 0))
       ''evidence_summary_findings_count_invalid''
     # map (\<lambda>f. fail_if (\<not> is_list (dget summary f)) (''evidence_summary_'' @ f @ ''_must_be_array''))
         [''blocking_evidence'', ''warning_evidence'', ''missing_evidence'', ''degraded_observers'']"

definition decision_checks :: "dict \<Rightarrow> string list res list" where
  "decision_checks data =
     decision_top_checks data
     @ mapping_errors (dget data ''explanation'') explanation_fields ''explanation''
     # when_some (opt_mapping (dget data ''explanation'')) decision_explanation_checks
     @ decision_subject_shape (dget data ''subject'')
     # when_some (opt_mapping (dget data ''subject'')) decision_subject_checks
     @ mapping_errors (dget data ''evidence_summary'') evidence_summary_fields ''evidence_summary''
     # when_some (opt_mapping (dget data ''evidence_summary'')) decision_summary_checks
     @ mapping_errors (dget data ''policy'') decision_policy_fields ''policy''
     # when_some (opt_mapping (dget data ''policy''))
         (\<lambda>policy. [fail_if (\<not> is_bool (dget policy ''fail_closed'')) ''policy_fail_closed_must_be_boolean''])
     @ (if has_key data ''evidence_refs'' then validate_evidence_refs (dget data ''evidence_refs'') else [])
     @ [fail_if (\<not> is_list (dget data ''required_actions'')) ''required_actions_must_be_array'',
        fail_if (string_items (dget data ''limitations'') = []) ''limitations_empty'',
        fail_if (\<not> is_list (dget data ''residual_risks'')) ''residual_risks_must_be_array'']"

definition decision_warnings :: "dict \<Rightarrow> string list" where
  "decision_warnings data =
     (if dget data ''verdict'' = JStr ''allow_limited'' \<and> is_false (dget data ''execution_authorized'')
      then [''allow_limited_is_not_execution_authorization''] else [])
     @ (if truthy (dget (sect data ''evidence_summary'') ''missing_evidence'')
        then [''missing_evidence_present''] else [])
     @ (if dget (sect data ''subject'') ''binding_kind'' = JStr ''unbound''
        then [''gate_decision_subject_unbound''] else [])"

definition validate_gate_decision :: "json \<Rightarrow> gate_decision_result res" where
  "validate_gate_decision value =
     (case value of
        JObj data \<Rightarrow>
          res_map (\<lambda>errors.
             \<lparr>gd_valid = (errors = []),
              gd_blocking_errors = dedupe errors,
              gd_warnings = dedupe (decision_warnings data),
              gd_limitations = string_items (dget data ''limitations''),
              gd_residual_risks = string_items (dget data ''residual_risks'')\<rparr>)
            (collect (decision_checks data))
      | _ \<Rightarrow>
          Inr \<lparr>gd_valid = False,
               gd_blocking_errors = [''gate_decision_must_be_object''],
               gd_warnings = [],
               gd_limitations = [],
               gd_residual_risks = [''invalid_gate_decision_input'']\<rparr>)"

section \<open>What a valid decision guarantees\<close>

definition decision_contract :: "dict \<Rightarrow> bool" where
  "decision_contract data \<longleftrightarrow>
     dget data ''execution_authorized'' = JBool False
     \<and> (\<exists>v\<in>set decision_verdicts. dget data ''verdict'' = JStr v)
     \<and> string_items (dget data ''limitations'') \<noteq> []
     \<and> string_items (dget (sect data ''explanation'') ''key_reasons'') \<noteq> []
     \<and> nonempty_str (dget (sect data ''subject'') ''repo'')
     \<and> (\<exists>k\<in>set decision_binding_kinds. dget (sect data ''subject'') ''binding_kind'' = JStr k)
     \<and> (dget (sect data ''subject'') ''binding_kind'' = JStr ''snapshot_bound'' \<longrightarrow>
          is_fingerprint (dget (sect data ''subject'') ''snapshot_id'')
          \<and> is_fingerprint (dget (sect data ''subject'') ''manifest_fingerprint''))
     \<and> (has_key data ''evidence_refs'' \<longrightarrow>
          (\<exists>refs. dget data ''evidence_refs'' = JList refs \<and> refs \<noteq> [] \<and> length refs \<le> 16
             \<and> (\<forall>r\<in>set refs. \<exists>d. r = JObj d
                  \<and> (keys_eq d sandbox_evidence_ref_fields \<or> keys_eq d external_evidence_ref_fields)
                  \<and> (dget d ''report_fingerprint'' = JNull \<or> is_fingerprint (dget d ''report_fingerprint'')))))"

lemma valid_decision_checks:
  assumes "validate_gate_decision v = Inr r" and "gd_valid r"
  obtains data where "v = JObj data" and "\<forall>c\<in>set (decision_checks data). c = Inr []"
proof (cases v)
  case (JObj data)
  with assms have "collect (decision_checks data) = Inr []"
    by (auto simp: validate_gate_decision_def res_map_Inr_iff)
  with JObj that show thesis by (simp add: collect_Nil_iff)
qed (use assms in \<open>auto simp: validate_gate_decision_def\<close>)

lemma passed_evidence_ref:
  assumes "\<forall>c\<in>set (evidence_ref_checks item). c = Inr []"
  shows "\<exists>d. item = JObj d
     \<and> (keys_eq d sandbox_evidence_ref_fields \<or> keys_eq d external_evidence_ref_fields)
     \<and> (dget d ''report_fingerprint'' = JNull \<or> is_fingerprint (dget d ''report_fingerprint''))"
proof (cases item)
  case (JObj d)
  with assms show ?thesis
    by (cases "dget d ''report_kind'' = JStr ''sandbox_run''")
      (auto simp: evidence_ref_checks_def sandbox_ref_checks_def external_ref_checks_def)
qed (use assms in \<open>auto simp: evidence_ref_checks_def\<close>)

lemma passed_evidence_refs:
  assumes "\<forall>c\<in>set (validate_evidence_refs v). c = Inr []"
  shows "\<exists>refs. v = JList refs \<and> refs \<noteq> [] \<and> length refs \<le> 16
     \<and> (\<forall>r\<in>set refs. \<exists>d. r = JObj d
          \<and> (keys_eq d sandbox_evidence_ref_fields \<or> keys_eq d external_evidence_ref_fields)
          \<and> (dget d ''report_fingerprint'' = JNull \<or> is_fingerprint (dget d ''report_fingerprint'')))"
proof (cases v)
  case (JList items)
  with assms have n: "items \<noteq> []" "length items \<le> 16"
    by (auto simp: validate_evidence_refs_def split: if_splits)
  with assms JList have "\<forall>c\<in>set (evidence_ref_checks r). c = Inr []" if "r \<in> set items" for r
    using that by (fastforce simp: validate_evidence_refs_def)
  with JList n passed_evidence_ref show ?thesis by blast
qed (use assms in \<open>auto simp: validate_evidence_refs_def\<close>)

lemma passed_decision_contract:
  assumes "\<forall>c\<in>set (decision_checks data). c = Inr []"
  shows "decision_contract data"
proof -
  have shape: "decision_subject_shape v = Inr [] \<Longrightarrow> \<exists>d. v = JObj d" for v
    by (cases v) (auto simp: decision_subject_shape_def)
  from assms obtain ex su where ex: "dget data ''explanation'' = JObj ex" and su: "dget data ''subject'' = JObj su"
    unfolding decision_checks_def all_append_checks by (auto dest: shape)
  from assms have top: "\<forall>c\<in>set (decision_top_checks data). c = Inr []"
    and exs: "\<forall>c\<in>set (decision_explanation_checks ex). c = Inr []"
    and sus: "\<forall>c\<in>set (decision_subject_checks su). c = Inr []"
    and refs: "has_key data ''evidence_refs'' \<Longrightarrow>
      \<forall>c\<in>set (validate_evidence_refs (dget data ''evidence_refs'')). c = Inr []"
    and lim: "string_items (dget data ''limitations'') \<noteq> []"
    unfolding decision_checks_def all_append_checks by (auto simp: ex su)
  from sus have "dget su ''binding_kind'' = JStr ''snapshot_bound'' \<Longrightarrow>
      is_fingerprint (dget su ''snapshot_id'') \<and> is_fingerprint (dget su ''manifest_fingerprint'')"
    by (simp add: decision_subject_checks_def)
  with top exs sus lim passed_evidence_refs [OF refs] show ?thesis
    by (simp add: decision_contract_def sect_def ex su decision_top_checks_def
        decision_explanation_checks_def decision_subject_checks_def is_false_def)
qed

section \<open>Properties\<close>

definition sample_decision :: dict where
  "sample_decision =
     [(''decision_kind'', JStr ''repo_health_gate_decision''), (''schema_version'', JStr ''0.1-draft''),
      (''subject'', JObj [(''repo'', JStr ''<repo>''), (''commit'', JNull), (''tree_hash'', JNull),
        (''binding_kind'', JStr ''snapshot_bound''), (''snapshot_id'', JStr sample_fingerprint),
        (''manifest_fingerprint'', JStr sample_fingerprint)]),
      (''verdict'', JStr ''warn''), (''execution_authorized'', JBool False),
      (''confidence'', JStr ''low''), (''confidence_reason'', JStr ''r''),
      (''explanation'', JObj [(''summary'', JStr ''s''), (''key_reasons'', jstrs [''k'']),
        (''next_actions'', jstrs [''n''])]),
      (''evidence_summary'', JObj [(''findings_count'', JInt 1), (''blocking_evidence'', JList []),
        (''warning_evidence'', jstrs [''e1'']), (''missing_evidence'', JList []), (''degraded_observers'', JList [])]),
      (''required_actions'', JList []), (''limitations'', jstrs [''scoped'']),
      (''policy'', JObj [(''policy_version'', JStr ''0.1''), (''fail_closed'', JBool True)]),
      (''residual_risks'', JList []),
      (''evidence_refs'', JList [JObj [(''report_kind'', JStr ''sandbox_run''), (''report_fingerprint'', JStr sample_fingerprint),
        (''run_id'', JStr ''run1''), (''gate_decision_fingerprint'', JNull), (''snapshot_id'', JStr sample_fingerprint),
        (''manifest_fingerprint'', JStr sample_fingerprint), (''validation_status'', JStr ''valid''), (''reasons'', JList [])]])]"

lemma sample_decision_valid:
  "validate_gate_decision (JObj sample_decision) =
     Inr \<lparr>gd_valid = True, gd_blocking_errors = [], gd_warnings = [],
          gd_limitations = [''scoped''], gd_residual_risks = []\<rparr>"
  by code_simp

text \<open>a gate decision that \<open>validate_gate_decision\<close> accepts never authorizes execution, has a
  verdict of the vocabulary, names limitations and reasons, is bound to a subject (with
  well-formed fingerprints when it claims a verified snapshot), and refers to at most sixteen
  pieces of evidence, each in one of the two closed shapes.\<close>

theorem valid_gate_decision_contract:
  assumes "validate_gate_decision v = Inr r" and "gd_valid r"
  shows "\<exists>data. v = JObj data \<and> decision_contract data \<and> gd_limitations r \<noteq> []"
proof -
  from assms obtain data where v: "v = JObj data" and all: "\<forall>c\<in>set (decision_checks data). c = Inr []"
    by (rule valid_decision_checks)
  from passed_decision_contract [OF all] have c: "decision_contract data" .
  moreover have "gd_limitations r = string_items (dget data ''limitations'')"
    using assms(1) unfolding v validate_gate_decision_def json.case res_map_Inr_iff by auto
  ultimately show ?thesis using v by (simp add: decision_contract_def)
qed

theorem valid_gate_decision_contract_witness:
  "decision_contract sample_decision"
  using valid_gate_decision_contract [OF sample_decision_valid] by simp

end
