(* ===== verification/Suite_Check.thy ===== *)
theory Suite_Check
  imports Gate_Check
begin

text \<open>
  \<open>gate/external_evidence.py\<close>: the validator of a scanner-suite report that a caller offers as
  evidence.  The clock (\<open>now\<close>), the expected subject, the budgets, the size measured before
  parsing and the fingerprints already seen are arguments.  A report is a JSON value, so
  \<open>json.dumps\<close> does not fail on it.  Ages are compared in microseconds: the \<open>float\<close> that
  \<open>total_seconds()\<close> returns compares the same way with any limit below \<open>2 ^ 32\<close> seconds.
\<close>

section \<open>Vocabulary\<close>

definition suite_max_bytes :: int where "suite_max_bytes = 262144"
definition suite_max_age_seconds :: int where "suite_max_age_seconds = 86400"
definition suite_max_future_skew_seconds :: int where "suite_max_future_skew_seconds = 300"

definition suite_top_level_fields :: "string list" where
  "suite_top_level_fields =
     [''schema_version'', ''report_kind'', ''suite_status'', ''entries'', ''limitations'',
      ''execution_authorized'', ''report_fingerprint'', ''generated_at'', ''subject'']"

definition suite_entry_fields :: "string list" where
  "suite_entry_fields =
     [''scanner_name'', ''executed'', ''valid'', ''status'', ''blocking_errors'', ''warnings'',
      ''risk_summary'', ''normalized_result'', ''finding_count'', ''omitted_finding_count'', ''truncated'']"

definition risk_summary_fields :: "string list" where
  "risk_summary_fields =
     [''outcome'', ''highest_risk_tier_effect'', ''risk_tier_effect'', ''gate_effects'', ''risk_lowering_allowed'']"

definition suite_subject_fields :: "string list" where
  "suite_subject_fields = [''repo_commit'', ''dirty_state'']"

definition entry_statuses :: "string list" where
  "entry_statuses = [''completed'', ''unknown'', ''skipped_offline'']"

definition dirty_states :: "string list" where
  "dirty_states = [''clean'', ''dirty'', ''unknown'', ''not_applicable'']"

definition git_commit_rx :: rx where
  "git_commit_rx = Alt (rx_times 40 (Cls is_hex_lower)) (rx_times 64 (Cls is_hex_lower))"

definition git_commit_text :: "string \<Rightarrow> bool" where
  "git_commit_text s = rx_fullmatch git_commit_rx s"

lemma git_commit_text_code [code]:
  "git_commit_text s \<longleftrightarrow> (length s = 40 \<or> length s = 64) \<and> list_all is_hex_lower s"
  by (auto simp: git_commit_text_def git_commit_rx_def rx_fullmatch_lang rx_lang_times_cls list_all_iff)

fun is_git_commit :: "json \<Rightarrow> bool" where
  "is_git_commit (JStr s) = git_commit_text s" | "is_git_commit _ = False"

record suite_validation =
  sv_valid :: bool
  sv_status :: string
  sv_reasons :: "string list"
  sv_validation_errors :: "string list"
  sv_evidence_ref :: dict

definition suite_validation_to_dict :: "suite_validation \<Rightarrow> dict" where
  "suite_validation_to_dict v =
     [(''valid'', JBool (sv_valid v)),
      (''status'', JStr (sv_status v)),
      (''reasons'', jstrs (sv_reasons v)),
      (''validation_errors'', jstrs (sv_validation_errors v)),
      (''evidence_ref'', JObj (sv_evidence_ref v))]"

section \<open>Helpers\<close>

definition external_suite_report_fingerprint :: "dict \<Rightarrow> string" where
  "external_suite_report_fingerprint report = canonical_fingerprint (JObj (dpop report ''report_fingerprint''))"

text \<open>\<open>_parse_generated_at\<close>: the conversion to UTC is outside the \<open>try\<close>, so an instant outside the
  calendar raises \<open>OverflowError\<close>.\<close>

fun parse_generated_at :: "json \<Rightarrow> int option res" where
  "parse_generated_at (JStr s) =
     (if s = [] then Inr None
      else (case fromisoformat (zulu s) of
              None \<Rightarrow> Inr None
            | Some t \<Rightarrow>
                if tz_us t = None then Inr None
                else (case astimezone_utc t of None \<Rightarrow> Inl OverflowError | Some u \<Rightarrow> Inr (Some u))))"
| "parse_generated_at _ = Inr None"

definition current_instant :: "datetime \<Rightarrow> int res" where
  "current_instant now =
     (if tz_us now = None then Inr (instant now)
      else (case astimezone_utc now of None \<Rightarrow> Inl OverflowError | Some u \<Rightarrow> Inr u))"

definition string_list :: "json \<Rightarrow> bool" where
  "string_list v = strs_only v"

definition nonempty_string_list :: "json \<Rightarrow> bool" where
  "nonempty_string_list v \<longleftrightarrow> string_list v \<and> truthy v \<and> list_all truthy (case v of JList xs \<Rightarrow> xs | _ \<Rightarrow> [])"

text \<open>\<open>isinstance(x, int) and not isinstance(x, bool)\<close>.\<close>

fun strict_int :: "json \<Rightarrow> int option" where
  "strict_int (JInt i) = Some i" | "strict_int _ = None"

section \<open>Shape\<close>

definition entry_risk_summary_checks :: "json \<Rightarrow> string list res list" where
  "entry_risk_summary_checks value =
     (case value of
        JObj d \<Rightarrow>
          fail_if (\<not> keys_eq d risk_summary_fields) ''entry_risk_summary_required_or_unknown_field''
          # map (\<lambda>f. fail_if (\<not> is_str (dget d f)) (''entry_risk_summary_'' @ f @ ''_invalid''))
              [''outcome'', ''highest_risk_tier_effect'', ''risk_tier_effect'']
          @ [fail_if (\<not> string_list (dget d ''gate_effects'')) ''entry_risk_summary_gate_effects_invalid'',
             fail_if (\<not> is_false (dget d ''risk_lowering_allowed'')) ''entry_risk_lowering_allowed_must_be_false'']
      | _ \<Rightarrow> [Inr [''entry_risk_summary_must_be_object'']])"

definition validate_entry :: "json \<Rightarrow> string list res list" where
  "validate_entry value =
     (case value of
        JObj d \<Rightarrow>
          [fail_if (\<not> keys_eq d suite_entry_fields) ''entry_required_or_unknown_field'',
           fail_if (\<not> nonempty_str (dget d ''scanner_name'')) ''entry_scanner_name_invalid'']
          @ map (\<lambda>f. fail_if (\<not> is_bool (dget d f)) (''entry_'' @ f @ ''_must_be_boolean''))
              [''executed'', ''valid'', ''truncated'']
          @ [fail_ifM (notin_strs (dget d ''status'') entry_statuses) ''entry_status_invalid'']
          @ map (\<lambda>f. fail_if (\<not> string_list (dget d f)) (''entry_'' @ f @ ''_invalid''))
              [''blocking_errors'', ''warnings'']
          @ map (\<lambda>f. fail_if (case strict_int (dget d f) of None \<Rightarrow> True | Some i \<Rightarrow> i < 0) (''entry_'' @ f @ ''_invalid''))
              [''finding_count'', ''omitted_finding_count'']
          @ [fail_if (\<not> is_obj (dget d ''normalized_result'')) ''entry_normalized_result_must_be_object'']
          @ entry_risk_summary_checks (dget d ''risk_summary'')
          @ [fail_if ((case strict_int (dget d ''omitted_finding_count'') of None \<Rightarrow> False | Some i \<Rightarrow> 0 < i)
                      \<and> \<not> is_true (dget d ''truncated'')) ''entry_truncation_inconsistent'']
      | _ \<Rightarrow> [Inr [''entry_must_be_object'']])"

definition suite_subject_checks :: "json \<Rightarrow> string list res list" where
  "suite_subject_checks value =
     (case value of
        JObj d \<Rightarrow>
          [fail_if (\<not> keys_eq d suite_subject_fields) ''subject_required_or_unknown_field'',
           fail_if (dget d ''repo_commit'' \<noteq> JNull \<and> \<not> is_git_commit (dget d ''repo_commit''))
             ''subject_repo_commit_invalid'',
           fail_ifM (notin_strs (dget d ''dirty_state'') dirty_states) ''subject_dirty_state_invalid'']
      | _ \<Rightarrow> [Inr [''subject_must_be_object'']])"

definition suite_shape_checks :: "dict \<Rightarrow> string list res list" where
  "suite_shape_checks data =
     [fail_if (\<not> keys_eq data suite_top_level_fields) ''schema_top_level_required_or_unknown_field'',
      fail_if (dget data ''schema_version'' \<noteq> JStr ''0.1-draft'') ''schema_version_unsupported'',
      fail_if (dget data ''report_kind'' \<noteq> JStr ''real_scanner_suite'') ''report_kind_unsupported'',
      fail_ifM (notin_strs (dget data ''suite_status'') [''completed'', ''degraded'']) ''suite_status_invalid'',
      fail_if (\<not> is_false (dget data ''execution_authorized'')) ''execution_authorized_must_be_false'',
      fail_if (\<not> is_fingerprint (dget data ''report_fingerprint'')) ''report_fingerprint_invalid'',
      fail_ifM (res_map (\<lambda>t. t = None) (parse_generated_at (dget data ''generated_at''))) ''generated_at_invalid'',
      fail_if (\<not> nonempty_string_list (dget data ''limitations'')) ''limitations_invalid'']
     @ suite_subject_checks (dget data ''subject'')
     @ (case dget data ''entries'' of
          JList entries \<Rightarrow> concat (map validate_entry entries)
        | _ \<Rightarrow> [Inr [''entries_must_be_array'']])"

section \<open>Subject, truncation, reference\<close>

definition subject_matches :: "dict \<Rightarrow> dict \<Rightarrow> bool" where
  "subject_matches actual expected \<longleftrightarrow>
     list_all (\<lambda>f. has_key expected f \<longrightarrow> py_eq (dget actual f) (dget expected f)) suite_subject_fields"

definition entry_truncated :: "json \<Rightarrow> bool" where
  "entry_truncated entry =
     (case entry of
        JObj d \<Rightarrow> is_true (dget d ''truncated'')
          \<or> (case strict_int (dget d ''omitted_finding_count'') of None \<Rightarrow> False | Some i \<Rightarrow> 0 < i)
      | _ \<Rightarrow> False)"

definition suite_is_truncated :: "dict option \<Rightarrow> bool res" where
  "suite_is_truncated data =
     (case data of
        None \<Rightarrow> Inr False
      | Some d \<Rightarrow>
          res_or (case dget d ''limitations'' of
                    JList xs \<Rightarrow> anyM (\<lambda>x. in_strs x [''report_truncated'', ''report_byte_budget_exceeded'']) xs
                  | _ \<Rightarrow> Inr False)
            (Inr (case dget d ''entries'' of JList es \<Rightarrow> list_ex entry_truncated es | _ \<Rightarrow> False)))"

definition bounded_subject :: "json \<Rightarrow> dict res" where
  "bounded_subject subject =
     (case subject of
        JObj d \<Rightarrow>
          res_map (\<lambda>ok. if ok then [(''repo_commit'', dget d ''repo_commit''), (''dirty_state'', dget d ''dirty_state'')]
                         else [])
            (res_and (Inr (dget d ''repo_commit'' = JNull \<or> is_git_commit (dget d ''repo_commit'')))
              (in_strs (dget d ''dirty_state'') dirty_states))
      | _ \<Rightarrow> Inr [])"

definition suite_evidence_ref ::
  "dict option \<Rightarrow> json \<Rightarrow> int option \<Rightarrow> int \<Rightarrow> bool \<Rightarrow> string \<Rightarrow> string list \<Rightarrow> dict res" where
  "suite_evidence_ref report claimed generated_at encoded_size truncated status reasons =
     res_map (\<lambda>subject.
       [(''report_kind'',
         (case report of
            Some d \<Rightarrow> if dget d ''report_kind'' = JStr ''real_scanner_suite'' then JStr ''real_scanner_suite'' else JNull
          | None \<Rightarrow> JNull)),
        (''report_fingerprint'', if is_fingerprint claimed then claimed else JNull),
        (''generated_at'', (case generated_at of None \<Rightarrow> JNull | Some u \<Rightarrow> JStr (isoformat_utc u))),
        (''subject'', JObj subject),
        (''size_bytes'', JInt encoded_size),
        (''truncated'', JBool truncated),
        (''validation_status'', JStr status),
        (''reasons'', jstrs reasons)])
      (bounded_subject (case report of None \<Rightarrow> JNull | Some d \<Rightarrow> dget d ''subject''))"

section \<open>validate_external_suite_evidence\<close>

definition suite_arguments :: "int \<Rightarrow> int \<Rightarrow> json \<Rightarrow> unit res" where
  "suite_arguments max_age max_bytes src_size =
     (if max_age \<le> 0 \<or> max_bytes \<le> 0 then Inl ValueError
      else if src_size \<noteq> JNull \<and> (case strict_int src_size of None \<Rightarrow> True | Some n \<Rightarrow> n < 0) then Inl ValueError
      else Inr ())"

text \<open>The report's size: as given, or that of the compact JSON text.\<close>

definition encoded_size_of :: "json \<Rightarrow> json \<Rightarrow> int" where
  "encoded_size_of data src_size =
     (case strict_int src_size of Some n \<Rightarrow> n | None \<Rightarrow> int (length (dumps data)))"

definition fingerprint_mismatch :: "dict option \<Rightarrow> json \<Rightarrow> bool" where
  "fingerprint_mismatch report claimed =
     (case report of
        None \<Rightarrow> False
      | Some d \<Rightarrow> is_fingerprint claimed \<and> claimed \<noteq> JStr (external_suite_report_fingerprint d))"

definition suite_reasons :: "bool \<Rightarrow> bool \<Rightarrow> bool \<Rightarrow> bool \<Rightarrow> bool \<Rightarrow> bool \<Rightarrow> bool \<Rightarrow> string list" where
  "suite_reasons errors mismatch stale subject_mismatch over_budget duplicate truncated =
     (if errors \<or> mismatch then [''external_evidence_invalid''] else [])
     @ (if mismatch then [''external_evidence_fingerprint_mismatch''] else [])
     @ (if stale then [''external_evidence_stale''] else [])
     @ (if subject_mismatch then [''external_evidence_subject_mismatch''] else [])
     @ (if over_budget then [''external_evidence_over_budget''] else [])
     @ (if duplicate then [''external_evidence_duplicate''] else [])
     @ (if truncated then [''external_evidence_truncated''] else [])"

definition suite_stale :: "int \<Rightarrow> int \<Rightarrow> int option \<Rightarrow> bool" where
  "suite_stale current max_age generated_at =
     (case generated_at of None \<Rightarrow> False | Some g \<Rightarrow> max_age * 1000000 < current - g)"

definition suite_in_future :: "int \<Rightarrow> int option \<Rightarrow> bool" where
  "suite_in_future current generated_at =
     (case generated_at of None \<Rightarrow> False | Some g \<Rightarrow> current - g < - (suite_max_future_skew_seconds * 1000000))"

definition suite_subject_mismatch :: "dict option \<Rightarrow> json \<Rightarrow> bool" where
  "suite_subject_mismatch expected subject =
     (case expected of
        None \<Rightarrow> False
      | Some e \<Rightarrow> (case subject of JObj d \<Rightarrow> \<not> subject_matches d e | _ \<Rightarrow> True))"

definition suite_result ::
  "json \<Rightarrow> dict option \<Rightarrow> int \<Rightarrow> int \<Rightarrow> json \<Rightarrow> string list \<Rightarrow> string list \<Rightarrow> int \<Rightarrow> int option \<Rightarrow> bool
   \<Rightarrow> suite_validation res" where
  "suite_result data expected max_age max_bytes src_size seen shape_errors current generated_at truncated =
     (let report = opt_mapping data;
          claimed = (case report of None \<Rightarrow> JNull | Some d \<Rightarrow> dget d ''report_fingerprint'');
          subject = (case report of None \<Rightarrow> JNull | Some d \<Rightarrow> dget d ''subject'');
          size = encoded_size_of data src_size;
          errors = shape_errors @ (if suite_in_future current generated_at then [''generated_at_in_future''] else []);
          duplicate = (case claimed of JStr s \<Rightarrow> fingerprint_text s \<and> s \<in> set seen | _ \<Rightarrow> False);
          reasons = dedupe (suite_reasons (errors \<noteq> []) (fingerprint_mismatch report claimed)
                              (suite_stale current max_age generated_at)
                              (suite_subject_mismatch expected subject)
                              (max_bytes < size) duplicate truncated);
          status = (if reasons = [] then ''valid'' else ''invalid'') in
      res_map (\<lambda>ref.
        \<lparr>sv_valid = (reasons = []), sv_status = status, sv_reasons = reasons,
         sv_validation_errors = dedupe errors, sv_evidence_ref = ref\<rparr>)
        (suite_evidence_ref report claimed generated_at size truncated status reasons))"

definition validate_external_suite_evidence ::
  "json \<Rightarrow> dict option \<Rightarrow> datetime \<Rightarrow> int \<Rightarrow> int \<Rightarrow> json \<Rightarrow> string list \<Rightarrow> suite_validation res" where
  "validate_external_suite_evidence data expected now max_age max_bytes src_size seen =
     res_bind (suite_arguments max_age max_bytes src_size) (\<lambda>_.
     res_bind (case data of JObj d \<Rightarrow> collect (suite_shape_checks d) | _ \<Rightarrow> Inr [''schema_input_must_be_object'']) (\<lambda>shape_errors.
     res_bind (current_instant now) (\<lambda>current.
     res_bind (parse_generated_at (case data of JObj d \<Rightarrow> dget d ''generated_at'' | _ \<Rightarrow> JNull)) (\<lambda>generated_at.
     res_bind (suite_is_truncated (opt_mapping data)) (\<lambda>truncated.
       suite_result data expected max_age max_bytes src_size seen shape_errors current generated_at truncated)))))"

section \<open>What a valid suite report guarantees\<close>

definition suite_contract :: "dict \<Rightarrow> dict option \<Rightarrow> int \<Rightarrow> int \<Rightarrow> int \<Rightarrow> string list \<Rightarrow> bool" where
  "suite_contract d expected current max_age size_limit seen \<longleftrightarrow>
     dget d ''execution_authorized'' = JBool False
     \<and> dget d ''report_fingerprint'' = JStr (external_suite_report_fingerprint d)
     \<and> external_suite_report_fingerprint d \<notin> set seen
     \<and> (\<exists>g. parse_generated_at (dget d ''generated_at'') = Inr (Some g)
          \<and> - 300000000 \<le> current - g \<and> current - g \<le> max_age * 1000000)
     \<and> (\<forall>e. expected = Some e \<longrightarrow> (\<exists>s. dget d ''subject'' = JObj s \<and> subject_matches s e))
     \<and> (\<forall>entry\<in>set (case dget d ''entries'' of JList es \<Rightarrow> es | _ \<Rightarrow> []).
          \<exists>x. entry = JObj x \<and> dget x ''truncated'' = JBool False \<and> dget x ''omitted_finding_count'' = JInt 0
            \<and> (\<exists>rs. dget x ''risk_summary'' = JObj rs \<and> dget rs ''risk_lowering_allowed'' = JBool False))"

lemma suite_reasons_Nil:
  "suite_reasons e m st sm ob du tr = [] \<longleftrightarrow> \<not> e \<and> \<not> m \<and> \<not> st \<and> \<not> sm \<and> \<not> ob \<and> \<not> du \<and> \<not> tr"
  by (simp add: suite_reasons_def)

lemma valid_suite_run:
  assumes "validate_external_suite_evidence data expected now max_age max_bytes src_size seen = Inr r"
    and "sv_valid r"
  obtains d current g where "data = JObj d" and "current_instant now = Inr current"
    and "parse_generated_at (dget d ''generated_at'') = Inr g"
    and "suite_is_truncated (Some d) = Inr False"
    and "\<forall>c\<in>set (suite_shape_checks d). c = Inr []"
    and "\<not> suite_in_future current g" and "\<not> suite_stale current max_age g"
    and "\<not> fingerprint_mismatch (Some d) (dget d ''report_fingerprint'')"
    and "\<not> suite_subject_mismatch expected (dget d ''subject'')"
    and "encoded_size_of data src_size \<le> max_bytes"
    and "\<forall>s. dget d ''report_fingerprint'' = JStr s \<longrightarrow> \<not> (fingerprint_text s \<and> s \<in> set seen)"
proof -
  from assms(1) obtain sh current g tr where
    sh: "(case data of JObj d \<Rightarrow> collect (suite_shape_checks d) | _ \<Rightarrow> Inr [''schema_input_must_be_object'']) = Inr sh"
    and cur: "current_instant now = Inr current"
    and g: "parse_generated_at (case data of JObj d \<Rightarrow> dget d ''generated_at'' | _ \<Rightarrow> JNull) = Inr g"
    and tr: "suite_is_truncated (opt_mapping data) = Inr tr"
    and res: "suite_result data expected max_age max_bytes src_size seen sh current g tr = Inr r"
    unfolding validate_external_suite_evidence_def res_bind_Inr_iff by blast
  let ?report = "opt_mapping data"
  let ?claimed = "case ?report of None \<Rightarrow> JNull | Some d \<Rightarrow> dget d ''report_fingerprint''"
  let ?subject = "case ?report of None \<Rightarrow> JNull | Some d \<Rightarrow> dget d ''subject''"
  let ?errors = "sh @ (if suite_in_future current g then [''generated_at_in_future''] else [])"
  from res assms(2) have "suite_reasons (?errors \<noteq> []) (fingerprint_mismatch ?report ?claimed)
      (suite_stale current max_age g) (suite_subject_mismatch expected ?subject)
      (max_bytes < encoded_size_of data src_size)
      (case ?claimed of JStr s \<Rightarrow> fingerprint_text s \<and> s \<in> set seen | _ \<Rightarrow> False) tr = []"
    unfolding suite_result_def Let_def res_map_Inr_iff
    by (elim exE conjE) (simp only: suite_validation.select_convs dedupe_Nil_iff)
  then have nil: "?errors = []" "\<not> fingerprint_mismatch ?report ?claimed" "\<not> suite_stale current max_age g"
    "\<not> suite_subject_mismatch expected ?subject" "\<not> max_bytes < encoded_size_of data src_size"
    "\<not> (case ?claimed of JStr s \<Rightarrow> fingerprint_text s \<and> s \<in> set seen | _ \<Rightarrow> False)" "\<not> tr"
    unfolding suite_reasons_Nil by blast+
  from nil(1) have future: "\<not> suite_in_future current g" and "sh = []" by (auto split: if_splits)
  with sh obtain d where d: "data = JObj d" and "collect (suite_shape_checks d) = Inr []"
    by (cases data) auto
  then have checks: "\<forall>c\<in>set (suite_shape_checks d). c = Inr []" by (simp add: collect_Nil_iff)
  note at_d = d json.case opt_mapping.simps option.case
  show thesis
  proof (rule that [OF d cur])
    show "parse_generated_at (dget d ''generated_at'') = Inr g" using g unfolding at_d .
    show "suite_is_truncated (Some d) = Inr False" using tr nil(7) unfolding at_d by simp
    show "\<forall>s. dget d ''report_fingerprint'' = JStr s \<longrightarrow> \<not> (fingerprint_text s \<and> s \<in> set seen)"
    proof (intro allI impI)
      fix s assume "dget d ''report_fingerprint'' = JStr s"
      with nil(6) show "\<not> (fingerprint_text s \<and> s \<in> set seen)" unfolding at_d by simp
    qed
  qed (use checks future nil(2-5) at_d in simp_all)
qed

lemma passed_entry:
  assumes "\<forall>c\<in>set (validate_entry e). c = Inr []" and "\<not> entry_truncated e"
  shows "\<exists>x. e = JObj x \<and> dget x ''truncated'' = JBool False \<and> dget x ''omitted_finding_count'' = JInt 0
    \<and> (\<exists>rs. dget x ''risk_summary'' = JObj rs \<and> dget rs ''risk_lowering_allowed'' = JBool False)"
proof -
  from assms(1) obtain x where x: "e = JObj x" by (cases e) (auto simp: validate_entry_def)
  from assms(1) have b: "is_bool (dget x ''truncated'')"
    and n: "\<not> (case strict_int (dget x ''omitted_finding_count'') of None \<Rightarrow> True | Some i \<Rightarrow> i < 0)"
    and rs: "\<forall>c\<in>set (entry_risk_summary_checks (dget x ''risk_summary'')). c = Inr []"
    unfolding x validate_entry_def json.case all_append_checks by simp_all
  from b assms(2) have "dget x ''truncated'' = JBool False"
    by (auto simp: x entry_truncated_def is_bool_iff is_true_def)
  moreover from n assms(2) have "dget x ''omitted_finding_count'' = JInt 0"
    by (cases "dget x ''omitted_finding_count''") (simp_all add: x entry_truncated_def)
  moreover from rs have "\<exists>rs. dget x ''risk_summary'' = JObj rs \<and> dget rs ''risk_lowering_allowed'' = JBool False"
    by (cases "dget x ''risk_summary''") (simp_all add: entry_risk_summary_checks_def is_false_def)
  ultimately show ?thesis using x by blast
qed

lemma valid_suite_contract:
  assumes "validate_external_suite_evidence data expected now max_age max_bytes src_size seen = Inr r"
    and "sv_valid r"
  shows "\<exists>d current. data = JObj d \<and> current_instant now = Inr current
    \<and> suite_contract d expected current max_age max_bytes seen"
proof -
  from assms obtain d current g where d: "data = JObj d" and cur: "current_instant now = Inr current"
    and g: "parse_generated_at (dget d ''generated_at'') = Inr g"
    and tr: "suite_is_truncated (Some d) = Inr False"
    and shape: "\<forall>c\<in>set (suite_shape_checks d). c = Inr []"
    and time: "\<not> suite_in_future current g" "\<not> suite_stale current max_age g"
    and fp: "\<not> fingerprint_mismatch (Some d) (dget d ''report_fingerprint'')"
    and subj: "\<not> suite_subject_mismatch expected (dget d ''subject'')"
    and dup: "\<forall>s. dget d ''report_fingerprint'' = JStr s \<longrightarrow> \<not> (fingerprint_text s \<and> s \<in> set seen)"
    by (rule valid_suite_run)
  from shape have ea: "dget d ''execution_authorized'' = JBool False"
    and isfp: "is_fingerprint (dget d ''report_fingerprint'')"
    and gen: "res_map (\<lambda>t. t = None) (parse_generated_at (dget d ''generated_at'')) = Inr False"
    and entries: "\<forall>c\<in>set (case dget d ''entries'' of JList es \<Rightarrow> concat (map validate_entry es)
        | _ \<Rightarrow> [Inr [''entries_must_be_array'']]). c = Inr []"
    unfolding suite_shape_checks_def all_append_checks by (simp_all add: is_false_def)
  from gen g obtain u where u: "g = Some u" by (auto simp: res_map_Inr_iff)
  have fpr: "dget d ''report_fingerprint'' = JStr (external_suite_report_fingerprint d)"
    using fp isfp by (simp add: fingerprint_mismatch_def)
  have "external_suite_report_fingerprint d \<notin> set seen"
    using dup isfp by (simp add: fpr)
  moreover have "\<forall>entry\<in>set (case dget d ''entries'' of JList es \<Rightarrow> es | _ \<Rightarrow> []).
      \<exists>x. entry = JObj x \<and> dget x ''truncated'' = JBool False \<and> dget x ''omitted_finding_count'' = JInt 0
        \<and> (\<exists>rs. dget x ''risk_summary'' = JObj rs \<and> dget rs ''risk_lowering_allowed'' = JBool False)"
  proof (cases "dget d ''entries''")
    case (JList es)
    with tr have nt: "\<not> list_ex entry_truncated es"
      by (simp add: suite_is_truncated_def res_or_False_iff)
    have "\<forall>c\<in>set (validate_entry e). c = Inr []" "\<not> entry_truncated e" if "e \<in> set es" for e
      using entries nt that by (auto simp: JList list_ex_iff)
    with passed_entry JList show ?thesis by simp
  qed simp_all
  moreover have "\<forall>e. expected = Some e \<longrightarrow> (\<exists>s. dget d ''subject'' = JObj s \<and> subject_matches s e)"
    using subj by (cases expected; cases "dget d ''subject''") (simp_all add: suite_subject_mismatch_def)
  moreover have "- 300000000 \<le> current - u" "current - u \<le> max_age * 1000000"
    using time by (simp_all add: u suite_in_future_def suite_stale_def suite_max_future_skew_seconds_def)
  ultimately show ?thesis using d cur ea fpr g u unfolding suite_contract_def by blast
qed

section \<open>Properties\<close>

definition sample_suite_body :: dict where
  "sample_suite_body =
     [(''schema_version'', JStr ''0.1-draft''), (''report_kind'', JStr ''real_scanner_suite''),
      (''suite_status'', JStr ''completed''),
      (''entries'', JList [JObj [(''scanner_name'', JStr ''s''), (''executed'', JBool True), (''valid'', JBool True),
         (''status'', JStr ''completed''), (''blocking_errors'', JList []), (''warnings'', JList []),
         (''risk_summary'', JObj [(''outcome'', JStr ''findings_present''), (''highest_risk_tier_effect'', JStr ''none''),
            (''risk_tier_effect'', JStr ''none''), (''gate_effects'', JList []), (''risk_lowering_allowed'', JBool False)]),
         (''normalized_result'', JObj []), (''finding_count'', JInt 1), (''omitted_finding_count'', JInt 0),
         (''truncated'', JBool False)]]),
      (''limitations'', jstrs [''scoped'']), (''execution_authorized'', JBool False),
      (''generated_at'', JStr ''2026-01-02T03:04:05Z''),
      (''subject'', JObj [(''repo_commit'', JNull), (''dirty_state'', JStr ''clean'')])]"

text \<open>a suite report that the validator accepts does not authorize execution, carries the
  fingerprint of its own contents, was not offered before, was generated at most the maximal
  age ago and at most five minutes in the future, matches the expected subject, and none of
  its entries omitted findings or allows the risk to be lowered.\<close>

theorem valid_suite_evidence_contract:
  assumes "validate_external_suite_evidence data expected now max_age max_bytes src_size seen = Inr r"
    and "sv_valid r"
  shows "\<exists>d current. data = JObj d \<and> current_instant now = Inr current
    \<and> suite_contract d expected current max_age max_bytes seen"
  using assms by (rule valid_suite_contract)

definition sample_suite :: "string \<Rightarrow> dict" where
  "sample_suite f = (''report_fingerprint'', JStr f) # sample_suite_body"

lemma sample_suite_checks:
  assumes "fingerprint_text f"
  shows "\<forall>c\<in>set (suite_shape_checks (sample_suite f)). c = Inr []"
proof -
  have "suite_shape_checks (sample_suite f) = suite_shape_checks (sample_suite g)" if "fingerprint_text g" for g
    using assms that
    by (simp add: suite_shape_checks_def sample_suite_def dget_Cons keys_eq_def keys_def)
  moreover have "fingerprint_text sample_fingerprint" by code_simp
  moreover have "\<forall>c\<in>set (suite_shape_checks (sample_suite sample_fingerprint)). c = Inr []" by code_simp
  ultimately show ?thesis by simp
qed

lemma sample_suite_fingerprint:
  "external_suite_report_fingerprint (sample_suite f) = canonical_fingerprint (JObj sample_suite_body)"
  by (simp add: external_suite_report_fingerprint_def sample_suite_def dpop_def sample_suite_body_def)

lemma sample_suite_accepted:
  defines "f \<equiv> canonical_fingerprint (JObj sample_suite_body)"
  shows "\<exists>r. validate_external_suite_evidence (JObj (sample_suite f)) None
      \<lparr>clock_us = 63902919846000000, tz_us = Some 0\<rparr> 86400 262144 (JInt 900) [] = Inr r \<and> sv_valid r"
proof -
  have f: "fingerprint_text f"
    by (simp add: f_def fingerprint_text_rx)
  have sh: "collect (suite_shape_checks (sample_suite f)) = Inr []"
    using sample_suite_checks [OF f] by (simp add: collect_Nil_iff)
  have other: "dget (sample_suite f) k = dget sample_suite_body k" if "k \<noteq> ''report_fingerprint''" for k
    using that by (simp add: sample_suite_def dget_Cons)
  have gen: "parse_generated_at (dget sample_suite_body ''generated_at'') = Inr (Some 63902919845000000)"
    by code_simp
  have cur: "current_instant \<lparr>clock_us = 63902919846000000, tz_us = Some 0\<rparr> = Inr 63902919846000000"
    by code_simp
  have tr: "suite_is_truncated (Some (sample_suite f)) = suite_is_truncated (Some sample_suite_body)"
    by (simp add: suite_is_truncated_def other)
  have tr': "suite_is_truncated (Some sample_suite_body) = Inr False" by code_simp
  have subj: "bounded_subject (dget sample_suite_body ''subject'') =
      Inr [(''repo_commit'', JNull), (''dirty_state'', JStr ''clean'')]" by code_simp
  have "\<not> fingerprint_mismatch (Some (sample_suite f)) (JStr f)"
    by (simp add: fingerprint_mismatch_def sample_suite_fingerprint f_def)
  moreover have "dget (sample_suite f) ''report_fingerprint'' = JStr f"
    by (simp add: sample_suite_def dget_Cons)
  ultimately show ?thesis
    by (simp add: validate_external_suite_evidence_def suite_arguments_def sh cur gen other tr tr' subj
        suite_result_def Let_def suite_in_future_def suite_max_future_skew_seconds_def suite_stale_def
        suite_subject_mismatch_def encoded_size_of_def suite_reasons_def suite_evidence_ref_def)
qed

theorem valid_suite_evidence_contract_witness:
  "suite_contract (sample_suite (canonical_fingerprint (JObj sample_suite_body))) None
     63902919846000000 86400 262144 []"
proof -
  have "current_instant \<lparr>clock_us = 63902919846000000, tz_us = Some 0\<rparr> = Inr 63902919846000000"
    by code_simp
  with sample_suite_accepted valid_suite_evidence_contract show ?thesis by fastforce
qed

end
