(* ===== verification/Sandbox_Normalize.thy ===== *)
theory Sandbox_Normalize
  imports Suite_Check
begin

text \<open>
  \<open>evidence/sandbox_run.py\<close>: the normalizer that turns a report of a sandbox run into bounded
  evidence with decision signals.  It raises \<open>TypeError\<close> only when \<open>report_kind\<close> is not
  hashable.
\<close>

section \<open>Text shapes\<close>

definition is_letter :: "char \<Rightarrow> bool" where
  "is_letter c \<longleftrightarrow> is_upper_ascii c \<or> is_lower_ascii c"

definition is_path_sep :: "char \<Rightarrow> bool" where
  "is_path_sep c \<longleftrightarrow> c = CHR ''/'' \<or> c = CHR 92"

text \<open>\<open>_UNSAFE_PATH\<close>: \<open>(?:^|[\\/])(?:home|Users)(?:[\\/])|^[A-Za-z]:[\\]\<close>.\<close>

definition home_or_users :: rx where
  "home_or_users = Cat (Alt (lit ''home'') (lit ''Users'')) (Cls is_path_sep)"

definition drive_prefix :: rx where
  "drive_prefix = cats [Cls is_letter, lit '':'', lit [CHR 92]]"

definition unsafe_path :: "string \<Rightarrow> bool" where
  "unsafe_path s \<longleftrightarrow> rx_match home_or_users s \<or> rx_search (Cat (Cls is_path_sep) home_or_users) s
     \<or> rx_match drive_prefix s"

definition label_char :: "char \<Rightarrow> bool" where
  "label_char c \<longleftrightarrow> is_ascii_alnum c \<or> c \<in> set ''._:-''"

text \<open>\<open>_SAFE_LABEL\<close>: \<open>[A-Za-z0-9][A-Za-z0-9._:-]{0,127}\<close>.\<close>

definition safe_label_rx :: rx where
  "safe_label_rx = Cat (Cls is_ascii_alnum) (rx_upto 127 (Cls label_char))"

definition safe_label_text :: "string \<Rightarrow> bool" where
  "safe_label_text s = rx_fullmatch safe_label_rx s"

text \<open>\<open>_SAFE_IMAGE\<close>: \<open>[A-Za-z0-9][A-Za-z0-9._:/@+-]{0,255}\<close>.\<close>

definition safe_image_rx :: rx where
  "safe_image_rx = Cat (Cls is_ascii_alnum)
     (rx_upto 255 (Cls (\<lambda>c. label_char c \<or> c \<in> set ''/@+'')))"

text \<open>\<open>_OBJECT_ID\<close>: \<open>[0-9a-f]{40}(?:[0-9a-f]{24})?\<close>.\<close>

definition object_id_rx :: rx where
  "object_id_rx = Cat (rx_times 40 (Cls is_hex_lower)) (opt (rx_times 24 (Cls is_hex_lower)))"

definition timestamp_char :: "char \<Rightarrow> bool" where
  "timestamp_char c \<longleftrightarrow> is_digit c \<or> c \<in> set ''T:+.Z-''"

lemma safe_label_text_code [code]:
  "safe_label_text s \<longleftrightarrow> (case s of [] \<Rightarrow> False | c # t \<Rightarrow> is_ascii_alnum c \<and> length t \<le> 127 \<and> list_all label_char t)"
  by (cases s) (auto simp: safe_label_text_def safe_label_rx_def rx_fullmatch_lang rx_lang_Cls_Cat
      rx_lang_upto_cls list_all_iff)

section \<open>Field readers\<close>

definition safe_label :: "json \<Rightarrow> string option" where
  "safe_label v =
     (case v of
        JStr s \<Rightarrow>
          if 128 < length s \<or> unsafe_path s then None
          else if starts_with s ''<'' \<and> ends_with s ''>'' then Some s
          else if safe_label_text s then Some s else None
      | _ \<Rightarrow> None)"

definition safe_timestamp :: "json \<Rightarrow> string option" where
  "safe_timestamp v =
     (case v of
        JStr s \<Rightarrow> if 40 < length s then None
                  else if rx_fullmatch (rep1 (Cls timestamp_char)) s then Some s else None
      | _ \<Rightarrow> None)"

definition safe_image :: "json \<Rightarrow> string option" where
  "safe_image v =
     (case v of
        JStr s \<Rightarrow> if unsafe_path s \<or> \<not> rx_fullmatch safe_image_rx s then None else Some s
      | _ \<Rightarrow> None)"

fun first_fingerprint :: "json list \<Rightarrow> string option" where
  "first_fingerprint [] = None"
| "first_fingerprint (v # vs) =
     (case v of JStr s \<Rightarrow> if rx_fullmatch sha256_rx s then Some s else first_fingerprint vs
      | _ \<Rightarrow> first_fingerprint vs)"

definition object_id :: "json \<Rightarrow> string option" where
  "object_id v = (case v of JStr s \<Rightarrow> if rx_fullmatch object_id_rx s then Some s else None | _ \<Rightarrow> None)"

definition or_else :: "'a option \<Rightarrow> 'a option \<Rightarrow> 'a option" where
  "or_else a b = (case a of None \<Rightarrow> b | Some x \<Rightarrow> Some x)"

text \<open>\<open>next((item for item in candidates if item), {})\<close>.\<close>

fun first_mapping :: "dict list \<Rightarrow> dict" where
  "first_mapping [] = []"
| "first_mapping (d # ds) = (if d \<noteq> [] then d else first_mapping ds)"

definition subject_of_run :: "dict \<Rightarrow> dict \<Rightarrow> dict \<Rightarrow> dict \<Rightarrow> dict" where
  "subject_of_run source target gate verified_snapshot =
     (let candidate = first_mapping [sect source ''subject'', sect gate ''subject'', target];
          repo = (case or_else (safe_label (dget candidate ''repo'')) (safe_label (dget candidate ''repo_identity'')) of
                    Some r \<Rightarrow> r
                  | None \<Rightarrow> (case safe_label (dget target ''identity'') of Some r \<Rightarrow> r | None \<Rightarrow> ''<repo>''));
          snapshot_id = first_fingerprint [dget candidate ''snapshot_id'', dget verified_snapshot ''snapshot_id''];
          manifest = first_fingerprint [dget candidate ''manifest_fingerprint'',
                                        dget verified_snapshot ''manifest_fingerprint''];
          binding_kind = (case safe_label (dget candidate ''binding_kind'') of
                            Some b \<Rightarrow> b
                          | None \<Rightarrow>
                              if dget verified_snapshot ''source_kind'' = JStr ''git_commit'' then ''snapshot_bound''
                              else if snapshot_id \<noteq> None \<and> manifest \<noteq> None then ''path_bound'' else ''unbound'') in
      [(''repo'', JStr repo),
       (''commit'', str_json (or_else (object_id (dget candidate ''commit''))
                                (object_id (dget verified_snapshot ''source_commit'')))),
       (''tree_hash'', str_json (or_else (object_id (dget candidate ''tree_hash''))
                                   (or_else (object_id (dget candidate ''tree''))
                                      (object_id (dget verified_snapshot ''source_tree''))))),
       (''binding_kind'', JStr binding_kind)]
      @ (if snapshot_id \<noteq> None \<and> manifest \<noteq> None
         then [(''snapshot_id'', str_json snapshot_id), (''manifest_fingerprint'', str_json manifest)]
         else []))"

fun first_label :: "json list \<Rightarrow> string option" where
  "first_label [] = None"
| "first_label (v # vs) =
     (case v of JStr s \<Rightarrow> if safe_label_text s then Some s else first_label vs | _ \<Rightarrow> first_label vs)"

definition policy_version_of_run :: "dict \<Rightarrow> dict \<Rightarrow> string option" where
  "policy_version_of_run source gate =
     (let policy = sect source ''policy''
      in first_label [dget policy ''version'', dget policy ''policy_version'', dget gate ''policy_version''])"

definition runner_kind_of :: "dict \<Rightarrow> dict \<Rightarrow> string" where
  "runner_kind_of run docker =
     (if is_true (dget run ''dry_run'') then ''dry_run''
      else (case dget docker ''runner'' of
              JStr s \<Rightarrow> if starts_with s ''fake'' then ''fake''
                        else if safe_label_text s then s else ''unknown''
            | _ \<Rightarrow> ''unknown''))"

definition status_or :: "json \<Rightarrow> string \<Rightarrow> string" where
  "status_or v dflt = (case v of JStr s \<Rightarrow> if safe_label_text s then s else dflt | _ \<Rightarrow> dflt)"

definition observer_status_of :: "dict \<Rightarrow> string \<times> bool" where
  "observer_status_of source =
     (let observer = first_mapping [sect source ''observer'', sect source ''observer_evidence'',
                                    sect (sect source ''sandbox'') ''observer''];
          degraded = dget observer ''status'' = JStr ''degraded'' \<or> is_true (dget observer ''observer_degraded'')
                     \<or> is_true (dget source ''observer_degraded'') in
      if degraded then (''degraded'', True)
      else if observer = [] then (''not_recorded'', False)
      else (status_or (dget observer ''status'') ''recorded'', False))"

definition binding_status_of :: "dict \<Rightarrow> dict \<Rightarrow> string \<times> bool" where
  "binding_status_of authorization source =
     (let binding = first_mapping [sect authorization ''snapshot_binding'',
                                   sect authorization ''worktree_binding'', sect source ''binding''] in
      if binding = [] then (''not_checked'', False)
      else
        (let checked = is_true (dget binding ''checked''); matched = is_true (dget binding ''matched'');
             status = py_str (dget_or binding ''status'' (JStr []));
             bad = status \<in> {''mismatch'', ''unresolved'', ''dirty''} in
         if checked \<and> (\<not> matched \<or> bad) then (''mismatch'', True)
         else if checked \<and> matched then (''matched'', False)
         else if bad then (''mismatch'', True)
         else if (case dget binding ''refusal_reasons'' of
                    JList xs \<Rightarrow> list_ex (\<lambda>x. str_in ''mismatch'' (py_str x)) xs | _ \<Rightarrow> False)
         then (''mismatch'', True)
         else (''not_checked'', False)))"

definition execution_category_of ::
  "json \<Rightarrow> bool \<Rightarrow> bool \<Rightarrow> bool \<Rightarrow> bool \<Rightarrow> bool \<Rightarrow> bool \<Rightarrow> json \<Rightarrow> string" where
  "execution_category_of result_status policy_blocked timed_out cleanup_failed observer_degraded dry_run
     command_started exit_code =
     (if policy_blocked then ''policy_blocked''
      else if timed_out then ''timeout''
      else if cleanup_failed then ''cleanup''
      else if observer_degraded \<or> result_status = JStr ''observer_degraded'' then ''observer''
      else if dry_run then ''dry_run''
      else if result_status = JStr ''completed'' \<and> command_started \<and> py_eq exit_code (JInt 0) then ''success''
      else if \<not> command_started then ''not_started''
      else ''failure'')"

definition non_negative_int :: "json \<Rightarrow> int" where
  "non_negative_int v = (case v of JInt i \<Rightarrow> if 0 \<le> i then i else 0 | _ \<Rightarrow> 0)"

definition sandbox_run_report_fingerprint :: "dict \<Rightarrow> string" where
  "sandbox_run_report_fingerprint report = canonical_fingerprint (JObj (dpop report ''report_fingerprint''))"

section \<open>normalize_sandbox_run_evidence\<close>

text \<open>The local variables of the function up to the signals.\<close>

record run_facts =
  rf_invalid :: bool
  rf_run_id :: "string option"
  rf_generated_at :: "string option"
  rf_policy_blocked :: bool
  rf_timed_out :: bool
  rf_cleanup_status :: string
  rf_cleanup_failed :: bool
  rf_observer_status :: string
  rf_observer_degraded :: bool
  rf_binding_status :: string
  rf_binding_mismatch :: bool
  rf_runner_kind :: string
  rf_dry_run :: bool
  rf_command_started :: bool
  rf_exit_code :: json

definition claimed_fingerprint_wrong :: "dict \<Rightarrow> bool" where
  "claimed_fingerprint_wrong source =
     (case dget source ''report_fingerprint'' of
        JNull \<Rightarrow> False
      | JStr s \<Rightarrow> \<not> rx_fullmatch sha256_rx s \<or> s \<noteq> sandbox_run_report_fingerprint source
      | _ \<Rightarrow> True)"

definition run_facts_of :: "dict \<Rightarrow> bool \<Rightarrow> run_facts" where
  "run_facts_of source invalid =
     (let run = sect source ''run''; gate = sect source ''gate''; result = sect source ''result'';
          run_id = safe_label (dget run ''run_id'');
          generated_at = or_else (safe_timestamp (dget run ''ended_at'')) (safe_timestamp (dget run ''started_at''));
          cleanup = status_or (dget (sect source ''disposable_workspace'') ''cleanup'') ''not_recorded'';
          (observer, degraded) = observer_status_of source;
          (binding, mismatch) = binding_status_of (sect source ''authorization'') source in
      \<lparr>rf_invalid = (invalid \<or> claimed_fingerprint_wrong source \<or> run_id = None \<or> generated_at = None),
       rf_run_id = run_id,
       rf_generated_at = generated_at,
       rf_policy_blocked = (is_true (dget source ''policy_blocked'') \<or> is_true (dget gate ''policy_blocked'')),
       rf_timed_out = (is_true (dget result ''timed_out'') \<or> dget result ''status'' = JStr ''timed_out''),
       rf_cleanup_status = cleanup,
       rf_cleanup_failed = (cleanup = ''failed'' \<or> dget result ''status'' = JStr ''cleanup_uncertain''),
       rf_observer_status = observer,
       rf_observer_degraded = degraded,
       rf_binding_status = binding,
       rf_binding_mismatch = mismatch,
       rf_runner_kind = runner_kind_of run (sect source ''docker''),
       rf_dry_run = (is_true (dget run ''dry_run'') \<or> dget result ''status'' = JStr ''dry_run''),
       rf_command_started = is_true (dget source ''command_started''),
       rf_exit_code = (if \<not> is_int (dget result ''exit_code'') \<and> is_int (dget source ''command_exit_code'')
                       then dget source ''command_exit_code'' else dget result ''exit_code'')\<rparr>)"

definition decision_signals_of :: "dict \<Rightarrow> run_facts \<Rightarrow> string list" where
  "decision_signals_of source f =
     (if rf_policy_blocked f then [''execution_policy_blocked''] else [])
     @ (if rf_binding_mismatch f then [''subject_binding_mismatch''] else [])
     @ (if rf_timed_out f then [''execution_timeout''] else [])
     @ (if rf_cleanup_failed f then [''workspace_cleanup_failed''] else [])
     @ (if rf_observer_degraded f then [''observer_degraded''] else [])
     @ (if rf_runner_kind f = ''fake'' \<or> rf_dry_run f then [''not_real_execution_evidence''] else [])
     @ (if rf_invalid f then [''sandbox_evidence_invalid''] else [])
     @ (if is_true (dget source ''stale'') then [''sandbox_evidence_stale''] else [])
     @ (if is_true (dget source ''truncated'') \<or> is_true (dget (sect source ''workspace_diff'') ''truncated'')
        then [''sandbox_evidence_truncated''] else [])"

definition normalized_of :: "dict \<Rightarrow> run_facts \<Rightarrow> dict" where
  "normalized_of source f =
     (let gate = sect source ''gate''; docker = sect source ''docker''; result = sect source ''result'';
          diff = sect source ''workspace_diff'';
          subject = subject_of_run source (sect source ''target'') gate (sect source ''verified_snapshot'') in
      [(''schema_version'', JStr ''0.1-draft''),
       (''report_kind'', JStr ''sandbox_normalized_evidence''),
       (''run_id'', str_json (rf_run_id f)),
       (''report_fingerprint'', JStr (sandbox_run_report_fingerprint source)),
       (''subject'', JObj subject),
       (''policy'', JObj [(''version'', str_json (policy_version_of_run source gate)),
                          (''blocked'', JBool (rf_policy_blocked f))]),
       (''gate'', JObj [(''decision_fingerprint'',
          str_json (first_fingerprint [dget gate ''decision_fingerprint'', dget gate ''fingerprint'',
                                       dget source ''gate_decision_fingerprint'']))]),
       (''generated_at'', str_json (rf_generated_at f)),
       (''runner'', JObj [(''kind'', JStr (rf_runner_kind f)),
          (''real_execution'',
           JBool (rf_runner_kind f = ''docker'' \<and> \<not> rf_dry_run f \<and> truthy (dget docker ''docker_invoked'')))]),
       (''execution'', JObj [(''command_started'', JBool (rf_command_started f)),
          (''exit_category'', JStr (execution_category_of (dget result ''status'') (rf_policy_blocked f)
             (rf_timed_out f) (rf_cleanup_failed f) (rf_observer_degraded f) (rf_dry_run f)
             (rf_command_started f) (rf_exit_code f))),
          (''exit_code'', if is_int (rf_exit_code f) then rf_exit_code f else JNull),
          (''timed_out'', JBool (rf_timed_out f))]),
       (''cleanup'', JObj [(''status'', JStr (rf_cleanup_status f))]),
       (''observer'', JObj [(''status'', JStr (rf_observer_status f))]),
       (''binding'', JObj [(''status'', JStr (rf_binding_status f)), (''mismatch'', JBool (rf_binding_mismatch f))]),
       (''sandbox'', JObj [(''seccomp_profile'', str_json (safe_label (dget (sect source ''seccomp'') ''profile''))),
                           (''image'', str_json (safe_image (dget docker ''image'')))]),
       (''workspace_diff'', JObj [(''created_count'', JInt (non_negative_int (dget diff ''created_count''))),
          (''modified_count'', JInt (non_negative_int (dget diff ''modified_count''))),
          (''deleted_count'', JInt (non_negative_int (dget diff ''deleted_count'')))]),
       (''informational_notes'', jstrs [''successful_execution_is_not_safety'']),
       (''decision_signals'', jstrs (decision_signals_of source f)),
       (''limitations'', jstrs [''sandbox_run_report_is_bounded_evidence'', ''execution_result_is_not_safety_proof''])]
      @ (if has_key subject ''snapshot_id'' \<and> has_key subject ''manifest_fingerprint''
         then [(''verified_snapshot'', JObj [(''snapshot_id'', dget subject ''snapshot_id''),
                                             (''manifest_fingerprint'', dget subject ''manifest_fingerprint'')])]
         else []))"

definition normalize_sandbox_run_evidence :: "json \<Rightarrow> dict res" where
  "normalize_sandbox_run_evidence report =
     (let source = mapping_or_empty report in
      res_map (\<lambda>bad_kind.
        normalized_of source
          (run_facts_of source
             (\<not> is_obj report \<or> dget source ''schema_version'' \<noteq> JStr ''0.1-draft'' \<or> bad_kind)))
        (notin_strs (dget source ''report_kind'') [''sandbox_run'', ''sandbox_run_report'']))"

section \<open>No path survives the normalization\<close>

text \<open>A string without a separator is not an unsafe path, and the text shapes the normalizer
  keeps have none, except images and bracketed labels, which it tests.\<close>

definition sep_free :: "string \<Rightarrow> bool" where
  "sep_free s \<longleftrightarrow> (\<forall>c\<in>set s. \<not> is_path_sep c)"

lemma home_or_users_sep: "rx_lang home_or_users m \<Longrightarrow> \<exists>c\<in>set m. is_path_sep c"
  unfolding home_or_users_def rx_lang_Cat rx_lang_Cls by auto

lemma sep_free_safe:
  assumes "sep_free s"
  shows "\<not> unsafe_path s"
proof
  assume "unsafe_path s"
  then consider "rx_match home_or_users s" | "rx_search (Cat (Cls is_path_sep) home_or_users) s"
    | "rx_match drive_prefix s"
    unfolding unsafe_path_def by blast
  then show False
  proof cases
    case 1
    then obtain m b where "s = m @ b" "rx_lang home_or_users m" unfolding rx_match_iff by blast
    with home_or_users_sep [of m] assms show False by (auto simp: sep_free_def)
  next
    case 2
    then obtain a m b where s: "s = a @ m @ b" and "rx_lang (Cat (Cls is_path_sep) home_or_users) m"
      unfolding rx_search_iff by blast
    then obtain c t where "m = c # t" "is_path_sep c" unfolding rx_lang_Cls_Cat by blast
    with s assms show False by (simp add: sep_free_def)
  next
    case 3
    then obtain m b where s: "s = m @ b" and "rx_lang drive_prefix m" unfolding rx_match_iff by blast
    then have "CHR 92 \<in> set m"
      unfolding drive_prefix_def cats.simps by (auto simp: rx_lang_Cls_Cat rx_lang_Cat rx_lang_Cls)
    with s assms show False by (auto simp: sep_free_def is_path_sep_def)
  qed
qed

lemma not_sep:
  "is_ascii_alnum c \<Longrightarrow> \<not> is_path_sep c" "label_char c \<Longrightarrow> \<not> is_path_sep c"
  "is_hex_lower c \<Longrightarrow> \<not> is_path_sep c" "timestamp_char c \<Longrightarrow> \<not> is_path_sep c"
proof -
  have code: "code (CHR ''/'') = 47" "code (CHR 92) = 92" by (simp_all add: code_def)
  show alnum: "is_ascii_alnum c \<Longrightarrow> \<not> is_path_sep c" for c
    using code by (auto simp: is_ascii_alnum_def is_digit_def is_upper_ascii_def is_lower_ascii_def
        in_range_def is_path_sep_def)
  show "label_char c \<Longrightarrow> \<not> is_path_sep c"
    using alnum [of c] by (auto simp: label_char_def is_path_sep_def)
  show "is_hex_lower c \<Longrightarrow> \<not> is_path_sep c"
    using code by (auto simp: is_hex_lower_def is_digit_def in_range_def is_path_sep_def)
  show "timestamp_char c \<Longrightarrow> \<not> is_path_sep c"
    using code by (auto simp: timestamp_char_def is_digit_def in_range_def is_path_sep_def)
qed

lemma safe_label_sep_free: "safe_label_text s \<Longrightarrow> sep_free s"
  unfolding safe_label_text_code sep_free_def list_all_iff by (auto simp: not_sep split: list.splits)

lemma fingerprint_sep_free: "rx_fullmatch sha256_rx s \<Longrightarrow> sep_free s"
  unfolding rx_fullmatch_lang sha256_rx_def rx_lang_lit_Cat rx_lang_times_cls sep_free_def
  by (auto simp: not_sep) (simp_all add: is_path_sep_def)

lemma label_safe: "safe_label_text s \<Longrightarrow> \<not> unsafe_path s"
  by (intro sep_free_safe safe_label_sep_free)

lemma fingerprint_safe: "rx_fullmatch sha256_rx s \<Longrightarrow> \<not> unsafe_path s"
  by (intro sep_free_safe fingerprint_sep_free)

lemma rep1_cls: "rx_fullmatch (rep1 (Cls p)) s \<Longrightarrow> \<forall>c\<in>set s. p c"
  by (cases s) (auto simp: rx_fullmatch_lang rep1_def rx_lang_Cls_Cat rx_lang_rep_cls)

lemma object_id_chars: "rx_fullmatch object_id_rx s \<Longrightarrow> \<forall>c\<in>set s. is_hex_lower c"
  by (auto simp: rx_fullmatch_lang object_id_rx_def rx_lang_Cat rx_lang_times_cls opt_def)

text \<open>The readers return safe strings.\<close>

lemma reader_safe:
  "safe_label v = Some s \<Longrightarrow> \<not> unsafe_path s"
  "safe_timestamp v = Some s \<Longrightarrow> \<not> unsafe_path s"
  "safe_image v = Some s \<Longrightarrow> \<not> unsafe_path s"
  "first_fingerprint vs = Some s \<Longrightarrow> \<not> unsafe_path s"
  "object_id v = Some s \<Longrightarrow> \<not> unsafe_path s"
  "first_label vs = Some s \<Longrightarrow> \<not> unsafe_path s"
proof -
  show "safe_label v = Some s \<Longrightarrow> \<not> unsafe_path s" by (auto simp: safe_label_def split: json.splits if_splits)
  show "safe_timestamp v = Some s \<Longrightarrow> \<not> unsafe_path s"
    by (rule sep_free_safe) (auto simp: safe_timestamp_def sep_free_def not_sep dest!: rep1_cls split: json.splits if_splits)
  show "safe_image v = Some s \<Longrightarrow> \<not> unsafe_path s" by (auto simp: safe_image_def split: json.splits if_splits)
  show "first_fingerprint vs = Some s \<Longrightarrow> \<not> unsafe_path s"
    by (induction vs) (auto simp: fingerprint_safe split: json.splits if_splits)
  show "object_id v = Some s \<Longrightarrow> \<not> unsafe_path s"
    by (rule sep_free_safe)
      (auto simp: object_id_def sep_free_def not_sep dest!: object_id_chars split: json.splits if_splits)
  show "first_label vs = Some s \<Longrightarrow> \<not> unsafe_path s"
    by (induction vs) (auto simp: label_safe split: json.splits if_splits)
qed

lemma or_else_cases: "or_else a b = Some s \<Longrightarrow> a = Some s \<or> b = Some s"
  by (auto simp: or_else_def split: option.splits)

lemma str_json_safe: "any_string p (str_json x) \<longleftrightarrow> (\<exists>s. x = Some s \<and> p s)"
  by (auto simp: str_json_def split: option.splits)

lemma any_string_jstrs [simp]: "any_string p (jstrs xs) \<longleftrightarrow> (\<exists>s\<in>set xs. p s)"
  by (auto simp: jstrs_def list_ex_iff)

lemma literal_safe: "list_all (\<lambda>c. \<not> is_path_sep c) s \<Longrightarrow> \<not> unsafe_path s"
  by (rule sep_free_safe) (simp add: sep_free_def list_all_iff)

lemma status_or_safe: "list_all (\<lambda>c. \<not> is_path_sep c) d \<Longrightarrow> \<not> unsafe_path (status_or v d)"
  by (auto simp: status_or_def literal_safe label_safe split: json.splits)

lemma runner_kind_safe: "\<not> unsafe_path (runner_kind_of run docker)"
proof -
  have lits: "\<not> unsafe_path ''dry_run''" "\<not> unsafe_path ''fake''" "\<not> unsafe_path ''unknown''"
    by (simp_all add: literal_safe is_path_sep_def)
  show ?thesis
    unfolding runner_kind_of_def by (simp add: lits label_safe split: json.split)
qed

lemma execution_category_safe: "\<not> unsafe_path (execution_category_of a b c d e f g h)"
proof -
  have "\<not> unsafe_path ''policy_blocked''" "\<not> unsafe_path ''timeout''" "\<not> unsafe_path ''cleanup''"
    "\<not> unsafe_path ''observer''" "\<not> unsafe_path ''dry_run''" "\<not> unsafe_path ''success''"
    "\<not> unsafe_path ''not_started''" "\<not> unsafe_path ''failure''"
    by (simp_all add: literal_safe is_path_sep_def)
  then show ?thesis unfolding execution_category_of_def by (simp only: simp_thms split: if_split)
qed

lemma observer_status_safe: "\<not> unsafe_path (fst (observer_status_of source))"
proof -
  have lits: "\<not> unsafe_path ''degraded''" "\<not> unsafe_path ''not_recorded''"
    "\<not> unsafe_path (status_or v ''recorded'')" for v
    by (simp_all add: literal_safe status_or_safe is_path_sep_def)
  show ?thesis by (simp add: observer_status_of_def Let_def lits)
qed

lemma binding_status_safe: "\<not> unsafe_path (fst (binding_status_of a source))"
proof -
  have lits: "\<not> unsafe_path ''not_checked''" "\<not> unsafe_path ''mismatch''" "\<not> unsafe_path ''matched''"
    by (simp_all add: literal_safe is_path_sep_def)
  show ?thesis unfolding binding_status_of_def Let_def
    by (simp only: fst_conv lits simp_thms split: if_split)
qed

lemma decision_signals_safe: "s \<in> set (decision_signals_of source f) \<Longrightarrow> \<not> unsafe_path s"
  unfolding decision_signals_of_def set_append Un_iff mem_flag
  by (elim disjE conjE) (simp_all add: literal_safe is_path_sep_def)

lemma subject_of_run_safe: "\<not> any_string unsafe_path (JObj (subject_of_run source target gate snap))"
proof -
  have lits: "\<not> unsafe_path ''<repo>''" "\<not> unsafe_path ''snapshot_bound''" "\<not> unsafe_path ''path_bound''"
    "\<not> unsafe_path ''unbound''"
    by (simp_all add: literal_safe is_path_sep_def)
  have ids: "\<not> any_string unsafe_path (str_json (or_else (object_id a) (object_id b)))"
    "\<not> any_string unsafe_path (str_json (or_else (object_id a) (or_else (object_id b) (object_id c))))"
    "\<not> any_string unsafe_path (str_json (first_fingerprint vs))" for a b c vs
    using reader_safe(4,5) by (auto simp: str_json_safe dest!: or_else_cases)
  have labels: "\<not> unsafe_path (case or_else (safe_label a) (safe_label b) of Some r \<Rightarrow> r
      | None \<Rightarrow> (case safe_label c of Some r \<Rightarrow> r | None \<Rightarrow> ''<repo>''))" for a b c
    using reader_safe(1) lits(1) by (auto simp: or_else_def split: option.splits)
  have kinds: "\<not> unsafe_path (case safe_label a of Some b \<Rightarrow> b | None \<Rightarrow>
      if p then ''snapshot_bound'' else if q then ''path_bound'' else ''unbound'')" for a p q
    using reader_safe(1) lits by (auto split: option.splits)
  show ?thesis
    unfolding subject_of_run_def Let_def using ids labels kinds
    by (simp del: first_fingerprint.simps first_mapping.simps)
qed

lemma normalized_of_safe:
  assumes "f = run_facts_of source invalid"
  shows "\<not> any_string unsafe_path (JObj (normalized_of source f))"
proof -
  have opts: "\<not> any_string unsafe_path (str_json (safe_label v))"
    "\<not> any_string unsafe_path (str_json (safe_image v))"
    "\<not> any_string unsafe_path (str_json (first_fingerprint vs))"
    "\<not> any_string unsafe_path (str_json (first_label vs))"
    "\<not> any_string unsafe_path (str_json (or_else (safe_timestamp v) (safe_timestamp w)))" for v w vs
    using reader_safe(1-4,6) by (auto simp: str_json_safe dest!: or_else_cases)
  have f: "rf_run_id f = safe_label (dget (sect source ''run'') ''run_id'')"
    "rf_generated_at f = or_else (safe_timestamp (dget (sect source ''run'') ''ended_at''))
       (safe_timestamp (dget (sect source ''run'') ''started_at''))"
    "rf_cleanup_status f = status_or (dget (sect source ''disposable_workspace'') ''cleanup'') ''not_recorded''"
    "rf_observer_status f = fst (observer_status_of source)"
    "rf_binding_status f = fst (binding_status_of (sect source ''authorization'') source)"
    "rf_runner_kind f = runner_kind_of (sect source ''run'') (sect source ''docker'')"
    by (simp_all add: assms run_facts_of_def Let_def split: prod.split)
  have lits: "\<not> unsafe_path ''0.1-draft''" "\<not> unsafe_path ''sandbox_normalized_evidence''"
    "\<not> unsafe_path ''successful_execution_is_not_safety''" "\<not> unsafe_path ''sandbox_run_report_is_bounded_evidence''"
    "\<not> unsafe_path ''execution_result_is_not_safety_proof''"
    "\<not> unsafe_path (status_or v ''not_recorded'')" for v
    by (simp_all add: literal_safe status_or_safe is_path_sep_def)
  have fp: "\<not> unsafe_path (sandbox_run_report_fingerprint source)"
    by (simp add: sandbox_run_report_fingerprint_def fingerprint_safe)
  have int: "\<not> any_string unsafe_path (if is_int v then v else JNull)" for v
    by (cases v) simp_all
  have subj: "\<not> any_string unsafe_path (JObj (subject_of_run source target gate snap))" for target gate snap
    by (rule subject_of_run_safe)
  have sub_field: "\<not> any_string unsafe_path (dget (subject_of_run source target gate snap) k)" for target gate snap k
    using subj [of target gate snap] any_string_dget [of "subject_of_run source target gate snap" k]
    by (metis any_string.simps(4))
  show ?thesis
    unfolding normalized_of_def Let_def
    using subj sub_field opts lits fp int decision_signals_safe
    by (simp add: f runner_kind_safe execution_category_safe observer_status_safe binding_status_safe
        policy_version_of_run_def Let_def del: first_fingerprint.simps first_label.simps)
qed

text \<open>Every host path of the validators' pattern is an unsafe path of the normalizer's.\<close>

lemma host_path_unsafe:
  assumes "rx_lang host_path_body m"
  shows "unsafe_path (a @ m @ b)"
proof -
  have search: "unsafe_path (a @ (c # n @ [d]) @ b)" if "is_path_sep c" "is_path_sep d" "n = ''home'' \<or> n = ''Users''"
    for a b c d n
  proof -
    have "rx_lang (Alt (lit ''home'') (lit ''Users'')) n"
      using that(3) by (simp only: rx_lang_Alt rx_lang_lit)
    moreover have "rx_lang (Cls is_path_sep) [d]"
      using that(2) by (simp add: rx_lang_Cls)
    ultimately have "rx_lang home_or_users (n @ [d])"
      unfolding home_or_users_def rx_lang_Cat by blast
    with that(1) have "rx_lang (Cat (Cls is_path_sep) home_or_users) (c # n @ [d])"
      unfolding rx_lang_Cls_Cat by blast
    then show ?thesis unfolding unsafe_path_def rx_search_iff by blast
  qed
  have seps: "is_path_sep CHR ''/''" "is_path_sep CHR 92" by (simp_all add: is_path_sep_def)
  from assms consider n where "m = CHR ''/'' # n @ [CHR ''/'']" "n = ''home'' \<or> n = ''Users''"
    | c where "m = (''/mnt/'' @ [c]) @ (CHR ''/'' # ''Users'' @ [CHR ''/''])"
    | c where "m = [c, CHR '':''] @ (CHR 92 # ''Users'' @ [CHR 92])"
    unfolding host_path_body_def alts.simps cats.simps
    by (auto simp: rx_lang_lit_Cat rx_lang_Cat [of "Alt _ _"] rx_lang_Cls_Cat simp del: lit.simps)
  then show ?thesis
  proof cases
    case 1
    with search seps show ?thesis by simp
  next
    case (2 c)
    then have "a @ m @ b = (a @ ''/mnt/'' @ [c]) @ (CHR ''/'' # ''Users'' @ [CHR ''/'']) @ b" by simp
    with search seps show ?thesis by metis
  next
    case (3 c)
    then have "a @ m @ b = (a @ [c, CHR '':'']) @ (CHR 92 # ''Users'' @ [CHR 92]) @ b" by simp
    with search seps show ?thesis by metis
  qed
qed

lemma raw_host_path_unsafe: "raw_host_path s \<Longrightarrow> unsafe_path s"
proof -
  assume "raw_host_path s"
  then obtain a m b where "s = a @ m @ b" "rx_lang host_path_body m"
    unfolding raw_host_path_def rx_match_iff rx_search_iff rx_lang_Cls_Cat
    by (metis append_Cons append_Nil append_assoc)
  with host_path_unsafe show ?thesis by simp
qed

section \<open>Properties\<close>

text \<open>The normalizer's test knows home directories and Windows drives only: a label in angle brackets with
  another host path is kept.\<close>

lemma root_path_is_a_safe_label: "safe_label (JStr ''</root/.ssh/id_rsa>'') = Some ''</root/.ssh/id_rsa>''"
  by code_simp


lemma normalize_returns: "hashable (dget (mapping_or_empty report) ''report_kind'') \<Longrightarrow>
    returns (normalize_sandbox_run_evidence report)"
  by (simp add: normalize_sandbox_run_evidence_def Let_def)

definition leaking_report :: json where
  "leaking_report =
     JObj [(''report_kind'', JStr ''sandbox_run''),
           (''run'', JObj [(''run_id'', JStr ''C:/Users/me/run''), (''started_at'', JStr ''2026-01-02T03:04:05Z'')])]"


end
