(* ===== verification/Sandbox_Check.thy ===== *)
theory Sandbox_Check
  imports Sandbox_Normalize
begin

text \<open>
  \<open>gate/sandbox_evidence.py\<close>: the validator of a sandbox-run report offered as evidence.  It
  normalizes the report, checks the shape of the source, its fingerprint, age, subject and
  policy, and extends the decision signals of the normalized evidence with what it found.
\<close>

section \<open>Vocabulary\<close>

definition sandbox_max_bytes :: int where "sandbox_max_bytes = 262144"
definition sandbox_max_total_bytes :: int where "sandbox_max_total_bytes = 1048576"
definition sandbox_max_age_seconds :: int where "sandbox_max_age_seconds = 86400"
definition sandbox_max_future_skew_seconds :: int where "sandbox_max_future_skew_seconds = 300"

definition sandbox_required_fields :: "string list" where
  "sandbox_required_fields =
     [''schema_version'', ''report_kind'', ''kind'', ''tool'', ''version'', ''experimental'', ''contract'',
      ''run'', ''target'', ''verified_snapshot'', ''subject_consistency'', ''approval'', ''gate'',
      ''authorization'', ''sandbox_profile'', ''seccomp'', ''command'', ''docker'', ''disposable_workspace'',
      ''workspace_diff'', ''result'', ''policy_blocked'', ''command_started'', ''command_start_state'',
      ''command_exit_code'', ''sandbox_exit_code'', ''block_reason'', ''output_summary'',
      ''runtime_write_budget'', ''env_policy'', ''cleanup_policy'', ''boundary_statement'', ''limitations'',
      ''next_actions'', ''safety_statement'']"

definition sandbox_allowed_fields :: "string list" where
  "sandbox_allowed_fields = sandbox_required_fields @ [''report_fingerprint'']"

definition sandbox_object_fields :: "string list" where
  "sandbox_object_fields =
     [''contract'', ''run'', ''target'', ''verified_snapshot'', ''subject_consistency'', ''approval'', ''gate'',
      ''authorization'', ''sandbox_profile'', ''seccomp'', ''command'', ''docker'', ''disposable_workspace'',
      ''workspace_diff'', ''result'', ''output_summary'', ''runtime_write_budget'', ''env_policy'',
      ''cleanup_policy'', ''boundary_statement'']"

text \<open>\<open>_SAFE_RUN_ID\<close> is the label pattern of the normalizer.\<close>

definition safe_run_id_rx :: rx where
  "safe_run_id_rx = Cat (Cls is_ascii_alnum) (rx_upto 127 (Cls label_char))"

record sandbox_validation =
  xv_valid :: bool
  xv_status :: string
  xv_reasons :: "string list"
  xv_validation_errors :: "string list"
  xv_normalized_evidence :: dict
  xv_evidence_ref :: dict

definition sandbox_validation_to_dict :: "sandbox_validation \<Rightarrow> dict" where
  "sandbox_validation_to_dict v =
     [(''valid'', JBool (xv_valid v)),
      (''status'', JStr (xv_status v)),
      (''reasons'', jstrs (xv_reasons v)),
      (''validation_errors'', jstrs (xv_validation_errors v)),
      (''normalized_evidence'', JObj (xv_normalized_evidence v)),
      (''evidence_ref'', JObj (xv_evidence_ref v))]"

section \<open>The shape of the source report\<close>

definition source_shape_errors :: "dict \<Rightarrow> string list res list" where
  "source_shape_errors source =
     [fail_if (\<not> keys_include source sandbox_required_fields \<or> \<not> keys_within source sandbox_allowed_fields)
        ''schema_top_level_required_or_unknown_field'',
      fail_if (dget source ''schema_version'' \<noteq> JStr ''0.1-draft'') ''schema_version_unsupported'',
      fail_if (dget source ''report_kind'' \<noteq> JStr ''sandbox_run'' \<or> dget source ''kind'' \<noteq> JStr ''sandbox_run'')
        ''report_kind_unsupported'',
      fail_if (dget source ''tool'' \<noteq> JStr ''repo-health-doctor'') ''tool_invalid'',
      fail_if (\<not> is_bool (dget source ''experimental'')) ''experimental_must_be_boolean'']
     @ map (\<lambda>f. fail_if (\<not> is_obj (dget source f)) (f @ ''_must_be_object'')) sandbox_object_fields
     @ map (\<lambda>f. fail_if (\<not> is_bool (dget source f)) (f @ ''_must_be_boolean''))
         [''policy_blocked'', ''command_started'']
     @ [fail_if (dget source ''command_exit_code'' \<noteq> JNull \<and> strict_int (dget source ''command_exit_code'') = None)
          ''command_exit_code_invalid'',
        fail_if (dget source ''block_reason'' \<noteq> JNull \<and> \<not> is_str (dget source ''block_reason''))
          ''block_reason_invalid'',
        fail_if (strict_int (dget source ''sandbox_exit_code'') = None) ''sandbox_exit_code_invalid'']
     @ map (\<lambda>f. fail_if (\<not> strs_only (dget source f)) (f @ ''_invalid'')) [''limitations'', ''next_actions'']
     @ [fail_if (\<not> is_str (dget source ''safety_statement'')) ''safety_statement_invalid'',
        fail_if (case dget source ''output_summary'' of
                   JObj d \<Rightarrow> \<not> is_false (dget d ''raw_stdout_stderr_persisted'') | _ \<Rightarrow> False)
          ''raw_stdout_stderr_persisted_must_be_false'']"

section \<open>Pieces of the validation\<close>

definition run_subject_fields :: "string list" where
  "run_subject_fields = [''repo'', ''commit'', ''tree_hash'', ''snapshot_id'', ''manifest_fingerprint'', ''binding_kind'']"

definition mapping_matches :: "dict \<Rightarrow> dict \<Rightarrow> bool" where
  "mapping_matches actual expected \<longleftrightarrow>
     list_all (\<lambda>f. py_eq (dget actual f) (dget expected f)) run_subject_fields"

definition safe_run_id :: "json \<Rightarrow> string option" where
  "safe_run_id v = (case v of JStr s \<Rightarrow> if rx_fullmatch safe_run_id_rx s then Some s else None | _ \<Rightarrow> None)"

definition fingerprint_or_none :: "json \<Rightarrow> string option" where
  "fingerprint_or_none v = (case v of JStr s \<Rightarrow> if rx_fullmatch sha256_rx s then Some s else None | _ \<Rightarrow> None)"

text \<open>What the claimed fingerprint adds: an error when it is not a fingerprint, a mismatch when
  it is not the computed one.\<close>

definition claimed_checks :: "dict option \<Rightarrow> string list \<times> bool" where
  "claimed_checks source =
     (case source of
        None \<Rightarrow> ([], False)
      | Some d \<Rightarrow>
          (case dget d ''report_fingerprint'' of
             JNull \<Rightarrow> ([], False)
           | v \<Rightarrow>
               (case fingerprint_or_none v of
                  None \<Rightarrow> ([''report_fingerprint_invalid''], False)
                | Some s \<Rightarrow> ([], s \<noteq> sandbox_run_report_fingerprint d))))"

definition sandbox_reasons ::
  "bool \<Rightarrow> bool \<Rightarrow> bool \<Rightarrow> bool \<Rightarrow> bool \<Rightarrow> bool \<Rightarrow> bool \<Rightarrow> bool \<Rightarrow> string list" where
  "sandbox_reasons errors mismatch stale subject_mismatch policy_mismatch over_budget duplicate truncated =
     (if errors \<or> mismatch then [''sandbox_evidence_invalid''] else [])
     @ (if mismatch then [''sandbox_evidence_fingerprint_mismatch''] else [])
     @ (if stale then [''sandbox_evidence_stale''] else [])
     @ (if subject_mismatch then [''sandbox_evidence_subject_mismatch''] else [])
     @ (if policy_mismatch then [''sandbox_evidence_policy_mismatch''] else [])
     @ (if over_budget then [''sandbox_evidence_over_budget''] else [])
     @ (if duplicate then [''sandbox_evidence_duplicate''] else [])
     @ (if truncated then [''sandbox_evidence_truncated''] else [])"

definition validated_signals :: "string list \<Rightarrow> string list \<Rightarrow> string list" where
  "validated_signals decision_signals reasons =
     dedupe (decision_signals
       @ (if ''sandbox_evidence_invalid'' \<in> set reasons \<or> ''sandbox_evidence_duplicate'' \<in> set reasons
             \<or> ''sandbox_evidence_policy_mismatch'' \<in> set reasons then [''sandbox_evidence_invalid''] else [])
       @ (if ''sandbox_evidence_stale'' \<in> set reasons then [''sandbox_evidence_stale''] else [])
       @ (if ''sandbox_evidence_subject_mismatch'' \<in> set reasons then [''subject_binding_mismatch''] else [])
       @ (if ''sandbox_evidence_over_budget'' \<in> set reasons then [''sandbox_evidence_over_budget''] else [])
       @ (if ''sandbox_evidence_truncated'' \<in> set reasons then [''sandbox_evidence_truncated''] else []))"

text \<open>The age of the run: when the timestamp parses, whether it is stale and whether it lies in
  the future; otherwise an error.\<close>

definition run_age :: "datetime \<Rightarrow> int \<Rightarrow> int option \<Rightarrow> (string list \<times> bool) res" where
  "run_age now max_age generated_at =
     (case generated_at of
        None \<Rightarrow> Inr ([''generated_at_invalid''], False)
      | Some g \<Rightarrow>
          res_map (\<lambda>current.
            (if current - g < - (sandbox_max_future_skew_seconds * 1000000) then [''generated_at_in_future''] else [],
             max_age * 1000000 < current - g))
            (current_instant now))"

section \<open>validate_sandbox_run_evidence\<close>

record sandbox_request =
  rq_expected_subject :: "dict option"
  rq_expected_policy_version :: "string option"
  rq_now :: datetime
  rq_max_age_seconds :: int
  rq_max_bytes :: int
  rq_source_size_bytes :: json
  rq_total_over_budget :: bool
  rq_seen_fingerprints :: "string list"

text \<open>Everything after the timestamps, which cannot raise any more.\<close>

definition sandbox_result :: "json \<Rightarrow> sandbox_request \<Rightarrow> dict \<Rightarrow> string list \<Rightarrow> string list \<times> bool \<Rightarrow> sandbox_validation" where
  "sandbox_result data rq normalized shape_errors age =
     (let source = opt_mapping data;
          computed = map_option sandbox_run_report_fingerprint source;
          signals = string_items (dget normalized ''decision_signals'');
          run_id = safe_run_id (dget normalized ''run_id'');
          gate_fingerprint = fingerprint_or_none (dget (sect normalized ''gate'') ''decision_fingerprint'');
          errors = shape_errors @ fst (claimed_checks source)
            @ (if ''sandbox_evidence_invalid'' \<in> set signals then [''sandbox_report_shape_invalid''] else [])
            @ (if run_id = None then [''run_id_invalid''] else [])
            @ (if gate_fingerprint = None then [''gate_decision_fingerprint_invalid''] else [])
            @ fst age;
          subject = opt_mapping (dget normalized ''subject'');
          subject_mismatch = (case rq_expected_subject rq of
             None \<Rightarrow> False
           | Some e \<Rightarrow> (case subject of None \<Rightarrow> True | Some s \<Rightarrow> \<not> mapping_matches s e));
          policy_mismatch = (case rq_expected_policy_version rq of
             None \<Rightarrow> False
           | Some p \<Rightarrow> dget (sect normalized ''policy'') ''version'' \<noteq> JStr p);
          over_budget = rq_total_over_budget rq
            \<or> (case strict_int (rq_source_size_bytes rq) of None \<Rightarrow> False | Some n \<Rightarrow> rq_max_bytes rq < n);
          duplicate = (case computed of None \<Rightarrow> False | Some c \<Rightarrow> c \<in> set (rq_seen_fingerprints rq));
          reasons = dedupe (sandbox_reasons (errors \<noteq> []) (snd (claimed_checks source)) (snd age) subject_mismatch
                              policy_mismatch over_budget duplicate (''sandbox_evidence_truncated'' \<in> set signals));
          status = (if reasons = [] then ''valid'' else ''invalid'') in
      \<lparr>xv_valid = (reasons = []),
       xv_status = status,
       xv_reasons = reasons,
       xv_validation_errors = dedupe errors,
       xv_normalized_evidence = dset normalized ''decision_signals'' (jstrs (validated_signals signals reasons)),
       xv_evidence_ref =
         [(''report_kind'', JStr ''sandbox_run''),
          (''report_fingerprint'', str_json computed),
          (''run_id'', str_json run_id),
          (''gate_decision_fingerprint'', str_json gate_fingerprint),
          (''snapshot_id'', (case subject of None \<Rightarrow> JNull | Some s \<Rightarrow> dget s ''snapshot_id'')),
          (''manifest_fingerprint'', (case subject of None \<Rightarrow> JNull | Some s \<Rightarrow> dget s ''manifest_fingerprint'')),
          (''validation_status'', JStr status),
          (''reasons'', jstrs reasons)]\<rparr>)"

definition validate_sandbox_run_evidence :: "json \<Rightarrow> sandbox_request \<Rightarrow> sandbox_validation res" where
  "validate_sandbox_run_evidence data rq =
     res_bind (suite_arguments (rq_max_age_seconds rq) (rq_max_bytes rq) (rq_source_size_bytes rq)) (\<lambda>_.
     res_bind (normalize_sandbox_run_evidence data) (\<lambda>normalized.
     res_bind (case data of JObj d \<Rightarrow> collect (source_shape_errors d) | _ \<Rightarrow> Inr [''schema_input_must_be_object'']) (\<lambda>shape_errors.
     res_bind (parse_generated_at (dget normalized ''generated_at'')) (\<lambda>generated_at.
     res_bind (run_age (rq_now rq) (rq_max_age_seconds rq) generated_at) (\<lambda>age.
       Inr (sandbox_result data rq normalized shape_errors age))))))"

section \<open>What the validation guarantees\<close>

lemma sandbox_reasons_Nil:
  "sandbox_reasons e m st sm pm ob du tr = []
     \<longleftrightarrow> \<not> e \<and> \<not> m \<and> \<not> st \<and> \<not> sm \<and> \<not> pm \<and> \<not> ob \<and> \<not> du \<and> \<not> tr"
  by (simp add: sandbox_reasons_def)

definition sandbox_contract :: "dict \<Rightarrow> sandbox_request \<Rightarrow> dict \<Rightarrow> bool" where
  "sandbox_contract d rq normalized \<longleftrightarrow>
     (\<forall>f\<in>set sandbox_object_fields. is_obj (dget d f))
     \<and> dget (sect d ''output_summary'') ''raw_stdout_stderr_persisted'' = JBool False
     \<and> (dget d ''report_fingerprint'' = JNull
        \<or> dget d ''report_fingerprint'' = JStr (sandbox_run_report_fingerprint d))
     \<and> sandbox_run_report_fingerprint d \<notin> set (rq_seen_fingerprints rq)
     \<and> (\<exists>g c. parse_generated_at (dget normalized ''generated_at'') = Inr (Some g)
          \<and> current_instant (rq_now rq) = Inr c
          \<and> - 300000000 \<le> c - g \<and> c - g \<le> rq_max_age_seconds rq * 1000000)
     \<and> (\<forall>e. rq_expected_subject rq = Some e \<longrightarrow> mapping_matches (sect normalized ''subject'') e)
     \<and> (\<forall>p. rq_expected_policy_version rq = Some p \<longrightarrow>
          dget (sect normalized ''policy'') ''version'' = JStr p)
     \<and> \<not> rq_total_over_budget rq
     \<and> (\<forall>s\<in>{''sandbox_evidence_invalid'', ''sandbox_evidence_truncated''}.
          s \<notin> set (string_items (dget normalized ''decision_signals'')))"

lemma sandbox_run_pieces:
  assumes "validate_sandbox_run_evidence data rq = Inr v"
  obtains n sh g age where "normalize_sandbox_run_evidence data = Inr n"
    and "(case data of JObj d \<Rightarrow> collect (source_shape_errors d) | _ \<Rightarrow> Inr [''schema_input_must_be_object'']) = Inr sh"
    and "parse_generated_at (dget n ''generated_at'') = Inr g"
    and "run_age (rq_now rq) (rq_max_age_seconds rq) g = Inr age"
    and "sandbox_result data rq n sh age = v"
  using assms unfolding validate_sandbox_run_evidence_def
  by (elim res_bindE) (rule that, assumption+, simp only: sum.inject)

lemma sandbox_result_valid:
  "xv_valid (sandbox_result data rq n sh age) \<longleftrightarrow>
     sh = [] \<and> fst (claimed_checks (opt_mapping data)) = []
     \<and> ''sandbox_evidence_invalid'' \<notin> set (string_items (dget n ''decision_signals''))
     \<and> safe_run_id (dget n ''run_id'') \<noteq> None
     \<and> fingerprint_or_none (dget (sect n ''gate'') ''decision_fingerprint'') \<noteq> None
     \<and> fst age = [] \<and> \<not> snd (claimed_checks (opt_mapping data)) \<and> \<not> snd age
     \<and> (case rq_expected_subject rq of None \<Rightarrow> True
        | Some e \<Rightarrow> (case opt_mapping (dget n ''subject'') of None \<Rightarrow> False | Some s \<Rightarrow> mapping_matches s e))
     \<and> (case rq_expected_policy_version rq of None \<Rightarrow> True
        | Some p \<Rightarrow> dget (sect n ''policy'') ''version'' = JStr p)
     \<and> \<not> rq_total_over_budget rq
     \<and> (case strict_int (rq_source_size_bytes rq) of None \<Rightarrow> True | Some k \<Rightarrow> k \<le> rq_max_bytes rq)
     \<and> (case map_option sandbox_run_report_fingerprint (opt_mapping data) of None \<Rightarrow> True
        | Some c \<Rightarrow> c \<notin> set (rq_seen_fingerprints rq))
     \<and> ''sandbox_evidence_truncated'' \<notin> set (string_items (dget n ''decision_signals''))"
proof -
  have neg: "\<not> (case x of None \<Rightarrow> False | Some y \<Rightarrow> P y) \<longleftrightarrow> (case x of None \<Rightarrow> True | Some y \<Rightarrow> \<not> P y)"
    "\<not> (case x of None \<Rightarrow> True | Some y \<Rightarrow> P y) \<longleftrightarrow> (case x of None \<Rightarrow> False | Some y \<Rightarrow> \<not> P y)"
    for x :: "'a option" and P by (simp_all split: option.split)
  show ?thesis
    unfolding sandbox_result_def Let_def sandbox_validation.select_convs dedupe_Nil_iff sandbox_reasons_Nil
      append_is_Nil_conv flag_Nil de_Morgan_disj neg not_not not_less conj_assoc ..
qed

lemma passed_source_shape:
  assumes "\<forall>c\<in>set (source_shape_errors d). c = Inr []"
  shows "\<forall>f\<in>set sandbox_object_fields. is_obj (dget d f)"
    and "dget (sect d ''output_summary'') ''raw_stdout_stderr_persisted'' = JBool False"
proof -
  from assms show objs: "\<forall>f\<in>set sandbox_object_fields. is_obj (dget d f)"
    unfolding source_shape_errors_def all_append_checks by simp
  then have "is_obj (dget d ''output_summary'')" by (simp add: sandbox_object_fields_def)
  then obtain os where os: "dget d ''output_summary'' = JObj os" unfolding is_obj_iff by blast
  from assms show "dget (sect d ''output_summary'') ''raw_stdout_stderr_persisted'' = JBool False"
    unfolding source_shape_errors_def all_append_checks by (simp add: os sect_def is_false_def)
qed

lemma claimed_checks_ok:
  assumes "fst (claimed_checks (Some d)) = []" and "\<not> snd (claimed_checks (Some d))"
  shows "dget d ''report_fingerprint'' = JNull \<or> dget d ''report_fingerprint'' = JStr (sandbox_run_report_fingerprint d)"
  using assms
  by (cases "dget d ''report_fingerprint''")
    (auto simp: claimed_checks_def fingerprint_or_none_def split: if_splits)

lemma run_age_ok:
  assumes "run_age now max_age g = Inr ([], False)"
  obtains u c where "g = Some u" and "current_instant now = Inr c"
    and "- 300000000 \<le> c - u" and "c - u \<le> max_age * 1000000"
  using assms
  by (auto simp: run_age_def res_map_Inr_iff sandbox_max_future_skew_seconds_def split: option.splits if_splits)

lemma valid_sandbox_contract:
  assumes "validate_sandbox_run_evidence data rq = Inr v" and "xv_valid v"
  obtains d n where "data = JObj d" and "normalize_sandbox_run_evidence data = Inr n" and "sandbox_contract d rq n"
proof -
  from assms(1) obtain n sh g age where n: "normalize_sandbox_run_evidence data = Inr n"
    and sh: "(case data of JObj d \<Rightarrow> collect (source_shape_errors d) | _ \<Rightarrow> Inr [''schema_input_must_be_object'']) = Inr sh"
    and g: "parse_generated_at (dget n ''generated_at'') = Inr g"
    and age: "run_age (rq_now rq) (rq_max_age_seconds rq) g = Inr age"
    and v: "sandbox_result data rq n sh age = v"
    by (rule sandbox_run_pieces)
  note ok = assms(2) [folded v, unfolded sandbox_result_valid]
  from ok sh obtain d where d: "data = JObj d" and "collect (source_shape_errors d) = Inr []"
    by (cases data) auto
  then have "\<forall>c\<in>set (source_shape_errors d). c = Inr []" by (simp add: collect_Nil_iff)
  note shape = passed_source_shape [OF this]
  from ok age have "run_age (rq_now rq) (rq_max_age_seconds rq) g = Inr ([], False)"
    by (simp add: prod_eq_iff)
  then obtain u c where time: "g = Some u" "current_instant (rq_now rq) = Inr c"
    "- 300000000 \<le> c - u" "c - u \<le> rq_max_age_seconds rq * 1000000"
    by (rule run_age_ok)
  have subj: "mapping_matches (sect n ''subject'') e" if "rq_expected_subject rq = Some e" for e
    using ok that by (cases "dget n ''subject''") (simp_all add: sect_def)
  have pol: "dget (sect n ''policy'') ''version'' = JStr p" if "rq_expected_policy_version rq = Some p" for p
    using ok that by simp
  have "sandbox_contract d rq n"
    unfolding sandbox_contract_def
    using ok g time shape subj pol claimed_checks_ok [of d] by (simp add: d)
  with d n that show thesis by blast
qed

text \<open>The signals of the normalized evidence stay, and a validation that fails leaves a signal.\<close>

definition invalidity_signals :: "string list" where
  "invalidity_signals =
     [''sandbox_evidence_invalid'', ''sandbox_evidence_stale'', ''subject_binding_mismatch'',
      ''sandbox_evidence_over_budget'', ''sandbox_evidence_truncated'']"

lemma dget_result_signals:
  "string_items (dget (xv_normalized_evidence (sandbox_result data rq n sh age)) ''decision_signals'') =
     validated_signals (string_items (dget n ''decision_signals'')) (xv_reasons (sandbox_result data rq n sh age))"
  unfolding sandbox_result_def Let_def sandbox_validation.select_convs dget_or_dset by simp

lemma validated_signals_keep: "set ds \<subseteq> set (validated_signals ds rs)"
  unfolding validated_signals_def by simp

lemma sandbox_reasons_mem:
  "''sandbox_evidence_invalid'' \<in> set (sandbox_reasons e m st sm pm ob du tr) \<longleftrightarrow> e \<or> m"
  "''sandbox_evidence_stale'' \<in> set (sandbox_reasons e m st sm pm ob du tr) \<longleftrightarrow> st"
  "''sandbox_evidence_subject_mismatch'' \<in> set (sandbox_reasons e m st sm pm ob du tr) \<longleftrightarrow> sm"
  "''sandbox_evidence_policy_mismatch'' \<in> set (sandbox_reasons e m st sm pm ob du tr) \<longleftrightarrow> pm"
  "''sandbox_evidence_over_budget'' \<in> set (sandbox_reasons e m st sm pm ob du tr) \<longleftrightarrow> ob"
  "''sandbox_evidence_duplicate'' \<in> set (sandbox_reasons e m st sm pm ob du tr) \<longleftrightarrow> du"
  "''sandbox_evidence_truncated'' \<in> set (sandbox_reasons e m st sm pm ob du tr) \<longleftrightarrow> tr"
  by (simp_all add: sandbox_reasons_def)

lemma sandbox_reasons_signal:
  assumes "rs = dedupe (sandbox_reasons e m st sm pm ob du tr)" and "rs \<noteq> []"
  shows "\<exists>s\<in>set invalidity_signals. s \<in> set (validated_signals ds rs)"
proof -
  have rs: "set rs = set (sandbox_reasons e m st sm pm ob du tr)" by (simp add: assms(1))
  from assms have any: "e \<or> m \<or> st \<or> sm \<or> pm \<or> ob \<or> du \<or> tr"
    using sandbox_reasons_Nil [of e m st sm pm ob du tr] by auto
  have "(e \<or> m \<or> du \<or> pm \<longrightarrow> ''sandbox_evidence_invalid'' \<in> set (validated_signals ds rs))
    \<and> (st \<longrightarrow> ''sandbox_evidence_stale'' \<in> set (validated_signals ds rs))
    \<and> (sm \<longrightarrow> ''subject_binding_mismatch'' \<in> set (validated_signals ds rs))
    \<and> (ob \<longrightarrow> ''sandbox_evidence_over_budget'' \<in> set (validated_signals ds rs))
    \<and> (tr \<longrightarrow> ''sandbox_evidence_truncated'' \<in> set (validated_signals ds rs))"
    unfolding validated_signals_def rs sandbox_reasons_mem by simp
  with any show ?thesis
    unfolding invalidity_signals_def list.set by (simp only: bex_simps) (elim disjE; simp)
qed

text \<open>The fields of the normalized evidence that the validator reads.\<close>

lemma normalized_fields:
  "dget (normalized_of source f) ''run_id'' = str_json (rf_run_id f)"
  "dget (normalized_of source f) ''generated_at'' = str_json (rf_generated_at f)"
  "dget (normalized_of source f) ''decision_signals'' = jstrs (decision_signals_of source f)"
  "dget (normalized_of source f) ''policy'' = JObj [(''version'', str_json (policy_version_of_run source (sect source ''gate''))),
     (''blocked'', JBool (rf_policy_blocked f))]"
  "dget (normalized_of source f) ''gate'' = JObj [(''decision_fingerprint'',
     str_json (first_fingerprint [dget (sect source ''gate'') ''decision_fingerprint'',
       dget (sect source ''gate'') ''fingerprint'', dget source ''gate_decision_fingerprint'']))]"
  "dget (normalized_of source f) ''schema_version'' = JStr ''0.1-draft''"
  "dget (normalized_of source f) ''report_kind'' = JStr ''sandbox_normalized_evidence''"
  by (simp_all add: normalized_of_def Let_def dget_Cons del: first_fingerprint.simps)

section \<open>Properties\<close>

text \<open>a sandbox-run report that the validator accepts does not persist command output, carries no
  fingerprint other than that of its own contents, was not seen before, is neither older than
  the limit nor more than five minutes in the future, matches the expected subject and policy
  version, fits the budget and raises neither the invalid nor the truncated signal.\<close>

theorem valid_sandbox_evidence_contract:
  assumes "validate_sandbox_run_evidence data rq = Inr v" and "xv_valid v"
  shows "\<exists>d n. data = JObj d \<and> normalize_sandbox_run_evidence data = Inr n \<and> sandbox_contract d rq n"
  using assms by (rule valid_sandbox_contract) blast

definition sample_run_report :: dict where
  "sample_run_report =
     [(''schema_version'', JStr ''0.1-draft''), (''report_kind'', JStr ''sandbox_run''), (''kind'', JStr ''sandbox_run''),
      (''tool'', JStr ''repo-health-doctor''), (''version'', JStr ''1''), (''experimental'', JBool True),
      (''run'', JObj [(''run_id'', JStr ''run-1''), (''ended_at'', JStr ''2026-01-02T03:04:05Z'')]),
      (''gate'', JObj [(''decision_fingerprint'', JStr sample_fingerprint), (''policy_version'', JStr ''0.1'')]),
      (''docker'', JObj [(''runner'', JStr ''docker''), (''docker_invoked'', JBool True)]),
      (''result'', JObj [(''status'', JStr ''completed''), (''exit_code'', JInt 0)]),
      (''disposable_workspace'', JObj [(''cleanup'', JStr ''removed'')]),
      (''output_summary'', JObj [(''raw_stdout_stderr_persisted'', JBool False)]),
      (''policy_blocked'', JBool False), (''command_started'', JBool True), (''command_start_state'', JStr ''started''),
      (''command_exit_code'', JInt 0), (''sandbox_exit_code'', JInt 0), (''block_reason'', JNull),
      (''limitations'', JList []), (''next_actions'', JList []), (''safety_statement'', JStr ''s'')]
     @ map (\<lambda>f. (f, JObj []))
         [''contract'', ''target'', ''verified_snapshot'', ''subject_consistency'', ''approval'', ''authorization'',
          ''sandbox_profile'', ''seccomp'', ''command'', ''workspace_diff'', ''runtime_write_budget'', ''env_policy'',
          ''cleanup_policy'', ''boundary_statement'']"

definition sample_run_request :: sandbox_request where
  "sample_run_request =
     \<lparr>rq_expected_subject = None, rq_expected_policy_version = Some ''0.1'',
      rq_now = \<lparr>clock_us = 63902919846000000, tz_us = None\<rparr>, rq_max_age_seconds = 86400,
      rq_max_bytes = 262144, rq_source_size_bytes = JInt 2000, rq_total_over_budget = False,
      rq_seen_fingerprints = []\<rparr>"

lemma sample_run_accepted:
  "\<exists>v. validate_sandbox_run_evidence (JObj sample_run_report) sample_run_request = Inr v \<and> xv_valid v"
proof -
  let ?f = "run_facts_of sample_run_report False"
  have "res_map (\<lambda>b. normalized_of sample_run_report (run_facts_of sample_run_report
      (\<not> is_obj (JObj sample_run_report) \<or> dget sample_run_report ''schema_version'' \<noteq> JStr ''0.1-draft'' \<or> b)))
      (notin_strs (dget sample_run_report ''report_kind'') [''sandbox_run'', ''sandbox_run_report''])
      = Inr (normalized_of sample_run_report ?f)"
    by (simp add: sample_run_report_def dget_Cons notin_strs_def in_strs_def)
  then have n: "normalize_sandbox_run_evidence (JObj sample_run_report) = Inr (normalized_of sample_run_report ?f)"
    by (simp add: normalize_sandbox_run_evidence_def Let_def)
  have shape: "collect (source_shape_errors sample_run_report) = Inr []" by code_simp
  have f: "rf_run_id ?f = Some ''run-1''" "rf_generated_at ?f = Some ''2026-01-02T03:04:05Z''"
    "decision_signals_of sample_run_report ?f = []" by code_simp+
  have gate: "fingerprint_or_none (str_json (first_fingerprint
      [dget (sect sample_run_report ''gate'') ''decision_fingerprint'', dget (sect sample_run_report ''gate'') ''fingerprint'',
       dget sample_run_report ''gate_decision_fingerprint''])) \<noteq> None" by code_simp
  have pol: "policy_version_of_run sample_run_report (sect sample_run_report ''gate'') = Some ''0.1''" by code_simp
  have time: "parse_generated_at (JStr ''2026-01-02T03:04:05Z'') = Inr (Some 63902919845000000)" by code_simp
  have run_id: "safe_run_id (JStr ''run-1'') \<noteq> None" by code_simp
  have claimed: "claimed_checks (Some sample_run_report) = ([], False)" by code_simp
  note fields = normalized_fields [of sample_run_report ?f]
  have "xv_valid (sandbox_result (JObj sample_run_report) sample_run_request (normalized_of sample_run_report ?f) [] ([], False))"
    unfolding sandbox_result_valid opt_mapping.simps claimed fields sect_def mapping_or_empty.simps f
    using gate run_id
    by (simp add: sample_run_request_def str_json_def pol [unfolded sect_def] dget_Cons sect_def del: first_fingerprint.simps)
  moreover have "validate_sandbox_run_evidence (JObj sample_run_report) sample_run_request =
      Inr (sandbox_result (JObj sample_run_report) sample_run_request (normalized_of sample_run_report ?f) [] ([], False))"
    by (simp add: validate_sandbox_run_evidence_def n shape fields f str_json_def time run_age_def
        sample_run_request_def suite_arguments_def current_instant_def instant_def sandbox_max_future_skew_seconds_def
        del: parse_generated_at.simps)
  ultimately show ?thesis by blast
qed

theorem valid_sandbox_evidence_contract_witness:
  "\<exists>n. normalize_sandbox_run_evidence (JObj sample_run_report) = Inr n
     \<and> sandbox_contract sample_run_report sample_run_request n"
proof -
  from sample_run_accepted obtain v where
    "validate_sandbox_run_evidence (JObj sample_run_report) sample_run_request = Inr v" "xv_valid v" by blast
  from valid_sandbox_evidence_contract [OF this] show ?thesis by auto
qed

text \<open>the validator never drops a decision signal of the normalized evidence, and whenever it
  rejects a report the evidence it returns carries at least one signal that the gate maps to
  a verdict.\<close>

theorem sandbox_signals_kept:
  assumes "validate_sandbox_run_evidence data rq = Inr v" and "normalize_sandbox_run_evidence data = Inr n"
  shows "set (string_items (dget n ''decision_signals''))
      \<subseteq> set (string_items (dget (xv_normalized_evidence v) ''decision_signals''))
    \<and> (xv_valid v \<or> (\<exists>s\<in>set invalidity_signals.
        s \<in> set (string_items (dget (xv_normalized_evidence v) ''decision_signals''))))"
proof -
  from assms obtain sh age where v: "sandbox_result data rq n sh age = v"
    by (elim sandbox_run_pieces) simp
  have reasons: "\<exists>e m st sm pm ob du tr. xv_reasons v = dedupe (sandbox_reasons e m st sm pm ob du tr)
      \<and> (xv_valid v \<longleftrightarrow> xv_reasons v = [])"
    unfolding v [symmetric] sandbox_result_def Let_def sandbox_validation.select_convs by blast
  show ?thesis
    using validated_signals_keep reasons sandbox_reasons_signal
    unfolding v [symmetric] dget_result_signals by metis
qed

theorem sandbox_signals_kept_witness:
  "\<exists>v s. validate_sandbox_run_evidence (JList []) sample_run_request = Inr v \<and> s \<in> set invalidity_signals
     \<and> s \<in> set (string_items (dget (xv_normalized_evidence v) ''decision_signals''))"
proof -
  have n: "normalize_sandbox_run_evidence (JList []) = Inr (normalized_of [] (run_facts_of [] True))"
    by (simp add: normalize_sandbox_run_evidence_def notin_strs_def in_strs_def)
  have "rf_generated_at (run_facts_of [] True) = None" by code_simp
  then have "returns (validate_sandbox_run_evidence (JList []) sample_run_request)"
    by (simp add: validate_sandbox_run_evidence_def n normalized_fields str_json_def run_age_def
        sample_run_request_def suite_arguments_def)
  then obtain v where v: "validate_sandbox_run_evidence (JList []) sample_run_request = Inr v" unfolding returns_iff by blast
  have "\<not> xv_valid v"
  proof
    assume "xv_valid v"
    with v have "\<exists>d n. JList [] = JObj d \<and> normalize_sandbox_run_evidence (JList []) = Inr n"
      by (auto elim!: valid_sandbox_contract)
    then show False by simp
  qed
  with sandbox_signals_kept [OF v n] v show ?thesis by blast
qed

end
