(* ===== verification/Gate_Signals.thy ===== *)
theory Gate_Signals
  imports Gate_Verdict Risk_Mapper Sandbox_Check
begin

text \<open>
  The signals of \<open>gate/evaluator.py\<close>: what one evidence item, one scanner suite and one sandbox
  run add to the lists the evaluator collects.  The evaluator appends to several lists at
  once; each of its \<open>append\<close> groups is one \<open>gate_signal\<close>, and the lists are read off the
  sequence of signals.  All exceptions that evidence items can cause are \<open>TypeError\<close>, so their
  order does not matter.
\<close>

section \<open>Signals\<close>

record gate_signal =
  sg_candidates :: "string list"
  sg_reason :: string
  sg_blocking :: "string list"
  sg_warning :: "string list"

definition block_signal :: "string \<Rightarrow> string \<Rightarrow> gate_signal" where
  "block_signal reason evidence_id =
     \<lparr>sg_candidates = [''block''], sg_reason = reason, sg_blocking = [evidence_id], sg_warning = []\<rparr>"

definition warn_signal :: "string \<Rightarrow> string \<Rightarrow> string \<Rightarrow> gate_signal" where
  "warn_signal verdict reason evidence_id =
     \<lparr>sg_candidates = [verdict], sg_reason = reason, sg_blocking = [], sg_warning = [evidence_id]\<rparr>"

definition bare_signal :: "string \<Rightarrow> string \<Rightarrow> gate_signal" where
  "bare_signal verdict reason =
     \<lparr>sg_candidates = [verdict], sg_reason = reason, sg_blocking = [], sg_warning = []\<rparr>"

definition reason_only :: "string \<Rightarrow> gate_signal" where
  "reason_only reason = \<lparr>sg_candidates = [], sg_reason = reason, sg_blocking = [], sg_warning = []\<rparr>"

definition sig_if :: "bool \<Rightarrow> gate_signal \<Rightarrow> gate_signal list" where
  "sig_if b s = (if b then [s] else [])"

definition candidates_of :: "gate_signal list \<Rightarrow> string list" where
  "candidates_of sigs = concat (map sg_candidates sigs)"

lemma set_sig_if [simp]: "set (sig_if b s) = (if b then {s} else {})"
  by (simp add: sig_if_def)

lemma candidates_append [simp]: "candidates_of (xs @ ys) = candidates_of xs @ candidates_of ys"
  by (simp add: candidates_of_def)

lemma candidates_Nil [simp]: "candidates_of [] = []"
  by (simp add: candidates_of_def)

lemma mem_candidates: "c \<in> set (candidates_of sigs) \<longleftrightarrow> (\<exists>s\<in>set sigs. c \<in> set (sg_candidates s))"
  by (auto simp: candidates_of_def)

lemma signal_candidates [simp]:
  "sg_candidates (block_signal r e) = [''block'']"
  "sg_candidates (warn_signal v r e) = [v]"
  "sg_candidates (bare_signal v r) = [v]"
  "sg_candidates (reason_only r) = []"
  by (simp_all add: block_signal_def warn_signal_def bare_signal_def reason_only_def)

section \<open>Tokens and markers\<close>

definition normalize_token :: "string \<Rightarrow> string" where
  "normalize_token value =
     replace_char CHR ''/'' ''_'' (replace_char CHR '' '' ''_'' (replace_char CHR ''-'' ''_'' (py_lower value)))"

text \<open>\<open>x for x in value if isinstance(x, str)\<close>: the strings of any iterable JSON value.\<close>

fun iter_strings :: "json \<Rightarrow> string list res" where
  "iter_strings (JList xs) = Inr (list_strings xs)"
| "iter_strings (JStr s) = Inr (map (\<lambda>c. [c]) s)"
| "iter_strings (JObj d) = Inr (keys d)"
| "iter_strings _ = Inl TypeError"

definition tokens_of :: "dict \<Rightarrow> string list res" where
  "tokens_of item =
     (let classification = sect item ''classification'';
          values = list_strings
            [dget classification ''category'', dget classification ''subcategory'', dget classification ''severity'',
             dget (sect item ''finding'') ''redacted_summary'', dget (sect item ''raw_handling'') ''redaction_status'',
             dget (sect item ''effects'') ''recommended_gate_effect''] in
      res_bind (iter_strings (dget_or (sect item ''trust'') ''limitations'' (JList []))) (\<lambda>limitations.
      res_map (\<lambda>residual. dedupe (map normalize_token (values @ limitations @ residual)))
        (iter_strings (dget_or item ''residual_risks'' (JList [])))))"

definition blocking_limitation_markers :: "string list" where
  "blocking_limitation_markers =
     [''raw secret leakage'', ''raw host path leak'', ''expected commit mismatch'', ''approval mismatch'',
      ''policy violation that attempted execution without approval'', ''network allowed during target scan'',
      ''docker socket mount'', ''host home mount'', ''credential mount'']"

definition quarantine_markers :: "string list" where
  "quarantine_markers =
     [''verified_secret'', ''credential_access_network'', ''install_download_exec'', ''obfuscation_eval_network'',
      ''ci_token_abuse_chain'', ''pull_request_target_untrusted_checkout'', ''docker_socket_subprocess'',
      ''critical_vulnerability_runtime'', ''observer_degraded_risky_execution'']"

definition warn_markers :: "string list" where
  "warn_markers =
     [''tool unavailable'', ''tool output parse failed'', ''known_vulnerability'', ''low_repo_posture'',
      ''unsupported_scanner_version'', ''dirty workspace binding'', ''content digest binding without commit'']"

definition has_any :: "string list \<Rightarrow> string list \<Rightarrow> bool" where
  "has_any tokens markers =
     list_ex (\<lambda>m. list_ex (\<lambda>t. str_in (replace_char CHR '' '' ''_'' (py_lower m)) t) tokens) markers"

definition has_quarantine_signal :: "string list \<Rightarrow> dict \<Rightarrow> bool" where
  "has_quarantine_signal tokens classification \<longleftrightarrow>
     (let tok = (\<lambda>t. t \<in> set tokens) in
      has_any tokens quarantine_markers
      \<or> (dget classification ''category'' = JStr ''secret'' \<and> tok ''verified_secret'')
      \<or> (tok ''credential_path_reference'' \<and> (tok ''network_request'' \<or> tok ''network_attempt''))
      \<or> (tok ''install_script_execution'' \<and> tok ''download_exec_chain'')
      \<or> (tok ''obfuscation'' \<and> tok ''dynamic_eval'' \<and> tok ''network_request'')
      \<or> (tok ''pull_request_target_misuse'' \<and> tok ''untrusted_checkout'')
      \<or> list_ex (\<lambda>t. str_in ''pull_request_target_misuse'' t \<and> str_in ''untrusted_checkout'' t) tokens
      \<or> (tok ''broad_token_permission'' \<and> tok ''unpinned_action'')
      \<or> (tok ''docker_socket_reference'' \<and> tok ''subprocess_indicator'')
      \<or> (tok ''known_critical_vulnerability'' \<and> tok ''suspicious_runtime_behavior''))"

definition has_warn_signal :: "string list \<Rightarrow> dict \<Rightarrow> bool res" where
  "has_warn_signal tokens classification =
     (if has_any tokens warn_markers then Inr True
      else if dget classification ''category'' = JStr ''known_vulnerability'' then Inr True
      else in_strs (dget classification ''subcategory'') [''low_repo_posture'', ''unsupported_scanner_version''])"

definition is_observer_limitation :: "string \<Rightarrow> bool" where
  "is_observer_limitation limitation \<longleftrightarrow>
     (let n = py_lower limitation in
      str_in ''observer'' n \<and> (str_in ''missing'' n \<or> str_in ''degraded'' n \<or> str_in ''unavailable'' n))"

definition limitation_verdict :: "string \<Rightarrow> dict \<Rightarrow> string" where
  "limitation_verdict limitation policy =
     (let severity = highest_limitation_severity [limitation] policy in
      if severity = ''critical'' then ''block''
      else if severity = ''high'' then ''quarantine''
      else if severity = ''medium'' then ''warn''
      else ''allow_limited'')"

section \<open>One evidence item\<close>

text \<open>What the loop body reads from an item, with every test that may raise.\<close>

record item_view =
  iv_id :: string
  iv_validation :: evidence_result
  iv_runtime :: bool
  iv_bound :: bool
  iv_low_trust :: bool
  iv_tokens :: "string list"
  iv_warns :: bool

definition acceptable_bindings :: "string list" where
  "acceptable_bindings = [''path_bound'', ''commit_bound'', ''tree_bound'', ''snapshot_bound'', ''synthetic'']"

definition view_item :: "dict \<Rightarrow> item_view res" where
  "view_item item =
     res_bind (validate_evidence (JObj item)) (\<lambda>validation.
     res_bind (in_strs (dget (sect item ''source'') ''execution_mode'') [''sandbox_observer'', ''docker_isolated'']) (\<lambda>runtime.
     res_bind (in_strs (dget (sect item ''subject'') ''binding_kind'') acceptable_bindings) (\<lambda>bound.
     res_bind (in_strs (dget (sect item ''trust'') ''level'') low_trust_levels) (\<lambda>low.
     res_bind (tokens_of item) (\<lambda>tokens.
     res_map (\<lambda>warns.
         \<lparr>iv_id = py_str (dget_or item ''evidence_id'' (JStr ''unknown_evidence'')),
          iv_validation = validation, iv_runtime = runtime, iv_bound = bound, iv_low_trust = low,
          iv_tokens = tokens, iv_warns = warns\<rparr>)
       (has_warn_signal tokens (sect item ''classification'')))))))"

fun int_of_json :: "json \<Rightarrow> int" where
  "int_of_json (JInt i) = i" | "int_of_json (JBool b) = (if b then 1 else 0)" | "int_of_json _ = 0"

definition item_findings :: "dict \<Rightarrow> int" where
  "item_findings item =
     (let finding = sect item ''finding'' in
      if is_true (dget finding ''present'') \<and> is_int (dget finding ''count'')
      then int_of_json (dget finding ''count'') else 0)"

definition raw_output_retained :: "dict \<Rightarrow> bool" where
  "raw_output_retained item \<longleftrightarrow>
     (let raw = sect item ''raw_handling'' in
      is_true (dget raw ''raw_output_retained'') \<or> is_true (dget raw ''raw_stdout_retained'')
      \<or> is_true (dget raw ''raw_stderr_retained''))"

definition recommendation_signals :: "json \<Rightarrow> string \<Rightarrow> gate_signal list" where
  "recommendation_signals effect i =
     (if effect = JStr ''block'' then [block_signal (''recommended_block:'' @ i) i]
      else if effect = JStr ''quarantine'' then [warn_signal ''quarantine'' (''recommended_quarantine:'' @ i) i]
      else if effect = JStr ''warn'' then [warn_signal ''warn'' (''recommended_warn:'' @ i) i]
      else [])"

definition limitation_signal :: "dict \<Rightarrow> string \<Rightarrow> string \<Rightarrow> gate_signal list" where
  "limitation_signal policy i limitation =
     (let severity = limitation_verdict limitation policy in
      if severity = ''block'' then [block_signal (''critical_limitation:'' @ limitation) i]
      else if severity = ''quarantine'' then [warn_signal ''quarantine'' (''high_limitation:'' @ limitation) i]
      else if severity = ''warn'' then [warn_signal ''warn'' (''medium_limitation:'' @ limitation) i]
      else [])"

definition item_signals :: "dict \<Rightarrow> dict \<Rightarrow> item_view \<Rightarrow> gate_signal list" where
  "item_signals policy item view =
     (let i = iv_id view; tokens = iv_tokens view;
          absent = is_false (dget (sect item ''finding'') ''present'') in
      sig_if (\<not> ev_valid (iv_validation view)) (block_signal (''invalid_evidence:'' @ i) i)
      @ sig_if (is_true (dget item ''execution_authorized'')
                \<or> is_true (dget (sect item ''effects'') ''can_authorize_execution''))
          (block_signal (''execution_authorization_attempt:'' @ i) i)
      @ sig_if (raw_output_retained item) (block_signal (''raw_output_retained:'' @ i) i)
      @ sig_if (dget (sect item ''raw_handling'') ''redaction_status'' = JStr ''failed'')
          (block_signal (''redaction_failed:'' @ i) i)
      @ recommendation_signals (dget (sect item ''effects'') ''recommended_gate_effect'') i
      @ sig_if (has_any tokens blocking_limitation_markers \<or> ''raw_secret_leak'' \<in> set tokens
                \<or> ''raw_host_path_leak'' \<in> set tokens)
          (block_signal (''blocking_marker:'' @ i) i)
      @ sig_if (has_quarantine_signal tokens (sect item ''classification''))
          (warn_signal ''quarantine'' (''quarantine_signal:'' @ i) i)
      @ sig_if (iv_warns view) (warn_signal ''warn'' (''warning_signal:'' @ i) i)
      @ sig_if absent (warn_signal ''warn'' (''no_finding_not_safety_proof:'' @ i) i)
      @ sig_if (iv_low_trust view \<and> absent) (warn_signal ''warn'' (''low_trust_no_finding:'' @ i) i)
      @ sig_if (dget (sect item ''subject'') ''binding_kind'' = JStr ''unbound'')
          (bare_signal ''unknown'' (''unbound_evidence:'' @ i))
      @ concat (map (limitation_signal policy i) (ev_limitations (iv_validation view))))"

definition item_missing :: "dict \<Rightarrow> string list" where
  "item_missing item =
     (if dget (sect item ''subject'') ''binding_kind'' = JStr ''unbound'' then [''commit_or_tree_binding''] else [])"

definition item_degraded :: "dict \<Rightarrow> item_view \<Rightarrow> string list" where
  "item_degraded policy view =
     concat (map (\<lambda>l.
       (if is_observer_limitation l then [l] else [])
       @ (if limitation_verdict l policy = ''quarantine'' \<and> str_in ''observer'' (py_lower l) then [l] else []))
       (ev_limitations (iv_validation view)))"

section \<open>Sandbox runs\<close>

definition sandbox_signal_verdicts :: "(string \<times> string) list" where
  "sandbox_signal_verdicts =
     [(''execution_policy_blocked'', ''block''), (''subject_binding_mismatch'', ''block''),
      (''workspace_cleanup_failed'', ''quarantine''), (''execution_timeout'', ''unknown''),
      (''observer_degraded'', ''unknown''), (''not_real_execution_evidence'', ''unknown''),
      (''sandbox_evidence_invalid'', ''unknown''), (''sandbox_evidence_stale'', ''unknown''),
      (''sandbox_evidence_truncated'', ''unknown''), (''sandbox_evidence_over_budget'', ''unknown'')]"

text \<open>An element of \<open>sandbox_evidence\<close>: a validation result, or a bare mapping.\<close>

datatype sandbox_item = Validated sandbox_validation | Bare json

definition sandbox_item_evidence :: "sandbox_item \<Rightarrow> json" where
  "sandbox_item_evidence x = (case x of Validated v \<Rightarrow> JObj (xv_normalized_evidence v) | Bare j \<Rightarrow> j)"

definition sandbox_item_signals :: "json \<Rightarrow> string list" where
  "sandbox_item_signals item =
     (case item of
        JObj d \<Rightarrow>
          if dget d ''schema_version'' \<noteq> JStr ''0.1-draft'' \<or> dget d ''report_kind'' \<noteq> JStr ''sandbox_normalized_evidence''
          then [''sandbox_evidence_invalid'']
          else (case dget d ''decision_signals'' of
                  JList xs \<Rightarrow>
                    if list_all (\<lambda>x. case x of JStr s \<Rightarrow> s \<in> set (map fst sandbox_signal_verdicts) | _ \<Rightarrow> False) xs
                    then dedupe (list_strings xs) else [''sandbox_evidence_invalid'']
                | _ \<Rightarrow> [''sandbox_evidence_invalid''])
      | _ \<Rightarrow> [''sandbox_evidence_invalid''])"

definition sandbox_verdict_of :: "string \<Rightarrow> string" where
  "sandbox_verdict_of signal = (case map_of sandbox_signal_verdicts signal of Some v \<Rightarrow> v | None \<Rightarrow> ''unknown'')"

definition sandbox_signal :: "string \<Rightarrow> string \<Rightarrow> gate_signal" where
  "sandbox_signal i signal =
     (let candidate = sandbox_verdict_of signal; reason = ''sandbox_signal:'' @ signal @ '':'' @ i in
      if candidate = ''block'' then block_signal reason i else warn_signal candidate reason i)"

definition sandbox_gate_signals :: "sandbox_item list \<Rightarrow> gate_signal list" where
  "sandbox_gate_signals items =
     concat (map (\<lambda>(n, x). map (sandbox_signal (''sandbox_evidence:'' @ nat_text n))
                             (sandbox_item_signals (sandbox_item_evidence x)))
       (zip [1..<Suc (length items)] items))"

section \<open>Scanner suites\<close>

definition external_mapping_verdict :: "risk_result \<Rightarrow> string option" where
  "external_mapping_verdict m =
     (if rr_quarantine m \<or> rr_requires_dedicated_vm m then Some ''quarantine''
      else if rr_blocks_live_execution m then Some ''block''
      else if rr_requires_human_review m then Some ''quarantine''
      else if rr_highest_risk_tier_effect m \<noteq> ''none'' \<or> ''raises_risk'' \<in> set (rr_gate_effects m) then Some ''warn''
      else None)"

definition entry_verdict_signals :: "string \<Rightarrow> string option \<Rightarrow> json \<Rightarrow> gate_signal list" where
  "entry_verdict_signals i candidate cnt =
     (case candidate of
        Some c \<Rightarrow>
          (let reason = ''external_scanner_risk_mapped:'' @ i in
           [if c = ''block'' then block_signal reason i else warn_signal c reason i])
      | None \<Rightarrow>
          if truthy cnt then [warn_signal ''warn'' (''external_scanner_finding_requires_review:'' @ i) i]
          else [reason_only (''external_scanner_no_finding_not_safety_proof:'' @ i)])"

definition scanned_entry_signals ::
  "json option \<Rightarrow> json option \<Rightarrow> string \<Rightarrow> dict \<Rightarrow> dict \<Rightarrow> (gate_signal list \<times> int) res" where
  "scanned_entry_signals schema_file risk_file i entry normalized =
     res_bind (validate_external_scanner_result schema_file (JObj normalized)) (\<lambda>validation.
     res_map (\<lambda>mapping.
       (sig_if (dget (sect normalized ''scanner'') ''trusted_binary_status'' = JStr ''unverified'')
          (warn_signal ''unknown'' (''external_scanner_binary_unverified:'' @ i) i)
        @ sig_if (\<not> sr_valid validation) (reason_only (''external_scanner_result_invalid:'' @ i))
        @ map (\<lambda>rule. reason_only (''external_scanner_rule:'' @ fr_rule_id rule)) (rr_fired_rules mapping)
        @ entry_verdict_signals i (external_mapping_verdict mapping) (dget entry ''finding_count''),
        (case strict_int (dget entry ''finding_count'') of Some n \<Rightarrow> if 0 \<le> n then n else 0 | None \<Rightarrow> 0)))
       (map_external_scanner_risk schema_file risk_file normalized (Some validation) None))"

definition entry_signals :: "json option \<Rightarrow> json option \<Rightarrow> string \<Rightarrow> json \<Rightarrow> (gate_signal list \<times> int) res" where
  "entry_signals schema_file risk_file i value =
     (case value of
        JObj entry \<Rightarrow>
          if \<not> is_true (dget entry ''valid'') \<or> dget entry ''status'' \<noteq> JStr ''completed''
          then Inr ([warn_signal ''unknown'' (''external_suite_entry_not_completed:'' @ i) i], 0)
          else (case dget entry ''normalized_result'' of
                  JObj normalized \<Rightarrow> scanned_entry_signals schema_file risk_file i entry normalized
                | _ \<Rightarrow> Inr ([warn_signal ''unknown'' (''external_scanner_result_invalid:'' @ i) i], 0))
      | _ \<Rightarrow> Inr ([warn_signal ''unknown'' (''external_suite_entry_invalid:'' @ i) i], 0))"

definition suite_signals ::
  "json option \<Rightarrow> json option \<Rightarrow> nat \<Rightarrow> dict \<times> suite_validation \<Rightarrow> (gate_signal list \<times> int) res" where
  "suite_signals schema_file risk_file n suite =
     (let i = ''external_suite:'' @ nat_text n in
      if \<not> sv_valid (snd suite)
      then Inr ([warn_signal ''unknown'' (''external_suite_validation_failed:'' @ i) i], 0)
      else (case dget (fst suite) ''entries'' of
              JList entries \<Rightarrow>
                res_map (\<lambda>parts. (concat (map fst parts), sum_list (map snd parts)))
                  (mapM (\<lambda>(k, entry). entry_signals schema_file risk_file (i @ '':entry:'' @ nat_text k) entry)
                     (zip [1..<Suc (length entries)] entries))
            | _ \<Rightarrow> Inr ([warn_signal ''unknown'' (''external_suite_entries_invalid:'' @ i) i], 0)))"

definition external_suite_gate_signals ::
  "json option \<Rightarrow> json option \<Rightarrow> (dict \<times> suite_validation) list \<Rightarrow> (gate_signal list \<times> int) res" where
  "external_suite_gate_signals schema_file risk_file suites =
     res_map (\<lambda>parts. (concat (map fst parts), sum_list (map snd parts)))
       (mapM (\<lambda>(n, suite). suite_signals schema_file risk_file n suite) (zip [1..<Suc (length suites)] suites))"

end
