(* ===== verification/Gate_Explanation.thy ===== *)
theory Gate_Explanation
  imports Gate_Signals
begin

text \<open>
  The human-readable part of a gate decision: \<open>_build_explanation\<close> and \<open>_explanation_tokens\<close> of
  \<open>gate/evaluator.py\<close>.  The token set is a list; the code only asks whether some token
  contains a marker.
\<close>

record explanation_input =
  xi_verdict :: string
  xi_findings_count :: int
  xi_missing :: "string list"
  xi_degraded :: "string list"
  xi_bound :: bool
  xi_evidence :: "dict list"
  xi_limitations :: "string list"
  xi_reasons :: "string list"

definition token_if :: "bool \<Rightarrow> string \<Rightarrow> string list" where
  "token_if b t = (if b then [t] else [])"

definition item_explanation_tokens :: "dict \<Rightarrow> string list res" where
  "item_explanation_tokens item =
     (let absent = is_false (dget (sect item ''finding'') ''present'') in
      res_bind (tokens_of item) (\<lambda>tokens.
      res_map (\<lambda>low.
          tokens
          @ token_if (dget (sect item ''classification'') ''category'' = JStr ''known_vulnerability''
                      \<and> dget (sect item ''classification'') ''severity'' = JStr ''block'') ''critical_vulnerability''
          @ token_if absent ''no_finding_not_safety_proof''
          @ token_if low ''low_trust_no_finding''
          @ token_if (dget (sect item ''subject'') ''binding_kind'' = JStr ''unbound'') ''unbound_evidence''
          @ token_if (raw_output_retained item) ''raw_output_retained''
          @ token_if (dget (sect item ''raw_handling'') ''redaction_status'' = JStr ''failed'') ''redaction_failed'')
        (res_and (Inr absent) (in_strs (dget (sect item ''trust'') ''level'') low_trust_levels))))"

definition explanation_tokens :: "explanation_input \<Rightarrow> string list res" where
  "explanation_tokens x =
     res_map (\<lambda>parts.
        concat parts
        @ map normalize_token (xi_limitations x @ xi_missing x @ xi_degraded x @ xi_reasons x)
        @ token_if (\<not> xi_bound x) ''binding_unbound_or_insufficient''
        @ token_if (xi_missing x \<noteq> []) ''missing_evidence''
        @ token_if (xi_degraded x \<noteq> []) ''degraded_observer'')
      (mapM item_explanation_tokens (xi_evidence x))"

definition token_present :: "string list \<Rightarrow> string \<Rightarrow> bool" where
  "token_present tokens marker = list_ex (\<lambda>t. str_in (normalize_token marker) t) tokens"

definition some_present :: "string list \<Rightarrow> string list \<Rightarrow> bool" where
  "some_present tokens markers = list_ex (token_present tokens) markers"

section \<open>The flags\<close>

record explanation_flags =
  xf_supply_chain :: bool
  xf_no_finding :: bool
  xf_missing_or_degraded :: bool
  xf_observer_gap :: bool
  xf_unbound :: bool
  xf_raw_output :: bool
  xf_critical_vulnerability :: bool
  xf_synthetic :: bool

definition supply_chain_markers :: "string list" where
  "supply_chain_markers =
     [''install_script_execution'', ''package_lifecycle_hook'', ''postinstall'', ''credential_path_reference'',
      ''environment_access_candidate'', ''network_request'', ''network_target_string'', ''workflow_modification'',
      ''pull_request_target_misuse'', ''obfuscation'', ''dynamic_eval'']"

definition flags_of :: "explanation_input \<Rightarrow> string list \<Rightarrow> explanation_flags" where
  "flags_of x tokens =
     \<lparr>xf_supply_chain = some_present tokens supply_chain_markers,
      xf_no_finding = some_present tokens [''no_finding_not_safety_proof'', ''no_finding_scoped''],
      xf_missing_or_degraded = (xi_missing x \<noteq> [] \<or> xi_degraded x \<noteq> []
        \<or> some_present tokens [''missing_evidence'', ''runtime_observer'', ''observer_evidence_missing'',
                                ''degraded'', ''unavailable'']),
      xf_observer_gap = (xi_degraded x \<noteq> []
        \<or> some_present tokens [''runtime_observer'', ''observer_evidence_missing'', ''degraded_observer'']),
      xf_unbound = (\<not> xi_bound x \<or> some_present tokens [''unbound_evidence'', ''binding_unbound'']),
      xf_raw_output = some_present tokens [''raw_output_retained'', ''redaction_failed''],
      xf_critical_vulnerability = some_present tokens [''known_critical_vulnerability'', ''critical_vulnerability''],
      xf_synthetic = list_ex (str_in ''synthetic'') tokens\<rparr>"

definition explanation_summary :: "string \<Rightarrow> explanation_flags \<Rightarrow> string" where
  "explanation_summary verdict f =
     (if xf_supply_chain f then
        ''The static health report may pass, but the repository contains ''
        @ (if xf_synthetic f then ''synthetic supply-chain'' else ''supply-chain'')
        @ '' risk signals that prevent execution authorization.''
      else if xf_missing_or_degraded f \<and> xf_no_finding f then
        ''Static checks did not find blocking issues, but missing or degraded evidence prevents this from being an execution green light.''
      else if verdict = ''block'' then
        ''Gate evidence blocks execution review; this is not execution authorization.''
      else if verdict = ''quarantine'' then
        ''Gate evidence requires quarantine or stronger isolation before any execution is considered.''
      else if verdict = ''allow_limited'' then
        ''The gate found only limited scoped evidence, but this is not a safety proof or execution authorization.''
      else if verdict = ''unknown'' then
        ''Static checks did not provide enough bound evidence to authorize execution.''
      else
        ''Static checks did not find blocking issues, but this is not enough to authorize execution.'')"

definition explanation_reasons :: "int \<Rightarrow> string list \<Rightarrow> explanation_flags \<Rightarrow> string list" where
  "explanation_reasons findings_count tokens f =
     (let any = some_present tokens;
          reasons =
            token_if (any [''install_script_execution'', ''package_lifecycle_hook'', ''postinstall''])
              ''A package install hook or postinstall-like script is present.''
            @ token_if (any [''credential_path_reference'', ''credential_access_candidate'',
                              ''environment_access_candidate'', ''host_home_reference''])
                ''Credential-path or environment-access patterns are present.''
            @ token_if (any [''network_request'', ''network_attempt'', ''network_target_string'',
                              ''outbound_network_target'', ''network_exfiltration_indicator''])
                ''An outbound network target or network-attempt string is present.''
            @ token_if (any [''workflow_modification'', ''pull_request_target_misuse'', ''ci_token_abuse'',
                              ''broad_token_permission'', ''unpinned_action'', ''persistence_like_behavior''])
                ''Workflow write-risk or GitHub Actions token-abuse-like behavior is present.''
            @ token_if (any [''obfuscation'', ''dynamic_eval'', ''eval_candidate''])
                ''Obfuscation or dynamic eval-like code is present.''
            @ token_if (xf_critical_vulnerability f)
                ''Critical vulnerability evidence requires review before execution.''
            @ token_if (xf_raw_output f)
                ''Raw scanner output retention or redaction failure blocks safe reporting.''
            @ (if xf_supply_chain f \<and> xf_no_finding f
               then [''Scanner silence is not enough to authorize execution.'']
               else token_if (xf_no_finding f) ''No scanner finding is not proof of safety.'')
            @ token_if (token_present tokens ''low_trust_no_finding''
                        \<and> \<not> (xf_supply_chain f \<or> (xf_no_finding f \<and> xf_observer_gap f)))
                ''Low-trust no-finding evidence cannot lower repository risk.''
            @ token_if (xf_missing_or_degraded f \<and> \<not> xf_supply_chain f)
                ''Runtime or observer evidence is missing or degraded.''
            @ token_if (xf_unbound f \<and> \<not> (xf_supply_chain f \<or> (xf_no_finding f \<and> xf_observer_gap f)))
                ''Evidence is not bound to a commit or tree, so the gate cannot treat it as execution-ready.''
            @ token_if (0 < findings_count \<and> \<not> xf_supply_chain f)
                ''Findings or warning evidence still require review before execution.''
            @ token_if (xf_no_finding f \<and> \<not> xf_supply_chain f)
                ''The gate cannot authorize execution from scanner silence alone.'' in
      if reasons = []
      then [''Evidence remains scoped to the reviewed inputs and limitations.'',
            ''Gate decisions and execution authorization are intentionally separate.'']
      else reasons)"

definition explanation_actions :: "string list \<Rightarrow> explanation_flags \<Rightarrow> string list" where
  "explanation_actions tokens f =
     (let actions =
            (if xf_supply_chain f then
               [''Do not run install scripts locally.'']
               @ token_if (some_present tokens [''install_script_execution'', ''workflow_modification'',
                                                  ''pull_request_target_misuse''])
                   ''Review the install script and workflow changes.''
               @ [''Use a dedicated VM or stronger sandbox if execution is necessary.'']
               @ token_if (xf_synthetic f) ''Treat this as a quarantine-style demo, not a safety proof.''
             else [])
            @ token_if (xf_raw_output f)
                ''Discard raw output and fix redaction before sharing or relying on the report.''
            @ token_if (xf_critical_vulnerability f)
                ''Review or patch critical vulnerability evidence before execution.''
            @ (if (xf_missing_or_degraded f \<or> xf_unbound f) \<and> \<not> xf_supply_chain f
               then [''Review the limitations in the gate decision sidecar.'',
                     ''Add stronger evidence or use a more isolated environment if execution is necessary.'']
               else [])
            @ token_if (xf_no_finding f \<and> \<not> xf_supply_chain f)
                ''Do not run install scripts based only on a clean static report.'' in
      if actions = []
      then [''Do not run install scripts locally based only on scanner silence.'',
            ''Review limitations and evidence gaps.'',
            ''Use a stronger isolated environment if execution is necessary.'']
      else actions)"

definition build_explanation :: "explanation_input \<Rightarrow> dict res" where
  "build_explanation x =
     res_map (\<lambda>tokens.
        (let f = flags_of x tokens in
         [(''summary'', JStr (explanation_summary (xi_verdict x) f)),
          (''key_reasons'', jstrs (dedupe (explanation_reasons (xi_findings_count x) tokens f))),
          (''next_actions'', jstrs (dedupe (explanation_actions tokens f)))]))
      (explanation_tokens x)"

section \<open>The explanation is never empty\<close>

lemma explanation_summary_nonempty: "explanation_summary v f \<noteq> []"
  unfolding explanation_summary_def by (simp only: append_is_Nil_conv list.distinct simp_thms split: if_split)

lemma explanation_reasons_nonempty: "explanation_reasons n tokens f \<noteq> []"
  unfolding explanation_reasons_def Let_def by (simp only: list.distinct simp_thms split: if_split)

lemma explanation_actions_nonempty: "explanation_actions tokens f \<noteq> []"
  unfolding explanation_actions_def Let_def by (simp only: list.distinct simp_thms split: if_split)

lemma build_explanation_shape:
  assumes "build_explanation x = Inr e"
  shows "\<exists>s rs as. e = [(''summary'', JStr s), (''key_reasons'', jstrs rs), (''next_actions'', jstrs as)]
    \<and> s \<noteq> [] \<and> rs \<noteq> [] \<and> as \<noteq> []"
  using assms explanation_summary_nonempty explanation_reasons_nonempty explanation_actions_nonempty
  unfolding build_explanation_def Let_def by (elim res_mapE) (simp, metis dedupe_Nil_iff)

end
