(* ===== verification/Gate_Evaluator.thy ===== *)
theory Gate_Evaluator
  imports Gate_Explanation
begin

text \<open>
  \<open>evaluate_gate_decision\<close> of \<open>gate/evaluator.py\<close>: the evidence loop, the scanner and sandbox
  signals, the conditions on missing evidence and binding, the choice of the verdict and the
  decision document, which the evaluator checks with its own validator before it returns.
  The three JSON files it may load are arguments.
\<close>

record gate_request =
  gq_evidence :: "dict list"
  gq_subject :: "dict option"
  gq_policy :: "dict option"
  gq_suites :: "(dict \<times> suite_validation) list"
  gq_sandbox :: "sandbox_item list"
  gq_policy_file :: "json option"
  gq_schema_file :: "json option"
  gq_risk_file :: "json option"

record gate_evaluation =
  ge_decision :: dict
  ge_valid :: bool
  ge_blocking_errors :: "string list"
  ge_warnings :: "string list"
  ge_verdict_reasons :: "string list"

definition gate_evaluation_to_dict :: "gate_evaluation \<Rightarrow> dict" where
  "gate_evaluation_to_dict r =
     [(''decision'', JObj (ge_decision r)),
      (''valid'', JBool (ge_valid r)),
      (''blocking_errors'', jstrs (ge_blocking_errors r)),
      (''warnings'', jstrs (ge_warnings r)),
      (''verdict_reasons'', jstrs (ge_verdict_reasons r))]"

section \<open>Policy readers\<close>

definition active_gate_policy :: "gate_request \<Rightarrow> dict" where
  "active_gate_policy q =
     (case gq_policy q of Some (p # ps) \<Rightarrow> p # ps | _ \<Rightarrow> load_pre_execution_gate_policy (gq_policy_file q))"

definition mandatory_evidence :: "dict \<Rightarrow> string list res" where
  "mandatory_evidence policy = iter_strings (dget_or policy ''mandatory_evidence'' (JList []))"

definition accepted_missing :: "dict \<Rightarrow> string list res" where
  "accepted_missing policy = iter_strings (dget_or policy ''accepted_missing_evidence'' (JList []))"

definition policy_missing_evidence :: "dict \<Rightarrow> string list res" where
  "policy_missing_evidence policy = iter_strings (dget_or policy ''missing_evidence'' (JList []))"

text \<open>\<open>[name for name in names if name not in _accepted_missing(policy)]\<close>: the policy is read only
  when there is a name.\<close>

definition not_accepted :: "dict \<Rightarrow> string list \<Rightarrow> string list res" where
  "not_accepted policy names =
     (if names = [] then Inr []
      else res_map (\<lambda>accepted. filter (\<lambda>n. n \<notin> set accepted) names) (accepted_missing policy))"

definition append_missing :: "string list \<Rightarrow> string list \<Rightarrow> string list" where
  "append_missing = foldl (\<lambda>missing name. if name \<in> set missing then missing else missing @ [name])"

section \<open>The accumulated evidence\<close>

record gate_totals =
  gt_signals :: "gate_signal list"
  gt_missing :: "string list"
  gt_degraded :: "string list"
  gt_limitations :: "string list"
  gt_residual :: "string list"
  gt_findings :: int
  gt_all_low_trust :: bool
  gt_runtime :: bool
  gt_bound :: bool

definition gather_evidence :: "dict \<Rightarrow> gate_request \<Rightarrow> gate_totals res" where
  "gather_evidence policy q =
     (let items = gq_evidence q; none = (items = []) in
      res_bind (policy_missing_evidence policy) (\<lambda>missing.
      res_bind (mapM view_item items) (\<lambda>views.
      res_map (\<lambda>external.
        \<lparr>gt_signals =
           sig_if none (bare_signal ''unknown'' ''no_evidence'')
           @ concat (map (\<lambda>(item, view). item_signals policy item view) (zip items views))
           @ fst external
           @ sandbox_gate_signals (gq_sandbox q),
         gt_missing = missing @ (if none then [''all_evidence''] else []) @ concat (map item_missing items),
         gt_degraded = concat (map (item_degraded policy) views),
         gt_limitations =
           [''not_execution_authorization'', ''allow_limited_is_not_safety_proof'']
           @ (if none then [''no evidence available''] else [])
           @ concat (map (\<lambda>v. ev_limitations (iv_validation v)) views)
           @ (if gq_suites q \<noteq> [] then [''external_scanner_suite_is_not_safety_proof''] else [])
           @ (if gq_sandbox q \<noteq> [] then [''sandbox_execution_evidence_is_not_safety_proof''] else []),
         gt_residual =
           [''execution_authorization_not_implemented'']
           @ concat (map (\<lambda>v. ev_residual_risks (iv_validation v)) views)
           @ (if gq_suites q \<noteq> [] then [''external_scanner_scope_and_binary_trust_remain_bounded''] else [])
           @ (if gq_sandbox q \<noteq> [] then [''sandbox_execution_scope_and_isolation_remain_bounded''] else []),
         gt_findings = sum_list (map item_findings items) + snd external,
         gt_all_low_trust = (\<not> none \<and> list_all iv_low_trust views),
         gt_runtime = list_ex iv_runtime views,
         gt_bound = list_ex iv_bound views\<rparr>)
      (external_suite_gate_signals (gq_schema_file q) (gq_risk_file q) (gq_suites q)))))"

section \<open>Missing evidence, binding and the verdict\<close>

definition trust_signals :: "gate_request \<Rightarrow> gate_totals \<Rightarrow> gate_signal list" where
  "trust_signals q t =
     sig_if (gt_all_low_trust t \<and> gq_evidence q \<noteq> [] \<and> \<not> gt_runtime t \<and> candidates_of (gt_signals t) = [])
       (bare_signal ''unknown'' ''all_evidence_low_trust_without_runtime_observation'')
     @ sig_if (\<not> gt_bound t \<and> gq_evidence q \<noteq> [])
         (bare_signal ''unknown'' ''binding_unbound_or_insufficient'')"

definition runtime_name :: "string \<Rightarrow> bool" where
  "runtime_name n \<longleftrightarrow> str_in ''runtime'' n \<or> str_in ''observer'' n"

definition missing_signals :: "dict \<Rightarrow> string list \<Rightarrow> string list \<Rightarrow> gate_signal list \<times> string list" where
  "missing_signals policy missing_mandatory nonmandatory_missing =
     (let mandatory = sig_if (missing_mandatory \<noteq> []) (bare_signal ''unknown'' ''missing_mandatory_evidence'') in
      if nonmandatory_missing = [] then (mandatory, [])
      else if is_true (dget policy ''requested_dynamic_judgment'') \<and> list_ex runtime_name nonmandatory_missing
      then (mandatory @ [bare_signal ''quarantine'' ''missing_runtime_observer_for_dynamic_judgment''],
            filter runtime_name nonmandatory_missing)
      else (mandatory @ [bare_signal ''warn'' ''missing_evidence''], []))"

definition finish_totals :: "dict \<Rightarrow> gate_request \<Rightarrow> gate_totals \<Rightarrow> gate_totals res" where
  "finish_totals policy q t =
     res_bind (mandatory_evidence policy) (\<lambda>mandatory.
     res_bind (not_accepted policy mandatory) (\<lambda>missing_mandatory.
     (let missing = append_missing (gt_missing t) missing_mandatory in
      res_map (\<lambda>nonmandatory_missing.
        (let (sigs, degraded) = missing_signals policy missing_mandatory nonmandatory_missing;
             all = gt_signals t @ trust_signals q t @ sigs in
         t\<lparr>gt_signals := all @ sig_if (candidates_of all = [])
                                 (bare_signal ''allow_limited'' ''strict_allow_limited_conditions_met''),
           gt_missing := missing,
           gt_degraded := gt_degraded t @ degraded\<rparr>))
        (not_accepted policy missing))))"

definition evaluate_totals :: "dict \<Rightarrow> gate_request \<Rightarrow> gate_totals res" where
  "evaluate_totals policy q = res_bind (gather_evidence policy q) (finish_totals policy q)"

definition required_actions_of :: "string \<Rightarrow> string list" where
  "required_actions_of verdict =
     (if verdict = ''allow_limited'' then [''proceed only within the reviewed limited scope'']
      else if verdict = ''block'' then [''do not execute until blocking evidence is resolved'']
      else if verdict = ''quarantine''
      then [''do not run locally'', ''use dedicated VM or isolation if execution is necessary'']
      else if verdict = ''unknown''
      then [''do not treat missing evidence as confidence'', ''collect or review missing evidence'']
      else [''review warnings and limitations before execution''])"

definition confidence_of :: "string \<Rightarrow> string" where
  "confidence_of verdict =
     (if verdict = ''allow_limited'' then ''medium''
      else if verdict = ''block'' then ''high''
      else if verdict = ''quarantine'' then ''medium''
      else if verdict = ''unknown'' then ''unknown''
      else ''low'')"

section \<open>The decision document\<close>

definition decision_subject_of :: "dict option \<Rightarrow> dict list \<Rightarrow> dict" where
  "decision_subject_of subject evidence =
     (let build = (\<lambda>repo d.
            [(''repo'', JStr (py_str repo)),
             (''commit'', str_or_null (dget d ''commit'')),
             (''tree_hash'', str_or_null (dget d ''tree_hash'')),
             (''snapshot_id'', str_or_null (dget d ''snapshot_id'')),
             (''manifest_fingerprint'', str_or_null (dget d ''manifest_fingerprint'')),
             (''binding_kind'', JStr (py_str (dget_or d ''binding_kind'' (JStr ''unbound''))))]) in
      case subject of
        Some d \<Rightarrow> build (py_or (dget d ''repo'') (py_or (dget d ''repo_identity'') (JStr ''<repo>''))) d
      | None \<Rightarrow>
          (case find (\<lambda>d. d \<noteq> []) (map (\<lambda>item. sect item ''subject'') evidence) of
             Some d \<Rightarrow> build (dget_or d ''repo_identity'' (JStr ''<repo>'')) d
           | None \<Rightarrow> build (JStr ''<repo>'') []))"

definition evidence_refs_of :: "gate_request \<Rightarrow> json list" where
  "evidence_refs_of q =
     map (\<lambda>(report, validation). JObj (sv_evidence_ref validation)) (gq_suites q)
     @ List.map_filter (\<lambda>x. case x of Validated v \<Rightarrow> Some (JObj (xv_evidence_ref v)) | Bare _ \<Rightarrow> None) (gq_sandbox q)"

definition decision_document :: "dict \<Rightarrow> gate_request \<Rightarrow> gate_totals \<Rightarrow> string \<Rightarrow> dict \<Rightarrow> dict" where
  "decision_document policy q t verdict explanation =
     (let reasons = dedupe (map sg_reason (gt_signals t)); joined = py_join ''; '' reasons in
      [(''decision_kind'', JStr ''repo_health_gate_decision''),
       (''schema_version'', JStr ''0.1-draft''),
       (''subject'', JObj (decision_subject_of (gq_subject q) (gq_evidence q))),
       (''verdict'', JStr verdict),
       (''execution_authorized'', JBool False),
       (''confidence'', JStr (confidence_of verdict)),
       (''confidence_reason'',
        JStr (if joined \<noteq> [] then joined else ''gate evaluator completed without authorizing execution'')),
       (''explanation'', JObj explanation),
       (''evidence_summary'', JObj
         [(''findings_count'', JInt (gt_findings t)),
          (''blocking_evidence'', jstrs (dedupe (concat (map sg_blocking (gt_signals t))))),
          (''warning_evidence'', jstrs (dedupe (concat (map sg_warning (gt_signals t))))),
          (''missing_evidence'', jstrs (dedupe (gt_missing t))),
          (''degraded_observers'', jstrs (dedupe (gt_degraded t)))]),
       (''required_actions'', jstrs (required_actions_of verdict)),
       (''limitations'', jstrs (dedupe (gt_limitations t))),
       (''policy'', JObj
         [(''policy_version'', JStr (py_str (dget_or policy ''policy_version'' (JStr ''unknown'')))),
          (''fail_closed'', JBool (\<not> is_false (dget policy ''fail_closed'')))]),
       (''residual_risks'', jstrs (dedupe (gt_residual t)))]
      @ (if evidence_refs_of q = [] then [] else [(''evidence_refs'', JList (evidence_refs_of q))]))"

text \<open>A decision that fails its own validation is turned into a block; the blocking errors are
  those of the validation.\<close>

definition close_decision :: "dict \<Rightarrow> gate_decision_result \<Rightarrow> gate_totals \<Rightarrow> gate_evaluation" where
  "close_decision decision validation t =
     (let errors = gd_blocking_errors validation @ (if gd_valid validation then [] else gd_blocking_errors validation) in
      \<lparr>ge_decision = (if gd_valid validation then decision
                      else dset (dset decision ''verdict'' (JStr ''block'')) ''confidence'' (JStr ''high'')),
       ge_valid = (errors = []),
       ge_blocking_errors = dedupe errors,
       ge_warnings = dedupe (gd_warnings validation),
       ge_verdict_reasons = dedupe (map sg_reason (gt_signals t))\<rparr>)"

definition with_verdict_limitation :: "string \<Rightarrow> gate_totals \<Rightarrow> gate_totals" where
  "with_verdict_limitation verdict t =
     (if verdict = ''allow_limited''
      then t\<lparr>gt_limitations := gt_limitations t @ [''allow_limited is not proof of safety'']\<rparr> else t)"

definition explanation_input_of :: "gate_request \<Rightarrow> gate_totals \<Rightarrow> string \<Rightarrow> explanation_input" where
  "explanation_input_of q t verdict =
     \<lparr>xi_verdict = verdict, xi_findings_count = gt_findings t, xi_missing = gt_missing t,
      xi_degraded = gt_degraded t, xi_bound = gt_bound t, xi_evidence = gq_evidence q,
      xi_limitations = gt_limitations t, xi_reasons = map sg_reason (gt_signals t)\<rparr>"

definition conclude :: "dict \<Rightarrow> gate_request \<Rightarrow> gate_totals \<Rightarrow> gate_evaluation res" where
  "conclude policy q totals =
     (let verdict = strongest_verdict (candidates_of (gt_signals totals));
          t = with_verdict_limitation verdict totals in
      res_bind (build_explanation (explanation_input_of q t verdict)) (\<lambda>explanation.
        (let decision = decision_document policy q t verdict explanation in
         res_map (\<lambda>validation. close_decision decision validation t) (validate_gate_decision (JObj decision)))))"

definition evaluate_gate_decision :: "gate_request \<Rightarrow> gate_evaluation res" where
  "evaluate_gate_decision q =
     (let policy = active_gate_policy q in
      res_bind (evaluate_totals policy q) (conclude policy q))"

section \<open>The verdicts of the signals\<close>

definition known_signals :: "gate_signal list \<Rightarrow> bool" where
  "known_signals sigs \<longleftrightarrow> set (candidates_of sigs) \<subseteq> set verdict_labels"

lemma known_signals_append [simp]: "known_signals (xs @ ys) \<longleftrightarrow> known_signals xs \<and> known_signals ys"
  by (auto simp: known_signals_def)

lemma known_signals_concat: "(\<And>x. x \<in> set xs \<Longrightarrow> known_signals (f x)) \<Longrightarrow> known_signals (concat (map f xs))"
  by (induction xs) (auto simp: known_signals_def)

lemma known_signals_if [simp]: "known_signals (sig_if b s) \<longleftrightarrow> (b \<longrightarrow> set (sg_candidates s) \<subseteq> set verdict_labels)"
  by (cases b) (simp_all add: known_signals_def sig_if_def candidates_of_def)

lemma labels_mem [simp]:
  "''block'' \<in> set verdict_labels" "''quarantine'' \<in> set verdict_labels" "''unknown'' \<in> set verdict_labels"
  "''warn'' \<in> set verdict_labels" "''allow_limited'' \<in> set verdict_labels"
  by (simp_all add: verdict_labels_def)

lemma known_single: "known_signals [s] \<longleftrightarrow> set (sg_candidates s) \<subseteq> set verdict_labels"
  by (simp add: known_signals_def candidates_of_def)

lemma known_Nil [simp]: "known_signals []"
  by (simp add: known_signals_def)

lemma item_signals_known: "known_signals (item_signals policy item view)"
proof -
  have rec: "known_signals (recommendation_signals e i)" for e i
    unfolding recommendation_signals_def by (simp add: known_single)
  have lim: "known_signals (limitation_signal policy i l)" for i l
    unfolding limitation_signal_def Let_def by (simp add: known_single)
  show ?thesis
    unfolding item_signals_def Let_def by (simp add: rec lim known_signals_concat)
qed

lemma sandbox_verdict_known: "sandbox_verdict_of s \<in> set verdict_labels"
proof -
  have "\<forall>v\<in>set (map snd sandbox_signal_verdicts). v \<in> set verdict_labels"
    by (simp add: sandbox_signal_verdicts_def)
  moreover have "map_of sandbox_signal_verdicts s = Some v \<Longrightarrow> v \<in> set (map snd sandbox_signal_verdicts)" for v
    by (force dest: map_of_SomeD)
  ultimately show ?thesis
    unfolding sandbox_verdict_of_def by (cases "map_of sandbox_signal_verdicts s") auto
qed

lemma sandbox_signal_candidates: "sg_candidates (sandbox_signal i s) = [sandbox_verdict_of s]"
  by (simp add: sandbox_signal_def Let_def)

lemma sandbox_gate_signals_known: "known_signals (sandbox_gate_signals items)"
proof -
  have "known_signals (map (sandbox_signal i) ss)" for i ss
    by (induction ss) (use sandbox_verdict_known in \<open>auto simp: known_signals_def candidates_of_def sandbox_signal_candidates\<close>)
  then show ?thesis
    unfolding sandbox_gate_signals_def by (intro known_signals_concat) (simp split: prod.split)
qed

lemma mapM_all:
  assumes "mapM f xs = Inr ys" and "\<And>x y. x \<in> set xs \<Longrightarrow> f x = Inr y \<Longrightarrow> P y"
  shows "\<forall>y\<in>set ys. P y"
proof -
  from assms(1) have "list_all2 (\<lambda>x y. f x = Inr y) xs ys" by (simp add: mapM_Inr_iff)
  then show ?thesis
    using assms(2) by (induction rule: list_all2_induct) auto
qed

lemma known_signals_parts: "\<forall>p\<in>set parts. known_signals (fst p) \<Longrightarrow> known_signals (concat (map fst parts))"
  by (rule known_signals_concat) blast

lemma external_mapping_verdict_known: "external_mapping_verdict m = Some v \<Longrightarrow> v \<in> set verdict_labels"
  unfolding external_mapping_verdict_def by (auto split: if_splits)

lemma entry_verdict_known: "(\<And>v. c = Some v \<Longrightarrow> v \<in> set verdict_labels) \<Longrightarrow> known_signals (entry_verdict_signals i c n)"
  unfolding entry_verdict_signals_def Let_def by (simp add: known_single split: option.split)

lemma reasons_known: "known_signals (map (\<lambda>r. reason_only (f r)) rs)"
  by (induction rs) (simp_all add: known_signals_def candidates_of_def)

lemma entry_signals_known: "entry_signals sf rf i e = Inr p \<Longrightarrow> known_signals (fst p)"
  unfolding entry_signals_def scanned_entry_signals_def
  by (auto simp: known_single reasons_known entry_verdict_known external_mapping_verdict_known
      elim!: res_bindE res_mapE split: json.splits if_splits)

lemma suite_signals_known: "suite_signals sf rf n s = Inr p \<Longrightarrow> known_signals (fst p)"
proof -
  assume a: "suite_signals sf rf n s = Inr p"
  show ?thesis
  proof (cases "sv_valid (snd s) \<and> is_list (dget (fst s) ''entries'')")
    case True
    then obtain es where es: "dget (fst s) ''entries'' = JList es" by (auto simp: is_list_iff)
    from a True obtain parts where parts: "mapM (\<lambda>(k, entry). entry_signals sf rf
          ((''external_suite:'' @ nat_text n) @ '':entry:'' @ nat_text k) entry) (zip [1..<Suc (length es)] es) = Inr parts"
      and p: "p = (concat (map fst parts), sum_list (map snd parts))"
      unfolding suite_signals_def Let_def es json.case by (auto elim!: res_mapE)
    have "\<forall>p\<in>set parts. known_signals (fst p)"
      by (rule mapM_all [OF parts]) (auto dest: entry_signals_known)
    with p known_signals_parts show ?thesis by simp
  next
    case False
    with a show ?thesis
      unfolding suite_signals_def Let_def by (auto simp: known_single split: if_splits json.splits)
  qed
qed

lemma external_signals_known: "external_suite_gate_signals sf rf ss = Inr p \<Longrightarrow> known_signals (fst p)"
proof -
  assume "external_suite_gate_signals sf rf ss = Inr p"
  then obtain parts where parts: "mapM (\<lambda>(n, suite). suite_signals sf rf n suite) (zip [1..<Suc (length ss)] ss) = Inr parts"
    and p: "p = (concat (map fst parts), sum_list (map snd parts))"
    unfolding external_suite_gate_signals_def by (auto elim!: res_mapE)
  have "\<forall>p\<in>set parts. known_signals (fst p)"
    by (rule mapM_all [OF parts]) (auto dest: suite_signals_known)
  with p known_signals_parts show ?thesis by simp
qed

section \<open>The run of the evaluator\<close>

lemma gather_signals:
  assumes "gather_evidence policy q = Inr t"
  obtains views ext where "mapM view_item (gq_evidence q) = Inr views"
    and "external_suite_gate_signals (gq_schema_file q) (gq_risk_file q) (gq_suites q) = Inr ext"
    and "gt_signals t = sig_if (gq_evidence q = []) (bare_signal ''unknown'' ''no_evidence'')
       @ concat (map (\<lambda>(item, view). item_signals policy item view) (zip (gq_evidence q) views))
       @ fst ext @ sandbox_gate_signals (gq_sandbox q)"
    and "gt_bound t = list_ex iv_bound views"
    and "gt_limitations t \<noteq> []"
  using assms unfolding gather_evidence_def Let_def by (elim res_bindE res_mapE) (rule that; simp)

lemma finish_signals:
  assumes "finish_totals policy q t = Inr t'"
  obtains mand missm nonm where "mandatory_evidence policy = Inr mand" and "not_accepted policy mand = Inr missm"
    and "not_accepted policy (append_missing (gt_missing t) missm) = Inr nonm"
    and "gt_signals t' = gt_signals t @ trust_signals q t @ fst (missing_signals policy missm nonm)
      @ sig_if (candidates_of (gt_signals t @ trust_signals q t @ fst (missing_signals policy missm nonm)) = [])
          (bare_signal ''allow_limited'' ''strict_allow_limited_conditions_met'')"
    and "gt_missing t' = append_missing (gt_missing t) missm"
    and "gt_bound t' = gt_bound t" and "gt_limitations t' = gt_limitations t"
  using assms unfolding finish_totals_def Let_def
  by (elim res_bindE res_mapE) (rule that, assumption+, simp_all split: prod.split)

lemma missing_signals_known: "known_signals (fst (missing_signals policy m n))"
  unfolding missing_signals_def Let_def by (simp add: known_single)

lemma trust_signals_known: "known_signals (trust_signals q t)"
  by (simp add: trust_signals_def)

lemma totals_known:
  assumes "evaluate_totals policy q = Inr t"
  shows "known_signals (gt_signals t)" and "candidates_of (gt_signals t) \<noteq> []"
proof -
  from assms obtain t0 where t0: "gather_evidence policy q = Inr t0" and t: "finish_totals policy q t0 = Inr t"
    unfolding evaluate_totals_def by (rule res_bindE)
  from t0 obtain views ext where g: "external_suite_gate_signals (gq_schema_file q) (gq_risk_file q) (gq_suites q) = Inr ext"
    "gt_signals t0 = sig_if (gq_evidence q = []) (bare_signal ''unknown'' ''no_evidence'')
       @ concat (map (\<lambda>(item, view). item_signals policy item view) (zip (gq_evidence q) views))
       @ fst ext @ sandbox_gate_signals (gq_sandbox q)"
    by (rule gather_signals)
  have items: "known_signals (concat (map (\<lambda>(item, view). item_signals policy item view) xs))" for xs
    by (intro known_signals_concat) (simp add: item_signals_known split: prod.split)
  have k0: "known_signals (gt_signals t0)"
    by (simp add: g(2) items external_signals_known [OF g(1)] sandbox_gate_signals_known)
  from t obtain missm nonm where f: "gt_signals t = gt_signals t0 @ trust_signals q t0 @ fst (missing_signals policy missm nonm)
      @ sig_if (candidates_of (gt_signals t0 @ trust_signals q t0 @ fst (missing_signals policy missm nonm)) = [])
          (bare_signal ''allow_limited'' ''strict_allow_limited_conditions_met'')"
    by (rule finish_signals)
  show "known_signals (gt_signals t)"
    by (simp add: f k0 trust_signals_known missing_signals_known)
  show "candidates_of (gt_signals t) \<noteq> []"
    unfolding f by (cases "candidates_of (gt_signals t0 @ trust_signals q t0 @ fst (missing_signals policy missm nonm)) = []")
      (simp_all add: candidates_of_def sig_if_def)
qed

lemma evaluate_pieces:
  assumes "evaluate_gate_decision q = Inr r"
  obtains t explanation validation where "evaluate_totals (active_gate_policy q) q = Inr t"
    and "validate_gate_decision (JObj (decision_document (active_gate_policy q) q
          (with_verdict_limitation (strongest_verdict (candidates_of (gt_signals t))) t)
          (strongest_verdict (candidates_of (gt_signals t))) explanation)) = Inr validation"
    and "close_decision (decision_document (active_gate_policy q) q
          (with_verdict_limitation (strongest_verdict (candidates_of (gt_signals t))) t)
          (strongest_verdict (candidates_of (gt_signals t))) explanation) validation
          (with_verdict_limitation (strongest_verdict (candidates_of (gt_signals t))) t) = r"
  using assms unfolding evaluate_gate_decision_def Let_def conclude_def
  by (elim res_bindE res_mapE) (rule that, assumption+, simp only:)

lemma document_fields:
  "dget (decision_document policy q t verdict ex) ''verdict'' = JStr verdict"
  "dget (decision_document policy q t verdict ex) ''execution_authorized'' = JBool False"
  by (simp_all add: decision_document_def Let_def dget_Cons)

lemma closed_fields:
  "dget (ge_decision (close_decision d v t)) ''verdict'' = (if gd_valid v then dget d ''verdict'' else JStr ''block'')"
  "dget (ge_decision (close_decision d v t)) ''execution_authorized'' = dget d ''execution_authorized''"
  by (simp_all add: close_decision_def Let_def dget_or_dset)

lemma gd_valid_iff: "validate_gate_decision v = Inr r \<Longrightarrow> gd_valid r \<longleftrightarrow> gd_blocking_errors r = []"
  by (cases v) (auto simp: validate_gate_decision_def elim!: res_mapE)

lemma ge_valid_iff:
  assumes "validate_gate_decision d' = Inr v"
  shows "ge_valid (close_decision d v t) \<longleftrightarrow> gd_valid v"
  using gd_valid_iff [OF assms] by (simp add: close_decision_def Let_def)

text \<open>The verdict of the result: that of the strongest candidate, or \<open>block\<close>.\<close>

lemma evaluate_verdict:
  assumes "evaluate_gate_decision q = Inr r"
  obtains t where "evaluate_totals (active_gate_policy q) q = Inr t"
    and "dget (ge_decision r) ''verdict'' =
      JStr (if ge_valid r then strongest_verdict (candidates_of (gt_signals t)) else ''block'')"
    and "dget (ge_decision r) ''execution_authorized'' = JBool False"
proof -
  from assms obtain t ex v where t: "evaluate_totals (active_gate_policy q) q = Inr t"
    and v: "validate_gate_decision (JObj (decision_document (active_gate_policy q) q
          (with_verdict_limitation (strongest_verdict (candidates_of (gt_signals t))) t)
          (strongest_verdict (candidates_of (gt_signals t))) ex)) = Inr v"
    and r: "close_decision (decision_document (active_gate_policy q) q
          (with_verdict_limitation (strongest_verdict (candidates_of (gt_signals t))) t)
          (strongest_verdict (candidates_of (gt_signals t))) ex) v
          (with_verdict_limitation (strongest_verdict (candidates_of (gt_signals t))) t) = r"
    by (rule evaluate_pieces)
  have "ge_valid r \<longleftrightarrow> gd_valid v" unfolding r [symmetric] by (rule ge_valid_iff [OF v])
  then have "dget (ge_decision r) ''verdict'' =
      JStr (if ge_valid r then strongest_verdict (candidates_of (gt_signals t)) else ''block'')"
    unfolding r [symmetric] closed_fields document_fields by simp
  moreover have "dget (ge_decision r) ''execution_authorized'' = JBool False"
    unfolding r [symmetric] closed_fields document_fields by simp
  ultimately show thesis using t that by blast
qed

text \<open>Every candidate of every signal bounds the verdict from below.\<close>

lemma verdict_above_candidates:
  assumes "evaluate_gate_decision q = Inr r"
  obtains t v where "evaluate_totals (active_gate_policy q) q = Inr t"
    and "dget (ge_decision r) ''verdict'' = JStr v" and "v \<in> set verdict_labels"
    and "\<forall>c\<in>set (candidates_of (gt_signals t)). verdict_rank c \<le> verdict_rank v"
proof -
  from assms obtain t where t: "evaluate_totals (active_gate_policy q) q = Inr t"
    and v: "dget (ge_decision r) ''verdict'' =
      JStr (if ge_valid r then strongest_verdict (candidates_of (gt_signals t)) else ''block'')"
    by (rule evaluate_verdict)
  let ?s = "strongest_verdict (candidates_of (gt_signals t))"
  have "?s \<in> set verdict_labels"
    by (rule strongest_verdict_known) (use totals_known(1) [OF t] in \<open>simp add: known_signals_def\<close>)
  moreover have "verdict_rank c \<le> verdict_rank ''block''" for c
    unfolding verdict_rank_def by (rule verdicts.rank_le_top)
  ultimately show thesis
    using that [OF t v] strongest_verdict_upper by (cases "ge_valid r") auto
qed

section \<open>Which signals a run contains\<close>

lemma mapM_zip_mem:
  assumes "mapM f xs = Inr ys" and "x \<in> set xs"
  shows "\<exists>y. f x = Inr y \<and> (x, y) \<in> set (zip xs ys)"
proof -
  from assms(1) have "list_all2 (\<lambda>x y. f x = Inr y) xs ys" by (simp add: mapM_Inr_iff)
  then show ?thesis
    using assms(2) by (induction rule: list_all2_induct) auto
qed

lemma totals_contain:
  assumes "evaluate_totals policy q = Inr t"
  shows "\<And>item. item \<in> set (gq_evidence q) \<Longrightarrow>
      \<exists>view. view_item item = Inr view \<and> set (item_signals policy item view) \<subseteq> set (gt_signals t)"
    and "set (sandbox_gate_signals (gq_sandbox q)) \<subseteq> set (gt_signals t)"
    and "gq_evidence q = [] \<Longrightarrow> bare_signal ''unknown'' ''no_evidence'' \<in> set (gt_signals t)"
    and "\<exists>ext. external_suite_gate_signals (gq_schema_file q) (gq_risk_file q) (gq_suites q) = Inr ext
      \<and> set (fst ext) \<subseteq> set (gt_signals t)"
proof -
  from assms obtain t0 where t0: "gather_evidence policy q = Inr t0" and t: "finish_totals policy q t0 = Inr t"
    unfolding evaluate_totals_def by (rule res_bindE)
  from t0 obtain views ext where views: "mapM view_item (gq_evidence q) = Inr views"
    and ext: "external_suite_gate_signals (gq_schema_file q) (gq_risk_file q) (gq_suites q) = Inr ext"
    and g: "gt_signals t0 = sig_if (gq_evidence q = []) (bare_signal ''unknown'' ''no_evidence'')
       @ concat (map (\<lambda>(item, view). item_signals policy item view) (zip (gq_evidence q) views))
       @ fst ext @ sandbox_gate_signals (gq_sandbox q)"
    by (rule gather_signals)
  from t have sub: "set (gt_signals t0) \<subseteq> set (gt_signals t)" by (elim finish_signals) auto
  show "\<exists>view. view_item item = Inr view \<and> set (item_signals policy item view) \<subseteq> set (gt_signals t)"
    if "item \<in> set (gq_evidence q)" for item
  proof -
    from mapM_zip_mem [OF views that] obtain view where v: "view_item item = Inr view"
      and z: "(item, view) \<in> set (zip (gq_evidence q) views)" by blast
    from z have "set (item_signals policy item view) \<subseteq> set (gt_signals t0)" unfolding g by auto
    with v sub show ?thesis by blast
  qed
  show "set (sandbox_gate_signals (gq_sandbox q)) \<subseteq> set (gt_signals t)" using sub unfolding g by auto
  show "bare_signal ''unknown'' ''no_evidence'' \<in> set (gt_signals t)" if "gq_evidence q = []"
    using sub that unfolding g by auto
  show "\<exists>ext. external_suite_gate_signals (gq_schema_file q) (gq_risk_file q) (gq_suites q) = Inr ext
      \<and> set (fst ext) \<subseteq> set (gt_signals t)"
    using sub ext unfolding g by auto
qed

lemma candidate_in_totals:
  "s \<in> set (gt_signals t) \<Longrightarrow> c \<in> set (sg_candidates s) \<Longrightarrow> c \<in> set (candidates_of (gt_signals t))"
  by (auto simp: mem_candidates)

lemma rank_block: "verdict_rank ''block'' \<le> verdict_rank v \<Longrightarrow> v \<in> set verdict_labels \<Longrightarrow> v = ''block''"
  using verdicts.rank_le_top [of v] verdicts.rank_inj [of v "''block''"] verdict_labels_keys
  unfolding verdict_rank_def by (metis antisym)

text \<open>What makes an item block, whatever else there is.\<close>

definition blocking_item :: "dict \<Rightarrow> bool" where
  "blocking_item item \<longleftrightarrow>
     (\<exists>ev. validate_evidence (JObj item) = Inr ev \<and> \<not> ev_valid ev)
     \<or> dget item ''execution_authorized'' = JBool True
     \<or> dget (sect item ''effects'') ''can_authorize_execution'' = JBool True
     \<or> raw_output_retained item
     \<or> dget (sect item ''raw_handling'') ''redaction_status'' = JStr ''failed''
     \<or> dget (sect item ''effects'') ''recommended_gate_effect'' = JStr ''block''"

lemma blocking_item_signal:
  assumes "blocking_item item" and "view_item item = Inr view"
  shows "\<exists>s\<in>set (item_signals policy item view). ''block'' \<in> set (sg_candidates s)"
proof -
  have val: "validate_evidence (JObj item) = Inr (iv_validation view)"
    using assms(2) unfolding view_item_def by (auto elim!: res_bindE res_mapE)
  from assms(1) val consider "\<not> ev_valid (iv_validation view)"
    | "is_true (dget item ''execution_authorized'') \<or> is_true (dget (sect item ''effects'') ''can_authorize_execution'')"
    | "raw_output_retained item" | "dget (sect item ''raw_handling'') ''redaction_status'' = JStr ''failed''"
    | "dget (sect item ''effects'') ''recommended_gate_effect'' = JStr ''block''"
    unfolding blocking_item_def is_true_def by auto
  then show ?thesis
  proof cases
    case 5
    then have "block_signal (''recommended_block:'' @ iv_id view) (iv_id view) \<in> set (item_signals policy item view)"
      unfolding item_signals_def Let_def set_append by (simp add: recommendation_signals_def)
    then show ?thesis by (rule bexI [rotated]) simp
  qed (unfold item_signals_def Let_def set_append set_sig_if, auto)
qed

end
