(* ===== verification/Gate_Properties.thy ===== *)
theory Gate_Properties
  imports Gate_Evaluator
begin

text \<open>
  What the gate guarantees, whatever the evidence, the policy, the scanner suites and the
  sandbox runs are; each property with a concrete run it applies to.
\<close>

section \<open>Sample requests\<close>

definition gate_sample :: "dict list \<Rightarrow> gate_request" where
  "gate_sample evidence =
     \<lparr>gq_evidence = evidence, gq_subject = None, gq_policy = None, gq_suites = [], gq_sandbox = [],
      gq_policy_file = None, gq_schema_file = None, gq_risk_file = None\<rparr>"

lemma sample_allows_valid:
  "returning (\<lambda>r. dget (ge_decision r) ''verdict'' = JStr ''allow_limited'' \<and> ge_valid r)
     (evaluate_gate_decision (gate_sample [sample_evidence]))"
  by code_simp

lemma sample_allows:
  "returning (\<lambda>r. dget (ge_decision r) ''verdict'' = JStr ''allow_limited'')
     (evaluate_gate_decision (gate_sample [sample_evidence]))"
  and sample_valid: "returning ge_valid (evaluate_gate_decision (gate_sample [sample_evidence]))"
  by (rule returningE [OF sample_allows_valid], simp add: returning_def)+

lemma sample_empty_returns: "returns (evaluate_gate_decision (gate_sample []))"
  by code_simp

definition raw_evidence :: dict where
  "raw_evidence =
     [(''evidence_id'', JStr ''e2''),
      (''raw_handling'', JObj [(''raw_output_retained'', JBool True)])]"

lemma sample_raw_returns: "returns (evaluate_gate_decision (gate_sample [raw_evidence]))"
  by code_simp

section \<open>What allow_limited requires\<close>

lemma no_strong_candidates:
  assumes "evaluate_gate_decision q = Inr r" and "dget (ge_decision r) ''verdict'' = JStr ''allow_limited''"
  obtains t where "evaluate_totals (active_gate_policy q) q = Inr t"
    and "\<forall>s\<in>set (gt_signals t). \<forall>c\<in>set (sg_candidates s). c = ''allow_limited''"
    and "ge_valid r"
proof -
  from assms(1) obtain t v where t: "evaluate_totals (active_gate_policy q) q = Inr t"
    and v: "dget (ge_decision r) ''verdict'' = JStr v"
    and up: "\<forall>c\<in>set (candidates_of (gt_signals t)). verdict_rank c \<le> verdict_rank v"
    by (rule verdict_above_candidates)
  from v assms(2) have v: "v = ''allow_limited''" by simp
  have known: "set (candidates_of (gt_signals t)) \<subseteq> set verdict_labels"
    using totals_known(1) [OF t] by (simp add: known_signals_def)
  have weak: "c = ''allow_limited''" if "c \<in> set (candidates_of (gt_signals t))" for c
  proof -
    from up that have "verdict_rank c \<le> 0" by (simp add: v)
    moreover from known that have "c \<in> set verdict_labels" by blast
    ultimately show ?thesis by (auto simp: verdict_labels_def)
  qed
  have "ge_valid r"
    using assms by (elim evaluate_verdict) (simp split: if_splits)
  with t weak that show thesis using candidate_in_totals by blast
qed

lemma sig_if_weak:
  assumes "\<forall>s\<in>set (sig_if b x). \<forall>c\<in>set (sg_candidates s). c = ''allow_limited''"
    and "\<exists>c\<in>set (sg_candidates x). c \<noteq> ''allow_limited''"
  shows "\<not> b"
  using assms by (auto split: if_splits)

lemma weak_block [simp]: "\<exists>c\<in>set (sg_candidates (block_signal r e)). c \<noteq> ''allow_limited''"
  by simp

text \<open>An item all of whose signals are weak.\<close>

definition quiet_item :: "dict \<Rightarrow> dict \<Rightarrow> bool" where
  "quiet_item policy item \<longleftrightarrow>
     (\<exists>ev. validate_evidence (JObj item) = Inr ev \<and> ev_valid ev
        \<and> (\<forall>l\<in>set (ev_limitations ev). limitation_verdict l policy = ''allow_limited''))
     \<and> dget (sect item ''finding'') ''present'' \<noteq> JBool False
     \<and> dget (sect item ''subject'') ''binding_kind'' \<noteq> JStr ''unbound''
     \<and> (\<forall>k\<in>{''block'', ''quarantine'', ''warn''}. dget (sect item ''effects'') ''recommended_gate_effect'' \<noteq> JStr k)"

lemma limitation_verdict_cases:
  "limitation_verdict l policy \<in> {''block'', ''quarantine'', ''warn'', ''allow_limited''}"
  by (simp add: limitation_verdict_def Let_def)

lemma weak_limitation:
  assumes "\<forall>s\<in>set (limitation_signal policy i l). \<forall>c\<in>set (sg_candidates s). c = ''allow_limited''"
  shows "limitation_verdict l policy = ''allow_limited''"
proof -
  from limitation_verdict_cases [of l policy] consider "limitation_verdict l policy = ''block''"
    | "limitation_verdict l policy = ''quarantine''" | "limitation_verdict l policy = ''warn''"
    | "limitation_verdict l policy = ''allow_limited''" by blast
  then show ?thesis
    by cases (use assms in \<open>simp_all add: limitation_signal_def\<close>)
qed

lemma weak_recommendation:
  assumes "\<forall>s\<in>set (recommendation_signals e i). \<forall>c\<in>set (sg_candidates s). c = ''allow_limited''"
  shows "\<forall>k\<in>{''block'', ''quarantine'', ''warn''}. e \<noteq> JStr k"
  by (cases "e = JStr ''block''"; cases "e = JStr ''quarantine''"; cases "e = JStr ''warn''")
    (use assms in \<open>simp_all add: recommendation_signals_def\<close>)

lemma weak_item_quiet:
  assumes "view_item item = Inr view"
    and weak: "\<forall>s\<in>set (item_signals policy item view). \<forall>c\<in>set (sg_candidates s). c = ''allow_limited''"
  shows "quiet_item policy item"
proof -
  have val: "validate_evidence (JObj item) = Inr (iv_validation view)"
    using assms(1) unfolding view_item_def by (elim res_bindE res_mapE) simp
  note parts = weak [unfolded item_signals_def Let_def set_append ball_Un]
  have "ev_valid (iv_validation view)"
    using parts by (simp split: if_splits)
  moreover have "\<not> is_false (dget (sect item ''finding'') ''present'')"
    using parts by (simp split: if_splits)
  moreover have "dget (sect item ''subject'') ''binding_kind'' \<noteq> JStr ''unbound''"
    using parts by (simp split: if_splits)
  moreover have "\<forall>k\<in>{''block'', ''quarantine'', ''warn''}. dget (sect item ''effects'') ''recommended_gate_effect'' \<noteq> JStr k"
    by (rule weak_recommendation [of _ "iv_id view"]) (use parts in \<open>elim conjE\<close>)
  moreover have "limitation_verdict l policy = ''allow_limited''" if "l \<in> set (ev_limitations (iv_validation view))" for l
    by (rule weak_limitation [of _ "iv_id view"]) (use parts that in auto)
  ultimately show ?thesis using val unfolding quiet_item_def is_false_def by blast
qed

lemma enumerate_mem:
  assumes "x \<in> set xs"
  shows "\<exists>n. (n, x) \<in> set (zip [1..<Suc (length xs)] xs)"
proof -
  from assms obtain i where "i < length xs" "x = xs ! i" by (auto simp: in_set_conv_nth)
  then have "(Suc i, x) \<in> set (zip [1..<Suc (length xs)] xs)"
    unfolding in_set_zip by (intro exI [of _ i]) (simp del: upt_Suc)
  then show ?thesis ..
qed

lemma concat_map_mem: "x \<in> set xs \<Longrightarrow> y \<in> set (f x) \<Longrightarrow> y \<in> set (concat (map f xs))"
  by auto

lemma invalid_suite_signals:
  assumes "suite_signals sf rf n suite = Inr p" and "\<not> sv_valid (snd suite)"
  shows "\<exists>s\<in>set (fst p). ''unknown'' \<in> set (sg_candidates s)"
proof -
  from assms(2) have "\<exists>reason i. suite_signals sf rf n suite = Inr ([warn_signal ''unknown'' reason i], 0)"
    unfolding suite_signals_def Let_def by (simp only: simp_thms if_True) blast
  with assms(1) obtain reason i where "p = ([warn_signal ''unknown'' reason i], 0)" by (metis sum.inject(2))
  then show ?thesis by simp
qed

lemma suite_signal_mem:
  assumes "external_suite_gate_signals sf rf suites = Inr ext" and "suite \<in> set suites" and "\<not> sv_valid (snd suite)"
  shows "\<exists>s\<in>set (fst ext). ''unknown'' \<in> set (sg_candidates s)"
proof -
  from assms(1) obtain parts where parts: "mapM (\<lambda>(n, suite). suite_signals sf rf n suite)
        (zip [1..<Suc (length suites)] suites) = Inr parts"
    and ext: "ext = (concat (map fst parts), sum_list (map snd parts))"
    unfolding external_suite_gate_signals_def by (elim res_mapE)
  from enumerate_mem [OF assms(2)] obtain n where n: "(n, suite) \<in> set (zip [1..<Suc (length suites)] suites)" ..
  from mapM_zip_mem [OF parts n] obtain p where "suite_signals sf rf n suite = Inr p"
    and "((n, suite), p) \<in> set (zip (zip [1..<Suc (length suites)] suites) parts)"
    unfolding prod.case by (elim exE conjE) (rule that)
  then have p: "suite_signals sf rf n suite = Inr p" "p \<in> set parts" by - (assumption, elim set_zip_rightD)
  from invalid_suite_signals [OF p(1) assms(3)] p(2) show ?thesis unfolding ext by auto
qed

lemma sandbox_signal_mem:
  assumes "x \<in> set items" and "sig \<in> set (sandbox_item_signals (sandbox_item_evidence x))"
  shows "\<exists>s\<in>set (sandbox_gate_signals items). sandbox_verdict_of sig \<in> set (sg_candidates s)"
proof -
  from enumerate_mem [OF assms(1)] obtain n where n: "(n, x) \<in> set (zip [1..<Suc (length items)] items)" ..
  have "sandbox_signal (''sandbox_evidence:'' @ nat_text n) sig \<in> set (sandbox_gate_signals items)"
    unfolding sandbox_gate_signals_def
    by (rule concat_map_mem [OF n]) (simp add: assms(2) del: nat_text.simps)
  then show ?thesis by (rule bexI [rotated]) (simp add: sandbox_signal_candidates)
qed

lemma sandbox_verdict_not_allow: "sandbox_verdict_of s \<noteq> ''allow_limited''"
proof (cases "map_of sandbox_signal_verdicts s")
  case (Some v)
  then have "v \<in> snd ` set sandbox_signal_verdicts" by (rule image_eqI [rotated, OF map_of_SomeD]) simp
  moreover have "\<forall>v\<in>snd ` set sandbox_signal_verdicts. v \<noteq> ''allow_limited''"
    by (simp add: sandbox_signal_verdicts_def)
  ultimately have "v \<noteq> ''allow_limited''" by blast
  with Some show ?thesis by (simp add: sandbox_verdict_of_def)
qed (simp add: sandbox_verdict_of_def)

text \<open>The signals of the mandatory evidence and of the missing names.\<close>

lemma totals_mandatory:
  assumes "evaluate_totals policy q = Inr t"
  shows "\<exists>missing. mandatory_evidence policy = Inr missing
    \<and> (\<exists>left. not_accepted policy missing = Inr left
         \<and> (left \<noteq> [] \<longrightarrow> bare_signal ''unknown'' ''missing_mandatory_evidence'' \<in> set (gt_signals t)))"
proof -
  from assms obtain t0 where t: "finish_totals policy q t0 = Inr t"
    unfolding evaluate_totals_def by (rule res_bindE)
  from t obtain mand left nonm where "mandatory_evidence policy = Inr mand" "not_accepted policy mand = Inr left"
    and g: "gt_signals t = gt_signals t0 @ trust_signals q t0 @ fst (missing_signals policy left nonm)
      @ sig_if (candidates_of (gt_signals t0 @ trust_signals q t0 @ fst (missing_signals policy left nonm)) = [])
          (bare_signal ''allow_limited'' ''strict_allow_limited_conditions_met'')"
    by (rule finish_signals)
  moreover have "bare_signal ''unknown'' ''missing_mandatory_evidence'' \<in> set (gt_signals t)" if "left \<noteq> []"
  proof -
    from that have "bare_signal ''unknown'' ''missing_mandatory_evidence'' \<in> set (fst (missing_signals policy left nonm))"
      by (simp add: missing_signals_def Let_def)
    then show ?thesis unfolding g set_append by blast
  qed
  ultimately show ?thesis by blast
qed

text \<open>The same for names of missing evidence that the policy does not accept.\<close>

lemma totals_missing:
  assumes "evaluate_totals policy q = Inr t" and "policy_missing_evidence policy = Inr names"
    and "n \<in> set names" and "accepted_missing policy = Inr accepted" and "n \<notin> set accepted"
  shows "\<exists>s\<in>set (gt_signals t). \<exists>c\<in>set (sg_candidates s). c \<noteq> ''allow_limited''"
proof -
  from assms(1) obtain t0 where t0: "gather_evidence policy q = Inr t0" and t: "finish_totals policy q t0 = Inr t"
    unfolding evaluate_totals_def by (rule res_bindE)
  from t0 assms(2) have n0: "n \<in> set (gt_missing t0)"
    using assms(3) unfolding gather_evidence_def Let_def by (auto elim!: res_bindE res_mapE)
  from t obtain mand missm nonm where nonm: "not_accepted policy (append_missing (gt_missing t0) missm) = Inr nonm"
    and g: "gt_signals t = gt_signals t0 @ trust_signals q t0 @ fst (missing_signals policy missm nonm)
      @ sig_if (candidates_of (gt_signals t0 @ trust_signals q t0 @ fst (missing_signals policy missm nonm)) = [])
          (bare_signal ''allow_limited'' ''strict_allow_limited_conditions_met'')"
    by (rule finish_signals)
  have "m \<in> set xs \<Longrightarrow> m \<in> set (append_missing xs ys)" for m :: string and xs ys
    unfolding append_missing_def by (induction ys arbitrary: xs) simp_all
  with n0 have "n \<in> set (append_missing (gt_missing t0) missm)" by blast
  with nonm assms(4,5) have "nonm \<noteq> []"
    by (auto simp: not_accepted_def filter_empty_conv split: if_splits elim!: res_mapE)
  then have "\<exists>s\<in>set (fst (missing_signals policy missm nonm)). \<exists>c\<in>set (sg_candidates s). c \<noteq> ''allow_limited''"
    by (simp add: missing_signals_def Let_def)
  then show ?thesis unfolding g set_append by blast
qed

text \<open>One blocking item decides the verdict.\<close>

lemma blocking_item_verdict:
  assumes "evaluate_gate_decision q = Inr r" and "item \<in> set (gq_evidence q)" and "blocking_item item"
  shows "dget (ge_decision r) ''verdict'' = JStr ''block''"
proof -
  from assms(1) obtain t v where t: "evaluate_totals (active_gate_policy q) q = Inr t"
    and v: "dget (ge_decision r) ''verdict'' = JStr v" "v \<in> set verdict_labels"
    and up: "\<forall>c\<in>set (candidates_of (gt_signals t)). verdict_rank c \<le> verdict_rank v"
    by (rule verdict_above_candidates)
  from totals_contain(1) [OF t assms(2)] obtain view where view: "view_item item = Inr view"
    and sub: "set (item_signals (active_gate_policy q) item view) \<subseteq> set (gt_signals t)" by blast
  from blocking_item_signal [OF assms(3) view] sub have "''block'' \<in> set (candidates_of (gt_signals t))"
    using candidate_in_totals by blast
  from rank_block [OF bspec [OF up this] v(2)] v(1) show ?thesis by simp
qed

section \<open>Properties\<close>

text \<open>C3: whatever it is given, the gate never authorizes execution, and its verdict is one of the
  five labels.\<close>

theorem gate_never_authorizes:
  assumes "evaluate_gate_decision q = Inr r"
  shows "dget (ge_decision r) ''execution_authorized'' = JBool False
    \<and> (\<exists>v\<in>set verdict_labels. dget (ge_decision r) ''verdict'' = JStr v)"
proof -
  from assms have "dget (ge_decision r) ''execution_authorized'' = JBool False"
    by (elim evaluate_verdict)
  moreover from assms have "\<exists>v\<in>set verdict_labels. dget (ge_decision r) ''verdict'' = JStr v"
    by (elim verdict_above_candidates) blast
  ultimately show ?thesis by blast
qed

text \<open>C11: one evidence item that fails validation, claims to authorize execution, retained raw
  output, failed redaction or recommends a block makes the verdict \<open>block\<close>, whatever the
  policy, the other items and the other sources say.\<close>

theorem blocking_evidence_blocks:
  assumes "evaluate_gate_decision q = Inr r" and "item \<in> set (gq_evidence q)" and "blocking_item item"
  shows "dget (ge_decision r) ''verdict'' = JStr ''block''"
  using assms by (rule blocking_item_verdict)

text \<open>without evidence the verdict is at least \<open>unknown\<close>, so it is neither \<open>allow_limited\<close> nor
  \<open>warn\<close>.\<close>

theorem no_evidence_is_unknown:
  assumes "evaluate_gate_decision q = Inr r" and "gq_evidence q = []"
  shows "\<exists>v. dget (ge_decision r) ''verdict'' = JStr v \<and> verdict_rank ''unknown'' \<le> verdict_rank v
    \<and> v \<notin> {''allow_limited'', ''warn''}"
proof -
  from assms(1) obtain t v where t: "evaluate_totals (active_gate_policy q) q = Inr t"
    and v: "dget (ge_decision r) ''verdict'' = JStr v"
    and up: "\<forall>c\<in>set (candidates_of (gt_signals t)). verdict_rank c \<le> verdict_rank v"
    by (rule verdict_above_candidates)
  have "''unknown'' \<in> set (candidates_of (gt_signals t))"
    by (rule candidate_in_totals [OF totals_contain(3) [OF t assms(2)]]) simp
  from bspec [OF up this] have le: "verdict_rank ''unknown'' \<le> verdict_rank v" .
  then have "v \<noteq> ''allow_limited''" "v \<noteq> ''warn''" by auto
  with v le show ?thesis by blast
qed

theorem gate_never_authorizes_witness:
  "\<exists>r. evaluate_gate_decision (gate_sample []) = Inr r
     \<and> dget (ge_decision r) ''execution_authorized'' = JBool False"
proof -
  from sample_empty_returns obtain r where r: "evaluate_gate_decision (gate_sample []) = Inr r"
    unfolding returns_iff by blast
  from gate_never_authorizes [OF r] r show ?thesis by blast
qed

theorem blocking_evidence_blocks_witness:
  "\<exists>r. evaluate_gate_decision (gate_sample [raw_evidence]) = Inr r
     \<and> dget (ge_decision r) ''verdict'' = JStr ''block''"
proof -
  from sample_raw_returns obtain r where r: "evaluate_gate_decision (gate_sample [raw_evidence]) = Inr r"
    unfolding returns_iff by blast
  have "raw_output_retained raw_evidence" by code_simp
  then have "blocking_item raw_evidence" unfolding blocking_item_def by (intro disjI2 disjI1)
  from blocking_evidence_blocks [OF r _ this] r show ?thesis by (simp add: gate_sample_def)
qed

theorem no_evidence_is_unknown_witness:
  "\<exists>r v. evaluate_gate_decision (gate_sample []) = Inr r \<and> dget (ge_decision r) ''verdict'' = JStr v
     \<and> v \<notin> {''allow_limited'', ''warn''}"
proof -
  from sample_empty_returns obtain r where r: "evaluate_gate_decision (gate_sample []) = Inr r"
    unfolding returns_iff by blast
  have "gq_evidence (gate_sample []) = []" by (simp add: gate_sample_def)
  from no_evidence_is_unknown [OF r this] r show ?thesis by blast
qed

text \<open>C12: the verdict \<open>allow_limited\<close> needs all of this at once: the decision document passed its
  own validation, there is evidence, every item is valid, reports its finding as present, is
  not unbound, recommends neither block, quarantine nor warn and has only limitations that
  the policy rates low, no mandatory evidence is left missing, every scanner suite was valid,
  and no sandbox run carries a decision signal.\<close>

theorem allow_limited_conditions:
  assumes r: "evaluate_gate_decision q = Inr r" and v: "dget (ge_decision r) ''verdict'' = JStr ''allow_limited''"
  shows "ge_valid r \<and> gq_evidence q \<noteq> []
    \<and> (\<forall>item\<in>set (gq_evidence q). quiet_item (active_gate_policy q) item)
    \<and> res_bind (mandatory_evidence (active_gate_policy q)) (not_accepted (active_gate_policy q)) = Inr []
    \<and> (\<forall>suite\<in>set (gq_suites q). sv_valid (snd suite))
    \<and> (\<forall>x\<in>set (gq_sandbox q). sandbox_item_signals (sandbox_item_evidence x) = [])"
proof -
  from no_strong_candidates [OF r v] obtain t where t: "evaluate_totals (active_gate_policy q) q = Inr t"
    and weak: "\<forall>s\<in>set (gt_signals t). \<forall>c\<in>set (sg_candidates s). c = ''allow_limited''" and valid: "ge_valid r"
    by blast
  have "quiet_item (active_gate_policy q) item" if i: "item \<in> set (gq_evidence q)" for item
    using totals_contain(1) [OF t i] weak_item_quiet weak by (meson subsetD)
  moreover have "gq_evidence q \<noteq> []"
    using totals_contain(3) [OF t] bspec [OF weak] by fastforce
  moreover have "res_bind (mandatory_evidence (active_gate_policy q)) (not_accepted (active_gate_policy q)) = Inr []"
    using totals_mandatory [OF t] bspec [OF weak, of "bare_signal ''unknown'' ''missing_mandatory_evidence''"]
    by auto
  moreover have "sv_valid (snd suite)" if s: "suite \<in> set (gq_suites q)" for suite
  proof (rule ccontr)
    assume "\<not> sv_valid (snd suite)"
    with totals_contain(4) [OF t] obtain s where "s \<in> set (gt_signals t)" "''unknown'' \<in> set (sg_candidates s)"
      using suite_signal_mem [OF _ s] by (meson subsetD)
    with weak show False by force
  qed
  moreover have "sandbox_item_signals (sandbox_item_evidence x) = []" if x: "x \<in> set (gq_sandbox q)" for x
  proof (rule ccontr)
    assume "sandbox_item_signals (sandbox_item_evidence x) \<noteq> []"
    then obtain k where "k \<in> set (sandbox_item_signals (sandbox_item_evidence x))" by (meson list.set_sel(1))
    from sandbox_signal_mem [OF x this] totals_contain(2) [OF t] weak sandbox_verdict_not_allow
    show False by (meson subsetD)
  qed
  ultimately show ?thesis using valid by blast
qed

theorem allow_limited_conditions_witness: "quiet_item (active_gate_policy (gate_sample [sample_evidence])) sample_evidence"
proof -
  from sample_allows obtain r where r: "evaluate_gate_decision (gate_sample [sample_evidence]) = Inr r"
    and v: "dget (ge_decision r) ''verdict'' = JStr ''allow_limited''" by (rule returningE)
  from allow_limited_conditions [OF r v] show ?thesis by (simp add: gate_sample_def)
qed

text \<open>C16: the gate checks its own output: a decision it returns as valid satisfies the decision
  contract, and when its own validator rejects the document the verdict is forced to
  \<open>block\<close>, with the errors reported.\<close>

theorem gate_decision_self_check:
  assumes "evaluate_gate_decision q = Inr r"
  shows "if ge_valid r then decision_contract (ge_decision r)
    else dget (ge_decision r) ''verdict'' = JStr ''block'' \<and> ge_blocking_errors r \<noteq> []"
proof -
  from assms obtain d v t where v: "validate_gate_decision (JObj d) = Inr v" and r: "close_decision d v t = r"
    by (rule evaluate_pieces) blast
  have iff: "ge_valid r \<longleftrightarrow> gd_valid v" unfolding r [symmetric] by (rule ge_valid_iff [OF v])
  show ?thesis
  proof (cases "gd_valid v")
    case True
    then have "ge_decision r = d" unfolding r [symmetric] close_decision_def Let_def by simp
    moreover from valid_decision_checks [OF v True] have "decision_contract d"
      using passed_decision_contract by (metis json.inject(6))
    ultimately show ?thesis using iff True by simp
  next
    case False
    then have "dget (ge_decision r) ''verdict'' = JStr ''block''" unfolding r [symmetric] closed_fields by simp
    moreover have "ge_blocking_errors r \<noteq> []"
      using False gd_valid_iff [OF v] unfolding r [symmetric] close_decision_def Let_def by simp
    ultimately show ?thesis using iff False by simp
  qed
qed

theorem gate_decision_self_check_witness:
  "\<exists>r. evaluate_gate_decision (gate_sample [sample_evidence]) = Inr r \<and> ge_valid r \<and> decision_contract (ge_decision r)"
proof -
  from sample_valid obtain r where r: "evaluate_gate_decision (gate_sample [sample_evidence]) = Inr r"
    and v: "ge_valid r" by (rule returningE)
  from gate_decision_self_check [OF r] r v show ?thesis by simp
qed

end
