(* ===== verification/V3_Evaluator.thy ===== *)
theory V3_Evaluator
  imports Repo_Shape Gate_Properties Snapshot
begin

text \<open>
  gate/v3_evaluator.py: gate decisions from a report of the repository check, alone or bound to a
  verified snapshot by a scan envelope.  The repository check itself (\<open>diagnose_repo\<close>) is an
  argument, and so are the file system and the JSON files that the gate may load.
\<close>

section \<open>The evaluation of a report\<close>

record gate_files =
  gf_schema :: "json option"
  gf_risk :: "json option"

definition v3_policy_missing :: "dict \<Rightarrow> dict \<Rightarrow> string list" where
  "v3_policy_missing policy candidate =
     (if has_key policy ''missing_evidence'' then string_items (dget policy ''missing_evidence'')
      else string_items (dget (sect candidate ''evidence_summary'') ''missing_evidence''))"

definition v3_effective_policy :: "dict option \<Rightarrow> dict \<Rightarrow> string list \<Rightarrow> dict" where
  "v3_effective_policy policy candidate demo_missing =
     (let p1 = dsetdefault (case policy of None \<Rightarrow> [] | Some p \<Rightarrow> p) ''policy_version'' (JStr ''0.1'');
          p2 = dsetdefault p1 ''fail_closed'' (JBool True);
          p3 = dset p2 ''missing_evidence'' (jstrs (dedupe (v3_policy_missing p2 candidate @ demo_missing)));
          p4 = dsetdefault p3 ''accepted_missing_evidence'' (JList []);
          p5 = dsetdefault p4 ''mandatory_evidence'' (JList []) in
      dsetdefault p5 ''requested_dynamic_judgment'' (JBool False))"

record v3_inputs =
  vi_policy :: "dict option"
  vi_suites :: "(dict \<times> suite_validation) list"
  vi_sandbox :: "sandbox_item list"
  vi_files :: gate_files

definition v3_gate_request :: "v3_inputs \<Rightarrow> dict \<Rightarrow> dict list \<Rightarrow> dict \<Rightarrow> string list \<Rightarrow> gate_request" where
  "v3_gate_request i candidate evidence_candidates subject demo_missing =
     \<lparr>gq_evidence = evidence_candidates, gq_subject = Some subject,
      gq_policy = Some (v3_effective_policy (vi_policy i) candidate demo_missing),
      gq_suites = vi_suites i, gq_sandbox = vi_sandbox i, gq_policy_file = None,
      gq_schema_file = gf_schema (vi_files i), gq_risk_file = gf_risk (vi_files i)\<rparr>"

definition evaluate_gate_decision_from_candidates ::
  "v3_inputs \<Rightarrow> dict \<Rightarrow> dict list \<Rightarrow> dict \<Rightarrow> string list \<Rightarrow> dict res" where
  "evaluate_gate_decision_from_candidates i candidate evidence_candidates subject demo_missing =
     res_map ge_decision (evaluate_gate_decision (v3_gate_request i candidate evidence_candidates subject demo_missing))"

text \<open>The candidate decision, the evidence and the names of missing evidence of a report.\<close>

definition v3_material ::
  "(string \<Rightarrow> repo_tree) \<Rightarrow> dict \<Rightarrow> repo_tree option \<Rightarrow> (dict \<times> dict list \<times> string list) res" where
  "v3_material fs report repo_root =
     res_bind (build_gate_decision_candidate_from_v3_report report) (\<lambda>candidate.
     res_map (\<lambda>(demo_evidence, demo_missing).
         (candidate, extract_evidence_candidates_from_v3_report report @ demo_evidence, demo_missing))
       (demo_context_from_v3_report fs report repo_root))"

definition evaluate_gate_decision_from_v3_report ::
  "(string \<Rightarrow> repo_tree) \<Rightarrow> v3_inputs \<Rightarrow> dict \<Rightarrow> repo_tree option \<Rightarrow> dict res" where
  "evaluate_gate_decision_from_v3_report fs i report repo_root =
     res_bind (v3_material fs report repo_root) (\<lambda>(candidate, evidence_candidates, demo_missing).
       evaluate_gate_decision_from_candidates i candidate evidence_candidates (sect candidate ''subject'') demo_missing)"

section \<open>The scan envelope\<close>

definition snapshot_subject :: "verified_snapshot \<Rightarrow> dict" where
  "snapshot_subject v =
     [(''repo'', JStr (vs_source_identity v)), (''commit'', str_json (vs_source_commit v)),
      (''tree_hash'', str_json (vs_source_tree v)), (''snapshot_id'', JStr (vs_snapshot_id v)),
      (''manifest_fingerprint'', JStr (vs_manifest_fingerprint v))]"

definition snapshot_gate_subject :: "verified_snapshot \<Rightarrow> dict" where
  "snapshot_gate_subject v =
     snapshot_subject v
     @ [(''binding_kind'', JStr (if vs_source_kind v = ''git_commit'' then ''snapshot_bound'' else ''path_bound''))]"

text \<open>An envelope: whether it carries the module's token, and a snapshot unless something else is in
  that field.\<close>

record scan_envelope =
  en_report :: dict
  en_fingerprint :: string
  en_subject :: dict
  en_snapshot :: "verified_snapshot option"
  en_token :: bool

definition scan_report_fingerprint :: "dict \<Rightarrow> string" where
  "scan_report_fingerprint report = canonical_fingerprint (JObj report)"

text \<open>\<open>None\<close> stands for a value that is not an envelope.\<close>

definition validate_scan_envelope :: "scan_envelope option \<Rightarrow> verified_snapshot res" where
  "validate_scan_envelope envelope =
     (case envelope of
        None \<Rightarrow> Inl ValueError
      | Some e \<Rightarrow>
          if \<not> en_token e then Inl ValueError
          else (case en_snapshot e of
                  None \<Rightarrow> Inl ValueError
                | Some v \<Rightarrow>
                    if vs_integrity_status v \<noteq> ''verified'' then Inl ValueError
                    else if py_ne (JObj (en_subject e)) (JObj (snapshot_subject v)) then Inl ValueError
                    else if en_fingerprint e \<noteq> scan_report_fingerprint (en_report e) then Inl ValueError
                    else Inr v))"

definition scan_verified_snapshot :: "(workspace \<Rightarrow> dict res) \<Rightarrow> workspace \<Rightarrow> scan_envelope res" where
  "scan_verified_snapshot diagnose_repo w =
     (case dw_snapshot w of
        None \<Rightarrow> Inl ValueError
      | Some v \<Rightarrow>
          if \<not> copy_safety_ok w then Inl ValueError
          else
            res_bind (diagnose_repo w) (\<lambda>report.
              (let e = \<lparr>en_report = report, en_fingerprint = scan_report_fingerprint report,
                        en_subject = snapshot_subject v, en_snapshot = Some v, en_token = True\<rparr> in
               res_map (\<lambda>_. e) (validate_scan_envelope (Some e)))))"

definition bind_evidence_candidate_to_subject :: "dict \<Rightarrow> dict \<Rightarrow> dict" where
  "bind_evidence_candidate_to_subject subject evidence =
     dset evidence ''subject'' (JObj
       [(''repo_identity'', JStr (py_str (py_or (dget subject ''repo'')
          (py_or (dget subject ''repo_identity'') (JStr ''<repo>''))))),
        (''commit'', str_or_null (dget subject ''commit'')), (''tree_hash'', str_or_null (dget subject ''tree_hash'')),
        (''snapshot_id'', dget subject ''snapshot_id''),
        (''manifest_fingerprint'', dget subject ''manifest_fingerprint''), (''path_scope'', JList []),
        (''binding_kind'', JStr (py_str (dget_or subject ''binding_kind'' (JStr ''unbound''))))])"

definition evaluate_gate_decision_from_scan_envelope ::
  "(string \<Rightarrow> repo_tree) \<Rightarrow> v3_inputs \<Rightarrow> scan_envelope option \<Rightarrow> repo_tree option \<Rightarrow> dict res" where
  "evaluate_gate_decision_from_scan_envelope fs i envelope repo_root =
     res_bind (validate_scan_envelope envelope) (\<lambda>v.
     res_bind (v3_material fs (en_report (the envelope)) repo_root) (\<lambda>(candidate, evidence_candidates, demo_missing).
       evaluate_gate_decision_from_candidates i candidate
         (map (bind_evidence_candidate_to_subject (snapshot_gate_subject v)) evidence_candidates)
         (snapshot_gate_subject v) demo_missing))"

section \<open>The policy that is in force\<close>

lemma dsetdefault_present: "dsetdefault d k v = (if has_key d k then d else d @ [(k, v)])"
  by (simp add: dsetdefault_def)

lemma has_key_map_of: "has_key d k \<longleftrightarrow> map_of d k \<noteq> None"
  by (simp add: has_key_def keys_def map_of_eq_None_iff)

lemma dget_append: "dget_or (d @ e) k def = (if has_key d k then dget_or d k def else dget_or e k def)"
  by (cases "map_of d k") (simp_all add: dget_or_def has_key_map_of map_add_def)

lemma dget_or_present: "has_key d k \<Longrightarrow> dget_or d k x = dget_or d k y"
  by (auto simp: dget_or_def has_key_map_of)

lemma dget_dsetdefault:
  "dget_or (dsetdefault d k v) k' def = (if k' = k \<and> \<not> has_key d k then v else dget_or d k' def)"
  by (auto simp: dsetdefault_def dget_append dget_Cons dget_absent)

lemma has_key_dset: "has_key (dset d k v) k' \<longleftrightarrow> k' = k \<or> has_key d k'"
  by (auto simp: has_key_def keys_dset)

lemma has_key_dsetdefault: "has_key (dsetdefault d k v) k' \<longleftrightarrow> k' = k \<or> has_key d k'"
  by (auto simp: dsetdefault_def has_key_def keys_def)

lemma effective_policy_fields:
  fixes policy candidate demo
  defines "p \<equiv> case policy of None \<Rightarrow> [] | Some p \<Rightarrow> p" and "e \<equiv> v3_effective_policy policy candidate demo"
  shows "dget_or e ''missing_evidence'' def = jstrs (dedupe (v3_policy_missing p candidate @ demo))"
    and "dget_or e ''accepted_missing_evidence'' def = dget_or p ''accepted_missing_evidence'' (JList [])"
    and "e \<noteq> []"
proof -
  have missing: "v3_policy_missing (dsetdefault (dsetdefault p ''policy_version'' (JStr ''0.1'')) ''fail_closed'' (JBool True)) candidate
      = v3_policy_missing p candidate"
    by (simp add: v3_policy_missing_def has_key_dsetdefault dget_dsetdefault)
  show "dget_or e ''missing_evidence'' def = jstrs (dedupe (v3_policy_missing p candidate @ demo))"
    unfolding e_def v3_effective_policy_def Let_def p_def [symmetric] missing
    by (simp add: dget_dsetdefault dget_or_dset has_key_dset has_key_dsetdefault)
  show "dget_or e ''accepted_missing_evidence'' def = dget_or p ''accepted_missing_evidence'' (JList [])"
    unfolding e_def v3_effective_policy_def Let_def p_def [symmetric] missing
    using dget_or_present [of p "''accepted_missing_evidence''" def "JList []"]
    by (simp add: dget_dsetdefault dget_or_dset has_key_dset has_key_dsetdefault dget_absent)
  have "has_key e ''missing_evidence''"
    unfolding e_def v3_effective_policy_def Let_def by (simp add: has_key_dsetdefault has_key_dset)
  then show "e \<noteq> []" by (auto simp: has_key_def keys_def)
qed

end
