(* ===== verification/Snapshot_Safety.thy ===== *)
theory Snapshot_Safety
  imports Snapshot
begin

text \<open>
  A snapshot is always safe to use: the flags that make a workspace unsafe are set only by a step
  that also refuses the intake, so an intake that ends with a snapshot has none of them.
\<close>

section \<open>Steps that leave the safety flags alone\<close>

named_theorems quiet_walks

text \<open>Whenever the step succeeds it has recorded no symbolic link and no exceeded budget.\<close>

definition quiet :: "'a walk \<Rightarrow> bool" where
  "quiet m \<longleftrightarrow> (\<forall>s x t. m s = (Inr x, t) \<longrightarrow> cs_symlinks t = cs_symlinks s \<and> cs_exceeded t = cs_exceeded s)"

lemma quietD: "quiet m \<Longrightarrow> m s = (Inr x, t) \<Longrightarrow> cs_symlinks t = cs_symlinks s \<and> cs_exceeded t = cs_exceeded s"
  unfolding quiet_def by blast

lemma quiet_bind [quiet_walks]: "quiet m \<Longrightarrow> (\<And>x. quiet (f x)) \<Longrightarrow> quiet (walk_bind m f)"
  unfolding quiet_def by (fastforce elim!: walk_bindE)

lemma quiet_steps [quiet_walks]:
  "quiet (walk_return x)" "quiet (refuse_walk why rel)" "quiet (lift_check c)" "quiet (lift_result r)"
  "quiet (stop_if p why rel)" "quiet (refuse_if q c')" "quiet (register_manifest_path b rel')"
  "quiet (budget_refusal why rel)" "quiet (Pair r'')"
  by (auto simp: quiet_def lift_check_def stop_if_Inr refuse_if_def register_manifest_path_Inr split: option.splits)

lemma quiet_update [quiet_walks]:
  "(\<And>s. cs_symlinks (f s) = cs_symlinks s) \<Longrightarrow> (\<And>s. cs_exceeded (f s) = cs_exceeded s) \<Longrightarrow> quiet (walk_update f)"
  by (simp add: quiet_def)

lemma quiet_tally [quiet_walks]: "quiet (walk_update (tally c))"
  by (rule quiet_update) (simp_all add: tally_def)

lemma quiet_file_examined [quiet_walks]: "quiet (register_file_examined b rel)"
  unfolding register_file_examined_def by (intro quiet_walks) simp_all

lemma quiet_budget_values [quiet_walks]: "quiet (preflight_file_budget_values b rel n c t)"
  unfolding preflight_file_budget_values_def by (intro quiet_walks)

lemma quiet_budget [quiet_walks]: "quiet (preflight_file_budget b rel n)"
  using quietD [OF quiet_budget_values] unfolding quiet_def preflight_file_budget_def by blast

lemma quiet_budget_at [quiet_walks]: "quiet (\<lambda>s. preflight_file_budget_values b rel n (c s) m s)"
  using quietD [OF quiet_budget_values] unfolding quiet_def by blast

section \<open>The walk over files\<close>

lemma quiet_begin [quiet_walks]: "quiet (begin_entry b rel)"
  unfolding begin_entry_def by (intro quiet_walks) simp_all

lemma quiet_file [quiet_walks]: "quiet (copy_file_entry b name rel before reads)"
  unfolding copy_file_entry_def by (auto split: option.split prod.split intro!: quiet_walks)

lemma quiet_directory [quiet_walks]: "quiet (open_directory b depth name rel before opened)"
  "quiet (close_directory rel st after)"
  unfolding open_directory_def close_directory_def by (auto split: option.split intro!: quiet_walks)

lemma quiet_refusals [quiet_walks]: "quiet (refuse_link rel)" "quiet (refuse_special rel)"
  unfolding refuse_link_def refuse_special_def by (auto simp: quiet_def elim!: walk_bindE)

lemma quiet_copy: "quiet (copy_node b parts name node)" "quiet (copy_entries b parts nodes)"
  by (induction b parts name node and b parts nodes rule: copy_node_copy_entries.induct)
    (auto split: option.split prod.split intro!: quiet_walks)

lemma quiet_copy_tree: "quiet (copy_filesystem_tree b st nodes after)"
  unfolding copy_filesystem_tree_def
  by (auto split: prod.split sum.split intro!: quiet_walks quiet_copy)

section \<open>The walk over a commit\<close>

lemma quiet_directories [quiet_walks]: "quiet (register_directories b rel seen parts)"
  by (induction parts arbitrary: seen) (auto simp: Let_def intro!: quiet_walks)

lemma quiet_blob [quiet_walks]: "quiet (accept_blob b rel mode oid raw t)"
  unfolding accept_blob_def by (auto split: option.split intro!: quiet_walks)

lemma quiet_record [quiet_walks]: "quiet (tree_record b r t)"
  unfolding tree_record_def by (auto split: option.split prod.split intro!: quiet_walks)

lemma quiet_records: "quiet (tree_records b out_bytes t)"
proof (induction b out_bytes t rule: tree_records.induct)
  case (1 b out_bytes t)
  then show ?case
    by (subst tree_records.simps) (auto split: sum.split option.split prod.split intro!: quiet_walks)
qed

lemma quiet_tree: "quiet (git_tree_entries b out_bytes ended)"
  unfolding git_tree_entries_def by (intro quiet_walks quiet_records) simp_all

section \<open>Finished intakes\<close>

lemma finish_keeps_flags:
  assumes "finish_snapshot so es k c t lims w = (None, w')"
  shows "cs_symlinks (dw_state w') = cs_symlinks (dw_state w)" "cs_exceeded (dw_state w') = cs_exceeded (dw_state w)"
    "dw_copy_errors w' = dw_copy_errors w" "dw_refusal_reasons w' = dw_refusal_reasons w"
  using finish_snapshot_done [OF assms] by (auto simp: with_copied_def)

lemma finish_is_verified:
  assumes "finish_snapshot so es k c t lims w = (None, w')"
  shows "\<exists>v. dw_snapshot w' = Some v \<and> vs_integrity_status v = ''verified''"
  using finish_snapshot_done [OF assms] by (auto simp: with_copied_def snapshot_of_def split: prod.splits)

lemma filesystem_intake_safe:
  assumes "create_filesystem_snapshot so (new_workspace b) = (None, w)"
  shows "copy_safety_ok w"
proof -
  from assms obtain es cs s lims w1 where run: "copy_filesystem_tree b (so_opened so) (so_entries so) (so_after so) empty_copy_state
      = (Inr (es, cs), s)"
    and w1: "w1 = (new_workspace b)\<lparr>dw_state := s\<rparr>" and fin: "finish_snapshot so es ''filesystem'' None None lims w1 = (None, w)"
    unfolding create_filesystem_snapshot_def by (auto split: prod.splits sum.splits)
  from quietD [OF quiet_copy_tree run] finish_is_verified [OF fin] finish_keeps_flags [OF fin] show ?thesis
    by (auto simp: copy_safety_ok_def w1 empty_copy_state_def)
qed

lemma git_intake_safe:
  assumes "create_git_snapshot so g (new_workspace b) = (None, w)"
  shows "copy_safety_ok w"
proof -
  from create_git_snapshot_done [OF assms] obtain c t tree s exported w2
    where listing: "git_tree_entries b (gv_listing g) (gv_listing_exit g) empty_copy_state = (Inr tree, s)"
      and w2: "dw_state w2 = s" "dw_copy_errors w2 = []" "dw_refusal_reasons w2 = []"
      and cmp: "compare_worktree so g c t exported w2 = (None, w)"
    by (simp only: new_workspace_fields) (elim exE conjE)
  from cmp obtain es cs live lims w3
    where run: "copy_filesystem_tree (dw_budget w2) (so_opened so) (so_entries so) (so_after so) empty_copy_state = (Inr (es, cs), live)"
      and w3: "w3 = w2\<lparr>dw_state := merge_comparison s live\<rparr>"
      and fin: "finish_snapshot so exported ''git_commit'' (Some c) (Some t) lims w3 = (None, w)"
    unfolding compare_worktree_def by (auto simp: Let_def w2 split: prod.splits sum.splits if_splits)
  from quietD [OF quiet_tree listing] quietD [OF quiet_copy_tree run] finish_is_verified [OF fin] finish_keeps_flags [OF fin]
  show ?thesis
    by (auto simp: copy_safety_ok_def w3 w2 merge_comparison_def empty_copy_state_def)
qed

lemma snapshot_safe:
  assumes "create_verified_snapshot b removed so git = Inr w"
  shows "dw_snapshot w \<noteq> None \<longleftrightarrow> copy_safety_ok w"
proof
  assume "copy_safety_ok w"
  then show "dw_snapshot w \<noteq> None" by (auto simp: copy_safety_ok_def split: option.splits)
next
  assume "dw_snapshot w \<noteq> None"
  from settle_snapshot [OF assms [unfolded create_verified_snapshot_def] this]
  have "intake_source so git (new_workspace b) = (None, w)" .
  from intake_source_done [OF this] show "copy_safety_ok w"
    using filesystem_intake_safe git_intake_safe by (cases git) auto
qed

section \<open>Properties\<close>

text \<open>an intake produces a snapshot exactly when the workspace it returns is safe: with a snapshot
  there is no symbolic link, no exceeded budget, no copy error and no refusal on record, and
  without one the workspace is never reported as safe.\<close>

theorem snapshot_iff_safe:
  assumes "create_verified_snapshot b removed so git = Inr w"
  shows "dw_snapshot w \<noteq> None \<longleftrightarrow> copy_safety_ok w"
  using assms by (rule snapshot_safe)

theorem snapshot_iff_safe_witness:
  "\<exists>w. create_verified_snapshot small_budget True empty_source (Some (head_view [])) = Inr w \<and> copy_safety_ok w"
  using empty_commit_verified snapshot_iff_safe by blast

end
