(* ===== verification/Gate_Total.thy ===== *)
theory Gate_Total
  imports Gate_Properties
begin

text \<open>
  When the gate answers: on which evidence and policies \<open>evaluate_gate_decision\<close> returns a decision
  instead of raising.  The validator of the decision document never raises on a document that
  the gate builds, so only reading the policy and the items can.
\<close>

section \<open>Reading an item\<close>

definition iterable :: "json \<Rightarrow> bool" where
  "iterable v = (case v of JList xs \<Rightarrow> True | JStr s \<Rightarrow> True | JObj d \<Rightarrow> True | _ \<Rightarrow> False)"

lemma returns_iter_strings [simp]: "returns (iter_strings v) \<longleftrightarrow> iterable v"
  by (cases v) (simp_all add: iterable_def)

text \<open>The fields that are tested for membership are hashable, and the two lists are iterable.\<close>

definition readable_item :: "dict \<Rightarrow> bool" where
  "readable_item item \<longleftrightarrow>
     evidence_comparable item \<and> hashable (dget (sect item ''classification'') ''subcategory'')
     \<and> iterable (dget_or (sect item ''trust'') ''limitations'' (JList []))
     \<and> iterable (dget_or item ''residual_risks'' (JList []))"

lemma res_bind_returns: "returns m \<Longrightarrow> (\<And>x. m = Inr x \<Longrightarrow> returns (f x)) \<Longrightarrow> returns (res_bind m f)"
  by (cases m) simp_all

lemma tokens_return: "readable_item item \<Longrightarrow> returns (tokens_of item)"
  unfolding tokens_of_def Let_def readable_item_def by (intro res_bind_returns) simp_all

lemma view_returns:
  assumes "readable_item item"
  shows "returns (view_item item)"
proof -
  have "returns (has_warn_signal tokens (sect item ''classification''))" for tokens
    using assms by (simp add: has_warn_signal_def readable_item_def)
  with assms tokens_return [OF assms] show ?thesis
    unfolding view_item_def readable_item_def
    by (intro res_bind_returns) (simp_all add: validate_evidence_returns_iff evidence_comparable_def)
qed

lemma explained_item_returns:
  assumes "readable_item item"
  shows "returns (item_explanation_tokens item)"
  unfolding item_explanation_tokens_def Let_def
  by (rule res_bind_returns [OF tokens_return [OF assms]])
    (use assms in \<open>simp add: returns_and readable_item_def evidence_comparable_def\<close>)

section \<open>The validator on the gate's own document\<close>

text \<open>The sandbox evidence of a request comes from the validator, or is a report that was not validated.\<close>

definition from_validator :: "sandbox_item list \<Rightarrow> bool" where
  "from_validator items \<longleftrightarrow> (\<forall>v. Validated v \<in> set items \<longrightarrow> (\<exists>data rq. validate_sandbox_run_evidence data rq = Inr v))"

lemma validated_ref:
  assumes "validate_sandbox_run_evidence data rq = Inr v"
  shows "dget (xv_evidence_ref v) ''report_kind'' = JStr ''sandbox_run''
    \<and> (\<exists>s. dget (xv_evidence_ref v) ''validation_status'' = JStr s)"
proof -
  have "dget (xv_evidence_ref (sandbox_result data rq n e age)) ''report_kind'' = JStr ''sandbox_run''
    \<and> (\<exists>s. dget (xv_evidence_ref (sandbox_result data rq n e age)) ''validation_status'' = JStr s)" for n e age
    unfolding sandbox_result_def Let_def sandbox_validation.select_convs by (simp add: dget_Cons)
  moreover from assms have "\<exists>n e age. sandbox_result data rq n e age = v"
    unfolding validate_sandbox_run_evidence_def by (elim res_bindE) (intro exI, simp)
  ultimately show ?thesis by blast
qed

lemma sandbox_refs_return:
  assumes "gq_suites q = []" and "from_validator (gq_sandbox q)" and "c \<in> set (validate_evidence_refs (JList (evidence_refs_of q)))"
  shows "returns c"
proof -
  have ref: "returns c" if m: "item \<in> set (evidence_refs_of q)" and c: "c \<in> set (evidence_ref_checks item)" for item c
  proof -
    from m assms(1) obtain v where v: "Validated v \<in> set (gq_sandbox q)" "item = JObj (xv_evidence_ref v)"
      by (auto simp: evidence_refs_of_def List.map_filter_def split: sandbox_item.splits)
    from assms(2) v(1) obtain data rq where "validate_sandbox_run_evidence data rq = Inr v" unfolding from_validator_def by blast
    from validated_ref [OF this] obtain s where k: "dget (xv_evidence_ref v) ''report_kind'' = JStr ''sandbox_run''"
      "dget (xv_evidence_ref v) ''validation_status'' = JStr s" by blast
    from c show ?thesis
      by (auto simp: evidence_ref_checks_def v(2) k sandbox_ref_checks_def)
  qed
  show ?thesis
    using assms(3) ref by (auto simp: validate_evidence_refs_def split: if_splits)
qed

lemma document_checks_return:
  assumes "gq_suites q = []" and "from_validator (gq_sandbox q)"
  shows "\<forall>c\<in>set (decision_checks (decision_document p q t v ex)). returns c"
proof -
  let ?d = "decision_document p q t v ex"
  note d = decision_document_def [of p q t v ex, unfolded Let_def]
  have "returns c" if "c \<in> set (decision_top_checks ?d)" for c
    using that unfolding d by (auto simp: decision_top_checks_def dget_Cons)
  moreover have "returns c" if "c \<in> set (when_some (opt_mapping (dget ?d ''explanation'')) decision_explanation_checks)" for c
    using that unfolding d by (auto simp: decision_explanation_checks_def dget_Cons)
  moreover have "returns (decision_subject_shape (dget ?d ''subject''))"
    unfolding d by (simp add: decision_subject_shape_def dget_Cons)
  moreover have "returns c" if "c \<in> set (when_some (opt_mapping (dget ?d ''subject'')) decision_subject_checks)" for c
    using that unfolding d
    by (auto simp: decision_subject_checks_def decision_subject_of_def Let_def dget_Cons split: option.splits if_splits)
  moreover have "returns c" if "c \<in> set (when_some (opt_mapping (dget ?d ''evidence_summary'')) decision_summary_checks)" for c
    using that unfolding d
    by (auto simp: decision_summary_checks_def dget_Cons intro!: returns_or)
  moreover have "dget ?d ''evidence_refs'' = JList (evidence_refs_of q)" if "has_key ?d ''evidence_refs''"
    using that unfolding d by (auto simp: has_key_def keys_def dget_Cons split: if_splits)
  then have "returns c" if "has_key ?d ''evidence_refs''" "c \<in> set (validate_evidence_refs (dget ?d ''evidence_refs''))" for c
    using that sandbox_refs_return [OF assms, of c] by simp
  moreover have "\<exists>fc. dget ?d ''policy'' = JObj fc"
    unfolding d by (simp add: dget_Cons)
  ultimately show ?thesis unfolding decision_checks_def by auto
qed

lemma document_validation_returns:
  "gq_suites q = [] \<Longrightarrow> from_validator (gq_sandbox q) \<Longrightarrow>
     returns (validate_gate_decision (JObj (decision_document p q t v ex)))"
  using document_checks_return by (simp add: validate_gate_decision_def collect_returns_iff)

section \<open>Properties\<close>

definition readable_policy :: "dict \<Rightarrow> bool" where
  "readable_policy p \<longleftrightarrow>
     (\<forall>k\<in>{''missing_evidence'', ''mandatory_evidence'', ''accepted_missing_evidence''}. iterable (dget_or p k (JList [])))"

lemma not_accepted_returns: "readable_policy p \<Longrightarrow> returns (not_accepted p names)"
  by (simp add: not_accepted_def accepted_missing_def readable_policy_def)

lemma totals_return:
  assumes "readable_policy p" and "\<forall>item\<in>set (gq_evidence q). readable_item item" and "gq_suites q = []"
  shows "returns (evaluate_totals p q)"
proof -
  have "returns (gather_evidence p q)"
    unfolding gather_evidence_def Let_def policy_missing_evidence_def
    using assms view_returns
    by (intro res_bind_returns) (simp_all add: readable_policy_def mapM_returns_iff external_suite_gate_signals_def)
  moreover have "returns (finish_totals p q t)" for t
    unfolding finish_totals_def Let_def mandatory_evidence_def
    using assms(1) not_accepted_returns
    by (intro res_bind_returns) (simp_all add: readable_policy_def)
  ultimately show ?thesis unfolding evaluate_totals_def by (rule res_bind_returns)
qed

lemma evaluation_returns:
  assumes "gq_suites q = []" and "from_validator (gq_sandbox q)" and "readable_policy (active_gate_policy q)"
    and "\<forall>item\<in>set (gq_evidence q). readable_item item"
  shows "returns (evaluate_gate_decision q)"
proof -
  have "returns (build_explanation (explanation_input_of q t v))" for t v
    using assms(4) explained_item_returns
    by (simp add: build_explanation_def explanation_tokens_def explanation_input_of_def mapM_returns_iff)
  then show ?thesis
    unfolding evaluate_gate_decision_def conclude_def Let_def
    using totals_return [OF assms(3,4,1)] document_validation_returns [OF assms(1,2)]
    by (intro res_bind_returns) simp_all
qed

text \<open>C22: the gate answers: without scanner suites, when the lists of the policy and the fields of the evidence items
  can be read, and any sandbox evidence is a raw report or what the validator of sandbox runs returned,
  the evaluation returns a decision for every subject, and never raises.\<close>

theorem gate_answers:
  assumes "gq_suites q = []" and "from_validator (gq_sandbox q)" and "readable_policy (active_gate_policy q)"
    and "\<forall>item\<in>set (gq_evidence q). readable_item item"
  shows "\<exists>r. evaluate_gate_decision q = Inr r"
  using evaluation_returns [OF assms] by (simp add: returns_iff)

theorem gate_answers_witness: "\<exists>r. evaluate_gate_decision (gate_sample [sample_evidence]) = Inr r"
proof -
  have "gq_suites (gate_sample [sample_evidence]) = []" and "gq_sandbox (gate_sample [sample_evidence]) = []"
    and "readable_policy (active_gate_policy (gate_sample [sample_evidence]))"
    and "\<forall>item\<in>set (gq_evidence (gate_sample [sample_evidence])). readable_item item"
    by code_simp+
  then show ?thesis by (intro gate_answers) (simp_all add: from_validator_def)
qed

end
