(* ===== verification/V3_Properties.thy ===== *)
theory V3_Properties
  imports V3_Evaluator Snapshot_Safety Gate_Total
begin

text \<open>
  What the evaluation of a repository report guarantees, with and without a scan envelope: a
  blocking check blocks, missing evidence is never read as a clean result, an evaluated envelope
  speaks about the snapshot that was scanned, and a file that is not UTF-8 stops the evaluation.
\<close>

section \<open>Both evaluations run the gate\<close>

text \<open>A decision of either kind about a report.\<close>

definition v3_decides ::
  "(string \<Rightarrow> repo_tree) \<Rightarrow> v3_inputs \<Rightarrow> dict \<Rightarrow> repo_tree option \<Rightarrow> dict \<Rightarrow> bool" where
  "v3_decides fs i report repo_root d \<longleftrightarrow>
     evaluate_gate_decision_from_v3_report fs i report repo_root = Inr d
     \<or> (\<exists>e. en_report e = report \<and> evaluate_gate_decision_from_scan_envelope fs i (Some e) repo_root = Inr d)"

lemma v3_material_Inr:
  assumes "v3_material fs report repo_root = Inr (candidate, items, missing)"
  shows "(\<exists>checks. candidate = v3_decision_candidate report checks)
    \<and> set (extract_evidence_candidates_from_v3_report report) \<subseteq> set items"
  using assms unfolding v3_material_def build_gate_decision_candidate_from_v3_report_def
  by (auto elim!: res_bindE res_mapE)

lemma bound_effects: "dget (bind_evidence_candidate_to_subject s x) ''effects'' = dget x ''effects''"
  by (simp add: bind_evidence_candidate_to_subject_def dget_or_dset)

lemma v3_decides_run:
  assumes "v3_decides fs i report repo_root d"
  obtains r candidate checks items f subject missing
  where "evaluate_gate_decision (v3_gate_request i candidate (map f items) subject missing) = Inr r"
    and "d = ge_decision r" and "candidate = v3_decision_candidate report checks"
    and "set (extract_evidence_candidates_from_v3_report report) \<subseteq> set items"
    and "\<forall>x. dget (f x) ''effects'' = dget x ''effects''"
proof -
  from assms consider "evaluate_gate_decision_from_v3_report fs i report repo_root = Inr d"
    | e where "en_report e = report" "evaluate_gate_decision_from_scan_envelope fs i (Some e) repo_root = Inr d"
    unfolding v3_decides_def by blast
  then show thesis
  proof cases
    case 1
    then obtain candidate items missing where m: "v3_material fs report repo_root = Inr (candidate, items, missing)"
      and "evaluate_gate_decision_from_candidates i candidate items (sect candidate ''subject'') missing = Inr d"
      unfolding evaluate_gate_decision_from_v3_report_def by (elim res_bindE) (auto split: prod.splits)
    then obtain r where r: "evaluate_gate_decision (v3_gate_request i candidate (map id items) (sect candidate ''subject'') missing) = Inr r"
      "d = ge_decision r" unfolding evaluate_gate_decision_from_candidates_def by (elim res_mapE) simp
    from v3_material_Inr [OF m] that [OF r] show thesis by auto
  next
    case 2
    then obtain v candidate items missing where m: "v3_material fs report repo_root = Inr (candidate, items, missing)"
      and "evaluate_gate_decision_from_candidates i candidate
         (map (bind_evidence_candidate_to_subject (snapshot_gate_subject v)) items) (snapshot_gate_subject v) missing = Inr d"
      unfolding evaluate_gate_decision_from_scan_envelope_def by (elim res_bindE) (auto split: prod.splits)
    then obtain r where r: "evaluate_gate_decision (v3_gate_request i candidate
         (map (bind_evidence_candidate_to_subject (snapshot_gate_subject v)) items) (snapshot_gate_subject v) missing) = Inr r"
      "d = ge_decision r" unfolding evaluate_gate_decision_from_candidates_def by (elim res_mapE) simp
    from v3_material_Inr [OF m] that [OF r] bound_effects show thesis by blast
  qed
qed

lemma v3_policy_active:
  "active_gate_policy (v3_gate_request i candidate items subject missing) = v3_effective_policy (vi_policy i) candidate missing"
  using effective_policy_fields(3) [of "vi_policy i" candidate missing]
  by (simp add: active_gate_policy_def v3_gate_request_def split: list.split)

section \<open>When an evaluation answers\<close>

lemma candidate_readable: "readable_item (base_candidate report check p)"
  unfolding readable_item_def evidence_comparable_def base_candidate_def sect_def
  by (simp add: dget_Cons iterable_def jstrs_def)

lemma demo_readable: "readable_item (base_demo_evidence report p)"
  unfolding readable_item_def evidence_comparable_def base_demo_evidence_def sect_def
  by (simp add: dget_Cons iterable_def jstrs_def)

lemma bound_readable: "readable_item x \<Longrightarrow> readable_item (bind_evidence_candidate_to_subject s x)"
  unfolding readable_item_def evidence_comparable_def bind_evidence_candidate_to_subject_def sect_def
  by (simp add: dget_or_dset dget_Cons)

lemma material_readable:
  assumes "v3_material fs report repo_root = Inr (candidate, items, missing)"
  shows "\<forall>item\<in>set items. readable_item item"
proof -
  have "readable_item c" if c: "c \<in> set (extract_evidence_candidates_from_v3_report report)" for c
    by (rule extracted_candidate [OF c]) (simp add: candidate_readable)
  moreover have "\<forall>e\<in>set evidence. readable_item e"
    if "demo_context_from_v3_report fs report repo_root = Inr (evidence, missing)" for evidence missing
    using that unfolding demo_context_from_v3_report_def demo_no_finding_context_def supply_chain_shape_evidence_def
      demo_no_finding_evidence_def shape_evidence_of_def Let_def
    by (auto simp: demo_readable split: option.splits if_splits elim!: res_bindE res_mapE)
  ultimately show ?thesis using assms unfolding v3_material_def by (auto elim!: res_bindE res_mapE)
qed

lemma effective_policy_readable:
  assumes "\<forall>k\<in>{''mandatory_evidence'', ''accepted_missing_evidence''}.
      iterable (dget_or (case policy of None \<Rightarrow> [] | Some p \<Rightarrow> p) k (JList []))"
  shows "readable_policy (v3_effective_policy policy candidate demo)"
proof -
  let ?p = "case policy of None \<Rightarrow> [] | Some p \<Rightarrow> p"
  have "dget_or (v3_effective_policy policy candidate demo) ''mandatory_evidence'' (JList [])
      = dget_or ?p ''mandatory_evidence'' (JList [])"
    unfolding v3_effective_policy_def Let_def
    by (simp add: dget_dsetdefault dget_or_dset has_key_dset has_key_dsetdefault dget_absent)
  with assms show ?thesis
    by (simp add: readable_policy_def effective_policy_fields) (simp add: iterable_def jstrs_def)
qed

lemma candidates_answer:
  assumes "\<forall>item\<in>set items. readable_item item" and "vi_suites i = []" and "vi_sandbox i = []"
    and "\<forall>k\<in>{''mandatory_evidence'', ''accepted_missing_evidence''}.
      iterable (dget_or (case vi_policy i of None \<Rightarrow> [] | Some p \<Rightarrow> p) k (JList []))"
  shows "\<exists>d. evaluate_gate_decision_from_candidates i candidate items subject missing = Inr d"
proof -
  let ?q = "v3_gate_request i candidate items subject missing"
  have "gq_suites ?q = []" "from_validator (gq_sandbox ?q)"
    using assms(2,3) by (simp_all add: v3_gate_request_def from_validator_def)
  then have "returns (evaluate_gate_decision ?q)"
    using evaluation_returns [of ?q] effective_policy_readable [OF assms(4)] assms(1)
    by (simp add: v3_policy_active) (simp add: v3_gate_request_def)
  then show ?thesis unfolding evaluate_gate_decision_from_candidates_def returns_iff by (auto simp: res_map_Inr_iff)
qed

lemma report_answers:
  assumes "v3_material fs report repo_root = Inr m" and "vi_suites i = []" and "vi_sandbox i = []"
    and "\<forall>k\<in>{''mandatory_evidence'', ''accepted_missing_evidence''}.
      iterable (dget_or (case vi_policy i of None \<Rightarrow> [] | Some p \<Rightarrow> p) k (JList []))"
  shows "returns (evaluate_gate_decision_from_v3_report fs i report repo_root)"
proof -
  obtain candidate items missing where m: "m = (candidate, items, missing)" by (cases m)
  from candidates_answer [OF material_readable [OF assms(1) [unfolded m]] assms(2-4)] assms(1) m
  show ?thesis unfolding returns_iff by (auto simp: evaluate_gate_decision_from_v3_report_def)
qed

lemma envelope_answers:
  assumes "v3_material fs (en_report e) repo_root = Inr m" and "validate_scan_envelope (Some e) = Inr v"
    and "vi_suites i = []" and "vi_sandbox i = []"
    and "\<forall>k\<in>{''mandatory_evidence'', ''accepted_missing_evidence''}.
      iterable (dget_or (case vi_policy i of None \<Rightarrow> [] | Some p \<Rightarrow> p) k (JList []))"
  shows "returns (evaluate_gate_decision_from_scan_envelope fs i (Some e) repo_root)"
proof -
  obtain candidate items missing where m: "m = (candidate, items, missing)" by (cases m)
  have "\<forall>x\<in>set (map (bind_evidence_candidate_to_subject (snapshot_gate_subject v)) items). readable_item x"
    using material_readable [OF assms(1) [unfolded m]] bound_readable by auto
  from candidates_answer [OF this assms(3-5)] assms(1,2) m
  show ?thesis unfolding returns_iff by (auto simp: evaluate_gate_decision_from_scan_envelope_def)
qed

section \<open>The subject of a decision\<close>

lemma decision_subject:
  assumes "evaluate_gate_decision q = Inr r"
  shows "dget (ge_decision r) ''subject'' = JObj (decision_subject_of (gq_subject q) (gq_evidence q))"
  using assms by (elim evaluate_pieces)
    (auto simp: close_decision_def Let_def dget_or_dset decision_document_def dget_Cons)

lemma str_or_null_json [simp]: "str_or_null (str_json x) = str_json x"
  by (cases x) (simp_all add: str_or_null_def str_json_def)

text \<open>A subject that names the snapshot.\<close>

definition names_snapshot :: "verified_snapshot \<Rightarrow> dict \<Rightarrow> bool" where
  "names_snapshot v subject \<longleftrightarrow>
     dget subject ''commit'' = str_json (vs_source_commit v) \<and> dget subject ''tree_hash'' = str_json (vs_source_tree v)
     \<and> dget subject ''snapshot_id'' = JStr (vs_snapshot_id v)
     \<and> dget subject ''manifest_fingerprint'' = JStr (vs_manifest_fingerprint v)
     \<and> dget subject ''binding_kind'' = JStr (if vs_source_kind v = ''git_commit'' then ''snapshot_bound'' else ''path_bound'')"

lemma envelope_subject:
  assumes "evaluate_gate_decision_from_scan_envelope fs i (Some e) repo_root = Inr d"
    and "validate_scan_envelope (Some e) = Inr v"
  shows "names_snapshot v (sect d ''subject'')"
proof -
  from assms obtain candidate items missing
    where "evaluate_gate_decision_from_candidates i candidate items (snapshot_gate_subject v) missing = Inr d"
    unfolding evaluate_gate_decision_from_scan_envelope_def by (auto elim!: res_bindE split: prod.splits)
  then obtain r where r: "evaluate_gate_decision (v3_gate_request i candidate items (snapshot_gate_subject v) missing) = Inr r"
    and d: "d = ge_decision r" unfolding evaluate_gate_decision_from_candidates_def by (elim res_mapE) simp
  have "sect d ''subject'' = decision_subject_of (Some (snapshot_gate_subject v)) items"
    using decision_subject [OF r] by (simp add: d sect_def v3_gate_request_def)
  then show ?thesis
    by (simp add: names_snapshot_def decision_subject_of_def Let_def snapshot_gate_subject_def snapshot_subject_def
        dget_Cons str_or_null_def [of "JStr _"])
qed

lemma envelope_authorizes_nothing:
  assumes "evaluate_gate_decision_from_scan_envelope fs i (Some e) repo_root = Inr d"
  shows "dget d ''execution_authorized'' = JBool False"
proof -
  from assms obtain q r where "evaluate_gate_decision q = Inr r" "d = ge_decision r"
    unfolding evaluate_gate_decision_from_scan_envelope_def evaluate_gate_decision_from_candidates_def
    by (auto elim!: res_bindE res_mapE split: prod.splits)
  then show ?thesis by (auto elim!: evaluate_verdict)
qed

lemma validated_envelope:
  assumes "validate_scan_envelope envelope = Inr v"
  shows "\<exists>e. envelope = Some e \<and> en_token e \<and> en_snapshot e = Some v \<and> vs_integrity_status v = ''verified''
    \<and> \<not> py_ne (JObj (en_subject e)) (JObj (snapshot_subject v))
    \<and> en_fingerprint e = scan_report_fingerprint (en_report e)"
  using assms unfolding validate_scan_envelope_def by (auto split: option.splits if_splits)

section \<open>Blocking checks\<close>

text \<open>A check that reports a block: by its status alone when it lists no findings, or by a finding
  that is not allowed and that is rated a block.\<close>

definition blocking_finding :: "json \<Rightarrow> bool" where
  "blocking_finding v =
     (case v of
        JObj f \<Rightarrow> dget f ''allowed'' \<noteq> JBool True \<and> dget_or f ''severity'' (JStr ''block'') = JStr ''block''
      | _ \<Rightarrow> False)"

definition reports_block :: "dict \<Rightarrow> bool" where
  "reports_block check \<longleftrightarrow> dget check ''status'' = JStr ''block''
     \<and> (case dget (sect check ''details'') ''findings'' of
          JList (f # fs) \<Rightarrow> list_ex blocking_finding (f # fs)
        | _ \<Rightarrow> True)"

lemma status_block: "dget check ''status'' = JStr s \<Longrightarrow> dget_or check ''status'' x = JStr s"
  by (cases "map_of check ''status''") (simp_all add: dget_or_def)

lemma indexed_mem: "x \<in> set xs \<Longrightarrow> \<exists>n. (n, x) \<in> set (zip [0..<length xs] xs)"
  unfolding in_set_zip in_set_conv_nth by (elim exE conjE, rule_tac x = i in exI, rule_tac x = i in exI) simp

lemma reported_block_candidate:
  assumes "dget report ''checks'' = JList cs" and "JObj check \<in> set cs" and "reports_block check"
  shows "\<exists>p check. cp_severity p = ''block''
    \<and> base_candidate report check p \<in> set (extract_evidence_candidates_from_v3_report report)"
proof -
  from indexed_mem [OF assms(2)] obtain n where n: "(n, JObj check) \<in> set (zip [0..<length cs] cs)" ..
  have up: "set (check_candidates report n (JObj check)) \<subseteq> set (extract_evidence_candidates_from_v3_report report)"
    unfolding extract_evidence_candidates_from_v3_report_def assms(1) using n by auto
  from assms(3) have st: "dget check ''status'' = JStr ''block''" unfolding reports_block_def by blast
  show ?thesis
  proof (cases "\<exists>f fs. dget (sect check ''details'') ''findings'' = JList (f # fs)")
    case True
    then obtain xs where xs: "dget (sect check ''details'') ''findings'' = JList xs" "xs \<noteq> []" by auto
    with assms(3) have "list_ex blocking_finding xs" unfolding reports_block_def by (cases xs) simp_all
    then obtain v where v: "v \<in> set xs" "blocking_finding v" unfolding list_ex_iff by blast
    from v(2) obtain fd where fd: "v = JObj fd" "dget fd ''allowed'' \<noteq> JBool True"
      "dget_or fd ''severity'' (JStr ''block'') = JStr ''block''"
      unfolding blocking_finding_def by (cases v) simp_all
    from indexed_mem [OF v(1)] obtain j where j: "(j, v) \<in> set (zip [0..<length xs] xs)" ..
    have "cp_severity (parts_for_finding check fd n j) = ''block''"
      using fd(2,3) status_block [OF st]
      by (simp add: parts_for_finding_def is_true_def v3_severity_def)
    moreover have "candidate_for_finding report check fd n j \<in> set (check_candidates report n (JObj check))"
      unfolding check_candidates_def using xs j fd(1) by (cases xs) (auto simp del: upt_Suc intro!: bexI)
    ultimately show ?thesis using up unfolding candidate_for_finding_def by blast
  next
    case False
    have "cp_severity (parts_for_check check n) = ''block''"
      using status_block [OF st] by (simp add: parts_for_check_def v3_severity_def)
    moreover have "candidate_for_check report check n \<in> set (check_candidates report n (JObj check))"
      unfolding check_candidates_def using False by (auto split: json.split list.split)
    ultimately show ?thesis using up unfolding candidate_for_check_def by blast
  qed
qed

lemma blocking_check_verdict:
  assumes "v3_decides fs i report repo_root d"
    and "dget report ''checks'' = JList cs" and "JObj check \<in> set cs" and "reports_block check"
  shows "dget d ''verdict'' = JStr ''block''"
proof -
  from assms(1) obtain r candidate checks items f subject missing
    where r: "evaluate_gate_decision (v3_gate_request i candidate (map f items) subject missing) = Inr r"
    and d: "d = ge_decision r" and "candidate = v3_decision_candidate report checks"
    and sub: "set (extract_evidence_candidates_from_v3_report report) \<subseteq> set items"
    and f: "\<forall>x. dget (f x) ''effects'' = dget x ''effects''" by (rule v3_decides_run)
  from reported_block_candidate [OF assms(2-4)] obtain p c where p: "cp_severity p = ''block''"
    and mem: "base_candidate report c p \<in> set (extract_evidence_candidates_from_v3_report report)" by blast
  have "dget (sect (f (base_candidate report c p)) ''effects'') ''recommended_gate_effect'' = JStr ''block''"
    by (simp add: sect_def f candidate_sections(5) p dget_Cons)
  then have "blocking_item (f (base_candidate report c p))" unfolding blocking_item_def by blast
  from blocking_item_verdict [OF r _ this] mem sub show ?thesis by (auto simp: v3_gate_request_def d)
qed

section \<open>Properties\<close>

text \<open>C9: a check of the report that blocks makes the gate block, whatever the policy and the other
  evidence are, and also when the report is evaluated through a scan envelope.\<close>

theorem blocking_check_blocks:
  assumes "v3_decides fs i report repo_root d"
    and "dget report ''checks'' = JList cs" and "JObj check \<in> set cs" and "reports_block check"
  shows "dget d ''verdict'' = JStr ''block''"
  using assms by (rule blocking_check_verdict)

text \<open>C17: a report lacks a commit, a tree, a confidence model and structured raw handling, so its
  evaluation is never \<open>allow_limited\<close> unless the policy states its own missing evidence or accepts
  each of the missing items by name.\<close>

theorem report_alone_is_not_clean:
  assumes "v3_decides fs i report repo_root d"
    and "\<not> has_key (case vi_policy i of None \<Rightarrow> [] | Some p \<Rightarrow> p) ''missing_evidence''"
    and "iter_strings (dget_or (case vi_policy i of None \<Rightarrow> [] | Some p \<Rightarrow> p) ''accepted_missing_evidence'' (JList [])) = Inr accepted"
    and "\<not> set v3_missing_evidence \<subseteq> set accepted"
  shows "dget d ''verdict'' \<noteq> JStr ''allow_limited''"
proof
  assume "dget d ''verdict'' = JStr ''allow_limited''"
  moreover from assms(1) obtain r candidate checks items f subject missing
    where r: "evaluate_gate_decision (v3_gate_request i candidate (map f items) subject missing) = Inr r"
    and d: "d = ge_decision r" and c: "candidate = v3_decision_candidate report checks"
    and "set (extract_evidence_candidates_from_v3_report report) \<subseteq> set items"
    and "\<forall>x. dget (f x) ''effects'' = dget x ''effects''" by (rule v3_decides_run)
  ultimately obtain t where
    t: "evaluate_totals (v3_effective_policy (vi_policy i) candidate missing) (v3_gate_request i candidate (map f items) subject missing) = Inr t"
    and weak: "\<forall>s\<in>set (gt_signals t). \<forall>c\<in>set (sg_candidates s). c = ''allow_limited''"
    using no_strong_candidates v3_policy_active by metis
  have "string_items (jstrs xs) = xs" for xs
    by (induction xs) (simp_all add: jstrs_def)
  moreover have "dget (sect candidate ''evidence_summary'') ''missing_evidence'' = jstrs v3_missing_evidence"
    unfolding c v3_decision_candidate_def Let_def sect_def by (simp add: dget_Cons)
  ultimately have names: "policy_missing_evidence (v3_effective_policy (vi_policy i) candidate missing)
      = Inr (dedupe (v3_missing_evidence @ missing))"
    unfolding policy_missing_evidence_def effective_policy_fields(1) v3_policy_missing_def using assms(2)
    by (simp add: jstrs_def)
  have acc: "accepted_missing (v3_effective_policy (vi_policy i) candidate missing) = Inr accepted"
    unfolding accepted_missing_def effective_policy_fields(2) by (rule assms(3))
  from assms(4) obtain n where "n \<in> set v3_missing_evidence" "n \<notin> set accepted" by blast
  with totals_missing [OF t names _ acc] weak show False by auto
qed

text \<open>a report is read with the files of the repository: when \<open>setup.py\<close> exists and is not UTF-8, the
  evaluation does not answer at all but raises, because only \<open>OSError\<close> is handled where the file is
  read.\<close>

theorem undecodable_file_raises:
  assumes "demo_root fs report repo_root = Some rt" and "rt_name rt \<noteq> ''demo-no-finding-but-degraded''"
    and "map_of (rt_entries rt) [''setup.py''] = Some (entry.RegularFile Undecodable n)"
    and "map_of (rt_entries rt) [''package.json''] = None"
    and "build_gate_decision_candidate_from_v3_report report = Inr candidate"
  shows "evaluate_gate_decision_from_v3_report fs i report repo_root = Inl ValueError"
proof -
  have "v3_load_json rt [''package.json''] = Inr []" by (simp add: v3_load_json_def assms(4))
  moreover have "build_hook_signals rt = Inl ValueError"
    by (simp add: build_hook_signals_def has_python_build_hook_def v3_read_text_def assms(3) res_bind_def res_map_def)
  ultimately have "shape_signals rt = Inl ValueError" by (simp add: shape_signals_def res_bind_def)
  then have "demo_context_from_v3_report fs report repo_root = Inl ValueError"
    by (simp add: demo_context_from_v3_report_def assms(1) demo_no_finding_context_def assms(2)
        supply_chain_shape_evidence_def res_bind_def res_map_def)
  then show ?thesis
    by (simp add: evaluate_gate_decision_from_v3_report_def v3_material_def assms(5) res_bind_def res_map_def)
qed

text \<open>a decision from a scan envelope is about the scanned snapshot: the envelope was issued by the
  scanner, its snapshot is verified, its report is the one that was fingerprinted, and the subject
  of the decision names the commit, the tree and the fingerprints of that snapshot.\<close>

theorem envelope_decision_bound:
  assumes "evaluate_gate_decision_from_scan_envelope fs i envelope repo_root = Inr d"
  shows "\<exists>e v. envelope = Some e \<and> en_token e \<and> en_snapshot e = Some v \<and> vs_integrity_status v = ''verified''
    \<and> \<not> py_ne (JObj (en_subject e)) (JObj (snapshot_subject v))
    \<and> en_fingerprint e = scan_report_fingerprint (en_report e) \<and> names_snapshot v (sect d ''subject'')"
proof -
  from assms obtain v where v: "validate_scan_envelope envelope = Inr v"
    unfolding evaluate_gate_decision_from_scan_envelope_def by (elim res_bindE)
  from validated_envelope [OF v] obtain e where e: "envelope = Some e" by blast
  from envelope_subject [OF assms [unfolded e] v [unfolded e]] validated_envelope [OF v] e show ?thesis by auto
qed

section \<open>Samples\<close>

definition empty_tree :: repo_tree where
  "empty_tree = \<lparr>rt_name = ''r'', rt_is_dir = True, rt_entries = []\<rparr>"

definition plain_inputs :: v3_inputs where
  "plain_inputs = \<lparr>vi_policy = None, vi_suites = [], vi_sandbox = [], vi_files = \<lparr>gf_schema = None, gf_risk = None\<rparr>\<rparr>"

definition ci_block :: dict where
  "ci_block = [(''name'', JStr ''ci''), (''status'', JStr ''block''), (''summary'', JStr ''no workflow'')]"

definition block_report :: dict where
  "block_report = [(''tool'', JStr ''t''), (''version'', JStr ''1''), (''overall_status'', JStr ''block''),
     (''checks'', JList [JObj ci_block])]"

lemma block_report_returns: "returns (evaluate_gate_decision_from_v3_report (\<lambda>_. empty_tree) plain_inputs block_report None)"
proof -
  have "returns (v3_material (\<lambda>_. empty_tree) block_report None)" by code_simp
  then show ?thesis unfolding returns_iff [of "v3_material _ _ _"]
    by (elim exE) (rule report_answers, assumption, simp_all add: plain_inputs_def iterable_def)
qed

theorem blocking_check_blocks_witness:
  "\<exists>d. evaluate_gate_decision_from_v3_report (\<lambda>_. empty_tree) plain_inputs block_report None = Inr d
     \<and> dget d ''verdict'' = JStr ''block''"
proof -
  from block_report_returns obtain d
    where d: "evaluate_gate_decision_from_v3_report (\<lambda>_. empty_tree) plain_inputs block_report None = Inr d"
    unfolding returns_iff by blast
  have c: "dget block_report ''checks'' = JList [JObj ci_block]" and r: "reports_block ci_block" by code_simp+
  from d have "v3_decides (\<lambda>_. empty_tree) plain_inputs block_report None d" by (simp add: v3_decides_def)
  from blocking_check_blocks [OF this c _ r] d show ?thesis by simp
qed

theorem report_alone_is_not_clean_witness:
  "\<exists>d. evaluate_gate_decision_from_v3_report (\<lambda>_. empty_tree) plain_inputs block_report None = Inr d
     \<and> dget d ''verdict'' \<noteq> JStr ''allow_limited''"
proof -
  from block_report_returns obtain d
    where d: "evaluate_gate_decision_from_v3_report (\<lambda>_. empty_tree) plain_inputs block_report None = Inr d"
    unfolding returns_iff by blast
  then have "v3_decides (\<lambda>_. empty_tree) plain_inputs block_report None d" by (simp add: v3_decides_def)
  from report_alone_is_not_clean [OF this, of "[]"] d show ?thesis
    by (simp add: plain_inputs_def has_key_def keys_def v3_missing_evidence_def)
qed

theorem undecodable_file_raises_witness:
  "evaluate_gate_decision_from_v3_report (\<lambda>_. empty_tree) plain_inputs []
     (Some (empty_tree\<lparr>rt_entries := [([''setup.py''], entry.RegularFile Undecodable 3)]\<rparr>)) = Inl ValueError"
  by (rule undecodable_file_raises [where n = 3 and candidate = "v3_decision_candidate [] []"
        and rt = "empty_tree\<lparr>rt_entries := [([''setup.py''], entry.RegularFile Undecodable 3)]\<rparr>"])
    (simp_all add: demo_root_def empty_tree_def build_gate_decision_candidate_from_v3_report_def)

section \<open>From the source to the decision\<close>

lemma subject_equal: "\<not> py_ne (JObj (snapshot_subject v)) (JObj (snapshot_subject v))"
  unfolding py_ne_def snapshot_subject_def str_json_def
  by (cases "vs_source_commit v"; cases "vs_source_tree v")
    (simp_all add: py_eq.simps [of "JObj _"] keys_def)

definition issued_envelope :: "dict \<Rightarrow> verified_snapshot \<Rightarrow> scan_envelope" where
  "issued_envelope report v =
     \<lparr>en_report = report, en_fingerprint = scan_report_fingerprint report, en_subject = snapshot_subject v,
      en_snapshot = Some v, en_token = True\<rparr>"

lemma issued_envelope_valid:
  "vs_integrity_status v = ''verified'' \<Longrightarrow> validate_scan_envelope (Some (issued_envelope report v)) = Inr v"
  by (simp add: validate_scan_envelope_def issued_envelope_def subject_equal)

lemma scan_issues:
  assumes "dw_snapshot w = Some v" and "copy_safety_ok w" and "diagnose_repo w = Inr report"
  shows "scan_verified_snapshot diagnose_repo w = Inr (issued_envelope report v)"
    and "vs_integrity_status v = ''verified''"
proof -
  from assms(1,2) show ok: "vs_integrity_status v = ''verified''" by (simp add: copy_safety_ok_def)
  from issued_envelope_valid [OF ok] assms show "scan_verified_snapshot diagnose_repo w = Inr (issued_envelope report v)"
    by (simp add: scan_verified_snapshot_def Let_def) (simp add: issued_envelope_def)
qed

text \<open>C8: from the source to the decision: when the intake of a git repository ends with a snapshot and
  the scan of the snapshot returns a report that can be read, then the scan issues an envelope,
  its evaluation returns a decision, and the decision, which authorizes nothing, names the commit
  and the tree that HEAD had before and after the intake.\<close>

theorem scanned_commit_is_decided:
  assumes "create_verified_snapshot b removed so (Some g) = Inr w" and "dw_snapshot w = Some v"
    and "diagnose_repo w = Inr report" and "v3_material fs report repo_root = Inr m"
    and "vi_suites i = []" and "vi_sandbox i = []"
    and "\<forall>k\<in>{''mandatory_evidence'', ''accepted_missing_evidence''}.
      iterable (dget_or (case vi_policy i of None \<Rightarrow> [] | Some p \<Rightarrow> p) k (JList []))"
  shows "\<exists>e d c t. scan_verified_snapshot diagnose_repo w = Inr e
    \<and> evaluate_gate_decision_from_scan_envelope fs i (Some e) repo_root = Inr d
    \<and> git_object_id (gv_commit g) = Some c \<and> git_object_id (gv_final_commit g) = Some c
    \<and> git_object_id (gv_tree g) = Some t \<and> git_object_id (gv_final_tree g) = Some t
    \<and> dget (sect d ''subject'') ''commit'' = JStr c \<and> dget (sect d ''subject'') ''tree_hash'' = JStr t
    \<and> dget (sect d ''subject'') ''snapshot_id'' = JStr (vs_snapshot_id v)
    \<and> dget (sect d ''subject'') ''binding_kind'' = JStr ''snapshot_bound''
    \<and> dget d ''execution_authorized'' = JBool False"
proof -
  have safe: "copy_safety_ok w"
    using snapshot_safe [OF assms(1)] assms(2) by simp
  note scan = scan_issues [where diagnose_repo = diagnose_repo and w = w, OF assms(2) safe assms(3)]
  note valid = issued_envelope_valid [OF scan(2), of report]
  have "v3_material fs (en_report (issued_envelope report v)) repo_root = Inr m"
    using assms(4) by (simp add: issued_envelope_def)
  from envelope_answers [OF this valid assms(5-7)] obtain d
    where d: "evaluate_gate_decision_from_scan_envelope fs i (Some (issued_envelope report v)) repo_root = Inr d"
    unfolding returns_iff by blast
  from envelope_subject [OF d valid] have names: "names_snapshot v (sect d ''subject'')" .
  from d have "dget d ''execution_authorized'' = JBool False" by (rule envelope_authorizes_nothing)
  moreover from git_snapshot_facts [OF assms(1,2)] obtain c t
    where "vs_source_kind v = ''git_commit''" "vs_source_commit v = Some c" "vs_source_tree v = Some t"
      "git_object_id (gv_commit g) = Some c" "git_object_id (gv_final_commit g) = Some c"
      "git_object_id (gv_tree g) = Some t" "git_object_id (gv_final_tree g) = Some t"
    by (elim exE conjE)
  ultimately show ?thesis
    using scan(1) d names unfolding names_snapshot_def
    by (intro exI [of _ "issued_envelope report v"] exI [of _ d] exI [of _ c] exI [of _ t]) (simp add: str_json_def)
qed

theorem scanned_commit_is_decided_witness:
  "\<exists>w e d. create_verified_snapshot small_budget True empty_source (Some (head_view [])) = Inr w
     \<and> scan_verified_snapshot (\<lambda>_. Inr block_report) w = Inr e
     \<and> evaluate_gate_decision_from_scan_envelope (\<lambda>_. empty_tree) plain_inputs (Some e) None = Inr d
     \<and> dget (sect d ''subject'') ''commit'' = JStr (replicate 40 (CHR ''c''))"
proof -
  from empty_commit_verified obtain w v
    where w: "create_verified_snapshot small_budget True empty_source (Some (head_view [])) = Inr w"
    and v: "dw_snapshot w = Some v" by auto
  have "returns (v3_material (\<lambda>_. empty_tree) block_report None)" by code_simp
  then obtain m where m: "v3_material (\<lambda>_. empty_tree) block_report None = Inr m" unfolding returns_iff ..
  have "vi_suites plain_inputs = []" "vi_sandbox plain_inputs = []"
    "\<forall>k\<in>{''mandatory_evidence'', ''accepted_missing_evidence''}.
      iterable (dget_or (case vi_policy plain_inputs of None \<Rightarrow> [] | Some p \<Rightarrow> p) k (JList []))"
    by (simp_all add: plain_inputs_def iterable_def)
  from scanned_commit_is_decided [where diagnose_repo = "\<lambda>_. Inr block_report" and w = w, OF w v refl m this]
  obtain e d c where "scan_verified_snapshot (\<lambda>_. Inr block_report) w = Inr e"
    "evaluate_gate_decision_from_scan_envelope (\<lambda>_. empty_tree) plain_inputs (Some e) None = Inr d"
    "git_object_id (gv_commit (head_view [])) = Some c" "dget (sect d ''subject'') ''commit'' = JStr c"
    by (elim exE conjE)
  with w show ?thesis by (auto simp: head_view_fields empty_commit_pieces)
qed

definition sample_snapshot :: verified_snapshot where
  "sample_snapshot = snapshot_of small_budget (new_workspace small_budget) ''/r'' ''2026-01-01T00:00:00Z'' ''filesystem''
     None None [] ([], ''sha256:i'', ''sha256:f'')"

theorem envelope_decision_bound_witness:
  "\<exists>d. evaluate_gate_decision_from_scan_envelope (\<lambda>_. empty_tree) plain_inputs
       (Some (issued_envelope block_report sample_snapshot)) None = Inr d \<and> names_snapshot sample_snapshot (sect d ''subject'')"
proof -
  have "vs_integrity_status sample_snapshot = ''verified''" by (simp add: sample_snapshot_def snapshot_of_def)
  note valid = issued_envelope_valid [OF this, of block_report]
  have "returns (v3_material (\<lambda>_. empty_tree) block_report None)" by code_simp
  then obtain m where "v3_material (\<lambda>_. empty_tree) (en_report (issued_envelope block_report sample_snapshot)) None = Inr m"
    unfolding returns_iff issued_envelope_def by auto
  from envelope_answers [OF this valid, of plain_inputs] obtain d
    where d: "evaluate_gate_decision_from_scan_envelope (\<lambda>_. empty_tree) plain_inputs
       (Some (issued_envelope block_report sample_snapshot)) None = Inr d"
    unfolding returns_iff by (auto simp: plain_inputs_def iterable_def)
  from envelope_decision_bound [OF d] d show ?thesis by (auto simp: issued_envelope_def)
qed

end
