(* ===== verification/Doctor_Gate.thy ===== *)
theory Doctor_Gate
  imports Doctor_Properties V3_Properties
begin

text \<open>
  The repository check as the scanner of a verified snapshot: the report that doctor.py builds is
  what gate/v3_evaluator.py binds to the snapshot and evaluates.
\<close>

definition scan_with_doctor :: "(workspace \<Rightarrow> doctor_env) \<Rightarrow> doctor_options \<Rightarrow> workspace \<Rightarrow> scan_envelope res" where
  "scan_with_doctor env_of o' w = scan_verified_snapshot (\<lambda>w. diagnose_source env_of o' (Inr w)) w"

lemma scanned_report:
  assumes "scan_with_doctor env_of o' w = Inr e" and "dw_snapshot w = Some v"
  shows "diagnose_snapshot (env_of w) o' v = Inr (en_report e)"
proof -
  from assms(2) have run: "diagnose_source env_of o' (Inr w) = diagnose_snapshot (env_of w) o' v"
    by (simp add: diagnose_source_def)
  from assms show ?thesis
    unfolding scan_with_doctor_def scan_verified_snapshot_def run
    by (auto simp: Let_def split: if_splits elim!: res_bindE res_mapE)
qed

lemma dget_or_text: "dget d k = JStr s \<Longrightarrow> dget_or d k x = JStr s"
  by (cases "map_of d k") (simp_all add: dget_or_def)

text \<open>A secrets check that blocks has a blocking finding, as the gate reads it.\<close>

lemma secrets_check_reports_block:
  assumes "d \<in> set (concat (map text_findings (scanned_texts ra ignores paths)))"
    and "matching_allow policy d = None" and "dget d ''severity'' = JStr status_block"
  shows "reports_block (check_dict (secrets_check ra ignores paths policy))"
proof -
  let ?fs = "apply_allow_findings (concat (map text_findings (scanned_texts ra ignores paths))) policy"
  from assms(1) have mem: "JObj (apply_allow policy d) \<in> set (map JObj ?fs)"
    by (simp add: apply_allow_findings_def)
  have "dget (apply_allow policy d) ''severity'' = JStr ''block''" (is ?sev)
    using apply_allow_keeps [of "''severity''" policy d] assms(3) by (simp add: status_block_def)
  then have "blocking_finding (JObj (apply_allow policy d))"
    using apply_allow_allowed [of policy d JNull] assms(2) dget_or_text [OF \<open>?sev\<close>] by (simp add: blocking_finding_def)
  with mem have some: "list_ex blocking_finding (map JObj ?fs)" unfolding list_ex_iff by blast
  then obtain x xs where list: "map JObj ?fs = x # xs" by (cases "map JObj ?fs") simp_all
  have "dget (sect (check_dict (secrets_check ra ignores paths policy)) ''details'') ''findings'' = JList (map JObj ?fs)"
    by (simp add: sect_def check_details secrets_check_view findings_check_def findings_json_def dget_Cons)
  moreover have "cr_status (secrets_check ra ignores paths policy) = ''block''"
    using secrets_check_blocks [OF assms(1,2)] by (simp add: status_block_def)
  ultimately show ?thesis using some unfolding reports_block_def list by (simp add: check_status)
qed

section \<open>Properties\<close>

text \<open>C6: From the file to the decision: when a snapshot holds, outside the fixture directories, a file with a
  secret that the scan reads, every decision of the gate about the scanned snapshot is \<open>block\<close>,
  whatever the policy files, the options and the other evidence say.\<close>

theorem planted_secret_blocks_gate:
  assumes "scan_with_doctor env_of o' w = Inr e" and "dw_snapshot w = Some v"
    and "(path, content) \<in> set (scanned_texts (de_answers (env_of w)) (do_secrets_ignores o') (manifest_file_paths v))"
    and "(label, pattern) \<in> set secret_scan_patterns" and "rx_search pattern content" and "\<not> in_fixture_dir path"
    and "evaluate_gate_decision_from_scan_envelope fs i (Some e) repo_root = Inr d"
  shows "dget d ''verdict'' = JStr ''block'' \<and> dget d ''execution_authorized'' = JBool False"
proof -
  from scanned_report [OF assms(1,2)] obtain policy where policy: "env_policy (env_of w) o' = Inr policy"
    and report: "en_report e = build_report (de_repo_path (env_of w)) (diagnose_checks (de_answers (env_of w)) o'
      (vs_source_kind v = ''git_commit'') (vs_tracked_paths v) (manifest_file_paths v) policy)" (is "_ = build_report _ ?cs")
    unfolding diagnose_snapshot_def by (elim diagnose_repoE) simp
  let ?c = "secrets_check (de_answers (env_of w)) (do_secrets_ignores o') (manifest_file_paths v) policy"
  from planted_secret_unallowed [OF env_policy_sound [OF policy] assms(3-6)] obtain f
    where "f \<in> set (concat (map text_findings (scanned_texts (de_answers (env_of w)) (do_secrets_ignores o') (manifest_file_paths v))))"
      "matching_allow policy f = None" "dget f ''severity'' = JStr status_block" .
  then have block: "reports_block (check_dict ?c)" by (rule secrets_check_reports_block)
  have "?c \<in> set ?cs" by (simp add: diagnose_checks_def)
  then have mem: "JObj (check_dict ?c) \<in> set (map (\<lambda>c. JObj (check_dict c)) ?cs)" by simp
  have checks: "dget (en_report e) ''checks'' = JList (map (\<lambda>c. JObj (check_dict c)) ?cs)"
    by (simp add: report report_fields)
  from assms(7) have "v3_decides fs i (en_report e) repo_root d" unfolding v3_decides_def by blast
  from blocking_check_verdict [OF this checks mem block] envelope_authorizes_nothing [OF assms(7)] show ?thesis by simp
qed

section \<open>A planted key\<close>

definition key_entry :: manifest_entry where
  "key_entry = \<lparr>me_path = ''src/config.py'', me_type = ''file'', me_mode = ''100644'', me_size = 26, me_sha256 = None\<rparr>"

definition key_env :: "workspace \<Rightarrow> doctor_env" where
  "key_env w = (sample_env [sample_key_file] 739617)\<lparr>de_repo_path := ''<repo:r>''\<rparr>"

lemma key_env_answers: "de_answers (key_env w) = sample_answers [sample_key_file]"
  by (simp add: key_env_def sample_env_def)

text \<open>A report whose path is redacted is evaluated without looking at files.\<close>

lemma redacted_report_material:
  assumes "dget report ''checks'' = JList cs" and "dget report ''repo_path'' = JStr (''<repo'' @ x)"
  shows "returns (v3_material fs report None)"
proof -
  have "demo_root fs report None = None" using assms(2) by (simp add: demo_root_def starts_with_def)
  moreover have "dget_or report ''checks'' y = JList cs" for y
    using assms(1) by (cases "map_of report ''checks''") (simp_all add: dget_or_def)
  ultimately show ?thesis
    by (simp add: v3_material_def demo_context_from_v3_report_def build_gate_decision_candidate_from_v3_report_def
        returns_bind_iff)
qed

theorem planted_secret_blocks_gate_witness:
  "\<exists>w v e d. scan_with_doctor key_env default_options w = Inr e \<and> dw_snapshot w = Some v
     \<and> manifest_file_paths v = [''src/config.py'']
     \<and> evaluate_gate_decision_from_scan_envelope (\<lambda>_. empty_tree) plain_inputs (Some e) None = Inr d
     \<and> dget d ''verdict'' = JStr ''block''"
proof -
  from empty_commit_verified obtain w0 v0
    where w0: "create_verified_snapshot small_budget True empty_source (Some (head_view [])) = Inr w0"
    and v0: "dw_snapshot w0 = Some v0" by auto
  have safe0: "copy_safety_ok w0" using snapshot_safe [OF w0] v0 by simp
  define v where "v = v0\<lparr>vs_manifest := [key_entry]\<rparr>"
  define w where "w = w0\<lparr>dw_snapshot := Some v\<rparr>"
  have w: "dw_snapshot w = Some v" by (simp add: w_def)
  have safe: "copy_safety_ok w" using safe0 v0 by (simp add: copy_safety_ok_def w_def v_def)
  have paths: "manifest_file_paths v = [''src/config.py'']" by (simp add: v_def manifest_file_paths_def key_entry_def)
  have "returns (diagnose_repo (key_env w) default_options (vs_source_kind v = ''git_commit'') (vs_tracked_paths v)
      (Some (manifest_file_paths v)))"
    using load_policy_returns [of 739617 yaml_parsers sample_policy_files "policy_sources None None True"]
    by (simp add: diagnose_repo_def env_policy_def key_env_def sample_env_def default_options_def
        policy_allow_expiring_soon_days_def max_ordinal_def)
  then obtain report where r: "diagnose_source key_env default_options (Inr w) = Inr report"
    unfolding returns_iff by (auto simp: diagnose_source_def w diagnose_snapshot_def)
  note scan = scan_issues [where diagnose_repo = "\<lambda>w. diagnose_source key_env default_options (Inr w)" and w = w, OF w safe r]
  have e: "scan_with_doctor key_env default_options w = Inr (issued_envelope report v)"
    unfolding scan_with_doctor_def by (rule scan(1))
  have "diagnose_snapshot (key_env w) default_options v = Inr report" using r by (simp add: diagnose_source_def w)
  then have "dget report ''repo_path'' = JStr (''<repo'' @ '':r>'')" "\<exists>cs. dget report ''checks'' = JList cs"
    unfolding diagnose_snapshot_def by (elim diagnose_repoE, simp add: report_fields key_env_def)+
  then have "returns (v3_material (\<lambda>_. empty_tree) report None)" using redacted_report_material by blast
  then obtain m where "v3_material (\<lambda>_. empty_tree) (en_report (issued_envelope report v)) None = Inr m"
    unfolding returns_iff by (auto simp: issued_envelope_def)
  from envelope_answers [OF this issued_envelope_valid [OF scan(2)], of plain_inputs] obtain d
    where d: "evaluate_gate_decision_from_scan_envelope (\<lambda>_. empty_tree) plain_inputs (Some (issued_envelope report v)) None = Inr d"
    unfolding returns_iff by (auto simp: plain_inputs_def iterable_def)
  from sample_key_found obtain label pattern where p: "(label, pattern) \<in> set secret_scan_patterns"
    "rx_search pattern (snd sample_key_file)" unfolding list_ex_iff by (auto dest: in_set_takeD)
  have read: "(''src/config.py'', snd sample_key_file) \<in> set (scanned_texts (de_answers (key_env w))
      (do_secrets_ignores default_options) (manifest_file_paths v))"
    using sample_key_read by (simp add: key_env_answers paths default_options_def sample_key_file_def)
  from planted_secret_blocks_gate [OF e w read p sample_key_listed(5) d] e w paths d show ?thesis by blast
qed

end
