(* ===== verification/Doctor_Diff.thy ===== *)
theory Doctor_Diff
  imports Doctor_Scan
begin

text \<open>
  The comparison of two reports and the release check of doctor.py.  A baseline report is any JSON
  value that passes \<open>_validate_loaded_report\<close>; what the validation leaves open (a report without
  \<open>repo_path\<close>, a check whose details are null) is an exception in the comparison.
\<close>

section \<open>Loaded reports\<close>

definition is_status :: "json \<Rightarrow> bool" where
  "is_status v \<longleftrightarrow> v \<in> JStr ` set runtime_status_values"

definition valid_check :: "json \<Rightarrow> bool" where
  "valid_check c =
     (case c of
        JObj d \<Rightarrow> is_str (dget d ''name'') \<and> is_status (dget d ''status'')
          \<and> (is_null (dget d ''details'') \<or> is_obj (dget d ''details''))
      | _ \<Rightarrow> False)"

definition validate_loaded_report :: "json \<Rightarrow> dict res" where
  "validate_loaded_report payload =
     (case payload of
        JObj r \<Rightarrow>
          if dget r ''tool'' \<noteq> JStr ''repo-health-doctor'' then Inl ValueError
          else if \<not> is_null (dget r ''report_kind'') then Inl ValueError
          else if dget r ''schema_version'' \<noteq> JStr report_schema_version then Inl ValueError
          else if \<not> is_status (dget r ''overall_status'') then Inl ValueError
          else
            (case dget r ''summary'' of
               JObj summary \<Rightarrow>
                 if \<not> list_all (\<lambda>k. is_int (dget summary k)) runtime_status_values then Inl ValueError
                 else
                   (case dget r ''checks'' of
                      JList checks \<Rightarrow> if list_all valid_check checks then Inr r else Inl ValueError
                    | _ \<Rightarrow> Inl ValueError)
             | _ \<Rightarrow> Inl ValueError)
      | _ \<Rightarrow> Inl ValueError)"

section \<open>The findings of a report\<close>

type_synonym finding_key = "string \<times> string \<times> string \<times> bool \<times> string \<times> string"

definition finding_identity :: "dict \<Rightarrow> finding_key" where
  "finding_identity finding =
     (let text = (\<lambda>k. py_str (dget_or finding k (JStr []))) in
      (text ''rule_id'', text ''file'', text ''pattern'', truthy (dget_or finding ''redacted'' (JBool False)),
       text ''matched_policy_id'', text ''policy_source''))"

definition kept :: "dict \<Rightarrow> string \<Rightarrow> (json \<Rightarrow> json) \<Rightarrow> dict" where
  "kept finding k f = (if has_key finding k then [(k, f (dget finding k))] else [])"

definition diff_finding_entry :: "dict \<Rightarrow> dict" where
  "diff_finding_entry finding =
     [(''rule_id'', dget finding ''rule_id''), (''severity'', dget finding ''severity''), (''file'', dget finding ''file''),
      (''pattern'', dget finding ''pattern''), (''redacted'', JBool (truthy (dget finding ''redacted'')))]
     @ kept finding ''allowed'' (\<lambda>v. JBool (truthy v)) @ kept finding ''matched_policy_id'' id
     @ kept finding ''policy_source'' id"

definition diff_severity_change_entry :: "dict \<Rightarrow> dict \<Rightarrow> dict" where
  "diff_severity_change_entry before_finding after_finding =
     dpop (dset (dset (diff_finding_entry after_finding) ''before_severity'' (dget before_finding ''severity''))
       ''after_severity'' (dget after_finding ''severity'')) ''severity''"

text \<open>The findings that count, in order: each with its identity and its entry.  The dictionary that is filled
  with \<open>setdefault\<close> maps a key to its first entry, the counter counts the occurrences.\<close>

type_synonym flat_findings = "(finding_key \<times> dict) list"

definition flat_finding :: "json \<Rightarrow> (finding_key \<times> dict) option" where
  "flat_finding v =
     (case v of
        JObj f \<Rightarrow>
          if list_all (has_key f) [''rule_id'', ''severity'', ''file'', ''pattern'', ''redacted'']
          then Some (finding_identity f, diff_finding_entry f) else None
      | _ \<Rightarrow> None)"

definition flatten_check :: "json \<Rightarrow> flat_findings res" where
  "flatten_check c =
     (case c of
        JObj check \<Rightarrow>
          (case dget_or check ''details'' (JObj []) of
             JObj details \<Rightarrow>
               (case dget_or details ''findings'' (JList []) of
                  JList findings \<Rightarrow> Inr (List.map_filter flat_finding findings)
                | _ \<Rightarrow> Inr [])
           | _ \<Rightarrow> Inl AttributeError)
      | _ \<Rightarrow> Inl AttributeError)"

definition checks_of :: "dict \<Rightarrow> json list" where
  "checks_of report = (case dget report ''checks'' of JList xs \<Rightarrow> xs | _ \<Rightarrow> [])"

definition flatten_report_findings :: "dict \<Rightarrow> flat_findings res" where
  "flatten_report_findings report = res_map concat (mapM flatten_check (checks_of report))"

definition first_entry :: "flat_findings \<Rightarrow> finding_key \<Rightarrow> dict" where
  "first_entry flat k = (case map_of flat k of Some d \<Rightarrow> d | None \<Rightarrow> [])"

definition finding_count :: "flat_findings \<Rightarrow> finding_key \<Rightarrow> nat" where
  "finding_count flat k = count_list (map fst flat) k"

definition report_status_map :: "dict \<Rightarrow> (string \<times> string) list" where
  "report_status_map report =
     rev (List.map_filter (\<lambda>c. case c of
         JObj d \<Rightarrow> (case (dget d ''name'', dget d ''status'') of
             (JStr name, JStr status) \<Rightarrow> if status \<in> set runtime_status_values then Some (name, status) else None
           | _ \<Rightarrow> None)
       | _ \<Rightarrow> None) (checks_of report))"

definition status_in :: "(string \<times> string) list \<Rightarrow> string \<Rightarrow> string" where
  "status_in statuses name = (case map_of statuses name of Some s \<Rightarrow> s | None \<Rightarrow> ''missing'')"

section \<open>The comparison\<close>

text \<open>The sorted keys of both reports, of the second alone, of the first alone.\<close>

definition key_set :: "flat_findings \<Rightarrow> finding_key set" where
  "key_set flat = set (map fst flat)"

definition shared_keys :: "flat_findings \<Rightarrow> flat_findings \<Rightarrow> finding_key list" where
  "shared_keys before after = sorted_list_of_set (key_set before \<inter> key_set after)"

definition new_keys :: "flat_findings \<Rightarrow> flat_findings \<Rightarrow> finding_key list" where
  "new_keys before after = sorted_list_of_set (key_set after - key_set before)"

definition severity_differs :: "flat_findings \<Rightarrow> flat_findings \<Rightarrow> finding_key \<Rightarrow> bool" where
  "severity_differs before after k \<longleftrightarrow>
     py_ne (dget (first_entry before k) ''severity'') (dget (first_entry after k) ''severity'')"

definition severity_changes :: "flat_findings \<Rightarrow> flat_findings \<Rightarrow> dict list" where
  "severity_changes before after =
     map (\<lambda>k. diff_severity_change_entry (first_entry before k) (first_entry after k))
       (filter (severity_differs before after) (shared_keys before after))"

definition unchanged_count :: "flat_findings \<Rightarrow> flat_findings \<Rightarrow> nat" where
  "unchanged_count before after =
     sum_list (map (\<lambda>k. min (finding_count before k) (finding_count after k))
       (filter (\<lambda>k. \<not> severity_differs before after k) (shared_keys before after)))"

definition status_changes :: "(string \<times> string) list \<Rightarrow> (string \<times> string) list \<Rightarrow> dict list" where
  "status_changes before after =
     map (\<lambda>n. [(''check'', JStr n), (''before_status'', JStr (status_in before n)), (''after_status'', JStr (status_in after n))])
       (filter (\<lambda>n. status_in before n \<noteq> status_in after n)
         (sorted_list_of_set (set (map fst before) \<union> set (map fst after))))"

definition need :: "dict \<Rightarrow> string \<Rightarrow> json res" where
  "need report k = (if has_key report k then Inr (dget report k) else Inl KeyError)"

definition report_head :: "dict \<Rightarrow> json res" where
  "report_head report =
     res_bind (need report ''repo_path'') (\<lambda>p. res_bind (need report ''overall_status'') (\<lambda>o'.
       res_map (\<lambda>s. JObj [(''repo_path'', p), (''overall_status'', o'), (''summary'', s)]) (need report ''summary'')))"

definition findings_at :: "flat_findings \<Rightarrow> finding_key list \<Rightarrow> dict list" where
  "findings_at flat ks = map (first_entry flat) ks"

definition count_json :: "'a list \<Rightarrow> json" where
  "count_json xs = JInt (int (length xs))"

definition diff_body :: "dict \<Rightarrow> dict \<Rightarrow> flat_findings \<Rightarrow> flat_findings \<Rightarrow> json \<Rightarrow> json \<Rightarrow> dict" where
  "diff_body before_report after_report before after before_head after_head =
     (let added = findings_at after (new_keys before after); resolved = findings_at before (new_keys after before);
          severity = severity_changes before after; unchanged = JInt (int (unchanged_count before after));
          changes = status_changes (report_status_map before_report) (report_status_map after_report) in
      [(''tool'', JStr ''repo-health-doctor''), (''version'', JStr doctor_version),
       (''schema_version'', JStr report_schema_version), (''report_kind'', JStr report_kind_diff),
       (''reports'', JObj [(''before'', before_head), (''after'', after_head)]),
       (''overall_status'', JObj
          [(''before'', dget before_report ''overall_status''), (''after'', dget after_report ''overall_status''),
           (''changed'', JBool (py_ne (dget before_report ''overall_status'') (dget after_report ''overall_status'')))]),
       (''summary'', JObj
          [(''added_findings'', count_json added), (''resolved_findings'', count_json resolved),
           (''unchanged_findings'', unchanged), (''severity_changes'', count_json severity),
           (''status_changes'', count_json changes)]),
       (''findings'', JObj
          [(''added'', findings_json added), (''resolved'', findings_json resolved),
           (''severity_changes'', findings_json severity), (''unchanged_count'', unchanged)]),
       (''status_changes'', findings_json changes)])"

definition diff_loaded_reports :: "dict \<Rightarrow> dict \<Rightarrow> dict res" where
  "diff_loaded_reports before_report after_report =
     res_bind (flatten_report_findings before_report) (\<lambda>before.
     res_bind (flatten_report_findings after_report) (\<lambda>after.
     res_bind (report_head before_report) (\<lambda>before_head.
     res_map (\<lambda>after_head. diff_body before_report after_report before after before_head after_head)
       (report_head after_report))))"

definition diff_reports :: "json res \<Rightarrow> json res \<Rightarrow> dict res" where
  "diff_reports before_file after_file =
     res_bind (res_bind before_file validate_loaded_report) (\<lambda>before_report.
     res_bind (res_bind after_file validate_loaded_report) (diff_loaded_reports before_report))"

section \<open>The release check\<close>

definition report_check :: "dict \<Rightarrow> string \<Rightarrow> dict res" where
  "report_check report name =
     (case find (\<lambda>c. dget c ''name'' = JStr name) (report_checks report) of
        Some c \<Rightarrow> Inr c | None \<Rightarrow> Inl ValueError)"

definition list_length_at :: "dict \<Rightarrow> string \<Rightarrow> int" where
  "list_length_at d k = (case dget d k of JList xs \<Rightarrow> int (length xs) | _ \<Rightarrow> 0)"

definition report_finding_count :: "dict \<Rightarrow> int" where
  "report_finding_count report = sum_list (map (\<lambda>c. list_length_at (sect c ''details'') ''findings'') (report_checks report))"

definition report_check_names :: "dict \<Rightarrow> string \<Rightarrow> string list" where
  "report_check_names report status =
     List.map_filter (\<lambda>c. if dget c ''status'' = JStr status then opt_str (dget c ''name'') else None) (report_checks report)"

definition release_diff_status :: "dict \<Rightarrow> string \<times> string" where
  "release_diff_status diff_report =
     (let summary = sect diff_report ''summary'' in
      if int_at summary ''added_findings'' > 0 \<or> int_at summary ''severity_changes'' > 0
         \<or> int_at summary ''status_changes'' > 0 \<or> truthy (dget (sect diff_report ''overall_status'') ''changed'')
      then (status_warn, ''Current scan differs from baseline and should be reviewed.'')
      else (status_pass, ''Current scan matches baseline or only resolves prior findings.''))"

definition has_check :: "check_result list \<Rightarrow> string \<Rightarrow> string \<Rightarrow> bool" where
  "has_check checks name status = list_ex (\<lambda>c. cr_name c = name \<and> cr_status c = status) checks"

definition recommended_release_action :: "string \<Rightarrow> check_result list \<Rightarrow> string" where
  "recommended_release_action overall checks =
     (if overall = status_block then
        (if has_check checks ''policy_validation'' status_block
         then ''Do not release. Fix policy validation blockers and rerun release-check.''
         else ''Do not release. Resolve blocking findings and rerun release-check.'')
      else if overall = status_warn then
        (if has_check checks ''allow_inventory'' status_warn then ''Review expiring allow entries before release.''
         else if has_check checks ''report_diff'' status_warn then ''Review changes since the baseline report before release.''
         else ''Review warnings and rerun release-check before release.'')
      else ''Release readiness checks passed. Proceed with maintainer release review.'')"

definition repo_scan_check :: "dict \<Rightarrow> check_result" where
  "repo_scan_check scan_report =
     (let overall = str_of (dget scan_report ''overall_status'') in
      \<lparr>cr_name = ''repo_scan'', cr_status = overall,
       cr_summary = (if overall = status_pass then ''Repository scan passed release checks.''
         else if overall = status_warn then ''Repository scan has release warnings.''
         else ''Repository scan has release blockers.''),
       cr_details =
         [(''report_overall_status'', JStr overall), (''pass_count'', JInt (summary_count scan_report ''pass'')),
          (''warn_count'', JInt (summary_count scan_report ''warn'')),
          (''block_count'', JInt (summary_count scan_report ''block'')),
          (''finding_count'', JInt (report_finding_count scan_report)),
          (''warning_checks'', jstrs (report_check_names scan_report status_warn)),
          (''blocking_checks'', jstrs (report_check_names scan_report status_block))]\<rparr>)"

definition policy_validation_check :: "dict \<Rightarrow> dict \<Rightarrow> check_result" where
  "policy_validation_check policy_report check =
     (let details = sect check ''details'';
          findings = (case dget details ''findings'' of JList xs \<Rightarrow> xs | _ \<Rightarrow> []) in
      \<lparr>cr_name = ''policy_validation'', cr_status = str_of (dget check ''status''), cr_summary = str_of (dget check ''summary''),
       cr_details =
         [(''report_overall_status'', dget policy_report ''overall_status''),
          (''policy_sources'', dget_or details ''policy_sources'' (JList [])),
          (''ignore_path_count'', dget_or details ''ignore_path_count'' (JInt 0)),
          (''allow_finding_count'', dget_or details ''allow_finding_count'' (JInt 0)),
          (''issue_count'', count_json findings),
          (''issue_rule_ids'', jstrs (sorted_list_of_set (set (List.map_filter (\<lambda>f. case f of
             JObj d \<Rightarrow> opt_str (dget d ''rule_id'') | _ \<Rightarrow> None) findings))))]\<rparr>)"

definition allow_inventory_check :: "dict \<Rightarrow> check_result" where
  "allow_inventory_check check =
     (let details = sect check ''details'' in
      \<lparr>cr_name = ''allow_inventory'', cr_status = str_of (dget check ''status''), cr_summary = str_of (dget check ''summary''),
       cr_details =
         (''report_overall_status'', dget check ''status'') # (''policy_sources'', dget_or details ''policy_sources'' (JList []))
         # map (\<lambda>k. (k, dget_or details k (JInt 0)))
             [''allow_finding_count'', ''active_count'', ''expiring_soon_count'', ''expired_count'', ''displayed_allow_count'']\<rparr>)"

text \<open>\<open>baseline\<close> is what reading the baseline report gives, when there is one.\<close>

definition report_diff_check :: "json res option \<Rightarrow> dict \<Rightarrow> check_result res" where
  "report_diff_check baseline scan_report =
     (case baseline of
        None \<Rightarrow> Inr \<lparr>cr_name = ''report_diff'', cr_status = status_pass,
          cr_summary = ''Baseline report not provided; diff summary skipped.'',
          cr_details = [(''comparison_available'', JBool False)]\<rparr>
      | Some file \<Rightarrow>
          res_bind (res_bind file validate_loaded_report) (\<lambda>baseline_report.
          res_map (\<lambda>d. (let summary = sect d ''summary''; (status, text) = release_diff_status d in
              \<lparr>cr_name = ''report_diff'', cr_status = status, cr_summary = text,
               cr_details = [(''comparison_available'', JBool True),
                 (''report_overall_status'', dget (sect d ''overall_status'') ''after'')]
                 @ map (\<lambda>k. (k, dget summary k))
                     [''added_findings'', ''resolved_findings'', ''unchanged_findings'', ''severity_changes'', ''status_changes'']\<rparr>))
            (diff_loaded_reports baseline_report scan_report)))"

definition release_readiness :: "string \<Rightarrow> dict" where
  "release_readiness overall =
     [(''status'', JStr overall),
      (''summary'', JStr (if overall = status_pass then ''Release readiness checks passed.''
         else if overall = status_warn then ''Release readiness requires review.'' else ''Release readiness is blocked.''))]"

definition release_report :: "string \<Rightarrow> check_result list \<Rightarrow> dict" where
  "release_report repo_path checks =
     build_report repo_path checks
     @ [(''report_kind'', JStr report_kind_release_check),
        (''release_readiness'', JObj (release_readiness (overall_status_of checks))),
        (''recommended_next_action'', JStr (recommended_release_action (overall_status_of checks) checks))]"

text \<open>The scan runs in the workspace of the intake, the policy is read at the root.\<close>

definition release_check ::
  "(workspace \<Rightarrow> doctor_env) \<Rightarrow> doctor_env \<Rightarrow> doctor_options \<Rightarrow> workspace res \<Rightarrow> json res option \<Rightarrow> dict res" where
  "release_check env_of root_env o' intake baseline =
     res_bind (diagnose_source env_of (o'\<lparr>do_public_safety := True\<rparr>) intake) (\<lambda>scan_report.
     res_bind (validate_policy root_env o') (\<lambda>policy_report.
     res_bind (list_policy_allows root_env o' None None) (\<lambda>allows_report.
     res_bind (report_check policy_report ''policy'') (\<lambda>policy.
     res_bind (report_check allows_report ''policy_allow_inventory'') (\<lambda>inventory.
     res_map (\<lambda>diff. release_report (de_repo_path root_env)
         [repo_scan_check scan_report, policy_validation_check policy_report policy, allow_inventory_check inventory, diff])
       (report_diff_check baseline scan_report))))))"

end
