(* ===== verification/Doctor_Release.thy ===== *)
theory Doctor_Release
  imports Doctor_Diff Doctor_Properties
begin

text \<open>
  What the comparison of reports and the release check guarantee: a report does not differ from
  itself, comparing in the other direction exchanges what was added and what was resolved, the
  comparison accounts for every finding, and a release is passed only when nothing is left to
  review.
\<close>

section \<open>Keys of a comparison\<close>

lemma finite_keys [simp]: "finite (key_set flat)"
  by (simp add: key_set_def)

lemma set_new_keys: "set (new_keys before after) = key_set after - key_set before"
  by (simp add: new_keys_def)

lemma set_shared_keys: "set (shared_keys before after) = key_set before \<inter> key_set after"
  by (simp add: shared_keys_def)

lemma new_keys_self [simp]: "new_keys flat flat = []"
  by (simp add: new_keys_def)

lemma new_keys_Nil: "new_keys before after = [] \<longleftrightarrow> key_set after \<subseteq> key_set before"
  using set_new_keys [of before after] by (metis Diff_eq_empty_iff set_empty)

lemma length_keys:
  "length (new_keys before after) + length (shared_keys before after) = card (key_set after)"
proof -
  have "card (key_set after) = card (key_set after - key_set before) + card (key_set before \<inter> key_set after)"
    by (subst card_Un_disjoint [symmetric]) (auto intro: arg_cong [where f = card])
  then show ?thesis by (simp add: new_keys_def shared_keys_def)
qed

lemma shared_keys_commute: "shared_keys before after = shared_keys after before"
  by (simp add: shared_keys_def Int_commute)

lemma first_entry_mem: "k \<in> key_set flat \<Longrightarrow> (k, first_entry flat k) \<in> set flat"
  unfolding key_set_def first_entry_def by (cases "map_of flat k") (auto simp: map_of_eq_None_iff dest: map_of_SomeD)

section \<open>The parts of a comparison\<close>

lemma diff_parts:
  assumes "diff_loaded_reports a b = Inr d"
  obtains before after x y where "flatten_report_findings a = Inr before" and "flatten_report_findings b = Inr after"
    and "report_head a = Inr x" and "report_head b = Inr y" and "d = diff_body a b before after x y"
  using assms unfolding diff_loaded_reports_def by (elim res_bindE res_mapE)

lemma body_findings:
  "dget (sect (diff_body a b before after x y) ''findings'') ''added'' = findings_json (findings_at after (new_keys before after))"
  "dget (sect (diff_body a b before after x y) ''findings'') ''resolved'' = findings_json (findings_at before (new_keys after before))"
  "dget (sect (diff_body a b before after x y) ''findings'') ''severity_changes'' = findings_json (severity_changes before after)"
  "dget (diff_body a b before after x y) ''status_changes'' =
     findings_json (status_changes (report_status_map a) (report_status_map b))"
  by (simp_all add: diff_body_def Let_def sect_def dget_Cons)

lemma body_summary:
  "int_at (sect (diff_body a b before after x y) ''summary'') ''added_findings'' = int (length (new_keys before after))"
  "int_at (sect (diff_body a b before after x y) ''summary'') ''resolved_findings'' = int (length (new_keys after before))"
  "int_at (sect (diff_body a b before after x y) ''summary'') ''unchanged_findings'' = int (unchanged_count before after)"
  "int_at (sect (diff_body a b before after x y) ''summary'') ''severity_changes'' = int (length (severity_changes before after))"
  "int_at (sect (diff_body a b before after x y) ''summary'') ''status_changes'' =
     int (length (status_changes (report_status_map a) (report_status_map b)))"
  by (simp_all add: diff_body_def Let_def sect_def dget_Cons int_at_def count_json_def findings_at_def)

lemma body_changed:
  "dget (sect (diff_body a b before after x y) ''overall_status'') ''changed'' =
     JBool (py_ne (dget a ''overall_status'') (dget b ''overall_status''))"
  by (simp add: diff_body_def Let_def sect_def dget_Cons)

lemma status_changes_self [simp]: "status_changes m m = []"
  by (simp add: status_changes_def)

section \<open>Well-formed reports\<close>

lemma wf_dget: "json_wf (JObj d) \<Longrightarrow> json_wf (dget d k)"
  by (cases "map_of d k") (auto simp: dget_or_def list_all_iff dest!: map_of_SomeD)

lemma flat_finding_wf:
  assumes "flat_finding v = Some (k, d)" and "json_wf v"
  shows "json_wf (dget d ''severity'')"
proof -
  from assms(1) obtain f where v: "v = JObj f" and d: "d = diff_finding_entry f"
    by (auto simp: flat_finding_def split: json.splits if_splits)
  from assms(2) wf_dget [of f "''severity''"] show ?thesis by (simp add: d v diff_finding_entry_def dget_Cons)
qed

lemma list_wf_mem: "json_wf (JList xs) \<Longrightarrow> x \<in> set xs \<Longrightarrow> json_wf x"
  by (simp add: list_all_iff)

lemma flatten_check_wf:
  assumes "flatten_check c = Inr fs" and "json_wf c" and "(k, d) \<in> set fs"
  shows "json_wf (dget d ''severity'')"
proof -
  from assms(1) obtain check details where c: "c = JObj check" and det: "dget_or check ''details'' (JObj []) = JObj details"
    by (auto simp: flatten_check_def split: json.splits)
  from assms(2) c det have wf: "json_wf (JObj details)"
    using wf_dget [of check "''details''"] by (cases "map_of check ''details''") (simp_all add: dget_or_def)
  show ?thesis
  proof (cases "dget_or details ''findings'' (JList [])")
    case (JList xs)
    then have fs: "fs = List.map_filter flat_finding xs" using assms(1) c det by (simp add: flatten_check_def)
    from wf wf_dget [of details "''findings''"] JList have "json_wf (JList xs)"
      by (cases "map_of details ''findings''") (simp_all add: dget_or_def)
    from assms(3) fs obtain v where v: "v \<in> set xs" "flat_finding v = Some (k, d)"
      by (auto simp: List.map_filter_def)
    from flat_finding_wf [OF v(2) list_wf_mem [OF \<open>json_wf (JList xs)\<close> v(1)]] show ?thesis .
  qed (use assms c det in \<open>simp_all add: flatten_check_def\<close>)
qed

lemma mapM_mem: "mapM f xs = Inr ys \<Longrightarrow> y \<in> set ys \<Longrightarrow> \<exists>x\<in>set xs. f x = Inr y"
  by (induction xs arbitrary: ys) (auto elim!: res_bindE res_mapE)

lemma flatten_wf:
  assumes "flatten_report_findings r = Inr flat" and "json_wf (JObj r)" and "(k, d) \<in> set flat"
  shows "json_wf (dget d ''severity'')"
proof -
  from assms(1) obtain yss where m: "mapM flatten_check (checks_of r) = Inr yss" and flat: "flat = concat yss"
    unfolding flatten_report_findings_def by (elim res_mapE)
  from assms(3) flat obtain ys where ys: "ys \<in> set yss" "(k, d) \<in> set ys" by auto
  from mapM_mem [OF m ys(1)] obtain c where c: "c \<in> set (checks_of r)" "flatten_check c = Inr ys" by blast
  from c(1) wf_dget [OF assms(2), of "''checks''"] have "json_wf c"
    by (cases "dget r ''checks''") (auto simp: checks_of_def list_all_iff)
  from flatten_check_wf [OF c(2) this ys(2)] show ?thesis .
qed

lemma severity_same:
  assumes "flatten_report_findings r = Inr flat" and "json_wf (JObj r)" and "k \<in> key_set flat"
  shows "\<not> severity_differs flat flat k"
  using py_eq_refl [OF flatten_wf [OF assms(1,2) first_entry_mem [OF assms(3)]]]
  by (simp add: severity_differs_def py_ne_def)

lemma sum_counts: "sum_list (map (finding_count flat) (sorted_list_of_set (key_set flat))) = length flat"
proof -
  have "sum_list (map (finding_count flat) (sorted_list_of_set (key_set flat))) = sum (finding_count flat) (key_set flat)"
    by (simp add: sum_list_distinct_conv_sum_set)
  also have "\<dots> = length flat"
    using sum_count_set [of "map fst flat" "key_set flat"] by (simp add: finding_count_def [abs_def] key_set_def)
  finally show ?thesis .
qed

section \<open>What a comparison says\<close>

text \<open>The findings that a report lists, without the code's dictionaries: every object among the findings of a
  check that has the five required keys, in order.\<close>

definition items :: "json \<Rightarrow> json list" where
  "items v = (case v of JList xs \<Rightarrow> xs | _ \<Rightarrow> [])"

definition full_finding :: "json \<Rightarrow> dict option" where
  "full_finding v =
     (case v of
        JObj f \<Rightarrow> if has_key f ''rule_id'' \<and> has_key f ''severity'' \<and> has_key f ''file'' \<and> has_key f ''pattern''
            \<and> has_key f ''redacted'' then Some f else None
      | _ \<Rightarrow> None)"

definition reported_findings :: "dict \<Rightarrow> dict list" where
  "reported_findings r =
     concat (map (\<lambda>c. List.map_filter full_finding (items (dget (sect (mapping_or_empty c) ''details'') ''findings'')))
       (items (dget r ''checks'')))"

definition reported_identities :: "dict \<Rightarrow> finding_key set" where
  "reported_identities r = finding_identity ` set (reported_findings r)"

text \<open>The first finding with an identity, and how many there are.\<close>

definition first_reported :: "dict \<Rightarrow> finding_key \<Rightarrow> dict" where
  "first_reported r k = the (find (\<lambda>f. finding_identity f = k) (reported_findings r))"

definition times_reported :: "dict \<Rightarrow> finding_key \<Rightarrow> nat" where
  "times_reported r k = length (filter (\<lambda>f. finding_identity f = k) (reported_findings r))"

definition severity_moved :: "dict \<Rightarrow> dict \<Rightarrow> finding_key \<Rightarrow> bool" where
  "severity_moved a b k \<longleftrightarrow> py_ne (dget (first_reported a k) ''severity'') (dget (first_reported b k) ''severity'')"

definition flat_of :: "dict \<Rightarrow> flat_findings" where
  "flat_of r = map (\<lambda>f. (finding_identity f, diff_finding_entry f)) (reported_findings r)"

lemma flat_finding_full: "flat_finding v = map_option (\<lambda>f. (finding_identity f, diff_finding_entry f)) (full_finding v)"
  by (cases v) (simp_all add: flat_finding_def full_finding_def)

lemma map_filter_map_option: "List.map_filter (\<lambda>v. map_option g (f v)) vs = map g (List.map_filter f vs)"
  by (induction vs) (simp_all add: List.map_filter_simps split: option.split)

lemma flatten_check_reported:
  assumes "flatten_check c = Inr flat"
  shows "flat = map (\<lambda>f. (finding_identity f, diff_finding_entry f))
    (List.map_filter full_finding (items (dget (sect (mapping_or_empty c) ''details'') ''findings'')))"
proof -
  from assms obtain check details where c: "c = JObj check" and det: "dget_or check ''details'' (JObj []) = JObj details"
    by (auto simp: flatten_check_def split: json.splits)
  have s: "sect check ''details'' = details"
    using det by (cases "map_of check ''details''") (auto simp: dget_or_def sect_def)
  have f: "items (dget details ''findings'') = items (dget_or details ''findings'' (JList []))"
    by (cases "map_of details ''findings''") (simp_all add: dget_or_def items_def)
  have "items (dget (sect (mapping_or_empty c) ''details'') ''findings'') = items (dget_or details ''findings'' (JList []))"
    by (simp add: c s f)
  moreover have "flat = (case dget_or details ''findings'' (JList []) of JList fs \<Rightarrow> List.map_filter flat_finding fs | _ \<Rightarrow> [])"
    using assms c det by (simp add: flatten_check_def split: json.splits)
  ultimately show ?thesis
    by (cases "dget_or details ''findings'' (JList [])")
      (simp_all add: items_def flat_finding_full [abs_def] map_filter_map_option List.map_filter_simps)
qed

lemma mapM_pointwise: "mapM f xs = Inr ys \<Longrightarrow> (\<And>x y. f x = Inr y \<Longrightarrow> y = g x) \<Longrightarrow> ys = map g xs"
  by (induction xs arbitrary: ys) (auto elim!: res_bindE res_mapE)

lemma flatten_reported: "flatten_report_findings r = Inr flat \<Longrightarrow> flat = flat_of r"
proof -
  assume "flatten_report_findings r = Inr flat"
  then obtain yss where m: "mapM flatten_check (checks_of r) = Inr yss" and flat: "flat = concat yss"
    unfolding flatten_report_findings_def by (elim res_mapE)
  have "checks_of r = items (dget r ''checks'')" by (simp add: checks_of_def items_def)
  with mapM_pointwise [OF m flatten_check_reported] flat show ?thesis
    by (simp add: flat_of_def reported_findings_def map_concat comp_def)
qed

lemma key_set_flat: "key_set (flat_of r) = reported_identities r"
  by (simp add: key_set_def flat_of_def reported_identities_def image_image)

lemma first_entry_flat: "k \<in> reported_identities r \<Longrightarrow> first_entry (flat_of r) k = diff_finding_entry (first_reported r k)"
proof -
  have "k \<in> finding_identity ` set fs \<Longrightarrow> \<exists>f. find (\<lambda>f. finding_identity f = k) fs = Some f
      \<and> map_of (map (\<lambda>f. (finding_identity f, diff_finding_entry f)) fs) k = Some (diff_finding_entry f)" for fs
    by (induction fs) auto
  then show "k \<in> reported_identities r \<Longrightarrow> first_entry (flat_of r) k = diff_finding_entry (first_reported r k)"
    unfolding reported_identities_def first_entry_def flat_of_def first_reported_def by fastforce
qed

lemma finding_count_flat: "finding_count (flat_of r) k = times_reported r k"
proof -
  have "count_list (map finding_identity fs) k = length (filter (\<lambda>f. finding_identity f = k) fs)" for fs by (induction fs) auto
  then show ?thesis by (simp add: finding_count_def flat_of_def times_reported_def comp_def)
qed

lemma entry_severity: "dget (diff_finding_entry f) ''severity'' = dget f ''severity''"
  by (simp add: diff_finding_entry_def dget_Cons)

lemma severity_differs_flat:
  "k \<in> reported_identities a \<inter> reported_identities b \<Longrightarrow> severity_differs (flat_of a) (flat_of b) k \<longleftrightarrow> severity_moved a b k"
  by (simp add: severity_differs_def severity_moved_def first_entry_flat entry_severity)

lemma finite_reported [simp]: "finite (reported_identities r)"
  by (simp add: reported_identities_def)

lemma length_filter_sorted: "finite K \<Longrightarrow> length (filter P (sorted_list_of_set K)) = card {k \<in> K. P k}"
proof -
  assume "finite K"
  then have "card (set (filter P (sorted_list_of_set K))) = length (filter P (sorted_list_of_set K))"
    by (intro distinct_card distinct_filter) simp
  with \<open>finite K\<close> show ?thesis by simp
qed

lemma sum_filter_sorted: "finite K \<Longrightarrow> sum_list (map g (filter P (sorted_list_of_set K))) = sum g {k \<in> K. P k}"
  by (subst sum_list_distinct_conv_sum_set) simp_all

lemma compared_findings:
  assumes "diff_loaded_reports a b = Inr d"
  shows "dget (sect d ''findings'') ''added'' =
      JList (map (\<lambda>k. JObj (diff_finding_entry (first_reported b k))) (sorted_list_of_set (reported_identities b - reported_identities a)))"
    and "dget (sect d ''findings'') ''resolved'' =
      JList (map (\<lambda>k. JObj (diff_finding_entry (first_reported a k))) (sorted_list_of_set (reported_identities a - reported_identities b)))"
    and "int_at (sect d ''summary'') ''severity_changes'' =
      int (card {k \<in> reported_identities a \<inter> reported_identities b. severity_moved a b k})"
    and "int_at (sect d ''summary'') ''unchanged_findings'' =
      int (\<Sum>k | k \<in> reported_identities a \<inter> reported_identities b \<and> \<not> severity_moved a b k. min (times_reported a k) (times_reported b k))"
    and "int_at (sect d ''summary'') ''added_findings'' = int (card (reported_identities b - reported_identities a))"
    and "int_at (sect d ''summary'') ''resolved_findings'' = int (card (reported_identities a - reported_identities b))"
proof -
  from assms obtain before after x y where "flatten_report_findings a = Inr before" "flatten_report_findings b = Inr after"
    and "d = diff_body a b before after x y" by (rule diff_parts)
  then have d: "d = diff_body a b (flat_of a) (flat_of b) x y" by (auto dest!: flatten_reported)
  have new: "findings_json (findings_at (flat_of r) (new_keys (flat_of q) (flat_of r))) =
      JList (map (\<lambda>k. JObj (diff_finding_entry (first_reported r k))) (sorted_list_of_set (reported_identities r - reported_identities q)))" for q r
    by (simp add: findings_json_def findings_at_def new_keys_def key_set_flat first_entry_flat)
  from new show "dget (sect d ''findings'') ''added'' =
      JList (map (\<lambda>k. JObj (diff_finding_entry (first_reported b k))) (sorted_list_of_set (reported_identities b - reported_identities a)))"
    "dget (sect d ''findings'') ''resolved'' =
      JList (map (\<lambda>k. JObj (diff_finding_entry (first_reported a k))) (sorted_list_of_set (reported_identities a - reported_identities b)))"
    by (simp_all add: d body_findings)
  let ?shared = "reported_identities a \<inter> reported_identities b"
  have moved: "filter (severity_differs (flat_of a) (flat_of b)) (sorted_list_of_set ?shared) = filter (severity_moved a b) (sorted_list_of_set ?shared)"
    "filter (\<lambda>k. \<not> severity_differs (flat_of a) (flat_of b) k) (sorted_list_of_set ?shared) = filter (\<lambda>k. \<not> severity_moved a b k) (sorted_list_of_set ?shared)"
    by (auto intro!: filter_cong simp: severity_differs_flat)
  show "int_at (sect d ''summary'') ''severity_changes'' = int (card {k \<in> ?shared. severity_moved a b k})"
    by (simp add: d body_summary severity_changes_def shared_keys_def key_set_flat moved length_filter_sorted)
  have "unchanged_count (flat_of a) (flat_of b) = (\<Sum>k | k \<in> ?shared \<and> \<not> severity_moved a b k. min (times_reported a k) (times_reported b k))"
    unfolding unchanged_count_def shared_keys_def key_set_flat moved finding_count_flat
    by (rule sum_filter_sorted) simp
  then show "int_at (sect d ''summary'') ''unchanged_findings'' =
      int (\<Sum>k | k \<in> ?shared \<and> \<not> severity_moved a b k. min (times_reported a k) (times_reported b k))"
    unfolding d body_summary by (rule arg_cong)
  show "int_at (sect d ''summary'') ''added_findings'' = int (card (reported_identities b - reported_identities a))"
    "int_at (sect d ''summary'') ''resolved_findings'' = int (card (reported_identities a - reported_identities b))"
    by (simp_all add: d body_summary new_keys_def key_set_flat)
qed

section \<open>When a comparison raises\<close>

definition null_details :: "json \<Rightarrow> bool" where
  "null_details c = (case c of JObj d \<Rightarrow> has_key d ''details'' \<and> dget d ''details'' = JNull | _ \<Rightarrow> False)"

lemma has_key_dget: "dget d k \<noteq> JNull \<Longrightarrow> has_key d k"
  using dget_absent [of d k JNull] by blast

lemma dget_or_missing: "has_key d k \<or> x = JNull \<Longrightarrow> dget_or d k x = dget d k"
  by (cases "map_of d k") (auto simp: dget_or_def has_key_def keys_def map_of_eq_None_iff)

lemma is_null_eq: "is_null v \<longleftrightarrow> v = JNull"
  by (cases v) simp_all

lemma valid_check_obj:
  "valid_check c \<longleftrightarrow> (\<exists>d. c = JObj d \<and> is_str (dget d ''name'') \<and> is_status (dget d ''status'')
     \<and> (dget d ''details'' = JNull \<or> is_obj (dget d ''details'')))"
  by (cases c) (simp_all add: valid_check_def is_null_eq)

lemma valid_check_flattens: "valid_check c \<Longrightarrow> returns (flatten_check c) \<longleftrightarrow> \<not> null_details c"
proof -
  assume v: "valid_check c"
  then obtain d where c: "c = JObj d" and det: "dget d ''details'' = JNull \<or> is_obj (dget d ''details'')"
    unfolding valid_check_obj by (elim exE conjE)
  show ?thesis
  proof (cases "has_key d ''details''")
    case True
    then have get: "dget_or d ''details'' (JObj []) = dget d ''details''" using dget_or_missing by blast
    from det show ?thesis
    proof
      assume "dget d ''details'' = JNull"
      with True show ?thesis by (simp add: c flatten_check_def null_details_def get)
    next
      assume "is_obj (dget d ''details'')"
      then obtain e where "dget d ''details'' = JObj e" by (elim is_obj.elims)
      then show ?thesis by (simp add: c flatten_check_def null_details_def get split: json.split)
    qed
  next
    case False
    then show ?thesis by (simp add: c flatten_check_def null_details_def dget_absent)
  qed
qed

lemma validated_fields:
  assumes "validate_loaded_report p = Inr r"
  shows "p = JObj r" and "list_all valid_check (checks_of r)" and "has_key r ''overall_status''" and "has_key r ''summary''"
proof -
  from assms obtain d where p: "p = JObj d" by (auto simp: validate_loaded_report_def split: json.splits)
  from assms p have "r = d \<and> is_status (dget d ''overall_status'') \<and> (\<exists>s. dget d ''summary'' = JObj s)
      \<and> (\<exists>xs. dget d ''checks'' = JList xs \<and> list_all valid_check xs)"
    by (auto simp: validate_loaded_report_def split: if_splits json.splits)
  then show "p = JObj r" "list_all valid_check (checks_of r)" "has_key r ''overall_status''" "has_key r ''summary''"
    using p by (auto simp: checks_of_def is_status_def intro!: has_key_dget)
qed

lemma validated_flattens:
  assumes "validate_loaded_report p = Inr r"
  shows "returns (flatten_report_findings r) \<longleftrightarrow> (\<forall>c\<in>set (checks_of r). \<not> null_details c)"
  using validated_fields(2) [OF assms] valid_check_flattens
  by (auto simp: flatten_report_findings_def mapM_returns_iff list_all_iff)

lemma validated_head:
  assumes "validate_loaded_report p = Inr r"
  shows "returns (report_head r) \<longleftrightarrow> has_key r ''repo_path''"
  using validated_fields(3,4) [OF assms] by (simp add: report_head_def need_def)

section \<open>Properties\<close>

text \<open>A report does not differ from itself: nothing is added or resolved, no severity and no status
  changes, and every finding is counted as unchanged.\<close>

theorem report_equals_itself:
  assumes "diff_loaded_reports r r = Inr d" and "json_wf (JObj r)"
  shows "(\<forall>k\<in>{''added'', ''resolved'', ''severity_changes''}. dget (sect d ''findings'') k = JList [])
      \<and> dget d ''status_changes'' = JList [] \<and> dget (sect d ''overall_status'') ''changed'' = JBool False
      \<and> res_map (\<lambda>flat. int (length flat)) (flatten_report_findings r) = Inr (int_at (sect d ''summary'') ''unchanged_findings'')"
proof -
  from assms(1) obtain before after x y where f: "flatten_report_findings r = Inr before" "flatten_report_findings r = Inr after"
    and d: "d = diff_body r r before after x y" by (rule diff_parts)
  then have after: "after = before" by simp
  have same: "\<forall>k\<in>set (shared_keys before before). \<not> severity_differs before before k"
    using severity_same [OF f(1) assms(2)] by (simp add: set_shared_keys)
  then have none: "severity_changes before before = []" by (simp add: severity_changes_def filter_empty_conv)
  then have "\<forall>k\<in>{''added'', ''resolved'', ''severity_changes''}. dget (sect d ''findings'') k = JList []"
    by (simp add: d after body_findings findings_json_def findings_at_def)
  moreover have "unchanged_count before before = length before"
    using same sum_counts [of before] by (simp add: unchanged_count_def shared_keys_def filter_True)
  moreover have "\<not> py_ne (dget r ''overall_status'') (dget r ''overall_status'')"
    using py_eq_refl [OF wf_dget [OF assms(2)]] by (simp add: py_ne_def)
  ultimately show ?thesis
    by (simp add: d after body_findings body_changed body_summary findings_json_def f(1))
qed

text \<open>Comparing in the other direction exchanges added and resolved, and both directions count the same
  findings as unchanged.\<close>

theorem comparison_reverses:
  assumes "diff_loaded_reports a b = Inr d" and "diff_loaded_reports b a = Inr e"
  shows "dget (sect e ''findings'') ''added'' = dget (sect d ''findings'') ''resolved''
    \<and> dget (sect e ''findings'') ''resolved'' = dget (sect d ''findings'') ''added''
    \<and> int_at (sect e ''summary'') ''added_findings'' = int_at (sect d ''summary'') ''resolved_findings''"
proof -
  from assms(1) obtain before after x y where f: "flatten_report_findings a = Inr before" "flatten_report_findings b = Inr after"
    and d: "d = diff_body a b before after x y" by (rule diff_parts)
  from assms(2) obtain before' after' x' y' where "flatten_report_findings b = Inr before'" "flatten_report_findings a = Inr after'"
    and e: "e = diff_body b a before' after' x' y'" by (rule diff_parts)
  with f have "before' = after" "after' = before" by simp_all
  then show ?thesis by (simp add: d e body_findings body_summary)
qed

text \<open>C28: The comparison of two reports in terms of the findings they list, a finding being an object with the
  five required keys: added are the identities that only the second report has, resolved those that
  only the first has, in order and each with the entry of its first finding; of the identities
  that both have, the ones whose first findings differ in severity are counted as severity changes,
  and for the others the smaller number of occurrences is counted as unchanged.\<close>

theorem comparison_accounts_for_findings:
  assumes "diff_loaded_reports a b = Inr d"
  shows "dget (sect d ''findings'') ''added'' =
      JList (map (\<lambda>k. JObj (diff_finding_entry (first_reported b k))) (sorted_list_of_set (reported_identities b - reported_identities a)))
    \<and> dget (sect d ''findings'') ''resolved'' =
      JList (map (\<lambda>k. JObj (diff_finding_entry (first_reported a k))) (sorted_list_of_set (reported_identities a - reported_identities b)))
    \<and> int_at (sect d ''summary'') ''added_findings'' = int (card (reported_identities b - reported_identities a))
    \<and> int_at (sect d ''summary'') ''resolved_findings'' = int (card (reported_identities a - reported_identities b))
    \<and> int_at (sect d ''summary'') ''severity_changes'' =
      int (card {k \<in> reported_identities a \<inter> reported_identities b. severity_moved a b k})
    \<and> int_at (sect d ''summary'') ''unchanged_findings'' =
      int (\<Sum>k | k \<in> reported_identities a \<inter> reported_identities b \<and> \<not> severity_moved a b k. min (times_reported a k) (times_reported b k))"
  using compared_findings [OF assms] by (intro conjI)

text \<open>C26: The validation of a loaded report does not make it comparable: the comparison of two validated
  reports returns exactly when both name their \<open>repo_path\<close> and no check has null details.\<close>

theorem validated_comparison_returns_iff:
  assumes "validate_loaded_report p = Inr a" and "validate_loaded_report q = Inr b"
  shows "returns (diff_loaded_reports a b) \<longleftrightarrow>
    (\<forall>r\<in>{a, b}. has_key r ''repo_path'' \<and> (\<forall>c\<in>set (checks_of r). \<not> null_details c))"
  using validated_flattens [OF assms(1)] validated_flattens [OF assms(2)]
    validated_head [OF assms(1)] validated_head [OF assms(2)]
  unfolding diff_loaded_reports_def returns_bind_iff returns_map_iff returns_iff [of "flatten_report_findings _"]
    returns_iff [of "report_head a"] by auto

section \<open>What a passed release check means\<close>

lemma release_overall: "dget (release_report p cs) ''overall_status'' = JStr (overall_status_of cs)"
  by (simp add: release_report_def build_report_def dget_Cons)

lemma overall_pass_iff: "overall_status_of cs = status_pass \<longleftrightarrow> (\<forall>c\<in>set cs. cr_status c \<noteq> status_block \<and> cr_status c \<noteq> status_warn)"
  using status_count_zero [of status_block cs] status_count_zero [of status_warn cs]
  by (auto simp: overall_status_of_def status_block_def status_warn_def status_pass_def)

lemma overall_known: "overall_status_of cs \<in> set runtime_status_values"
  by (simp add: overall_status_of_def runtime_status_values_def)

lemma report_check_built:
  "report_check (build_report p cs) name =
     (case find (\<lambda>c. cr_name c = name) cs of Some c \<Rightarrow> Inr (check_dict c) | None \<Rightarrow> Inl ValueError)"
proof -
  have "find (\<lambda>d. dget d ''name'' = JStr name) (map check_dict cs) = map_option check_dict (find (\<lambda>c. cr_name c = name) cs)"
    by (induction cs) (simp_all add: check_name)
  then show ?thesis unfolding report_check_def report_checks_built by (simp split: option.split)
qed

lemma inventory_count_zero: "inventory_count s policy = 0 \<longleftrightarrow> (\<forall>e\<in>set (pc_allow_inventory policy). ai_status e \<noteq> s)"
  by (auto simp: inventory_count_def filter_empty_conv)

text \<open>Everything that a baseline says about the findings of a scan.\<close>

definition covered_by_baseline :: "dict \<Rightarrow> dict \<Rightarrow> bool" where
  "covered_by_baseline baseline_report scan_report \<longleftrightarrow>
     (\<exists>before after. flatten_report_findings baseline_report = Inr before \<and> flatten_report_findings scan_report = Inr after
        \<and> key_set after \<subseteq> key_set before \<and> (\<forall>k\<in>key_set after. \<not> severity_differs before after k))"

lemma quiet_diff_covers:
  assumes "diff_loaded_reports a b = Inr d" and "fst (release_diff_status d) \<noteq> status_warn"
  shows "covered_by_baseline a b"
proof -
  from assms(1) obtain before after x y where f: "flatten_report_findings a = Inr before" "flatten_report_findings b = Inr after"
    and d: "d = diff_body a b before after x y" by (rule diff_parts)
  from assms(2) have "int_at (sect d ''summary'') ''added_findings'' \<le> 0" "int_at (sect d ''summary'') ''severity_changes'' \<le> 0"
    by (auto simp: release_diff_status_def Let_def split: if_splits)
  then have new: "new_keys before after = []" and sev: "severity_changes before after = []"
    by (simp_all add: d body_summary)
  from new have sub: "key_set after \<subseteq> key_set before" unfolding new_keys_Nil .
  from sev have "\<forall>k\<in>set (shared_keys before after). \<not> severity_differs before after k"
    by (simp add: severity_changes_def filter_empty_conv)
  with sub have "\<forall>k\<in>key_set after. \<not> severity_differs before after k" by (auto simp: set_shared_keys)
  with f sub show ?thesis unfolding covered_by_baseline_def by blast
qed

lemma quiet_diff_check:
  assumes "report_diff_check (Some file) scan = Inr c" and "cr_status c \<noteq> status_warn"
  shows "\<exists>b. res_bind file validate_loaded_report = Inr b \<and> covered_by_baseline b scan"
proof -
  from assms(1) obtain b d where b: "res_bind file validate_loaded_report = Inr b" and d: "diff_loaded_reports b scan = Inr d"
    and c: "cr_status c = fst (release_diff_status d)"
    unfolding report_diff_check_def by (auto simp: Let_def split: prod.splits elim!: res_bindE [of "res_bind file validate_loaded_report"] res_mapE)
  from quiet_diff_covers [OF d] assms(2) c b show ?thesis by auto
qed

text \<open>C13: A release check that passes has scanned the source with the public checks and found nothing to
  review, the policy has no issue, every allow is active, and every finding of the scan is in the
  baseline, when there is one, with the severity it has now.\<close>

theorem passed_release_is_quiet:
  assumes "release_check env_of root_env o' intake baseline = Inr r" and "dget r ''overall_status'' = JStr ''pass''"
  shows "\<exists>scan policy. diagnose_source env_of (o'\<lparr>do_public_safety := True\<rparr>) intake = Inr scan
    \<and> dget scan ''overall_status'' = JStr ''pass'' \<and> env_policy root_env o' = Inr policy
    \<and> pc_issues policy = [] \<and> (\<forall>e\<in>set (pc_allow_inventory policy). ai_status e = allow_active)
    \<and> (\<forall>loaded. baseline = Some loaded \<longrightarrow> (\<exists>b. res_bind loaded validate_loaded_report = Inr b \<and> covered_by_baseline b scan))"
proof -
  from assms(1) obtain scan pr ar pc inv df where scan: "diagnose_source env_of (o'\<lparr>do_public_safety := True\<rparr>) intake = Inr scan"
    and pr: "validate_policy root_env o' = Inr pr" and ar: "list_policy_allows root_env o' None None = Inr ar"
    and pc: "report_check pr ''policy'' = Inr pc" and inv: "report_check ar ''policy_allow_inventory'' = Inr inv"
    and df: "report_diff_check baseline scan = Inr df"
    and r: "r = release_report (de_repo_path root_env) [repo_scan_check scan, policy_validation_check pr pc, allow_inventory_check inv, df]"
    unfolding release_check_def by (elim res_bindE res_mapE)
  from assms(2) have quiet: "overall_status_of [repo_scan_check scan, policy_validation_check pr pc, allow_inventory_check inv, df] = status_pass"
    unfolding r release_overall by (simp add: status_pass_def)
  from pr obtain policy where policy: "env_policy root_env o' = Inr policy" and pr': "pr = build_report (de_repo_path root_env) [policy_check policy]"
    unfolding validate_policy_def by (elim res_mapE)
  from ar policy have ar': "ar = build_report (de_repo_path root_env)
      [policy_check policy, policy_allow_inventory_check_with_filter policy None None]" by (simp add: list_policy_allows_def)
  from pc have pc': "pc = check_dict (policy_check policy)" unfolding pr' report_check_built by (simp add: policy_check_def)
  from inv have inv': "inv = check_dict (policy_allow_inventory_check_with_filter policy None None)"
    unfolding ar' report_check_built by (simp add: policy_check_def policy_allow_inventory_check_with_filter_def Let_def)
  have "cr_status (policy_validation_check pr pc) = cr_status (policy_check policy)"
    by (simp add: policy_validation_check_def Let_def pc' check_status str_of_def)
  with quiet have issues: "pc_issues policy = []"
    unfolding overall_pass_iff by (auto simp: policy_check_def split: if_splits)
  have "cr_status (allow_inventory_check inv) = cr_status (policy_allow_inventory_check_with_filter policy None None)"
    by (simp add: allow_inventory_check_def Let_def inv' check_status str_of_def)
  with quiet have "inventory_count allow_expired policy = 0" "inventory_count allow_expiring_soon policy = 0"
    unfolding overall_pass_iff by (auto simp: policy_allow_inventory_check_with_filter_def Let_def split: if_splits)
  with env_policy_sound [OF policy] have active: "\<forall>e\<in>set (pc_allow_inventory policy). ai_status e = allow_active"
    unfolding inventory_count_zero policy_sound_def by blast
  obtain p cs where "scan = build_report p cs"
    using scan unfolding diagnose_source_def diagnose_snapshot_def
    by (elim res_bindE) (auto split: option.splits elim!: diagnose_repoE)
  then have "cr_status (repo_scan_check scan) = overall_status_of cs" "dget scan ''overall_status'' = JStr (overall_status_of cs)"
    by (simp_all add: repo_scan_check_def Let_def report_fields str_of_def)
  with quiet overall_known [of cs] have "dget scan ''overall_status'' = JStr ''pass''"
    unfolding overall_pass_iff by (auto simp: runtime_status_values_def status_pass_def)
  moreover have "\<exists>b. res_bind loaded validate_loaded_report = Inr b \<and> covered_by_baseline b scan" if "baseline = Some loaded" for loaded
    using quiet_diff_check [OF df [unfolded that]] quiet unfolding overall_pass_iff by simp
  ultimately show ?thesis using scan policy issues active by blast
qed

section \<open>Samples\<close>

definition missing_readme_report :: dict where
  "missing_readme_report = build_report ''.''
     [repository_presence_check ''readme'' [] rule_id_missing_readme ''missing_readme'' ''README found.'' ''README is missing.'']"

definition empty_report :: dict where "empty_report = build_report ''.'' []"

lemma sample_comparisons:
  "returns (diff_loaded_reports missing_readme_report missing_readme_report)"
  "returns (diff_loaded_reports empty_report missing_readme_report)"
  "returns (diff_loaded_reports missing_readme_report empty_report)"
  "json_wf (JObj missing_readme_report)"
  by code_simp+

theorem report_equals_itself_witness:
  "\<exists>d. diff_loaded_reports missing_readme_report missing_readme_report = Inr d
     \<and> dget (sect d ''findings'') ''added'' = JList [] \<and> dget d ''status_changes'' = JList []"
proof -
  from sample_comparisons(1) obtain d where d: "diff_loaded_reports missing_readme_report missing_readme_report = Inr d"
    unfolding returns_iff ..
  from report_equals_itself [OF d sample_comparisons(4)] d show ?thesis by blast
qed

theorem comparison_reverses_witness:
  "\<exists>d e. diff_loaded_reports empty_report missing_readme_report = Inr d
     \<and> diff_loaded_reports missing_readme_report empty_report = Inr e
     \<and> dget (sect e ''findings'') ''resolved'' = dget (sect d ''findings'') ''added''"
proof -
  from sample_comparisons(2,3) obtain d e where "diff_loaded_reports empty_report missing_readme_report = Inr d"
    "diff_loaded_reports missing_readme_report empty_report = Inr e" unfolding returns_iff by blast
  with comparison_reverses [OF this] show ?thesis by blast
qed

theorem comparison_accounts_for_findings_witness:
  "\<exists>d. diff_loaded_reports empty_report missing_readme_report = Inr d
     \<and> int_at (sect d ''summary'') ''added_findings'' = 1 \<and> dget (sect d ''findings'') ''resolved'' = JList []"
proof -
  from sample_comparisons(2) obtain d where d: "diff_loaded_reports empty_report missing_readme_report = Inr d"
    unfolding returns_iff ..
  have "reported_findings empty_report = []" "length (reported_findings missing_readme_report) = 1" by code_simp+
  then have "reported_identities empty_report = {}" "card (reported_identities missing_readme_report) = 1"
    by (auto simp: reported_identities_def length_Suc_conv)
  with comparison_accounts_for_findings [OF d] d show ?thesis by simp
qed

text \<open>A report that is validated and cannot be compared.\<close>

definition null_details_report :: dict where
  "null_details_report =
     [(''tool'', JStr ''repo-health-doctor''), (''schema_version'', JStr ''1.1''), (''repo_path'', JStr ''.''),
      (''overall_status'', JStr ''pass''),
      (''summary'', JObj [(''pass'', JInt 1), (''warn'', JInt 0), (''block'', JInt 0)]),
      (''checks'', JList [JObj [(''name'', JStr ''docs''), (''status'', JStr ''pass''), (''details'', JNull)]])]"

theorem validated_comparison_returns_iff_witness:
  "validate_loaded_report (JObj null_details_report) = Inr null_details_report
     \<and> \<not> returns (diff_loaded_reports null_details_report null_details_report)"
proof -
  have v: "validate_loaded_report (JObj null_details_report) = Inr null_details_report" by code_simp
  have "list_ex null_details (checks_of null_details_report)" by code_simp
  with validated_comparison_returns_iff [OF v v] v show ?thesis unfolding list_ex_iff by blast
qed

definition clean_answers :: repo_answers where
  "clean_answers =
     \<lparr>ra_exists = (\<lambda>p. p \<in> {''README.md'', ''LICENSE'', ''.gitignore''}), ra_is_dir = (\<lambda>p. p \<in> {''tests'', ''docs'', ''scripts''}),
      ra_workflows = Some [(''ci.yml'', True)], ra_is_file = (\<lambda>_. False), ra_is_symlink = (\<lambda>_. False),
      ra_sample = (\<lambda>_. None), ra_size = (\<lambda>_. None), ra_text = (\<lambda>_. None)\<rparr>"

definition clean_env :: doctor_env where
  "clean_env = \<lparr>de_answers = clean_answers, de_policy_files = (\<lambda>_. None), de_parsers = yaml_parsers, de_today = 739617,
     de_repo_path = ''.''\<rparr>"

definition clean_snapshot :: verified_snapshot where
  "clean_snapshot =
     \<lparr>vs_schema_version = ''1.0'', vs_snapshot_id = ''s'', vs_source_identity = ''r'', vs_source_kind = ''filesystem'',
      vs_source_commit = None, vs_source_tree = None, vs_manifest_fingerprint = ''f'', vs_file_count = 0, vs_total_bytes = 0,
      vs_copied_at = ''t'', vs_copy_policy_version = ''p'', vs_budget_policy = [], vs_integrity_status = ''verified'',
      vs_limitations = [], vs_refusal_reasons = [], vs_manifest = [], vs_tracked_paths = [''README.md'']\<rparr>"

definition clean_workspace :: workspace where
  "clean_workspace = (new_workspace small_budget)\<lparr>dw_snapshot := Some clean_snapshot\<rparr>"

text \<open>The baseline is the report of an earlier run on the same repository.\<close>

definition clean_baseline :: json where
  "clean_baseline = (case diagnose_source (\<lambda>_. clean_env) default_options (Inr clean_workspace) of
     Inr r \<Rightarrow> JObj r | Inl e \<Rightarrow> JNull)"

lemma clean_release:
  "returning (\<lambda>r. dget r ''overall_status'' = JStr ''pass'')
     (release_check (\<lambda>_. clean_env) clean_env default_options (Inr clean_workspace) (Some (Inr clean_baseline)))"
  by code_simp

theorem passed_release_is_quiet_witness:
  "\<exists>r policy. release_check (\<lambda>_. clean_env) clean_env default_options (Inr clean_workspace)
       (Some (Inr clean_baseline)) = Inr r
     \<and> env_policy clean_env default_options = Inr policy \<and> pc_issues policy = []"
proof -
  from clean_release obtain r where r: "release_check (\<lambda>_. clean_env) clean_env default_options (Inr clean_workspace)
       (Some (Inr clean_baseline)) = Inr r" and pass: "dget r ''overall_status'' = JStr ''pass''"
    by (rule returningE)
  from passed_release_is_quiet [OF r pass] r show ?thesis by blast
qed

end
