(* ===== verification/Authorization.thy ===== *)
theory Authorization
  imports Evidence_Check Py_Time
begin

text \<open>
  gate/authorization.py and sandbox/image_binding.py: the separate, human-controlled artifact
  that authorizes one execution.  The validator compares it with the gate decision (by
  fingerprint), the argv, the scope, the policy version, the expiry and, from schema 0.2 on, the
  container image; from schema 0.3 on it is bound to a verified snapshot.  A draft of the
  artifact is never approved.  Strings taken from the running system (image ids, the observed
  commit) are arguments.
\<close>

section \<open>Image references\<close>

definition image_char :: "char \<Rightarrow> bool" where
  "image_char c \<longleftrightarrow> is_digit c \<or> is_lower_ascii c \<or> c \<in> set ''./:_-''"

definition image_reference_rx :: rx where
  "image_reference_rx = cats
     [Cls (\<lambda>c. is_digit c \<or> is_lower_ascii c), rx_upto 255 (Cls image_char), lit ''@sha256:'',
      rx_times 64 (Cls is_hex_lower)]"

definition is_digest_pinned_authorization_reference :: "json \<Rightarrow> bool" where
  "is_digest_pinned_authorization_reference v =
     (case v of JStr s \<Rightarrow> rx_fullmatch image_reference_rx s | _ \<Rightarrow> False)"

definition is_safe_docker_image_token :: "json \<Rightarrow> bool" where
  "is_safe_docker_image_token v =
     (case v of
        JStr s \<Rightarrow> s \<noteq> [] \<and> \<not> starts_with s ''-''
          \<and> \<not> list_ex (\<lambda>c. is_space c \<or> code c < 32 \<or> code c = 127) s
      | _ \<Rightarrow> False)"

definition is_full_local_image_id :: "json \<Rightarrow> bool" where
  "is_full_local_image_id v = (case v of JStr s \<Rightarrow> rx_fullmatch sha256_rx s | _ \<Rightarrow> False)"

section \<open>Vocabulary\<close>

definition authorization_kind :: string where
  "authorization_kind = ''repo_health_execution_authorization''"

definition legacy_authorization_schema_version :: string where
  "legacy_authorization_schema_version = ''0.1-draft''"

definition image_bound_authorization_schema_version :: string where
  "image_bound_authorization_schema_version = ''0.2-draft''"

definition authorization_schema_version :: string where
  "authorization_schema_version = ''0.3-draft''"

definition authorization_schema_versions :: "string list" where
  "authorization_schema_versions =
     [legacy_authorization_schema_version, image_bound_authorization_schema_version,
      authorization_schema_version]"

definition base_top_level_fields :: "string list" where
  "base_top_level_fields =
     [''authorization_kind'', ''schema_version'', ''approved'', ''approved_by'', ''approved_at'',
      ''expires_at'', ''approved_scope'', ''approved_argv'', ''approved_policy_version'',
      ''based_on_gate_decision'', ''subject'', ''limitations'', ''residual_risks'']"

definition approved_image_fields :: "string list" where
  "approved_image_fields = [''requested_reference'', ''resolved_image_id'']"

text \<open>\<open>TOP_LEVEL_FIELDS_BY_VERSION.get(version, BASE_TOP_LEVEL_FIELDS)\<close>; a version that cannot
  be hashed raises.\<close>

definition top_level_fields_by_version :: "json \<Rightarrow> string list res" where
  "top_level_fields_by_version version =
     res_map (\<lambda>image_bound. base_top_level_fields @ (if image_bound then [''approved_image''] else []))
       (in_strs version [image_bound_authorization_schema_version, authorization_schema_version])"

definition based_on_fields :: "string list" where
  "based_on_fields = [''decision_kind'', ''schema_version'', ''verdict'', ''fingerprint'']"

definition authorization_legacy_subject_fields :: "string list" where
  "authorization_legacy_subject_fields = [''repo'', ''commit'', ''tree_hash'']"

definition authorization_subject_fields :: "string list" where
  "authorization_subject_fields =
     [''repo'', ''commit'', ''tree_hash'', ''snapshot_id'', ''manifest_fingerprint'']"

definition disallowed_gate_verdicts :: "string list" where
  "disallowed_gate_verdicts = [''block'', ''quarantine'', ''unknown'']"

definition forbidden_patterns :: "string list" where
  "forbidden_patterns =
     [''/home/'', ''/Users/'', ''C:'' @ [CHR 92] @ ''Users'' @ [CHR 92], ''.ssh'', ''.aws'', ''.npmrc'',
      ''.pypirc'', ''.netrc'', ''BEGIN OPENSSH PRIVATE KEY'', ''BEGIN RSA PRIVATE KEY'', ''AKIA'',
      ''ghp_'', ''github_pat_'', ''xoxb-'', ''-----BEGIN'', ''password='', ''token='']"

text \<open>\<open>(?<![A-Za-z0-9_-])sk-[A-Za-z0-9_-]{8,}(?![A-Za-z0-9_-])\<close>.  A run of token characters can
  always be extended to its end, where the look-ahead holds, so the last part of the pattern
  never decides.\<close>

definition token_char :: "char \<Rightarrow> bool" where
  "token_char c \<longleftrightarrow> is_ascii_alnum c \<or> c = CHR ''_'' \<or> c = CHR ''-''"

definition secret_key_body :: rx where
  "secret_key_body = Cat (lit ''sk-'') (rx_times 8 (Cls token_char))"

definition forbidden_token_patterns :: "string \<Rightarrow> bool" where
  "forbidden_token_patterns s \<longleftrightarrow>
     rx_match secret_key_body s \<or> rx_search (Cat (Cls (\<lambda>c. \<not> token_char c)) secret_key_body) s"

definition forbidden_text :: "string \<Rightarrow> bool" where
  "forbidden_text s \<longleftrightarrow> list_ex (\<lambda>p. str_in p s) forbidden_patterns \<or> forbidden_token_patterns s"

definition contains_forbidden_pattern :: "json \<Rightarrow> bool" where
  "contains_forbidden_pattern = any_string forbidden_text"

section \<open>What the gate decision determines\<close>

definition gate_subject_of :: "dict \<Rightarrow> dict" where
  "gate_subject_of gate =
     (let subject = sect gate ''subject'' in
      [(''repo'', JStr (py_str (dget_or subject ''repo'' (JStr ''<repo>'')))),
       (''commit'', str_or_null (dget subject ''commit'')),
       (''tree_hash'', str_or_null (dget subject ''tree_hash'')),
       (''snapshot_id'', str_or_null (dget subject ''snapshot_id'')),
       (''manifest_fingerprint'', str_or_null (dget subject ''manifest_fingerprint'')),
       (''binding_kind'', JStr (py_str (dget_or subject ''binding_kind'' (JStr ''unbound''))))])"

definition legacy_gate_subject :: "dict \<Rightarrow> dict" where
  "legacy_gate_subject subject =
     map (\<lambda>k. (k, dget subject k)) [''repo'', ''commit'', ''tree_hash'', ''binding_kind'']"

definition gate_decision_fingerprint :: "dict \<Rightarrow> string" where
  "gate_decision_fingerprint gate = canonical_fingerprint (JObj gate)"

definition gate_reference :: "dict \<Rightarrow> dict" where
  "gate_reference gate =
     [(''decision_kind'', dget gate ''decision_kind''), (''schema_version'', dget gate ''schema_version''),
      (''verdict'', dget gate ''verdict''), (''fingerprint'', JStr (gate_decision_fingerprint gate))]"

definition gate_policy_version :: "dict \<Rightarrow> json" where
  "gate_policy_version gate = str_or_null (dget (sect gate ''policy'') ''policy_version'')"

section \<open>Drafts\<close>

definition draft_limitations :: "string option \<Rightarrow> dict option \<Rightarrow> string list" where
  "draft_limitations expires_at approved_image =
     [''draft_only_not_approved'', ''not_execution_authorization_until_human_approved'',
      ''argv_scope_policy_and_gate_decision_must_match_exactly'']
     @ (if expires_at = None \<or> expires_at = Some [] then [''expires_at_must_be_set_before_approval''] else [])
     @ (if approved_image = None then [''authorization_not_image_bound''] else [])"

definition build_execution_authorization_draft ::
  "dict \<Rightarrow> string list \<Rightarrow> string option \<Rightarrow> dict option \<Rightarrow> dict" where
  "build_execution_authorization_draft gate argv expires_at approved_image =
     (let subject = gate_subject_of gate in
      [(''authorization_kind'', JStr authorization_kind),
       (''schema_version'', JStr authorization_schema_version),
       (''approved'', JBool False), (''approved_by'', JNull), (''approved_at'', JNull),
       (''expires_at'', str_json expires_at),
       (''approved_scope'', JObj subject),
       (''approved_argv'', jstrs argv),
       (''approved_policy_version'', gate_policy_version gate),
       (''based_on_gate_decision'', JObj (gate_reference gate)),
       (''subject'', JObj (map (\<lambda>k. (k, dget subject k)) authorization_subject_fields)),
       (''limitations'', jstrs (draft_limitations expires_at approved_image)),
       (''residual_risks'', jstrs [''human approval required before execution'',
          ''authorization is only valid for the exact reviewed command and scope''])]
      @ (case approved_image of None \<Rightarrow> [] | Some im \<Rightarrow> [(''approved_image'', JObj im)]))"

section \<open>Validation\<close>

text \<open>What the caller knows about the execution at hand: the clock, the runtime image and the
  snapshot it is about to run.\<close>

record execution_facts =
  xf_now :: datetime
  xf_image_reference :: "string option"
  xf_image_id :: "string option"
  xf_repository_identity :: "string option"
  xf_commit :: "string option"
  xf_tree :: "string option"
  xf_snapshot_id :: "string option"
  xf_manifest_fingerprint :: "string option"

record authorization_result =
  az_valid :: bool
  az_approved :: bool
  az_execution_authorized :: bool
  az_blocking_errors :: "string list"
  az_warnings :: "string list"
  az_scope_matches :: bool
  az_argv_matches :: bool
  az_policy_matches :: bool
  az_not_expired :: bool
  az_based_on_matches :: bool
  az_image_binding_present :: bool
  az_image_reference_matches :: bool
  az_image_id_matches :: bool
  az_snapshot_binding_present :: bool
  az_snapshot_id_matches :: bool
  az_manifest_matches :: bool
  az_limitations :: "string list"
  az_residual_risks :: "string list"

definition authorization_result_to_dict :: "authorization_result \<Rightarrow> dict" where
  "authorization_result_to_dict r =
     [(''valid'', JBool (az_valid r)), (''approved'', JBool (az_approved r)),
      (''execution_authorized'', JBool (az_execution_authorized r)),
      (''blocking_errors'', jstrs (az_blocking_errors r)), (''warnings'', jstrs (az_warnings r)),
      (''scope_matches'', JBool (az_scope_matches r)), (''argv_matches'', JBool (az_argv_matches r)),
      (''policy_matches'', JBool (az_policy_matches r)), (''not_expired'', JBool (az_not_expired r)),
      (''based_on_gate_decision_matches'', JBool (az_based_on_matches r)),
      (''image_binding_present'', JBool (az_image_binding_present r)),
      (''image_reference_matches'', JBool (az_image_reference_matches r)),
      (''image_id_matches'', JBool (az_image_id_matches r)),
      (''snapshot_binding_present'', JBool (az_snapshot_binding_present r)),
      (''snapshot_id_matches'', JBool (az_snapshot_id_matches r)),
      (''manifest_fingerprint_matches'', JBool (az_manifest_matches r)),
      (''limitations'', jstrs (az_limitations r)), (''residual_risks'', jstrs (az_residual_risks r))]"

text \<open>The expiry: the messages, and whether the authorization is still good.\<close>

definition not_expired :: "json \<Rightarrow> datetime \<Rightarrow> string list \<times> bool" where
  "not_expired v now =
     (if \<not> nonempty_str v then ([''expires_at_required''], False)
      else (case opt_str v of
              None \<Rightarrow> ([''expires_at_required''], False)
            | Some s \<Rightarrow>
                (case fromisoformat (zulu s) of
                   None \<Rightarrow> ([''expires_at_invalid''], False)
                 | Some expires \<Rightarrow>
                     if instant expires \<le> instant now then ([''authorization_expired''], False)
                     else ([], True))))"

definition approved_metadata_checks :: "dict \<Rightarrow> string list res list" where
  "approved_metadata_checks authorization =
     (if is_true (dget authorization ''approved'')
      then [fail_if (\<not> nonempty_str (dget authorization ''approved_by'')) ''approved_by_required'',
            (if \<not> nonempty_str (dget authorization ''approved_at'') then Inr [''approved_at_required'']
             else (case opt_str (dget authorization ''approved_at'') of
                     None \<Rightarrow> Inr [] | Some s \<Rightarrow> fail_if (fromisoformat (zulu s) = None) ''approved_at_invalid''))]
      else [])"

text \<open>The image: the messages, whether the reference and the id match.\<close>

definition validate_image_binding :: "json \<Rightarrow> execution_facts \<Rightarrow> string list \<times> bool \<times> bool" where
  "validate_image_binding approved_image facts =
     (case approved_image of
        JObj im \<Rightarrow>
          if \<not> keys_eq im approved_image_fields
          then ([''authorization_approved_image_invalid''], False, False)
          else
            (let requested = dget im ''requested_reference''; resolved = dget im ''resolved_image_id'';
                 reference_matches = is_str requested \<and> py_eq (str_json (xf_image_reference facts)) requested;
                 runtime_resolved = xf_image_id facts \<noteq> None \<and> is_full_local_image_id (str_json (xf_image_id facts));
                 id_matches = runtime_resolved \<and> py_eq (str_json (xf_image_id facts)) resolved in
             ((if is_digest_pinned_authorization_reference requested then [] else [''approved_image_digest_unpinned''])
              @ (if reference_matches then [] else [''approved_image_reference_mismatch''])
              @ (if \<not> runtime_resolved then [''runtime_image_id_unresolved'']
                 else if id_matches then [] else [''approved_image_id_mismatch''])
              @ (if is_full_local_image_id resolved then [] else [''approved_image_id_mismatch'']),
              reference_matches, id_matches \<and> is_full_local_image_id resolved))
      | _ \<Rightarrow> ([''authorization_approved_image_invalid''], False, False))"

text \<open>A field that must equal an expectation of the caller in all three documents, when the
  caller has one.\<close>

definition runtime_matches :: "string option \<Rightarrow> json list \<Rightarrow> bool" where
  "runtime_matches expected vs =
     (case expected of None \<Rightarrow> True | Some e \<Rightarrow> list_all (\<lambda>v. py_eq v (JStr e)) vs)"

record snapshot_check =
  sn_present :: bool
  sn_id_matches :: bool
  sn_manifest_matches :: bool
  sn_errors :: "string list"

definition snapshot_field_matches :: "string \<Rightarrow> string option \<Rightarrow> dict \<Rightarrow> dict \<Rightarrow> dict \<Rightarrow> bool" where
  "snapshot_field_matches k expected subject scope gate_subject =
     (py_eq (dget subject k) (dget gate_subject k) \<and> py_eq (dget scope k) (dget gate_subject k)
      \<and> (case expected of None \<Rightarrow> True | Some e \<Rightarrow> py_eq (dget subject k) (JStr e)))"

definition check_snapshot_binding :: "bool \<Rightarrow> execution_facts \<Rightarrow> dict \<Rightarrow> dict \<Rightarrow> dict \<Rightarrow> snapshot_check" where
  "check_snapshot_binding current_schema facts subject scope gate_subject =
     (let present = (current_schema \<and> is_fingerprint (dget subject ''snapshot_id'')
            \<and> is_fingerprint (dget subject ''manifest_fingerprint'') \<and> is_fingerprint (dget scope ''snapshot_id'')
            \<and> is_fingerprint (dget scope ''manifest_fingerprint''));
          id_matches = (present \<and> snapshot_field_matches ''snapshot_id'' (xf_snapshot_id facts) subject scope gate_subject);
          manifest_matches = (present
            \<and> snapshot_field_matches ''manifest_fingerprint'' (xf_manifest_fingerprint facts) subject scope gate_subject);
          runtime = (\<lambda>k expected. runtime_matches expected [dget subject k, dget scope k, dget gate_subject k]) in
      \<lparr>sn_present = present, sn_id_matches = id_matches, sn_manifest_matches = manifest_matches,
       sn_errors =
         (if \<not> current_schema then []
          else if \<not> present \<or> dget gate_subject ''binding_kind'' \<noteq> JStr ''snapshot_bound''
          then [''authorization_snapshot_binding_unresolved'']
          else if \<not> (runtime ''repo'' (xf_repository_identity facts) \<and> runtime ''commit'' (xf_commit facts)
                     \<and> runtime ''tree_hash'' (xf_tree facts) \<and> id_matches \<and> manifest_matches)
          then [''authorization_snapshot_binding_mismatch''] else [])\<rparr>)"

text \<open>The verdict of the gate decision: the error and the warning it causes.\<close>

definition verdict_checks :: "json \<Rightarrow> (string list \<times> string list) res" where
  "verdict_checks verdict =
     res_map (\<lambda>disallowed.
       if disallowed then ([''gate_verdict_'' @ py_str verdict @ ''_cannot_be_authorized''], [])
       else if verdict = JStr ''warn'' then ([], [''warn_verdict_authorization_requires_explicit_human_acceptance''])
       else if verdict \<noteq> JStr ''allow_limited'' then ([''gate_verdict_invalid_for_authorization''], [])
       else ([], []))
     (in_strs verdict disallowed_gate_verdicts)"

definition authorization_limitations :: "dict \<Rightarrow> string list" where
  "authorization_limitations authorization =
     (let given = string_items (dget authorization ''limitations'') in
      if has_key authorization ''approved_image'' \<or> ''authorization_not_image_bound'' \<in> set given then given
      else given @ [''authorization_not_image_bound''])"

definition authorization_top_checks :: "dict \<Rightarrow> string list \<Rightarrow> string list res list" where
  "authorization_top_checks a allowed =
     [fail_if (\<not> keys_include a base_top_level_fields \<or> \<not> keys_within a allowed)
        ''authorization_top_level_required_or_unknown_field'',
      fail_if (dget a ''authorization_kind'' \<noteq> JStr authorization_kind) ''authorization_kind_unsupported'',
      fail_ifM (notin_strs (dget a ''schema_version'') authorization_schema_versions)
        ''authorization_schema_version_unsupported'',
      fail_if (\<not> is_true (dget a ''approved'')) ''approval_missing'',
      fail_ifM (notin_vals (dget a ''approved'') [JBool True, JBool False]) ''approved_must_be_boolean'',
      fail_if (string_items (dget a ''limitations'') = []) ''limitations_empty'',
      fail_if (string_items (dget a ''residual_risks'') = []) ''residual_risks_empty'']"

definition current_schema :: "dict \<Rightarrow> bool" where
  "current_schema a \<longleftrightarrow> dget a ''schema_version'' = JStr authorization_schema_version"

definition expected_scope :: "dict \<Rightarrow> dict \<Rightarrow> dict" where
  "expected_scope a gate =
     (if current_schema a then gate_subject_of gate else legacy_gate_subject (gate_subject_of gate))"

definition scope_matches :: "dict \<Rightarrow> dict \<Rightarrow> bool" where
  "scope_matches a gate \<longleftrightarrow> py_eq (JObj (sect a ''approved_scope'')) (JObj (expected_scope a gate))"

definition argv_matches :: "dict \<Rightarrow> string list \<Rightarrow> bool" where
  "argv_matches a argv \<longleftrightarrow>
     (case dget a ''approved_argv'' of
        JList xs \<Rightarrow> py_eq (JList xs) (jstrs argv) \<and> list_all nonempty_str xs
      | _ \<Rightarrow> False)"

definition policy_matches :: "dict \<Rightarrow> dict \<Rightarrow> bool" where
  "policy_matches a gate \<longleftrightarrow> py_eq (dget a ''approved_policy_version'') (gate_policy_version gate)"

definition based_on_matches :: "dict \<Rightarrow> dict \<Rightarrow> bool" where
  "based_on_matches a gate \<longleftrightarrow> py_eq (JObj (sect a ''based_on_gate_decision'')) (JObj (gate_reference gate))"

definition expected_subject_fields :: "dict \<Rightarrow> string list" where
  "expected_subject_fields a =
     (if current_schema a then authorization_subject_fields else authorization_legacy_subject_fields)"

definition authorization_match_checks :: "dict \<Rightarrow> dict \<Rightarrow> string list \<Rightarrow> string list res list" where
  "authorization_match_checks a gate argv =
     [fail_if (\<not> scope_matches a gate) ''approved_scope_mismatch'',
      fail_if (\<not> argv_matches a argv) ''approved_argv_mismatch'',
      fail_if (\<not> policy_matches a gate) ''approved_policy_version_mismatch'',
      fail_if (\<not> keys_eq (sect a ''based_on_gate_decision'') based_on_fields)
        ''based_on_gate_decision_required_or_unknown_field'',
      fail_if (\<not> based_on_matches a gate) ''based_on_gate_decision_mismatch'',
      fail_if (\<not> keys_eq (sect a ''subject'') (expected_subject_fields a))
        ''authorization_subject_required_or_unknown_field'',
      fail_if (\<not> py_eq (JObj (sect a ''subject''))
                (JObj (map (\<lambda>k. (k, dget (gate_subject_of gate) k)) (expected_subject_fields a))))
        ''authorization_subject_mismatch'']"

text \<open>The image part runs only for an artifact that names an image under a schema that has one.\<close>

definition image_part :: "dict \<Rightarrow> execution_facts \<Rightarrow> (string list \<times> bool \<times> bool) res" where
  "image_part a facts =
     (if has_key a ''approved_image''
      then res_map (\<lambda>applies. if applies then validate_image_binding (dget a ''approved_image'') facts
                             else ([], False, False))
             (in_strs (dget a ''schema_version'')
               [image_bound_authorization_schema_version, authorization_schema_version])
      else Inr ([], False, False))"

definition authorization_checks ::
  "dict \<Rightarrow> dict \<Rightarrow> string list \<Rightarrow> execution_facts \<Rightarrow> string list \<Rightarrow> string list \<Rightarrow> string list
    \<Rightarrow> string list res list" where
  "authorization_checks a gate argv facts allowed image_errors verdict_errors =
     authorization_top_checks a allowed @ authorization_match_checks a gate argv
     @ [Inr (sn_errors (check_snapshot_binding (current_schema a) facts (sect a ''subject'') (sect a ''approved_scope'')
              (gate_subject_of gate))),
        Inr (fst (not_expired (dget a ''expires_at'') (xf_now facts)))]
     @ approved_metadata_checks a
     @ [Inr image_errors, Inr verdict_errors,
        fail_if (contains_forbidden_pattern (JObj a)) ''authorization_contains_forbidden_raw_pattern'',
        fail_if (contains_raw_host_path (JObj a)) ''authorization_contains_raw_host_path'']"

definition invalid_authorization_input :: authorization_result where
  "invalid_authorization_input =
     \<lparr>az_valid = False, az_approved = False, az_execution_authorized = False,
      az_blocking_errors = [''authorization_must_be_object''], az_warnings = [], az_scope_matches = False,
      az_argv_matches = False, az_policy_matches = False, az_not_expired = False, az_based_on_matches = False,
      az_image_binding_present = False, az_image_reference_matches = False, az_image_id_matches = False,
      az_snapshot_binding_present = False, az_snapshot_id_matches = False, az_manifest_matches = False,
      az_limitations = [], az_residual_risks = [''invalid_authorization_input'']\<rparr>"

definition authorization_result_of ::
  "dict \<Rightarrow> dict \<Rightarrow> string list \<Rightarrow> execution_facts \<Rightarrow> bool \<times> bool \<Rightarrow> string list \<Rightarrow> string list
    \<Rightarrow> authorization_result" where
  "authorization_result_of a gate argv facts image_matches errors warnings =
     (let valid = (errors = []); approved = is_true (dget a ''approved'');
          snap = check_snapshot_binding (current_schema a) facts (sect a ''subject'') (sect a ''approved_scope'')
                   (gate_subject_of gate) in
      \<lparr>az_valid = valid, az_approved = approved, az_execution_authorized = valid \<and> approved,
       az_blocking_errors = dedupe errors, az_warnings = dedupe warnings,
       az_scope_matches = scope_matches a gate, az_argv_matches = argv_matches a argv,
       az_policy_matches = policy_matches a gate,
       az_not_expired = snd (not_expired (dget a ''expires_at'') (xf_now facts)),
       az_based_on_matches = based_on_matches a gate,
       az_image_binding_present = has_key a ''approved_image'',
       az_image_reference_matches = fst image_matches, az_image_id_matches = snd image_matches,
       az_snapshot_binding_present = sn_present snap, az_snapshot_id_matches = sn_id_matches snap,
       az_manifest_matches = sn_manifest_matches snap,
       az_limitations = authorization_limitations a,
       az_residual_risks = string_items (dget a ''residual_risks'')\<rparr>)"

definition validate_execution_authorization ::
  "json \<Rightarrow> dict \<Rightarrow> string list \<Rightarrow> execution_facts \<Rightarrow> authorization_result res" where
  "validate_execution_authorization authorization gate argv facts =
     (case authorization of
        JObj a \<Rightarrow>
          res_bind (top_level_fields_by_version (dget a ''schema_version'')) (\<lambda>allowed.
          res_bind (image_part a facts) (\<lambda>(image_errors, image_matches).
          res_bind (verdict_checks (dget gate ''verdict'')) (\<lambda>(verdict_errors, warnings).
          res_map (\<lambda>errors. authorization_result_of a gate argv facts image_matches errors warnings)
            (collect (authorization_checks a gate argv facts allowed image_errors verdict_errors)))))
      | _ \<Rightarrow> Inr invalid_authorization_input)"

section \<open>Bindings to the observed worktree and to the snapshot\<close>

record worktree_binding =
  wb_status :: string
  wb_repo_matches :: bool
  wb_commit_matches :: bool
  wb_tree_matches :: bool
  wb_dirty_state :: string
  wb_refusal_reasons :: "string list"

definition wb_matched :: "worktree_binding \<Rightarrow> bool" where
  "wb_matched b \<longleftrightarrow> wb_status b = ''matched''"

definition worktree_binding_to_dict :: "worktree_binding \<Rightarrow> dict" where
  "worktree_binding_to_dict b =
     [(''checked'', JBool True), (''status'', JStr (wb_status b)), (''matched'', JBool (wb_matched b)),
      (''repo_matches'', JBool (wb_repo_matches b)), (''commit_matches'', JBool (wb_commit_matches b)),
      (''tree_matches'', JBool (wb_tree_matches b)), (''dirty_state'', JStr (wb_dirty_state b)),
      (''refusal_reasons'', jstrs (wb_refusal_reasons b)), (''observed_values_recorded'', JBool False)]"

definition unresolved_worktree :: worktree_binding where
  "unresolved_worktree =
     \<lparr>wb_status = ''unresolved'', wb_repo_matches = False, wb_commit_matches = False, wb_tree_matches = False,
      wb_dirty_state = ''unknown'', wb_refusal_reasons = [''authorization_worktree_binding_unresolved'']\<rparr>"

definition tree_hash_matches :: "json \<Rightarrow> json \<Rightarrow> bool" where
  "tree_hash_matches expected observed =
     (case (expected, observed) of
        (JStr e, JStr v) \<Rightarrow> e = v \<or> e = ''sha256:'' @ v
      | _ \<Rightarrow> False)"

definition same_text :: "json \<Rightarrow> json \<Rightarrow> bool" where
  "same_text expected observed \<longleftrightarrow> is_str expected \<and> is_str observed \<and> expected = observed"

text \<open>The status of the comparison and the reasons to refuse.\<close>

definition worktree_status :: "dict \<Rightarrow> string \<Rightarrow> bool \<Rightarrow> string \<times> string list" where
  "worktree_status observed dirty_state all_match =
     (if \<not> is_true (dget observed ''git_available'')
      then (''unresolved'', [''authorization_worktree_not_git'', ''authorization_worktree_binding_unresolved''])
      else if dget observed ''commit'' = JNull \<or> dget observed ''tree_hash'' = JNull
      then (''unresolved'', [''authorization_worktree_binding_unresolved''])
      else if dirty_state = ''unknown'' then (''unresolved'', [''authorization_worktree_binding_unresolved''])
      else if dirty_state = ''dirty'' then (''dirty'', [''authorization_worktree_dirty''])
      else if \<not> all_match then (''mismatch'', [''authorization_worktree_binding_mismatch''])
      else (''matched'', []))"

definition observed_worktree_binding :: "dict \<Rightarrow> dict \<Rightarrow> worktree_binding res" where
  "observed_worktree_binding subject observed =
     (let root = is_true (dget observed ''repo_root_matches_target'');
          repo_matches = (if dget subject ''repo'' = JStr ''<repo>'' then root
                          else same_text (dget subject ''repo'') (dget observed ''repo_identity'') \<and> root);
          commit_matches = same_text (dget subject ''commit'') (dget observed ''commit'');
          tree_matches = tree_hash_matches (dget subject ''tree_hash'') (dget observed ''tree_hash'') in
      res_map (\<lambda>known.
        (let dirty_state = (if known then py_str (dget observed ''dirty_state'') else ''unknown'');
             (status, reasons) = worktree_status observed dirty_state (repo_matches \<and> commit_matches \<and> tree_matches) in
         \<lparr>wb_status = status, wb_repo_matches = repo_matches, wb_commit_matches = commit_matches,
          wb_tree_matches = tree_matches, wb_dirty_state = dirty_state, wb_refusal_reasons = dedupe reasons\<rparr>))
        (in_strs (dget observed ''dirty_state'') [''clean'', ''dirty'', ''unknown'']))"

definition validate_execution_authorization_worktree_binding :: "dict \<Rightarrow> dict \<Rightarrow> worktree_binding res" where
  "validate_execution_authorization_worktree_binding authorization observed =
     (case (dget authorization ''subject'', dget authorization ''approved_scope'') of
        (JObj subject, JObj scope) \<Rightarrow>
          res_bind (in_strs (dget scope ''binding_kind'') [''commit_bound'', ''tree_bound'', ''snapshot_bound''])
            (\<lambda>bound. if bound then observed_worktree_binding subject observed else Inr unresolved_worktree)
      | _ \<Rightarrow> Inr unresolved_worktree)"

record snapshot_binding =
  sb_status :: string
  sb_repo_matches :: bool
  sb_commit_matches :: bool
  sb_tree_matches :: bool
  sb_snapshot_id_matches :: bool
  sb_manifest_matches :: bool
  sb_gate_matches :: bool
  sb_refusal_reasons :: "string list"

definition sb_matched :: "snapshot_binding \<Rightarrow> bool" where
  "sb_matched b \<longleftrightarrow> sb_status b = ''matched''"

definition snapshot_binding_to_dict :: "snapshot_binding \<Rightarrow> dict" where
  "snapshot_binding_to_dict b =
     [(''checked'', JBool True), (''status'', JStr (sb_status b)), (''matched'', JBool (sb_matched b)),
      (''repo_matches'', JBool (sb_repo_matches b)), (''commit_matches'', JBool (sb_commit_matches b)),
      (''tree_matches'', JBool (sb_tree_matches b)), (''snapshot_id_matches'', JBool (sb_snapshot_id_matches b)),
      (''manifest_fingerprint_matches'', JBool (sb_manifest_matches b)),
      (''gate_matches'', JBool (sb_gate_matches b)), (''refusal_reasons'', jstrs (sb_refusal_reasons b)),
      (''observed_values_recorded'', JBool False)]"

text \<open>The subject a run observes: identity, commit, tree, snapshot, manifest.\<close>

record observed_subject =
  os_repo :: "string option"
  os_commit :: "string option"
  os_tree :: "string option"
  os_snapshot_id :: "string option"
  os_manifest :: "string option"

definition unresolved_subject :: "observed_subject \<Rightarrow> bool" where
  "unresolved_subject s \<longleftrightarrow>
     \<not> is_fingerprint (str_json (os_repo s)) \<or> \<not> nonempty_str (str_json (os_commit s))
     \<or> \<not> nonempty_str (str_json (os_tree s)) \<or> \<not> is_fingerprint (str_json (os_snapshot_id s))
     \<or> \<not> is_fingerprint (str_json (os_manifest s))"

definition both_equal :: "dict \<Rightarrow> dict \<Rightarrow> string \<Rightarrow> string option \<Rightarrow> bool" where
  "both_equal subject scope k v \<longleftrightarrow> py_eq (dget subject k) (str_json v) \<and> py_eq (dget scope k) (str_json v)"

definition gate_subject_equals :: "dict \<Rightarrow> observed_subject \<Rightarrow> bool" where
  "gate_subject_equals gate_subject s \<longleftrightarrow>
     py_eq (dget gate_subject ''repo'') (str_json (os_repo s)) \<and> py_eq (dget gate_subject ''commit'') (str_json (os_commit s))
     \<and> py_eq (dget gate_subject ''tree_hash'') (str_json (os_tree s))
     \<and> py_eq (dget gate_subject ''snapshot_id'') (str_json (os_snapshot_id s))
     \<and> py_eq (dget gate_subject ''manifest_fingerprint'') (str_json (os_manifest s))
     \<and> dget gate_subject ''binding_kind'' = JStr ''snapshot_bound''"

definition validate_execution_authorization_snapshot_binding ::
  "dict \<Rightarrow> dict \<Rightarrow> observed_subject \<Rightarrow> snapshot_binding" where
  "validate_execution_authorization_snapshot_binding authorization gate s =
     (let subject = sect authorization ''subject''; scope = sect authorization ''approved_scope'' in
      if unresolved_subject s
      then \<lparr>sb_status = ''unresolved'', sb_repo_matches = False, sb_commit_matches = False, sb_tree_matches = False,
            sb_snapshot_id_matches = False, sb_manifest_matches = False, sb_gate_matches = False,
            sb_refusal_reasons = [''authorization_snapshot_binding_unresolved'']\<rparr>
      else
        (let id_matches = both_equal subject scope ''snapshot_id'' (os_snapshot_id s);
             manifest_matches = both_equal subject scope ''manifest_fingerprint'' (os_manifest s);
             gate_matches = gate_subject_equals (gate_subject_of gate) s;
             repo_matches = both_equal subject scope ''repo'' (os_repo s);
             commit_matches = both_equal subject scope ''commit'' (os_commit s);
             tree_matches = both_equal subject scope ''tree_hash'' (os_tree s);
             ok = (repo_matches \<and> commit_matches \<and> tree_matches \<and> id_matches \<and> manifest_matches \<and> gate_matches) in
         \<lparr>sb_status = (if ok then ''matched'' else ''mismatch''), sb_repo_matches = repo_matches,
          sb_commit_matches = commit_matches, sb_tree_matches = tree_matches,
          sb_snapshot_id_matches = id_matches, sb_manifest_matches = manifest_matches,
          sb_gate_matches = gate_matches,
          sb_refusal_reasons = (if ok then [] else [''authorization_snapshot_binding_mismatch''])\<rparr>))"

section \<open>Facts about the parts\<close>

lemma py_eq_dget: "py_eq (JObj d) (JObj e) \<Longrightarrow> has_key d k \<Longrightarrow> py_eq (dget d k) (dget e k)"
  by (cases "map_of d k")
    (fastforce simp: py_eq_obj has_key_def keys_def dget_or_def map_of_eq_None_iff dest: map_of_SomeD)+

lemma dget_tabulate: "dget (map (\<lambda>k. (k, f k)) ks) k = (if k \<in> set ks then f k else JNull)"
  by (induction ks) (simp_all add: dget_Cons)

lemma has_key_keys_eq: "keys_eq d F \<Longrightarrow> k \<in> set F \<Longrightarrow> has_key d k"
  by (simp add: keys_eq_def has_key_def)

lemma has_key_include: "keys_include d F \<Longrightarrow> k \<in> set F \<Longrightarrow> has_key d k"
  by (auto simp: keys_include_def has_key_def)

lemma argv_matches_iff: "argv_matches a argv \<longleftrightarrow> dget a ''approved_argv'' = jstrs argv \<and> [] \<notin> set argv"
  unfolding argv_matches_def jstrs_def
  by (cases "dget a ''approved_argv''") (auto simp: py_eq_list py_eq_strs list_all_iff)

lemma not_expired_Nil:
  "fst (not_expired v now) = [] \<longleftrightarrow> snd (not_expired v now)"
  "snd (not_expired v now) \<longleftrightarrow>
     (\<exists>t e. v = JStr t \<and> t \<noteq> [] \<and> fromisoformat (zulu t) = Some e \<and> instant now < instant e)"
  by (cases v; simp add: not_expired_def split: option.splits)+

lemma image_binding_Nil:
  assumes "fst (validate_image_binding v facts) = []"
  shows "\<exists>im ref i. v = JObj im \<and> dget im ''requested_reference'' = JStr ref \<and> xf_image_reference facts = Some ref
    \<and> is_digest_pinned_authorization_reference (JStr ref) \<and> dget im ''resolved_image_id'' = JStr i
    \<and> xf_image_id facts = Some i \<and> is_full_local_image_id (JStr i)"
proof (cases v)
  case (JObj im)
  let ?ref = "dget im ''requested_reference''" and ?i = "dget im ''resolved_image_id''"
  from assms JObj have "keys_eq im approved_image_fields" and pin: "is_digest_pinned_authorization_reference ?ref"
    and ref: "is_str ?ref" "py_eq (str_json (xf_image_reference facts)) ?ref"
    and i: "xf_image_id facts \<noteq> None" "py_eq (str_json (xf_image_id facts)) ?i" "is_full_local_image_id ?i"
    by (auto simp: validate_image_binding_def Let_def split: if_splits)
  from ref obtain r where r: "?ref = JStr r" by (auto simp: is_str_iff)
  with ref have "xf_image_reference facts = Some r" by (cases "xf_image_reference facts") (auto simp: str_json_def)
  moreover from i obtain j where j: "xf_image_id facts = Some j" "?i = JStr j" by (auto simp: str_json_def)
  ultimately show ?thesis using JObj r j pin i(3) by auto
qed (use assms in \<open>auto simp: validate_image_binding_def\<close>)

text \<open>What the snapshot part guarantees under the current schema.\<close>

definition snapshot_contract :: "execution_facts \<Rightarrow> dict \<Rightarrow> dict \<Rightarrow> dict \<Rightarrow> bool" where
  "snapshot_contract facts subject scope gate_subject \<longleftrightarrow>
     dget gate_subject ''binding_kind'' = JStr ''snapshot_bound''
     \<and> (\<forall>(k, expected)\<in>{(''snapshot_id'', xf_snapshot_id facts), (''manifest_fingerprint'', xf_manifest_fingerprint facts)}.
          is_fingerprint (dget subject k) \<and> dget scope k = dget subject k \<and> dget gate_subject k = dget subject k
          \<and> (\<forall>e. expected = Some e \<longrightarrow> dget subject k = JStr e))
     \<and> (\<forall>(k, expected)\<in>{(''repo'', xf_repository_identity facts), (''commit'', xf_commit facts), (''tree_hash'', xf_tree facts)}.
          \<forall>e. expected = Some e \<longrightarrow> dget subject k = JStr e \<and> dget scope k = JStr e \<and> dget gate_subject k = JStr e)"

lemma snapshot_field_matches_fingerprint:
  assumes "is_fingerprint (dget subject k)" and "is_fingerprint (dget scope k)"
    and "snapshot_field_matches k expected subject scope gate_subject"
  shows "dget scope k = dget subject k \<and> dget gate_subject k = dget subject k
    \<and> (\<forall>e. expected = Some e \<longrightarrow> dget subject k = JStr e)"
proof -
  from assms(1,2) obtain x y where "dget subject k = JStr x" "dget scope k = JStr y"
    by (auto simp: is_fingerprint_iff)
  with assms(3) show ?thesis by (auto simp: snapshot_field_matches_def)
qed

lemma snapshot_check_Nil:
  assumes "sn_errors (check_snapshot_binding True facts subject scope gate_subject) = []"
  shows "snapshot_contract facts subject scope gate_subject"
proof -
  from assms have fp: "is_fingerprint (dget subject ''snapshot_id'')" "is_fingerprint (dget subject ''manifest_fingerprint'')"
      "is_fingerprint (dget scope ''snapshot_id'')" "is_fingerprint (dget scope ''manifest_fingerprint'')"
    and m: "snapshot_field_matches ''snapshot_id'' (xf_snapshot_id facts) subject scope gate_subject"
      "snapshot_field_matches ''manifest_fingerprint'' (xf_manifest_fingerprint facts) subject scope gate_subject"
    and kind: "dget gate_subject ''binding_kind'' = JStr ''snapshot_bound''"
    and rt: "runtime_matches (xf_repository_identity facts) [dget subject ''repo'', dget scope ''repo'', dget gate_subject ''repo'']"
      "runtime_matches (xf_commit facts) [dget subject ''commit'', dget scope ''commit'', dget gate_subject ''commit'']"
      "runtime_matches (xf_tree facts) [dget subject ''tree_hash'', dget scope ''tree_hash'', dget gate_subject ''tree_hash'']"
    by (simp_all add: check_snapshot_binding_def Let_def split: if_splits)
  have run: "runtime_matches ex [u, v, w] \<Longrightarrow> \<forall>e. ex = Some e \<longrightarrow> u = JStr e \<and> v = JStr e \<and> w = JStr e" for ex u v w
    by (simp add: runtime_matches_def split: option.splits)
  show ?thesis
    unfolding snapshot_contract_def ball_simps prod.case
    using kind fp(1,2) snapshot_field_matches_fingerprint [OF fp(1,3) m(1)]
      snapshot_field_matches_fingerprint [OF fp(2,4) m(2)] rt [THEN run]
    by simp
qed

section \<open>What an accepted authorization guarantees\<close>

definition image_contract :: "execution_facts \<Rightarrow> json \<Rightarrow> bool" where
  "image_contract facts v \<longleftrightarrow>
     (\<exists>im ref i. v = JObj im \<and> dget im ''requested_reference'' = JStr ref \<and> xf_image_reference facts = Some ref
        \<and> is_digest_pinned_authorization_reference (JStr ref) \<and> dget im ''resolved_image_id'' = JStr i
        \<and> xf_image_id facts = Some i \<and> is_full_local_image_id (JStr i))"

definition human_approved :: "dict \<Rightarrow> bool" where
  "human_approved a \<longleftrightarrow> dget a ''approved'' = JBool True \<and> nonempty_str (dget a ''approved_by'')
     \<and> (\<exists>t. dget a ''approved_at'' = JStr t \<and> fromisoformat (zulu t) \<noteq> None)"

definition fresh_until :: "json \<Rightarrow> datetime \<Rightarrow> bool" where
  "fresh_until v now \<longleftrightarrow> (\<exists>t e. v = JStr t \<and> fromisoformat (zulu t) = Some e \<and> instant now < instant e)"

definition authorized_for :: "dict \<Rightarrow> dict \<Rightarrow> string list \<Rightarrow> execution_facts \<Rightarrow> bool" where
  "authorized_for a gate argv facts \<longleftrightarrow>
     human_approved a \<and> fresh_until (dget a ''expires_at'') (xf_now facts)
     \<and> dget gate ''verdict'' \<in> {JStr ''warn'', JStr ''allow_limited''}
     \<and> dget (sect a ''based_on_gate_decision'') ''fingerprint'' = JStr (gate_decision_fingerprint gate)
     \<and> dget a ''approved_argv'' = jstrs argv \<and> [] \<notin> set argv
     \<and> (\<forall>k\<in>set authorization_legacy_subject_fields. dget (sect a ''subject'') k = dget (gate_subject_of gate) k)
     \<and> (current_schema a \<longrightarrow>
          snapshot_contract facts (sect a ''subject'') (sect a ''approved_scope'') (gate_subject_of gate))
     \<and> (has_key a ''approved_image'' \<longrightarrow> image_contract facts (dget a ''approved_image''))
     \<and> string_items (dget a ''limitations'') \<noteq> []
     \<and> \<not> contains_forbidden_pattern (JObj a) \<and> \<not> contains_raw_host_path (JObj a)"

lemma authorization_pieces:
  assumes "validate_execution_authorization v gate argv facts = Inr r" and "az_valid r"
  obtains a allowed im w where "v = JObj a"
    and "top_level_fields_by_version (dget a ''schema_version'') = Inr allowed"
    and "image_part a facts = Inr ([], im)"
    and "verdict_checks (dget gate ''verdict'') = Inr ([], w)"
    and "\<forall>c\<in>set (authorization_checks a gate argv facts allowed [] []). c = Inr []"
    and "r = authorization_result_of a gate argv facts im [] w"
proof (cases v)
  case (JObj a)
  from assms(1) JObj obtain allowed ie im ve w es where
    1: "top_level_fields_by_version (dget a ''schema_version'') = Inr allowed" "image_part a facts = Inr (ie, im)"
      "verdict_checks (dget gate ''verdict'') = Inr (ve, w)"
    and c: "collect (authorization_checks a gate argv facts allowed ie ve) = Inr es"
    and r: "r = authorization_result_of a gate argv facts im es w"
    unfolding validate_execution_authorization_def by (auto elim!: res_bindE res_mapE)
  from assms(2) r have "es = []" by (simp add: authorization_result_of_def Let_def)
  with c have all: "\<forall>c\<in>set (authorization_checks a gate argv facts allowed ie ve). c = Inr []"
    by (simp add: collect_Nil_iff)
  then have "ie = []" "ve = []" by (simp_all add: authorization_checks_def)
  with that JObj 1 all r \<open>es = []\<close> show thesis by blast
qed (use assms in \<open>auto simp: validate_execution_authorization_def invalid_authorization_input_def\<close>)

lemma verdict_checks_Nil:
  "verdict_checks v = Inr ([], w) \<Longrightarrow> v \<in> {JStr ''warn'', JStr ''allow_limited''}"
  by (cases "v = JStr ''warn''"; cases "v = JStr ''allow_limited''")
    (auto simp: verdict_checks_def elim!: res_mapE split: if_splits)

lemma allowed_image:
  assumes "top_level_fields_by_version version = Inr allowed" and "keys_within a allowed"
    and "has_key a ''approved_image''"
  shows "in_strs version [image_bound_authorization_schema_version, authorization_schema_version] = Inr True"
proof -
  have "''approved_image'' \<notin> set base_top_level_fields" by (simp add: base_top_level_fields_def)
  with assms show ?thesis
    unfolding top_level_fields_by_version_def keys_within_def has_key_def
    by (elim res_mapE) (auto split: if_splits)
qed

lemma subject_fields_equal:
  assumes "keys_eq (sect a ''subject'') (expected_subject_fields a)"
    and "py_eq (JObj (sect a ''subject'')) (JObj (map (\<lambda>k. (k, dget (gate_subject_of gate) k)) (expected_subject_fields a)))"
    and k: "k \<in> set authorization_legacy_subject_fields"
  shows "dget (sect a ''subject'') k = dget (gate_subject_of gate) k"
proof -
  have legacy: "set authorization_legacy_subject_fields \<subseteq> set (expected_subject_fields a)"
    by (simp add: expected_subject_fields_def authorization_legacy_subject_fields_def authorization_subject_fields_def)
  with k have in': "k \<in> set (expected_subject_fields a)" by blast
  from py_eq_dget [OF assms(2) has_key_keys_eq [OF assms(1) in']] in'
  have "py_eq (dget (sect a ''subject'') k) (dget (gate_subject_of gate) k)" by (simp add: dget_tabulate)
  moreover have "(\<exists>s. dget (gate_subject_of gate) k = JStr s) \<or> dget (gate_subject_of gate) k = JNull"
    by (simp add: gate_subject_of_def Let_def dget_Cons str_or_null_def is_str_iff)
  ultimately show ?thesis by auto
qed

lemma approved_metadata_Nil:
  assumes "\<forall>c\<in>set (approved_metadata_checks a). c = Inr []" and "is_true (dget a ''approved'')"
  shows "human_approved a"
proof -
  from assms(1) have "fail_if (\<not> nonempty_str (dget a ''approved_by'')) ''approved_by_required'' = Inr []"
    and at: "(if \<not> nonempty_str (dget a ''approved_at'') then Inr [''approved_at_required'']
        else (case opt_str (dget a ''approved_at'') of
            None \<Rightarrow> Inr [] | Some s \<Rightarrow> fail_if (fromisoformat (zulu s) = None) ''approved_at_invalid'')) = (Inr [] :: string list res)"
    unfolding approved_metadata_checks_def using assms(2)
    by (simp_all only: if_True list.set ball_simps simp_thms)
  moreover from at have "\<exists>t. dget a ''approved_at'' = JStr t \<and> fromisoformat (zulu t) \<noteq> None"
    by (cases "dget a ''approved_at''") (simp_all split: if_splits)
  ultimately show ?thesis using assms(2) by (simp add: human_approved_def is_true_def)
qed

lemma authorized_contract:
  assumes "validate_execution_authorization v gate argv facts = Inr r" and "az_execution_authorized r"
  obtains a where "v = JObj a" and "authorized_for a gate argv facts"
proof -
  have valid: "az_valid r"
    using assms by (cases v)
      (auto simp: validate_execution_authorization_def invalid_authorization_input_def authorization_result_of_def
        Let_def elim!: res_bindE res_mapE split: prod.splits)
  from assms(1) valid obtain a allowed im w where v: "v = JObj a"
    and allowed: "top_level_fields_by_version (dget a ''schema_version'') = Inr allowed"
    and image: "image_part a facts = Inr ([], im)"
    and verdict: "verdict_checks (dget gate ''verdict'') = Inr ([], w)"
    and all: "\<forall>c\<in>set (authorization_checks a gate argv facts allowed [] []). c = Inr []"
    by (rule authorization_pieces)
  note parts = all [unfolded authorization_checks_def set_append ball_Un]
  from parts have top: "keys_within a allowed" "is_true (dget a ''approved'')" "string_items (dget a ''limitations'') \<noteq> []"
    by (simp_all add: authorization_top_checks_def)
  from parts have argv: "argv_matches a argv" and based: "keys_eq (sect a ''based_on_gate_decision'') based_on_fields"
      "based_on_matches a gate"
    and subj: "keys_eq (sect a ''subject'') (expected_subject_fields a)"
      "py_eq (JObj (sect a ''subject'')) (JObj (map (\<lambda>k. (k, dget (gate_subject_of gate) k)) (expected_subject_fields a)))"
    by (simp_all add: authorization_match_checks_def)
  have "py_eq (dget (sect a ''based_on_gate_decision'') ''fingerprint'') (dget (gate_reference gate) ''fingerprint'')"
    by (rule py_eq_dget [OF based(2) [unfolded based_on_matches_def] has_key_keys_eq [OF based(1)]])
      (simp add: based_on_fields_def)
  then have fp: "dget (sect a ''based_on_gate_decision'') ''fingerprint'' = JStr (gate_decision_fingerprint gate)"
    by (simp add: gate_reference_def dget_Cons)
  have snap: "snapshot_contract facts (sect a ''subject'') (sect a ''approved_scope'') (gate_subject_of gate)"
    if "current_schema a"
    using parts that by (intro snapshot_check_Nil) simp
  have img: "image_contract facts (dget a ''approved_image'')" if k: "has_key a ''approved_image''"
  proof -
    from image k have "fst (validate_image_binding (dget a ''approved_image'') facts) = []"
      unfolding image_part_def allowed_image [OF allowed top(1) k] by simp
    from image_binding_Nil [OF this] show ?thesis by (simp add: image_contract_def)
  qed
  have human: "human_approved a"
    by (rule approved_metadata_Nil) (use parts top(2) in simp_all)
  have fresh: "fresh_until (dget a ''expires_at'') (xf_now facts)"
    using parts not_expired_Nil [of "dget a ''expires_at''" "xf_now facts"] by (auto simp: fresh_until_def)
  have clean: "\<not> contains_forbidden_pattern (JObj a)" "\<not> contains_raw_host_path (JObj a)"
    using parts by simp_all
  have "authorized_for a gate argv facts"
    unfolding authorized_for_def
    using human fresh verdict_checks_Nil [OF verdict] fp argv [unfolded argv_matches_iff] subject_fields_equal [OF subj]
      snap img top(3) clean by blast
  with v that show thesis by blast
qed

text \<open>A document that names the observed subject.\<close>

definition approval_names :: "dict \<Rightarrow> observed_subject \<Rightarrow> bool" where
  "approval_names d s \<longleftrightarrow>
     dget d ''repo'' = str_json (os_repo s) \<and> dget d ''commit'' = str_json (os_commit s)
     \<and> dget d ''tree_hash'' = str_json (os_tree s) \<and> dget d ''snapshot_id'' = str_json (os_snapshot_id s)
     \<and> dget d ''manifest_fingerprint'' = str_json (os_manifest s)"

section \<open>The way from a draft to an authorization\<close>

text \<open>The three fields a human fills in.\<close>

definition approve_draft :: "dict \<Rightarrow> string \<Rightarrow> string \<Rightarrow> dict" where
  "approve_draft draft approver stamp =
     dset (dset (dset draft ''approved'' (JBool True)) ''approved_by'' (JStr approver)) ''approved_at'' (JStr stamp)"

lemma json_wf_dget: "json_wf (JObj d) \<Longrightarrow> json_wf (dget d k)"
  by (auto simp: dget_or_def list_all_iff split: option.splits dest!: map_of_SomeD)

lemma json_wf_tabulate: "distinct ks \<Longrightarrow> (\<And>k. json_wf (f k)) \<Longrightarrow> json_wf (JObj (map (\<lambda>k. (k, f k)) ks))"
  by (induction ks) auto

lemma json_wf_str_or_null [simp]: "json_wf (str_or_null v)"
  by (cases v) (simp_all add: str_or_null_def)

lemma gate_subject_wf: "json_wf (JObj (gate_subject_of gate))"
  by (simp add: gate_subject_of_def Let_def)

lemma gate_reference_wf: "json_wf (JObj gate) \<Longrightarrow> json_wf (JObj (gate_reference gate))"
  using json_wf_dget [of gate] by (simp add: gate_reference_def)

lemma gate_subject_dget:
  "k \<in> {''commit'', ''tree_hash'', ''snapshot_id'', ''manifest_fingerprint''} \<Longrightarrow>
     dget (gate_subject_of gate) k = str_or_null (dget (sect gate ''subject'') k)"
  "dget (gate_subject_of gate) ''binding_kind'' = JStr (py_str (dget_or (sect gate ''subject'') ''binding_kind'' (JStr ''unbound'')))"
  by (auto simp: gate_subject_of_def Let_def dget_Cons)

text \<open>The facts of a run that the validator finds in the decision.\<close>

definition facts_agree :: "execution_facts \<Rightarrow> dict \<Rightarrow> bool" where
  "facts_agree facts subject \<longleftrightarrow>
     (\<forall>(k, v)\<in>{(''repo'', xf_repository_identity facts), (''commit'', xf_commit facts), (''tree_hash'', xf_tree facts),
        (''snapshot_id'', xf_snapshot_id facts), (''manifest_fingerprint'', xf_manifest_fingerprint facts)}.
        \<forall>e. v = Some e \<longrightarrow> dget subject k = JStr e)"

definition image_agrees :: "execution_facts \<Rightarrow> dict option \<Rightarrow> bool" where
  "image_agrees facts im0 \<longleftrightarrow>
     (\<forall>im. im0 = Some im \<longrightarrow> keys_eq im approved_image_fields \<and> image_contract facts (JObj im))"

lemma image_contract_binding:
  "keys_eq im approved_image_fields \<Longrightarrow> image_contract facts (JObj im) \<Longrightarrow>
     validate_image_binding (JObj im) facts = ([], True, True)"
  by (auto simp: image_contract_def validate_image_binding_def str_json_def)

lemma snapshot_check_passes:
  assumes fp: "is_fingerprint (dget subject ''snapshot_id'')" "is_fingerprint (dget subject ''manifest_fingerprint'')"
    and same: "\<forall>k\<in>{''repo'', ''commit'', ''tree_hash'', ''snapshot_id'', ''manifest_fingerprint''}.
      dget g k = dget subject k \<and> dget scope k = dget subject k"
    and kind: "dget g ''binding_kind'' = JStr ''snapshot_bound''" and facts: "facts_agree facts subject"
  shows "sn_errors (check_snapshot_binding True facts subject scope g) = []"
proof -
  from same fp have fp': "is_fingerprint (dget scope ''snapshot_id'')" "is_fingerprint (dget scope ''manifest_fingerprint'')"
    by simp_all
  from fp obtain x y where xy: "dget subject ''snapshot_id'' = JStr x" "dget subject ''manifest_fingerprint'' = JStr y"
    by (auto simp: is_fingerprint_iff)
  have run: "\<forall>e. ex = Some e \<longrightarrow> v = JStr e \<Longrightarrow> runtime_matches ex [v, v, v]" for ex v
    by (simp add: runtime_matches_def split: option.splits)
  have "snapshot_field_matches ''snapshot_id'' (xf_snapshot_id facts) subject scope g"
    "snapshot_field_matches ''manifest_fingerprint'' (xf_manifest_fingerprint facts) subject scope g"
    using xy same facts by (auto simp: snapshot_field_matches_def facts_agree_def split: option.splits)
  moreover from facts have "runtime_matches (xf_repository_identity facts) [dget subject ''repo'', dget scope ''repo'', dget g ''repo'']"
    "runtime_matches (xf_commit facts) [dget subject ''commit'', dget scope ''commit'', dget g ''commit'']"
    "runtime_matches (xf_tree facts) [dget subject ''tree_hash'', dget scope ''tree_hash'', dget g ''tree_hash'']"
    using same by (simp_all add: facts_agree_def run)
  ultimately show ?thesis
    using fp fp' kind by (simp add: check_snapshot_binding_def)
qed

lemma keys_dset_present: "has_key d k \<Longrightarrow> keys (dset d k v) = keys d"
  by (induction d k v rule: dset.induct) (auto simp: has_key_def keys_def)

lemma draft_keys:
  "keys (build_execution_authorization_draft gate argv ex im0)
     = base_top_level_fields @ (if im0 = None then [] else [''approved_image''])"
  by (simp add: build_execution_authorization_draft_def Let_def keys_def base_top_level_fields_def split: option.split)

lemma base_fields_mem:
  "''approved'' \<in> set base_top_level_fields" "''approved_by'' \<in> set base_top_level_fields"
  "''approved_at'' \<in> set base_top_level_fields" "''approved_image'' \<notin> set base_top_level_fields"
  by (simp_all add: base_top_level_fields_def)

lemma approved_keys:
  "keys (approve_draft (build_execution_authorization_draft gate argv ex im0) approver stamp)
     = base_top_level_fields @ (if im0 = None then [] else [''approved_image''])"
  unfolding approve_draft_def
  by (subst keys_dset_present; (subst keys_dset_present)?; (subst keys_dset_present)?; (simp add: draft_keys has_key_def keys_dset base_fields_mem)?)

lemma approve_dget:
  "dget (approve_draft d approver stamp) k =
     (if k = ''approved_at'' then JStr stamp else if k = ''approved_by'' then JStr approver
      else if k = ''approved'' then JBool True else dget d k)"
  by (simp add: approve_draft_def dget_or_dset)

lemma draft_image: "dget (build_execution_authorization_draft gate argv ex im0) ''approved_image''
    = (case im0 of None \<Rightarrow> JNull | Some im \<Rightarrow> JObj im)"
  by (simp add: build_execution_authorization_draft_def Let_def dget_Cons split: option.split)

lemma approved_draft_fields:
  fixes gate argv ex im0 approver stamp
  defines "a \<equiv> approve_draft (build_execution_authorization_draft gate argv (Some ex) im0) approver stamp"
  shows "dget a ''authorization_kind'' = JStr authorization_kind"
    and "dget a ''schema_version'' = JStr authorization_schema_version"
    and "dget a ''approved'' = JBool True" "dget a ''approved_by'' = JStr approver" "dget a ''approved_at'' = JStr stamp"
    and "dget a ''expires_at'' = JStr ex" "dget a ''approved_scope'' = JObj (gate_subject_of gate)"
    and "dget a ''approved_argv'' = jstrs argv" "dget a ''approved_policy_version'' = gate_policy_version gate"
    and "dget a ''based_on_gate_decision'' = JObj (gate_reference gate)"
    and "dget a ''subject'' = JObj (map (\<lambda>k. (k, dget (gate_subject_of gate) k)) authorization_subject_fields)"
    and "string_items (dget a ''limitations'') \<noteq> []" "string_items (dget a ''residual_risks'') \<noteq> []"
    and "dget a ''approved_image'' = (case im0 of None \<Rightarrow> JNull | Some im \<Rightarrow> JObj im)"
    and "has_key a ''approved_image'' \<longleftrightarrow> im0 \<noteq> None"
    and "keys_include a base_top_level_fields"
    and "keys_within a (base_top_level_fields @ [''approved_image''])"
proof -
  show "dget a ''authorization_kind'' = JStr authorization_kind"
    "dget a ''schema_version'' = JStr authorization_schema_version"
    "dget a ''approved'' = JBool True" "dget a ''approved_by'' = JStr approver" "dget a ''approved_at'' = JStr stamp"
    "dget a ''expires_at'' = JStr ex" "dget a ''approved_scope'' = JObj (gate_subject_of gate)"
    "dget a ''approved_argv'' = jstrs argv" "dget a ''approved_policy_version'' = gate_policy_version gate"
    "dget a ''based_on_gate_decision'' = JObj (gate_reference gate)"
    "dget a ''subject'' = JObj (map (\<lambda>k. (k, dget (gate_subject_of gate) k)) authorization_subject_fields)"
    "string_items (dget a ''limitations'') \<noteq> []" "string_items (dget a ''residual_risks'') \<noteq> []"
    by (simp_all add: a_def approve_dget build_execution_authorization_draft_def Let_def dget_Cons str_json_def
        draft_limitations_def)
  show "dget a ''approved_image'' = (case im0 of None \<Rightarrow> JNull | Some im \<Rightarrow> JObj im)"
    by (simp add: a_def approve_dget draft_image)
  show "has_key a ''approved_image'' \<longleftrightarrow> im0 \<noteq> None" "keys_include a base_top_level_fields"
    "keys_within a (base_top_level_fields @ [''approved_image''])"
    unfolding has_key_def keys_include_def keys_within_def a_def approved_keys using base_fields_mem(4) by auto
qed

text \<open>A decision, a command and an approval from which an authorization can come.\<close>

definition draft_ready ::
  "dict \<Rightarrow> string list \<Rightarrow> string \<Rightarrow> dict option \<Rightarrow> string \<Rightarrow> string \<Rightarrow> execution_facts \<Rightarrow> bool" where
  "draft_ready gate argv ex im0 approver stamp facts \<longleftrightarrow>
     json_wf (JObj gate) \<and> dget gate ''verdict'' \<in> {JStr ''warn'', JStr ''allow_limited''}
     \<and> dget (gate_subject_of gate) ''binding_kind'' = JStr ''snapshot_bound''
     \<and> is_fingerprint (dget (gate_subject_of gate) ''snapshot_id'')
     \<and> is_fingerprint (dget (gate_subject_of gate) ''manifest_fingerprint'')
     \<and> [] \<notin> set argv \<and> approver \<noteq> [] \<and> stamp \<noteq> [] \<and> fromisoformat (zulu stamp) \<noteq> None
     \<and> ex \<noteq> [] \<and> fresh_until (JStr ex) (xf_now facts)
     \<and> facts_agree facts (gate_subject_of gate) \<and> image_agrees facts im0"

lemma approved_draft_valid:
  fixes gate argv ex im0 approver stamp
  defines "a \<equiv> approve_draft (build_execution_authorization_draft gate argv (Some ex) im0) approver stamp"
  assumes ready: "draft_ready gate argv ex im0 approver stamp facts"
    and clean: "\<not> contains_forbidden_pattern (JObj a)" "\<not> contains_raw_host_path (JObj a)"
  shows "\<exists>r. validate_execution_authorization (JObj a) gate argv facts = Inr r \<and> az_execution_authorized r"
proof -
  from ready have wf: "json_wf (JObj gate)" and verdict: "dget gate ''verdict'' \<in> {JStr ''warn'', JStr ''allow_limited''}"
    and kind: "dget (gate_subject_of gate) ''binding_kind'' = JStr ''snapshot_bound''"
    and fp: "is_fingerprint (dget (gate_subject_of gate) ''snapshot_id'')"
      "is_fingerprint (dget (gate_subject_of gate) ''manifest_fingerprint'')"
    and argv: "[] \<notin> set argv" and approver: "approver \<noteq> []" and stamp: "stamp \<noteq> []" "fromisoformat (zulu stamp) \<noteq> None"
    and fresh: "ex \<noteq> []" "fresh_until (JStr ex) (xf_now facts)"
    and facts: "facts_agree facts (gate_subject_of gate)" "image_agrees facts im0"
    unfolding draft_ready_def by simp_all
  note f = approved_draft_fields [of gate argv ex im0 approver stamp, folded a_def]
  have cur: "current_schema a" by (simp add: current_schema_def f)
  let ?allowed = "base_top_level_fields @ [''approved_image'']"
  have allowed: "top_level_fields_by_version (dget a ''schema_version'') = Inr ?allowed"
    by (simp add: top_level_fields_by_version_def f in_strs_def)
  have "\<exists>m. image_part a facts = Inr ([], m)"
    using facts(2) image_contract_binding
    by (cases im0) (auto simp: image_part_def f in_strs_def image_agrees_def)
  then obtain m where img: "image_part a facts = Inr ([], m)" ..
  from verdict have "\<exists>w. verdict_checks (dget gate ''verdict'') = Inr ([], w)"
    by (auto simp: verdict_checks_def in_strs_def disallowed_gate_verdicts_def)
  then obtain w where ver: "verdict_checks (dget gate ''verdict'') = Inr ([], w)" ..
  have snap: "sn_errors (check_snapshot_binding True facts (sect a ''subject'') (sect a ''approved_scope'') (gate_subject_of gate)) = []"
    by (rule snapshot_check_passes)
      (use fp kind facts(1) in \<open>simp_all add: sect_def f dget_Cons authorization_subject_fields_def facts_agree_def\<close>)
  have wfs: "json_wf (JObj (map (\<lambda>k. (k, dget (gate_subject_of gate) k)) authorization_subject_fields))"
    by (rule json_wf_tabulate) (simp_all add: authorization_subject_fields_def json_wf_dget [OF gate_subject_wf])
  have top: "\<forall>c\<in>set (authorization_top_checks a ?allowed). c = Inr []"
    by (simp add: authorization_top_checks_def f is_true_def authorization_schema_versions_def notin_vals_def in_vals_def
        py_eq.simps [of "JBool True"])
  have match: "\<forall>c\<in>set (authorization_match_checks a gate argv). c = Inr []"
    using py_eq_refl [OF gate_subject_wf] py_eq_refl [OF gate_reference_wf [OF wf]] py_eq_refl [OF wfs] argv
    by (simp add: authorization_match_checks_def scope_matches_def expected_scope_def cur sect_def f argv_matches_iff
        policy_matches_def based_on_matches_def expected_subject_fields_def keys_eq_def keys_def comp_def
        gate_reference_def based_on_fields_def gate_policy_version_def py_eq_refl)
  have fr: "fst (not_expired (dget a ''expires_at'') (xf_now facts)) = []"
    using fresh by (auto simp: not_expired_Nil f fresh_until_def)
  have meta: "\<forall>c\<in>set (approved_metadata_checks a). c = Inr []"
    using approver stamp by (simp add: approved_metadata_checks_def f is_true_def)
  have "collect (authorization_checks a gate argv facts ?allowed [] []) = Inr []"
    unfolding collect_Nil_iff authorization_checks_def set_append ball_Un
    using top match snap fr meta clean by (simp add: cur)
  then have "validate_execution_authorization (JObj a) gate argv facts = Inr (authorization_result_of a gate argv facts m [] w)"
    by (simp add: validate_execution_authorization_def allowed img ver)
  moreover have "az_execution_authorized (authorization_result_of a gate argv facts m [] w)"
    by (simp add: authorization_result_of_def Let_def f is_true_def)
  ultimately show ?thesis by blast
qed

text \<open>The text of a fingerprint is never taken for a secret or a host path.\<close>

lemma set_digest: "rx_fullmatch sha256_rx s \<Longrightarrow> c \<in> set s \<Longrightarrow> c \<in> set ''sha256:'' \<or> is_hex_lower c"
  unfolding rx_fullmatch_lang sha256_rx_def rx_lang_lit_Cat rx_lang_times_cls by (elim exE conjE) (simp only:, auto)

lemma str_in_mid: "str_in w (u @ w @ v)"
  by (auto simp: str_in_iff sublist_def)

lemma secret_key_text:
  assumes "forbidden_token_patterns s"
  shows "str_in ''sk-'' s"
proof -
  have body: "\<exists>t. m = ''sk-'' @ t" if "rx_lang secret_key_body m" for m
    using that unfolding secret_key_body_def rx_lang_lit_Cat by blast
  from assms consider m b where "s = m @ b" "rx_lang secret_key_body m"
    | u c m b where "s = u @ (c # m) @ b" "rx_lang secret_key_body m"
    unfolding forbidden_token_patterns_def rx_match_iff rx_search_iff rx_lang_Cls_Cat by blast
  then show ?thesis
  proof cases
    case 1
    from body [OF 1(2)] 1(1) obtain t where "s = [] @ ''sk-'' @ (t @ b)" by auto
    then show ?thesis using str_in_mid by metis
  next
    case 2
    from body [OF 2(2)] 2(1) obtain t where "s = (u @ [c]) @ ''sk-'' @ (t @ b)" by auto
    then show ?thesis using str_in_mid by metis
  qed
qed

lemma str_in_set: "str_in p s \<Longrightarrow> set p \<subseteq> set s"
  by (auto simp: str_in_iff sublist_def)

lemma digest_clean:
  assumes "rx_fullmatch sha256_rx s"
  shows "\<not> forbidden_text s"
proof -
  let ?hex = "\<lambda>c. c \<in> set ''sha256:'' \<or> is_hex_lower c"
  have no: "\<not> str_in p s" if "c \<in> set p" "\<not> ?hex c" for p c
    using set_digest [OF assms] str_in_set that by blast
  have "\<forall>p\<in>set forbidden_patterns. \<not> list_all ?hex p" by code_simp
  then have 1: "\<forall>p\<in>set forbidden_patterns. \<not> str_in p s" unfolding list_all_iff using no by blast
  have 2: "\<not> str_in ''sk-'' s" by (rule no [of "CHR ''k''"]; code_simp)
  from 2 secret_key_text have "\<not> forbidden_token_patterns s" by blast
  with 1 show ?thesis by (simp add: forbidden_text_def list_ex_iff)
qed

text \<open>Evaluation tries the token pattern only on a text with its prefix.\<close>

lemma forbidden_token_patterns_code [code]:
  "forbidden_token_patterns s \<longleftrightarrow> str_in ''sk-'' s
     \<and> (rx_match secret_key_body s \<or> rx_search (Cat (Cls (\<lambda>c. \<not> token_char c)) secret_key_body) s)"
  using secret_key_text [of s] by (auto simp: forbidden_token_patterns_def)

text \<open>The validator raises only for a schema version, an approval or a verdict that cannot be
  hashed.\<close>

lemma validate_authorization_returns:
  assumes "hashable (dget a ''schema_version'')" "hashable (dget a ''approved'')" "hashable (dget gate ''verdict'')"
  shows "returns (validate_execution_authorization (JObj a) gate argv facts)"
proof -
  have "returns (collect (authorization_checks a gate argv facts allowed ie ve))" for allowed ie ve
    using assms unfolding collect_returns_iff authorization_checks_def
    by (auto simp: authorization_top_checks_def authorization_match_checks_def approved_metadata_checks_def split: option.split)
  moreover obtain x y z where "validate_image_binding (dget a ''approved_image'') facts = (x, y, z)"
    by (metis prod_cases3)
  ultimately show ?thesis
    using assms by (auto simp: validate_execution_authorization_def returns_bind_iff top_level_fields_by_version_def
        image_part_def verdict_checks_def in_strs_def split: prod.split)
qed

lemma json_strings_jstrs [simp]: "json_strings (jstrs xs) = xs"
  unfolding jstrs_def by (induction xs) simp_all

text \<open>An approved draft authorizes the drafted execution and no other.\<close>

lemma approved_draft_exact:
  fixes gate argv ex im0 approver stamp
  defines "a \<equiv> approve_draft (build_execution_authorization_draft gate argv (Some ex) im0) approver stamp"
  assumes ready: "draft_ready gate argv ex im0 approver stamp facts"
    and clean: "\<not> contains_forbidden_pattern (JObj a)" "\<not> contains_raw_host_path (JObj a)"
  shows "\<exists>r. validate_execution_authorization (JObj a) gate argv' facts' = Inr r
      \<and> (az_execution_authorized r \<longleftrightarrow> argv' = argv \<and> fresh_until (JStr ex) (xf_now facts')
          \<and> facts_agree facts' (gate_subject_of gate) \<and> image_agrees facts' im0)"
    and "validate_execution_authorization (JObj a) gate' argv' facts' = Inr r \<Longrightarrow> az_execution_authorized r \<Longrightarrow>
      gate_decision_fingerprint gate' = gate_decision_fingerprint gate"
proof -
  note f = approved_draft_fields [of gate argv ex im0 approver stamp, folded a_def]
  from ready have verdict: "dget gate ''verdict'' \<in> {JStr ''warn'', JStr ''allow_limited''}"
    and image: "image_agrees facts im0" by (simp_all add: draft_ready_def)
  have "returns (validate_execution_authorization (JObj a) gate argv' facts')"
    by (rule validate_authorization_returns) (use verdict in \<open>auto simp: f\<close>)
  then obtain r where r: "validate_execution_authorization (JObj a) gate argv' facts' = Inr r" by (auto simp: returns_iff)
  have "az_execution_authorized r" if "argv' = argv" "fresh_until (JStr ex) (xf_now facts')"
    "facts_agree facts' (gate_subject_of gate)" "image_agrees facts' im0"
  proof -
    have "draft_ready gate argv ex im0 approver stamp facts'"
      using ready that by (simp add: draft_ready_def)
    from approved_draft_valid [OF this] clean r that(1) show ?thesis by (auto simp: a_def)
  qed
  moreover have "argv' = argv \<and> fresh_until (JStr ex) (xf_now facts') \<and> facts_agree facts' (gate_subject_of gate) \<and> image_agrees facts' im0"
    if z: "az_execution_authorized r"
  proof -
    have auth: "authorized_for a gate argv' facts'" by (rule authorized_contract [OF r z]) simp
    then have "jstrs argv = jstrs argv'" "fresh_until (JStr ex) (xf_now facts')"
      unfolding authorized_for_def f by simp_all
    moreover have "facts_agree facts' (gate_subject_of gate)"
    proof -
      have "snapshot_contract facts' (sect a ''subject'') (sect a ''approved_scope'') (gate_subject_of gate)"
        using auth by (simp add: authorized_for_def current_schema_def f)
      then show ?thesis by (auto simp: snapshot_contract_def facts_agree_def)
    qed
    moreover have "image_agrees facts' im0"
      using auth image by (auto simp: authorized_for_def f image_agrees_def)
    ultimately show ?thesis using json_strings_jstrs by metis
  qed
  ultimately show "\<exists>r. validate_execution_authorization (JObj a) gate argv' facts' = Inr r
      \<and> (az_execution_authorized r \<longleftrightarrow> argv' = argv \<and> fresh_until (JStr ex) (xf_now facts')
          \<and> facts_agree facts' (gate_subject_of gate) \<and> image_agrees facts' im0)" using r by blast
next
  note f = approved_draft_fields [of gate argv ex im0 approver stamp, folded a_def]
  assume v: "validate_execution_authorization (JObj a) gate' argv' facts' = Inr r" and z: "az_execution_authorized r"
  have "authorized_for a gate' argv' facts'" by (rule authorized_contract [OF v z]) simp
  then show "gate_decision_fingerprint gate' = gate_decision_fingerprint gate"
    by (simp add: authorized_for_def f sect_def gate_reference_def dget_Cons)
qed

section \<open>Properties\<close>

text \<open>C2: an artifact authorizes an execution only when a named human approved it at a stated
  time, it has not expired, it names the fingerprint of exactly this gate decision (whose
  verdict is \<open>warn\<close> or \<open>allow_limited\<close>), exactly this argv and the decision's repository, commit and tree,
  and it carries no secret-like text and no host path.  An artifact of the current schema also names the
  snapshot and the manifest, and they are those of the run; one that names an image names the
  run's image by digest and identifier.  An artifact of an older schema binds no snapshot, and one
  without the image field binds no image.\<close>

theorem execution_authorized_contract:
  assumes "validate_execution_authorization v gate argv facts = Inr r" and "az_execution_authorized r"
  shows "\<exists>a. v = JObj a \<and> authorized_for a gate argv facts"
  by (rule authorized_contract [OF assms]) blast

text \<open>the draft that the tool writes itself never authorizes anything, whatever decision, argv,
  expiry and image it was drafted for and whatever it is validated against; the refusal
  says that the approval is missing.\<close>

theorem draft_never_authorizes:
  assumes "validate_execution_authorization (JObj (build_execution_authorization_draft gate argv expires im0)) gate' argv' facts = Inr r"
  shows "\<not> az_execution_authorized r \<and> ''approval_missing'' \<in> set (az_blocking_errors r)"
proof -
  let ?a = "build_execution_authorization_draft gate argv expires im0"
  have "dget ?a ''approved'' = JBool False"
    by (simp add: build_execution_authorization_draft_def Let_def dget_Cons)
  then have no: "\<not> is_true (dget ?a ''approved'')" by (simp add: is_true_def)
  from assms obtain allowed ie im ve w es
    where c: "collect (authorization_checks ?a gate' argv' facts allowed ie ve) = Inr es"
    and r: "r = authorization_result_of ?a gate' argv' facts im es w"
    unfolding validate_execution_authorization_def json.case by (elim res_bindE res_mapE) (auto split: prod.splits elim!: res_bindE res_mapE)
  have "Inr [''approval_missing''] \<in> set (authorization_checks ?a gate' argv' facts allowed ie ve)"
    using no by (simp add: authorization_checks_def authorization_top_checks_def fail_if_def)
  from collect_member [OF c this] have "''approval_missing'' \<in> set es" by simp
  with no r show ?thesis by (simp add: authorization_result_of_def Let_def)
qed

text \<open>the check of the checked-out worktree succeeds only for a git worktree that is clean and
  whose root, commit and tree are those the authorization names, under a scope that is bound to
  a commit, a tree or a snapshot.\<close>

theorem worktree_binding_matched:
  assumes "validate_execution_authorization_worktree_binding a observed = Inr b" and "wb_matched b"
  shows "dget observed ''git_available'' = JBool True \<and> dget observed ''repo_root_matches_target'' = JBool True
    \<and> dget observed ''dirty_state'' = JStr ''clean''
    \<and> (\<exists>c. dget (sect a ''subject'') ''commit'' = JStr c \<and> dget observed ''commit'' = JStr c)
    \<and> (\<exists>t. dget observed ''tree_hash'' = JStr t
          \<and> dget (sect a ''subject'') ''tree_hash'' \<in> {JStr t, JStr (''sha256:'' @ t)})
    \<and> dget (sect a ''approved_scope'') ''binding_kind'' \<in> {JStr ''commit_bound'', JStr ''tree_bound'', JStr ''snapshot_bound''}"
proof -
  have un: "\<not> wb_matched unresolved_worktree" by (simp add: wb_matched_def unresolved_worktree_def)
  from assms un obtain subject scope where s: "dget a ''subject'' = JObj subject" "dget a ''approved_scope'' = JObj scope"
    and bound: "in_strs (dget scope ''binding_kind'') [''commit_bound'', ''tree_bound'', ''snapshot_bound''] = Inr True"
    and b: "observed_worktree_binding subject observed = Inr b"
    unfolding validate_execution_authorization_worktree_binding_def
    by (auto split: json.splits if_splits elim!: res_bindE)
  have status: "fst (worktree_status ob d m) = ''matched'' \<Longrightarrow>
      is_true (dget ob ''git_available'') \<and> d \<noteq> ''unknown'' \<and> d \<noteq> ''dirty'' \<and> m" for ob d m
    by (simp add: worktree_status_def split: if_splits)
  let ?root = "is_true (dget observed ''repo_root_matches_target'')"
  from b assms(2) obtain known where known: "in_strs (dget observed ''dirty_state'') [''clean'', ''dirty'', ''unknown''] = Inr known"
    and st: "fst (worktree_status observed (if known then py_str (dget observed ''dirty_state'') else ''unknown'')
       ((if dget subject ''repo'' = JStr ''<repo>'' then ?root
         else same_text (dget subject ''repo'') (dget observed ''repo_identity'') \<and> ?root)
        \<and> same_text (dget subject ''commit'') (dget observed ''commit'')
        \<and> tree_hash_matches (dget subject ''tree_hash'') (dget observed ''tree_hash''))) = ''matched''"
    unfolding observed_worktree_binding_def Let_def
    by (elim res_mapE) (simp add: wb_matched_def split: prod.splits)
  note m = status [OF st]
  then have "known" by (simp split: if_splits)
  with known m have "dget observed ''dirty_state'' = JStr ''clean''" by auto
  moreover from m have "?root" by (simp split: if_splits)
  moreover from m have "\<exists>c. dget subject ''commit'' = JStr c \<and> dget observed ''commit'' = JStr c"
    by (auto simp: same_text_def is_str_iff)
  moreover from m have "\<exists>t. dget observed ''tree_hash'' = JStr t
      \<and> dget subject ''tree_hash'' \<in> {JStr t, JStr (''sha256:'' @ t)}"
    by (simp add: tree_hash_matches_def split: json.splits)
  moreover from bound have "dget scope ''binding_kind'' \<in> {JStr ''commit_bound'', JStr ''tree_bound'', JStr ''snapshot_bound''}"
    by simp
  ultimately show ?thesis using m s by (simp add: is_true_def sect_def)
qed

lemma snapshot_binding_facts:
  "(sb_matched (validate_execution_authorization_snapshot_binding a gate s) \<longleftrightarrow>
      \<not> unresolved_subject s \<and> gate_subject_equals (gate_subject_of gate) s
      \<and> approval_names (sect a ''subject'') s \<and> approval_names (sect a ''approved_scope'') s)
   \<and> (sb_matched (validate_execution_authorization_snapshot_binding a gate s) \<longleftrightarrow>
      sb_refusal_reasons (validate_execution_authorization_snapshot_binding a gate s) = [])"
proof -
  have eq: "py_eq u (str_json v) \<longleftrightarrow> u = str_json v" for u v by (cases v) (simp_all add: str_json_def)
  show ?thesis
    unfolding sb_matched_def validate_execution_authorization_snapshot_binding_def Let_def approval_names_def
    by (simp add: both_equal_def eq) blast
qed

text \<open>the binding of a run to a snapshot is \<open>matched\<close> exactly when the observed subject is
  complete and the approval (in its subject and in its scope) and the gate decision all name it;
  every other outcome carries a refusal reason.\<close>

theorem snapshot_binding_matched_iff:
  "(sb_matched (validate_execution_authorization_snapshot_binding a gate s) \<longleftrightarrow>
      \<not> unresolved_subject s \<and> gate_subject_equals (gate_subject_of gate) s
      \<and> approval_names (sect a ''subject'') s \<and> approval_names (sect a ''approved_scope'') s)
   \<and> (sb_matched (validate_execution_authorization_snapshot_binding a gate s) \<longleftrightarrow>
      sb_refusal_reasons (validate_execution_authorization_snapshot_binding a gate s) = [])"
  by (rule snapshot_binding_facts)

text \<open>C20: the intended way works: take a decision with verdict \<open>warn\<close> or \<open>allow_limited\<close> that is bound to
  a snapshot, and the tool's own draft for it, with a named approver and an approval time filled in
  and nothing else changed, free of secret-like texts and host paths.  It validates for every command
  and run, and it authorizes exactly the drafted command, before its expiry, in a run whose facts
  are those of the decision and whose image is the drafted one; and no decision with another
  fingerprint.\<close>

theorem approved_draft_authorizes:
  assumes "draft_ready gate argv ex im0 approver stamp facts"
    and "\<not> contains_forbidden_pattern (JObj (approve_draft (build_execution_authorization_draft gate argv (Some ex) im0) approver stamp))"
    and "\<not> contains_raw_host_path (JObj (approve_draft (build_execution_authorization_draft gate argv (Some ex) im0) approver stamp))"
  shows "(\<exists>r. validate_execution_authorization
        (JObj (approve_draft (build_execution_authorization_draft gate argv (Some ex) im0) approver stamp)) gate argv' facts' = Inr r
      \<and> (az_execution_authorized r \<longleftrightarrow> argv' = argv \<and> fresh_until (JStr ex) (xf_now facts')
          \<and> facts_agree facts' (gate_subject_of gate) \<and> image_agrees facts' im0))
    \<and> (\<forall>gate' argv' facts' r. validate_execution_authorization
        (JObj (approve_draft (build_execution_authorization_draft gate argv (Some ex) im0) approver stamp)) gate' argv' facts' = Inr r
      \<longrightarrow> az_execution_authorized r \<longrightarrow> gate_decision_fingerprint gate' = gate_decision_fingerprint gate)"
  using approved_draft_exact [OF assms] by blast

definition sample_gate :: dict where
  "sample_gate = [(''verdict'', JStr ''warn''), (''policy'', JObj [(''policy_version'', JStr ''0.1'')]),
     (''subject'', JObj [(''repo'', JStr ''<repo>''), (''binding_kind'', JStr ''snapshot_bound''),
        (''snapshot_id'', JStr sample_fingerprint), (''manifest_fingerprint'', JStr sample_fingerprint)])]"

definition sample_facts :: execution_facts where
  "sample_facts = \<lparr>xf_now = \<lparr>clock_us = 63902919846000000, tz_us = None\<rparr>, xf_image_reference = None, xf_image_id = None,
     xf_repository_identity = None, xf_commit = None, xf_tree = None, xf_snapshot_id = None, xf_manifest_fingerprint = None\<rparr>"

definition sample_artifact :: dict where
  "sample_artifact = approve_draft
     (build_execution_authorization_draft sample_gate [''pytest''] (Some ''2200-01-01T00:00:00Z'') None)
     ''alice'' ''2026-01-01T00:00:00Z''"

definition sample_texts :: "string list \<times> string list" where
  "sample_texts =
     ([authorization_kind, authorization_schema_version, ''alice'', ''2026-01-01T00:00:00Z'', ''2200-01-01T00:00:00Z'',
       ''<repo>'', sample_fingerprint, sample_fingerprint, ''snapshot_bound'', ''pytest'', ''0.1'', ''warn''],
      [''<repo>'', sample_fingerprint, sample_fingerprint]
      @ draft_limitations (Some ''2200-01-01T00:00:00Z'') None
      @ [''human approval required before execution'',
         ''authorization is only valid for the exact reviewed command and scope''])"

lemma sample_subject:
  "gate_subject_of sample_gate =
      [(''repo'', JStr ''<repo>''), (''commit'', JNull), (''tree_hash'', JNull), (''snapshot_id'', JStr sample_fingerprint),
       (''manifest_fingerprint'', JStr sample_fingerprint), (''binding_kind'', JStr ''snapshot_bound'')]"
  by (simp add: gate_subject_of_def Let_def sample_gate_def sect_def dget_Cons str_or_null_def)

lemma sample_reference:
  "gate_reference sample_gate = [(''decision_kind'', JNull), (''schema_version'', JNull), (''verdict'', JStr ''warn''),
     (''fingerprint'', JStr (gate_decision_fingerprint sample_gate))]"
  by (simp add: gate_reference_def sample_gate_def dget_Cons)

lemma sample_policy: "gate_policy_version sample_gate = JStr ''0.1''"
  by (simp add: gate_policy_version_def sample_gate_def sect_def dget_Cons str_or_null_def)

lemma sample_strings:
  "json_strings (JObj sample_artifact) = fst sample_texts @ gate_decision_fingerprint sample_gate # snd sample_texts"
  by (simp add: sample_artifact_def approve_draft_def build_execution_authorization_draft_def Let_def
      sample_subject sample_reference sample_policy dget_Cons str_json_def authorization_subject_fields_def sample_texts_def)

lemma sample_texts_clean:
  "list_all (\<lambda>s. rx_fullmatch sha256_rx s \<or> \<not> forbidden_text s \<and> \<not> raw_host_path s) (fst sample_texts @ snd sample_texts)"
  by code_simp

lemma digest_no_host_path: "rx_fullmatch sha256_rx s \<Longrightarrow> \<not> raw_host_path s"
proof -
  assume d: "rx_fullmatch sha256_rx s"
  have "c \<notin> set s" if "c \<notin> set ''sha256:''" "\<not> is_hex_lower c" for c using set_digest [OF d] that by blast
  then have "CHR ''/'' \<notin> set s" "CHR 92 \<notin> set s" by (simp_all add: is_hex_lower_def is_digit_def in_range_def code_def)
  then show ?thesis by (simp add: raw_host_path_code)
qed

lemma sample_artifact_clean:
  "\<not> contains_forbidden_pattern (JObj sample_artifact)" "\<not> contains_raw_host_path (JObj sample_artifact)"
proof -
  have fp: "rx_fullmatch sha256_rx (gate_decision_fingerprint sample_gate)" by (simp add: gate_decision_fingerprint_def)
  have "\<not> forbidden_text s \<and> \<not> raw_host_path s" if "s \<in> set (json_strings (JObj sample_artifact))" for s
    using that sample_texts_clean digest_clean digest_no_host_path fp
    unfolding sample_strings list_all_iff set_append list.set by blast
  then show "\<not> contains_forbidden_pattern (JObj sample_artifact)" "\<not> contains_raw_host_path (JObj sample_artifact)"
    unfolding contains_forbidden_pattern_def contains_raw_host_path_def any_string_iff by blast+
qed

lemma sample_ready:
  "draft_ready sample_gate [''pytest''] ''2200-01-01T00:00:00Z'' None ''alice'' ''2026-01-01T00:00:00Z'' sample_facts"
proof -
  have verdict: "dget sample_gate ''verdict'' = JStr ''warn''" by (simp add: sample_gate_def dget_Cons)
  have time: "fromisoformat (zulu ''2026-01-01T00:00:00Z'') \<noteq> None" by code_simp
  have "\<exists>e. fromisoformat (zulu ''2200-01-01T00:00:00Z'') = Some e \<and> instant (xf_now sample_facts) < instant e"
    by (intro exI [of _ "the (fromisoformat (zulu ''2200-01-01T00:00:00Z''))"]) code_simp
  then have fresh: "fresh_until (JStr ''2200-01-01T00:00:00Z'') (xf_now sample_facts)" by (simp add: fresh_until_def)
  have wf: "json_wf (JObj sample_gate)" and fp: "is_fingerprint (JStr sample_fingerprint)" by code_simp+
  have facts: "facts_agree sample_facts d" "image_agrees sample_facts None" for d
    by (simp_all add: facts_agree_def sample_facts_def image_agrees_def)
  show ?thesis
    unfolding draft_ready_def using wf time fresh fp facts by (simp add: sample_subject verdict dget_Cons)
qed

lemmas sample_authorized = approved_draft_valid [OF sample_ready, folded sample_artifact_def, OF sample_artifact_clean]

theorem approved_draft_authorizes_witness:
  "(\<exists>r. validate_execution_authorization (JObj sample_artifact) sample_gate [''pytest''] sample_facts = Inr r
      \<and> az_execution_authorized r)
   \<and> (\<exists>r. validate_execution_authorization (JObj sample_artifact) sample_gate [''pip''] sample_facts = Inr r
      \<and> \<not> az_execution_authorized r)"
proof -
  note drafted = approved_draft_authorizes [OF sample_ready, folded sample_artifact_def, OF sample_artifact_clean, THEN conjunct1]
  have "fresh_until (JStr ''2200-01-01T00:00:00Z'') (xf_now sample_facts)" "facts_agree sample_facts (gate_subject_of sample_gate)"
    "image_agrees sample_facts None" using sample_ready by (simp_all add: draft_ready_def)
  with drafted [of "[''pytest'']" sample_facts] drafted [of "[''pip'']" sample_facts] show ?thesis by simp
qed

theorem draft_never_authorizes_witness:
  "\<exists>r. validate_execution_authorization (JObj (build_execution_authorization_draft sample_gate [''pytest''] None None))
        sample_gate [''pytest''] sample_facts = Inr r \<and> ''approval_missing'' \<in> set (az_blocking_errors r)"
proof -
  have "returns (validate_execution_authorization (JObj (build_execution_authorization_draft sample_gate [''pytest''] None None))
        sample_gate [''pytest''] sample_facts)"
    by (rule validate_authorization_returns)
      (simp_all add: build_execution_authorization_draft_def Let_def dget_Cons sample_gate_def)
  then obtain r where r: "validate_execution_authorization (JObj (build_execution_authorization_draft sample_gate [''pytest''] None None))
        sample_gate [''pytest''] sample_facts = Inr r" unfolding returns_iff by blast
  from draft_never_authorizes [OF r] r show ?thesis by blast
qed

definition sample_worktree :: dict where
  "sample_worktree = [(''git_available'', JBool True), (''repo_root_matches_target'', JBool True),
     (''commit'', JStr ''c1''), (''tree_hash'', JStr ''t1''), (''dirty_state'', JStr ''clean'')]"

definition sample_bound_artifact :: dict where
  "sample_bound_artifact = [(''subject'', JObj [(''repo'', JStr ''<repo>''), (''commit'', JStr ''c1''), (''tree_hash'', JStr ''sha256:t1'')]),
     (''approved_scope'', JObj [(''binding_kind'', JStr ''tree_bound'')])]"

theorem worktree_binding_matched_witness:
  "dget sample_worktree ''dirty_state'' = JStr ''clean''
   \<and> dget (sect sample_bound_artifact ''approved_scope'') ''binding_kind'' = JStr ''tree_bound''"
proof -
  have "returning wb_matched (validate_execution_authorization_worktree_binding sample_bound_artifact sample_worktree)"
    by code_simp
  then obtain b where b: "validate_execution_authorization_worktree_binding sample_bound_artifact sample_worktree = Inr b" "wb_matched b"
    by (rule returningE)
  have "dget (sect sample_bound_artifact ''approved_scope'') ''binding_kind'' = JStr ''tree_bound''" by code_simp
  with worktree_binding_matched [OF b] show ?thesis by simp
qed

end
