(* ===== verification/Sandbox_Profile.thy ===== *)
theory Sandbox_Profile
  imports Authorization
begin

text \<open>
  sandbox/profiles.py: the execution profiles of a sandbox run and the seccomp profiles that are
  shipped with the package.  The bytes of the packaged files, the JSON parser and the UTF-8
  decoder of the standard library are arguments, and so are the user and group of the process.
\<close>

section \<open>Vocabulary\<close>

definition profile_locked_down :: string where "profile_locked_down = ''locked-down''"
definition profile_inspect_only :: string where "profile_inspect_only = ''inspect-only''"
definition profile_dev_permissive :: string where "profile_dev_permissive = ''dev-permissive''"
definition profile_no_network_default :: string where "profile_no_network_default = ''no-network-default''"
definition profile_no_network_readonly :: string where "profile_no_network_readonly = ''no-network-readonly''"
definition profile_network_explicit :: string where "profile_network_explicit = ''network-explicit''"
definition profile_moby_default :: string where "profile_moby_default = ''rhd-moby-default-v1''"
definition profile_locked_down_seccomp :: string where "profile_locked_down_seccomp = ''rhd-locked-down-v1''"
definition seccomp_runtime_default :: string where "seccomp_runtime_default = ''runtime-default''"

definition seccomp_source_runtime_default :: string where "seccomp_source_runtime_default = ''runtime_default''"
definition seccomp_source_package_data :: string where "seccomp_source_package_data = ''package_data''"

definition seccomp_license_resource :: string where "seccomp_license_resource = ''MOBY-APACHE-2.0.txt''"

definition seccomp_resource_names :: "(string \<times> string \<times> string) list" where
  "seccomp_resource_names =
     [(profile_moby_default, ''rhd-moby-default-v1.json'', ''rhd-moby-default-v1.provenance.json''),
      (profile_locked_down_seccomp, ''rhd-locked-down-v1.json'', ''rhd-locked-down-v1.provenance.json'')]"

definition default_memory_limit :: string where "default_memory_limit = ''512m''"
definition default_cpu_limit :: string where "default_cpu_limit = ''1.0''"
definition default_pids_limit :: int where "default_pids_limit = 256"
definition workdir :: string where "workdir = ''/workspace''"
definition outdir :: string where "outdir = ''/out''"
definition tmp_tmpfs :: string where "tmp_tmpfs = ''/tmp:rw,nosuid,nodev,size=64m''"

section \<open>Execution profiles\<close>

record sandbox_profile =
  sp_name :: string
  sp_implemented :: bool
  sp_refusal_reason :: "string option"
  sp_network :: string
  sp_read_only_rootfs :: bool
  sp_tmpfs :: "string list"
  sp_memory :: string
  sp_cpus :: string
  sp_pids_limit :: int
  sp_user :: string

text \<open>The environment is the same for every profile.\<close>

definition profile_env :: "(string \<times> string) list" where
  "profile_env = [(''HOME'', ''/tmp/home''), (''TMPDIR'', ''/tmp''), (''PYTHONDONTWRITEBYTECODE'', ''1'')]"

definition env_keys :: json where
  "env_keys = jstrs (sort (map fst profile_env))"

definition resource_limits :: "sandbox_profile \<Rightarrow> dict" where
  "resource_limits p =
     [(''memory'', JStr (sp_memory p)), (''cpus'', JStr (sp_cpus p)), (''pids_limit'', JInt (sp_pids_limit p))]"

definition security_options :: "sandbox_profile \<Rightarrow> dict" where
  "security_options p =
     [(''network'', JStr (sp_network p)), (''cap_drop'', jstrs [''ALL'']),
      (''security_opt'', jstrs [''no-new-privileges'']), (''privileged'', JBool False), (''stdin'', JStr ''closed''),
      (''tty'', JBool False), (''docker_socket_mounted'', JBool False), (''host_home_mounted'', JBool False),
      (''credential_mounts'', JBool False), (''ssh_agent_mounted'', JBool False),
      (''read_only_rootfs'', JBool (sp_read_only_rootfs p)), (''env_allowlist'', env_keys)]"

definition root_user :: "string \<Rightarrow> bool" where
  "root_user user \<longleftrightarrow> user \<in> {''0'', ''0:0'', ''root''}"

definition environment_report :: dict where
  "environment_report =
     [(''keys'', env_keys), (''values_recorded'', JBool False), (''host_environment_inherited'', JBool False)]"

definition profile_to_report :: "sandbox_profile \<Rightarrow> dict" where
  "profile_to_report p =
     [(''name'', JStr (sp_name p)), (''implemented'', JBool (sp_implemented p)),
      (''refusal_reason'', str_json (sp_refusal_reason p)), (''network'', JStr (sp_network p)),
      (''filesystem'', JObj
        [(''workdir'', JStr workdir), (''workspace_mount'', JStr ''disposable_bind_mount_read_only''),
         (''out_mount'', JStr ''bounded_tmpfs_64m''), (''original_repo_mounted'', JBool False),
         (''read_only_rootfs'', JBool (sp_read_only_rootfs p)), (''tmpfs'', jstrs (sp_tmpfs p))]),
      (''user'', JObj
        [(''value'', JStr (sp_user p)), (''root'', JBool (root_user (sp_user p))),
         (''policy'', JStr ''non_root_numeric_user_when_available'')]),
      (''resource_limits'', JObj (resource_limits p)), (''security_options'', JObj (security_options p)),
      (''environment'', JObj environment_report)]"

definition default_container_user :: "nat \<Rightarrow> nat \<Rightarrow> string" where
  "default_container_user uid gid =
     (if uid > 0 \<and> gid > 0 then nat_text uid @ '':'' @ nat_text gid else ''65532:65532'')"

definition profile_of :: "string \<Rightarrow> string option \<Rightarrow> string \<Rightarrow> bool \<Rightarrow> string list \<Rightarrow> string \<Rightarrow> sandbox_profile" where
  "profile_of name refusal network read_only tmpfs user =
     \<lparr>sp_name = name, sp_implemented = (refusal = None), sp_refusal_reason = refusal, sp_network = network,
      sp_read_only_rootfs = read_only, sp_tmpfs = tmpfs, sp_memory = default_memory_limit,
      sp_cpus = default_cpu_limit, sp_pids_limit = default_pids_limit, sp_user = user\<rparr>"

definition get_sandbox_profile :: "nat \<Rightarrow> nat \<Rightarrow> string \<Rightarrow> sandbox_profile" where
  "get_sandbox_profile uid gid name =
     (let user = default_container_user uid gid in
      if name \<in> {profile_locked_down, profile_no_network_readonly}
      then profile_of name None ''none'' True [tmp_tmpfs] user
      else if name = profile_no_network_default then profile_of name None ''none'' False [] user
      else if name = profile_inspect_only then profile_of name None ''none'' True [tmp_tmpfs] user
      else if name = profile_dev_permissive then profile_of name (Some ''profile_not_implemented'') ''explicit'' False [] user
      else if name = profile_network_explicit then profile_of name (Some ''profile_not_implemented'') ''explicit'' False [] user
      else profile_of name (Some ''profile_unsupported'') ''unknown'' False [] user)"

definition recognized_profiles :: "string list" where
  "recognized_profiles =
     [profile_locked_down, profile_inspect_only, profile_dev_permissive, profile_no_network_default,
      profile_no_network_readonly, profile_network_explicit]"

section \<open>Packaged seccomp profiles\<close>

record package_data =
  pk_read :: "string \<Rightarrow> string res"
  pk_loads :: "string \<Rightarrow> json res"
  pk_decode :: "string \<Rightarrow> string res"

record seccomp_resource =
  sc_name :: string
  sc_profile :: dict
  sc_provenance :: dict
  sc_license :: string
  sc_sha256 :: string

record seccomp_selection =
  ss_profile :: string
  ss_sha256 :: "string option"
  ss_source :: string

definition seccomp_to_report :: "seccomp_selection \<Rightarrow> dict" where
  "seccomp_to_report s =
     [(''profile'', JStr (ss_profile s)), (''profile_sha256'', str_json (ss_sha256 s)), (''source'', JStr (ss_source s))]"

definition read_seccomp_resource :: "package_data \<Rightarrow> string \<Rightarrow> string res" where
  "read_seccomp_resource pk resource =
     (if resource \<in> set (seccomp_license_resource # concat (map (\<lambda>(n, a, b). [a, b]) seccomp_resource_names))
      then pk_read pk resource else Inl ValueError)"

definition check_seccomp_resource ::
  "string \<Rightarrow> string \<Rightarrow> json \<Rightarrow> json \<Rightarrow> string res \<Rightarrow> seccomp_resource res" where
  "check_seccomp_resource name profile_bytes profile provenance license =
     (case (profile, provenance) of
        (JObj p, JObj v) \<Rightarrow>
          (let digest = sha256_hexdigest profile_bytes in
           if \<not> py_eq (dget v ''profile_sha256'') (JStr digest) then Inl ValueError
           else if \<not> py_eq (dget v ''profile_name'') (JStr name) then Inl ValueError
           else res_map (\<lambda>text. \<lparr>sc_name = name, sc_profile = p, sc_provenance = v, sc_license = text,
                                 sc_sha256 = digest\<rparr>) license)
      | _ \<Rightarrow> Inl ValueError)"

definition resolve_seccomp_profile :: "package_data \<Rightarrow> string \<Rightarrow> seccomp_resource res" where
  "resolve_seccomp_profile pk name =
     (case map_of seccomp_resource_names name of
        None \<Rightarrow> Inl ValueError
      | Some (profile_resource, provenance_resource) \<Rightarrow>
          res_bind (read_seccomp_resource pk profile_resource) (\<lambda>profile_bytes.
          res_bind (read_seccomp_resource pk provenance_resource) (\<lambda>provenance_bytes.
          res_bind (read_seccomp_resource pk seccomp_license_resource) (\<lambda>license_bytes.
          res_bind (pk_loads pk profile_bytes) (\<lambda>profile.
          res_bind (pk_loads pk provenance_bytes) (\<lambda>provenance.
            check_seccomp_resource name profile_bytes profile provenance (pk_decode pk license_bytes)))))))"

definition load_seccomp_profile :: "package_data \<Rightarrow> string \<Rightarrow> dict res" where
  "load_seccomp_profile pk name = res_map sc_profile (resolve_seccomp_profile pk name)"

text \<open>The bytes that are written to the destination; the package is read a second time, as \<open>again\<close>
  answers.  The destination is opened with \<open>"xb"\<close>: a file that exists is a \<open>FileExistsError\<close>.\<close>

definition materialize_seccomp_profile :: "package_data \<Rightarrow> package_data \<Rightarrow> bool \<Rightarrow> string \<Rightarrow> string res" where
  "materialize_seccomp_profile pk again destination_exists name =
     res_bind (resolve_seccomp_profile pk name) (\<lambda>resolved.
       case map_of seccomp_resource_names name of
         None \<Rightarrow> Inl KeyError
       | Some (profile_resource, _) \<Rightarrow>
           res_bind (read_seccomp_resource again profile_resource) (\<lambda>profile_bytes.
             if sha256_hexdigest profile_bytes \<noteq> sc_sha256 resolved then Inl ValueError
             else if destination_exists then Inl OSError else Inr profile_bytes))"

definition resolve_seccomp_selection :: "package_data \<Rightarrow> string \<Rightarrow> seccomp_selection res" where
  "resolve_seccomp_selection pk name =
     (if name = seccomp_runtime_default
      then Inr \<lparr>ss_profile = seccomp_runtime_default, ss_sha256 = None, ss_source = seccomp_source_runtime_default\<rparr>
      else if name \<notin> set (map fst seccomp_resource_names) then Inl ValueError
      else res_map (\<lambda>r. \<lparr>ss_profile = sc_name r, ss_sha256 = Some (sc_sha256 r), ss_source = seccomp_source_package_data\<rparr>)
             (resolve_seccomp_profile pk name))"

section \<open>What a profile guarantees\<close>

text \<open>The user is never root: its text has a colon and a user id above zero.\<close>

lemma nat_text_no_colon: "CHR '':'' \<notin> set (nat_text n)"
  using nat_text_digits [of n] by (auto simp: is_digit_def in_range_def code_def)

lemma zero_text: "nat_text 0 = ''0''"
  by code_simp

lemma container_user_not_root: "\<not> root_user (default_container_user uid gid)"
proof (cases "uid > 0 \<and> gid > 0")
  case True
  have "nat_text uid @ '':'' @ nat_text gid \<noteq> ''0:0''"
  proof
    assume "nat_text uid @ '':'' @ nat_text gid = ''0:0''"
    then have "nat_text uid @ '':'' @ nat_text gid = nat_text 0 @ '':'' @ nat_text 0" by (simp add: zero_text)
    then have "takeWhile (\<lambda>c. c \<noteq> CHR '':'') (nat_text uid @ '':'' @ nat_text gid)
      = takeWhile (\<lambda>c. c \<noteq> CHR '':'') (nat_text 0 @ '':'' @ nat_text 0)" by simp
    moreover have "takeWhile (\<lambda>c. c \<noteq> CHR '':'') (nat_text n @ '':'' @ t) = nat_text n" for n t
      using nat_text_no_colon [of n] by (simp add: takeWhile_tail takeWhile_eq_all_conv) (metis (mono_tags))
    ultimately have "nat_text uid = nat_text 0" by metis
    with True show False by (simp add: nat_text_inj)
  qed
  moreover have "nat_text uid @ '':'' @ nat_text gid \<noteq> ''0''" "nat_text uid @ '':'' @ nat_text gid \<noteq> ''root''"
    by (auto dest: arg_cong [where f = "\<lambda>s. CHR '':'' \<in> set s"])
  ultimately show ?thesis using True by (auto simp: root_user_def default_container_user_def)
qed (auto simp: root_user_def default_container_user_def)

text \<open>More than that: both ids are above zero.\<close>

definition unprivileged_user :: "string \<Rightarrow> bool" where
  "unprivileged_user user \<longleftrightarrow> (\<exists>u g. 0 < u \<and> 0 < g \<and> user = nat_text u @ '':'' @ nat_text g)"

lemma container_user_unprivileged: "unprivileged_user (default_container_user uid gid)"
proof (cases "uid > 0 \<and> gid > 0")
  case True
  then show ?thesis unfolding unprivileged_user_def default_container_user_def by auto
next
  case False
  have "nat_text 65532 = ''65532''" by (simp add: nat_text.simps digit_char_def) code_simp
  then have "default_container_user uid gid = nat_text 65532 @ '':'' @ nat_text 65532"
    using False by (auto simp: default_container_user_def)
  then show ?thesis unfolding unprivileged_user_def by (intro exI [of _ 65532]) simp
qed

lemma profile_filesystem:
  fixes uid gid name
  defines "p \<equiv> get_sandbox_profile uid gid name"
  shows "sp_read_only_rootfs p \<longleftrightarrow> name \<in> {''locked-down'', ''no-network-readonly'', ''inspect-only''}"
    and "sp_read_only_rootfs p \<Longrightarrow> sp_tmpfs p = [''/tmp:rw,nosuid,nodev,size=64m'']"
    and "unprivileged_user (sp_user p)"
proof -
  show "sp_read_only_rootfs p \<longleftrightarrow> name \<in> {''locked-down'', ''no-network-readonly'', ''inspect-only''}"
    by (cases "name \<in> {''locked-down'', ''no-network-readonly'', ''inspect-only''}")
      (auto simp: p_def get_sandbox_profile_def Let_def profile_of_def profile_locked_down_def
        profile_no_network_readonly_def profile_no_network_default_def profile_inspect_only_def profile_dev_permissive_def profile_network_explicit_def)
  show "sp_read_only_rootfs p \<Longrightarrow> sp_tmpfs p = [''/tmp:rw,nosuid,nodev,size=64m'']"
    by (auto simp: p_def get_sandbox_profile_def Let_def profile_of_def tmp_tmpfs_def split: if_splits)
  show "unprivileged_user (sp_user p)"
    by (simp add: p_def get_sandbox_profile_def Let_def profile_of_def container_user_unprivileged)
qed

lemma profile_isolated:
  fixes uid gid name
  defines "p \<equiv> get_sandbox_profile uid gid name"
  shows "sp_name p = name" and "\<not> root_user (sp_user p)" and "sp_implemented p \<longleftrightarrow> sp_refusal_reason p = None"
    and "sp_implemented p \<Longrightarrow> sp_network p = ''none'' \<and> name \<in> set recognized_profiles
      \<and> (sp_read_only_rootfs p \<longleftrightarrow> name \<noteq> profile_no_network_default)"
proof -
  have names: "distinct recognized_profiles"
    by (simp add: recognized_profiles_def profile_locked_down_def profile_no_network_readonly_def
        profile_no_network_default_def profile_inspect_only_def profile_dev_permissive_def profile_network_explicit_def)
  show "sp_name p = name" "\<not> root_user (sp_user p)" "sp_implemented p \<longleftrightarrow> sp_refusal_reason p = None"
    by (simp_all add: p_def get_sandbox_profile_def Let_def profile_of_def container_user_not_root)
  assume "sp_implemented p"
  with names show "sp_network p = ''none'' \<and> name \<in> set recognized_profiles
      \<and> (sp_read_only_rootfs p \<longleftrightarrow> name \<noteq> profile_no_network_default)"
    unfolding p_def get_sandbox_profile_def Let_def recognized_profiles_def
    by (auto simp: profile_of_def split: if_splits)
qed

lemma read_seccomp_Inr: "read_seccomp_resource pk resource = Inr bytes \<Longrightarrow> pk_read pk resource = Inr bytes"
  by (simp add: read_seccomp_resource_def split: if_splits)

lemma checked_seccomp:
  assumes "check_seccomp_resource name bytes profile provenance license = Inr r"
  shows "profile = JObj (sc_profile r)" and "provenance = JObj (sc_provenance r)" and "sc_name r = name"
    and "sc_sha256 r = sha256_hexdigest bytes" and "dget (sc_provenance r) ''profile_sha256'' = JStr (sc_sha256 r)"
  using assms by (cases profile; cases provenance;
    auto simp: check_seccomp_resource_def Let_def res_map_Inr_iff split: if_splits)+

lemma resolved_seccomp:
  assumes "resolve_seccomp_profile pk name = Inr r"
  shows "\<exists>profile_resource provenance_resource bytes. map_of seccomp_resource_names name = Some (profile_resource, provenance_resource)
    \<and> pk_read pk profile_resource = Inr bytes \<and> sc_name r = name \<and> sc_sha256 r = sha256_hexdigest bytes
    \<and> pk_loads pk bytes = Inr (JObj (sc_profile r)) \<and> dget (sc_provenance r) ''profile_sha256'' = JStr (sc_sha256 r)"
proof -
  from assms obtain a b where m: "map_of seccomp_resource_names name = Some (a, b)"
    by (auto simp: resolve_seccomp_profile_def split: option.splits)
  with assms obtain bytes profile provenance license where
    "read_seccomp_resource pk a = Inr bytes" "pk_loads pk bytes = Inr profile"
    "check_seccomp_resource name bytes profile provenance license = Inr r"
    unfolding resolve_seccomp_profile_def by (auto simp: res_bind_Inr_iff)
  with m show ?thesis using read_seccomp_Inr checked_seccomp [of name bytes profile provenance license r] by blast
qed

section \<open>Properties\<close>

text \<open>whoever runs the tool and whatever profile is asked for, the container user is not root, and a
  profile that is implemented has no network.\<close>

theorem profiles_never_root_nor_networked:
  "\<not> root_user (sp_user (get_sandbox_profile uid gid name))
   \<and> (sp_implemented (get_sandbox_profile uid gid name) \<longrightarrow> sp_network (get_sandbox_profile uid gid name) = ''none'')"
  using profile_isolated by simp

theorem profiles_never_root_nor_networked_witness:
  "sp_network (get_sandbox_profile 0 0 profile_inspect_only) = ''none''"
proof -
  have "sp_implemented (get_sandbox_profile 0 0 profile_inspect_only)" by code_simp
  then show ?thesis using profiles_never_root_nor_networked [of 0 0 profile_inspect_only] by simp
qed

text \<open>the seccomp profile that a run materializes has the digest that its report names, and it is the
  file of the package that its provenance describes.\<close>

theorem materialized_seccomp_is_selected:
  assumes "resolve_seccomp_selection pk name = Inr s" and "ss_profile s \<noteq> seccomp_runtime_default"
    and "materialize_seccomp_profile again third destination_exists (ss_profile s) = Inr bytes"
    and "\<forall>resource. pk_read again resource = pk_read pk resource"
  shows "ss_profile s = name \<and> ss_sha256 s = Some (sha256_hexdigest bytes)
    \<and> (\<exists>profile_resource provenance_resource original. map_of seccomp_resource_names name = Some (profile_resource, provenance_resource)
        \<and> pk_read pk profile_resource = Inr original \<and> sha256_hexdigest original = sha256_hexdigest bytes)"
proof -
  from assms(1,2) obtain r where r: "resolve_seccomp_profile pk name = Inr r" "ss_profile s = sc_name r"
    "ss_sha256 s = Some (sc_sha256 r)"
    by (auto simp: resolve_seccomp_selection_def res_map_Inr_iff split: if_splits)
  from resolved_seccomp [OF r(1)] obtain a b original where ori: "map_of seccomp_resource_names name = Some (a, b)"
    "pk_read pk a = Inr original" "sc_name r = name" "sc_sha256 r = sha256_hexdigest original" by (elim exE conjE)
  from assms(3) obtain r2 where r2: "resolve_seccomp_profile again (ss_profile s) = Inr r2"
    and d: "sha256_hexdigest bytes = sc_sha256 r2"
    by (auto simp: materialize_seccomp_profile_def res_bind_Inr_iff split: option.splits if_splits)
  from resolved_seccomp [OF r2] obtain a2 b2 bytes2 where o2: "map_of seccomp_resource_names (ss_profile s) = Some (a2, b2)"
    "pk_read again a2 = Inr bytes2" "sc_sha256 r2 = sha256_hexdigest bytes2" by (elim exE conjE)
  from ori o2 r assms(4) have "bytes2 = original" by simp
  with r ori o2 d show ?thesis by auto
qed

definition sample_package :: package_data where
  "sample_package =
     \<lparr>pk_read = (\<lambda>_. Inr ''{}''),
      pk_loads = (\<lambda>_. Inr (JObj [(''profile_sha256'', JStr (sha256_hexdigest ''{}'')),
        (''profile_name'', JStr profile_locked_down_seccomp)])),
      pk_decode = (\<lambda>s. Inr s)\<rparr>"

lemma sample_resource_names:
  "profile_locked_down_seccomp \<noteq> seccomp_runtime_default"
  "map_of seccomp_resource_names profile_locked_down_seccomp = Some (''rhd-locked-down-v1.json'', ''rhd-locked-down-v1.provenance.json'')"
  by code_simp+

lemma sample_resource_read: "read_seccomp_resource sample_package resource = Inr ''{}''"
  if "resource \<in> {''rhd-locked-down-v1.json'', ''rhd-locked-down-v1.provenance.json'', seccomp_license_resource}"
  using that by (auto simp: read_seccomp_resource_def seccomp_resource_names_def sample_package_def)

lemma sample_resolved:
  "\<exists>r. resolve_seccomp_profile sample_package profile_locked_down_seccomp = Inr r \<and> sc_name r = profile_locked_down_seccomp
     \<and> sc_sha256 r = sha256_hexdigest ''{}''"
  by (simp add: resolve_seccomp_profile_def sample_resource_names sample_resource_read)
    (simp add: sample_package_def check_seccomp_resource_def Let_def dget_Cons)

theorem materialized_seccomp_is_selected_witness:
  "\<exists>s. resolve_seccomp_selection sample_package profile_locked_down_seccomp = Inr s
     \<and> ss_sha256 s = Some (sha256_hexdigest ''{}'')"
proof -
  from sample_resolved obtain r where r: "resolve_seccomp_profile sample_package profile_locked_down_seccomp = Inr r"
    "sc_name r = profile_locked_down_seccomp" "sc_sha256 r = sha256_hexdigest ''{}''" by blast
  have "profile_locked_down_seccomp \<in> set (map fst seccomp_resource_names)"
    by (simp add: seccomp_resource_names_def)
  with r obtain s where s: "resolve_seccomp_selection sample_package profile_locked_down_seccomp = Inr s"
    "ss_profile s = profile_locked_down_seccomp"
    by (simp add: resolve_seccomp_selection_def sample_resource_names)
  have "materialize_seccomp_profile sample_package sample_package False (ss_profile s) = Inr ''{}''"
    using r by (simp add: materialize_seccomp_profile_def s sample_resource_names sample_resource_read)
  from materialized_seccomp_is_selected [OF s(1) _ this] s sample_resource_names show ?thesis by simp
qed

end
