(* ===== verification/Docker_Argv.thy ===== *)
theory Docker_Argv
  imports Sandbox_Profile
begin

text \<open>
  The argument vector of \<open>docker run\<close> (sandbox/docker_runner.py): its construction from the
  profile, and the check of the finished vector that refuses every option outside a short list.
  Every refusal of this code is a \<open>ValueError\<close>.
\<close>

section \<open>Vocabulary\<close>

definition pull_policy :: string where "pull_policy = ''never''"

definition allowed_network_modes :: "string list" where "allowed_network_modes = [''none'']"

definition prohibited_security_options :: "string list" where
  "prohibited_security_options = [''seccomp=unconfined'', ''apparmor=unconfined'']"

definition allowed_run_flags :: "string list" where "allowed_run_flags = [''--rm'', ''--read-only'']"

definition allowed_run_pairs :: "string list" where
  "allowed_run_pairs =
     [''--network'', ''--workdir'', ''--cap-drop'', ''--security-opt'', ''--memory'', ''--cpus'', ''--pids-limit'',
      ''--user'', ''--env'', ''--tmpfs'', ''--mount'', ''--label'', ''--cidfile'']"

definition run_label_prefix :: string where "run_label_prefix = ''com.repo-health-doctor.run-id=''"

definition run_id_rx :: rx where "run_id_rx = rx_times 32 (Cls is_hex_lower)"

definition out_tmpfs_spec :: string where "out_tmpfs_spec = ''/out:rw,nosuid,nodev,size=64m,nr_inodes=4096''"

section \<open>The check of the vector\<close>

definition is_control :: "char \<Rightarrow> bool" where
  "is_control c \<longleftrightarrow> code c < 32 \<or> code c = 127"

definition mount_is_prohibited :: "string \<Rightarrow> bool res" where
  "mount_is_prohibited value =
     (let lowered = py_lower value in
      if str_in ''docker.sock'' lowered then Inl ValueError
      else Inr (list_ex (\<lambda>fragment. str_in fragment lowered) [''dst=/'', ''dst=/etc'', ''dst=/mnt'', ''dst=/root'']
                \<and> \<not> str_in ''dst=/workspace'' lowered \<and> \<not> str_in ''dst=/out'' lowered))"

text \<open>An option that takes its value from the next token.\<close>

definition check_pair :: "string \<Rightarrow> string \<Rightarrow> unit res" where
  "check_pair token value =
     (if token = ''--network'' \<and> value \<notin> set allowed_network_modes then Inl ValueError
      else if token = ''--label'' \<and> \<not> starts_with value run_label_prefix then Inl ValueError
      else
        res_bind (if token = ''--mount'' then mount_is_prohibited value else Inr False) (\<lambda>prohibited.
          if prohibited then Inl ValueError
          else if token = ''--security-opt''
            \<and> list_ex (\<lambda>option. str_in option (py_lower value)) prohibited_security_options then Inl ValueError
          else if token = ''--pull'' \<and> value \<noteq> pull_policy then Inl ValueError
          else Inr ()))"

text \<open>The loop over the tokens before the image, with the numbers of \<open>--pull=never\<close> and of
  \<open>--network none\<close> seen so far.\<close>

fun scan_options :: "nat \<Rightarrow> nat \<Rightarrow> string list \<Rightarrow> (nat \<times> nat) res" where
  "scan_options pulls networks [] = Inr (pulls, networks)"
| "scan_options pulls networks (token # rest) =
     (if token \<in> set allowed_run_flags then scan_options pulls networks rest
      else if starts_with token ''--pull=''
      then (if token \<noteq> ''--pull='' @ pull_policy then Inl ValueError else scan_options (Suc pulls) networks rest)
      else if token \<in> set allowed_run_pairs
      then (case rest of
              [] \<Rightarrow> Inl ValueError
            | value # rest' \<Rightarrow>
                (case check_pair token value of
                   Inl e \<Rightarrow> Inl e
                 | Inr u \<Rightarrow> scan_options pulls (if token = ''--network'' then Suc networks else networks) rest'))
      else if starts_with token ''--network=''
      then (if token \<noteq> ''--network=none'' then Inl ValueError else scan_options pulls (Suc networks) rest)
      else Inl ValueError)"

declare scan_options.simps [simp del]

text \<open>\<open>argv.index(image, 2)\<close>, counted from the third token; and without an image, the first token
  that is not an option of the list.\<close>

fun index_of :: "'a \<Rightarrow> 'a list \<Rightarrow> nat option" where
  "index_of x [] = None"
| "index_of x (y # ys) = (if y = x then Some 0 else map_option Suc (index_of x ys))"

fun first_positional :: "string list \<Rightarrow> nat option" where
  "first_positional [] = None"
| "first_positional (token # rest) =
     (if token \<in> set allowed_run_flags \<or> starts_with token ''--pull='' \<or> starts_with token ''--network=''
      then map_option Suc (first_positional rest)
      else if token \<in> set allowed_run_pairs
      then (case rest of [] \<Rightarrow> None | value # rest' \<Rightarrow> map_option (Suc \<circ> Suc) (first_positional rest'))
      else Some 0)"

definition find_image_index :: "string list \<Rightarrow> string option \<Rightarrow> nat option" where
  "find_image_index argv reference =
     (case reference of Some i \<Rightarrow> index_of i (drop 2 argv) | None \<Rightarrow> first_positional (drop 2 argv))"

definition assert_no_prohibited_docker_options :: "string list \<Rightarrow> string option \<Rightarrow> unit res" where
  "assert_no_prohibited_docker_options argv reference =
     (case find_image_index argv reference of
        None \<Rightarrow> Inl ValueError
      | Some n \<Rightarrow>
          (let tokens = drop 2 argv; options = take n tokens; command = drop (Suc n) tokens in
           if \<not> is_safe_docker_image_token (JStr (tokens ! n)) then Inl ValueError
           else
             res_bind (scan_options 0 0 options) (\<lambda>(pulls, networks).
               if command = [] then Inl ValueError
               else if list_ex (list_ex is_control) command then Inl ValueError
               else if pulls \<noteq> 1 then Inl ValueError
               else if networks \<noteq> 1 then Inl ValueError
               else Inr ())))"

section \<open>The construction\<close>

definition seccomp_arguments_ok :: "string \<Rightarrow> string option \<Rightarrow> bool" where
  "seccomp_arguments_ok name path \<longleftrightarrow>
     (if name = seccomp_runtime_default then path = None
      else name \<in> {profile_moby_default, profile_locked_down_seccomp} \<and> path \<noteq> None)"

definition bind_mount :: "string \<Rightarrow> string" where
  "bind_mount workspace_path = ''type=bind,src='' @ workspace_path @ '',dst='' @ workdir @ '',readonly''"

definition docker_options ::
  "sandbox_profile \<Rightarrow> string option \<Rightarrow> string option \<Rightarrow> string option \<Rightarrow> string \<Rightarrow> string list" where
  "docker_options p seccomp_path label cidfile workspace_path =
     [''--rm'', ''--pull=never'', ''--network'', ''none'', ''--workdir'', workdir, ''--cap-drop'', ''ALL'',
      ''--security-opt'', ''no-new-privileges'']
     @ (case seccomp_path of None \<Rightarrow> [] | Some path \<Rightarrow> [''--security-opt'', ''seccomp='' @ path])
     @ [''--memory'', sp_memory p, ''--cpus'', sp_cpus p, ''--pids-limit'', int_text (sp_pids_limit p),
        ''--user'', sp_user p]
     @ concat (map (\<lambda>(key, value). [''--env'', key @ ''='' @ value]) profile_env)
     @ (if sp_read_only_rootfs p then ''--read-only'' # concat (map (\<lambda>t. [''--tmpfs'', t]) (sp_tmpfs p)) else [])
     @ (case label of None \<Rightarrow> [] | Some l \<Rightarrow> [''--label'', run_label_prefix @ l])
     @ (case cidfile of None \<Rightarrow> [] | Some path \<Rightarrow> [''--cidfile'', path])
     @ [''--mount'', bind_mount workspace_path, ''--tmpfs'', out_tmpfs_spec]"

definition build_docker_run_argv ::
  "string \<Rightarrow> string list \<Rightarrow> string \<Rightarrow> sandbox_profile \<Rightarrow> string \<Rightarrow> string option \<Rightarrow> string option \<Rightarrow> string option
    \<Rightarrow> string list res" where
  "build_docker_run_argv reference command workspace_path p seccomp_name seccomp_path label cidfile =
     (if command = [] then Inl ValueError
      else if \<not> is_safe_docker_image_token (JStr reference) then Inl ValueError
      else if \<not> seccomp_arguments_ok seccomp_name seccomp_path then Inl ValueError
      else if (case label of None \<Rightarrow> False | Some l \<Rightarrow> \<not> rx_fullmatch run_id_rx l) then Inl ValueError
      else
        (let argv = [''docker'', ''run''] @ docker_options p seccomp_path label cidfile workspace_path @ reference # command in
         res_map (\<lambda>_. argv) (assert_no_prohibited_docker_options argv (Some reference))))"

section \<open>The report of the invocation\<close>

definition is_digest_pinned :: "string \<Rightarrow> bool" where
  "is_digest_pinned image_reference \<longleftrightarrow> str_in ''@sha256:'' image_reference"

definition latest_tag :: "string \<Rightarrow> bool" where
  "latest_tag image_reference \<longleftrightarrow> image_reference = ''latest'' \<or> ends_with image_reference '':latest''"

record runtime_facts =
  rf_rootless :: string
  rf_userns :: string

definition unknown_runtime :: runtime_facts where
  "unknown_runtime = \<lparr>rf_rootless = ''unknown'', rf_userns = ''unknown''\<rparr>"

definition docker_report_fields ::
  "string \<Rightarrow> sandbox_profile \<Rightarrow> string list \<Rightarrow> runtime_facts \<Rightarrow> string \<Rightarrow> bool \<Rightarrow> dict" where
  "docker_report_fields image_reference p argv_redacted runtime runner_name docker_invoked =
     [(''image'', JStr (if is_safe_docker_image_token (JStr image_reference) then image_reference else ''<invalid-image>'')),
      (''image_digest_pinned'', JBool (is_digest_pinned image_reference)),
      (''latest_tag'', JBool (latest_tag image_reference)), (''pull_policy'', JStr pull_policy),
      (''network'', JStr (sp_network p)), (''workdir'', JStr workdir),
      (''mounts_summary'', JObj
        [(''workspace'', JObj
           [(''source'', JStr ''<disposable-workspace>''), (''target'', JStr workdir), (''read_only'', JBool True)]),
         (''out'', JObj
           [(''source'', JStr ''<bounded-tmpfs>''), (''target'', JStr outdir), (''read_only'', JBool False),
            (''size'', JStr ''64m''), (''max_files'', JInt 4096), (''host_backed'', JBool False)]),
         (''docker_socket'', JStr ''not_mounted''), (''host_home'', JStr ''not_mounted''),
         (''credentials'', JStr ''not_mounted''), (''ssh_agent'', JStr ''not_mounted'')]),
      (''resource_limits'', JObj (resource_limits p)), (''security_options'', JObj (security_options p)),
      (''env'', JObj environment_report), (''user'', JStr (sp_user p)),
      (''root_container_user'', JBool (root_user (sp_user p))),
      (''rootless_docker_detected'', JStr (rf_rootless runtime)), (''userns_remap_detected'', JStr (rf_userns runtime)),
      (''argv_redacted'', jstrs argv_redacted), (''runner'', JStr runner_name), (''invoked'', JBool docker_invoked),
      (''docker_invoked'', JBool docker_invoked), (''exit_code'', JNull), (''failure_class'', JNull),
      (''diagnostic_redacted'', JNull), (''stdout_preview_redacted'', JStr ''''), (''stderr_preview_redacted'', JStr ''''),
      (''container_tracking_enabled'', JBool False), (''cleanup_attempted'', JBool False),
      (''cleanup_status'', JStr ''not_attempted''), (''cleanup_failure_class'', JNull),
      (''command_start_state'', JStr ''not_started''), (''stdout_bytes'', JInt 0), (''stderr_bytes'', JInt 0),
      (''total_output_bytes'', JInt 0), (''stdout_truncated'', JBool False), (''stderr_truncated'', JBool False),
      (''output_budget_exceeded'', JBool False)]"

section \<open>The options a vector may have\<close>

text \<open>The options as \<open>docker\<close> reads them: a flag, an option with its value in the same token, an option
  whose value is the next token.\<close>

datatype run_option = Flag string | Assigned string | Valued string string

fun option_tokens :: "run_option \<Rightarrow> string list" where
  "option_tokens (Flag t) = [t]"
| "option_tokens (Assigned t) = [t]"
| "option_tokens (Valued t v) = [t, v]"

text \<open>What each option may say, without reference to the code's own tables and tests: a text occurs in
  another, whatever the case of its letters.\<close>

definition mentions :: "string \<Rightarrow> string \<Rightarrow> bool" where
  "mentions text part \<longleftrightarrow> (\<exists>before after. py_lower text = before @ part @ after)"

definition allowed_value :: "string \<Rightarrow> string \<Rightarrow> bool" where
  "allowed_value t v \<longleftrightarrow>
     t = ''--network'' \<and> v = ''none''
     \<or> t = ''--label'' \<and> (\<exists>run. v = ''com.repo-health-doctor.run-id='' @ run)
     \<or> t = ''--mount'' \<and> \<not> mentions v ''docker.sock''
         \<and> (mentions v ''dst=/'' \<longrightarrow> mentions v ''dst=/workspace'' \<or> mentions v ''dst=/out'')
     \<or> t = ''--security-opt'' \<and> \<not> mentions v ''seccomp=unconfined'' \<and> \<not> mentions v ''apparmor=unconfined''
     \<or> t \<in> {''--workdir'', ''--cap-drop'', ''--memory'', ''--cpus'', ''--pids-limit'', ''--user'', ''--env'', ''--tmpfs'', ''--cidfile''}"

fun allowed_option :: "run_option \<Rightarrow> bool" where
  "allowed_option (Flag t) = (t = ''--rm'' \<or> t = ''--read-only'')"
| "allowed_option (Assigned t) = (t = ''--pull=never'' \<or> t = ''--network=none'')"
| "allowed_option (Valued t v) = allowed_value t v"

fun option_values :: "string \<Rightarrow> run_option list \<Rightarrow> string list" where
  "option_values t [] = []"
| "option_values t (Valued u v # os) = (if u = t then v # option_values t os else option_values t os)"
| "option_values t (Flag u # os) = option_values t os"
| "option_values t (Assigned u # os) = option_values t os"

lemma mentions_iff: "str_in part (py_lower text) \<longleftrightarrow> mentions text part"
  by (auto simp: mentions_def str_in_iff sublist_def)

lemma mentions_prefix: "mentions text (part @ rest) \<Longrightarrow> mentions text part"
  unfolding mentions_def by (metis append.assoc)

lemma mount_is_prohibited_iff:
  "mount_is_prohibited v = Inr False \<longleftrightarrow>
     \<not> mentions v ''docker.sock'' \<and> (mentions v ''dst=/'' \<longrightarrow> mentions v ''dst=/workspace'' \<or> mentions v ''dst=/out'')"
proof -
  have "mentions v ''dst=/etc'' \<or> mentions v ''dst=/mnt'' \<or> mentions v ''dst=/root'' \<Longrightarrow> mentions v ''dst=/''"
    using mentions_prefix [of v "''dst=/''" "''etc''"] mentions_prefix [of v "''dst=/''" "''mnt''"]
      mentions_prefix [of v "''dst=/''" "''root''"] by auto
  then show ?thesis by (auto simp: mount_is_prohibited_def Let_def mentions_iff)
qed

text \<open>The code's test of a value agrees with it.\<close>

lemma check_pair_iff: "t \<in> set allowed_run_pairs \<and> check_pair t v = Inr () \<longleftrightarrow> allowed_value t v"
proof (cases "t \<in> {''--network'', ''--label'', ''--mount'', ''--security-opt''}")
  case True
  then consider "t = ''--network''" | "t = ''--label''" | "t = ''--mount''" | "t = ''--security-opt''" by blast
  then show ?thesis
  proof cases
    case 3
    have "check_pair ''--mount'' v = Inr () \<longleftrightarrow> mount_is_prohibited v = Inr False"
      by (cases "mount_is_prohibited v") (auto simp: check_pair_def)
    with 3 show ?thesis by (simp add: allowed_value_def mount_is_prohibited_iff allowed_run_pairs_def)
  next
    case 2
    then show ?thesis
      by (auto simp: allowed_value_def check_pair_def allowed_run_pairs_def run_label_prefix_def starts_with_def prefix_def)
  qed (auto simp: allowed_value_def check_pair_def allowed_run_pairs_def allowed_network_modes_def
      prohibited_security_options_def mentions_iff)
next
  case False
  then show ?thesis by (auto simp: allowed_value_def check_pair_def allowed_run_pairs_def)
qed

lemma allowed_option_iff:
  "allowed_option (Flag t) \<longleftrightarrow> t \<in> set allowed_run_flags"
  "allowed_option (Valued t v) \<longleftrightarrow> t \<in> set allowed_run_pairs \<and> check_pair t v = Inr ()"
  by (simp_all add: allowed_run_flags_def check_pair_iff)

declare allowed_option.simps(1,3) [simp del]
declare allowed_option_iff [simp]

fun is_pull :: "run_option \<Rightarrow> bool" where
  "is_pull (Assigned t) = (t = ''--pull=never'')"
| "is_pull _ = False"

fun is_network :: "run_option \<Rightarrow> bool" where
  "is_network (Assigned t) = (t = ''--network=none'')"
| "is_network (Valued t v) = (t = ''--network'')"
| "is_network _ = False"

lemma option_values_append [simp]: "option_values t (os @ ps) = option_values t os @ option_values t ps"
  by (induction t os rule: option_values.induct) simp_all

lemma token_kinds:
  "t \<in> set allowed_run_flags \<Longrightarrow> \<not> starts_with t ''--pull='' \<and> \<not> starts_with t ''--network='' \<and> t \<notin> set allowed_run_pairs"
  "t \<in> set allowed_run_pairs \<Longrightarrow> \<not> starts_with t ''--pull='' \<and> \<not> starts_with t ''--network='' \<and> t \<notin> set allowed_run_flags"
  "\<not> ''--network=none'' \<in> set allowed_run_pairs" "\<not> ''--network=none'' \<in> set allowed_run_flags"
  "\<not> starts_with ''--network=none'' ''--pull=''" "starts_with ''--network=none'' ''--network=''"
  "\<not> ''--pull=never'' \<in> set allowed_run_flags" "starts_with ''--pull=never'' ''--pull=''"
  by (auto simp: allowed_run_flags_def allowed_run_pairs_def starts_with_def)

lemma scan_cases:
  "scan_options p n [] = Inr (p, n)"
  "t \<in> set allowed_run_flags \<Longrightarrow> scan_options p n (t # ts) = scan_options p n ts"
  "scan_options p n (''--pull=never'' # ts) = scan_options (Suc p) n ts"
  "scan_options p n (''--network=none'' # ts) = scan_options p (Suc n) ts"
  "t \<in> set allowed_run_pairs \<Longrightarrow> check_pair t v = Inr () \<Longrightarrow>
     scan_options p n (t # v # ts) = scan_options p (if t = ''--network'' then Suc n else n) ts"
  by (simp_all add: scan_options.simps token_kinds pull_policy_def)

lemma scan_complete:
  assumes "list_all allowed_option os"
  shows "scan_options p n (concat (map option_tokens os) @ ts)
    = scan_options (p + length (filter is_pull os)) (n + length (filter is_network os)) ts"
  using assms
proof (induction os arbitrary: p n)
  case (Cons o1 os)
  have "allowed_option o1" "list_all allowed_option os" using Cons.prems by simp_all
  with Cons.IH show ?case by (cases o1) (auto simp: scan_cases)
qed simp

lemma scan_sound:
  assumes "scan_options p n ts = Inr (q, m)"
  shows "\<exists>os. ts = concat (map option_tokens os) \<and> list_all allowed_option os
    \<and> q = p + length (filter is_pull os) \<and> m = n + length (filter is_network os)"
  using assms
proof (induction p n ts rule: scan_options.induct)
  case (1 p n)
  then show ?case by (intro exI [of _ "[]"]) (simp add: scan_options.simps)
next
  case (2 p n token rest)
  note step = "2.prems" [unfolded scan_options.simps(2) [of p n token rest]]
  consider (flag) "token \<in> set allowed_run_flags"
    | (pull) "token \<notin> set allowed_run_flags" "starts_with token ''--pull=''"
    | (pair) "token \<notin> set allowed_run_flags" "\<not> starts_with token ''--pull=''" "token \<in> set allowed_run_pairs"
    | (network) "token \<notin> set allowed_run_flags" "\<not> starts_with token ''--pull=''" "token \<notin> set allowed_run_pairs"
        "starts_with token ''--network=''"
    using step by (auto split: if_splits)
  then show ?case
  proof cases
    case flag
    with step have "scan_options p n rest = Inr (q, m)" by simp
    from "2.IH"(1) [OF flag this] obtain os where "rest = concat (map option_tokens os)" "list_all allowed_option os"
      "q = p + length (filter is_pull os)" "m = n + length (filter is_network os)" by (elim exE conjE)
    with flag show ?thesis by (intro exI [of _ "Flag token # os"]) simp
  next
    case pull
    with step have t: "token = ''--pull='' @ pull_policy" and r: "scan_options (Suc p) n rest = Inr (q, m)"
      by (simp_all split: if_splits)
    from "2.IH"(2) [OF pull _ r] t obtain os where "rest = concat (map option_tokens os)" "list_all allowed_option os"
      "q = Suc p + length (filter is_pull os)" "m = n + length (filter is_network os)" by blast
    with t show ?thesis
      by (intro exI [of _ "Assigned token # os"]) (simp add: pull_policy_def)
  next
    case pair
    with step obtain val rest' where rest: "rest = val # rest'" and v: "check_pair token val = Inr ()"
      and r: "scan_options p (if token = ''--network'' then Suc n else n) rest' = Inr (q, m)"
      by (auto split: list.splits sum.splits)
    from "2.IH"(3) [OF pair rest v r] obtain os where "rest' = concat (map option_tokens os)" "list_all allowed_option os"
      "q = p + length (filter is_pull os)"
      "m = (if token = ''--network'' then Suc n else n) + length (filter is_network os)" by (elim exE conjE)
    with rest v pair show ?thesis by (intro exI [of _ "Valued token val # os"]) simp
  next
    case network
    with step have t: "token = ''--network=none''" and r: "scan_options p (Suc n) rest = Inr (q, m)"
      by (simp_all split: if_splits)
    from "2.IH"(4) [OF network(1,2,3,4) _ r] t obtain os where "rest = concat (map option_tokens os)"
      "list_all allowed_option os" "q = p + length (filter is_pull os)" "m = Suc n + length (filter is_network os)" by blast
    with t show ?thesis by (intro exI [of _ "Assigned token # os"]) simp
  qed
qed

lemma index_of_Some: "index_of x ys = Some n \<longleftrightarrow> n < length ys \<and> ys ! n = x \<and> x \<notin> set (take n ys)"
proof (induction ys arbitrary: n)
  case (Cons y ys)
  then show ?case by (cases n) auto
qed simp

lemma index_of_append: "x \<notin> set us \<Longrightarrow> index_of x (us @ x # vs) = Some (length us)"
  by (induction us) auto

text \<open>What follows the image, and what comes before it.\<close>

definition confined :: "string \<Rightarrow> run_option list \<Rightarrow> string list \<Rightarrow> bool" where
  "confined reference os command \<longleftrightarrow>
     list_all allowed_option os \<and> length (filter is_pull os) = 1 \<and> length (filter is_network os) = 1
     \<and> reference \<notin> set (concat (map option_tokens os)) \<and> is_safe_docker_image_token (JStr reference)
     \<and> command \<noteq> [] \<and> \<not> list_ex (list_ex is_control) command"

lemma assert_confined:
  "assert_no_prohibited_docker_options argv (Some reference) = Inr () \<longleftrightarrow>
     (\<exists>os command. drop 2 argv = concat (map option_tokens os) @ reference # command \<and> confined reference os command)"
proof
  assume a: "assert_no_prohibited_docker_options argv (Some reference) = Inr ()"
  then obtain n where n: "index_of reference (drop 2 argv) = Some n"
    by (auto simp: assert_no_prohibited_docker_options_def find_image_index_def split: option.splits)
  define ts where "ts = drop 2 argv"
  from n have split: "ts = take n ts @ reference # drop (Suc n) ts" and before: "reference \<notin> set (take n ts)"
    and nth: "ts ! n = reference"
    by (auto simp: index_of_Some ts_def [symmetric] id_take_nth_drop)
  have rest: "is_safe_docker_image_token (JStr reference)" "scan_options 0 0 (take n ts) = Inr (1, 1)"
    "drop (Suc n) ts \<noteq> []" "\<not> list_ex (list_ex is_control) (drop (Suc n) ts)"
    using a n nth
    by (auto simp: assert_no_prohibited_docker_options_def find_image_index_def ts_def [symmetric] Let_def
        res_bind_Inr_iff split: if_splits)
  from scan_sound [OF rest(2)] obtain os where os: "take n ts = concat (map option_tokens os)" "list_all allowed_option os"
    "1 = 0 + length (filter is_pull os)" "1 = 0 + length (filter is_network os)" by (elim exE conjE)
  have "confined reference os (drop (Suc n) ts)"
    using rest os before by (simp add: confined_def)
  with split os(1) show "\<exists>os command. drop 2 argv = concat (map option_tokens os) @ reference # command \<and> confined reference os command"
    unfolding ts_def [symmetric] by metis
next
  assume "\<exists>os command. drop 2 argv = concat (map option_tokens os) @ reference # command \<and> confined reference os command"
  then obtain os command where ts: "drop 2 argv = concat (map option_tokens os) @ reference # command"
    and c: "confined reference os command" by (elim exE conjE)
  have i: "index_of reference (drop 2 argv) = Some (length (concat (map option_tokens os)))"
    unfolding ts by (rule index_of_append) (use c in \<open>simp add: confined_def\<close>)
  have "scan_options 0 0 (concat (map option_tokens os)) = Inr (1, 1)"
    using scan_complete [of os 0 0 "[]"] c by (simp add: confined_def scan_options.simps)
  with c i show "assert_no_prohibited_docker_options argv (Some reference) = Inr ()"
    by (simp add: assert_no_prohibited_docker_options_def find_image_index_def ts confined_def Let_def nth_append)
qed

section \<open>The vector that is built\<close>

text \<open>The tokens before the image can be read in one way only.\<close>

fun option_shape :: "run_option \<Rightarrow> bool" where
  "option_shape (Flag t) = (t \<in> set allowed_run_flags)"
| "option_shape (Assigned t) = (t = ''--pull=never'' \<or> t = ''--network=none'')"
| "option_shape (Valued t v) = (t \<in> set allowed_run_pairs)"

lemma allowed_shape: "allowed_option o1 \<Longrightarrow> option_shape o1"
  by (cases o1) simp_all

lemma shape_head: "option_shape o1 \<Longrightarrow> \<exists>t us. option_tokens o1 = t # us \<and> starts_with t ''-''"
  by (cases o1) (auto simp: allowed_run_flags_def allowed_run_pairs_def starts_with_def)

lemma shape_determined:
  assumes "option_shape o1" and "option_shape o2" and "option_tokens o1 @ xs = option_tokens o2 @ ys"
  shows "o1 = o2 \<and> xs = ys"
  using assms
proof (cases o1; cases o2)
  fix t v u assume "o1 = Assigned t" "o2 = Valued u v"
  with assms show ?thesis using token_kinds(3,8) token_kinds(2) [of u] by (auto simp: allowed_run_pairs_def)
next
  fix t v u assume "o1 = Valued t v" "o2 = Assigned u"
  with assms show ?thesis by (auto simp: allowed_run_pairs_def)
qed (auto simp: allowed_run_pairs_def allowed_run_flags_def)

lemma parse_unique:
  assumes "list_all option_shape os" and "list_all option_shape ps" and "\<not> starts_with reference ''-''"
    and "concat (map option_tokens os) @ reference # c = concat (map option_tokens ps) @ reference # d"
  shows "os = ps \<and> c = d"
  using assms
proof (induction os arbitrary: ps)
  case Nil
  show ?case
  proof (cases ps)
    case (Cons o2 ps')
    with Nil.prems shape_head [of o2] show ?thesis by auto
  qed (use Nil.prems in simp)
next
  case (Cons o1 os)
  have s: "option_shape o1" "list_all option_shape os" using Cons.prems(1) by simp_all
  show ?case
  proof (cases ps)
    case Nil
    with Cons.prems shape_head [OF s(1)] show ?thesis by auto
  next
    case (Cons o2 ps')
    with Cons.prems have r: "option_shape o2" "list_all option_shape ps'" by simp_all
    from \<open>ps = o2 # ps'\<close> Cons.prems(4)
    have e: "option_tokens o1 @ concat (map option_tokens os) @ reference # c
      = option_tokens o2 @ concat (map option_tokens ps') @ reference # d" by simp
    from shape_determined [OF s(1) r(1) e] have eq: "o1 = o2"
      "concat (map option_tokens os) @ reference # c = concat (map option_tokens ps') @ reference # d" by auto
    from Cons.IH [OF s(2) r(2) Cons.prems(3) eq(2)] eq(1) \<open>ps = o2 # ps'\<close> show ?thesis by simp
  qed
qed

definition built_options ::
  "sandbox_profile \<Rightarrow> string option \<Rightarrow> string option \<Rightarrow> string option \<Rightarrow> string \<Rightarrow> run_option list" where
  "built_options p seccomp_path label cidfile workspace_path =
     [Flag ''--rm'', Assigned ''--pull=never'', Valued ''--network'' ''none'', Valued ''--workdir'' workdir,
      Valued ''--cap-drop'' ''ALL'', Valued ''--security-opt'' ''no-new-privileges'']
     @ (case seccomp_path of None \<Rightarrow> [] | Some path \<Rightarrow> [Valued ''--security-opt'' (''seccomp='' @ path)])
     @ [Valued ''--memory'' (sp_memory p), Valued ''--cpus'' (sp_cpus p),
        Valued ''--pids-limit'' (int_text (sp_pids_limit p)), Valued ''--user'' (sp_user p)]
     @ map (\<lambda>(key, value). Valued ''--env'' (key @ ''='' @ value)) profile_env
     @ (if sp_read_only_rootfs p then Flag ''--read-only'' # map (Valued ''--tmpfs'') (sp_tmpfs p) else [])
     @ (case label of None \<Rightarrow> [] | Some l \<Rightarrow> [Valued ''--label'' (run_label_prefix @ l)])
     @ (case cidfile of None \<Rightarrow> [] | Some path \<Rightarrow> [Valued ''--cidfile'' path])
     @ [Valued ''--mount'' (bind_mount workspace_path), Valued ''--tmpfs'' out_tmpfs_spec]"

lemma concat_option_tokens_map: "concat (map option_tokens (map (Valued t) vs)) = concat (map (\<lambda>v. [t, v]) vs)"
  by (induction vs) simp_all

lemma built_tokens:
  "concat (map option_tokens (built_options p seccomp_path label cidfile workspace_path))
    = docker_options p seccomp_path label cidfile workspace_path"
  using concat_option_tokens_map [of "''--tmpfs''" "sp_tmpfs p"]
  by (simp add: built_options_def docker_options_def profile_env_def split: option.split)

lemma built_shape: "list_all option_shape (built_options p seccomp_path label cidfile workspace_path)"
  by (auto simp: built_options_def profile_env_def allowed_run_flags_def allowed_run_pairs_def list_all_iff split: option.split)

lemma option_values_other: "t \<noteq> u \<Longrightarrow> option_values t (map (Valued u) vs) = []"
  by (induction vs) simp_all

lemma built_values:
  fixes p seccomp_path label cidfile workspace_path
  defines "os \<equiv> built_options p seccomp_path label cidfile workspace_path"
  shows "option_values ''--mount'' os = [bind_mount workspace_path]"
    and "option_values ''--network'' os = [''none'']"
    and "option_values ''--cap-drop'' os = [''ALL'']"
    and "option_values ''--user'' os = [sp_user p]"
    and "option_values ''--security-opt'' os
      = ''no-new-privileges'' # (case seccomp_path of None \<Rightarrow> [] | Some path \<Rightarrow> [''seccomp='' @ path])"
    and "option_values ''--label'' os = (case label of None \<Rightarrow> [] | Some l \<Rightarrow> [run_label_prefix @ l])"
    and "option_values ''--cidfile'' os = (case cidfile of None \<Rightarrow> [] | Some path \<Rightarrow> [path])"
    and "option_values ''--tmpfs'' os = (if sp_read_only_rootfs p then sp_tmpfs p else []) @ [out_tmpfs_spec]"
    and "Flag ''--read-only'' \<in> set os \<longleftrightarrow> sp_read_only_rootfs p"
proof -
  have same: "option_values ''--tmpfs'' (map (Valued ''--tmpfs'') vs) = vs" for vs
    by (induction vs) simp_all
  show "option_values ''--mount'' os = [bind_mount workspace_path]"
    "option_values ''--network'' os = [''none'']" "option_values ''--cap-drop'' os = [''ALL'']"
    "option_values ''--user'' os = [sp_user p]"
    "option_values ''--security-opt'' os
      = ''no-new-privileges'' # (case seccomp_path of None \<Rightarrow> [] | Some path \<Rightarrow> [''seccomp='' @ path])"
    "option_values ''--label'' os = (case label of None \<Rightarrow> [] | Some l \<Rightarrow> [run_label_prefix @ l])"
    "option_values ''--cidfile'' os = (case cidfile of None \<Rightarrow> [] | Some path \<Rightarrow> [path])"
    "option_values ''--tmpfs'' os = (if sp_read_only_rootfs p then sp_tmpfs p else []) @ [out_tmpfs_spec]"
    "Flag ''--read-only'' \<in> set os \<longleftrightarrow> sp_read_only_rootfs p"
    unfolding os_def built_options_def profile_env_def
    by (auto simp: option_values_other same split: option.split)
qed

lemma safe_token_dash: "is_safe_docker_image_token (JStr s) \<Longrightarrow> \<not> starts_with s ''-''"
  by (simp add: is_safe_docker_image_token_def)

lemma built_argv:
  assumes "build_docker_run_argv reference command workspace_path p seccomp_name seccomp_path label cidfile = Inr argv"
  shows "argv = [''docker'', ''run''] @ concat (map option_tokens (built_options p seccomp_path label cidfile workspace_path))
      @ reference # command
    \<and> confined reference (built_options p seccomp_path label cidfile workspace_path) command
    \<and> seccomp_arguments_ok seccomp_name seccomp_path"
proof -
  let ?os = "built_options p seccomp_path label cidfile workspace_path"
  from assms have argv: "argv = [''docker'', ''run''] @ docker_options p seccomp_path label cidfile workspace_path @ reference # command"
    and a: "assert_no_prohibited_docker_options argv (Some reference) = Inr ()"
    and safe: "is_safe_docker_image_token (JStr reference)" and sc: "seccomp_arguments_ok seccomp_name seccomp_path"
    unfolding build_docker_run_argv_def Let_def by (auto simp: res_map_Inr_iff split: if_splits)
  from a [unfolded assert_confined] obtain os command' where
    e: "drop 2 argv = concat (map option_tokens os) @ reference # command'" and c: "confined reference os command'"
    by (elim exE conjE)
  have "concat (map option_tokens ?os) @ reference # command = concat (map option_tokens os) @ reference # command'"
    using e argv by (simp add: built_tokens)
  from parse_unique [OF built_shape _ safe_token_dash [OF safe] this] c
  have "?os = os \<and> command = command'" by (auto simp: confined_def list_all_iff allowed_shape)
  then have "os = ?os" and "command' = command" by simp_all
  with argv c sc show ?thesis by (simp add: built_tokens)
qed

lemma option_values_allowed: "list_all allowed_option os \<Longrightarrow> v \<in> set (option_values t os) \<Longrightarrow> check_pair t v = Inr ()"
  by (induction t os rule: option_values.induct) (auto split: if_splits)

lemma allowed_mount:
  assumes "check_pair ''--mount'' v = Inr ()"
  shows "\<not> str_in ''docker.sock'' (py_lower v)"
  using assms by (auto simp: check_pair_def mount_is_prohibited_def Let_def split: if_splits)

text \<open>The network modes that the options ask for, in either spelling, and the pull policies.\<close>

fun network_modes :: "run_option list \<Rightarrow> string list" where
  "network_modes [] = []"
| "network_modes (Flag t # os) = network_modes os"
| "network_modes (Assigned t # os) =
     (if take 10 t = ''--network='' then drop 10 t # network_modes os else network_modes os)"
| "network_modes (Valued t v # os) = (if t = ''--network'' then v # network_modes os else network_modes os)"

fun pull_policies :: "run_option list \<Rightarrow> string list" where
  "pull_policies [] = []"
| "pull_policies (Flag t # os) = pull_policies os"
| "pull_policies (Assigned t # os) =
     (if take 7 t = ''--pull='' then drop 7 t # pull_policies os else pull_policies os)"
| "pull_policies (Valued t v # os) = pull_policies os"

lemma allowed_networks:
  "list_all allowed_option os \<Longrightarrow> network_modes os = replicate (length (filter is_network os)) ''none''"
  by (induction os rule: network_modes.induct) (auto simp: check_pair_def allowed_network_modes_def split: if_splits)

lemma allowed_pulls:
  "list_all allowed_option os \<Longrightarrow> pull_policies os = replicate (length (filter is_pull os)) ''never''"
  by (induction os rule: pull_policies.induct) auto

lemma one_replicate: "n = 1 \<longleftrightarrow> replicate n x = [x]"
  by (cases n) auto

definition plain_word :: "string \<Rightarrow> bool" where
  "plain_word w \<longleftrightarrow> (\<forall>c\<in>set w. 32 \<le> code c \<and> code c \<noteq> 127)"

definition image_word :: "string \<Rightarrow> bool" where
  "image_word w \<longleftrightarrow> w \<noteq> [] \<and> hd w \<noteq> CHR ''-'' \<and> plain_word w \<and> (\<forall>c\<in>set w. \<not> is_space c)"

text \<open>A vector that may be run: allowed options, one pull policy and one network mode, an image and a
  command.\<close>

definition permitted_vector :: "string \<Rightarrow> string list \<Rightarrow> run_option list \<Rightarrow> string list \<Rightarrow> bool" where
  "permitted_vector reference tokens os command \<longleftrightarrow>
     tokens = concat (map option_tokens os) @ reference # command
     \<and> (\<forall>opt\<in>set os. allowed_option opt) \<and> pull_policies os = [''never''] \<and> network_modes os = [''none'']
     \<and> (\<forall>opt\<in>set os. reference \<notin> set (option_tokens opt)) \<and> image_word reference
     \<and> command \<noteq> [] \<and> (\<forall>w\<in>set command. plain_word w)"

lemma plain_word_iff: "plain_word w \<longleftrightarrow> \<not> list_ex is_control w"
  by (auto simp: plain_word_def list_ex_iff is_control_def)

lemma image_word_iff: "image_word w \<longleftrightarrow> is_safe_docker_image_token (JStr w)"
  by (cases w) (auto simp: image_word_def plain_word_iff is_safe_docker_image_token_def starts_with_def list_ex_iff is_control_def)

lemma confined_permitted:
  "permitted_vector reference tokens os command \<longleftrightarrow>
     tokens = concat (map option_tokens os) @ reference # command \<and> confined reference os command"
proof -
  have "list_all allowed_option os \<Longrightarrow>
      (pull_policies os = [''never''] \<and> network_modes os = [''none'']
        \<longleftrightarrow> length (filter is_pull os) = 1 \<and> length (filter is_network os) = 1)"
    by (simp add: allowed_pulls allowed_networks one_replicate [symmetric])
  then show ?thesis
    unfolding permitted_vector_def confined_def image_word_iff plain_word_iff list_all_iff list_ex_iff by auto
qed

section \<open>Properties\<close>


text \<open>a vector that is built runs the requested command in the requested image without a network,
  without capabilities and without new privileges; the only mount is the workspace, read-only,
  and no mount reaches the socket of the daemon.\<close>

theorem docker_argv_confined:
  assumes "build_docker_run_argv reference command workspace_path p seccomp_name seccomp_path label cidfile = Inr argv"
  shows "\<exists>os. argv = [''docker'', ''run''] @ concat (map option_tokens os) @ reference # command
    \<and> confined reference os command
    \<and> option_values ''--mount'' os = [bind_mount workspace_path] \<and> option_values ''--network'' os = [''none'']
    \<and> option_values ''--cap-drop'' os = [''ALL''] \<and> option_values ''--user'' os = [sp_user p]
    \<and> option_values ''--security-opt'' os
        = ''no-new-privileges'' # (case seccomp_path of None \<Rightarrow> [] | Some path \<Rightarrow> [''seccomp='' @ path])
    \<and> \<not> str_in ''docker.sock'' (py_lower (bind_mount workspace_path))"
proof -
  let ?os = "built_options p seccomp_path label cidfile workspace_path"
  from built_argv [OF assms] have b: "argv = [''docker'', ''run''] @ concat (map option_tokens ?os) @ reference # command"
    "confined reference ?os command" by auto
  from b(2) have "list_all allowed_option ?os" by (simp add: confined_def)
  from option_values_allowed [OF this, of "bind_mount workspace_path" "''--mount''"]
  have "\<not> str_in ''docker.sock'' (py_lower (bind_mount workspace_path))"
    by (intro allowed_mount) (simp add: built_values)
  with b show ?thesis by (intro exI [of _ ?os]) (simp add: built_values)
qed

definition sample_docker_argv :: "string list res" where
  "sample_docker_argv =
     build_docker_run_argv ''img@sha256:0'' [''ls''] ''/tmp/w'' (get_sandbox_profile 1000 1000 profile_locked_down)
       seccomp_runtime_default None None None"

lemma sample_docker_argv_returns: "returns sample_docker_argv"
  by code_simp

theorem docker_argv_confined_witness:
  "\<exists>argv os. sample_docker_argv = Inr argv
     \<and> argv = [''docker'', ''run''] @ concat (map option_tokens os) @ [''img@sha256:0'', ''ls'']
     \<and> option_values ''--mount'' os = [''type=bind,src=/tmp/w,dst=/workspace,readonly'']"
proof -
  from sample_docker_argv_returns obtain argv where a: "sample_docker_argv = Inr argv"
    by (auto simp: returns_iff)
  from docker_argv_confined [OF a [unfolded sample_docker_argv_def]] obtain os where
    "argv = [''docker'', ''run''] @ concat (map option_tokens os) @ ''img@sha256:0'' # [''ls'']"
    "option_values ''--mount'' os = [bind_mount ''/tmp/w'']" by (elim exE conjE)
  with a show ?thesis by (intro exI [of _ argv] exI [of _ os]) (simp add: bind_mount_def workdir_def)
qed

end
