(* ===== verification/Docker_Runner.thy ===== *)
theory Docker_Runner
  imports Docker_Argv
begin

text \<open>
  sandbox/docker_runner.py: the process that runs \<open>docker run\<close>.  Its output is read in bounded chunks
  under a byte budget, its container is found by the label of the run and removed afterwards.
  What the operating system and the \<open>docker\<close> client answer, and the text codec, are arguments.
\<close>

section \<open>Vocabulary\<close>

definition stream_read_chunk_bytes :: nat where "stream_read_chunk_bytes = 8192"
definition stdout_byte_budget :: nat where "stdout_byte_budget = 64 * 1024"
definition stderr_byte_budget :: nat where "stderr_byte_budget = 64 * 1024"
definition total_output_byte_budget :: nat where "total_output_byte_budget = 128 * 1024"
definition stream_preview_byte_budget :: nat where "stream_preview_byte_budget = 16 * 1024"

text \<open>One attempt at once, then \<open>CLEANUP_RETRY_DELAYS_SECONDS\<close>: six rounds.\<close>

definition cleanup_rounds :: nat where "cleanup_rounds = 6"

definition container_id_rx :: rx where
  "container_id_rx = Cat (rx_times 12 (Cls is_hex_lower)) (rx_upto 52 (Cls is_hex_lower))"

record runner_result =
  rr_status :: string
  rr_exit_code :: "int option"
  rr_stdout :: string
  rr_stderr :: string
  rr_timed_out :: bool
  rr_duration_ms :: int
  rr_stdout_bytes :: nat
  rr_stderr_bytes :: nat
  rr_total_bytes :: nat
  rr_stdout_truncated :: bool
  rr_stderr_truncated :: bool
  rr_budget_exceeded :: bool
  rr_tracking :: bool
  rr_cleanup_attempted :: bool
  rr_cleanup_status :: string
  rr_cleanup_failure :: "string option"
  rr_start_state :: string

definition blank_result :: runner_result where
  "blank_result =
     \<lparr>rr_status = ''failed'', rr_exit_code = None, rr_stdout = [], rr_stderr = [], rr_timed_out = False,
      rr_duration_ms = 0, rr_stdout_bytes = 0, rr_stderr_bytes = 0, rr_total_bytes = 0, rr_stdout_truncated = False,
      rr_stderr_truncated = False, rr_budget_exceeded = False, rr_tracking = False, rr_cleanup_attempted = False,
      rr_cleanup_status = ''not_attempted'', rr_cleanup_failure = None, rr_start_state = ''unknown''\<rparr>"

section \<open>Reading the output\<close>

datatype stream = Out | Err

text \<open>One turn of the loop: the time is up, or some streams were ready, each with the bytes that the
  read returned (none at the end of the stream and after a read error).\<close>

datatype tick = Expired | Ready "(stream \<times> string) list"

record stream_state =
  so_open :: "stream list"
  so_preview :: "stream \<Rightarrow> string"
  so_bytes :: "stream \<Rightarrow> nat"
  so_exceeded :: "stream option"

definition stream_budget :: "stream \<Rightarrow> nat" where
  "stream_budget s = (case s of Out \<Rightarrow> stdout_byte_budget | Err \<Rightarrow> stderr_byte_budget)"

definition total_bytes :: "stream_state \<Rightarrow> nat" where
  "total_bytes st = so_bytes st Out + so_bytes st Err"

definition take_chunk :: "stream \<Rightarrow> string \<Rightarrow> stream_state \<Rightarrow> stream_state" where
  "take_chunk s chunk st =
     (if chunk = [] then st\<lparr>so_open := removeAll s (so_open st)\<rparr>
      else
        (let preview = so_preview st s;
             st' = st\<lparr>so_bytes := (so_bytes st)(s := so_bytes st s + length chunk),
                      so_preview := (so_preview st)(s := preview @ take (stream_preview_byte_budget - length preview) chunk)\<rparr> in
         if so_bytes st' s > stream_budget s \<or> total_bytes st' > total_output_byte_budget
         then st'\<lparr>so_exceeded := Some s\<rparr> else st'))"

text \<open>The events of one turn; nothing is read after the budget is exceeded.\<close>

fun take_events :: "(stream \<times> string) list \<Rightarrow> stream_state \<Rightarrow> stream_state" where
  "take_events [] st = st"
| "take_events ((s, chunk) # events) st =
     (let st' = take_chunk s chunk st in if so_exceeded st' \<noteq> None then st' else take_events events st')"

text \<open>The loop: \<open>None\<close> when the run has not ended within these turns.\<close>

fun stream_loop :: "tick list \<Rightarrow> stream_state \<Rightarrow> (stream_state \<times> bool) option" where
  "stream_loop ticks st =
     (if so_open st = [] then Some (st, False)
      else
        (case ticks of
           [] \<Rightarrow> None
         | Expired # ticks' \<Rightarrow> Some (st, True)
         | Ready events # ticks' \<Rightarrow>
             (let st' = take_events events st in
              if so_exceeded st' \<noteq> None then Some (st', False) else stream_loop ticks' st')))"

declare stream_loop.simps [simp del]

record stream_output =
  sm_stdout :: string
  sm_stderr :: string
  sm_stdout_bytes :: nat
  sm_stderr_bytes :: nat
  sm_stdout_truncated :: bool
  sm_stderr_truncated :: bool
  sm_timed_out :: bool
  sm_exceeded :: bool

definition initial_streams :: stream_state where
  "initial_streams = \<lparr>so_open = [Out, Err], so_preview = (\<lambda>_. []), so_bytes = (\<lambda>_. 0), so_exceeded = None\<rparr>"

definition output_of :: "(string \<Rightarrow> string) \<Rightarrow> stream_state \<Rightarrow> bool \<Rightarrow> stream_output" where
  "output_of decode st timed_out =
     (let exceeded = (so_exceeded st \<noteq> None) in
      \<lparr>sm_stdout = decode (so_preview st Out), sm_stderr = decode (so_preview st Err),
       sm_stdout_bytes = so_bytes st Out, sm_stderr_bytes = so_bytes st Err,
       sm_stdout_truncated = (exceeded \<and> so_bytes st Out > stdout_byte_budget \<or> so_exceeded st = Some Out),
       sm_stderr_truncated = (exceeded \<and> so_bytes st Err > stderr_byte_budget \<or> so_exceeded st = Some Err),
       sm_timed_out = timed_out, sm_exceeded = exceeded\<rparr>)"

definition stream_process_output :: "(string \<Rightarrow> string) \<Rightarrow> tick list \<Rightarrow> stream_output option" where
  "stream_process_output decode ticks =
     map_option (\<lambda>(st, timed_out). output_of decode st timed_out) (stream_loop ticks initial_streams)"

section \<open>Finding the container of a run\<close>

record tracking =
  tk_label :: "string option"
  tk_cidfile :: "string option"

text \<open>The scan of the argument vector: the last value of each option counts.\<close>

fun scan_tracking :: "tracking \<Rightarrow> string list \<Rightarrow> tracking" where
  "scan_tracking t (token # val # rest) =
     (if token = ''--label''
      then scan_tracking (if starts_with val run_label_prefix
             then t\<lparr>tk_label := Some (drop (length run_label_prefix) val)\<rparr> else t) rest
      else if token = ''--cidfile'' then scan_tracking (t\<lparr>tk_cidfile := Some val\<rparr>) rest
      else scan_tracking t (val # rest))"
| "scan_tracking t _ = t"

definition tracking_from_argv :: "string list \<Rightarrow> tracking" where
  "tracking_from_argv argv = scan_tracking \<lparr>tk_label = None, tk_cidfile = None\<rparr> argv"

text \<open>What a client process answers: it could not be run (or did not return in time), or its exit code
  and its output.\<close>

datatype client_answer = NotRun | Exited int string

definition nonempty_lines :: "string \<Rightarrow> string list" where
  "nonempty_lines text = filter (\<lambda>l. l \<noteq> []) (map py_strip (py_splitlines text))"

text \<open>The client is a function of the vector it is called with: the list of all containers, running or
  not, with the label of a run.\<close>

definition container_query :: "string \<Rightarrow> string list" where
  "container_query label = [''docker'', ''ps'', ''-aq'', ''--filter'', ''label='' @ run_label_prefix @ label]"

definition matching_container_ids :: "string \<Rightarrow> (string list \<Rightarrow> client_answer) \<Rightarrow> string + string list" where
  "matching_container_ids label ask =
     (if \<not> rx_fullmatch run_id_rx label then Inl ''tracking_label_invalid''
      else
        (case ask (container_query label) of
           NotRun \<Rightarrow> Inl ''tracking_query_failed''
         | Exited rc out \<Rightarrow>
             if rc \<noteq> 0 then Inl ''tracking_query_failed''
             else
               (let ids = remdups (nonempty_lines out) in
                if length ids > 32 \<or> \<not> list_all (rx_fullmatch container_id_rx) ids then Inl ''tracking_query_invalid''
                else Inr ids)))"

text \<open>The first 256 bytes of the file, when it can be read.\<close>

definition read_cidfile :: "string option \<Rightarrow> string option" where
  "read_cidfile content =
     (case content of
        None \<Rightarrow> None
      | Some bytes \<Rightarrow>
          if list_ex (\<lambda>c. code c \<ge> 128) (take 256 bytes) then None
          else
            (let cid = py_strip (take 256 bytes) in
             if rx_fullmatch container_id_rx cid then Some cid else None))"

definition label_query :: "string \<Rightarrow> string list" where
  "label_query container_id =
     [''docker'', ''container'', ''inspect'', ''--format'',
      ''{{index .Config.Labels '' @ [CHR 34] @ ''com.repo-health-doctor.run-id'' @ [CHR 34] @ ''}}'', container_id]"

definition inspect_container_label :: "string \<Rightarrow> (string list \<Rightarrow> client_answer) \<Rightarrow> string + string option" where
  "inspect_container_label container_id ask =
     (if \<not> rx_fullmatch container_id_rx container_id then Inl ''container_id_invalid''
      else
        (case ask (label_query container_id) of
           NotRun \<Rightarrow> Inl ''tracking_inspect_failed''
         | Exited rc out \<Rightarrow>
             if rc \<noteq> 0 then Inr None
             else (let label = py_strip out in Inr (if rx_fullmatch run_id_rx label then Some label else None))))"

section \<open>Removing it\<close>

text \<open>The answers to a cleanup: to the queries (one before the first round and one after each), the file
  with the container id, to the inspection, whether a removal could be run in a round, and whether
  the file could be deleted.  Each client call is answered by its argument vector.\<close>

record cleanup_answers =
  ca_query :: "nat \<Rightarrow> string list \<Rightarrow> client_answer"
  ca_cidfile :: "string option"
  ca_inspect :: "string list \<Rightarrow> client_answer"
  ca_remove :: "nat \<Rightarrow> string list \<Rightarrow> bool"
  ca_unlink :: bool

definition removal :: "string \<Rightarrow> string list" where
  "removal container_id = [''docker'', ''container'', ''rm'', ''--force'', container_id]"

type_synonym cleanup_outcome = "bool \<times> string \<times> string option"

definition cleanup_failed :: "string \<Rightarrow> cleanup_outcome" where
  "cleanup_failed why = (True, ''failed'', Some why)"

text \<open>The rounds: \<open>n\<close> rounds are left, \<open>k\<close> were done.\<close>

fun remove_rounds :: "string \<Rightarrow> cleanup_answers \<Rightarrow> nat \<Rightarrow> nat \<Rightarrow> string list \<Rightarrow> string + string list" where
  "remove_rounds label a 0 k remaining = Inr remaining"
| "remove_rounds label a (Suc n) k remaining =
     (if \<not> list_all (\<lambda>cid. ca_remove a k (removal cid)) (sort remaining) then Inl ''container_remove_failed''
      else
        (case matching_container_ids label (ca_query a (Suc k)) of
           Inl why \<Rightarrow> Inl why
         | Inr left \<Rightarrow> if left = [] then Inr [] else remove_rounds label a n (Suc k) left))"

definition tracked_ids :: "tracking \<Rightarrow> string \<Rightarrow> cleanup_answers \<Rightarrow> string + string list" where
  "tracked_ids t label a =
     (case matching_container_ids label (ca_query a 0) of
        Inl why \<Rightarrow> Inl why
      | Inr ids \<Rightarrow>
          (case (if tk_cidfile t = None then None else read_cidfile (ca_cidfile a)) of
             None \<Rightarrow> Inr ids
           | Some cid \<Rightarrow>
               if cid \<in> set ids then Inr ids
               else
                 (case inspect_container_label cid (ca_inspect a) of
                    Inl why \<Rightarrow> Inl why
                  | Inr None \<Rightarrow> Inr ids
                  | Inr (Some found) \<Rightarrow> if found = label then Inr (cid # ids) else Inl ''tracking_label_mismatch'')))"

definition cleanup_tracked_container :: "tracking \<Rightarrow> cleanup_answers \<Rightarrow> cleanup_outcome" where
  "cleanup_tracked_container t a =
     (case tk_label t of
        None \<Rightarrow> (False, ''not_attempted'', None)
      | Some label \<Rightarrow>
          (case tracked_ids t label a of
             Inl why \<Rightarrow> cleanup_failed why
           | Inr ids \<Rightarrow>
               (case remove_rounds label a cleanup_rounds 0 ids of
                  Inl why \<Rightarrow> cleanup_failed why
                | Inr left \<Rightarrow>
                    if left \<noteq> [] then cleanup_failed ''container_remove_failed''
                    else if tk_cidfile t \<noteq> None \<and> \<not> ca_unlink a then cleanup_failed ''cidfile_cleanup_failed''
                    else (True, ''ok'', None))))"

text \<open>The file that a cleanup deletes.\<close>

definition deleted_file :: "tracking \<Rightarrow> cleanup_answers \<Rightarrow> string option" where
  "deleted_file t a = (if cleanup_tracked_container t a = (True, ''ok'', None) then tk_cidfile t else None)"

section \<open>Running\<close>

text \<open>What becomes of the client: it cannot be started (with the class of the error), reading its
  output raises an exception or is interrupted, or it ends with an exit code.\<close>

datatype client_run =
  NotStarted string | StreamError string | Interrupted | Streamed "tick list" int

record run_answers =
  ra_client :: client_run
  ra_cleanup :: cleanup_answers
  ra_duration :: int

definition with_cleanup :: "tracking \<Rightarrow> cleanup_answers \<Rightarrow> runner_result \<Rightarrow> runner_result" where
  "with_cleanup t a r =
     (case cleanup_tracked_container t a of
        (attempted, status, failure) \<Rightarrow>
          r\<lparr>rr_tracking := (tk_label t \<noteq> None), rr_cleanup_attempted := attempted, rr_cleanup_status := status,
            rr_cleanup_failure := failure\<rparr>)"

definition streamed_result :: "stream_output \<Rightarrow> int \<Rightarrow> runner_result" where
  "streamed_result s exit_code =
     blank_result
       \<lparr>rr_status := (if sm_timed_out s then ''timed_out'' else if sm_exceeded s then ''output_budget_exceeded''
          else if exit_code = 0 then ''completed'' else ''failed''),
        rr_exit_code := (if sm_timed_out s \<or> sm_exceeded s then None else Some exit_code),
        rr_stdout := sm_stdout s, rr_stderr := sm_stderr s, rr_timed_out := sm_timed_out s,
        rr_stdout_bytes := sm_stdout_bytes s, rr_stderr_bytes := sm_stderr_bytes s,
        rr_total_bytes := sm_stdout_bytes s + sm_stderr_bytes s,
        rr_stdout_truncated := sm_stdout_truncated s, rr_stderr_truncated := sm_stderr_truncated s,
        rr_budget_exceeded := sm_exceeded s,
        rr_start_state := (if sm_timed_out s then ''unknown'' else if sm_exceeded s then ''confirmed''
          else if exit_code = 125 then ''not_started'' else ''confirmed'')\<rparr>"

text \<open>\<open>DockerRunner.run\<close>: \<open>None\<close> while the output is still being read; an interruption is raised again
  after the cleanup.\<close>

datatype run_outcome = Unwound | Returned runner_result

definition docker_run :: "(string \<Rightarrow> string) \<Rightarrow> string list \<Rightarrow> run_answers \<Rightarrow> run_outcome option" where
  "docker_run decode argv a =
     (let t = tracking_from_argv argv;
          finish = (\<lambda>r. Returned (with_cleanup t (ra_cleanup a) (r\<lparr>rr_duration_ms := ra_duration a\<rparr>))) in
      case ra_client a of
        NotStarted class_name \<Rightarrow>
          Some (finish (blank_result\<lparr>rr_stderr := class_name, rr_start_state := ''not_started''\<rparr>))
      | StreamError class_name \<Rightarrow> Some (finish (blank_result\<lparr>rr_stderr := class_name\<rparr>))
      | Interrupted \<Rightarrow> Some Unwound
      | Streamed ticks exit_code \<Rightarrow>
          (case stream_process_output decode ticks of
             None \<Rightarrow> None
           | Some s \<Rightarrow> Some (finish (streamed_result s exit_code))))"

section \<open>The client and the runner\<close>

record docker_client =
  dc_version :: client_answer
  dc_image_inspect :: "string \<Rightarrow> client_answer"
  dc_image_id :: "string \<Rightarrow> client_answer"
  dc_info :: client_answer
  dc_run :: "string list \<Rightarrow> nat \<Rightarrow> run_answers"

definition exited_zero :: "client_answer \<Rightarrow> bool" where
  "exited_zero a = (case a of NotRun \<Rightarrow> False | Exited rc out \<Rightarrow> rc = 0)"

definition image_id_of :: "client_answer \<Rightarrow> string option" where
  "image_id_of a =
     (case a of
        NotRun \<Rightarrow> None
      | Exited rc out \<Rightarrow>
          (let found = py_strip out in if rc = 0 \<and> is_full_local_image_id (JStr found) then Some found else None))"

definition security_option_detected :: "string list \<Rightarrow> string \<Rightarrow> bool" where
  "security_option_detected options name =
     list_ex (\<lambda>opt. opt = name \<or> opt = ''name='' @ name \<or> starts_with opt (''name='' @ name @ '','')) options"

definition detected :: "bool \<Rightarrow> string" where
  "detected b = (if b then ''true'' else ''false'')"

definition detect_runtime :: "(string \<Rightarrow> json option) \<Rightarrow> client_answer \<Rightarrow> runtime_facts" where
  "detect_runtime parse a =
     (case a of
        NotRun \<Rightarrow> unknown_runtime
      | Exited rc out \<Rightarrow>
          if rc \<noteq> 0 then unknown_runtime
          else
            (case parse out of
               Some (JList xs) \<Rightarrow>
                 if \<not> list_all is_str xs then unknown_runtime
                 else
                   (let options = map (\<lambda>s. py_lower (py_strip s)) (list_strings xs) in
                    \<lparr>rf_rootless = detected (security_option_detected options ''rootless''),
                     rf_userns = detected (security_option_detected options ''userns'')\<rparr>)
             | _ \<Rightarrow> unknown_runtime))"

text \<open>The protocol \<open>SandboxDockerRunner\<close>, as one run of the program sees it.\<close>

record runner =
  rn_name :: string
  rn_docker_invoked :: bool
  rn_available :: bool
  rn_image_available :: "string \<Rightarrow> bool"
  rn_image_id :: "string \<Rightarrow> string option res"
  rn_runtime :: runtime_facts
  rn_run :: "string list \<Rightarrow> nat \<Rightarrow> run_outcome option"

definition docker_runner :: "(string \<Rightarrow> json option) \<Rightarrow> (string \<Rightarrow> string) \<Rightarrow> docker_client \<Rightarrow> runner" where
  "docker_runner parse decode c =
     \<lparr>rn_name = ''docker'', rn_docker_invoked = True, rn_available = exited_zero (dc_version c),
      rn_image_available = (\<lambda>reference. exited_zero (dc_image_inspect c reference)),
      rn_image_id = (\<lambda>reference. Inr (image_id_of (dc_image_id c reference))),
      rn_runtime = detect_runtime parse (dc_info c),
      rn_run = (\<lambda>argv timeout. docker_run decode argv (dc_run c argv timeout))\<rparr>"

record fake_settings =
  fk_mode :: string
  fk_stdout :: string
  fk_stderr :: string
  fk_exit_code :: int
  fk_docker_invoked :: bool

definition fake_run :: "fake_settings \<Rightarrow> nat \<Rightarrow> runner_result" where
  "fake_run f timeout =
     (if fk_mode f = ''timeout''
      then blank_result\<lparr>rr_status := ''timed_out'', rr_stdout := fk_stdout f, rr_stderr := fk_stderr f,
             rr_timed_out := True, rr_duration_ms := int timeout * 1000\<rparr>
      else if fk_mode f = ''failure''
      then blank_result\<lparr>rr_exit_code := Some (if fk_exit_code f \<noteq> 0 then fk_exit_code f else 1),
             rr_stdout := fk_stdout f,
             rr_stderr := (if fk_stderr f \<noteq> [] then fk_stderr f else ''fake runner failure'' @ [CHR 10]),
             rr_duration_ms := 1, rr_start_state := ''confirmed''\<rparr>
      else blank_result\<lparr>rr_status := ''completed'', rr_exit_code := Some (fk_exit_code f), rr_stdout := fk_stdout f,
             rr_stderr := fk_stderr f, rr_duration_ms := 1, rr_start_state := ''confirmed''\<rparr>)"

definition fake_runner :: "fake_settings \<Rightarrow> runner" where
  "fake_runner f =
     \<lparr>rn_name = ''fake-'' @ fk_mode f, rn_docker_invoked = fk_docker_invoked f,
      rn_available = (fk_mode f \<noteq> ''docker-unavailable''),
      rn_image_available = (\<lambda>reference. fk_mode f \<noteq> ''image-unavailable''),
      rn_image_id = (\<lambda>reference. Inl AttributeError), rn_runtime = unknown_runtime,
      rn_run = (\<lambda>argv timeout. Some (Returned (fake_run f timeout)))\<rparr>"

text \<open>\<open>make_fake_runner\<close> of run.py; a mode outside the table is a \<open>KeyError\<close>.\<close>

definition fake_runner_modes :: "(string \<times> string) list" where
  "fake_runner_modes =
     [(''fake'', ''success''), (''fake-docker-unavailable'', ''docker-unavailable''),
      (''fake-image-unavailable'', ''image-unavailable''), (''fake-timeout'', ''timeout''), (''fake-failure'', ''failure'')]"

definition make_fake_runner :: "string \<Rightarrow> runner res" where
  "make_fake_runner mode =
     (case map_of fake_runner_modes mode of
        None \<Rightarrow> Inl KeyError
      | Some m \<Rightarrow> Inr (fake_runner \<lparr>fk_mode = m, fk_stdout = ''fake sandbox-run output'' @ [CHR 10], fk_stderr = [],
          fk_exit_code = 0, fk_docker_invoked = False\<rparr>))"

section \<open>The contract of a runner\<close>

definition well_reported :: "runner_result \<Rightarrow> bool" where
  "well_reported r \<longleftrightarrow>
     (rr_timed_out r \<longleftrightarrow> rr_status r = ''timed_out'') \<and> (rr_budget_exceeded r \<longleftrightarrow> rr_status r = ''output_budget_exceeded'')
     \<and> (rr_timed_out r \<or> rr_budget_exceeded r \<longrightarrow> rr_exit_code r = None)
     \<and> rr_status r \<in> {''completed'', ''failed'', ''timed_out'', ''output_budget_exceeded''}
     \<and> rr_total_bytes r = rr_stdout_bytes r + rr_stderr_bytes r
     \<and> rr_start_state r \<in> {''unknown'', ''not_started'', ''confirmed''}
     \<and> (rr_start_state r = ''not_started'' \<longrightarrow> rr_status r = ''failed'')"

text \<open>A budget is only exceeded by a run that did not time out.\<close>

lemma streamed_well_reported:
  "\<not> (sm_timed_out s \<and> sm_exceeded s) \<Longrightarrow> well_reported (streamed_result s exit_code)"
  by (simp add: well_reported_def streamed_result_def blank_result_def)

lemma with_cleanup_well_reported: "well_reported (with_cleanup t a r) = well_reported r"
  by (simp add: well_reported_def with_cleanup_def split: prod.split)

lemma duration_well_reported: "well_reported (r\<lparr>rr_duration_ms := d\<rparr>) = well_reported r"
  by (simp add: well_reported_def)

lemma stream_loop_not_both: "so_exceeded st = None \<Longrightarrow> stream_loop ticks st = Some (st', True) \<Longrightarrow> so_exceeded st' = None"
proof (induction ticks arbitrary: st)
  case (Cons t ticks)
  from Cons.prems show ?case
    by (subst (asm) stream_loop.simps) (auto simp: Let_def split: if_splits tick.splits dest: Cons.IH)
qed (simp add: stream_loop.simps [of "[]"] split: if_splits)

lemma streamed_not_both: "stream_process_output decode ticks = Some s \<Longrightarrow> \<not> (sm_timed_out s \<and> sm_exceeded s)"
  using stream_loop_not_both [of initial_streams ticks]
  by (auto simp: stream_process_output_def output_of_def Let_def initial_streams_def)

lemma docker_run_well_reported: "docker_run decode argv a = Some (Returned r) \<Longrightarrow> well_reported r"
  by (auto simp: docker_run_def Let_def with_cleanup_well_reported duration_well_reported
      split: client_run.splits option.splits intro!: streamed_well_reported dest: streamed_not_both)
    (simp_all add: well_reported_def blank_result_def)

lemma fake_run_well_reported: "well_reported (fake_run f timeout)"
  by (simp add: well_reported_def fake_run_def blank_result_def)

locale sandbox_runner =
  fixes rn :: runner
  assumes reports: "rn_run rn argv timeout = Some (Returned r) \<Longrightarrow> well_reported r"
begin

lemma exit_code_means_ended:
  assumes "rn_run rn argv timeout = Some (Returned r)" and "rr_exit_code r = Some n"
  shows "\<not> rr_timed_out r \<and> \<not> rr_budget_exceeded r \<and> rr_status r \<in> {''completed'', ''failed''}"
  using reports [OF assms(1)] assms(2) by (auto simp: well_reported_def)

end

interpretation docker: sandbox_runner "docker_runner parse decode c" for parse decode c
  by unfold_locales (simp add: docker_runner_def docker_run_well_reported)

interpretation fake: sandbox_runner "fake_runner f" for f
  by unfold_locales (auto simp: fake_runner_def fake_run_well_reported)

section \<open>What the reading of the output guarantees\<close>

text \<open>Everything that arrives on a stream during the run.\<close>

definition delivered_by :: "stream \<Rightarrow> tick \<Rightarrow> string" where
  "delivered_by s t =
     (case t of Expired \<Rightarrow> [] | Ready events \<Rightarrow> concat (map snd (filter (\<lambda>e. fst e = s) events)))"

definition delivered :: "stream \<Rightarrow> tick list \<Rightarrow> string" where
  "delivered s ticks = concat (map (delivered_by s) ticks)"

definition small_events :: "(stream \<times> string) list \<Rightarrow> bool" where
  "small_events events \<longleftrightarrow> (\<forall>e\<in>set events. length (snd e) \<le> stream_read_chunk_bytes)"

definition small_ticks :: "tick list \<Rightarrow> bool" where
  "small_ticks ticks \<longleftrightarrow> (\<forall>events. Ready events \<in> set ticks \<longrightarrow> small_events events)"

text \<open>The state after \<open>seen\<close> has arrived: within the budget as long as it is not marked exceeded.\<close>

definition reading :: "(stream \<Rightarrow> string) \<Rightarrow> stream_state \<Rightarrow> bool" where
  "reading seen st \<longleftrightarrow>
     so_preview st = (\<lambda>s. take stream_preview_byte_budget (seen s)) \<and> so_bytes st = (\<lambda>s. length (seen s))
     \<and> (case so_exceeded st of
          None \<Rightarrow> \<forall>s. length (seen s) \<le> stream_budget s
        | Some x \<Rightarrow> length (seen x) > stream_budget x \<and> (\<forall>s. length (seen s) \<le> stream_budget s + stream_read_chunk_bytes))"

lemma take_chunk_open: "chunk \<noteq> [] \<Longrightarrow> so_open (take_chunk s chunk st) = so_open st"
  by (simp add: take_chunk_def Let_def)

lemma preview_extends:
  "take b (xs @ ys) = take b xs @ take (b - length (take b xs)) ys"
  by (cases "b \<le> length xs") simp_all

lemma take_chunk_reading:
  assumes "reading seen st" and "so_exceeded st = None" and "length chunk \<le> stream_read_chunk_bytes"
  shows "reading (seen(s := seen s @ chunk)) (take_chunk s chunk st)"
proof (cases "chunk = []")
  case True
  with assms show ?thesis by (simp add: take_chunk_def reading_def)
next
  case False
  let ?seen = "seen(s := seen s @ chunk)"
  from assms have p: "so_preview st = (\<lambda>s. take stream_preview_byte_budget (seen s))"
    and b: "so_bytes st = (\<lambda>s. length (seen s))" and in_budget: "\<forall>s. length (seen s) \<le> stream_budget s"
    by (simp_all add: reading_def)
  define st' where "st' = st\<lparr>so_bytes := (so_bytes st)(s := so_bytes st s + length chunk),
    so_preview := (so_preview st)(s := so_preview st s @ take (stream_preview_byte_budget - length (so_preview st s)) chunk)\<rparr>"
  have pv: "so_preview st' = (\<lambda>x. take stream_preview_byte_budget (?seen x))"
    using preview_extends [of stream_preview_byte_budget "seen s" chunk] by (simp add: st'_def p fun_eq_iff)
  have by': "so_bytes st' = (\<lambda>x. length (?seen x))" by (auto simp: st'_def b)
  have step: "take_chunk s chunk st
      = (if so_bytes st' s > stream_budget s \<or> total_bytes st' > total_output_byte_budget then st'\<lparr>so_exceeded := Some s\<rparr> else st')"
    using False by (simp add: take_chunk_def Let_def st'_def)
  have other: "length (?seen x) \<le> stream_budget x + stream_read_chunk_bytes" for x
    using in_budget [rule_format, of x] assms(3) by auto
  show ?thesis
  proof (cases "so_bytes st' s > stream_budget s")
    case True
    then show ?thesis using other pv by' by (simp add: step reading_def)
  next
    case inside: False
    then have ok: "\<forall>x. length (?seen x) \<le> stream_budget x" using in_budget by' by auto
    then have "length (?seen Out) \<le> stream_budget Out" "length (?seen Err) \<le> stream_budget Err" by blast+
    then have "length (?seen Out) \<le> stdout_byte_budget" "length (?seen Err) \<le> stderr_byte_budget"
      by (simp_all only: stream_budget_def stream.case)
    then have "\<not> total_bytes st' > total_output_byte_budget"
      by (simp add: total_bytes_def by' stdout_byte_budget_def stderr_byte_budget_def total_output_byte_budget_def)
    with inside ok pv by' show ?thesis
      by (simp add: step reading_def) (simp add: st'_def assms(2))
  qed
qed

lemma take_events_reading:
  assumes "reading seen st" and "so_exceeded st = None" and "small_events events"
  shows "\<exists>seen'. reading seen' (take_events events st)
    \<and> (\<forall>s. \<exists>rest. seen s @ concat (map snd (filter (\<lambda>e. fst e = s) events)) = seen' s @ rest
         \<and> (so_exceeded (take_events events st) = None \<longrightarrow> rest = []))"
  using assms
proof (induction events arbitrary: seen st)
  case (Cons e events)
  obtain s chunk where e: "e = (s, chunk)" by (cases e)
  let ?st = "take_chunk s chunk st" and ?seen = "seen(s := seen s @ chunk)"
  have r: "reading ?seen ?st"
    using Cons.prems by (intro take_chunk_reading) (simp_all add: small_events_def e)
  show ?case
  proof (cases "so_exceeded ?st = None")
    case True
    from Cons.IH [OF r True] Cons.prems(3) obtain seen' where
      "reading seen' (take_events events ?st)"
      "\<forall>x. \<exists>rest. ?seen x @ concat (map snd (filter (\<lambda>e. fst e = x) events)) = seen' x @ rest
         \<and> (so_exceeded (take_events events ?st) = None \<longrightarrow> rest = [])"
      by (auto simp: small_events_def)
    moreover have "?seen x @ concat (map snd (filter (\<lambda>e. fst e = x) events))
        = seen x @ concat (map snd (filter (\<lambda>e. fst e = x) ((s, chunk) # events)))" for x by simp
    ultimately show ?thesis using True by (intro exI [of _ seen']) (simp add: e Let_def)
  next
    case False
    then have "take_events (e # events) st = ?st" by (simp add: e Let_def)
    moreover have "\<forall>x. \<exists>rest. seen x @ concat (map snd (filter (\<lambda>e. fst e = x) (e # events))) = ?seen x @ rest"
      by (simp add: e)
    ultimately show ?thesis using r False by metis
  qed
qed auto

lemma stream_loop_reading:
  assumes "stream_loop ticks st = Some (st', timed_out)" and "reading seen st" and "so_exceeded st = None"
    and "small_ticks ticks"
  shows "\<exists>seen'. reading seen' st' \<and> (\<forall>s. prefix (seen' s) (seen s @ delivered s ticks))
    \<and> (so_exceeded st' = None \<and> \<not> timed_out \<longrightarrow> so_open st' = [])"
  using assms
proof (induction ticks arbitrary: st seen)
  case Nil
  then show ?case by (subst (asm) stream_loop.simps) (auto simp: delivered_def split: if_splits)
next
  case (Cons t ticks)
  note step = Cons.prems(1) [unfolded stream_loop.simps [of "t # ticks"]]
  consider (closed) "so_open st = []" | (expired) "so_open st \<noteq> []" "t = Expired"
    | (ready) events where "so_open st \<noteq> []" "t = Ready events" by (cases t) auto
  then show ?case
  proof cases
    case closed
    with step Cons.prems(2) show ?thesis by (intro exI [of _ seen]) auto
  next
    case expired
    with step Cons.prems(2) show ?thesis by (intro exI [of _ seen]) auto
  next
    case ready
    have small: "small_events events" "small_ticks ticks"
      using Cons.prems(4) ready by (auto simp: small_ticks_def)
    from take_events_reading [OF Cons.prems(2,3) small(1)] obtain mid where
      mid: "reading mid (take_events events st)" and
      arrived: "\<forall>s. \<exists>rest. seen s @ delivered_by s (Ready events) = mid s @ rest
        \<and> (so_exceeded (take_events events st) = None \<longrightarrow> rest = [])"
      unfolding delivered_by_def by auto
    show ?thesis
    proof (cases "so_exceeded (take_events events st) = None")
      case True
      with step ready have "stream_loop ticks (take_events events st) = Some (st', timed_out)" by (simp add: Let_def)
      from Cons.IH [OF this mid True small(2)] obtain seen' where
        "reading seen' st'" "\<forall>s. prefix (seen' s) (mid s @ delivered s ticks)"
        "so_exceeded st' = None \<and> \<not> timed_out \<longrightarrow> so_open st' = []" by blast
      moreover have "mid s @ delivered s ticks = seen s @ delivered s (t # ticks)" for s
        using arrived True ready by (auto simp: delivered_def)
      ultimately show ?thesis by metis
    next
      case False
      with step ready have "st' = take_events events st" by (auto simp: Let_def)
      moreover have "prefix (mid s) (seen s @ delivered s (t # ticks))" for s
        using arrived ready by (metis append.assoc concat.simps(2) delivered_def list.simps(9) prefixI)
      ultimately show ?thesis using mid False by (intro exI [of _ mid]) auto
    qed
  qed
qed

lemma initial_reading: "reading (\<lambda>_. []) initial_streams"
  by (auto simp: reading_def initial_streams_def)

lemma exceeded_iff:
  assumes "reading seen st"
  shows "so_exceeded st \<noteq> None \<longleftrightarrow> (\<exists>s. length (seen s) > stream_budget s)"
  using assms by (auto simp: reading_def not_less [symmetric] split: option.splits)

lemma stream_loop_expires:
  assumes "Expired \<in> set ticks"
  shows "\<exists>r. stream_loop ticks st = Some r"
  using assms
proof (induction ticks arbitrary: st)
  case (Cons t ticks)
  then show ?case by (subst stream_loop.simps) (auto simp: Let_def split: tick.splits)
qed simp

section \<open>What the cleanup guarantees\<close>

text \<open>An output without a line that is more than white space is white space.\<close>

lemma linebreak_space: "is_linebreak c \<Longrightarrow> is_space c"
  by (auto simp: is_linebreak_def is_space_def in_range_def)

lemma split_lines_blank:
  "\<forall>l\<in>set (split_lines cur s). \<forall>c\<in>set l. is_space c \<Longrightarrow> \<forall>c\<in>set cur \<union> set s. is_space c"
proof (induction cur s rule: split_lines.induct)
  case (2 cur c)
  then show ?case using linebreak_space [of c] by (cases "is_linebreak c") auto
next
  case (3 cur c d s)
  show ?case
  proof (cases "code c = 13 \<and> code d = 10")
    case True
    then have "is_space c" "is_space d" by (simp_all add: is_space_def in_range_def)
    with "3.IH"(1) [OF True] "3.prems" True show ?thesis by auto
  next
    case crlf: False
    note "3.prems" [unfolded split_lines.simps(3) [of cur c d s]]
    note prems = this [unfolded if_not_P [OF crlf]]
    show ?thesis
    proof (cases "is_linebreak c")
      case True
      with prems have "\<forall>l\<in>set (split_lines [] (d # s)). \<forall>c\<in>set l. is_space c" "\<forall>c\<in>set cur. is_space c"
        by (auto simp del: split_lines.simps)
      from "3.IH"(2) [OF crlf True this(1)] this(2) linebreak_space [OF True] show ?thesis by auto
    next
      case False
      with prems have "\<forall>l\<in>set (split_lines (c # cur) (d # s)). \<forall>c\<in>set l. is_space c"
        by (auto simp del: split_lines.simps)
      from "3.IH"(3) [OF crlf False this] show ?thesis by auto
    qed
  qed
qed (simp split: if_splits)

lemma py_strip_Nil: "py_strip s = [] \<longleftrightarrow> (\<forall>c\<in>set s. is_space c)"
proof -
  have "(\<forall>c\<in>set (dropWhile is_space s). is_space c) \<longleftrightarrow> (\<forall>c\<in>set s. is_space c)"
  proof
    assume d: "\<forall>c\<in>set (dropWhile is_space s). is_space c"
    have "dropWhile is_space s = []" using d hd_dropWhile [of is_space s] by (cases "dropWhile is_space s") auto
    then show "\<forall>c\<in>set s. is_space c" by simp
  qed (auto dest: set_dropWhileD)
  then show ?thesis by (simp add: py_strip_def strip_by_def)
qed

lemma no_lines_blank:
  assumes "nonempty_lines out = []"
  shows "\<forall>c\<in>set out. is_space c"
proof -
  from assms have "\<forall>l\<in>set (split_lines [] out). \<forall>c\<in>set l. is_space c"
    by (auto simp: nonempty_lines_def py_splitlines_def filter_empty_conv py_strip_Nil)
  from split_lines_blank [OF this] show ?thesis by simp
qed

lemma remove_rounds_gone:
  assumes "remove_rounds label a n k remaining = Inr []" and "0 < n"
  shows "\<exists>j out. k < j \<and> j \<le> k + n \<and> ca_query a j (container_query label) = Exited 0 out \<and> (\<forall>c\<in>set out. is_space c)"
  using assms
proof (induction n arbitrary: k remaining)
  case (Suc n)
  then obtain left where left: "matching_container_ids label (ca_query a (Suc k)) = Inr left"
    by (auto split: if_splits sum.splits)
  show ?case
  proof (cases "left = []")
    case True
    with left obtain out where "ca_query a (Suc k) (container_query label) = Exited 0 out" "nonempty_lines out = []"
      by (auto simp: matching_container_ids_def Let_def split: if_splits client_answer.splits)
    with no_lines_blank have "ca_query a (Suc k) (container_query label) = Exited 0 out" "\<forall>c\<in>set out. is_space c" by blast+
    then show ?thesis by (intro exI [of _ "Suc k"] exI [of _ out]) simp
  next
    case False
    with left Suc.prems have r: "remove_rounds label a n (Suc k) left = Inr []" by (auto split: if_splits)
    with False have "0 < n" by (cases n) auto
    from Suc.IH [OF r this] show ?thesis by (auto simp: Suc_le_eq) (metis Suc_lessD)
  qed
qed simp

lemma cleanup_ok_gone:
  assumes "cleanup_tracked_container t a = (attempted, ''ok'', failure)"
  shows "\<exists>label j out. tk_label t = Some label \<and> rx_fullmatch run_id_rx label \<and> 0 < j \<and> j \<le> cleanup_rounds
    \<and> ca_query a j (container_query label) = Exited 0 out \<and> (\<forall>c\<in>set out. is_space c)"
proof -
  from assms obtain label ids where l: "tk_label t = Some label" "tracked_ids t label a = Inr ids"
    "remove_rounds label a cleanup_rounds 0 ids = Inr []"
    by (auto simp: cleanup_tracked_container_def cleanup_failed_def split: option.splits sum.splits if_splits)
  from l(2) have "rx_fullmatch run_id_rx label"
    by (auto simp: tracked_ids_def matching_container_ids_def split: if_splits)
  with remove_rounds_gone [OF l(3)] l(1) show ?thesis by (auto simp: cleanup_rounds_def)
qed

lemma returned_cleanup:
  assumes "docker_run decode argv a = Some (Returned r)"
  shows "\<exists>attempted failure. cleanup_tracked_container (tracking_from_argv argv) (ra_cleanup a) = (attempted, rr_cleanup_status r, failure)"
proof -
  have "\<exists>attempted failure. cleanup_tracked_container t b = (attempted, rr_cleanup_status (with_cleanup t b x), failure)" for t b x
    by (cases "cleanup_tracked_container t b") (simp add: with_cleanup_def)
  with assms show ?thesis
    by (auto simp: docker_run_def Let_def split: client_run.splits option.splits)
qed

section \<open>What the scan of the vector finds\<close>

lemma scan_skip: "token \<notin> {''--label'', ''--cidfile''} \<Longrightarrow> scan_tracking t (token # rest) = scan_tracking t rest"
  by (cases rest) auto

lemma scan_label: "scan_tracking t (''--label'' # (run_label_prefix @ l) # rest) = scan_tracking (t\<lparr>tk_label := Some l\<rparr>) rest"
  by (simp add: starts_with_def)

lemma scan_cidfile: "scan_tracking t (''--cidfile'' # c # rest) = scan_tracking (t\<lparr>tk_cidfile := Some c\<rparr>) rest"
  by simp

lemma scan_skips: "set tokens \<inter> {''--label'', ''--cidfile''} = {} \<Longrightarrow> scan_tracking t (tokens @ rest) = scan_tracking t rest"
  by (induction tokens) (auto simp: scan_skip simp del: scan_tracking.simps)

lemma scan_keeps_label: "''--label'' \<notin> set tokens \<Longrightarrow> tk_label (scan_tracking t tokens) = tk_label t"
proof (induction "length tokens" arbitrary: t tokens rule: less_induct)
  case less
  show ?case
  proof (cases tokens)
    case (Cons token ts)
    with less.prems have t: "token \<noteq> ''--label''" "''--label'' \<notin> set ts" by auto
    show ?thesis
    proof (cases "token = ''--cidfile'' \<and> ts \<noteq> []")
      case True
      then obtain val rest where r: "ts = val # rest" by (cases ts) auto
      with t have "''--label'' \<notin> set rest" by simp
      with less.hyps [of rest "t\<lparr>tk_cidfile := Some val\<rparr>"] show ?thesis
        unfolding Cons r True [THEN conjunct1] scan_cidfile by simp
    next
      case False
      then have "scan_tracking t (token # ts) = scan_tracking t ts" using t(1) scan_skip [of token t ts] by (cases ts) auto
      with less.hyps [of ts t] t(2) show ?thesis unfolding Cons by simp
    qed
  qed simp
qed

lemma scan_cidfile_command:
  assumes "tool \<notin> {''--label'', ''--cidfile''}"
  shows "scan_tracking t [tool, ''--cidfile'', f] = t\<lparr>tk_cidfile := Some f\<rparr>"
  by (simp only: scan_skip [OF assms] scan_cidfile scan_tracking.simps(2))

lemma container_user_no_option: "default_container_user uid gid \<notin> {''--label'', ''--cidfile''}"
proof -
  have "CHR '':'' \<in> set (default_container_user uid gid)" by (simp add: default_container_user_def)
  then show ?thesis by (auto dest: arg_cong [where f = "\<lambda>s. CHR '':'' \<in> set s"])
qed

text \<open>The values that the program chooses are no option names.\<close>

lemma option_like:
  "bind_mount w \<notin> {''--label'', ''--cidfile''}" "''seccomp='' @ path \<notin> {''--label'', ''--cidfile''}"
  "out_tmpfs_spec \<notin> {''--label'', ''--cidfile''}" "workdir \<notin> {''--label'', ''--cidfile''}"
  "tmp_tmpfs \<notin> {''--label'', ''--cidfile''}" "default_memory_limit \<notin> {''--label'', ''--cidfile''}"
  "default_cpu_limit \<notin> {''--label'', ''--cidfile''}" "int_text default_pids_limit = ''256''"
  by (simp_all add: bind_mount_def out_tmpfs_spec_def workdir_def tmp_tmpfs_def default_memory_limit_def
      default_cpu_limit_def) code_simp

lemma profile_fields:
  "sp_memory (get_sandbox_profile uid gid name) = default_memory_limit"
  "sp_cpus (get_sandbox_profile uid gid name) = default_cpu_limit"
  "sp_pids_limit (get_sandbox_profile uid gid name) = default_pids_limit"
  "sp_user (get_sandbox_profile uid gid name) = default_container_user uid gid"
  "sp_tmpfs (get_sandbox_profile uid gid name) \<in> {[], [tmp_tmpfs]}"
  by (simp_all add: get_sandbox_profile_def Let_def profile_of_def)

lemma tracking_of_options:
  "scan_tracking t (docker_options (get_sandbox_profile uid gid name) seccomp_path (Some l) (Some c) w @ rest)
    = scan_tracking (t\<lparr>tk_label := Some l, tk_cidfile := Some c\<rparr>) rest"
proof -
  let ?p = "get_sandbox_profile uid gid name"
  define head where "head = [''--rm'', ''--pull=never'', ''--network'', ''none'', ''--workdir'', workdir, ''--cap-drop'', ''ALL'',
      ''--security-opt'', ''no-new-privileges'']
     @ (case seccomp_path of None \<Rightarrow> [] | Some path \<Rightarrow> [''--security-opt'', ''seccomp='' @ path])
     @ [''--memory'', sp_memory ?p, ''--cpus'', sp_cpus ?p, ''--pids-limit'', int_text (sp_pids_limit ?p), ''--user'', sp_user ?p]
     @ concat (map (\<lambda>(key, value). [''--env'', key @ ''='' @ value]) profile_env)
     @ (if sp_read_only_rootfs ?p then ''--read-only'' # concat (map (\<lambda>t. [''--tmpfs'', t]) (sp_tmpfs ?p)) else [])"
  have "set head \<inter> {''--label'', ''--cidfile''} = {}"
    using option_like container_user_no_option [of uid gid] profile_fields [of uid gid name]
    by (auto simp: head_def profile_env_def split: option.splits)
  moreover have "docker_options ?p seccomp_path (Some l) (Some c) w @ rest
      = head @ ''--label'' # (run_label_prefix @ l) # ''--cidfile'' # c # [''--mount'', bind_mount w, ''--tmpfs'', out_tmpfs_spec] @ rest"
    by (simp add: docker_options_def head_def)
  moreover have "scan_tracking t' ([''--mount'', bind_mount w, ''--tmpfs'', out_tmpfs_spec] @ rest) = scan_tracking t' rest" for t'
    by (rule scan_skips) (use option_like in simp)
  ultimately show ?thesis by (simp only: scan_skips scan_label scan_cidfile)
qed

lemma tracking_of_built:
  assumes "build_docker_run_argv reference command w (get_sandbox_profile uid gid name) sn sp (Some l) (Some c) = Inr argv"
  shows "tracking_from_argv argv = scan_tracking \<lparr>tk_label = Some l, tk_cidfile = Some c\<rparr> command"
proof -
  let ?p = "get_sandbox_profile uid gid name"
  from built_argv [OF assms] have argv: "argv = [''docker'', ''run''] @ docker_options ?p sp (Some l) (Some c) w @ reference # command"
    and safe: "is_safe_docker_image_token (JStr reference)" by (auto simp: built_tokens confined_def)
  have "reference \<notin> {''--label'', ''--cidfile''}"
    using safe_token_dash [OF safe] by (auto simp: starts_with_def)
  note skip = scan_skip [OF this]
  have two: "scan_tracking t ([''docker'', ''run''] @ ts) = scan_tracking t ts" for t ts
    by (rule scan_skips) simp
  show ?thesis
    unfolding tracking_from_argv_def argv by (simp only: two tracking_of_options skip tracking.simps)
qed

section \<open>Properties\<close>

text \<open>C32: what is recorded of the output is the beginning of what each stream delivered, at most
  16 KiB of it; no more than the budget and one chunk is ever counted, and the budget is
  reported as exceeded exactly when a stream went over it.\<close>

theorem output_recorded_within_budget:
  assumes "stream_process_output decode ticks = Some r" and "small_ticks ticks"
  shows "\<exists>seen. (\<forall>s. prefix (seen s) (delivered s ticks) \<and> length (seen s) \<le> stream_budget s + stream_read_chunk_bytes)
    \<and> sm_stdout r = decode (take stream_preview_byte_budget (seen Out)) \<and> sm_stdout_bytes r = length (seen Out)
    \<and> sm_stderr r = decode (take stream_preview_byte_budget (seen Err)) \<and> sm_stderr_bytes r = length (seen Err)
    \<and> (sm_exceeded r \<longleftrightarrow> (\<exists>s. length (seen s) > stream_budget s))"
proof -
  from assms(1) obtain st timed_out where loop: "stream_loop ticks initial_streams = Some (st, timed_out)"
    and r: "r = output_of decode st timed_out" by (auto simp: stream_process_output_def)
  have "so_exceeded initial_streams = None" by (simp add: initial_streams_def)
  from stream_loop_reading [OF loop initial_reading this assms(2)] obtain seen where
    seen: "reading seen st" "\<forall>s. prefix (seen s) (delivered s ticks)" by auto
  have "length (seen s) \<le> stream_budget s + stream_read_chunk_bytes" for s
    using seen(1) by (auto simp: reading_def trans_le_add1 split: option.splits)
  with seen exceeded_iff [OF seen(1)] show ?thesis
    by (intro exI [of _ seen]) (simp add: r output_of_def Let_def reading_def)
qed

definition sample_ticks :: "tick list" where
  "sample_ticks = [Ready [(Out, ''ok''), (Err, [])], Expired]"

lemma sample_ticks_small: "small_ticks sample_ticks"
  by (simp add: small_ticks_def small_events_def sample_ticks_def stream_read_chunk_bytes_def)

theorem output_recorded_within_budget_witness:
  "\<exists>r. stream_process_output id sample_ticks = Some r \<and> sm_stdout_bytes r \<le> 65536 + 8192"
proof -
  obtain r where r: "stream_process_output id sample_ticks = Some r"
    using stream_loop_expires [of sample_ticks initial_streams] by (auto simp: stream_process_output_def sample_ticks_def)
  from output_recorded_within_budget [OF r sample_ticks_small] obtain seen where
    "\<forall>s. prefix (seen s) (delivered s sample_ticks) \<and> length (seen s) \<le> stream_budget s + stream_read_chunk_bytes"
    "sm_stdout_bytes r = length (seen Out)" by (elim exE conjE)
  then have "sm_stdout_bytes r \<le> stream_budget Out + stream_read_chunk_bytes" by metis
  with r show ?thesis by (simp add: stream_budget_def stdout_byte_budget_def stream_read_chunk_bytes_def)
qed

text \<open>The label that the client puts on the container is the one that the cleanup asks for.\<close>

lemma built_run_gone:
  assumes "build_docker_run_argv reference command w (get_sandbox_profile uid gid name) sn sp (Some l) (Some c) = Inr argv"
    and "''--label'' \<notin> set command"
    and "cleanup_tracked_container (tracking_from_argv argv) a = (attempted, ''ok'', failure)"
  shows "\<exists>j out. 0 < j \<and> j \<le> cleanup_rounds
    \<and> ca_query a j [''docker'', ''ps'', ''-aq'', ''--filter'', ''label=com.repo-health-doctor.run-id='' @ l] = Exited 0 out
    \<and> (\<forall>c\<in>set out. is_space c)"
proof -
  have "tk_label (tracking_from_argv argv) = Some l"
    using tracking_of_built [OF assms(1)] scan_keeps_label [OF assms(2)] by simp
  with cleanup_ok_gone [OF assms(3)] show ?thesis
    by (simp add: container_query_def run_label_prefix_def)
qed


definition sample_label :: string where "sample_label = replicate 32 (CHR ''a'')"

definition sample_cleanup :: cleanup_answers where
  "sample_cleanup =
     \<lparr>ca_query = (\<lambda>n _. Exited 0 (if n = 0 then ''0123456789ab'' else [])), ca_cidfile = None, ca_inspect = (\<lambda>_. NotRun),
      ca_remove = (\<lambda>_ _. True), ca_unlink = True\<rparr>"

lemma sample_cleanup_ok:
  "cleanup_tracked_container \<lparr>tk_label = Some sample_label, tk_cidfile = Some ''c''\<rparr> sample_cleanup = (True, ''ok'', None)"
  by code_simp

lemma sample_command_argv:
  "\<exists>argv. build_docker_run_argv ''img@sha256:0'' [''pytest''] ''/tmp/w'' (get_sandbox_profile 1000 1000 profile_locked_down)
     seccomp_runtime_default None (Some sample_label) (Some ''c'') = Inr argv"
proof -
  have "returns (build_docker_run_argv ''img@sha256:0'' [''pytest''] ''/tmp/w'' (get_sandbox_profile 1000 1000 profile_locked_down)
     seccomp_runtime_default None (Some sample_label) (Some ''c''))" by code_simp
  then show ?thesis by (simp add: returns_iff)
qed


text \<open>C33: the scan does not stop at the image: an approved command that has \<open>--cidfile\<close> among its own
  arguments makes a successful cleanup delete the file it names on the host.\<close>

theorem command_names_deleted_file:
  assumes "build_docker_run_argv reference [tool, ''--cidfile'', f] w (get_sandbox_profile uid gid name) sn sp (Some l) (Some c)
      = Inr argv"
    and "tool \<notin> {''--label'', ''--cidfile''}"
    and "cleanup_tracked_container (tracking_from_argv argv) a = (True, ''ok'', None)"
  shows "deleted_file (tracking_from_argv argv) a = Some f"
  unfolding deleted_file_def assms(3) using tracking_of_built [OF assms(1)] scan_cidfile_command [OF assms(2)] by simp

theorem command_names_deleted_file_witness:
  "\<exists>argv. build_docker_run_argv ''img@sha256:0'' [''podman'', ''--cidfile'', ''/etc/x''] ''/tmp/w''
      (get_sandbox_profile 1000 1000 profile_locked_down) seccomp_runtime_default None (Some sample_label) (Some ''/tmp/c'') = Inr argv
    \<and> deleted_file (tracking_from_argv argv) sample_cleanup = Some ''/etc/x''"
proof -
  let ?build = "build_docker_run_argv ''img@sha256:0'' [''podman'', ''--cidfile'', ''/etc/x''] ''/tmp/w''
      (get_sandbox_profile 1000 1000 profile_locked_down) seccomp_runtime_default None (Some sample_label) (Some ''/tmp/c'')"
  have "returns ?build" by code_simp
  then obtain argv where b: "?build = Inr argv" by (auto simp: returns_iff)
  have "tracking_from_argv argv = \<lparr>tk_label = Some sample_label, tk_cidfile = Some ''/etc/x''\<rparr>"
    using tracking_of_built [OF b] scan_cidfile_command [of "''podman''"] by simp
  then have "cleanup_tracked_container (tracking_from_argv argv) sample_cleanup = (True, ''ok'', None)"
    using sample_cleanup_ok by (simp add: cleanup_tracked_container_def tracked_ids_def sample_cleanup_def read_cidfile_def split: if_splits)
  with command_names_deleted_file [OF b] b show ?thesis by simp
qed

end
