(* ===== verification/Run_Approval.thy ===== *)
theory Run_Approval
  imports Docker_Argv Snapshot
begin

text \<open>
  sandbox/approval.py: the approval of one sandbox run by a person.  An approval names the target,
  its fingerprint, the command, the image, the profile and a time limit; it is matched against
  the run that is about to start.
\<close>

section \<open>Vocabulary\<close>

definition sandbox_run_approval_kind :: string where "sandbox_run_approval_kind = ''repo_health_sandbox_run_approval''"
definition sandbox_run_approval_schema_version :: string where "sandbox_run_approval_schema_version = ''0.1-draft''"
definition sandbox_run_action :: string where "sandbox_run_action = ''sandbox_run''"
definition fingerprint_method :: string where "fingerprint_method = ''verified-snapshot-canonical-manifest-v2''"

definition approval_top_level_fields :: "string list" where
  "approval_top_level_fields =
     [''approval_kind'', ''schema_version'', ''approved'', ''approved_by'', ''approved_at'', ''expires_at'', ''action'',
      ''target'', ''command'', ''image'', ''sandbox_profile'', ''network'', ''timeout_seconds'', ''resource_limits'',
      ''root_user_allowed'', ''limitations'', ''residual_risks'']"

record run_approval =
  ra_approved :: bool
  ra_matched :: bool
  ra_refusal_reasons :: "string list"
  ra_warnings :: "string list"
  ra_limitations :: "string list"
  ra_residual_risks :: "string list"

text \<open>Reading the file: missing, another error of the file system, bytes that are no UTF-8 (the error
  is a \<open>ValueError\<close> with a text of its own), or a text and what the JSON parser makes of it.\<close>

datatype approval_file =
  ApprovalMissing | ApprovalUnreadable | ApprovalNotText string | ApprovalText "json option"

datatype approval_load = LoadRefused string | LoadRaised | Loaded dict

definition load_sandbox_run_approval :: "approval_file \<Rightarrow> approval_load" where
  "load_sandbox_run_approval file =
     (case file of
        ApprovalMissing \<Rightarrow> LoadRefused ''approval_missing''
      | ApprovalUnreadable \<Rightarrow> LoadRaised
      | ApprovalNotText message \<Rightarrow> LoadRefused message
      | ApprovalText None \<Rightarrow> LoadRefused ''approval_invalid_json''
      | ApprovalText (Some (JObj d)) \<Rightarrow> Loaded d
      | ApprovalText (Some _) \<Rightarrow> LoadRefused ''approval_must_be_object'')"

section \<open>The run that an approval is matched with\<close>

record planned_run =
  pr_target_identity :: string
  pr_fingerprint :: string
  pr_argv :: "string list"
  pr_image :: string
  pr_profile :: sandbox_profile
  pr_timeout :: int

definition nonempty_items :: "json \<Rightarrow> string list" where
  "nonempty_items v = filter (\<lambda>s. s \<noteq> []) (string_items v)"

definition approval_not_expired :: "json \<Rightarrow> datetime \<Rightarrow> bool" where
  "approval_not_expired v now =
     (case v of
        JNull \<Rightarrow> True
      | JStr s \<Rightarrow> s \<noteq> [] \<and> (case fromisoformat (zulu s) of None \<Rightarrow> False | Some t \<Rightarrow> instant t > instant now)
      | _ \<Rightarrow> False)"

definition approved_metadata_errors :: "dict \<Rightarrow> string list" where
  "approved_metadata_errors a =
     concat (map (\<lambda>field. if nonempty_str (dget a field) then [] else [field @ ''_missing'']) [''approved_by'', ''approved_at''])
     @ (case opt_str (dget a ''approved_at'') of
          None \<Rightarrow> []
        | Some s \<Rightarrow> if s \<noteq> [] \<and> fromisoformat (zulu s) = None then [''approved_at_invalid''] else [])"

definition unless :: "bool \<Rightarrow> string \<Rightarrow> string list" where
  "unless ok message = (if ok then [] else [message])"

definition approved_timeout_errors :: "json \<Rightarrow> int \<Rightarrow> string list" where
  "approved_timeout_errors v timeout =
     (case v of
        JInt t \<Rightarrow> if t \<le> 0 then [''timeout_seconds_invalid''] else unless (timeout \<le> t) ''timeout_exceeds_approval''
      | JBool b \<Rightarrow> if \<not> b then [''timeout_seconds_invalid''] else unless (timeout \<le> 1) ''timeout_exceeds_approval''
      | _ \<Rightarrow> [''timeout_seconds_invalid''])"

definition command_approved :: "json \<Rightarrow> string list \<Rightarrow> bool" where
  "command_approved v argv \<longleftrightarrow> is_list v \<and> py_eq v (jstrs argv) \<and> [] \<notin> set argv"

definition approval_header_errors :: "dict \<Rightarrow> string list" where
  "approval_header_errors a =
     unless (keys_eq a approval_top_level_fields) ''approval_top_level_required_or_unknown_field''
     @ unless (py_eq (dget a ''approval_kind'') (JStr sandbox_run_approval_kind)) ''approval_kind_unsupported''
     @ unless (py_eq (dget a ''schema_version'') (JStr sandbox_run_approval_schema_version)) ''approval_schema_version_unsupported''
     @ unless (is_true (dget a ''approved'')) ''approval_missing''
     @ unless (py_eq (dget a ''action'') (JStr sandbox_run_action)) ''approval_action_not_sandbox_run''
     @ unless (nonempty_items (dget a ''limitations'') \<noteq> []) ''approval_limitations_empty''
     @ unless (nonempty_items (dget a ''residual_risks'') \<noteq> []) ''approval_residual_risks_empty''"

definition approval_subject_errors :: "dict \<Rightarrow> planned_run \<Rightarrow> string list" where
  "approval_subject_errors a r =
     (let target = sect a ''target''; command = sect a ''command''; image_doc = sect a ''image'' in
      unless (py_eq (dget target ''identity'') (JStr (pr_target_identity r))) ''target_identity_mismatch''
      @ unless (py_eq (dget target ''fingerprint'') (JStr (pr_fingerprint r))) ''target_fingerprint_mismatch''
      @ unless (py_eq (dget target ''fingerprint_method'') (JStr fingerprint_method)) ''target_fingerprint_method_mismatch''
      @ unless (command_approved (dget command ''argv'') (pr_argv r)) ''command_argv_mismatch''
      @ unless (is_false (dget command ''shell'')) ''shell_wrapping_not_allowed''
      @ unless (py_eq (dget image_doc ''reference'') (JStr (pr_image r))) ''image_reference_mismatch''
      @ unless (py_eq (dget image_doc ''pull_policy'') (JStr ''never'')) ''image_pull_policy_must_be_never'')"

definition approval_profile_errors :: "dict \<Rightarrow> planned_run \<Rightarrow> string list" where
  "approval_profile_errors a r =
     (let p = pr_profile r; profile_doc = sect a ''sandbox_profile''; root_allowed = dget a ''root_user_allowed'' in
      unless (py_eq (dget profile_doc ''name'') (JStr (sp_name p))) ''sandbox_profile_mismatch''
      @ unless (py_eq (dget profile_doc ''network'') (JStr (sp_network p))) ''sandbox_profile_network_mismatch''
      @ unless (py_eq (dget a ''network'') (JStr (sp_network p))) ''network_mismatch''
      @ approved_timeout_errors (dget a ''timeout_seconds'') (pr_timeout r)
      @ unless (py_eq (dget a ''resource_limits'') (JObj (resource_limits p))) ''resource_limits_mismatch''
      @ unless (is_bool root_allowed) ''root_user_allowed_must_be_boolean''
      @ unless (\<not> root_user (sp_user p) \<or> is_true root_allowed) ''root_user_not_approved'')"

definition approval_errors :: "dict \<Rightarrow> planned_run \<Rightarrow> datetime \<Rightarrow> string list" where
  "approval_errors a r now =
     approval_header_errors a @ approval_subject_errors a r @ approval_profile_errors a r
     @ unless (approval_not_expired (dget a ''expires_at'') now) ''approval_expired''
     @ approved_metadata_errors a"

definition validate_sandbox_run_approval :: "dict \<Rightarrow> planned_run \<Rightarrow> datetime \<Rightarrow> run_approval" where
  "validate_sandbox_run_approval a r now =
     (let errors = approval_errors a r now in
      \<lparr>ra_approved = is_true (dget a ''approved''), ra_matched = (errors = []), ra_refusal_reasons = dedupe errors,
       ra_warnings = (if latest_tag (pr_image r) then [''image_latest_tag_is_not_reproducible''] else []),
       ra_limitations = nonempty_items (dget a ''limitations''),
       ra_residual_risks = nonempty_items (dget a ''residual_risks'')\<rparr>)"

definition build_demo_sandbox_run_approval :: "planned_run \<Rightarrow> string \<Rightarrow> dict" where
  "build_demo_sandbox_run_approval r expires_at =
     (let p = pr_profile r in
      [(''approval_kind'', JStr sandbox_run_approval_kind), (''schema_version'', JStr sandbox_run_approval_schema_version),
       (''approved'', JBool True), (''approved_by'', JStr ''demo-reviewer@example.invalid''),
       (''approved_at'', JStr ''2026-06-27T00:00:00Z''), (''expires_at'', JStr expires_at),
       (''action'', JStr sandbox_run_action),
       (''target'', JObj
         [(''identity'', JStr (pr_target_identity r)), (''fingerprint'', JStr (pr_fingerprint r)),
          (''fingerprint_method'', JStr fingerprint_method)]),
       (''command'', JObj [(''argv'', jstrs (pr_argv r)), (''shell'', JBool False)]),
       (''image'', JObj [(''reference'', JStr (pr_image r)), (''pull_policy'', JStr ''never'')]),
       (''sandbox_profile'', JObj [(''name'', JStr (sp_name p)), (''network'', JStr (sp_network p))]),
       (''network'', JStr (sp_network p)), (''timeout_seconds'', JInt 30),
       (''resource_limits'', JObj (resource_limits p)), (''root_user_allowed'', JBool False),
       (''limitations'', jstrs
         [''Approval is scoped to one reviewed sandbox-run command.'',
          ''A completed sandbox run is not proof that the repository is safe.'',
          ''Docker isolation has limitations and does not grant unrestricted execution authorization.'']),
       (''residual_risks'', jstrs
         [''The container image, Docker daemon, host kernel, and copied repository content remain trust boundaries.'',
          ''The disposable workspace evidence is bounded and does not prove absence of malicious behavior.''])])"

section \<open>What a matching approval covers\<close>

lemma unless_Nil [simp]: "unless ok message = [] \<longleftrightarrow> ok"
  by (simp add: unless_def)

lemma command_approved_iff: "command_approved v argv \<longleftrightarrow> v = jstrs argv \<and> [] \<notin> set argv"
  by (cases v) (auto simp: command_approved_def jstrs_def py_eq_list py_eq_strs)

lemma approved_timeout_iff:
  "approved_timeout_errors v timeout = [] \<longleftrightarrow> (\<exists>t. v = JInt t \<and> 0 < t \<and> timeout \<le> t) \<or> (v = JBool True \<and> timeout \<le> 1)"
  by (cases v) (auto simp: approved_timeout_errors_def)

lemma approval_not_expired_iff: "approval_not_expired v now \<longleftrightarrow> v = JNull \<or> fresh_until v now"
  by (cases v) (auto simp: approval_not_expired_def fresh_until_def zulu_def replace_char_def fromisoformat_def parse_date_def
      take_digits_def split: option.splits)

lemma approved_metadata_iff:
  "approved_metadata_errors a = [] \<longleftrightarrow> nonempty_str (dget a ''approved_by'')
     \<and> (\<exists>t. dget a ''approved_at'' = JStr t \<and> t \<noteq> [] \<and> fromisoformat (zulu t) \<noteq> None)"
  by (cases "dget a ''approved_at''") (auto simp: approved_metadata_errors_def)

definition approval_covers :: "dict \<Rightarrow> planned_run \<Rightarrow> datetime \<Rightarrow> bool" where
  "approval_covers a r now \<longleftrightarrow>
     keys_eq a approval_top_level_fields
     \<and> dget a ''approval_kind'' = JStr sandbox_run_approval_kind
     \<and> dget a ''schema_version'' = JStr sandbox_run_approval_schema_version
     \<and> dget a ''approved'' = JBool True \<and> dget a ''action'' = JStr sandbox_run_action
     \<and> nonempty_items (dget a ''limitations'') \<noteq> [] \<and> nonempty_items (dget a ''residual_risks'') \<noteq> []
     \<and> dget (sect a ''target'') ''identity'' = JStr (pr_target_identity r)
     \<and> dget (sect a ''target'') ''fingerprint'' = JStr (pr_fingerprint r)
     \<and> dget (sect a ''target'') ''fingerprint_method'' = JStr fingerprint_method
     \<and> dget (sect a ''command'') ''argv'' = jstrs (pr_argv r) \<and> [] \<notin> set (pr_argv r)
     \<and> dget (sect a ''command'') ''shell'' = JBool False
     \<and> dget (sect a ''image'') ''reference'' = JStr (pr_image r) \<and> dget (sect a ''image'') ''pull_policy'' = JStr ''never''
     \<and> dget (sect a ''sandbox_profile'') ''name'' = JStr (sp_name (pr_profile r))
     \<and> dget (sect a ''sandbox_profile'') ''network'' = JStr (sp_network (pr_profile r))
     \<and> dget a ''network'' = JStr (sp_network (pr_profile r))
     \<and> ((\<exists>t. dget a ''timeout_seconds'' = JInt t \<and> 0 < t \<and> pr_timeout r \<le> t)
        \<or> dget a ''timeout_seconds'' = JBool True \<and> pr_timeout r \<le> 1)
     \<and> py_eq (dget a ''resource_limits'') (JObj (resource_limits (pr_profile r)))
     \<and> is_bool (dget a ''root_user_allowed'')
     \<and> (root_user (sp_user (pr_profile r)) \<longrightarrow> dget a ''root_user_allowed'' = JBool True)
     \<and> (dget a ''expires_at'' = JNull \<or> fresh_until (dget a ''expires_at'') now)
     \<and> nonempty_str (dget a ''approved_by'')
     \<and> (\<exists>t. dget a ''approved_at'' = JStr t \<and> t \<noteq> [] \<and> fromisoformat (zulu t) \<noteq> None)"

lemma approval_header_iff:
  "approval_header_errors a = [] \<longleftrightarrow> keys_eq a approval_top_level_fields
     \<and> dget a ''approval_kind'' = JStr sandbox_run_approval_kind
     \<and> dget a ''schema_version'' = JStr sandbox_run_approval_schema_version
     \<and> dget a ''approved'' = JBool True \<and> dget a ''action'' = JStr sandbox_run_action
     \<and> nonempty_items (dget a ''limitations'') \<noteq> [] \<and> nonempty_items (dget a ''residual_risks'') \<noteq> []"
  by (simp only: approval_header_errors_def append_is_Nil_conv unless_Nil py_eq_str is_true_def)

lemma approval_subject_iff:
  "approval_subject_errors a r = [] \<longleftrightarrow> dget (sect a ''target'') ''identity'' = JStr (pr_target_identity r)
     \<and> dget (sect a ''target'') ''fingerprint'' = JStr (pr_fingerprint r)
     \<and> dget (sect a ''target'') ''fingerprint_method'' = JStr fingerprint_method
     \<and> (dget (sect a ''command'') ''argv'' = jstrs (pr_argv r) \<and> [] \<notin> set (pr_argv r))
     \<and> dget (sect a ''command'') ''shell'' = JBool False
     \<and> dget (sect a ''image'') ''reference'' = JStr (pr_image r) \<and> dget (sect a ''image'') ''pull_policy'' = JStr ''never''"
  by (simp only: approval_subject_errors_def Let_def append_is_Nil_conv unless_Nil py_eq_str is_false_def command_approved_iff)

lemma approval_profile_iff:
  "approval_profile_errors a r = [] \<longleftrightarrow> dget (sect a ''sandbox_profile'') ''name'' = JStr (sp_name (pr_profile r))
     \<and> dget (sect a ''sandbox_profile'') ''network'' = JStr (sp_network (pr_profile r))
     \<and> dget a ''network'' = JStr (sp_network (pr_profile r))
     \<and> ((\<exists>t. dget a ''timeout_seconds'' = JInt t \<and> 0 < t \<and> pr_timeout r \<le> t)
        \<or> dget a ''timeout_seconds'' = JBool True \<and> pr_timeout r \<le> 1)
     \<and> py_eq (dget a ''resource_limits'') (JObj (resource_limits (pr_profile r)))
     \<and> is_bool (dget a ''root_user_allowed'')
     \<and> (root_user (sp_user (pr_profile r)) \<longrightarrow> dget a ''root_user_allowed'' = JBool True)"
  by (simp only: approval_profile_errors_def Let_def append_is_Nil_conv unless_Nil py_eq_str is_true_def
      approved_timeout_iff imp_conv_disj)

lemma approval_matched: "ra_matched (validate_sandbox_run_approval a r now) \<longleftrightarrow> approval_covers a r now"
  by (simp only: approval_covers_def validate_sandbox_run_approval_def run_approval.simps approval_errors_def Let_def
      append_is_Nil_conv unless_Nil approval_header_iff approval_subject_iff approval_profile_iff
      approval_not_expired_iff approved_metadata_iff conj_assoc)

section \<open>Properties\<close>

text \<open>C35: an approval matches a run exactly when it covers it: a person approved this target, command,
  image and profile, for at least this much time, and the approval has not expired.\<close>

theorem approval_matched_exactly: "ra_matched (validate_sandbox_run_approval a r now) \<longleftrightarrow> approval_covers a r now"
  by (rule approval_matched)

text \<open>the approval that the tool drafts for a run is accepted for that run.\<close>

theorem demo_approval_matches:
  assumes "[] \<notin> set (pr_argv r)" and "pr_timeout r \<le> 30" and "\<not> root_user (sp_user (pr_profile r))"
    and "fresh_until (JStr expires_at) now"
  shows "ra_matched (validate_sandbox_run_approval (build_demo_sandbox_run_approval r expires_at) r now)"
proof -
  have t: "fromisoformat (zulu ''2026-06-27T00:00:00Z'') \<noteq> None" by code_simp
  have k: "keys_eq (build_demo_sandbox_run_approval r expires_at) approval_top_level_fields"
    by (simp add: build_demo_sandbox_run_approval_def Let_def keys_eq_def keys_def approval_top_level_fields_def)
  have l: "py_eq (JObj (resource_limits p)) (JObj (resource_limits p))" for p
    by (rule py_eq_refl) (simp add: resource_limits_def)
  let ?d = "build_demo_sandbox_run_approval r expires_at"
  note look = build_demo_sandbox_run_approval_def Let_def dget_Cons sect_def
  have head: "dget ?d ''approval_kind'' = JStr sandbox_run_approval_kind" "dget ?d ''schema_version'' = JStr sandbox_run_approval_schema_version"
    "dget ?d ''approved'' = JBool True" "dget ?d ''action'' = JStr sandbox_run_action"
    "dget ?d ''approved_by'' = JStr ''demo-reviewer@example.invalid''" "dget ?d ''approved_at'' = JStr ''2026-06-27T00:00:00Z''"
    "dget ?d ''expires_at'' = JStr expires_at"
    by (simp_all add: look)
  have subject: "dget (sect ?d ''target'') ''identity'' = JStr (pr_target_identity r)"
    "dget (sect ?d ''target'') ''fingerprint'' = JStr (pr_fingerprint r)"
    "dget (sect ?d ''target'') ''fingerprint_method'' = JStr fingerprint_method"
    "dget (sect ?d ''command'') ''argv'' = jstrs (pr_argv r)" "dget (sect ?d ''command'') ''shell'' = JBool False"
    "dget (sect ?d ''image'') ''reference'' = JStr (pr_image r)" "dget (sect ?d ''image'') ''pull_policy'' = JStr ''never''"
    by (simp_all add: look)
  have profile: "dget (sect ?d ''sandbox_profile'') ''name'' = JStr (sp_name (pr_profile r))"
    "dget (sect ?d ''sandbox_profile'') ''network'' = JStr (sp_network (pr_profile r))"
    "dget ?d ''network'' = JStr (sp_network (pr_profile r))" "dget ?d ''timeout_seconds'' = JInt 30"
    "dget ?d ''resource_limits'' = JObj (resource_limits (pr_profile r))" "dget ?d ''root_user_allowed'' = JBool False"
    by (simp_all add: look)
  have texts: "nonempty_items (dget ?d ''limitations'') \<noteq> []" "nonempty_items (dget ?d ''residual_risks'') \<noteq> []"
    by (simp_all add: look nonempty_items_def)
  show ?thesis
    unfolding approval_matched approval_covers_def head subject profile using assms t k l texts by simp
qed

definition sample_run :: planned_run where
  "sample_run =
     \<lparr>pr_target_identity = ''id'', pr_fingerprint = ''fp'', pr_argv = [''pytest''], pr_image = ''img'',
      pr_profile = get_sandbox_profile 1000 1000 profile_locked_down, pr_timeout = 30\<rparr>"

theorem demo_approval_matches_witness:
  "ra_matched (validate_sandbox_run_approval (build_demo_sandbox_run_approval sample_run ''2030-01-01T00:00:00Z'')
     sample_run \<lparr>clock_us = 0, tz_us = Some 0\<rparr>)"
proof (rule demo_approval_matches)
  have "(case fromisoformat (zulu ''2030-01-01T00:00:00Z'') of None \<Rightarrow> False | Some e \<Rightarrow> 0 < instant e)" by code_simp
  then show "fresh_until (JStr ''2030-01-01T00:00:00Z'') \<lparr>clock_us = 0, tz_us = Some 0\<rparr>"
    by (auto simp: fresh_until_def instant_def split: option.splits)
qed (simp_all add: sample_run_def profile_isolated)

end
