(* ===== verification/Run_Redaction.thy ===== *)
theory Run_Redaction
  imports Py_Dumps
begin

text \<open>
  The redaction of texts and reports in sandbox/run.py: \<open>_redact_text\<close> and \<open>_redact_report\<close> with
  their regular expressions.  Each pattern is a matcher: from the character before the position
  (for the lookbehinds and word boundaries) and the text from there on, the length of the match
  that the backtracking matcher of Python finds.  The patterns are such that a greedy run is
  always the longest one, so no backtracking changes a result.
\<close>

section \<open>Substitution\<close>

type_synonym matcher = "char option \<Rightarrow> string \<Rightarrow> nat option"

text \<open>\<open>pattern.sub(replacement, text)\<close> for a pattern that never matches the empty text.\<close>

function sub :: "matcher \<Rightarrow> string \<Rightarrow> char option \<Rightarrow> string \<Rightarrow> string" where
  "sub m r before [] = []"
| "sub m r before (c # s) =
     (case m before (c # s) of
        None \<Rightarrow> c # sub m r (Some c) s
      | Some n \<Rightarrow> r @ sub m r (Some (last (take (max 1 n) (c # s)))) (drop (n - 1) s))"
  by pat_completeness auto
termination
  by (relation "measure (\<lambda>(m, r, before, s). length s)") auto

text \<open>\<open>text.replace(old, new)\<close> for a non-empty \<open>old\<close>.\<close>

definition literal_match :: "string \<Rightarrow> matcher" where
  "literal_match old before s = (if starts_with s old then Some (length old) else None)"

definition replace_text :: "string \<Rightarrow> string \<Rightarrow> string \<Rightarrow> string" where
  "replace_text old new s = sub (literal_match old) new None s"

section \<open>Private paths\<close>

definition literal_then :: "string \<Rightarrow> (char \<Rightarrow> bool) \<Rightarrow> string \<Rightarrow> nat option" where
  "literal_then w p s =
     (let run = takeWhile p (drop (length w) s) in
      if starts_with s w \<and> run \<noteq> [] then Some (length w + length run) else None)"

definition ascii_letter :: "char \<Rightarrow> bool" where
  "ascii_letter c \<longleftrightarrow> is_upper_ascii c \<or> is_lower_ascii c"

definition backslash :: char where "backslash = CHR 92"

definition posix_name_char :: "char \<Rightarrow> bool" where
  "posix_name_char c \<longleftrightarrow> c \<noteq> CHR ''/'' \<and> \<not> is_space c"

definition windows_name_char :: "char \<Rightarrow> bool" where
  "windows_name_char c \<longleftrightarrow> c \<noteq> backslash \<and> \<not> is_space c"

definition home_match :: matcher where
  "home_match before s = literal_then ''/home/'' posix_name_char s"

definition users_match :: matcher where
  "users_match before s = literal_then ''/Users/'' posix_name_char s"

definition mnt_match :: matcher where
  "mnt_match before s =
     (if starts_with s ''/mnt/''
      then (case drop 5 s of
              [] \<Rightarrow> None
            | x # rest \<Rightarrow> if ascii_letter x then map_option (\<lambda>n. 6 + n) (literal_then ''/Users/'' posix_name_char rest) else None)
      else None)"

definition windows_users :: string where
  "windows_users = CHR '':'' # backslash # ''Users'' @ [backslash]"

definition windows_match :: matcher where
  "windows_match before s =
     (case s of
        [] \<Rightarrow> None
      | x # rest \<Rightarrow> if ascii_letter x then map_option Suc (literal_then windows_users windows_name_char rest) else None)"

definition private_path_patterns :: "matcher list" where
  "private_path_patterns = [home_match, users_match, mnt_match, windows_match]"

section \<open>Secrets\<close>

definition preceded_by :: "(char \<Rightarrow> bool) \<Rightarrow> char option \<Rightarrow> bool" where
  "preceded_by p before = (case before of None \<Rightarrow> False | Some c \<Rightarrow> p c)"

text \<open>The lines around a private key, in any case: the length of the whole line mark.\<close>

definition key_words_rx :: rx where
  "key_words_rx = Cat (Rep (Cat (lit '' '') (rep1 (Cls is_ascii_alnum)))) (lit '' private key'')"

definition key_line :: "string \<Rightarrow> string \<Rightarrow> nat option" where
  "key_line word s =
     (let t = py_lower s; lead = ''-----'' @ word;
          body = takeWhile (\<lambda>c. is_ascii_alnum c \<or> c = CHR '' '') (drop (length lead) t) in
      if starts_with t lead \<and> starts_with (drop (length lead + length body) t) ''-----'' \<and> rx_fullmatch key_words_rx body
      then Some (length lead + length body + 5) else None)"

fun first_footer :: "nat \<Rightarrow> string \<Rightarrow> nat option" where
  "first_footer k [] = None"
| "first_footer k (c # s) =
     (case key_line ''end'' (c # s) of Some e \<Rightarrow> Some (k + e) | None \<Rightarrow> first_footer (Suc k) s)"

definition private_key_match :: matcher where
  "private_key_match before s =
     (case key_line ''begin'' s of None \<Rightarrow> None | Some n \<Rightarrow> first_footer n (drop n s))"

definition token_class :: "char \<Rightarrow> bool" where
  "token_class c \<longleftrightarrow> is_ascii_alnum c \<or> c = CHR ''_'' \<or> c = CHR ''-''"

definition upper_or_digit :: "char \<Rightarrow> bool" where
  "upper_or_digit c \<longleftrightarrow> is_upper_ascii c \<or> is_digit c"

definition sk_match :: matcher where
  "sk_match before s =
     (let run = takeWhile token_class (drop 3 s) in
      if \<not> preceded_by token_class before \<and> starts_with s ''sk-'' \<and> length run \<ge> 8 then Some (3 + length run) else None)"

definition ghp_match :: matcher where
  "ghp_match before s =
     (let run = takeWhile is_ascii_alnum (drop 4 s) in
      if \<not> preceded_by is_ascii_alnum before \<and> starts_with s ''ghp_'' \<and> length run \<ge> 20 then Some (4 + length run) else None)"

definition akia_match :: matcher where
  "akia_match before s =
     (if \<not> preceded_by upper_or_digit before \<and> starts_with s ''AKIA''
         \<and> length (takeWhile upper_or_digit (drop 4 s)) = 16 then Some 20 else None)"

definition word_char_re :: "char \<Rightarrow> bool" where
  "word_char_re c \<longleftrightarrow> is_alnum c \<or> c = CHR ''_''"

definition secret_words :: "string list" where
  "secret_words = [''password'', ''token'', ''api_key'', ''api-key'', ''apikey'', ''secret'']"

definition assigned_char :: "char \<Rightarrow> bool" where
  "assigned_char c \<longleftrightarrow> \<not> is_space c \<and> c \<notin> {CHR '','', CHR '';'', CHR ''}'', CHR '']''}"

text \<open>What follows the word: blanks, a colon or an equals sign, blanks, a value.\<close>

definition assignment_after :: "string \<Rightarrow> nat option" where
  "assignment_after s =
     (let blanks = takeWhile is_space s in
      case drop (length blanks) s of
        [] \<Rightarrow> None
      | c # rest \<Rightarrow>
          if c \<noteq> CHR '':'' \<and> c \<noteq> CHR ''='' then None
          else
            (let blanks2 = takeWhile is_space rest; run = takeWhile assigned_char (drop (length blanks2) rest) in
             if run = [] then None else Some (length blanks + 1 + length blanks2 + length run)))"

definition assignment_match :: matcher where
  "assignment_match before s =
     (case filter (\<lambda>w. starts_with (py_lower s) w) secret_words of
        [] \<Rightarrow> None
      | w # ws \<Rightarrow>
          (let rest = drop (length w) s in
           if preceded_by word_char_re before \<or> rest = [] \<or> word_char_re (hd rest) then None
           else map_option (\<lambda>n. length w + n) (assignment_after rest)))"

definition secret_patterns :: "matcher list" where
  "secret_patterns = [private_key_match, sk_match, ghp_match, akia_match, assignment_match]"

section \<open>Redaction\<close>

definition host_path_mark :: string where "host_path_mark = ''<host-private-path>''"
definition secret_mark :: string where "secret_mark = ''<redacted-secret>''"

definition redact_patterns :: "string \<Rightarrow> string" where
  "redact_patterns s =
     fold (\<lambda>m t. sub m secret_mark None t) secret_patterns
       (fold (\<lambda>m t. sub m host_path_mark None t) private_path_patterns s)"

text \<open>The directories of a run, as texts; a workspace is present or not.\<close>

record run_paths =
  rp_workspace :: string
  rp_out :: string
  rp_root :: string

definition redact_text :: "string \<Rightarrow> run_paths option \<Rightarrow> string \<Rightarrow> string" where
  "redact_text target paths text =
     redact_patterns
       (case paths of
          None \<Rightarrow> replace_text target ''<repo>'' text
        | Some p \<Rightarrow>
            replace_text (rp_root p) ''<sandbox-run-root>''
              (replace_text (rp_out p) ''<sandbox-out>''
                (replace_text (rp_workspace p) ''<disposable-workspace>'' (replace_text target ''<repo>'' text))))"

text \<open>\<open>_redact_report\<close>: every string of a report, at any depth; the keys stay as they are.\<close>

function redact_report :: "json \<Rightarrow> json" where
  "redact_report v =
     (case v of
        JStr s \<Rightarrow> JStr (redact_patterns s)
      | JList xs \<Rightarrow> JList (map redact_report xs)
      | JObj d \<Rightarrow> JObj (map (\<lambda>(k, x). (k, redact_report x)) d)
      | _ \<Rightarrow> v)"
  by pat_completeness auto
termination
  by (relation "measure size") (auto simp: size_json_dict size_list_mem)

declare redact_report.simps [simp del]

definition bounded_redacted_preview :: "string \<Rightarrow> run_paths option \<Rightarrow> nat \<Rightarrow> string \<Rightarrow> string \<times> bool" where
  "bounded_redacted_preview target paths limit text =
     (let redacted = redact_text target paths text; truncated = length redacted > limit in
      (if truncated then take limit redacted @ [CHR 10] @ ''<redacted-preview-truncated>'' else redacted, truncated))"

section \<open>No name of a user is left\<close>

text \<open>After every occurrence of \<open>w\<close> the text ends, or goes on with a character outside the name, or
  with a mark of the redaction.\<close>

definition open_name :: "(char \<Rightarrow> bool) \<Rightarrow> string \<Rightarrow> bool" where
  "open_name p v \<longleftrightarrow> v \<noteq> [] \<and> p (hd v) \<and> hd v \<noteq> CHR ''<''"

definition guarded :: "string \<Rightarrow> (char \<Rightarrow> bool) \<Rightarrow> string \<Rightarrow> bool" where
  "guarded w p s \<longleftrightarrow> (\<forall>u v. s = u @ w @ v \<longrightarrow> \<not> open_name p v)"

text \<open>A mark that no occurrence of \<open>w\<close> can touch.\<close>

definition apart :: "string \<Rightarrow> string \<Rightarrow> bool" where
  "apart w r \<longleftrightarrow> r \<noteq> [] \<and> hd r = CHR ''<'' \<and> CHR ''<'' \<notin> set w
     \<and> (\<forall>t. t \<noteq> [] \<and> suffix t r \<longrightarrow> \<not> prefix t w \<and> \<not> prefix w t)"

lemma sub_kept:
  assumes "r \<noteq> []" and "hd r = CHR ''<''" and "sub m r before s = w @ v" and "CHR ''<'' \<notin> set w"
  shows "\<exists>t before'. s = w @ t \<and> v = sub m r before' t"
  using assms(3,4)
proof (induction w arbitrary: s before)
  case Nil
  then show ?case by auto
next
  case (Cons c w)
  then obtain d s' where s: "s = d # s'" by (cases s) auto
  have "m before s = None"
  proof (rule ccontr)
    assume "m before s \<noteq> None"
    then have "hd (sub m r before s) = CHR ''<''" using assms(1,2) by (auto simp: s)
    with Cons.prems show False by simp
  qed
  with Cons.prems(1) s have "d = c" "sub m r (Some c) s' = w @ v" by auto
  with Cons.IH [of "Some c" s'] Cons.prems(2) s show ?case by auto
qed

lemma sub_head:
  "r \<noteq> [] \<Longrightarrow> hd r = CHR ''<'' \<Longrightarrow> sub m r before t = [] \<or> hd (sub m r before t) = CHR ''<'' \<or> (t \<noteq> [] \<and> hd (sub m r before t) = hd t)"
  by (cases t) (auto split: option.split)

lemma sub_open_name: "r \<noteq> [] \<Longrightarrow> hd r = CHR ''<'' \<Longrightarrow> open_name p (sub m r before t) \<Longrightarrow> open_name p t"
  using sub_head [of r m before t] by (auto simp: open_name_def)

lemma sub_guarded:
  assumes "apart w r" and "w \<noteq> []"
    and "\<forall>before s' u t. s = u @ s' \<and> s' = w @ t \<and> m before s' = None \<longrightarrow> \<not> open_name p t"
  shows "guarded w p (sub m r before s)"
  using assms
proof (induction m r before s rule: sub.induct)
  case (1 m r before)
  then show ?case by (simp add: guarded_def)
next
  case (2 m r before c s)
  have r: "r \<noteq> []" "hd r = CHR ''<''" "CHR ''<'' \<notin> set w" using "2.prems"(1) by (simp_all add: apart_def)
  have here: "\<not> open_name p t" if "c # s = w @ t" "m before (c # s) = None" for t
    using "2.prems"(3) that by (metis append_Nil)
  have later: "\<forall>before s' u t. drop k s = u @ s' \<and> s' = w @ t \<and> m before s' = None \<longrightarrow> \<not> open_name p t" for k
  proof (intro allI impI, elim conjE)
    fix before' s' u t
    assume h: "drop k s = u @ s'" "s' = w @ t" "m before' s' = None"
    have "c # s = (c # take k s @ u) @ s'" using h(1) by (metis append_Cons append_assoc append_take_drop_id)
    with h(2,3) "2.prems"(3) show "\<not> open_name p t" by blast
  qed
  show ?case
  proof (cases "m before (c # s)")
    case None
    have g: "guarded w p (sub m r (Some c) s)"
      using "2.IH"(1) [OF None "2.prems"(1,2)] later [of 0] by simp
    show ?thesis
      unfolding guarded_def
    proof (intro allI impI)
      fix u v
      assume e: "sub m r before (c # s) = u @ w @ v"
      show "\<not> open_name p v"
      proof (cases u)
        case Nil
        with e have "sub m r before (c # s) = w @ v" by simp
        from sub_kept [OF r(1,2) this r(3)] obtain t before' where t: "c # s = w @ t" "v = sub m r before' t"
          by (elim exE conjE)
        with sub_open_name [OF r(1,2)] here [OF t(1) None] show ?thesis by blast
      next
        case (Cons d u')
        with e None g show ?thesis by (auto simp: guarded_def)
      qed
    qed
  next
    case (Some n)
    let ?rest = "sub m r (Some (last (take (max 1 n) (c # s)))) (drop (n - 1) s)"
    have g: "guarded w p ?rest" using "2.IH"(2) [OF Some "2.prems"(1,2) later] .
    show ?thesis
      unfolding guarded_def
    proof (intro allI impI)
      fix u v
      assume "sub m r before (c # s) = u @ w @ v"
      with Some have e: "r @ ?rest = u @ w @ v" by simp
      show "\<not> open_name p v"
      proof (cases "length r \<le> length u")
        case True
        with e have "?rest = drop (length r) u @ w @ v"
          by (metis append_eq_append_conv_if append_eq_conv_conj drop_append diff_is_0_eq drop0)
        with g show ?thesis by (auto simp: guarded_def)
      next
        case False
        then have "drop (length u) r \<noteq> []" and s: "suffix (drop (length u) r) r" by (simp_all add: suffix_drop)
        moreover from e False have "drop (length u) r @ ?rest = w @ v"
          by (metis append_eq_conv_conj drop_append diff_is_0_eq drop0 nat_le_linear)
        then have "prefix (drop (length u) r) w \<or> prefix w (drop (length u) r)"
          by (metis prefixI prefix_same_cases)
        ultimately show ?thesis using "2.prems"(1) unfolding apart_def by blast
      qed
    qed
  qed
qed

lemma guarded_kept: "guarded w p s \<Longrightarrow> apart w r \<Longrightarrow> w \<noteq> [] \<Longrightarrow> guarded w p (sub m r before s)"
  by (rule sub_guarded) (auto simp: guarded_def)

lemma fold_guarded:
  "guarded w p s \<Longrightarrow> apart w r \<Longrightarrow> w \<noteq> [] \<Longrightarrow> guarded w p (fold (\<lambda>m t. sub m r None t) ms s)"
  by (induction ms arbitrary: s) (simp_all add: guarded_kept)

lemma literal_then_open: "open_name p t \<Longrightarrow> literal_then w p (w @ t) \<noteq> None"
  by (cases t) (auto simp: open_name_def literal_then_def Let_def starts_with_def)

lemma literal_guarded:
  assumes "apart w r" and "w \<noteq> []" and "\<forall>before s. m before s = None \<longrightarrow> literal_then w p s = None"
  shows "guarded w p (sub m r before s)"
  using assms by (intro sub_guarded) (auto dest: literal_then_open)

lemma apart_sep:
  assumes "r \<noteq> []" and "hd r = CHR ''<''" and "CHR ''<'' \<notin> set w" and "w \<noteq> []" and "hd w \<notin> set r"
  shows "apart w r"
  unfolding apart_def
proof (intro conjI allI impI notI)
  fix t
  assume t: "t \<noteq> [] \<and> suffix t r"
  then have "hd t \<in> set r" by (metis hd_in_set set_mono_suffix subsetD)
  moreover have "hd t = hd w" if "prefix t w \<or> prefix w t" using that t assms(4) by (auto simp: prefix_def)
  ultimately show False if "prefix t w" using that assms(5) by metis
  from \<open>hd t \<in> set r\<close> \<open>prefix t w \<or> prefix w t \<Longrightarrow> hd t = hd w\<close> show False if "prefix w t" using that assms(5) by metis
qed (use assms in auto)

lemma apart_windows:
  assumes "r \<noteq> []" and "hd r = CHR ''<''" and "last r = CHR ''>''" and "CHR '':'' \<notin> set r" and "ascii_letter x"
  shows "apart (x # windows_users) r"
  unfolding apart_def
proof (intro conjI allI impI)
  have letter: "x \<noteq> CHR ''>''" "x \<noteq> CHR ''<''"
    using assms(5) by (auto simp: ascii_letter_def is_upper_ascii_def is_lower_ascii_def in_range_def code_def)
  show "CHR ''<'' \<notin> set (x # windows_users)" using letter by (simp add: windows_users_def backslash_def)
  fix t
  assume t: "t \<noteq> [] \<and> suffix t r"
  then have l: "last t = CHR ''>''" and sub: "set t \<subseteq> set r"
    using assms(3) by (auto simp: suffix_def)
  have "\<not> (prefix t (x # windows_users) \<or> prefix (x # windows_users) t)"
  proof
    assume "prefix t (x # windows_users) \<or> prefix (x # windows_users) t"
    then have "t = [x] \<or> CHR '':'' \<in> set t"
      using t by (cases t; cases "tl t") (auto simp: windows_users_def prefix_Cons)
    with l sub assms(4) letter show False by auto
  qed
  then show "\<not> prefix t (x # windows_users)" "\<not> prefix (x # windows_users) t" by simp_all
qed (use assms in auto)

lemma marks_apart:
  "apart ''/home/'' host_path_mark" "apart ''/home/'' secret_mark" "apart ''/Users/'' host_path_mark" "apart ''/Users/'' secret_mark"
  "ascii_letter x \<Longrightarrow> apart (x # windows_users) host_path_mark" "ascii_letter x \<Longrightarrow> apart (x # windows_users) secret_mark"
  by (rule apart_sep apart_windows; simp add: host_path_mark_def secret_mark_def)+

lemma redact_patterns_steps:
  "redact_patterns s = fold (\<lambda>m t. sub m secret_mark None t) secret_patterns
     (sub windows_match host_path_mark None (sub mnt_match host_path_mark None
       (sub users_match host_path_mark None (sub home_match host_path_mark None s))))"
  by (simp add: redact_patterns_def private_path_patterns_def)

lemma windows_matches: "ascii_letter x \<Longrightarrow> windows_match before s = None \<Longrightarrow> literal_then (x # windows_users) windows_name_char s = None"
  by (cases s) (auto simp: windows_match_def literal_then_def Let_def starts_with_def split: if_splits)

lemma redacted_guarded:
  shows "guarded ''/home/'' posix_name_char (redact_patterns s)"
    and "guarded ''/Users/'' posix_name_char (redact_patterns s)"
    and "ascii_letter x \<Longrightarrow> guarded (x # windows_users) windows_name_char (redact_patterns s)"
  unfolding redact_patterns_steps
    apply (intro fold_guarded guarded_kept literal_guarded marks_apart; simp add: home_match_def)
   apply (intro fold_guarded guarded_kept [where m = windows_match] guarded_kept [where m = mnt_match] literal_guarded marks_apart;
      simp add: users_match_def)
  apply (intro fold_guarded literal_guarded marks_apart; simp add: windows_matches)
  done

lemma report_strings: "set (json_strings (redact_report v)) = redact_patterns ` set (json_strings v)"
proof (induction v rule: redact_report.induct)
  case (1 v)
  show ?case
  proof (cases v)
    case (JList xs)
    with 1(1) [OF JList] show ?thesis by (subst redact_report.simps) auto
  next
    case (JObj d)
    have "set (json_strings (redact_report x)) = redact_patterns ` set (json_strings x)" if "(k, x) \<in> set d" for k x
      using 1(2) [OF JObj that refl] .
    with JObj show ?thesis by (subst redact_report.simps) (force simp: image_iff)
  qed (subst redact_report.simps, simp)+
qed

section \<open>Properties\<close>

text \<open>C36: whatever a report holds, after the redaction no string of it names a home directory: behind
  \<open>/home/\<close>, \<open>/Users/\<close> or a drive's \<open>Users\<close> folder there is nothing, a separator, a blank or a mark.\<close>

theorem redacted_report_names_no_user:
  assumes "s \<in> set (json_strings (redact_report v))"
  shows "guarded ''/home/'' posix_name_char s \<and> guarded ''/Users/'' posix_name_char s
    \<and> (\<forall>x. ascii_letter x \<longrightarrow> guarded (x # windows_users) windows_name_char s)"
  using assms redacted_guarded unfolding report_strings by blast

theorem redacted_report_names_no_user_witness:
  "\<not> (\<exists>u v. redact_patterns ''at /home/bob/x'' = u @ ''/home/'' @ ''b'' @ v)"
proof -
  have "json_strings (redact_report (JStr ''at /home/bob/x'')) = [redact_patterns ''at /home/bob/x'']"
    by (subst redact_report.simps) simp
  with redacted_report_names_no_user [of "redact_patterns ''at /home/bob/x''" "JStr ''at /home/bob/x''"]
  have "guarded ''/home/'' posix_name_char (redact_patterns ''at /home/bob/x'')" by simp
  moreover have "open_name posix_name_char (''b'' @ v)" for v
    by (simp add: open_name_def posix_name_char_def is_space_def in_range_def code_def)
  ultimately show ?thesis unfolding guarded_def by blast
qed

end
