(* ===== verification/Reservation.thy ===== *)
theory Reservation
  imports Authorization
begin

text \<open>
  The single-use reservation of gate/authorization.py: before an approved execution starts, the
  process creates a marker file next to the authorization with \<open>O_CREAT | O_EXCL\<close>, writes a
  payload and syncs it; the marker is never removed.  First the function as one process runs it,
  against the answers of the operating system, then any number of processes interleaved over
  the one marker.  What the code relies on is that the kernel creates the file atomically:
  opening succeeds only when the marker does not exist, and then it does.
\<close>

section \<open>One process\<close>

definition authorization_reservation_suffix :: string where
  "authorization_reservation_suffix = ''.reserved''"

definition reservation_exists_reason :: string where
  "reservation_exists_reason = ''authorization_single_use_reservation_exists''"

definition reservation_write_failure_reason :: string where
  "reservation_write_failure_reason = ''authorization_single_use_reservation_write_failed''"

text \<open>\<open>path.with_name(path.name + suffix)\<close> on a path given as its parent and its name.\<close>

definition authorization_reservation_path :: "string \<times> string \<Rightarrow> string \<times> string" where
  "authorization_reservation_path path = (fst path, snd path @ authorization_reservation_suffix)"

record reservation =
  rv_reserved :: bool
  rv_reservation_path :: "string \<times> string"
  rv_refusal_reason :: "string option"

definition reservation_consumed :: "reservation \<Rightarrow> bool" where
  "reservation_consumed r \<longleftrightarrow> rv_reserved r
     \<or> rv_refusal_reason r \<in> {Some reservation_exists_reason, Some reservation_write_failure_reason}"

definition reservation_status :: "reservation \<Rightarrow> string" where
  "reservation_status r =
     (if rv_reserved r then ''reserved''
      else if rv_refusal_reason r = Some reservation_exists_reason then ''already_reserved''
      else if rv_refusal_reason r = Some reservation_write_failure_reason then ''write_failed''
      else ''rejected'')"

definition reservation_to_dict :: "reservation \<Rightarrow> dict" where
  "reservation_to_dict r =
     [(''status'', JStr (reservation_status r)), (''consumed'', JBool (reservation_consumed r)),
      (''marker_path_redacted'', JStr ''<authorization-reservation>''),
      (''refusal_reason'', str_json (rv_refusal_reason r))]"

definition reservation_payload :: string where
  "reservation_payload =
     dumps (JObj [(''reservation_kind'', JStr ''single_use_execution_authorization_reservation''),
                  (''schema_version'', JStr authorization_schema_version)]) @ [CHR 10]"

text \<open>What the operating system answers to one attempt: to the open, to each write (an error, or
  the number of bytes taken) and to the sync.\<close>

datatype open_answer = Opened | FileExists | OpenError

record os_answers =
  os_open :: open_answer
  os_writes :: "int res list"
  os_fsync :: "unit res"

text \<open>\<open>while view: ...\<close> over the bytes that are left: \<open>Some\<close> the outcome, \<open>None\<close> when the process
  has had no further answer.\<close>

fun write_marker :: "nat \<Rightarrow> int res list \<Rightarrow> unit res option" where
  "write_marker 0 answers = Some (Inr ())"
| "write_marker (Suc n) [] = None"
| "write_marker (Suc n) (Inl e # answers) = Some (Inl e)"
| "write_marker (Suc n) (Inr written # answers) =
     (if written \<le> 0 then Some (Inl OSError) else write_marker (Suc n - nat written) answers)"

definition refuse :: "string \<times> string \<Rightarrow> string \<Rightarrow> reservation" where
  "refuse path reason =
     \<lparr>rv_reserved = False, rv_reservation_path = authorization_reservation_path path,
      rv_refusal_reason = Some reason\<rparr>"

definition reserved_at :: "string \<times> string \<Rightarrow> reservation" where
  "reserved_at path =
     \<lparr>rv_reserved = True, rv_reservation_path = authorization_reservation_path path, rv_refusal_reason = None\<rparr>"

definition reserve_execution_authorization :: "string \<times> string \<Rightarrow> os_answers \<Rightarrow> reservation option" where
  "reserve_execution_authorization path answers =
     (case os_open answers of
        FileExists \<Rightarrow> Some (refuse path reservation_exists_reason)
      | OpenError \<Rightarrow> Some (refuse path reservation_write_failure_reason)
      | Opened \<Rightarrow>
          (case write_marker (length reservation_payload) (os_writes answers) of
             None \<Rightarrow> None
           | Some (Inl e) \<Rightarrow> Some (refuse path reservation_write_failure_reason)
           | Some (Inr u) \<Rightarrow>
               Some (case os_fsync answers of
                       Inl e \<Rightarrow> refuse path reservation_write_failure_reason
                     | Inr u \<Rightarrow> reserved_at path)))"

text \<open>The loop ends: one answer per byte is enough, whatever the answers are.\<close>

lemma write_marker_returns: "n \<le> length answers \<Longrightarrow> \<exists>r. write_marker n answers = Some r"
proof (induction n answers rule: write_marker.induct)
  case (4 n written answers)
  then show ?case by (cases "written \<le> 0") (auto simp: nat_less_iff intro: 4)
qed simp_all

section \<open>Processes over one marker\<close>

datatype pc = Idle | Writing nat | Syncing | Finished reservation | Crashed

record world =
  marker :: bool
  pcs :: "nat \<Rightarrow> pc"

inductive reserve_step :: "string \<times> string \<Rightarrow> world \<Rightarrow> world \<Rightarrow> bool" for path where
  open_new: "pcs w p = Idle \<Longrightarrow> \<not> marker w \<Longrightarrow>
    reserve_step path w (w\<lparr>marker := True, pcs := (pcs w)(p := Writing (length reservation_payload))\<rparr>)"
| open_exists: "pcs w p = Idle \<Longrightarrow> marker w \<Longrightarrow>
    reserve_step path w (w\<lparr>pcs := (pcs w)(p := Finished (refuse path reservation_exists_reason))\<rparr>)"
| open_failed: "pcs w p = Idle \<Longrightarrow>
    reserve_step path w (w\<lparr>pcs := (pcs w)(p := Finished (refuse path reservation_write_failure_reason))\<rparr>)"
| wrote: "pcs w p = Writing n \<Longrightarrow> 0 < k \<Longrightarrow> k \<le> n \<Longrightarrow>
    reserve_step path w (w\<lparr>pcs := (pcs w)(p := Writing (n - k))\<rparr>)"
| written: "pcs w p = Writing 0 \<Longrightarrow> reserve_step path w (w\<lparr>pcs := (pcs w)(p := Syncing)\<rparr>)"
| write_failed: "pcs w p = Writing n \<Longrightarrow>
    reserve_step path w (w\<lparr>pcs := (pcs w)(p := Finished (refuse path reservation_write_failure_reason))\<rparr>)"
| synced: "pcs w p = Syncing \<Longrightarrow>
    reserve_step path w (w\<lparr>pcs := (pcs w)(p := Finished (reserved_at path))\<rparr>)"
| sync_failed: "pcs w p = Syncing \<Longrightarrow>
    reserve_step path w (w\<lparr>pcs := (pcs w)(p := Finished (refuse path reservation_write_failure_reason))\<rparr>)"
| crash: "reserve_step path w (w\<lparr>pcs := (pcs w)(p := Crashed)\<rparr>)"

inductive_cases reserve_stepE: "reserve_step path w w'"

abbreviation reserve_steps :: "string \<times> string \<Rightarrow> world \<Rightarrow> world \<Rightarrow> bool" where
  "reserve_steps path \<equiv> (reserve_step path)\<^sup>*\<^sup>*"

text \<open>A process that has created the marker: still busy with it, or holding the reservation.\<close>

fun owns :: "pc \<Rightarrow> bool" where
  "owns (Writing n) = True"
| "owns Syncing = True"
| "owns (Finished r) = rv_reserved r"
| "owns Idle = False"
| "owns Crashed = False"

lemma refuse_not_reserved [simp]: "\<not> rv_reserved (refuse path reason)"
  by (simp add: refuse_def)

lemma reserved_at_reserved [simp]: "rv_reserved (reserved_at path)"
  by (simp add: reserved_at_def)

text \<open>The marker stays, and only the process that creates it becomes an owner.\<close>

lemma step_marker: "reserve_step path w w' \<Longrightarrow> marker w \<Longrightarrow> marker w'"
  by (induction rule: reserve_step.induct) simp_all

lemma step_owns: "reserve_step path w w' \<Longrightarrow> owns (pcs w' p) \<Longrightarrow> owns (pcs w p) \<or> \<not> marker w \<and> marker w'"
  by (induction rule: reserve_step.induct) (auto split: if_splits)

definition single_owner :: "world \<Rightarrow> bool" where
  "single_owner w \<longleftrightarrow> (\<forall>p. owns (pcs w p) \<longrightarrow> marker w) \<and> (\<forall>p q. owns (pcs w p) \<longrightarrow> owns (pcs w q) \<longrightarrow> p = q)"

lemma single_ownerI:
  assumes "single_owner w" and "\<And>q. q \<noteq> p \<Longrightarrow> pcs w' q = pcs w q" and "owns (pcs w' p) \<Longrightarrow> owns (pcs w p)"
    and "marker w \<Longrightarrow> marker w'"
  shows "single_owner w'"
proof -
  have "owns (pcs w' q) \<Longrightarrow> owns (pcs w q)" for q using assms(2,3) by (cases "q = p") auto
  with assms(1,4) show ?thesis unfolding single_owner_def by blast
qed

lemma step_single_owner: "reserve_step path w w' \<Longrightarrow> single_owner w \<Longrightarrow> single_owner w'"
proof (induction rule: reserve_step.induct)
  case (open_new w p)
  then show ?case by (auto simp: single_owner_def)
next
  case (open_exists w p)
  then show ?case by - (rule single_ownerI [of w p], simp_all)
next
  case (open_failed w p)
  then show ?case by - (rule single_ownerI [of w p], simp_all)
next
  case (wrote w p n k)
  then show ?case by - (rule single_ownerI [of w p], simp_all)
next
  case (written w p)
  then show ?case by - (rule single_ownerI [of w p], simp_all)
next
  case (write_failed w p n)
  then show ?case by - (rule single_ownerI [of w p], simp_all)
next
  case (synced w p)
  then show ?case by - (rule single_ownerI [of w p], simp_all)
next
  case (sync_failed w p)
  then show ?case by - (rule single_ownerI [of w p], simp_all)
next
  case (crash w p)
  then show ?case by - (rule single_ownerI [of w p], simp_all)
qed

lemma steps_single_owner: "reserve_steps path w w' \<Longrightarrow> single_owner w \<Longrightarrow> single_owner w'"
  by (induction rule: rtranclp_induct) (auto intro: step_single_owner)

lemma steps_marker: "reserve_steps path w w' \<Longrightarrow> marker w \<Longrightarrow> marker w'"
  by (induction rule: rtranclp_induct) (auto intro: step_marker)

lemma steps_owns_old: "reserve_steps path w w' \<Longrightarrow> marker w \<Longrightarrow> owns (pcs w' p) \<Longrightarrow> owns (pcs w p)"
proof (induction rule: rtranclp_induct)
  case (step y z)
  from steps_marker [OF step.hyps(1)] step.prems(1) have "marker y" by blast
  with step_owns [OF step.hyps(2) step.prems(2)] step.IH step.prems(1) show ?case by blast
qed simp

text \<open>The runs of the function are runs of the steps.\<close>

definition at_pc :: "world \<Rightarrow> nat \<Rightarrow> pc \<Rightarrow> world" where
  "at_pc w p c = w\<lparr>pcs := (pcs w)(p := c)\<rparr>"

lemma at_pc_simps [simp]: "pcs (at_pc w p c) p = c" "at_pc (at_pc w p c) p c' = at_pc w p c'" "marker (at_pc w p c) = marker w"
  by (simp_all add: at_pc_def)

lemma at_pc_steps:
  "pcs w p = Writing n \<Longrightarrow> 0 < k \<Longrightarrow> k \<le> n \<Longrightarrow> reserve_step path w (at_pc w p (Writing (n - k)))"
  "pcs w p = Writing 0 \<Longrightarrow> reserve_step path w (at_pc w p Syncing)"
  "pcs w p = Writing n \<Longrightarrow> reserve_step path w (at_pc w p (Finished (refuse path reservation_write_failure_reason)))"
  "pcs w p = Syncing \<Longrightarrow> reserve_step path w (at_pc w p (Finished (reserved_at path)))"
  "pcs w p = Syncing \<Longrightarrow> reserve_step path w (at_pc w p (Finished (refuse path reservation_write_failure_reason)))"
  unfolding at_pc_def by (rule reserve_step.intros, assumption+)+

lemma write_marker_steps:
  "pcs w p = Writing n \<Longrightarrow> write_marker n answers = Some r \<Longrightarrow>
    reserve_steps path w (at_pc w p (case r of
      Inl e \<Rightarrow> Finished (refuse path reservation_write_failure_reason) | Inr u \<Rightarrow> Syncing))"
proof (induction n answers arbitrary: w rule: write_marker.induct)
  case (1 answers)
  then show ?case using at_pc_steps(2) [of w p path] by auto
next
  case (3 n e answers)
  then show ?case using at_pc_steps(3) [of w p _ path] by auto
next
  case (4 n written answers)
  show ?case
  proof (cases "written \<le> 0")
    case True
    with 4 show ?thesis using at_pc_steps(3) [of w p _ path] by auto
  next
    case False
    let ?k = "min (nat written) (Suc n)"
    have "reserve_step path w (at_pc w p (Writing (Suc n - ?k)))"
      by (rule at_pc_steps(1) [OF "4.prems"(1)]) (use False in auto)
    moreover have "Suc n - ?k = Suc n - nat written" by simp
    moreover from "4.prems"(2) False have "write_marker (Suc n - nat written) answers = Some r" by simp
    ultimately show ?thesis
      using "4.IH" [OF False, of "at_pc w p (Writing (Suc n - nat written))"]
      by (simp add: converse_rtranclp_into_rtranclp)
  qed
qed simp

text \<open>What the kernel may answer to the open in a world.\<close>

definition open_consistent :: "world \<Rightarrow> open_answer \<Rightarrow> bool" where
  "open_consistent w a \<longleftrightarrow> (a = Opened \<longrightarrow> \<not> marker w) \<and> (a = FileExists \<longrightarrow> marker w)"

lemma reserve_simulated:
  assumes "pcs w p = Idle" and "open_consistent w (os_open answers)"
    and "reserve_execution_authorization path answers = Some r"
  shows "\<exists>w'. reserve_steps path w w' \<and> pcs w' p = Finished r"
proof (cases "os_open answers")
  case Opened
  with assms(2) have free: "\<not> marker w" by (simp add: open_consistent_def)
  let ?w1 = "w\<lparr>marker := True, pcs := (pcs w)(p := Writing (length reservation_payload))\<rparr>"
  from open_new [OF assms(1) free] have 1: "reserve_steps path w ?w1" by (rule r_into_rtranclp)
  from assms(3) Opened obtain o1 where o1: "write_marker (length reservation_payload) (os_writes answers) = Some o1"
    by (auto simp: reserve_execution_authorization_def split: option.splits)
  have "pcs ?w1 p = Writing (length reservation_payload)" by simp
  note 2 = write_marker_steps [OF this o1, of path]
  show ?thesis
  proof (cases o1)
    case (Inl e)
    with assms(3) Opened o1 have "r = refuse path reservation_write_failure_reason"
      by (simp add: reserve_execution_authorization_def)
    with 1 2 Inl have "reserve_steps path w (at_pc ?w1 p (Finished r))" by simp
    then show ?thesis using at_pc_simps(1) by blast
  next
    case (Inr u)
    let ?w2 = "at_pc ?w1 p Syncing"
    have "pcs ?w2 p = Syncing" by simp
    then have 3: "reserve_step path ?w2 (at_pc ?w2 p (Finished r))"
      using assms(3) Opened o1 Inr at_pc_steps(4,5) [of ?w2 p path]
      by (cases "os_fsync answers") (simp_all add: reserve_execution_authorization_def)
    from 2 Inr have "reserve_steps path ?w1 ?w2" by simp
    from rtranclp_trans [OF 1 this] 3 have "reserve_steps path w (at_pc ?w2 p (Finished r))"
      by (rule rtranclp.rtrancl_into_rtrancl)
    then show ?thesis using at_pc_simps(1) by blast
  qed
next
  case FileExists
  with assms(2) have "marker w" by (simp add: open_consistent_def)
  from FileExists assms(3) have "r = refuse path reservation_exists_reason" by (simp add: reserve_execution_authorization_def)
  with open_exists [OF assms(1) \<open>marker w\<close>, of path] have "reserve_step path w (at_pc w p (Finished r))"
    by (simp add: at_pc_def)
  then show ?thesis using at_pc_simps(1) by blast
next
  case OpenError
  with assms(3) have "r = refuse path reservation_write_failure_reason" by (simp add: reserve_execution_authorization_def)
  with open_failed [OF assms(1), of path] have "reserve_step path w (at_pc w p (Finished r))"
    by (simp add: at_pc_def)
  then show ?thesis using at_pc_simps(1) by blast
qed

text \<open>Every outcome is one of three.\<close>

definition outcomes :: "string \<times> string \<Rightarrow> reservation set" where
  "outcomes path = {reserved_at path, refuse path reservation_exists_reason, refuse path reservation_write_failure_reason}"

lemma step_outcome:
  "reserve_step path w w' \<Longrightarrow> pcs w' p = Finished r \<Longrightarrow> pcs w p = Finished r \<or> r \<in> outcomes path"
  by (induction rule: reserve_step.induct) (auto simp: outcomes_def split: if_splits)

lemma steps_outcome:
  "reserve_steps path w w' \<Longrightarrow> pcs w' p = Finished r \<Longrightarrow> pcs w p = Finished r \<or> r \<in> outcomes path"
  by (induction rule: rtranclp_induct) (auto dest: step_outcome)

lemma outcomes_consumed: "r \<in> outcomes path \<Longrightarrow> reservation_consumed r"
  by (auto simp: outcomes_def reservation_consumed_def refuse_def reserved_at_def)

section \<open>Properties\<close>

text \<open>C10: a single use: however many processes try to reserve one authorization, and however
  their opens, writes, failures and crashes interleave, at most one of them obtains the
  reservation, and the marker is then on disk.\<close>

theorem reservation_single_use:
  assumes "reserve_steps path w w'" and "\<forall>p. pcs w p = Idle"
    and "pcs w' p = Finished r" "rv_reserved r" and "pcs w' q = Finished r'" "rv_reserved r'"
  shows "p = q \<and> marker w'"
proof -
  from assms(2) have "single_owner w" by (simp add: single_owner_def)
  from steps_single_owner [OF assms(1) this] have "single_owner w'" .
  moreover from assms(3-6) have "owns (pcs w' p)" "owns (pcs w' q)" by simp_all
  ultimately show ?thesis unfolding single_owner_def by blast
qed

definition idle_world :: world where
  "idle_world = \<lparr>marker = False, pcs = (\<lambda>_. Idle)\<rparr>"

definition eager_answers :: os_answers where
  "eager_answers = \<lparr>os_open = Opened, os_writes = [Inr (int (length reservation_payload))], os_fsync = Inr ()\<rparr>"

lemma eager_reserves: "reserve_execution_authorization path eager_answers = Some (reserved_at path)"
proof -
  have "0 < length reservation_payload" by (simp add: reservation_payload_def)
  then obtain n where "length reservation_payload = Suc n" by (cases "length reservation_payload") auto
  then show ?thesis by (simp add: reserve_execution_authorization_def eager_answers_def)
qed

lemma idle_reserves: "\<exists>w'. reserve_steps path idle_world w' \<and> pcs w' 0 = Finished (reserved_at path)"
  by (rule reserve_simulated [OF _ _ eager_reserves])
    (simp_all add: idle_world_def open_consistent_def eager_answers_def)

theorem reservation_single_use_witness: "\<exists>w'. reserve_steps (''/d'', ''a.json'') idle_world w' \<and> marker w'"
proof -
  from idle_reserves obtain w' where w: "reserve_steps (''/d'', ''a.json'') idle_world w'"
    "pcs w' 0 = Finished (reserved_at (''/d'', ''a.json''))" by blast
  have "\<forall>p. pcs idle_world p = Idle" by (simp add: idle_world_def)
  from reservation_single_use [OF w(1) this w(2) _ w(2)] w(1) show ?thesis by auto
qed

text \<open>the marker is for ever: once it exists (even if the process that made it crashed or
  failed), a process that starts later never obtains the reservation, and what it gets says
  that the authorization is consumed.\<close>

theorem reservation_permanent:
  assumes "reserve_steps path w w'" and "marker w" and "pcs w p = Idle" and "pcs w' p = Finished r"
  shows "\<not> rv_reserved r \<and> reservation_consumed r \<and> marker w'"
proof -
  from steps_owns_old [OF assms(1,2), of p] assms(3,4) have "\<not> rv_reserved r" by auto
  moreover from steps_outcome [OF assms(1,4)] assms(3) have "reservation_consumed r" by (auto intro: outcomes_consumed)
  ultimately show ?thesis using steps_marker [OF assms(1,2)] by blast
qed

theorem reservation_permanent_witness: "reservation_consumed (refuse (''/d'', ''a.json'') reservation_exists_reason)"
proof -
  let ?w = "\<lparr>marker = True, pcs = (\<lambda>_. Idle)\<rparr>" and ?r = "refuse (''/d'', ''a.json'') reservation_exists_reason"
  have "reserve_steps (''/d'', ''a.json'') ?w (?w\<lparr>pcs := (pcs ?w)(0 := Finished ?r)\<rparr>)"
    by (intro r_into_rtranclp open_exists) simp_all
  from reservation_permanent [OF this, of 0 ?r] show ?thesis by simp
qed

text \<open>C21: every call of the function that returns is a run of the step relation with the same
  outcome, provided the kernel answers the open as the marker stands; and the call returns as
  soon as there is an answer for every byte.\<close>

theorem reserve_refines_steps:
  assumes "pcs w p = Idle" and "open_consistent w (os_open answers)"
    and "length reservation_payload \<le> length (os_writes answers)"
  shows "\<exists>r w'. reserve_execution_authorization path answers = Some r
    \<and> reserve_steps path w w' \<and> pcs w' p = Finished r"
proof -
  from write_marker_returns [OF assms(3)] obtain o1
    where "write_marker (length reservation_payload) (os_writes answers) = Some o1" ..
  then obtain r where r: "reserve_execution_authorization path answers = Some r"
    unfolding reserve_execution_authorization_def by (cases o1; cases "os_open answers") auto
  from reserve_simulated [OF assms(1,2) r] r show ?thesis by blast
qed

theorem reserve_refines_steps_witness:
  "\<exists>r w'. reserve_execution_authorization (''/d'', ''a.json'')
      \<lparr>os_open = Opened, os_writes = replicate (length reservation_payload) (Inr 1), os_fsync = Inl OSError\<rparr> = Some r
    \<and> reserve_steps (''/d'', ''a.json'') idle_world w' \<and> pcs w' 7 = Finished r"
  by (rule reserve_refines_steps) (simp_all add: idle_world_def open_consistent_def)

end
