(* ===== verification/Run_Report.thy ===== *)
theory Run_Report
  imports Docker_Runner Run_Approval Run_Redaction Reservation Control_File
begin

text \<open>
  The report of a sandbox run (sandbox/run.py): the sections of the base report, what the result of
  the runner adds to them, the two kinds of refusal and the final step that deletes the workspace
  and redacts the report.  Times and identifiers are arguments.
\<close>

section \<open>Vocabulary\<close>

definition sandbox_run_schema_version :: string where "sandbox_run_schema_version = ''0.1-draft''"
definition sandbox_run_report_kind :: string where "sandbox_run_report_kind = ''sandbox_run''"
definition tool_version :: string where "tool_version = ''0.1.0''"
definition default_sandbox_image :: string where "default_sandbox_image = ''python:3.12-slim''"
definition policy_block_exit_code :: int where "policy_block_exit_code = 2"
definition infrastructure_exit_code :: int where "infrastructure_exit_code = 1"

definition gate_fail_modes :: "(string \<times> string list) list" where
  "gate_fail_modes =
     [(''block'', [''block'']), (''quarantine'', [''quarantine'', ''block'']),
      (''warn'', [''warn'', ''quarantine'', ''block'']),
      (''unknown'', [''unknown'', ''warn'', ''quarantine'', ''block''])]"

definition nested :: "dict \<Rightarrow> string \<Rightarrow> string \<Rightarrow> json \<Rightarrow> dict" where
  "nested d k k2 v = dset d k (JObj (dset (sect d k) k2 v))"

definition push :: "string list \<Rightarrow> dict \<Rightarrow> dict" where
  "push messages d = dset d ''limitations'' (jstrs (string_items (dget d ''limitations'') @ messages))"

fun sets :: "(string \<times> json) list \<Rightarrow> dict \<Rightarrow> dict" where
  "sets [] d = d"
| "sets ((k, v) # kvs) d = sets kvs (dset d k v)"

section \<open>The gate\<close>

definition gate_verdict_text :: "dict \<Rightarrow> string" where
  "gate_verdict_text gate = py_lower (py_str (dget_or gate ''verdict'' (JStr ''unknown'')))"

text \<open>A mode outside the table is a \<open>KeyError\<close>.\<close>

definition gate_block_reason :: "dict option \<Rightarrow> string option \<Rightarrow> string option res" where
  "gate_block_reason gate fail_on =
     (case (gate, fail_on) of
        (Some g, Some mode) \<Rightarrow>
          (case map_of gate_fail_modes mode of
             None \<Rightarrow> Inl KeyError
           | Some verdicts \<Rightarrow>
               Inr (if gate_verdict_text g \<in> set verdicts then Some (''gate_verdict_'' @ gate_verdict_text g) else None))
      | _ \<Rightarrow> Inr None)"

definition gate_report :: "dict option \<Rightarrow> string option \<Rightarrow> dict res" where
  "gate_report gate fail_on =
     res_map (\<lambda>reason.
       (case gate of
          None \<Rightarrow>
            [(''evaluated'', JBool False), (''fail_on_gate'', str_json fail_on), (''verdict'', JNull),
             (''execution_authorized'', JNull), (''decision_kind'', JNull), (''schema_version'', JNull),
             (''decision_fingerprint'', JNull), (''subject'', JObj []), (''policy_version'', JNull),
             (''policy_blocked'', JBool False)]
        | Some g \<Rightarrow>
            [(''evaluated'', JBool True), (''fail_on_gate'', str_json fail_on), (''verdict'', JStr (gate_verdict_text g)),
             (''execution_authorized'', JBool False), (''decision_kind'', dget g ''decision_kind''),
             (''schema_version'', dget g ''schema_version''), (''decision_fingerprint'', JStr (gate_decision_fingerprint g)),
             (''subject'', JObj (sect g ''subject'')), (''policy_version'', dget (sect g ''policy'') ''policy_version''),
             (''policy_blocked'', JBool (reason \<noteq> None))]))
       (gate_block_reason gate fail_on)"

section \<open>The subject\<close>

text \<open>\<open>_is_sha256_fingerprint\<close> is the spelled-out test of a digest label.\<close>

record consistency =
  cy_resolved_fields :: "(string \<times> bool) list"
  cy_is_commit :: bool
  cy_gate_fields :: "(string \<times> bool) list"
  cy_authorization_fields :: "(string \<times> bool) list"
  cy_gate_matches :: bool
  cy_authorization_matches :: bool
  cy_subject :: observed_subject
  cy_gate_subject :: dict
  cy_authorization_subject :: dict

definition subject_keys :: "(string \<times> string) list" where
  "subject_keys =
     [(''repository_identity'', ''repo''), (''commit'', ''commit''), (''tree'', ''tree_hash''),
      (''snapshot_id'', ''snapshot_id''), (''manifest_fingerprint'', ''manifest_fingerprint'')]"

definition observed_field :: "observed_subject \<Rightarrow> string \<Rightarrow> string option" where
  "observed_field s k =
     (if k = ''repo'' then os_repo s else if k = ''commit'' then os_commit s else if k = ''tree_hash'' then os_tree s
      else if k = ''snapshot_id'' then os_snapshot_id s else os_manifest s)"

definition field_matches :: "dict \<Rightarrow> observed_subject \<Rightarrow> (string \<times> bool) list" where
  "field_matches subject s = map (\<lambda>(name, k). (name, py_eq (dget subject k) (str_json (observed_field s k)))) subject_keys"

definition resolved_fields :: "observed_subject \<Rightarrow> (string \<times> bool) list" where
  "resolved_fields s =
     [(''repository_identity'', is_fingerprint (str_json (os_repo s))), (''commit'', nonempty_str (str_json (os_commit s))),
      (''tree'', nonempty_str (str_json (os_tree s))), (''snapshot_id'', is_fingerprint (str_json (os_snapshot_id s))),
      (''manifest_fingerprint'', is_fingerprint (str_json (os_manifest s)))]"

definition subject_consistency :: "observed_subject \<Rightarrow> string option \<Rightarrow> dict option \<Rightarrow> dict option \<Rightarrow> consistency" where
  "subject_consistency s source_kind gate authorization =
     (let gate_subject = (case gate of None \<Rightarrow> [] | Some g \<Rightarrow> sect g ''subject'');
          authorization_subject = (case authorization of None \<Rightarrow> [] | Some a \<Rightarrow> sect a ''subject'');
          gate_fields = field_matches gate_subject s; authorization_fields = field_matches authorization_subject s in
      \<lparr>cy_resolved_fields = resolved_fields s, cy_is_commit = (source_kind = Some ''git_commit''),
       cy_gate_fields = gate_fields, cy_authorization_fields = authorization_fields,
       cy_gate_matches = (gate = None \<or> dget gate_subject ''binding_kind'' = JStr ''snapshot_bound'' \<and> list_all snd gate_fields),
       cy_authorization_matches = (authorization = None \<or> list_all snd authorization_fields),
       cy_subject = s, cy_gate_subject = gate_subject, cy_authorization_subject = authorization_subject\<rparr>)"

definition snapshot_resolved :: "consistency \<Rightarrow> bool" where
  "snapshot_resolved c \<longleftrightarrow> cy_is_commit c \<and> list_all snd (cy_resolved_fields c)"

definition consistent :: "consistency \<Rightarrow> bool" where
  "consistent c \<longleftrightarrow> snapshot_resolved c \<and> cy_gate_matches c \<and> cy_authorization_matches c"

definition flags :: "(string \<times> bool) list \<Rightarrow> json" where
  "flags fs = JObj (map (\<lambda>(k, b). (k, JBool b)) fs)"

definition consistency_report :: "consistency \<Rightarrow> dict" where
  "consistency_report c =
     (let s = cy_subject c; snapshot_id = str_json (os_snapshot_id s); manifest = str_json (os_manifest s) in
      [(''consistent'', JBool (consistent c)), (''scan_snapshot_id'', snapshot_id),
       (''gate_snapshot_id'', dget (cy_gate_subject c) ''snapshot_id''),
       (''authorization_snapshot_id'', dget (cy_authorization_subject c) ''snapshot_id''),
       (''workspace_snapshot_id'', snapshot_id), (''evidence_snapshot_id'', snapshot_id),
       (''scan_manifest_fingerprint'', manifest),
       (''gate_manifest_fingerprint'', dget (cy_gate_subject c) ''manifest_fingerprint''),
       (''authorization_manifest_fingerprint'', dget (cy_authorization_subject c) ''manifest_fingerprint''),
       (''workspace_manifest_fingerprint'', manifest), (''evidence_manifest_fingerprint'', manifest),
       (''actual_source_kind_is_git_commit'', JBool (cy_is_commit c)),
       (''runtime_fields_resolved'', flags (cy_resolved_fields c)), (''gate_field_matches'', flags (cy_gate_fields c)),
       (''authorization_field_matches'', flags (cy_authorization_fields c)), (''gate_matches'', JBool (cy_gate_matches c)),
       (''authorization_matches'', JBool (cy_authorization_matches c)),
       (''missing_or_unresolved'', JBool (\<not> snapshot_resolved c))])"

section \<open>The authorization\<close>

definition image_bound :: "authorization_result \<Rightarrow> bool" where
  "image_bound v \<longleftrightarrow> az_image_binding_present v \<and> az_image_reference_matches v \<and> az_image_id_matches v"

definition authorization_execution_authorized :: "authorization_result option \<Rightarrow> bool \<Rightarrow> bool" where
  "authorization_execution_authorized v require_image =
     (case v of None \<Rightarrow> False | Some r \<Rightarrow> az_execution_authorized r \<and> (\<not> require_image \<or> image_bound r))"

definition authorization_blocking_reasons :: "authorization_result option \<Rightarrow> bool \<Rightarrow> string list" where
  "authorization_blocking_reasons v require_image =
     (case v of
        None \<Rightarrow> [''authorization_missing'']
      | Some r \<Rightarrow>
          (let reasons = filter (\<lambda>s. s \<noteq> []) (az_blocking_errors r)
                 @ (if require_image \<and> \<not> image_bound r then [''authorization_image_binding_required''] else []) in
           dedupe (if reasons = [] then [''authorization_invalid''] else reasons)))"

definition reservation_section :: "bool \<Rightarrow> string \<Rightarrow> json \<Rightarrow> dict" where
  "reservation_section has_path status reason =
     [(''status'', JStr status), (''consumed'', JBool False),
      (''marker_path_redacted'', if has_path then JStr ''<authorization-reservation>'' else JNull), (''refusal_reason'', reason)]"

definition authorization_report :: "bool \<Rightarrow> authorization_result option \<Rightarrow> bool \<Rightarrow> dict" where
  "authorization_report has_path v require_image =
     [(''artifact_path_redacted'', if has_path then JStr ''<authorization>'' else JNull), (''validated'', JBool (v \<noteq> None)),
      (''execution_authorized'', JBool (authorization_execution_authorized v require_image)),
      (''blocking_errors'', jstrs (authorization_blocking_reasons v require_image)),
      (''warnings'', jstrs (case v of None \<Rightarrow> [] | Some r \<Rightarrow> filter (\<lambda>s. s \<noteq> []) (az_warnings r))),
      (''snapshot_binding'', JObj
        [(''checked'', JBool False), (''status'', JStr ''not_attempted''), (''matched'', JBool False),
         (''snapshot_id_matches'', JBool False), (''manifest_fingerprint_matches'', JBool False),
         (''gate_matches'', JBool False), (''refusal_reasons'', JList []), (''observed_values_recorded'', JBool False)]),
      (''worktree_binding'', JObj
        [(''checked'', JBool False), (''status'', JStr ''superseded_by_snapshot_binding''), (''matched'', JBool False),
         (''repo_matches'', JBool False), (''commit_matches'', JBool False), (''tree_matches'', JBool False),
         (''dirty_state'', JStr ''not_checked''), (''refusal_reasons'', JList []),
         (''observed_values_recorded'', JBool False)]),
      (''single_use_reservation'', JObj (reservation_section has_path ''not_attempted'' JNull))]"

text \<open>\<open>_approval_report\<close>: the validation is an approval validation, or, where the code passes one of the
  other kind, an object without the attribute that is read first.\<close>

datatype validation_object = NoValidation | ApprovalValidation run_approval | AuthorizationValidation

definition approval_report :: "bool \<Rightarrow> validation_object \<Rightarrow> string list \<Rightarrow> dict res" where
  "approval_report has_path validation refusal_reasons =
     (case validation of
        AuthorizationValidation \<Rightarrow> Inl AttributeError
      | NoValidation \<Rightarrow>
          Inr [(''approved'', JBool False), (''artifact_path_redacted'', if has_path then JStr ''<approval>'' else JNull),
               (''matched'', JBool False), (''refusal_reasons'', jstrs (dedupe refusal_reasons))]
      | ApprovalValidation v \<Rightarrow>
          Inr [(''approved'', JBool (ra_approved v)), (''artifact_path_redacted'', if has_path then JStr ''<approval>'' else JNull),
               (''matched'', JBool (ra_matched v)),
               (''refusal_reasons'', jstrs (dedupe (ra_refusal_reasons v @ refusal_reasons)))])"

section \<open>Fixed parts\<close>

definition empty_output_summary :: dict where
  "empty_output_summary =
     [(''stdout_preview_redacted'', JStr ''''), (''stderr_preview_redacted'', JStr ''''), (''stdout_truncated'', JBool False),
      (''stderr_truncated'', JBool False), (''stdout_bytes'', JInt 0), (''stderr_bytes'', JInt 0),
      (''total_output_bytes'', JInt 0), (''stdout_byte_budget'', JInt (64 * 1024)), (''stderr_byte_budget'', JInt (64 * 1024)),
      (''total_byte_budget'', JInt (128 * 1024)), (''preview_char_budget'', JInt 4096), (''read_chunk_bytes'', JInt 8192),
      (''output_budget_exceeded'', JBool False), (''stdout_budget_exceeded'', JBool False),
      (''stderr_budget_exceeded'', JBool False), (''redaction_applied'', JBool True), (''redaction_failure'', JNull),
      (''raw_stdout_stderr_persisted'', JBool False)]"

definition workspace_not_created :: dict where
  "workspace_not_created =
     [(''created'', JBool False), (''cleanup'', JStr ''not_started''), (''copy_policy'', JStr ''not_started''),
      (''excluded_path_categories'', JList []), (''files_copied'', JInt 0), (''total_bytes_copied'', JInt 0),
      (''copy_safety_ok'', JBool False), (''unsafe_symlink_count'', JInt 0), (''copy_error_count'', JInt 0),
      (''copy_budget'', JObj
        [(''max_file_count'', JInt (max_file_count default_copy_budget)),
         (''max_directory_count'', JInt (max_directory_count default_copy_budget)),
         (''max_depth'', JInt (max_depth default_copy_budget)),
         (''max_total_bytes'', JInt (max_total_bytes default_copy_budget)),
         (''max_file_bytes'', JInt (max_file_bytes default_copy_budget)),
         (''max_relative_path_bytes'', JInt (max_relative_path_bytes default_copy_budget)),
         (''files_copied'', JInt 0), (''directories_examined'', JInt 0), (''total_bytes_copied'', JInt 0),
         (''copy_budget_exceeded'', JBool False), (''copy_budget_exceeded_reason'', JNull)]),
      (''symlink_policy'', JObj
        [(''follow_symlinks'', JBool False), (''absolute_symlinks'', JStr ''skip''),
         (''outside_repo_symlinks'', JStr ''skip''), (''copied_symlink_count'', JInt 0), (''unsafe_symlink_count'', JInt 0)]),
      (''special_file_policy'', JObj [(''copy_special_files'', JBool False), (''unsupported_entry_count'', JInt 0)]),
      (''source_path_redacted'', JStr ''<repo>''), (''workspace_path_redacted'', JNull), (''out_path_redacted'', JNull)]"

definition boundary_statement :: dict where
  "boundary_statement =
     [(''what_was_constrained'', jstrs
        [''The command is passed to Docker as argv; sandbox-run does not add implicit shell wrapping.'',
         ''Gate, authorization, and optional legacy approval checks can block before Docker is invoked.'',
         ''The original repository is copied to a disposable workspace and is not mounted directly as writable.'',
         ''The locked-down profile disables container networking and avoids Docker socket, host HOME, credential, and SSH-agent mounts.'']),
      (''what_was_not_guaranteed'', jstrs
        [''Docker isolation is not complete malware containment.'',
         ''A successful sandbox run is not proof that the repository is safe.'',
         ''A successful sandbox run is not unrestricted execution authorization.'',
         ''The report contains bounded redacted output previews, not raw exhaustive execution logs.''])]"

definition safety_statement :: string where
  "safety_statement = ''Sandbox-run v1 is repo-health-doctor'' @ [CHR 39]
     @ ''s practical strong isolation runtime for unknown-repository command execution evidence. It is not proof that the repository is safe, is not unrestricted execution authorization, and Docker isolation has limitations.''"

definition next_actions_for_status :: "string \<Rightarrow> string list" where
  "next_actions_for_status status =
     (if status = ''completed'' then
        [''Review the bounded output preview and workspace diff summary.'',
         ''Do not treat successful execution as proof of safety or unrestricted authorization.'',
         ''Use gate evidence and human review before any further execution.'']
      else if status = ''timed_out'' then
        [''Treat timeout as incomplete evidence.'',
         ''Review whether a shorter, safer, or more specific approved command is needed.'']
      else
        [''Treat the sandbox-run report as non-authorizing evidence.'',
         ''Review refusal reasons, limitations, and approval binding before retrying.''])"

definition docker_infrastructure_limitations :: "string list" where
  "docker_infrastructure_limitations =
     [''Docker infrastructure failed before the approved command could be confirmed as executed.'',
      ''Docker diagnostics are bounded and redacted; raw Docker stdout/stderr was not persisted.'']"

definition next_actions_for_docker_failure :: "string list" where
  "next_actions_for_docker_failure =
     [''Treat this as failed sandbox-run infrastructure evidence, not as command completion.'',
      ''Review docker.diagnostic_redacted and bounded redacted Docker stderr/stdout previews before retrying.'',
      ''Do not run the repository-derived command directly on the host as a fallback.'']"

definition runtime_write_budget_report :: "inventory option \<Rightarrow> inventory option \<Rightarrow> dict" where
  "runtime_write_budget_report before after =
     (let observed = (case (before, after) of
            (Some b, Some a) \<Rightarrow> Some (max 0 (nv_total_bytes a - nv_total_bytes b), max 0 (nv_file_count a - nv_file_count b))
          | _ \<Rightarrow> None) in
      [(''enforcement'', JStr ''host_backed_writes_removed_from_real_runtime''), (''polling_watchdog'', JBool False),
       (''poll_interval_ms'', JNull), (''scan_budget'', JNull),
       (''overshoot_limitation'', JStr ''No polling overshoot: /workspace is read-only and /out is a kernel-bounded tmpfs.''),
       (''paths'', JObj
         [(''workspace'', JObj
            [(''host_backed'', JBool True), (''mount'', JStr ''bind''), (''read_only'', JBool True), (''max_bytes'', JInt 0),
             (''max_files'', JInt 0), (''observed_bytes'', case observed of None \<Rightarrow> JNull | Some (b, f) \<Rightarrow> JInt b),
             (''observed_files'', case observed of None \<Rightarrow> JNull | Some (b, f) \<Rightarrow> JInt f),
             (''exceeded'', case observed of None \<Rightarrow> JNull | Some (b, f) \<Rightarrow> JBool (b > 0 \<or> f > 0))]),
          (''out'', JObj
            [(''host_backed'', JBool False), (''mount'', JStr ''tmpfs''), (''read_only'', JBool False),
             (''max_bytes'', JInt (64 * 1024 * 1024)), (''max_files'', JInt 4096), (''observed_bytes'', JNull),
             (''observed_files'', JNull), (''exceeded'', JNull), (''kernel_enforced'', JBool True)])])])"

section \<open>The base report\<close>

definition observed_snapshot :: "workspace \<Rightarrow> observed_subject" where
  "observed_snapshot w =
     (case dw_snapshot w of
        None \<Rightarrow> \<lparr>os_repo = None, os_commit = None, os_tree = None, os_snapshot_id = None, os_manifest = None\<rparr>
      | Some v \<Rightarrow> \<lparr>os_repo = Some (vs_source_identity v), os_commit = vs_source_commit v, os_tree = vs_source_tree v,
          os_snapshot_id = Some (vs_snapshot_id v), os_manifest = Some (vs_manifest_fingerprint v)\<rparr>)"

definition snapshot_source_kind :: "workspace \<Rightarrow> string option" where
  "snapshot_source_kind w = map_option vs_source_kind (dw_snapshot w)"

definition file_name_of :: "string \<Rightarrow> string" where
  "file_name_of path =
     (let parts = filter (\<lambda>p. p \<noteq> [] \<and> p \<noteq> ''.'') (split_on CHR ''/'' path) in if parts = [] then [] else last parts)"

definition command_uses_explicit_shell :: "string list \<Rightarrow> bool" where
  "command_uses_explicit_shell argv =
     (case argv of
        exe # opt1 # rest \<Rightarrow> file_name_of exe \<in> {''sh'', ''bash''} \<and> opt1 \<in> {''-c'', ''-lc''}
      | _ \<Rightarrow> False)"

text \<open>What the caller asks for.  Paths to control files appear as what reading them answers.\<close>

record run_request =
  rq_target :: string
  rq_approval :: "approval_file option"
  rq_image :: "string option"
  rq_profile :: string
  rq_seccomp :: string
  rq_argv :: "string list"
  rq_timeout :: int
  rq_preview_chars :: nat
  rq_dry_run :: bool
  rq_preserve :: bool
  rq_gate :: "dict option"
  rq_fail_on :: "string option"
  rq_authorization_path :: "(string \<times> string) option"
  rq_validation :: "authorization_result option"
  rq_control :: "bounded_json_document option"

definition base_limitations :: "string \<Rightarrow> string list" where
  "base_limitations reference =
     (if latest_tag reference then [''The approved image uses a latest tag; tag drift limits reproducibility.''] else [])
     @ (if reference \<noteq> [] \<and> \<not> is_digest_pinned reference then [''The approved image reference is not digest-pinned.''] else [])"

definition snapshot_section :: "workspace \<Rightarrow> dict" where
  "snapshot_section w =
     dset (case dw_snapshot w of
             Some v \<Rightarrow> snapshot_to_report v
           | None \<Rightarrow> [(''schema_version'', JStr ''1.0''), (''snapshot_id'', JNull), (''manifest_fingerprint'', JNull),
               (''integrity_status'', JStr ''invalid''), (''limitations'', JList []),
               (''refusal_reasons'', jstrs (dw_refusal_reasons w))])
       ''integrity_after_execution'' (JStr ''not_checked'')"

definition result_section :: "string \<Rightarrow> int option \<Rightarrow> bool \<Rightarrow> int \<Rightarrow> json" where
  "result_section status exit_code timed_out duration_ms =
     JObj [(''status'', JStr status), (''exit_code'', case exit_code of None \<Rightarrow> JNull | Some n \<Rightarrow> JInt n),
           (''timed_out'', JBool timed_out), (''duration_ms'', JInt duration_ms)]"

definition base_report ::
  "run_request \<Rightarrow> inventory option \<Rightarrow> string \<Rightarrow> sandbox_profile \<Rightarrow> seccomp_selection \<Rightarrow> string list \<Rightarrow> string \<Rightarrow> bool
    \<Rightarrow> workspace \<Rightarrow> string \<Rightarrow> string \<Rightarrow> dict res" where
  "base_report q target_inventory reference p seccomp argv runner_name require_image w run_id started_at =
     res_map (\<lambda>gate.
       (let has_approval = (rq_approval q \<noteq> None) in
        [(''schema_version'', JStr sandbox_run_schema_version), (''report_kind'', JStr sandbox_run_report_kind),
         (''kind'', JStr sandbox_run_report_kind), (''tool'', JStr ''repo-health-doctor''), (''version'', JStr tool_version),
         (''experimental'', JBool False),
         (''contract'', JObj
           [(''stage'', JStr ''sandbox-run-v1-core''), (''core_execution_backend'', JBool True),
            (''absolute_safety_claimed'', JBool False), (''malware_proof_claimed'', JBool False),
            (''safety_proof_claimed'', JBool False)]),
         (''run'', JObj
           [(''run_id'', JStr (''rhd-sandbox-run-'' @ run_id)), (''started_at'', JStr started_at), (''ended_at'', JNull),
            (''duration_ms'', JInt 0), (''dry_run'', JBool (rq_dry_run q)), (''preserve_workspace'', JBool (rq_preserve q))]),
         (''target'', JObj
           [(''path_redacted'', JStr ''<repo>''), (''identity'', JStr (target_identity (rq_target q))),
            (''fingerprint'', str_json (map_option nv_fingerprint target_inventory)),
            (''fingerprint_method'', JStr fingerprint_method),
            (''fingerprint_limitations'', jstrs (case target_inventory of None \<Rightarrow> [] | Some i \<Rightarrow> inventory_limitations i))]),
         (''verified_snapshot'', JObj (snapshot_section w)),
         (''subject_consistency'', JObj (consistency_report
           (subject_consistency (observed_snapshot w) (snapshot_source_kind w) (rq_gate q) None))),
         (''approval'', JObj
           [(''approved'', JBool False), (''artifact_path_redacted'', if has_approval then JStr ''<approval>'' else JNull),
            (''matched'', JBool False), (''refusal_reasons'', JList [])]),
         (''gate'', JObj gate),
         (''authorization'', JObj (authorization_report (rq_authorization_path q \<noteq> None) (rq_validation q) require_image)),
         (''sandbox_profile'', JObj (profile_to_report p)), (''seccomp'', JObj (seccomp_to_report seccomp)),
         (''command'', JObj
           [(''argv_redacted'', jstrs (map (redact_text (rq_target q) None) argv)),
            (''shell'', JBool (command_uses_explicit_shell argv)), (''shell_wrapped_by_runner'', JBool False),
            (''cwd'', JStr ''/workspace'')]),
         (''docker'', JObj (docker_report_fields reference p [] unknown_runtime runner_name False)),
         (''disposable_workspace'', JObj workspace_not_created),
         (''workspace_diff'', JObj (summarize_workspace_diff None None)),
         (''result'', result_section ''blocked'' None False 0), (''policy_blocked'', JBool False),
         (''command_started'', JBool False), (''command_start_state'', JStr ''not_started''), (''command_exit_code'', JNull),
         (''sandbox_exit_code'', JInt infrastructure_exit_code), (''block_reason'', JNull),
         (''output_summary'', JObj empty_output_summary),
         (''runtime_write_budget'', JObj (runtime_write_budget_report None None)),
         (''env_policy'', JObj
           [(''host_environment_inherited'', JBool False), (''injected_env_keys'', env_keys), (''values_recorded'', JBool False)]),
         (''cleanup_policy'', JObj
           [(''default'', JStr ''cleanup_run_root''), (''preserve_workspace'', JBool (rq_preserve q)),
            (''delete_scope'', JStr ''sandbox_run_root_only'')]),
         (''boundary_statement'', JObj boundary_statement), (''limitations'', jstrs (dedupe (base_limitations reference))),
         (''next_actions'', JList []), (''safety_statement'', JStr safety_statement)]))
       (gate_report (rq_gate q) (rq_fail_on q))"

section \<open>The result of the runner\<close>

definition opt_int :: "int option \<Rightarrow> json" where
  "opt_int n = (case n of None \<Rightarrow> JNull | Some i \<Rightarrow> JInt i)"

definition is_docker_infrastructure_failure :: "runner_result \<Rightarrow> bool \<Rightarrow> bool" where
  "is_docker_infrastructure_failure r docker_invoked \<longleftrightarrow>
     docker_invoked \<and> \<not> rr_timed_out r \<and> (rr_exit_code r = Some 125 \<or> rr_exit_code r = None)"

definition build_output_summary :: "runner_result \<Rightarrow> string \<Rightarrow> run_paths \<Rightarrow> nat \<Rightarrow> dict" where
  "build_output_summary r target paths limit =
     (let out_preview = bounded_redacted_preview target (Some paths) limit (rr_stdout r);
          err_preview = bounded_redacted_preview target (Some paths) limit (rr_stderr r) in
      [(''stdout_preview_redacted'', JStr (fst out_preview)), (''stderr_preview_redacted'', JStr (fst err_preview)),
       (''stdout_truncated'', JBool (snd out_preview)), (''stderr_truncated'', JBool (snd err_preview)),
       (''stdout_bytes'', JInt (int (rr_stdout_bytes r))), (''stderr_bytes'', JInt (int (rr_stderr_bytes r))),
       (''total_output_bytes'', JInt (int (rr_total_bytes r))), (''stdout_byte_budget'', JInt (64 * 1024)),
       (''stderr_byte_budget'', JInt (64 * 1024)), (''total_byte_budget'', JInt (128 * 1024)),
       (''preview_char_budget'', JInt (int limit)), (''read_chunk_bytes'', JInt 8192),
       (''output_budget_exceeded'', JBool (rr_budget_exceeded r)), (''stdout_budget_exceeded'', JBool (rr_stdout_truncated r)),
       (''stderr_budget_exceeded'', JBool (rr_stderr_truncated r)), (''redaction_applied'', JBool True),
       (''redaction_failure'', JNull), (''raw_stdout_stderr_persisted'', JBool False)])"

text \<open>What went wrong, and the words for it.\<close>

definition failure_diagnosis :: "runner_result \<Rightarrow> bool \<Rightarrow> (string \<times> string) option" where
  "failure_diagnosis r docker_invoked =
     (if rr_budget_exceeded r
      then Some (''output_budget_exceeded'',
        ''Docker output exceeded the bounded byte budget; the client and tracked container were stopped.'')
      else if rr_timed_out r
      then Some (''timeout'',
        (if docker_invoked then ''Docker'' else ''Sandbox'') @ '' runner timed out before complete bounded evidence was available.'')
      else if is_docker_infrastructure_failure r docker_invoked
      then Some (''docker_infrastructure_failure'',
        ''Docker run failed before the approved command could be confirmed as executed (exit code ''
        @ (case rr_exit_code r of None \<Rightarrow> ''None'' | Some n \<Rightarrow> int_text n)
        @ ''). Review bounded redacted Docker stderr/stdout previews before retrying.'')
      else if rr_exit_code r \<noteq> Some 0 \<and> rr_exit_code r \<noteq> None
      then Some (''sandbox_command_or_runner_failure'',
        (if docker_invoked
         then ''Docker run returned a nonzero exit code after invocation; review bounded redacted output previews before inferring whether the approved command started.''
         else ''Sandbox runner returned a nonzero exit code; review bounded redacted output previews.''))
      else None)"

definition docker_report_with_result :: "dict \<Rightarrow> runner_result \<Rightarrow> dict \<Rightarrow> bool \<Rightarrow> dict" where
  "docker_report_with_result docker r summary docker_invoked =
     sets [(''invoked'', JBool docker_invoked), (''docker_invoked'', JBool docker_invoked),
       (''exit_code'', opt_int (rr_exit_code r)),
       (''stdout_preview_redacted'', dget summary ''stdout_preview_redacted''),
       (''stderr_preview_redacted'', dget summary ''stderr_preview_redacted''),
       (''stdout_bytes'', JInt (int (rr_stdout_bytes r))), (''stderr_bytes'', JInt (int (rr_stderr_bytes r))),
       (''total_output_bytes'', JInt (int (rr_total_bytes r))), (''stdout_truncated'', JBool (rr_stdout_truncated r)),
       (''stderr_truncated'', JBool (rr_stderr_truncated r)), (''output_budget_exceeded'', JBool (rr_budget_exceeded r)),
       (''cleanup_attempted'', JBool (rr_cleanup_attempted r)), (''cleanup_status'', JStr (rr_cleanup_status r)),
       (''cleanup_failure_class'', str_json (rr_cleanup_failure r)), (''command_start_state'', JStr (rr_start_state r)),
       (''failure_class'', str_json (map_option fst (failure_diagnosis r docker_invoked))),
       (''diagnostic_redacted'', str_json (map_option snd (failure_diagnosis r docker_invoked)))] docker"

definition docker_report_with_infrastructure_error :: "dict \<Rightarrow> string \<Rightarrow> string \<Rightarrow> run_paths option \<Rightarrow> dict" where
  "docker_report_with_infrastructure_error docker diagnostic target paths =
     sets [(''failure_class'', JStr ''sandbox_run_infrastructure_error''),
       (''diagnostic_redacted'', JStr (redact_text target paths diagnostic))] docker"

section \<open>The last step\<close>

text \<open>What the end of a run needs: whether the workspace is kept, whether deleting it succeeds, the clock.\<close>

record ending =
  en_preserve :: bool
  en_cleanup_ok :: bool
  en_ended_at :: string

definition cleanup_workspace :: "bool \<Rightarrow> workspace \<Rightarrow> workspace" where
  "cleanup_workspace ok w =
     (if dw_cleanup w = ''ok'' then w else w\<lparr>dw_cleanup := (if ok then ''ok'' else ''failed'')\<rparr>)"

definition ended_workspace :: "ending \<Rightarrow> workspace \<Rightarrow> workspace" where
  "ended_workspace e w = (if en_preserve e then w\<lparr>dw_cleanup := ''preserved''\<rparr> else cleanup_workspace (en_cleanup_ok e) w)"

definition uncertain :: "string \<Rightarrow> string \<Rightarrow> dict \<Rightarrow> dict" where
  "uncertain reason limitation report =
     push [limitation]
       (sets [(''sandbox_exit_code'', JInt infrastructure_exit_code), (''block_reason'', JStr reason)]
         (nested report ''result'' ''status'' (JStr ''cleanup_uncertain'')))"

definition container_cleanup_check :: "dict \<Rightarrow> dict" where
  "container_cleanup_check report =
     (let docker = sect report ''docker'' in
      if is_true (dget docker ''container_tracking_enabled'') \<and> dget docker ''cleanup_status'' \<noteq> JStr ''ok''
         \<and> dget (sect report ''result'') ''status'' \<noteq> JStr ''blocked''
      then uncertain ''container_cleanup_failed''
             ''Container cleanup could not be confirmed; treat the result as fail-closed evidence.'' report
      else report)"

definition workspace_cleanup_check :: "workspace \<Rightarrow> dict \<Rightarrow> dict" where
  "workspace_cleanup_check w report =
     (if dw_cleanup w = ''failed''
      then dset (uncertain ''workspace_cleanup_failed''
             ''Disposable workspace cleanup failed; treat the result as fail-closed evidence.'' report)
             ''next_actions'' (jstrs
               [''Inspect and remove the disposable workspace manually before retrying.'',
                ''Do not treat this sandbox-run report as clean execution evidence.''])
      else report)"

definition close_run :: "string \<Rightarrow> dict \<Rightarrow> dict" where
  "close_run ended_at report =
     (let r = nested (nested report ''run'' ''ended_at'' (JStr ended_at)) ''run'' ''duration_ms''
                (dget_or (sect report ''result'') ''duration_ms'' (JInt 0)) in
      sets [(''limitations'', jstrs (dedupe (string_items (dget r ''limitations'')))),
        (''next_actions'', jstrs (dedupe (string_items (dget r ''next_actions'')))),
        (''safety_statement'', JStr safety_statement)] r)"

definition unredacted_report :: "ending \<Rightarrow> workspace \<Rightarrow> dict \<Rightarrow> dict" where
  "unredacted_report e w report =
     (let ended = ended_workspace e w in
      close_run (en_ended_at e)
        (workspace_cleanup_check ended
          (dset (container_cleanup_check report) ''disposable_workspace'' (JObj (workspace_to_report ended)))))"

definition finalize_report :: "ending \<Rightarrow> workspace \<Rightarrow> dict \<Rightarrow> json" where
  "finalize_report e w report = redact_report (JObj (unredacted_report e w report))"

section \<open>Refusals\<close>

definition policy_blocked :: "dict \<Rightarrow> bool \<Rightarrow> string list \<Rightarrow> validation_object \<Rightarrow> string list \<Rightarrow> dict res" where
  "policy_blocked report has_approval refusal_reasons validation next_actions =
     (let reasons = dedupe refusal_reasons in
      res_map (\<lambda>approval.
        sets [(''approval'', JObj approval), (''result'', result_section ''blocked'' (Some policy_block_exit_code) False 0),
          (''policy_blocked'', JBool True), (''command_started'', JBool False), (''command_exit_code'', JNull),
          (''sandbox_exit_code'', JInt policy_block_exit_code),
          (''block_reason'', JStr (case reasons of [] \<Rightarrow> ''policy_block'' | r # rs \<Rightarrow> r)),
          (''next_actions'', jstrs next_actions)] report)
        (approval_report has_approval validation reasons))"

definition policy_blocked_report ::
  "ending \<Rightarrow> workspace \<Rightarrow> dict \<Rightarrow> bool \<Rightarrow> string list \<Rightarrow> validation_object \<Rightarrow> string list \<Rightarrow> json res" where
  "policy_blocked_report e w report has_approval refusal_reasons validation next_actions =
     res_map (finalize_report e w) (policy_blocked report has_approval refusal_reasons validation next_actions)"

text \<open>The diagnostic is redacted against the current directory \<open>.\<close>, as the code does.\<close>

definition infrastructure_error ::
  "dict \<Rightarrow> bool \<Rightarrow> string list \<Rightarrow> validation_object \<Rightarrow> string list \<Rightarrow> run_paths \<Rightarrow> dict res" where
  "infrastructure_error report has_approval refusal_reasons validation next_actions paths =
     (let reasons = dedupe refusal_reasons;
          reason = (case reasons of [] \<Rightarrow> ''sandbox_run_infrastructure_error'' | r # rs \<Rightarrow> r) in
      res_map (\<lambda>approval.
        sets [(''approval'', JObj approval), (''result'', result_section ''failed'' (Some infrastructure_exit_code) False 0),
          (''policy_blocked'', JBool False), (''command_started'', JBool False), (''command_exit_code'', JNull),
          (''sandbox_exit_code'', JInt infrastructure_exit_code), (''block_reason'', JStr reason),
          (''docker'', JObj (docker_report_with_infrastructure_error (sect report ''docker'')
             (if reason = [] then ''sandbox-run infrastructure error'' else reason) ''.'' (Some paths))),
          (''next_actions'', jstrs next_actions)] report)
        (approval_report has_approval validation reasons))"

definition infrastructure_error_report ::
  "ending \<Rightarrow> workspace \<Rightarrow> dict \<Rightarrow> bool \<Rightarrow> string list \<Rightarrow> validation_object \<Rightarrow> string list \<Rightarrow> run_paths \<Rightarrow> json res" where
  "infrastructure_error_report e w report has_approval refusal_reasons validation next_actions paths =
     res_map (finalize_report e w) (infrastructure_error report has_approval refusal_reasons validation next_actions paths)"

end
