(* ===== verification/Sandbox_Run.thy ===== *)
theory Sandbox_Run
  imports Run_Report
begin

text \<open>
  \<open>_run_sandbox_run\<close> of sandbox/run.py: from a request and a prepared snapshot to a report.  First every
  policy check is made and its reasons are collected; a run without reasons goes on to the
  container.  What the environment answers (the runner, the reads of the control file, the walks
  over the snapshot, the reservation, the package) is an argument; what the run does to the
  outside world is recorded as a list of effects.
\<close>

section \<open>The environment of a run\<close>

record run_world =
  wd_uid :: nat
  wd_gid :: nat
  wd_package :: package_data
  wd_package_again :: package_data
  wd_package_third :: package_data
  wd_profile_file_exists :: bool
  wd_class_name :: "pyexc \<Rightarrow> string"
  wd_run_id :: string
  wd_label :: string
  wd_started_at :: string
  wd_ended_at :: string
  wd_now :: datetime
  wd_source_root :: string
  wd_paths :: run_paths
  wd_parse :: "string \<Rightarrow> json option"
  wd_control :: file_answers
  wd_control_before :: file_answers
  wd_control_after :: file_answers
  wd_target_view :: tree_view
  wd_before_view :: tree_view
  wd_verify_view :: tree_view
  wd_last_verify_view :: tree_view
  wd_after_verify_view :: tree_view
  wd_after_view :: tree_view
  wd_reservation :: os_answers
  wd_cleanup_ok :: bool
  wd_runner :: runner

definition require_real_authorization :: "run_request \<Rightarrow> run_world \<Rightarrow> bool" where
  "require_real_authorization q wd \<longleftrightarrow> \<not> rq_dry_run q \<and> rn_name (wd_runner wd) = ''docker''"

definition normalize_command_argv :: "string list \<Rightarrow> string list" where
  "normalize_command_argv argv = (case argv of [] \<Rightarrow> [] | a # rest \<Rightarrow> if a = ''--'' then rest else argv)"

definition requested_image :: "run_request \<Rightarrow> string" where
  "requested_image q = (case rq_image q of None \<Rightarrow> default_sandbox_image | Some i \<Rightarrow> i)"

definition prepared_workspace :: "run_request \<Rightarrow> run_world \<Rightarrow> workspace \<Rightarrow> workspace" where
  "prepared_workspace q wd w =
     (if wd_source_root wd \<noteq> rq_target q
      then w\<lparr>dw_refusal_reasons := dw_refusal_reasons w @ [''prepared_snapshot_source_mismatch'']\<rparr> else w)"

definition lift_refusal :: "(refusal + 'a) \<Rightarrow> 'a res" where
  "lift_refusal m = (case m of Inl (Raised e) \<Rightarrow> Inl e | Inl r \<Rightarrow> Inl OSError | Inr x \<Rightarrow> Inr x)"

definition target_inventory_of :: "run_world \<Rightarrow> workspace \<Rightarrow> inventory option res" where
  "target_inventory_of wd w =
     (if copy_safety_ok w then res_map Some (lift_refusal (snapshot_workspace (wd_target_view wd))) else Inr None)"

section \<open>The control file\<close>

definition load_authorization_control_document :: "run_world \<Rightarrow> file_answers \<Rightarrow> bounded_json_document option" where
  "load_authorization_control_document wd a =
     (case load_bounded_json_document (wd_parse wd) control_file_max_bytes a of
        Inl reason \<Rightarrow> None
      | Inr d \<Rightarrow> if is_obj (cd_payload d) then Some d else None)"

definition control_payload :: "bounded_json_document option \<Rightarrow> dict option" where
  "control_payload control = (case control of None \<Rightarrow> None | Some d \<Rightarrow> opt_mapping (cd_payload d))"

definition runtime_control :: "run_request \<Rightarrow> run_world \<Rightarrow> bounded_json_document option" where
  "runtime_control q wd =
     (if rq_authorization_path q = None then None else load_authorization_control_document wd (wd_control wd))"

definition controls_match :: "bounded_json_document option \<Rightarrow> bounded_json_document option \<Rightarrow> bool" where
  "controls_match expected runtime =
     (case (expected, runtime) of (Some c, Some d) \<Rightarrow> control_file_matches c d | _ \<Rightarrow> False)"

definition control_unchanged :: "run_request \<Rightarrow> run_world \<Rightarrow> bool" where
  "control_unchanged q wd \<longleftrightarrow> rq_control q = None \<or> controls_match (rq_control q) (runtime_control q wd)"

definition execution_facts_of :: "run_world \<Rightarrow> workspace \<Rightarrow> string \<Rightarrow> string option \<Rightarrow> execution_facts" where
  "execution_facts_of wd w reference image_id =
     (let s = observed_snapshot w in
      \<lparr>xf_now = wd_now wd, xf_image_reference = Some reference, xf_image_id = image_id,
       xf_repository_identity = os_repo s, xf_commit = os_commit s, xf_tree = os_tree s,
       xf_snapshot_id = os_snapshot_id s, xf_manifest_fingerprint = os_manifest s\<rparr>)"

text \<open>The validation that counts: a real run validates the file it has just read.\<close>

definition run_validation :: "run_request \<Rightarrow> run_world \<Rightarrow> workspace \<Rightarrow> authorization_result option res" where
  "run_validation q wd w =
     (if require_real_authorization q wd \<and> rq_authorization_path q \<noteq> None
      then
        (case control_payload (runtime_control q wd) of
           None \<Rightarrow> Inr None
         | Some a \<Rightarrow>
             if \<not> control_unchanged q wd then Inr None
             else
               res_bind (if is_digest_pinned_authorization_reference (JStr (requested_image q))
                         then rn_image_id (wd_runner wd) (requested_image q) else Inr None) (\<lambda>image_id.
               res_map Some
                 (validate_execution_authorization (JObj a) (case rq_gate q of None \<Rightarrow> [] | Some g \<Rightarrow> g)
                   (normalize_command_argv (rq_argv q)) (execution_facts_of wd w (requested_image q) image_id))))
      else Inr (rq_validation q))"

section \<open>The policy\<close>

definition copy_reasons :: "workspace \<Rightarrow> string list" where
  "copy_reasons w =
     (if copy_safety_ok w then []
      else [''workspace_copy_safety_check_failed''] @ dw_refusal_reasons w
        @ (if cs_exceeded (dw_state w) then [''copy_budget_exceeded''] else []))"

definition control_reasons :: "run_request \<Rightarrow> run_world \<Rightarrow> string list" where
  "control_reasons q wd =
     (if rq_authorization_path q \<noteq> None \<and> \<not> control_unchanged q wd then [''authorization_control_file_changed''] else [])"

definition configuration_reasons :: "run_request \<Rightarrow> run_world \<Rightarrow> sandbox_profile \<Rightarrow> inventory option \<Rightarrow> string list" where
  "configuration_reasons q wd p target_inventory =
     (if sp_name p = profile_inspect_only \<and> \<not> rq_dry_run q then [''inspect_only_profile_requires_dry_run''] else [])
     @ (if target_inventory = None then [''target_fingerprint_unavailable''] else [])
     @ (if \<not> is_safe_docker_image_token (JStr (requested_image q)) then [''image_reference_invalid'']
        else if require_real_authorization q wd
          \<and> \<not> is_digest_pinned_authorization_reference (JStr (requested_image q)) then [''image_digest_pinned_required'']
        else [])"

definition infrastructure_reasons :: "run_request \<Rightarrow> sandbox_profile \<Rightarrow> string list" where
  "infrastructure_reasons q p =
     (if normalize_command_argv (rq_argv q) = [] then [''command_argv_missing''] else [])
     @ (if rq_timeout q \<le> 0 then [''timeout_seconds_invalid''] else [])
     @ (if sp_implemented p then []
        else [case sp_refusal_reason p of None \<Rightarrow> ''profile_not_implemented''
              | Some r \<Rightarrow> if r = [] then ''profile_not_implemented'' else r])"

definition real_run_reasons :: "run_request \<Rightarrow> run_world \<Rightarrow> authorization_result option \<Rightarrow> string list" where
  "real_run_reasons q wd v =
     (if \<not> require_real_authorization q wd then []
      else
        (if rq_gate q = None then [''gate_decision_required''] else [])
        @ (if rq_fail_on q = None then [''gate_threshold_required''] else [])
        @ (if rq_authorization_path q = None then [''authorization_required'']
           else if \<not> authorization_execution_authorized v True then authorization_blocking_reasons v True else []))"

definition authorized_run :: "run_request \<Rightarrow> run_world \<Rightarrow> authorization_result option \<Rightarrow> bool" where
  "authorized_run q wd v \<longleftrightarrow> authorization_execution_authorized v (require_real_authorization q wd)"

definition other_run_reasons :: "run_request \<Rightarrow> run_world \<Rightarrow> authorization_result option \<Rightarrow> string list" where
  "other_run_reasons q wd v =
     (if rq_authorization_path q \<noteq> None \<and> \<not> authorized_run q wd v \<and> \<not> require_real_authorization q wd
      then authorization_blocking_reasons v False else [])"

definition run_consistency :: "run_request \<Rightarrow> run_world \<Rightarrow> workspace \<Rightarrow> consistency" where
  "run_consistency q wd w =
     subject_consistency (observed_snapshot w) (snapshot_source_kind w) (rq_gate q) (control_payload (runtime_control q wd))"

definition subject_reasons :: "run_request \<Rightarrow> run_world \<Rightarrow> consistency \<Rightarrow> string list" where
  "subject_reasons q wd c =
     (if \<not> rq_dry_run q \<and> rq_gate q \<noteq> None \<and> \<not> cy_gate_matches c then [''snapshot_subject_mismatch''] else [])
     @ (if \<not> rq_dry_run q \<and> rq_authorization_path q \<noteq> None \<and> \<not> cy_authorization_matches c
        then [''snapshot_subject_mismatch''] else [])
     @ (if require_real_authorization q wd \<and> \<not> consistent c then [''snapshot_subject_mismatch''] else [])"

definition planned_run_of :: "run_request \<Rightarrow> sandbox_profile \<Rightarrow> inventory \<Rightarrow> planned_run" where
  "planned_run_of q p i =
     \<lparr>pr_target_identity = target_identity (rq_target q), pr_fingerprint = nv_fingerprint i,
      pr_argv = normalize_command_argv (rq_argv q), pr_image = requested_image q, pr_profile = p, pr_timeout = rq_timeout q\<rparr>"

text \<open>The optional approval: the reasons it adds and what its validation is.\<close>

definition approval_outcome ::
  "run_request \<Rightarrow> run_world \<Rightarrow> sandbox_profile \<Rightarrow> inventory option \<Rightarrow> (string list \<times> run_approval option) res" where
  "approval_outcome q wd p target_inventory =
     (case (rq_approval q, target_inventory) of
        (Some file, Some i) \<Rightarrow>
          if requested_image q = [] \<or> normalize_command_argv (rq_argv q) = [] then Inr ([], None)
          else
            (case load_sandbox_run_approval file of
               LoadRefused message \<Rightarrow> Inr ([message], None)
             | LoadRaised \<Rightarrow> Inl OSError
             | Loaded a \<Rightarrow>
                 (let v = validate_sandbox_run_approval a (planned_run_of q p i) (wd_now wd) in
                  Inr (ra_refusal_reasons v, Some v)))
      | _ \<Rightarrow> Inr ([], None))"

definition run_snapshot_binding ::
  "run_request \<Rightarrow> run_world \<Rightarrow> workspace \<Rightarrow> authorization_result option \<Rightarrow> snapshot_binding option" where
  "run_snapshot_binding q wd w v =
     (if rq_authorization_path q \<noteq> None \<and> authorized_run q wd v
      then Some (validate_execution_authorization_snapshot_binding
        (case control_payload (runtime_control q wd) of None \<Rightarrow> [] | Some a \<Rightarrow> a)
        (case rq_gate q of None \<Rightarrow> [] | Some g \<Rightarrow> g) (observed_snapshot w))
      else None)"

definition binding_reasons :: "snapshot_binding option \<Rightarrow> string list" where
  "binding_reasons b = (case b of None \<Rightarrow> [] | Some b \<Rightarrow> if sb_matched b then [] else sb_refusal_reasons b)"

section \<open>The checked run\<close>

record checked_run =
  cr_profile :: sandbox_profile
  cr_seccomp :: seccomp_selection
  cr_workspace :: workspace
  cr_inventory :: "inventory option"
  cr_validation :: "authorization_result option"
  cr_approval :: "run_approval option"
  cr_policy_reasons :: "string list"
  cr_infrastructure_reasons :: "string list"
  cr_report :: dict

text \<open>The sections of the base report that the checks fill in.\<close>

definition with_binding :: "snapshot_binding option \<Rightarrow> dict \<Rightarrow> dict" where
  "with_binding b report =
     (case b of
        None \<Rightarrow> report
      | Some b \<Rightarrow>
          (let r = nested report ''authorization'' ''snapshot_binding'' (JObj (snapshot_binding_to_dict b)) in
           if sb_matched b then r
           else nested (nested r ''authorization'' ''execution_authorized'' (JBool False)) ''authorization'' ''blocking_errors''
             (jstrs (dedupe (string_items (dget (sect r ''authorization'') ''blocking_errors'') @ sb_refusal_reasons b)))))"

definition checked_report :: "run_request \<Rightarrow> run_world \<Rightarrow> workspace \<Rightarrow> authorization_result option \<Rightarrow> dict \<Rightarrow> dict" where
  "checked_report q wd w v base =
     with_binding (run_snapshot_binding q wd w v)
       (dset (if require_real_authorization q wd \<and> rq_authorization_path q \<noteq> None
              then dset base ''authorization'' (JObj (authorization_report True v True)) else base)
         ''subject_consistency'' (JObj (consistency_report (run_consistency q wd w))))"

definition check_run :: "run_request \<Rightarrow> run_world \<Rightarrow> workspace \<Rightarrow> checked_run res" where
  "check_run q wd given =
     (let p = get_sandbox_profile (wd_uid wd) (wd_gid wd) (rq_profile q); w = prepared_workspace q wd given in
      res_bind (resolve_seccomp_selection (wd_package wd) (rq_seccomp q)) (\<lambda>seccomp.
      res_bind (target_inventory_of wd w) (\<lambda>inventory.
      res_bind (base_report q inventory (requested_image q) p seccomp (normalize_command_argv (rq_argv q))
                  (rn_name (wd_runner wd)) (require_real_authorization q wd) w (wd_run_id wd) (wd_started_at wd)) (\<lambda>base.
      res_bind (run_validation q wd w) (\<lambda>v.
      res_bind (gate_block_reason (rq_gate q) (rq_fail_on q)) (\<lambda>gate_reason.
      res_bind (approval_outcome q wd p inventory) (\<lambda>(approval_reasons, approval).
        Inr \<lparr>cr_profile = p, cr_seccomp = seccomp, cr_workspace = w, cr_inventory = inventory, cr_validation = v,
             cr_approval = approval,
             cr_policy_reasons = copy_reasons w @ control_reasons q wd @ configuration_reasons q wd p inventory
               @ real_run_reasons q wd v @ (case gate_reason of None \<Rightarrow> [] | Some r \<Rightarrow> [r]) @ other_run_reasons q wd v
               @ subject_reasons q wd (run_consistency q wd w) @ approval_reasons
               @ binding_reasons (run_snapshot_binding q wd w v),
             cr_infrastructure_reasons = infrastructure_reasons q p,
             cr_report = checked_report q wd w v base\<rparr>)))))))"

section \<open>The run\<close>

text \<open>What a run does to the world outside: it takes the reservation, and it starts the container.\<close>

datatype effect = Reserve reservation | RunContainer "string list"

record run_state =
  rs_report :: dict
  rs_before :: "inventory option"
  rs_after :: "inventory option"
  rs_effects :: "effect list"

text \<open>A step ends the run with a report, fails with an exception that is caught, with one that is not,
  or waits for the output of the container.\<close>

datatype stop = Ended json | Failed pyexc | Escaped | Pending

type_synonym 'a step = "run_state \<Rightarrow> (stop + 'a) \<times> run_state"

definition step_return :: "'a \<Rightarrow> 'a step" where
  "step_return x st = (Inr x, st)"

definition step_bind :: "'a step \<Rightarrow> ('a \<Rightarrow> 'b step) \<Rightarrow> 'b step" where
  "step_bind m f st = (case m st of (Inl e, st') \<Rightarrow> (Inl e, st') | (Inr x, st') \<Rightarrow> f x st')"

definition step_of :: "'a res \<Rightarrow> 'a step" where
  "step_of m st = (case m of Inl e \<Rightarrow> (Inl (Failed e), st) | Inr x \<Rightarrow> (Inr x, st))"

definition step_update :: "(run_state \<Rightarrow> run_state) \<Rightarrow> unit step" where
  "step_update f st = (Inr (), f st)"

definition edit_report :: "(dict \<Rightarrow> dict) \<Rightarrow> unit step" where
  "edit_report f = step_update (\<lambda>st. st\<lparr>rs_report := f (rs_report st)\<rparr>)"

text \<open>\<open>return ...\<close> inside the \<open>try\<close>: the report is built from the state at that point.\<close>

definition step_end :: "(run_state \<Rightarrow> json res) \<Rightarrow> 'a step" where
  "step_end f st = (case f st of Inl e \<Rightarrow> (Inl (Failed e), st) | Inr j \<Rightarrow> (Inl (Ended j), st))"

text \<open>The report at the end of the \<open>try\<close>.\<close>

definition step_result :: "(run_state \<Rightarrow> json res) \<Rightarrow> json step" where
  "step_result f st = (case f st of Inl e \<Rightarrow> (Inl (Failed e), st) | Inr j \<Rightarrow> (Inr j, st))"

definition ending_of :: "run_request \<Rightarrow> run_world \<Rightarrow> ending" where
  "ending_of q wd = \<lparr>en_preserve = rq_preserve q, en_cleanup_ok = wd_cleanup_ok wd, en_ended_at = wd_ended_at wd\<rparr>"

definition approval_object :: "checked_run \<Rightarrow> validation_object" where
  "approval_object c = (case cr_approval c of None \<Rightarrow> NoValidation | Some v \<Rightarrow> ApprovalValidation v)"

definition block_run ::
  "run_request \<Rightarrow> run_world \<Rightarrow> checked_run \<Rightarrow> validation_object \<Rightarrow> string list \<Rightarrow> string list \<Rightarrow> dict \<Rightarrow> json res" where
  "block_run q wd c validation reasons next_actions report =
     policy_blocked_report (ending_of q wd) (cr_workspace c) report (rq_approval q \<noteq> None) reasons validation next_actions"

definition break_run :: "run_request \<Rightarrow> run_world \<Rightarrow> checked_run \<Rightarrow> string list \<Rightarrow> string list \<Rightarrow> dict \<Rightarrow> json res" where
  "break_run q wd c reasons next_actions report =
     infrastructure_error_report (ending_of q wd) (cr_workspace c) report (rq_approval q \<noteq> None) reasons (approval_object c)
       next_actions (wd_paths wd)"

definition no_host_fallback :: string where
  "no_host_fallback = ''Do not run the repository-derived command on the host as a fallback.''"

definition verify_snapshot_step :: "run_request \<Rightarrow> run_world \<Rightarrow> checked_run \<Rightarrow> tree_view \<Rightarrow> unit step" where
  "verify_snapshot_step q wd c view =
     step_bind (step_of (lift_refusal
       (verify_verified_snapshot (dw_budget (cr_workspace c)) (dw_snapshot (cr_workspace c)) view))) (\<lambda>ok.
       if ok then step_return ()
       else step_end (\<lambda>st. block_run q wd c (approval_object c) [''snapshot_integrity_verification_failed'']
         [''Discard the invalid snapshot and repeat bounded intake.'',
          ''Do not invoke Docker or run the command on the host.''] (rs_report st)))"

definition materialize_step :: "run_world \<Rightarrow> checked_run \<Rightarrow> string option step" where
  "materialize_step wd c =
     (let name = ss_profile (cr_seccomp c) in
      if name = seccomp_runtime_default then step_return None
      else step_bind (step_of (materialize_seccomp_profile (wd_package_again wd) (wd_package_third wd)
             (wd_profile_file_exists wd) name))
        (\<lambda>bytes. step_return (Some (rp_root (wd_paths wd) @ ''/'' @ name @ ''.json''))))"

definition run_argv :: "run_request \<Rightarrow> run_world \<Rightarrow> checked_run \<Rightarrow> string option \<Rightarrow> string list res" where
  "run_argv q wd c seccomp_path =
     build_docker_run_argv (requested_image q) (normalize_command_argv (rq_argv q)) (rp_workspace (wd_paths wd))
       (cr_profile c) (ss_profile (cr_seccomp c)) seccomp_path (Some (wd_label wd))
       (Some (rp_root (wd_paths wd) @ ''/container.cid''))"

definition docker_section :: "run_request \<Rightarrow> run_world \<Rightarrow> checked_run \<Rightarrow> string list \<Rightarrow> dict" where
  "docker_section q wd c argv =
     (let rn = wd_runner wd in
      dset (docker_report_fields (requested_image q) (cr_profile c)
             (map (redact_text (rq_target q) (Some (wd_paths wd))) argv) (rn_runtime rn) (rn_name rn)
             (rn_docker_invoked rn \<and> \<not> rq_dry_run q))
        ''container_tracking_enabled'' (JBool (\<not> rq_dry_run q \<and> rn_name rn = ''docker'')))"

definition dry_run_report :: "run_request \<Rightarrow> run_world \<Rightarrow> checked_run \<Rightarrow> inventory option \<Rightarrow> dict \<Rightarrow> json res" where
  "dry_run_report q wd c before report =
     res_map (\<lambda>approval.
       finalize_report (ending_of q wd) (cr_workspace c)
         (sets [(''result'', result_section ''dry_run'' (Some 0) False 0),
             (''workspace_diff'', JObj (summarize_workspace_diff before before)), (''approval'', JObj approval),
             (''next_actions'', jstrs
               [''Dry-run generated sandbox-run evidence without invoking Docker.'',
                ''Run without --dry-run only after reviewing the planned boundary.'']),
             (''sandbox_exit_code'', JInt 0)]
           (nested report ''authorization'' ''single_use_reservation''
             (JObj (reservation_section (rq_authorization_path q \<noteq> None) ''not_consumed'' (JStr ''dry_run''))))))
       (approval_report (rq_approval q \<noteq> None) (approval_object c) [])"

text \<open>The control file is read again before and after the reservation.  The refusal passes the validation of
  the authorization where a validation of an approval is expected.\<close>

definition authorization_object :: "checked_run \<Rightarrow> validation_object" where
  "authorization_object c = (case cr_validation c of None \<Rightarrow> NoValidation | Some v \<Rightarrow> AuthorizationValidation)"

definition recheck_control :: "run_request \<Rightarrow> run_world \<Rightarrow> checked_run \<Rightarrow> file_answers \<Rightarrow> string \<Rightarrow> unit step" where
  "recheck_control q wd c a advice =
     (if controls_match (runtime_control q wd) (load_authorization_control_document wd a) then step_return ()
      else step_end (\<lambda>st. block_run q wd c (authorization_object c) [''authorization_control_file_changed'']
        [advice, no_host_fallback] (rs_report st)))"

definition reserve_step_of :: "run_world \<Rightarrow> string \<times> string \<Rightarrow> reservation step" where
  "reserve_step_of wd path st =
     (case reserve_execution_authorization path (wd_reservation wd) of
        None \<Rightarrow> (Inl Pending, st)
      | Some r \<Rightarrow> (Inr r, st\<lparr>rs_effects := rs_effects st @ [Reserve r],
          rs_report := nested (rs_report st) ''authorization'' ''single_use_reservation'' (JObj (reservation_to_dict r))\<rparr>))"

definition reservation_refusal :: "reservation \<Rightarrow> string" where
  "reservation_refusal r =
     (case rv_refusal_reason r of
        None \<Rightarrow> ''authorization_single_use_reservation_rejected''
      | Some s \<Rightarrow> if s = [] then ''authorization_single_use_reservation_rejected'' else s)"

definition take_reservation :: "run_request \<Rightarrow> run_world \<Rightarrow> checked_run \<Rightarrow> unit step" where
  "take_reservation q wd c =
     (case rq_authorization_path q of
        None \<Rightarrow> step_return ()
      | Some path \<Rightarrow>
          step_bind (recheck_control q wd c (wd_control_before wd)
            ''Obtain a new authorization artifact and repeat validation.'') (\<lambda>_.
          step_bind (reserve_step_of wd path) (\<lambda>r.
            if \<not> rv_reserved r
            then step_end (\<lambda>st. block_run q wd c (approval_object c) [reservation_refusal r]
              [''Do not retry the authorization after a reservation refusal; obtain a new authorization artifact.'',
               no_host_fallback] (rs_report st))
            else recheck_control q wd c (wd_control_after wd)
              ''The consumed authorization changed; obtain a new authorization artifact.'')))"

definition run_container :: "run_world \<Rightarrow> string list \<Rightarrow> int \<Rightarrow> runner_result step" where
  "run_container wd argv timeout st =
     (let st' = st\<lparr>rs_effects := rs_effects st @ [RunContainer argv]\<rparr> in
      case rn_run (wd_runner wd) argv (nat timeout) of
        None \<Rightarrow> (Inl Pending, st')
      | Some Unwound \<Rightarrow> (Inl Escaped, st')
      | Some (Returned r) \<Rightarrow> (Inr r, st'))"

definition final_status :: "runner_result \<Rightarrow> string" where
  "final_status r =
     (if rr_timed_out r then ''timed_out'' else if rr_budget_exceeded r then ''output_budget_exceeded''
      else if rr_exit_code r \<noteq> Some 0 \<and> rr_exit_code r \<noteq> None then ''failed'' else rr_status r)"

definition sandbox_exit_code :: "runner_result \<Rightarrow> bool \<Rightarrow> int" where
  "sandbox_exit_code r docker_invoked =
     (if rr_budget_exceeded r then policy_block_exit_code
      else if is_docker_infrastructure_failure r docker_invoked then infrastructure_exit_code
      else (case rr_exit_code r of Some n \<Rightarrow> n | None \<Rightarrow> infrastructure_exit_code))"

definition integrity_lost :: "dict \<Rightarrow> dict" where
  "integrity_lost report =
     push [''The Docker workspace no longer matched the approved snapshot.'']
       (sets [(''sandbox_exit_code'', JInt infrastructure_exit_code),
           (''block_reason'', JStr ''snapshot_integrity_verification_failed'')]
         (nested report ''result'' ''status'' (JStr ''failed'')))"

definition completed_report ::
  "run_request \<Rightarrow> run_world \<Rightarrow> runner_result \<Rightarrow> bool \<Rightarrow> inventory option \<Rightarrow> inventory option \<Rightarrow> dict \<Rightarrow> dict \<Rightarrow> dict" where
  "completed_report q wd r intact before after approval report =
     (let rn = wd_runner wd;
          summary = build_output_summary r (rq_target q) (wd_paths wd) (rq_preview_chars q);
          started = (rr_start_state r = ''confirmed'');
          r1 = sets [(''docker'', JObj (docker_report_with_result (sect report ''docker'') r summary (rn_docker_invoked rn))),
              (''workspace_diff'', JObj (summarize_workspace_diff before after)),
              (''runtime_write_budget'', JObj (runtime_write_budget_report before after)),
              (''output_summary'', JObj summary),
              (''result'', result_section (final_status r) (rr_exit_code r) (rr_timed_out r) (rr_duration_ms r)),
              (''policy_blocked'', JBool False), (''command_started'', JBool started),
              (''command_start_state'', JStr (rr_start_state r)),
              (''command_exit_code'', if started then opt_int (rr_exit_code r) else JNull),
              (''sandbox_exit_code'', JInt (sandbox_exit_code r (rn_docker_invoked rn))), (''block_reason'', JNull)] report;
          r2 = nested r1 ''verified_snapshot'' ''integrity_after_execution'' (JStr (if intact then ''verified'' else ''mismatch''));
          r3 = (if intact then r2 else integrity_lost r2);
          r4 = dset r3 ''approval'' (JObj approval);
          r5 = (if starts_with (rn_name rn) ''fake'' \<and> \<not> rn_docker_invoked rn
                then push [''Fake runner mode did not invoke Docker and is only suitable for tests or documentation smoke checks.''] r4
                else r4) in
      if is_docker_infrastructure_failure r (rn_docker_invoked rn)
      then dset (push docker_infrastructure_limitations r5) ''next_actions'' (jstrs next_actions_for_docker_failure)
      else dset r5 ''next_actions'' (jstrs (next_actions_for_status (final_status r))))"

definition finish_run :: "run_request \<Rightarrow> run_world \<Rightarrow> checked_run \<Rightarrow> runner_result \<Rightarrow> json step" where
  "finish_run q wd c r =
     step_bind (step_of (lift_refusal (verify_verified_snapshot (dw_budget (cr_workspace c)) (dw_snapshot (cr_workspace c))
       (wd_after_verify_view wd)))) (\<lambda>intact.
     step_bind (step_of (lift_refusal (snapshot_workspace (wd_after_view wd)))) (\<lambda>after.
     step_bind (step_update (\<lambda>st. st\<lparr>rs_after := Some after\<rparr>)) (\<lambda>_.
       step_result (\<lambda>st. res_map (\<lambda>approval.
         finalize_report (ending_of q wd) (cr_workspace c)
           (completed_report q wd r intact (rs_before st) (rs_after st) approval (rs_report st)))
         (approval_report (rq_approval q \<noteq> None) (approval_object c) [])))))"

text \<open>Before the container: the first inventory, the verification and the vector.\<close>

definition prepare_run :: "run_request \<Rightarrow> run_world \<Rightarrow> checked_run \<Rightarrow> string list step" where
  "prepare_run q wd c =
     step_bind (edit_report (\<lambda>r. dset r ''disposable_workspace'' (JObj (workspace_to_report (cr_workspace c))))) (\<lambda>_.
     step_bind (step_of (lift_refusal (snapshot_workspace (wd_before_view wd)))) (\<lambda>before.
     step_bind (step_update (\<lambda>st. st\<lparr>rs_before := Some before\<rparr>)) (\<lambda>_.
     step_bind (verify_snapshot_step q wd c (wd_verify_view wd)) (\<lambda>_.
     step_bind (materialize_step wd c) (\<lambda>seccomp_path.
     step_bind (step_of (run_argv q wd c seccomp_path)) (\<lambda>argv.
     step_bind (edit_report (\<lambda>r. dset r ''docker'' (JObj (docker_section q wd c argv)))) (\<lambda>_.
       step_return argv)))))))"

text \<open>From the reservation to the report.\<close>

definition start_run :: "run_request \<Rightarrow> run_world \<Rightarrow> checked_run \<Rightarrow> string list \<Rightarrow> json step" where
  "start_run q wd c argv =
     step_bind (take_reservation q wd c) (\<lambda>_.
     step_bind (verify_snapshot_step q wd c (wd_last_verify_view wd)) (\<lambda>_.
     step_bind (run_container wd argv (rq_timeout q)) (\<lambda>r. finish_run q wd c r)))"

definition execute_run :: "run_request \<Rightarrow> run_world \<Rightarrow> checked_run \<Rightarrow> json step" where
  "execute_run q wd c =
     step_bind (prepare_run q wd c) (\<lambda>argv.
       if rq_dry_run q then step_result (\<lambda>st. dry_run_report q wd c (rs_before st) (rs_report st))
       else start_run q wd c argv)"

text \<open>\<open>except Exception\<close>: the report of a failure inside the run.\<close>

definition failed_run :: "run_request \<Rightarrow> run_world \<Rightarrow> pyexc \<Rightarrow> dict \<Rightarrow> run_state \<Rightarrow> dict" where
  "failed_run q wd e approval st =
     (let message = ''sandbox-run infrastructure error: '' @ wd_class_name wd e; paths = Some (wd_paths wd) in
      sets [(''docker'', JObj (docker_report_with_infrastructure_error (sect (rs_report st) ''docker'') message
            (rq_target q) paths)),
          (''result'', result_section ''failed'' None False 0), (''policy_blocked'', JBool False),
          (''command_started'', JBool False), (''command_exit_code'', JNull),
          (''sandbox_exit_code'', JInt infrastructure_exit_code),
          (''block_reason'', JStr ''sandbox_run_infrastructure_error''),
          (''workspace_diff'', JObj (summarize_workspace_diff (rs_before st) (rs_after st))),
          (''output_summary'', JObj empty_output_summary), (''approval'', JObj approval),
          (''next_actions'', jstrs
            [''Treat the sandbox-run evidence as incomplete.'',
             ''Do not run the repository-derived command directly on the host as a fallback.''])]
        (push [redact_text (rq_target q) paths message] (rs_report st)))"

definition failed_report :: "run_request \<Rightarrow> run_world \<Rightarrow> checked_run \<Rightarrow> pyexc \<Rightarrow> run_state \<Rightarrow> json res" where
  "failed_report q wd c e st =
     res_map (\<lambda>approval. finalize_report (ending_of q wd) (cr_workspace c) (failed_run q wd e approval st))
       (approval_report (rq_approval q \<noteq> None) (approval_object c) [''sandbox_run_failed_closed''])"

datatype run_end = Report json | RaisedError pyexc | Interruption | Waiting

definition of_report :: "json res \<Rightarrow> run_end" where
  "of_report m = (case m of Inl e \<Rightarrow> RaisedError e | Inr j \<Rightarrow> Report j)"

definition start_state_of :: "checked_run \<Rightarrow> run_state" where
  "start_state_of c = \<lparr>rs_report = cr_report c, rs_before = None, rs_after = None, rs_effects = []\<rparr>"

definition try_run :: "run_request \<Rightarrow> run_world \<Rightarrow> checked_run \<Rightarrow> run_end \<times> effect list" where
  "try_run q wd c =
     (case execute_run q wd c (start_state_of c) of
        (Inl (Ended j), st) \<Rightarrow> (Report j, rs_effects st)
      | (Inl (Failed e), st) \<Rightarrow> (of_report (failed_report q wd c e st), rs_effects st)
      | (Inl Escaped, st) \<Rightarrow> (Interruption, rs_effects st)
      | (Inl Pending, st) \<Rightarrow> (Waiting, rs_effects st)
      | (Inr j, st) \<Rightarrow> (Report j, rs_effects st))"

definition run_checked :: "run_request \<Rightarrow> run_world \<Rightarrow> checked_run \<Rightarrow> run_end \<times> effect list" where
  "run_checked q wd c =
     (if cr_policy_reasons c \<noteq> [] then
        (of_report (block_run q wd c (approval_object c) (cr_policy_reasons c)
           [''Review gate, authorization, copy policy, and approval refusal reasons before retrying.'', no_host_fallback]
           (cr_report c)), [])
      else if cr_infrastructure_reasons c \<noteq> [] then
        (of_report (break_run q wd c (cr_infrastructure_reasons c)
           [''Do not fall back to running the repository-derived command directly on the host.'',
            ''Fix the sandbox-run configuration and retry.''] (cr_report c)), [])
      else if \<not> rq_dry_run q \<and> \<not> rn_available (wd_runner wd) then
        (of_report (break_run q wd c [''docker_unavailable'']
           [''Start or install Docker only if that is appropriate for this host.'',
            ''Do not fall back to running the repository-derived command directly on the host.''] (cr_report c)), [])
      else if \<not> rq_dry_run q \<and> \<not> rn_image_available (wd_runner wd) (requested_image q) then
        (of_report (break_run q wd c [''image_unavailable_local_only_policy'']
           [''Preload the exact approved image through a reviewed process, then retry.'',
            ''Do not pull images implicitly during sandbox-run.''] (cr_report c)), [])
      else try_run q wd c)"

definition run_sandbox :: "run_request \<Rightarrow> run_world \<Rightarrow> workspace \<Rightarrow> run_end \<times> effect list" where
  "run_sandbox q wd given =
     (case check_run q wd given of
        Inl e \<Rightarrow> (RaisedError e, [])
      | Inr c \<Rightarrow> run_checked q wd c)"

text \<open>\<open>run_sandbox_run\<close>: when no report is returned, the workspace is still deleted.\<close>

definition run_sandbox_run :: "run_request \<Rightarrow> run_world \<Rightarrow> workspace \<Rightarrow> run_end \<times> effect list \<times> workspace" where
  "run_sandbox_run q wd given =
     (case run_sandbox q wd given of
        (Report j, effects) \<Rightarrow> (Report j, effects, ended_workspace (ending_of q wd) (prepared_workspace q wd given))
      | (Waiting, effects) \<Rightarrow> (Waiting, effects, prepared_workspace q wd given)
      | (e, effects) \<Rightarrow> (e, effects, cleanup_workspace (wd_cleanup_ok wd) (prepared_workspace q wd given)))"

end
