(* ===== verification/Sandbox_Run_Properties.thy ===== *)
theory Sandbox_Run_Properties
  imports Sandbox_Run
begin

text \<open>
  What a sandbox run guarantees: which conditions hold when the container is started, what an exit
  code of zero means, what shape a report has.
\<close>

section \<open>The steps\<close>

lemma step_bind_cases:
  assumes "step_bind m f st = (r, st')"
  obtains (stopped) e where "m st = (Inl e, st')" and "r = Inl e"
    | (continued) x st1 where "m st = (Inr x, st1)" and "f x st1 = (r, st')"
  using assms by (auto simp: step_bind_def split: prod.splits sum.splits)

text \<open>A step that leaves a part of the state alone.\<close>

definition keeps :: "(run_state \<Rightarrow> 'b) \<Rightarrow> 'a step \<Rightarrow> bool" where
  "keeps f m \<longleftrightarrow> (\<forall>st. f (snd (m st)) = f st)"

definition docker_of :: "run_state \<Rightarrow> dict" where
  "docker_of st = sect (rs_report st) ''docker''"

lemma keepsD: "keeps f m \<Longrightarrow> m st = (r, st') \<Longrightarrow> f st' = f st"
  by (metis keeps_def snd_conv)

lemma keeps_bind: "keeps f m \<Longrightarrow> (\<And>x. keeps f (n x)) \<Longrightarrow> keeps f (step_bind m n)"
  by (auto simp: keeps_def step_bind_def split: prod.split sum.split) (metis snd_conv)+

lemma keeps_basic:
  "keeps f (step_return x)" "keeps f (step_of m)" "keeps f (step_end h)" "keeps f (step_result j)"
  by (auto simp: keeps_def step_return_def step_of_def step_end_def step_result_def split: sum.split)

lemma keeps_edit: "keeps rs_effects (edit_report g)"
  by (simp add: keeps_def edit_report_def step_update_def)

lemma keeps_inventories:
  "keeps rs_effects (step_update (\<lambda>st. st\<lparr>rs_before := x\<rparr>))" "keeps rs_effects (step_update (\<lambda>st. st\<lparr>rs_after := x\<rparr>))"
  by (simp_all add: keeps_def step_update_def)

lemma keeps_if: "keeps f m \<Longrightarrow> keeps f n \<Longrightarrow> keeps f (if b then m else n)"
  by simp

lemmas keeps_rules = keeps_basic keeps_edit keeps_inventories keeps_bind keeps_if

lemma verify_keeps: "keeps f (verify_snapshot_step q wd c view)"
  unfolding verify_snapshot_step_def by (intro keeps_rules)

lemma materialize_keeps: "keeps f (materialize_step wd c)"
  unfolding materialize_step_def Let_def by (intro keeps_rules)

lemma recheck_keeps: "keeps f (recheck_control q wd c a advice)"
  unfolding recheck_control_def by (intro keeps_rules)

lemma finish_keeps: "keeps rs_effects (finish_run q wd c r)"
  unfolding finish_run_def by (intro keeps_rules)

text \<open>A step that goes on has found what it looked for.\<close>

lemma verify_passed:
  assumes "verify_snapshot_step q wd c view st = (Inr u, st')"
  shows "verify_verified_snapshot (dw_budget (cr_workspace c)) (dw_snapshot (cr_workspace c)) view = Inr True"
  using assms
  by (auto simp: verify_snapshot_step_def step_of_def step_end_def step_return_def lift_refusal_def
      elim!: step_bind_cases split: sum.splits refusal.splits if_splits)

lemma recheck_passed:
  assumes "recheck_control q wd c a advice st = (Inr u, st')"
  shows "controls_match (runtime_control q wd) (load_authorization_control_document wd a)"
  using assms by (auto simp: recheck_control_def step_end_def split: if_splits sum.splits)

text \<open>What the reservation leaves behind: when the run goes on with an authorization, the reservation was
  obtained and the control file was the same before and after it.\<close>

definition reservation_held :: "run_request \<Rightarrow> run_world \<Rightarrow> effect list \<Rightarrow> bool" where
  "reservation_held q wd taken \<longleftrightarrow>
     (case rq_authorization_path q of
        None \<Rightarrow> taken = []
      | Some path \<Rightarrow> \<exists>r. taken = [Reserve r] \<and> reserve_execution_authorization path (wd_reservation wd) = Some r \<and> rv_reserved r
          \<and> controls_match (runtime_control q wd) (load_authorization_control_document wd (wd_control_before wd))
          \<and> controls_match (runtime_control q wd) (load_authorization_control_document wd (wd_control_after wd)))"

lemma reserve_step_effects:
  assumes "reserve_step_of wd path st = (r, st')"
  shows "(\<exists>v. r = Inr v \<and> reserve_execution_authorization path (wd_reservation wd) = Some v
      \<and> rs_effects st' = rs_effects st @ [Reserve v]) \<or> (r = Inl Pending \<and> st' = st)"
  using assms by (auto simp: reserve_step_of_def split: option.splits)

lemma take_reservation_effects:
  assumes "take_reservation q wd c st = (r, st')"
  shows "\<exists>taken. rs_effects st' = rs_effects st @ taken \<and> (\<forall>argv. RunContainer argv \<notin> set taken)
    \<and> (r = Inr () \<longrightarrow> reservation_held q wd taken)"
proof (cases "rq_authorization_path q")
  case None
  with assms show ?thesis by (auto simp: take_reservation_def step_return_def reservation_held_def)
next
  case (Some path)
  note whole = assms [unfolded take_reservation_def Some option.case]
  from whole show ?thesis
  proof (cases rule: step_bind_cases)
    case (stopped e)
    with keepsD [where f = rs_effects, OF recheck_keeps] show ?thesis by (intro exI [of _ "[]"]) auto
  next
    case (continued u st1)
    note first = keepsD [where f = rs_effects, OF recheck_keeps continued(1)] recheck_passed [OF continued(1)]
    from continued(2) show ?thesis
    proof (cases rule: step_bind_cases)
      case (stopped e)
      with reserve_step_effects [OF stopped(1)] first show ?thesis by (intro exI [of _ "[]"]) auto
    next
      case (continued v st2)
      with reserve_step_effects [OF continued(1)] first(1) have v: "reserve_execution_authorization path (wd_reservation wd) = Some v"
        "rs_effects st2 = rs_effects st @ [Reserve v]" by auto
      show ?thesis
      proof (cases "rv_reserved v")
        case False
        with continued(2) have "rs_effects st' = rs_effects st2" "r \<noteq> Inr ()"
          using keepsD [OF keeps_basic(3)] by (fastforce simp: step_end_def split: sum.splits)+
        with v show ?thesis by (intro exI [of _ "[Reserve v]"]) simp
      next
        case True
        with continued(2) have c: "recheck_control q wd c (wd_control_after wd)
          ''The consumed authorization changed; obtain a new authorization artifact.'' st2 = (r, st')" by simp
        have "r = Inr () \<longrightarrow> reservation_held q wd [Reserve v]"
          using recheck_passed [of q wd c "wd_control_after wd" _ st2 "()" st'] c first(2) v(1) True
          by (auto simp: reservation_held_def Some)
        with v keepsD [where f = rs_effects, OF recheck_keeps c] show ?thesis by (intro exI [of _ "[Reserve v]"]) simp
      qed
    qed
  qed
qed

definition no_container :: "effect list \<Rightarrow> bool" where
  "no_container es \<longleftrightarrow> (\<forall>argv. RunContainer argv \<notin> set es)"

text \<open>When a container was started: the vector that was built, and what had been checked.\<close>

definition started_properly :: "run_request \<Rightarrow> run_world \<Rightarrow> checked_run \<Rightarrow> effect list \<Rightarrow> string list \<Rightarrow> bool" where
  "started_properly q wd c taken argv \<longleftrightarrow>
     \<not> rq_dry_run q \<and> reservation_held q wd taken \<and> (\<exists>path. run_argv q wd c path = Inr argv)
     \<and> verify_verified_snapshot (dw_budget (cr_workspace c)) (dw_snapshot (cr_workspace c)) (wd_verify_view wd) = Inr True
     \<and> verify_verified_snapshot (dw_budget (cr_workspace c)) (dw_snapshot (cr_workspace c)) (wd_last_verify_view wd) = Inr True"

lemma step_of_Inr: "step_of m st = (Inr x, st') \<Longrightarrow> m = Inr x \<and> st' = st"
  by (auto simp: step_of_def split: sum.splits)

lemma run_container_effects:
  "run_container wd argv timeout st = (r, st') \<Longrightarrow> rs_effects st' = rs_effects st @ [RunContainer argv]
     \<and> (\<forall>x. r = Inr x \<longrightarrow> rn_run (wd_runner wd) argv (nat timeout) = Some (Returned x))"
  by (auto simp: run_container_def Let_def split: option.splits run_outcome.splits)

lemma start_run_effects:
  assumes "start_run q wd c argv st = (res, st')"
  shows "\<exists>taken. reservation_held q wd taken \<and> rs_effects st' = rs_effects st @ taken @ [RunContainer argv]
      \<and> verify_verified_snapshot (dw_budget (cr_workspace c)) (dw_snapshot (cr_workspace c)) (wd_last_verify_view wd) = Inr True
    \<or> rs_effects st' = rs_effects st @ taken \<and> no_container taken \<and> (\<forall>j. res \<noteq> Inr j)"
  using assms [unfolded start_run_def]
proof (cases rule: step_bind_cases)
  case (stopped e)
  with take_reservation_effects [OF stopped(1)] show ?thesis by (auto simp: no_container_def)
next
  case (continued u st1)
  from take_reservation_effects [OF continued(1)] obtain taken where
    taken: "rs_effects st1 = rs_effects st @ taken" "no_container taken" "reservation_held q wd taken"
    by (auto simp: no_container_def)
  from continued(2) show ?thesis
  proof (cases rule: step_bind_cases)
    case (stopped e)
    with keepsD [where f = rs_effects, OF verify_keeps stopped(1)] taken show ?thesis by (intro exI [of _ taken]) simp
  next
    case (continued u2 st2)
    note v = keepsD [where f = rs_effects, OF verify_keeps continued(1)] verify_passed [OF continued(1)]
    from continued(2) show ?thesis
    proof (cases rule: step_bind_cases)
      case (stopped e)
      with run_container_effects [OF stopped(1)] v taken show ?thesis by (intro exI [of _ taken]) simp
    next
      case (continued r st3)
      with run_container_effects [OF continued(1)] keepsD [where f = rs_effects, OF finish_keeps continued(2)] v taken
      show ?thesis by (intro exI [of _ taken]) simp
    qed
  qed
qed

lemma prepare_keeps: "keeps rs_effects (prepare_run q wd c)"
  unfolding prepare_run_def by (intro keeps_rules verify_keeps materialize_keeps)

lemma prepare_Inr:
  assumes "prepare_run q wd c st = (Inr argv, st')"
  shows "(\<exists>path. run_argv q wd c path = Inr argv)
    \<and> verify_verified_snapshot (dw_budget (cr_workspace c)) (dw_snapshot (cr_workspace c)) (wd_verify_view wd) = Inr True"
  using assms unfolding prepare_run_def
  by (auto simp: step_return_def dest!: step_of_Inr verify_passed elim!: step_bind_cases)

lemma execute_effects:
  assumes "execute_run q wd c st = (res, st')"
  shows "(\<exists>taken argv. started_properly q wd c taken argv \<and> rs_effects st' = rs_effects st @ taken @ [RunContainer argv])
    \<or> (\<exists>taken. rs_effects st' = rs_effects st @ taken \<and> no_container taken \<and> ((\<exists>j. res = Inr j) \<longrightarrow> rq_dry_run q))"
  using assms [unfolded execute_run_def]
proof (cases rule: step_bind_cases)
  case (stopped e)
  with keepsD [where f = rs_effects, OF prepare_keeps stopped(1)] show ?thesis by (intro disjI2 exI [of _ "[]"]) (simp add: no_container_def)
next
  case (continued argv st1)
  note prepared = keepsD [where f = rs_effects, OF prepare_keeps continued(1)] prepare_Inr [OF continued(1)]
  show ?thesis
  proof (cases "rq_dry_run q")
    case True
    with continued(2) keepsD [OF keeps_basic(4)] have "rs_effects st' = rs_effects st1" by auto
    with True prepared show ?thesis by (intro disjI2 exI [of _ "[]"]) (simp add: no_container_def)
  next
    case False
    with start_run_effects [of q wd c argv st1 res st'] continued(2) prepared show ?thesis
      by (auto simp: started_properly_def)
  qed
qed

section \<open>What the checks establish\<close>

lemma checked_facts:
  assumes "check_run q wd given = Inr c"
  shows "\<exists>gate_reason approval_reasons. run_validation q wd (prepared_workspace q wd given) = Inr (cr_validation c)
    \<and> cr_workspace c = prepared_workspace q wd given
    \<and> cr_profile c = get_sandbox_profile (wd_uid wd) (wd_gid wd) (rq_profile q)
    \<and> gate_block_reason (rq_gate q) (rq_fail_on q) = Inr gate_reason
    \<and> approval_outcome q wd (cr_profile c) (cr_inventory c) = Inr (approval_reasons, cr_approval c)
    \<and> cr_infrastructure_reasons c = infrastructure_reasons q (cr_profile c)
    \<and> cr_policy_reasons c = copy_reasons (cr_workspace c) @ control_reasons q wd
        @ configuration_reasons q wd (cr_profile c) (cr_inventory c)
        @ real_run_reasons q wd (cr_validation c) @ (case gate_reason of None \<Rightarrow> [] | Some r \<Rightarrow> [r])
        @ other_run_reasons q wd (cr_validation c) @ subject_reasons q wd (run_consistency q wd (cr_workspace c))
        @ approval_reasons @ binding_reasons (run_snapshot_binding q wd (cr_workspace c) (cr_validation c))"
  using assms unfolding check_run_def Let_def by (auto elim!: res_bindE)

lemma copy_reasons_Nil: "copy_reasons w = [] \<longleftrightarrow> copy_safety_ok w"
  by (simp add: copy_reasons_def)

lemma prepared_safe: "copy_safety_ok (prepared_workspace q wd w) \<Longrightarrow> prepared_workspace q wd w = w \<and> wd_source_root wd = rq_target q"
  by (simp add: prepared_workspace_def copy_safety_ok_def split: if_splits)

lemma blocking_reasons_nonempty: "authorization_blocking_reasons v require_image \<noteq> []"
  by (auto simp: authorization_blocking_reasons_def Let_def split: option.splits)

lemma real_run_reasons_Nil:
  assumes "real_run_reasons q wd v = []" and "require_real_authorization q wd"
  shows "rq_gate q \<noteq> None \<and> rq_fail_on q \<noteq> None \<and> rq_authorization_path q \<noteq> None \<and> authorization_execution_authorized v True"
  using assms blocking_reasons_nonempty by (auto simp: real_run_reasons_def split: if_splits)

lemma subject_reasons_Nil: "subject_reasons q wd c = [] \<Longrightarrow> require_real_authorization q wd \<Longrightarrow> consistent c"
  by (simp add: subject_reasons_def split: if_splits)

lemma binding_reasons_Nil:
  assumes "binding_reasons (run_snapshot_binding q wd w v) = []" and "rq_authorization_path q \<noteq> None" and "authorized_run q wd v"
  shows "sb_matched (validate_execution_authorization_snapshot_binding
    (case control_payload (runtime_control q wd) of None \<Rightarrow> [] | Some a \<Rightarrow> a)
    (case rq_gate q of None \<Rightarrow> [] | Some g \<Rightarrow> g) (observed_snapshot w))"
proof (rule ccontr)
  let ?b = "validate_execution_authorization_snapshot_binding
    (case control_payload (runtime_control q wd) of None \<Rightarrow> [] | Some a \<Rightarrow> a)
    (case rq_gate q of None \<Rightarrow> [] | Some g \<Rightarrow> g) (observed_snapshot w)"
  assume "\<not> sb_matched ?b"
  then have "sb_refusal_reasons ?b \<noteq> []" using snapshot_binding_facts by blast
  with assms \<open>\<not> sb_matched ?b\<close> show False by (simp add: binding_reasons_def run_snapshot_binding_def)
qed

text \<open>The image part of a validation that authorizes.\<close>

lemma validated_image:
  assumes "validate_execution_authorization (JObj a) g argv facts = Inr r" and "image_bound r"
  shows "has_key a ''approved_image''"
  using assms unfolding validate_execution_authorization_def
  by (auto simp: image_bound_def authorization_result_of_def Let_def elim!: res_bindE res_mapE split: prod.splits)

text \<open>Everything that must hold before a container of the real client is started.\<close>

definition permitted :: "run_request \<Rightarrow> run_world \<Rightarrow> workspace \<Rightarrow> bool" where
  "permitted q wd w \<longleftrightarrow>
     (\<exists>g mode verdicts d a v image_id. rq_gate q = Some g \<and> rq_fail_on q = Some mode
        \<and> map_of gate_fail_modes mode = Some verdicts \<and> gate_verdict_text g \<notin> set verdicts
        \<and> runtime_control q wd = Some d \<and> cd_payload d = JObj a
        \<and> authorized_for a g (normalize_command_argv (rq_argv q)) (execution_facts_of wd w (requested_image q) image_id)
        \<and> image_contract (execution_facts_of wd w (requested_image q) image_id) (dget a ''approved_image'')
        \<and> copy_safety_ok w \<and> dw_snapshot w = Some v \<and> vs_source_kind v = ''git_commit'' \<and> wd_source_root wd = rq_target q
        \<and> gate_subject_equals (gate_subject_of g) (observed_snapshot w)
        \<and> approval_names (sect a ''subject'') (observed_snapshot w)
        \<and> approval_names (sect a ''approved_scope'') (observed_snapshot w))"

lemma real_validation:
  assumes "run_validation q wd w = Inr v" and "require_real_authorization q wd" and "rq_authorization_path q \<noteq> None"
    and "authorization_execution_authorized v True" and "rq_gate q = Some g"
  shows "\<exists>d a image_id. runtime_control q wd = Some d \<and> cd_payload d = JObj a \<and> control_payload (runtime_control q wd) = Some a
    \<and> authorized_for a g (normalize_command_argv (rq_argv q)) (execution_facts_of wd w (requested_image q) image_id)
    \<and> image_contract (execution_facts_of wd w (requested_image q) image_id) (dget a ''approved_image'')"
proof -
  from assms(4) obtain r where v: "v = Some r" and r: "az_execution_authorized r" "image_bound r"
    by (auto simp: authorization_execution_authorized_def split: option.splits)
  from assms(1-3,5) v obtain a image_id where a: "control_payload (runtime_control q wd) = Some a"
    and val: "validate_execution_authorization (JObj a) g (normalize_command_argv (rq_argv q))
        (execution_facts_of wd w (requested_image q) image_id) = Inr r"
    by (auto simp: run_validation_def split: option.splits if_splits elim!: res_bindE res_mapE)
  from a obtain d where d: "runtime_control q wd = Some d" "opt_mapping (cd_payload d) = Some a"
    by (auto simp: control_payload_def split: option.splits)
  then have p: "cd_payload d = JObj a" by (cases "cd_payload d") simp_all
  from authorized_contract [OF val r(1)]
  have auth: "authorized_for a g (normalize_command_argv (rq_argv q)) (execution_facts_of wd w (requested_image q) image_id)"
    by (metis json.inject(6))
  from auth validated_image [OF val r(2)]
  have "image_contract (execution_facts_of wd w (requested_image q) image_id) (dget a ''approved_image'')"
    by (simp add: authorized_for_def)
  with d p a auth show ?thesis by blast
qed

lemma no_reasons_permitted:
  assumes c: "check_run q wd given = Inr c" and none: "cr_policy_reasons c = []" and real: "require_real_authorization q wd"
  shows "permitted q wd given \<and> cr_workspace c = given \<and> rq_authorization_path q \<noteq> None"
proof -
  from checked_facts [OF c] none obtain gate_reason where
    v: "run_validation q wd (prepared_workspace q wd given) = Inr (cr_validation c)"
    and w: "cr_workspace c = prepared_workspace q wd given"
    and gate: "gate_block_reason (rq_gate q) (rq_fail_on q) = Inr gate_reason" "gate_reason = None"
    and nil: "copy_reasons (cr_workspace c) = []" "real_run_reasons q wd (cr_validation c) = []"
      "subject_reasons q wd (run_consistency q wd (cr_workspace c)) = []"
      "binding_reasons (run_snapshot_binding q wd (cr_workspace c) (cr_validation c)) = []"
    by (auto split: option.splits)
  from nil(1) w have "copy_safety_ok (prepared_workspace q wd given)" by (simp add: copy_reasons_Nil)
  with prepared_safe [OF this] w have safe: "copy_safety_ok given" "cr_workspace c = given" "wd_source_root wd = rq_target q"
    by simp_all
  from real_run_reasons_Nil [OF nil(2) real] obtain g mode where g: "rq_gate q = Some g" "rq_fail_on q = Some mode"
    "rq_authorization_path q \<noteq> None" "authorization_execution_authorized (cr_validation c) True" by auto
  from gate g obtain verdicts where verdict: "map_of gate_fail_modes mode = Some verdicts" "gate_verdict_text g \<notin> set verdicts"
    by (auto simp: gate_block_reason_def split: option.splits if_splits)
  from real_validation [OF v [folded w, unfolded safe(2)] real g(3,4,1)] obtain d a image_id where
    a: "runtime_control q wd = Some d" "cd_payload d = JObj a" "control_payload (runtime_control q wd) = Some a"
      "authorized_for a g (normalize_command_argv (rq_argv q)) (execution_facts_of wd given (requested_image q) image_id)"
      "image_contract (execution_facts_of wd given (requested_image q) image_id) (dget a ''approved_image'')"
    by (elim exE conjE)
  from subject_reasons_Nil [OF nil(3) real] safe(2) have "snapshot_source_kind given = Some ''git_commit''"
    by (simp add: consistent_def snapshot_resolved_def run_consistency_def subject_consistency_def Let_def)
  then obtain sn where sn: "dw_snapshot given = Some sn" "vs_source_kind sn = ''git_commit''"
    by (auto simp: snapshot_source_kind_def)
  from binding_reasons_Nil [OF nil(4) g(3)] g real a safe(2) have
    "sb_matched (validate_execution_authorization_snapshot_binding a g (observed_snapshot given))"
    by (simp add: authorized_run_def)
  with snapshot_binding_facts have bound: "gate_subject_equals (gate_subject_of g) (observed_snapshot given)"
    "approval_names (sect a ''subject'') (observed_snapshot given)"
    "approval_names (sect a ''approved_scope'') (observed_snapshot given)" by blast+
  show ?thesis
    unfolding permitted_def using g verdict a sn safe bound by blast
qed

lemma try_run_effects:
  assumes "try_run q wd c = (e, es)" and "RunContainer argv \<in> set es"
  shows "\<exists>taken. started_properly q wd c taken argv \<and> es = taken @ [RunContainer argv]"
proof -
  obtain res st where r: "execute_run q wd c (start_state_of c) = (res, st)" by (cases "execute_run q wd c (start_state_of c)")
  with assms(1) have es: "es = rs_effects st" by (auto simp: try_run_def split: sum.splits stop.splits)
  have "rs_effects (start_state_of c) = []" by (simp add: start_state_of_def)
  with execute_effects [OF r] es assms(2) obtain taken argv' where
    t: "started_properly q wd c taken argv'" "es = taken @ [RunContainer argv']"
    by (auto simp: no_container_def)
  have "RunContainer argv \<notin> set taken"
    using t(1) by (auto simp: started_properly_def reservation_held_def split: option.splits)
  with t assms(2) show ?thesis by auto
qed

lemma container_started:
  assumes "run_sandbox q wd given = (e, es)" and "RunContainer argv \<in> set es"
  shows "\<exists>c taken. check_run q wd given = Inr c \<and> cr_policy_reasons c = [] \<and> cr_infrastructure_reasons c = []
    \<and> rn_available (wd_runner wd) \<and> rn_image_available (wd_runner wd) (requested_image q)
    \<and> started_properly q wd c taken argv \<and> es = taken @ [RunContainer argv]"
proof -
  from assms obtain c where c: "check_run q wd given = Inr c" and run: "run_checked q wd c = (e, es)"
    by (auto simp: run_sandbox_def split: sum.splits)
  from run assms(2) have "cr_policy_reasons c = []" "cr_infrastructure_reasons c = []"
    "rq_dry_run q \<or> rn_available (wd_runner wd) \<and> rn_image_available (wd_runner wd) (requested_image q)"
    "try_run q wd c = (e, es)"
    by (auto simp: run_checked_def split: if_splits)
  with try_run_effects [OF this(4) assms(2)] c show ?thesis by (auto simp: started_properly_def)
qed

section \<open>Properties\<close>

text \<open>C1: the real client is asked to run a command only for an authorized run: the gate decision is there
  and its verdict is below the threshold, a human approved exactly this command, image, decision
  and subject, the prepared snapshot is a verified copy of a commit and is what the decision and the
  approval name; the reservation of the approval was obtained for this run, the approval file
  was still the same afterwards, and the copy was verified again right before the start.\<close>

theorem container_requires_authorization:
  assumes "run_sandbox q wd given = (e, es)" and "RunContainer argv \<in> set es" and "rn_name (wd_runner wd) = ''docker''"
  shows "permitted q wd given \<and>
    (\<exists>path r. rq_authorization_path q = Some path \<and> es = [Reserve r, RunContainer argv]
      \<and> reserve_execution_authorization path (wd_reservation wd) = Some r \<and> rv_reserved r
      \<and> controls_match (runtime_control q wd) (load_authorization_control_document wd (wd_control_after wd))
      \<and> verify_verified_snapshot (dw_budget given) (dw_snapshot given) (wd_last_verify_view wd) = Inr True)"
proof -
  from container_started [OF assms(1,2)] obtain c taken where c: "check_run q wd given = Inr c" "cr_policy_reasons c = []"
    and s: "started_properly q wd c taken argv" "es = taken @ [RunContainer argv]" by (elim exE conjE)
  from s(1) assms(3) have real: "require_real_authorization q wd"
    by (simp add: started_properly_def require_real_authorization_def)
  from no_reasons_permitted [OF c real] s show ?thesis
    by (auto simp: started_properly_def reservation_held_def)
qed

text \<open>C4: whatever runner is used, the container that is started runs the requested command in the requested
  image without a network, without capabilities and without new privileges; its user and group ids
  are numbers above zero; the only directory of the host that it sees is the prepared workspace, mounted
  read-only; what it can write is the memory file system \<open>/out\<close> and, where the profile has a
  read-only root file system, \<open>/tmp\<close>.\<close>

theorem container_is_confined:
  assumes "run_sandbox q wd given = (e, es)" and "RunContainer argv \<in> set es"
  shows "\<exists>os. argv = [''docker'', ''run''] @ concat (map option_tokens os) @ requested_image q # normalize_command_argv (rq_argv q)
    \<and> permitted_vector (requested_image q) (drop 2 argv) os (normalize_command_argv (rq_argv q))
    \<and> option_values ''--mount'' os = [''type=bind,src='' @ rp_workspace (wd_paths wd) @ '',dst=/workspace,readonly'']
    \<and> option_values ''--network'' os = [''none'']
    \<and> option_values ''--cap-drop'' os = [''ALL''] \<and> ''no-new-privileges'' \<in> set (option_values ''--security-opt'' os)
    \<and> (\<exists>u g. 0 < u \<and> 0 < g \<and> option_values ''--user'' os = [nat_text u @ '':'' @ nat_text g])
    \<and> (Flag ''--read-only'' \<in> set os \<longleftrightarrow> rq_profile q \<in> {''locked-down'', ''no-network-readonly'', ''inspect-only''})
    \<and> option_values ''--tmpfs'' os
        = (if Flag ''--read-only'' \<in> set os then [''/tmp:rw,nosuid,nodev,size=64m''] else [])
          @ [''/out:rw,nosuid,nodev,size=64m,nr_inodes=4096'']"
proof -
  from container_started [OF assms] obtain c taken where c: "check_run q wd given = Inr c"
    and s: "started_properly q wd c taken argv" by (elim exE conjE)
  from s obtain path where b: "run_argv q wd c path = Inr argv" by (auto simp: started_properly_def)
  from checked_facts [OF c] have p: "cr_profile c = get_sandbox_profile (wd_uid wd) (wd_gid wd) (rq_profile q)" by auto
  let ?os = "built_options (cr_profile c) path (Some (wd_label wd)) (Some (rp_root (wd_paths wd) @ ''/container.cid''))
    (rp_workspace (wd_paths wd))"
  from built_argv [OF b [unfolded run_argv_def]]
  have "argv = [''docker'', ''run''] @ concat (map option_tokens ?os) @ requested_image q # normalize_command_argv (rq_argv q)"
    "confined (requested_image q) ?os (normalize_command_argv (rq_argv q))" by auto
  moreover from this have "permitted_vector (requested_image q) (drop 2 argv) ?os (normalize_command_argv (rq_argv q))"
    by (simp add: confined_permitted)
  moreover have "\<exists>u g. 0 < u \<and> 0 < g \<and> option_values ''--user'' ?os = [nat_text u @ '':'' @ nat_text g]"
    using profile_filesystem(3) [of "wd_uid wd" "wd_gid wd" "rq_profile q"]
    by (simp add: built_values p unprivileged_user_def)
  moreover have "Flag ''--read-only'' \<in> set ?os \<longleftrightarrow> rq_profile q \<in> {''locked-down'', ''no-network-readonly'', ''inspect-only''}"
    unfolding built_values p by (rule profile_filesystem(1))
  moreover have "option_values ''--tmpfs'' ?os = (if Flag ''--read-only'' \<in> set ?os then [''/tmp:rw,nosuid,nodev,size=64m''] else [])
      @ [''/out:rw,nosuid,nodev,size=64m,nr_inodes=4096'']"
    unfolding built_values(8,9) p by (simp add: profile_filesystem(2) out_tmpfs_spec_def)
  moreover have "option_values ''--mount'' ?os = [''type=bind,src='' @ rp_workspace (wd_paths wd) @ '',dst=/workspace,readonly'']"
    by (simp add: built_values bind_mount_def workdir_def)
  ultimately show ?thesis by (intro exI [of _ ?os]) (simp only: built_values, simp)
qed

section \<open>What the exit code says\<close>

lemma dget_nested:
  "dget (nested d k k2 v) k' = (if k' = k then JObj (dset (sect d k) k2 v) else dget d k')"
  by (simp add: nested_def dget_or_dset)

lemma sect_nested: "sect (nested d k k2 v) k' = (if k' = k then dset (sect d k) k2 v else sect d k')"
  by (simp add: sect_def dget_nested)

lemma sect_dset: "sect (dset d k v) k' = (if k' = k then mapping_or_empty v else sect d k')"
  by (simp add: sect_def dget_or_dset)

lemma dget_push: "dget (push ms d) k = (if k = ''limitations'' then jstrs (string_items (dget d ''limitations'') @ ms) else dget d k)"
  by (simp add: push_def dget_or_dset)

lemma sect_push: "k \<noteq> ''limitations'' \<Longrightarrow> sect (push ms d) k = sect d k"
  by (simp add: sect_def dget_push)

lemmas report_simps = dget_or_dset dget_nested sect_nested sect_dset dget_push sect_push

text \<open>The condition under which the last step turns any result into an uncertain one.\<close>

definition cleanup_doubt :: "ending \<Rightarrow> workspace \<Rightarrow> dict \<Rightarrow> bool" where
  "cleanup_doubt e w report \<longleftrightarrow>
     (is_true (dget (sect report ''docker'') ''container_tracking_enabled'')
        \<and> dget (sect report ''docker'') ''cleanup_status'' \<noteq> JStr ''ok''
        \<and> dget (sect report ''result'') ''status'' \<noteq> JStr ''blocked'')
     \<or> dw_cleanup (ended_workspace e w) = ''failed''"

lemma final_exit_code:
  "dget (unredacted_report e w report) ''sandbox_exit_code''
    = (if cleanup_doubt e w report then JInt infrastructure_exit_code else dget report ''sandbox_exit_code'')"
  by (simp add: unredacted_report_def close_run_def Let_def workspace_cleanup_check_def container_cleanup_check_def
      uncertain_def cleanup_doubt_def report_simps) blast

lemma map_of_map_values: "map_of (map (\<lambda>(k, x). (k, f x)) d) k = map_option f (map_of d k)"
  by (induction d) auto

lemma redact_JObj: "redact_report (JObj d) = JObj (map (\<lambda>(k, x). (k, redact_report x)) d)"
  by (subst redact_report.simps) simp

lemma redact_JInt: "redact_report v = JInt n \<longleftrightarrow> v = JInt n"
  by (cases v) (auto simp: redact_report.simps)

lemma dget_redacted: "dget (map (\<lambda>(k, x). (k, redact_report x)) d) k = redact_report (dget d k)"
  by (simp add: dget_or_def map_of_map_values redact_report.simps [of JNull] split: option.split)

lemma final_report_code:
  assumes "finalize_report e w report = JObj d" and "dget d ''sandbox_exit_code'' = JInt n" and "n \<noteq> 1"
  shows "\<not> cleanup_doubt e w report \<and> dget report ''sandbox_exit_code'' = JInt n"
proof -
  from assms(1) have "d = map (\<lambda>(k, x). (k, redact_report x)) (unredacted_report e w report)"
    by (simp add: finalize_report_def redact_JObj)
  with assms(2) have "dget (unredacted_report e w report) ''sandbox_exit_code'' = JInt n"
    by (simp add: dget_redacted redact_JInt)
  with assms(3) show ?thesis by (auto simp: final_exit_code infrastructure_exit_code_def split: if_splits)
qed

lemma blocked_code:
  assumes "policy_blocked_report e w report has_approval reasons validation actions = Inr (JObj d)"
  shows "dget d ''sandbox_exit_code'' \<noteq> JInt 0"
proof
  assume z: "dget d ''sandbox_exit_code'' = JInt 0"
  from assms obtain r where r: "policy_blocked report has_approval reasons validation actions = Inr r"
    and f: "finalize_report e w r = JObj d"
    by (auto simp: policy_blocked_report_def elim!: res_mapE)
  from r have "dget r ''sandbox_exit_code'' = JInt policy_block_exit_code"
    by (auto simp: policy_blocked_def Let_def report_simps elim!: res_mapE)
  with final_report_code [OF f z] show False by (simp add: policy_block_exit_code_def)
qed

lemma broken_code:
  assumes "infrastructure_error_report e w report has_approval reasons validation actions paths = Inr (JObj d)"
  shows "dget d ''sandbox_exit_code'' \<noteq> JInt 0"
proof
  assume z: "dget d ''sandbox_exit_code'' = JInt 0"
  from assms obtain r where r: "infrastructure_error report has_approval reasons validation actions paths = Inr r"
    and f: "finalize_report e w r = JObj d"
    by (auto simp: infrastructure_error_report_def elim!: res_mapE)
  from r have "dget r ''sandbox_exit_code'' = JInt infrastructure_exit_code"
    by (auto simp: infrastructure_error_def Let_def report_simps elim!: res_mapE)
  with final_report_code [OF f z] show False by (simp add: infrastructure_exit_code_def)
qed

lemma failed_code:
  assumes "failed_report q wd c e st = Inr (JObj d)"
  shows "dget d ''sandbox_exit_code'' \<noteq> JInt 0"
proof
  assume z: "dget d ''sandbox_exit_code'' = JInt 0"
  from assms obtain approval where f: "finalize_report (ending_of q wd) (cr_workspace c) (failed_run q wd e approval st) = JObj d"
    by (auto simp: failed_report_def elim!: res_mapE)
  from final_report_code [OF f z] show False by (simp add: failed_run_def Let_def report_simps infrastructure_exit_code_def)
qed

lemma prepared_docker:
  assumes "prepare_run q wd c st = (Inr argv, st')"
  shows "docker_of st' = docker_section q wd c argv"
  using assms unfolding prepare_run_def
  by (auto simp: step_return_def edit_report_def step_update_def docker_of_def sect_dset elim!: step_bind_cases)

lemma keeps_docker: "keeps docker_of (take_reservation q wd c)"
proof -
  have "keeps docker_of (reserve_step_of wd path)" for path
    by (auto simp: keeps_def reserve_step_of_def docker_of_def sect_nested split: option.split)
  then show ?thesis
    unfolding take_reservation_def by (auto split: option.split intro!: keeps_basic keeps_bind recheck_keeps)
qed

text \<open>When the container phase ends with a report, this is the report.\<close>

lemma start_run_report:
  assumes "start_run q wd c argv st = (Inr j, st')"
  shows "\<exists>r intact before after approval report. rn_run (wd_runner wd) argv (nat (rq_timeout q)) = Some (Returned r)
    \<and> verify_verified_snapshot (dw_budget (cr_workspace c)) (dw_snapshot (cr_workspace c)) (wd_after_verify_view wd) = Inr intact
    \<and> sect report ''docker'' = docker_of st
    \<and> j = finalize_report (ending_of q wd) (cr_workspace c) (completed_report q wd r intact before after approval report)"
proof -
  from assms [unfolded start_run_def] obtain st1 st2 st3 r where
    1: "take_reservation q wd c st = (Inr (), st1)" and
    2: "verify_snapshot_step q wd c (wd_last_verify_view wd) st1 = (Inr (), st2)" and
    3: "run_container wd argv (rq_timeout q) st2 = (Inr r, st3)" and
    4: "finish_run q wd c r st3 = (Inr j, st')"
    by (elim step_bind_cases) auto
  have "docker_of st3 = docker_of st2"
    using 3 by (auto simp: run_container_def Let_def docker_of_def split: option.splits run_outcome.splits)
  with keepsD [OF keeps_docker 1] keepsD [where f = docker_of, OF verify_keeps 2]
  have d: "docker_of st3 = docker_of st" by simp
  from 4 [unfolded finish_run_def] obtain intact after st6 where
    v: "lift_refusal (verify_verified_snapshot (dw_budget (cr_workspace c)) (dw_snapshot (cr_workspace c)) (wd_after_verify_view wd)) = Inr intact"
    and st6: "st6 = st3\<lparr>rs_after := Some after\<rparr>"
    and j: "step_result (\<lambda>st. res_map (\<lambda>approval. finalize_report (ending_of q wd) (cr_workspace c)
      (completed_report q wd r intact (rs_before st) (rs_after st) approval (rs_report st)))
      (approval_report (rq_approval q \<noteq> None) (approval_object c) [])) st6 = (Inr j, st')"
    by (auto simp: step_update_def dest!: step_of_Inr elim!: step_bind_cases)
  from j obtain approval where "j = finalize_report (ending_of q wd) (cr_workspace c)
      (completed_report q wd r intact (rs_before st6) (rs_after st6) approval (rs_report st6))"
    by (auto simp: step_result_def split: sum.splits elim!: res_mapE)
  moreover have "sect (rs_report st6) ''docker'' = docker_of st" using d by (simp add: st6 docker_of_def)
  moreover have "verify_verified_snapshot (dw_budget (cr_workspace c)) (dw_snapshot (cr_workspace c)) (wd_after_verify_view wd) = Inr intact"
    using v by (auto simp: lift_refusal_def split: sum.splits refusal.splits)
  ultimately show ?thesis using run_container_effects [OF 3] by blast
qed

text \<open>The report of a container that ran, before the last step.\<close>

lemma completed_code:
  "dget (completed_report q wd r intact before after approval report) ''sandbox_exit_code''
    = JInt (if intact then sandbox_exit_code r (rn_docker_invoked (wd_runner wd)) else infrastructure_exit_code)"
  by (simp add: completed_report_def Let_def report_simps integrity_lost_def)

lemma completed_docker:
  "sect (completed_report q wd r intact before after approval report) ''docker''
    = docker_report_with_result (sect report ''docker'') r
        (build_output_summary r (rq_target q) (wd_paths wd) (rq_preview_chars q)) (rn_docker_invoked (wd_runner wd))"
  by (simp add: completed_report_def Let_def report_simps integrity_lost_def)

lemma completed_status:
  "dget (sect (completed_report q wd r intact before after approval report) ''result'') ''status''
    = JStr (if intact then final_status r else ''failed'')"
  by (simp add: completed_report_def Let_def report_simps integrity_lost_def result_section_def dget_Cons)

lemma result_docker:
  "dget (docker_report_with_result docker r summary b) ''container_tracking_enabled'' = dget docker ''container_tracking_enabled''"
  "dget (docker_report_with_result docker r summary b) ''cleanup_status'' = JStr (rr_cleanup_status r)"
  by (simp_all add: docker_report_with_result_def report_simps)

lemma zero_code:
  assumes "sandbox_exit_code r b = 0"
  shows "\<not> rr_budget_exceeded r \<and> rr_exit_code r = Some 0"
  using assms by (auto simp: sandbox_exit_code_def policy_block_exit_code_def infrastructure_exit_code_def
      split: if_splits option.splits)

lemma final_status_not_blocked: "well_reported r \<Longrightarrow> final_status r \<noteq> ''blocked''"
  by (auto simp: final_status_def well_reported_def)

lemma execute_report:
  assumes "execute_run q wd c st = (Inr j, st')" and "\<not> rq_dry_run q"
  shows "\<exists>argv st1. prepare_run q wd c st = (Inr argv, st1) \<and> start_run q wd c argv st1 = (Inr j, st')"
  using assms by (auto simp: execute_run_def elim!: step_bind_cases)

text \<open>A report whose exit code is zero comes from the end of a run whose container was started.\<close>

lemma early_end_code:
  assumes "execute_run q wd c st = (Inl (Ended (JObj d)), st')"
  shows "dget d ''sandbox_exit_code'' \<noteq> JInt 0"
proof -
  have v: "dget d ''sandbox_exit_code'' \<noteq> JInt 0" if "verify_snapshot_step q wd c view s = (Inl (Ended (JObj d)), s')" for view s s'
    using that by (auto simp: verify_snapshot_step_def step_of_def step_return_def step_end_def block_run_def
        dest: blocked_code elim!: step_bind_cases split: if_splits sum.splits)
  have k: "dget d ''sandbox_exit_code'' \<noteq> JInt 0" if "recheck_control q wd c a advice s = (Inl (Ended (JObj d)), s')" for a advice s s'
    using that by (auto simp: recheck_control_def step_return_def step_end_def block_run_def
        dest: blocked_code split: if_splits sum.splits)
  have t: "dget d ''sandbox_exit_code'' \<noteq> JInt 0" if "take_reservation q wd c s = (Inl (Ended (JObj d)), s')" for s s'
    using that by (auto simp: take_reservation_def step_return_def step_end_def block_run_def reserve_step_of_def
        dest: blocked_code k elim!: step_bind_cases split: option.splits if_splits sum.splits)
  have f: "finish_run q wd c r s \<noteq> (Inl (Ended (JObj d)), s')" for r s s'
    by (auto simp: finish_run_def step_result_def step_of_def step_update_def elim!: step_bind_cases split: sum.splits)
  have p: "dget d ''sandbox_exit_code'' \<noteq> JInt 0" if "prepare_run q wd c s = (Inl (Ended (JObj d)), s')" for s s'
    using that by (auto simp: prepare_run_def step_of_def edit_report_def step_update_def step_return_def materialize_step_def Let_def
        dest: v elim!: step_bind_cases split: if_splits sum.splits)
  from assms show ?thesis
    by (auto simp: execute_run_def start_run_def run_container_def step_result_def Let_def f
        dest: p t v elim!: step_bind_cases split: if_splits sum.splits option.splits run_outcome.splits)
qed

lemma checked_workspace:
  assumes "check_run q wd given = Inr c" and "cr_policy_reasons c = []"
  shows "cr_workspace c = given \<and> copy_safety_ok given"
  using checked_facts [OF assms(1)] assms(2) prepared_safe [of q wd given] by (auto simp: copy_reasons_Nil)

lemma zero_exit_run:
  assumes run: "run_sandbox q wd given = (Report (JObj d), es)" and zero: "dget d ''sandbox_exit_code'' = JInt 0"
    and live: "\<not> rq_dry_run q"
  shows "\<exists>c argv st1 st'. check_run q wd given = Inr c \<and> cr_workspace c = given \<and> copy_safety_ok given
    \<and> prepare_run q wd c (start_state_of c) = (Inr argv, st1) \<and> start_run q wd c argv st1 = (Inr (JObj d), st') \<and> es = rs_effects st'"
proof -
  from run obtain c where c: "check_run q wd given = Inr c" and r: "run_checked q wd c = (Report (JObj d), es)"
    by (auto simp: run_sandbox_def split: sum.splits)
  from r have none: "cr_policy_reasons c = []"
    using blocked_code zero by (fastforce simp: run_checked_def of_report_def block_run_def split: if_splits sum.splits)
  from r have t: "try_run q wd c = (Report (JObj d), es)"
    using blocked_code broken_code zero
    by (fastforce simp: run_checked_def of_report_def block_run_def break_run_def split: if_splits sum.splits)
  obtain res st' where e: "execute_run q wd c (start_state_of c) = (res, st')" by (cases "execute_run q wd c (start_state_of c)")
  from t e have "res = Inr (JObj d)" "es = rs_effects st'"
    using early_end_code zero failed_code
    by (fastforce simp: try_run_def of_report_def split: sum.splits stop.splits)+
  with execute_report [of q wd c "start_state_of c" "JObj d" st'] e live checked_workspace [OF c none] c show ?thesis by blast
qed

text \<open>C5: exit code zero is never a mistake: the real client ran the container, the command ended with
  code zero within its time and output limits, the snapshot was still intact afterwards, and the
  cleanup of the container succeeded: unless the command has \<open>--label\<close> among its own arguments, the client
  listed no container with the label of the run any more.  The workspace was deleted, unless
  the caller asked to preserve it.\<close>

theorem zero_exit_is_clean:
  assumes "run_sandbox q wd given = (Report (JObj d), es)" and "dget d ''sandbox_exit_code'' = JInt 0" and "\<not> rq_dry_run q"
    and client: "wd_runner wd = docker_runner parse decode client"
  shows "\<exists>argv r. RunContainer argv \<in> set es \<and> docker_run decode argv (dc_run client argv (nat (rq_timeout q))) = Some (Returned r)
    \<and> rr_exit_code r = Some 0 \<and> \<not> rr_timed_out r \<and> \<not> rr_budget_exceeded r \<and> rr_cleanup_status r = ''ok''
    \<and> verify_verified_snapshot (dw_budget given) (dw_snapshot given) (wd_after_verify_view wd) = Inr True
    \<and> (''--label'' \<notin> set (normalize_command_argv (rq_argv q)) \<longrightarrow>
        (\<exists>j out. ca_query (ra_cleanup (dc_run client argv (nat (rq_timeout q)))) j
            [''docker'', ''ps'', ''-aq'', ''--filter'', ''label=com.repo-health-doctor.run-id='' @ wd_label wd] = client_answer.Exited 0 out
          \<and> (\<forall>c\<in>set out. is_space c)))
    \<and> dw_cleanup (ended_workspace (ending_of q wd) given) = (if rq_preserve q then ''preserved'' else ''ok'')
    \<and> (rq_preserve q \<or> wd_cleanup_ok wd \<or> dw_cleanup given = ''ok'')"
proof -
  from zero_exit_run [OF assms(1-3)] obtain c argv st1 st' where c: "cr_workspace c = given" and checked: "check_run q wd given = Inr c"
    and p: "prepare_run q wd c (start_state_of c) = (Inr argv, st1)" and s: "start_run q wd c argv st1 = (Inr (JObj d), st')"
    and es: "es = rs_effects st'" by (elim exE conjE)
  from start_run_report [OF s] obtain r intact before after approval report where
    r: "rn_run (wd_runner wd) argv (nat (rq_timeout q)) = Some (Returned r)"
    and v: "verify_verified_snapshot (dw_budget given) (dw_snapshot given) (wd_after_verify_view wd) = Inr intact"
    and d: "sect report ''docker'' = docker_section q wd c argv"
    and j: "finalize_report (ending_of q wd) given (completed_report q wd r intact before after approval report) = JObj d"
    unfolding c prepared_docker [OF p] by metis
  have run: "docker_run decode argv (dc_run client argv (nat (rq_timeout q))) = Some (Returned r)"
    using r by (simp add: client docker_runner_def)
  from docker.reports [of parse decode client argv "nat (rq_timeout q)" r] r have w: "well_reported r" by (simp add: client)
  from final_report_code [OF j assms(2)] have doubt: "\<not> cleanup_doubt (ending_of q wd) given
      (completed_report q wd r intact before after approval report)"
    and code: "(if intact then sandbox_exit_code r (rn_docker_invoked (wd_runner wd)) else infrastructure_exit_code) = 0"
    by (simp_all add: completed_code)
  from code have intact: "intact" "\<not> rr_budget_exceeded r" "rr_exit_code r = Some 0"
    using zero_code by (auto simp: infrastructure_exit_code_def split: if_splits)
  have "dget (docker_section q wd c argv) ''container_tracking_enabled'' = JBool True"
    using assms(3) by (simp add: docker_section_def Let_def report_simps client docker_runner_def)
  with doubt have cleaned: "rr_cleanup_status r = ''ok''" "dw_cleanup (ended_workspace (ending_of q wd) given) \<noteq> ''failed''"
    using final_status_not_blocked [OF w] intact(1)
    by (simp_all add: cleanup_doubt_def completed_docker completed_status result_docker d is_true_def)
  moreover have "(\<exists>j out. ca_query (ra_cleanup (dc_run client argv (nat (rq_timeout q)))) j
            [''docker'', ''ps'', ''-aq'', ''--filter'', ''label=com.repo-health-doctor.run-id='' @ wd_label wd] = client_answer.Exited 0 out
          \<and> (\<forall>c\<in>set out. is_space c))" if l: "''--label'' \<notin> set (normalize_command_argv (rq_argv q))"
  proof -
    from prepare_Inr [OF p] obtain path where b: "run_argv q wd c path = Inr argv" by auto
    from checked_facts [OF checked] have prof: "cr_profile c = get_sandbox_profile (wd_uid wd) (wd_gid wd) (rq_profile q)" by auto
    from returned_cleanup [OF run] cleaned(1) obtain attempted failure where
      "cleanup_tracked_container (tracking_from_argv argv) (ra_cleanup (dc_run client argv (nat (rq_timeout q)))) = (attempted, ''ok'', failure)"
      by auto
    from built_run_gone [OF b [unfolded run_argv_def prof] l this] show ?thesis by blast
  qed
  moreover have "dw_cleanup (ended_workspace (ending_of q wd) given) = (if rq_preserve q then ''preserved'' else ''ok'')"
    "rq_preserve q \<or> wd_cleanup_ok wd \<or> dw_cleanup given = ''ok''"
    using cleaned(2) by (auto simp: ended_workspace_def cleanup_workspace_def ending_of_def split: if_splits)
  moreover have "\<not> rr_timed_out r" using w intact(3) by (auto simp: well_reported_def)
  moreover have "RunContainer argv \<in> set es"
    using start_run_effects [OF s] es by auto
  ultimately show ?thesis using run intact v by (intro exI [of _ argv] exI [of _ r]) simp
qed

section \<open>A control file that changes\<close>

lemma changed_control_fails:
  assumes "rq_authorization_path q = Some path" and "cr_validation c = Some v"
    and "\<not> controls_match (runtime_control q wd) (load_authorization_control_document wd (wd_control_before wd))"
  shows "take_reservation q wd c st = (Inl (Failed AttributeError), st)"
  using assms by (simp add: take_reservation_def step_bind_def recheck_control_def step_end_def block_run_def
      policy_blocked_report_def policy_blocked_def Let_def authorization_object_def approval_report_def)

lemma failed_report_fields:
  "\<exists>d. failed_report q wd c e st = Inr (JObj d) \<and> dget d ''policy_blocked'' = JBool False
     \<and> dget d ''sandbox_exit_code'' = JInt 1 \<and> dget d ''command_started'' = JBool False"
proof -
  have "approval_report b (approval_object c) rs \<noteq> Inl x" for b rs x
    by (simp add: approval_report_def approval_object_def split: option.split)
  then obtain ap where ap: "approval_report (rq_approval q \<noteq> None) (approval_object c) [''sandbox_run_failed_closed''] = Inr ap"
    by (cases "approval_report (rq_approval q \<noteq> None) (approval_object c) [''sandbox_run_failed_closed'']") auto
  let ?r = "failed_run q wd e ap st"
  have r: "dget ?r ''policy_blocked'' = JBool False" "dget ?r ''sandbox_exit_code'' = JInt 1" "dget ?r ''command_started'' = JBool False"
    by (simp_all add: failed_run_def Let_def report_simps infrastructure_exit_code_def)
  let ?u = "unredacted_report (ending_of q wd) (cr_workspace c) ?r"
  have kept: "dget ?u ''policy_blocked'' = dget ?r ''policy_blocked''" "dget ?u ''command_started'' = dget ?r ''command_started''"
    by (simp_all add: unredacted_report_def close_run_def Let_def workspace_cleanup_check_def container_cleanup_check_def
        uncertain_def report_simps)
  have "failed_report q wd c e st = Inr (JObj (map (\<lambda>(k, x). (k, redact_report x)) ?u))"
    by (simp add: failed_report_def ap finalize_report_def redact_JObj del: not_None_eq)
  then show ?thesis
    using r by (simp add: dget_redacted kept final_exit_code infrastructure_exit_code_def redact_report.simps [of "JBool b" for b]
        redact_report.simps [of "JInt n" for n])
qed

text \<open>C25: when the authorization control file changes between the validation and the reservation, the run is
  stopped before anything is reserved or started, but the refusal fails: the report is that of an
  infrastructure error with exit code 1, and it says that no policy blocked the run.\<close>

theorem changed_control_file_misreported:
  assumes "check_run q wd given = Inr c" and "cr_policy_reasons c = []" and "cr_infrastructure_reasons c = []"
    and "\<not> rq_dry_run q" and "rn_available (wd_runner wd)" and "rn_image_available (wd_runner wd) (requested_image q)"
    and "prepare_run q wd c (start_state_of c) = (Inr argv, st)"
    and "rq_authorization_path q = Some path" and "cr_validation c = Some v"
    and "\<not> controls_match (runtime_control q wd) (load_authorization_control_document wd (wd_control_before wd))"
  shows "\<exists>d. run_sandbox q wd given = (Report (JObj d), []) \<and> dget d ''policy_blocked'' = JBool False
     \<and> dget d ''sandbox_exit_code'' = JInt 1 \<and> dget d ''command_started'' = JBool False"
proof -
  have "execute_run q wd c (start_state_of c) = (Inl (Failed AttributeError), st)"
    using assms(4) by (simp add: execute_run_def start_run_def step_bind_def assms(7) changed_control_fails [OF assms(8-10)])
  moreover have "rs_effects st = []"
    using keepsD [where f = rs_effects, OF prepare_keeps assms(7)] by (simp add: start_state_of_def)
  moreover obtain d where "failed_report q wd c AttributeError st = Inr (JObj d)" "dget d ''policy_blocked'' = JBool False"
    "dget d ''sandbox_exit_code'' = JInt 1" "dget d ''command_started'' = JBool False"
    using failed_report_fields by blast
  ultimately show ?thesis
    by (simp add: run_sandbox_def assms(1) run_checked_def assms(2-6) try_run_def of_report_def)
qed

end
