(* ===== verification/Sandbox_Run_Sample.thy ===== *)
theory Sandbox_Run_Sample
  imports Sandbox_Run_Properties
begin

text \<open>
  One complete run: a commit with no files, a gate decision about it, an approval of
  \<open>pytest\<close> in a pinned image, and a client that starts the container and removes it.  The
  properties of a run are applied to it.
\<close>

section \<open>The snapshot\<close>

definition empty_identity :: "string \<times> string" where
  "empty_identity =
     (case manifest_identity default_copy_budget [] of Inr (ss, i, f) \<Rightarrow> (i, f) | Inl r \<Rightarrow> ([], []))"

lemma empty_sorted: "sort_manifest default_copy_budget [] = Inr []"
  by code_simp

lemma empty_manifest: "manifest_identity default_copy_budget [] = Inr ([], fst empty_identity, snd empty_identity)"
  by (simp add: empty_identity_def manifest_identity_def empty_sorted)

lemma identity_digests: "rx_fullmatch sha256_rx (fst empty_identity)" "rx_fullmatch sha256_rx (snd empty_identity)"
  by (simp_all add: empty_identity_def manifest_identity_def empty_sorted sha256_label_rx)

definition empty_view :: tree_view where
  "empty_view = sample_view\<lparr>tv_entries := []\<rparr>"

lemma empty_walk: "inventory_of_view default_copy_budget empty_view = Inr []"
  by code_simp

definition run_snapshot :: verified_snapshot where
  "run_snapshot =
     \<lparr>vs_schema_version = ''1.0'', vs_snapshot_id = fst empty_identity, vs_source_identity = sample_fingerprint,
      vs_source_kind = ''git_commit'', vs_source_commit = Some (replicate 40 (CHR ''c'')),
      vs_source_tree = Some (replicate 40 (CHR ''d'')), vs_manifest_fingerprint = snd empty_identity, vs_file_count = 0,
      vs_total_bytes = 0, vs_copied_at = ''2026-01-01T00:00:00Z'', vs_copy_policy_version = ''1.0'', vs_budget_policy = [],
      vs_integrity_status = ''verified'', vs_limitations = [], vs_refusal_reasons = [], vs_manifest = [],
      vs_tracked_paths = []\<rparr>"

definition run_workspace :: workspace where
  "run_workspace = (new_workspace default_copy_budget)\<lparr>dw_snapshot := Some run_snapshot\<rparr>"

lemma run_workspace_fields:
  "dw_snapshot run_workspace = Some run_snapshot" "dw_budget run_workspace = default_copy_budget"
  "dw_refusal_reasons run_workspace = []" "dw_cleanup run_workspace = ''not_started''" "copy_safety_ok run_workspace"
  by (simp_all add: run_workspace_def new_workspace_def copy_safety_ok_def run_snapshot_def empty_copy_state_def)

lemma run_snapshot_verifies: "verify_verified_snapshot default_copy_budget (Some run_snapshot) empty_view = Inr True"
  by (simp add: verify_Inr_True run_snapshot_def empty_walk empty_manifest)

lemma empty_inventory: "\<exists>i. snapshot_workspace empty_view = Inr i"
  by (simp add: snapshot_workspace_def empty_walk empty_manifest split: prod.split)

lemma run_observed:
  "observed_snapshot run_workspace =
     \<lparr>os_repo = Some sample_fingerprint, os_commit = Some (replicate 40 (CHR ''c'')), os_tree = Some (replicate 40 (CHR ''d'')),
      os_snapshot_id = Some (fst empty_identity), os_manifest = Some (snd empty_identity)\<rparr>"
  by (simp add: observed_snapshot_def run_workspace_fields run_snapshot_def)

section \<open>The decision and its approval\<close>

definition run_gate :: dict where
  "run_gate = [(''verdict'', JStr ''warn''), (''policy'', JObj [(''policy_version'', JStr ''0.1'')]),
     (''subject'', JObj [(''repo'', JStr sample_fingerprint), (''commit'', JStr (replicate 40 (CHR ''c''))),
        (''tree_hash'', JStr (replicate 40 (CHR ''d''))), (''binding_kind'', JStr ''snapshot_bound''),
        (''snapshot_id'', JStr (fst empty_identity)), (''manifest_fingerprint'', JStr (snd empty_identity))])]"

definition run_image :: string where
  "run_image = ''python@sha256:'' @ replicate 64 (CHR ''a'')"

definition run_image_id :: string where
  "run_image_id = ''sha256:'' @ replicate 64 (CHR ''b'')"

definition run_approved_image :: dict where
  "run_approved_image = [(''requested_reference'', JStr run_image), (''resolved_image_id'', JStr run_image_id)]"

definition run_artifact :: dict where
  "run_artifact = approve_draft
     (build_execution_authorization_draft run_gate [''pytest''] (Some ''2200-01-01T00:00:00Z'') (Some run_approved_image))
     ''alice'' ''2026-01-01T00:00:00Z''"

definition run_facts :: execution_facts where
  "run_facts = \<lparr>xf_now = xf_now sample_facts, xf_image_reference = Some run_image, xf_image_id = Some run_image_id,
     xf_repository_identity = Some sample_fingerprint, xf_commit = Some (replicate 40 (CHR ''c'')),
     xf_tree = Some (replicate 40 (CHR ''d'')), xf_snapshot_id = Some (fst empty_identity),
     xf_manifest_fingerprint = Some (snd empty_identity)\<rparr>"

lemma run_subject:
  "gate_subject_of run_gate =
      [(''repo'', JStr sample_fingerprint), (''commit'', JStr (replicate 40 (CHR ''c''))),
       (''tree_hash'', JStr (replicate 40 (CHR ''d''))), (''snapshot_id'', JStr (fst empty_identity)),
       (''manifest_fingerprint'', JStr (snd empty_identity)), (''binding_kind'', JStr ''snapshot_bound'')]"
  by (simp add: gate_subject_of_def Let_def run_gate_def sect_def dget_Cons str_or_null_def)

lemma run_reference:
  "gate_reference run_gate = [(''decision_kind'', JNull), (''schema_version'', JNull), (''verdict'', JStr ''warn''),
     (''fingerprint'', JStr (gate_decision_fingerprint run_gate))]"
  by (simp add: gate_reference_def run_gate_def dget_Cons)

lemma run_policy: "gate_policy_version run_gate = JStr ''0.1''"
  by (simp add: gate_policy_version_def run_gate_def sect_def dget_Cons str_or_null_def)

lemma run_image_pinned: "is_digest_pinned_authorization_reference (JStr run_image)"
  "is_safe_docker_image_token (JStr run_image)" "is_full_local_image_id (JStr run_image_id)"
  by code_simp+

definition run_texts :: "string list" where
  "run_texts =
     [authorization_kind, authorization_schema_version, ''alice'', ''2026-01-01T00:00:00Z'', ''2200-01-01T00:00:00Z'',
      replicate 40 (CHR ''c''), replicate 40 (CHR ''d''), ''snapshot_bound'', ''pytest'', ''0.1'', ''warn'', run_image,
      ''human approval required before execution'', ''authorization is only valid for the exact reviewed command and scope'']
     @ draft_limitations (Some ''2200-01-01T00:00:00Z'') (Some [])"

definition run_digests :: "string list" where
  "run_digests = [sample_fingerprint, fst empty_identity, snd empty_identity, run_image_id, gate_decision_fingerprint run_gate]"

lemma run_strings: "set (json_strings (JObj run_artifact)) \<subseteq> set run_texts \<union> set run_digests"
  by (simp add: run_artifact_def approve_draft_def build_execution_authorization_draft_def Let_def run_approved_image_def
      run_subject run_reference run_policy dget_Cons str_json_def authorization_subject_fields_def run_texts_def run_digests_def
      draft_limitations_def)

lemma run_texts_clean: "list_all (\<lambda>s. \<not> forbidden_text s \<and> \<not> raw_host_path s) run_texts"
  by code_simp

lemma run_digests_clean: "list_all (rx_fullmatch sha256_rx) run_digests"
proof -
  have "rx_fullmatch sha256_rx sample_fingerprint" "rx_fullmatch sha256_rx run_image_id" by code_simp+
  then show ?thesis by (simp add: run_digests_def identity_digests gate_decision_fingerprint_def)
qed

lemma run_artifact_clean:
  "\<not> contains_forbidden_pattern (JObj run_artifact)" "\<not> contains_raw_host_path (JObj run_artifact)"
proof -
  have "\<not> forbidden_text s \<and> \<not> raw_host_path s" if "s \<in> set (json_strings (JObj run_artifact))" for s
    using that run_strings run_texts_clean run_digests_clean digest_clean digest_no_host_path
    unfolding list_all_iff by blast
  then show "\<not> contains_forbidden_pattern (JObj run_artifact)" "\<not> contains_raw_host_path (JObj run_artifact)"
    unfolding contains_forbidden_pattern_def contains_raw_host_path_def any_string_iff by blast+
qed

lemma run_facts_agree: "facts_agree run_facts (gate_subject_of run_gate)" "image_agrees run_facts (Some run_approved_image)"
  using run_image_pinned
  by (simp_all add: facts_agree_def run_facts_def run_subject dget_Cons image_agrees_def image_contract_def run_approved_image_def
      keys_eq_def keys_def approved_image_fields_def)

lemma run_ready:
  "draft_ready run_gate [''pytest''] ''2200-01-01T00:00:00Z'' (Some run_approved_image) ''alice'' ''2026-01-01T00:00:00Z'' run_facts"
proof -
  have verdict: "dget run_gate ''verdict'' = JStr ''warn''" by (simp add: run_gate_def dget_Cons)
  have fp: "is_fingerprint (JStr (fst empty_identity))" "is_fingerprint (JStr (snd empty_identity))"
    using identity_digests by (simp_all add: is_fingerprint_iff)
  have wf: "json_wf (JObj run_gate)" by (simp add: run_gate_def)
  have time: "fromisoformat (zulu ''2026-01-01T00:00:00Z'') \<noteq> None" "fresh_until (JStr ''2200-01-01T00:00:00Z'') (xf_now run_facts)"
    using sample_ready by (simp_all add: draft_ready_def run_facts_def)
  show ?thesis
    unfolding draft_ready_def using wf time fp run_facts_agree by (simp add: run_subject verdict dget_Cons)
qed

lemmas run_authorized = approved_draft_valid [OF run_ready, folded run_artifact_def, OF run_artifact_clean]

text \<open>The validation finds the image bound.\<close>

lemma validation_image_bound:
  assumes "validate_execution_authorization (JObj a) g argv facts = Inr r"
    and "image_part a facts = Inr (errors, True, True)" and "has_key a ''approved_image''"
  shows "image_bound r"
  using assms unfolding validate_execution_authorization_def
  by (auto simp: image_bound_def authorization_result_of_def Let_def elim!: res_bindE res_mapE split: prod.splits)

lemma run_validated:
  "\<exists>r. validate_execution_authorization (JObj run_artifact) run_gate [''pytest''] run_facts = Inr r
     \<and> authorization_execution_authorized (Some r) True"
proof -
  from run_authorized obtain r
    where r: "validate_execution_authorization (JObj run_artifact) run_gate [''pytest''] run_facts = Inr r"
      "az_execution_authorized r" by blast
  note f = approved_draft_fields [of run_gate "[''pytest'']" "''2200-01-01T00:00:00Z''" "Some run_approved_image" "''alice''"
      "''2026-01-01T00:00:00Z''", folded run_artifact_def]
  have "image_part run_artifact run_facts = Inr ([], True, True)"
    using run_facts_agree(2) image_contract_binding [of run_approved_image run_facts]
    by (simp add: image_part_def f in_strs_def image_agrees_def)
  with validation_image_bound [OF r(1)] f(15) have "image_bound r" by simp
  with r show ?thesis by (intro exI [of _ r]) (simp add: authorization_execution_authorized_def)
qed

section \<open>The request and the environment\<close>

definition run_client :: docker_client where
  "run_client =
     \<lparr>dc_version = client_answer.Exited 0 [], dc_image_inspect = (\<lambda>_. client_answer.Exited 0 []), dc_image_id = (\<lambda>_. client_answer.Exited 0 run_image_id),
      dc_info = NotRun,
      dc_run = (\<lambda>_ _. \<lparr>ra_client = Streamed [Ready [(Out, ''ok''), (Out, []), (Err, [])]] 0, ra_cleanup = sample_cleanup,
                        ra_duration = 5\<rparr>)\<rparr>"

definition no_package :: package_data where
  "no_package = \<lparr>pk_read = (\<lambda>_. Inl OSError), pk_loads = (\<lambda>_. Inl ValueError), pk_decode = (\<lambda>_. Inl ValueError)\<rparr>"

definition run_root :: run_paths where
  "run_root = \<lparr>rp_workspace = ''/tmp/w/workspace'', rp_out = ''/tmp/w/out'', rp_root = ''/tmp/w''\<rparr>"

definition real_request :: run_request where
  "real_request =
     \<lparr>rq_target = ''/r'', rq_approval = None, rq_image = Some run_image, rq_profile = profile_locked_down,
      rq_seccomp = seccomp_runtime_default, rq_argv = [''--'', ''pytest''], rq_timeout = 30, rq_preview_chars = 4096,
      rq_dry_run = False, rq_preserve = False, rq_gate = Some run_gate, rq_fail_on = Some ''quarantine'',
      rq_authorization_path = Some (''/d'', ''a.json''), rq_validation = None, rq_control = None\<rparr>"

definition real_world :: run_world where
  "real_world =
     \<lparr>wd_uid = 1000, wd_gid = 1000, wd_package = no_package, wd_package_again = no_package, wd_package_third = no_package,
      wd_profile_file_exists = False, wd_class_name = (\<lambda>_. ''OSError''), wd_run_id = sample_label, wd_label = sample_label,
      wd_started_at = ''2026-01-01T00:00:00Z'', wd_ended_at = ''2026-01-01T00:01:00Z'', wd_now = xf_now run_facts,
      wd_source_root = ''/r'', wd_paths = run_root, wd_parse = (\<lambda>_. Some (JObj run_artifact)),
      wd_control = sample_control_answers ''{}'', wd_control_before = sample_control_answers ''{}'',
      wd_control_after = sample_control_answers ''{}'', wd_target_view = empty_view, wd_before_view = empty_view,
      wd_verify_view = empty_view, wd_last_verify_view = empty_view, wd_after_verify_view = empty_view,
      wd_after_view = empty_view, wd_reservation = eager_answers, wd_cleanup_ok = True,
      wd_runner = docker_runner (\<lambda>_. None) id run_client\<rparr>"

lemma real_controls:
  "\<exists>d. load_authorization_control_document real_world (sample_control_answers ''{}'') = Some d \<and> cd_payload d = JObj run_artifact"
  by (simp add: load_authorization_control_document_def real_world_def load_bounded_json_document_def
      read_bounded_control_file_def check_listed_def check_opened_def read_content_def bounded_read_bytes same_file_state_def
      sample_control_answers_def sample_control_state_def control_file_max_bytes_def)

lemma real_control: "\<exists>d. runtime_control real_request real_world = Some d \<and> cd_payload d = JObj run_artifact"
  using real_controls by (simp add: runtime_control_def real_request_def real_world_def)

lemma real_requires: "require_real_authorization real_request real_world"
  by (simp add: require_real_authorization_def real_request_def real_world_def docker_runner_def)

lemma real_image_id: "rn_image_id (wd_runner real_world) (requested_image real_request) = Inr (Some run_image_id)"
proof -
  have "image_id_of (client_answer.Exited 0 run_image_id) = Some run_image_id" by code_simp
  then show ?thesis by (simp add: real_world_def docker_runner_def run_client_def)
qed

lemma real_fields:
  "requested_image real_request = run_image" "normalize_command_argv (rq_argv real_request) = [''pytest'']"
  "rq_gate real_request = Some run_gate" "rq_fail_on real_request = Some ''quarantine''" "rq_approval real_request = None"
  "rq_authorization_path real_request = Some (''/d'', ''a.json'')" "\<not> rq_dry_run real_request"
  "prepared_workspace real_request real_world run_workspace = run_workspace"
  by (simp_all add: requested_image_def normalize_command_argv_def real_request_def prepared_workspace_def real_world_def)

lemma real_facts: "execution_facts_of real_world run_workspace run_image (Some run_image_id) = run_facts"
  by (simp add: execution_facts_of_def run_observed run_facts_def real_world_def)

lemma real_run_validation:
  "\<exists>v. run_validation real_request real_world run_workspace = Inr v \<and> authorization_execution_authorized v True"
proof -
  from run_validated obtain r where r: "validate_execution_authorization (JObj run_artifact) run_gate [''pytest''] run_facts = Inr r"
    "authorization_execution_authorized (Some r) True" by blast
  from real_control have payload: "control_payload (runtime_control real_request real_world) = Some run_artifact"
    by (auto simp: control_payload_def)
  have "control_unchanged real_request real_world" by (simp add: control_unchanged_def real_request_def)
  then show ?thesis
    using r by (simp add: run_validation_def real_requires payload real_fields run_image_pinned real_image_id [unfolded real_fields] real_facts)
qed

section \<open>The checks pass\<close>

lemma real_gate: "gate_block_reason (Some run_gate) (Some ''quarantine'') = Inr None"
proof -
  have "gate_verdict_text run_gate = ''warn''"
    unfolding gate_verdict_text_def by (simp add: run_gate_def dget_Cons dget_or_def) code_simp
  then show ?thesis by (simp add: gate_block_reason_def gate_fail_modes_def)
qed

lemma real_base: "\<exists>base. base_report real_request inventory reference p seccomp argv name b w run_id stamp = Inr base"
  by (simp add: base_report_def gate_report_def real_fields real_gate)

lemma digests: "is_fingerprint (JStr (fst empty_identity))" "is_fingerprint (JStr (snd empty_identity))"
  "is_fingerprint (JStr sample_fingerprint)"
  using identity_digests run_digests_clean by (simp_all add: is_fingerprint_iff run_digests_def)

lemma run_source_kind: "snapshot_source_kind run_workspace = Some ''git_commit''"
  by (simp add: snapshot_source_kind_def run_workspace_fields run_snapshot_def)

lemma run_artifact_sections:
  "sect run_artifact ''subject'' = map (\<lambda>k. (k, dget (gate_subject_of run_gate) k)) authorization_subject_fields"
  "sect run_artifact ''approved_scope'' = gate_subject_of run_gate"
  by (simp_all add: sect_def run_artifact_def approved_draft_fields)

lemma real_payload: "control_payload (runtime_control real_request real_world) = Some run_artifact"
  using real_control by (auto simp: control_payload_def)

lemma real_consistent: "subject_reasons real_request real_world (run_consistency real_request real_world run_workspace) = []"
proof -
  have subject: "sect run_gate ''subject'' = [(''repo'', JStr sample_fingerprint), (''commit'', JStr (replicate 40 (CHR ''c''))),
        (''tree_hash'', JStr (replicate 40 (CHR ''d''))), (''binding_kind'', JStr ''snapshot_bound''),
        (''snapshot_id'', JStr (fst empty_identity)), (''manifest_fingerprint'', JStr (snd empty_identity))]"
    by (simp add: run_gate_def sect_def dget_Cons)
  show ?thesis
    using digests
    by (simp add: subject_reasons_def run_consistency_def subject_consistency_def Let_def real_fields real_payload run_observed
        run_source_kind consistent_def snapshot_resolved_def resolved_fields_def field_matches_def subject_keys_def observed_field_def
        subject dget_Cons run_artifact_sections run_subject authorization_subject_fields_def str_json_def)
qed

lemma real_binding:
  "sb_matched (validate_execution_authorization_snapshot_binding run_artifact run_gate (observed_snapshot run_workspace))"
  unfolding snapshot_binding_facts [THEN conjunct1]
  using digests
  by (simp add: unresolved_subject_def gate_subject_equals_def approval_names_def run_artifact_sections run_subject run_observed
      authorization_subject_fields_def dget_Cons str_json_def)

lemma real_checked:
  "\<exists>c. check_run real_request real_world run_workspace = Inr c \<and> cr_policy_reasons c = [] \<and> cr_infrastructure_reasons c = []
     \<and> cr_workspace c = run_workspace \<and> cr_profile c = get_sandbox_profile 1000 1000 profile_locked_down
     \<and> ss_profile (cr_seccomp c) = seccomp_runtime_default \<and> cr_approval c = None"
proof -
  from real_run_validation obtain v where v: "run_validation real_request real_world run_workspace = Inr v"
    "authorization_execution_authorized v True" by blast
  from empty_inventory obtain i where i: "target_inventory_of real_world run_workspace = Inr (Some i)"
    by (auto simp: target_inventory_of_def run_workspace_fields lift_refusal_def real_world_def)
  have seccomp: "resolve_seccomp_selection (wd_package real_world) (rq_seccomp real_request)
      = Inr \<lparr>ss_profile = seccomp_runtime_default, ss_sha256 = None, ss_source = seccomp_source_runtime_default\<rparr>"
    by (simp add: resolve_seccomp_selection_def real_request_def)
  have profile: "get_sandbox_profile (wd_uid real_world) (wd_gid real_world) (rq_profile real_request)
      = get_sandbox_profile 1000 1000 profile_locked_down"
    by (simp add: real_request_def real_world_def)
  let ?p = "get_sandbox_profile 1000 1000 profile_locked_down"
  have name: "sp_name ?p \<noteq> profile_inspect_only" "sp_implemented ?p" by code_simp+
  have approval: "approval_outcome real_request real_world ?p (Some i) = Inr ([], None)"
    by (simp add: approval_outcome_def real_fields)
  have binding: "binding_reasons (run_snapshot_binding real_request real_world run_workspace v) = []"
    using v(2) by (simp add: run_snapshot_binding_def authorized_run_def real_requires real_fields real_payload
        binding_reasons_def real_binding)
  have empty: "copy_reasons run_workspace = []" "control_reasons real_request real_world = []"
    "configuration_reasons real_request real_world ?p (Some i) = []" "real_run_reasons real_request real_world v = []"
    "other_run_reasons real_request real_world v = []" "infrastructure_reasons real_request ?p = []"
    using v(2) name
    by (simp_all add: copy_reasons_def run_workspace_fields control_reasons_def control_unchanged_def configuration_reasons_def
        real_run_reasons_def other_run_reasons_def infrastructure_reasons_def real_fields real_requires run_image_pinned)
      (simp_all add: real_request_def)
  from real_base obtain base where base: "base_report real_request (Some i) run_image ?p
      \<lparr>ss_profile = seccomp_runtime_default, ss_sha256 = None, ss_source = seccomp_source_runtime_default\<rparr> [''pytest'']
      (rn_name (wd_runner real_world)) True run_workspace (wd_run_id real_world) (wd_started_at real_world) = Inr base"
    by blast
  show ?thesis
    unfolding check_run_def Let_def profile real_fields
    by (simp add: seccomp i base real_requires v(1) real_gate approval empty binding real_consistent)
qed

section \<open>The container runs\<close>

lemma sample_stream:
  "\<exists>s. stream_process_output id [Ready [(Out, ''ok''), (Out, []), (Err, [])]] = Some s \<and> \<not> sm_timed_out s \<and> \<not> sm_exceeded s"
proof -
  have "take_events [(Out, ''ok''), (Out, []), (Err, [])] initial_streams
      = (take_chunk Out ''ok'' initial_streams)\<lparr>so_open := []\<rparr>"
    by (simp add: take_chunk_def initial_streams_def Let_def stream_budget_def stdout_byte_budget_def total_bytes_def
        total_output_byte_budget_def)
  moreover have "so_exceeded (take_chunk Out ''ok'' initial_streams) = None"
    by (simp add: take_chunk_def initial_streams_def Let_def stream_budget_def stdout_byte_budget_def total_bytes_def
        total_output_byte_budget_def)
  moreover have "so_open initial_streams \<noteq> []" by (simp add: initial_streams_def)
  moreover have "stream_loop [] st = Some (st, False)" if "so_open st = []" for st
    using that by (subst stream_loop.simps) simp
  ultimately have "stream_loop [Ready [(Out, ''ok''), (Out, []), (Err, [])]] initial_streams
      = Some ((take_chunk Out ''ok'' initial_streams)\<lparr>so_open := []\<rparr>, False)"
    by (subst stream_loop.simps) (simp add: Let_def)
  then show ?thesis
    using \<open>so_exceeded (take_chunk Out ''ok'' initial_streams) = None\<close> by (simp add: stream_process_output_def output_of_def Let_def)
qed

lemma real_argv:
  "\<exists>argv. build_docker_run_argv run_image [''pytest''] ''/tmp/w/workspace'' (get_sandbox_profile 1000 1000 profile_locked_down)
      seccomp_runtime_default None (Some sample_label) (Some ''/tmp/w/container.cid'') = Inr argv
    \<and> tracking_from_argv argv = \<lparr>tk_label = Some sample_label, tk_cidfile = Some ''/tmp/w/container.cid''\<rparr>"
proof -
  let ?build = "build_docker_run_argv run_image [''pytest''] ''/tmp/w/workspace'' (get_sandbox_profile 1000 1000 profile_locked_down)
      seccomp_runtime_default None (Some sample_label) (Some ''/tmp/w/container.cid'')"
  have "returns ?build" by code_simp
  then obtain argv where b: "?build = Inr argv" by (auto simp: returns_iff)
  with tracking_of_built [OF b] show ?thesis by simp
qed

lemma sample_cleaned:
  "cleanup_tracked_container \<lparr>tk_label = Some sample_label, tk_cidfile = Some ''/tmp/w/container.cid''\<rparr> sample_cleanup = (True, ''ok'', None)"
  using sample_cleanup_ok by (simp add: cleanup_tracked_container_def tracked_ids_def sample_cleanup_def read_cidfile_def split: if_splits)

lemma real_run_result:
  assumes "tracking_from_argv argv = \<lparr>tk_label = Some sample_label, tk_cidfile = Some ''/tmp/w/container.cid''\<rparr>"
  shows "\<exists>r. rn_run (wd_runner real_world) argv n = Some (Returned r) \<and> rr_exit_code r = Some 0 \<and> rr_cleanup_status r = ''ok''
    \<and> \<not> rr_budget_exceeded r \<and> \<not> rr_timed_out r"
proof -
  from sample_stream obtain s where s: "stream_process_output id [Ready [(Out, ''ok''), (Out, []), (Err, [])]] = Some s"
    "\<not> sm_timed_out s" "\<not> sm_exceeded s" by blast
  show ?thesis
    using s by (simp add: real_world_def docker_runner_def run_client_def docker_run_def Let_def assms with_cleanup_def sample_cleaned
        streamed_result_def)
qed

lemma real_available: "rn_available (wd_runner real_world)" "rn_image_available (wd_runner real_world) run_image"
  by (simp_all add: real_world_def docker_runner_def run_client_def exited_zero_def)

lemma real_prepared:
  assumes c: "cr_workspace c = run_workspace" "cr_profile c = get_sandbox_profile 1000 1000 profile_locked_down"
    "ss_profile (cr_seccomp c) = seccomp_runtime_default"
  shows "\<exists>argv st'. prepare_run real_request real_world c st = (Inr argv, st') \<and> rs_effects st' = rs_effects st
    \<and> tracking_from_argv argv = \<lparr>tk_label = Some sample_label, tk_cidfile = Some ''/tmp/w/container.cid''\<rparr>"
proof -
  from real_argv obtain argv where argv: "run_argv real_request real_world c None = Inr argv"
    "tracking_from_argv argv = \<lparr>tk_label = Some sample_label, tk_cidfile = Some ''/tmp/w/container.cid''\<rparr>"
    by (auto simp: run_argv_def real_fields c real_world_def run_root_def)
  from empty_inventory obtain i where i: "snapshot_workspace (wd_before_view real_world) = Inr i" by (auto simp: real_world_def)
  have v: "verify_verified_snapshot (dw_budget run_workspace) (dw_snapshot run_workspace) (wd_verify_view real_world) = Inr True"
    by (simp add: run_workspace_fields run_snapshot_verifies real_world_def)
  have "\<exists>st'. prepare_run real_request real_world c st = (Inr argv, st')"
    by (simp add: prepare_run_def step_bind_def edit_report_def step_update_def step_of_def step_return_def lift_refusal_def i
        verify_snapshot_step_def c v materialize_step_def argv(1))
  with argv(2) keepsD [where f = rs_effects, OF prepare_keeps] show ?thesis by blast
qed

lemma real_rechecks:
  "recheck_control real_request real_world c (wd_control_before real_world) advice st = (Inr (), st)"
  "recheck_control real_request real_world c (wd_control_after real_world) advice st = (Inr (), st)"
proof -
  from real_controls obtain d where d: "load_authorization_control_document real_world (sample_control_answers ''{}'') = Some d"
    by blast
  then have "runtime_control real_request real_world = Some d" by (simp add: runtime_control_def real_request_def real_world_def)
  with d show "recheck_control real_request real_world c (wd_control_before real_world) advice st = (Inr (), st)"
    "recheck_control real_request real_world c (wd_control_after real_world) advice st = (Inr (), st)"
    by (simp_all add: recheck_control_def controls_match_def control_file_matches_def step_return_def real_world_def)
qed

lemma real_reserved: "reserve_execution_authorization path (wd_reservation real_world) = Some (reserved_at path)"
  by (simp add: real_world_def eager_reserves)

definition final_code :: "run_end \<Rightarrow> json" where
  "final_code e = (case e of Report (JObj d) \<Rightarrow> dget d ''sandbox_exit_code'' | _ \<Rightarrow> JNull)"

lemma finished_code:
  assumes "\<not> cleanup_doubt e w report" and "dget report ''sandbox_exit_code'' = JInt n"
  shows "\<exists>d. finalize_report e w report = JObj d \<and> dget d ''sandbox_exit_code'' = JInt n"
  using assms by (simp add: finalize_report_def redact_JObj dget_redacted final_exit_code redact_JInt)

lemma real_started:
  assumes c: "cr_workspace c = run_workspace" "cr_approval c = None"
    and argv: "tracking_from_argv argv = \<lparr>tk_label = Some sample_label, tk_cidfile = Some ''/tmp/w/container.cid''\<rparr>"
    and st: "docker_of st = docker_section real_request real_world c argv"
  shows "\<exists>d st'. start_run real_request real_world c argv st = (Inr (JObj d), st')
    \<and> dget d ''sandbox_exit_code'' = JInt 0 \<and> RunContainer argv \<in> set (rs_effects st')"
proof -
  have t: "\<exists>st1. take_reservation real_request real_world c st = (Inr (), st1)"
    by (simp add: take_reservation_def real_fields step_bind_def real_rechecks reserve_step_of_def real_reserved)
  then obtain st1 where st1: "take_reservation real_request real_world c st = (Inr (), st1)" ..
  have v: "verify_snapshot_step real_request real_world c (wd_last_verify_view real_world) s = (Inr (), s)" for s
    by (simp add: verify_snapshot_step_def c run_workspace_fields run_snapshot_verifies real_world_def step_bind_def step_of_def
        step_return_def lift_refusal_def)
  from real_run_result [OF argv] obtain r where r: "rn_run (wd_runner real_world) argv (nat (rq_timeout real_request)) = Some (Returned r)"
    "rr_exit_code r = Some 0" "rr_cleanup_status r = ''ok''" "\<not> rr_budget_exceeded r" "\<not> rr_timed_out r" by blast
  from empty_inventory obtain i where i: "snapshot_workspace (wd_after_view real_world) = Inr i" by (auto simp: real_world_def)
  have object: "approval_object c = NoValidation" by (simp add: approval_object_def c)
  obtain ap where ap: "approval_report False NoValidation [] = Inr ap" by (simp add: approval_report_def)
  define st2 where "st2 = st1\<lparr>rs_effects := rs_effects st1 @ [RunContainer argv]\<rparr>"
  have run: "run_container real_world argv (rq_timeout real_request) st1 = (Inr r, st2)"
    by (simp add: run_container_def Let_def r(1) st2_def)
  have after: "wd_after_verify_view real_world = empty_view" by (simp add: real_world_def)
  let ?final = "completed_report real_request real_world r True (rs_before st2) (Some i) ap (rs_report st2)"
  have fin: "finish_run real_request real_world c r st2
      = (Inr (finalize_report (ending_of real_request real_world) run_workspace ?final), st2\<lparr>rs_after := Some i\<rparr>)"
    by (simp add: finish_run_def step_bind_def step_of_def step_update_def step_result_def lift_refusal_def c run_workspace_fields
        run_snapshot_verifies after i object real_fields ap)
  have docker: "sect (rs_report st2) ''docker'' = docker_section real_request real_world c argv"
    using keepsD [OF keeps_docker st1] st by (simp add: st2_def docker_of_def)
  have clean: "\<not> cleanup_doubt (ending_of real_request real_world) run_workspace ?final"
    by (simp add: cleanup_doubt_def completed_docker result_docker r(3) ended_workspace_def ending_of_def cleanup_workspace_def
        run_workspace_fields) (simp add: real_world_def)
  have "dget ?final ''sandbox_exit_code'' = JInt 0"
    by (simp add: completed_code sandbox_exit_code_def is_docker_infrastructure_failure_def r(2,4))
  from finished_code [OF clean this] obtain d where
    d: "finalize_report (ending_of real_request real_world) run_workspace ?final = JObj d" "dget d ''sandbox_exit_code'' = JInt 0"
    by blast
  have "start_run real_request real_world c argv st = (Inr (JObj d), st2\<lparr>rs_after := Some i\<rparr>)"
    by (simp add: start_run_def step_bind_def st1 v run fin d(1))
  with d(2) show ?thesis by (simp add: st2_def)
qed

lemma real_run:
  "\<exists>d es argv. run_sandbox real_request real_world run_workspace = (Report (JObj d), es)
     \<and> dget d ''sandbox_exit_code'' = JInt 0 \<and> RunContainer argv \<in> set es"
proof -
  from real_checked obtain c where check: "check_run real_request real_world run_workspace = Inr c" "cr_policy_reasons c = []"
    "cr_infrastructure_reasons c = []" and c: "cr_workspace c = run_workspace" "cr_profile c = get_sandbox_profile 1000 1000 profile_locked_down"
    "ss_profile (cr_seccomp c) = seccomp_runtime_default" "cr_approval c = None" by blast
  from real_prepared [OF c(1-3)] obtain argv st1 where p: "prepare_run real_request real_world c (start_state_of c) = (Inr argv, st1)"
    and argv: "tracking_from_argv argv = \<lparr>tk_label = Some sample_label, tk_cidfile = Some ''/tmp/w/container.cid''\<rparr>" by blast
  from real_started [OF c(1,4) argv prepared_docker [OF p]] obtain d st2 where
    s: "start_run real_request real_world c argv st1 = (Inr (JObj d), st2)"
    and d: "dget d ''sandbox_exit_code'' = JInt 0" "RunContainer argv \<in> set (rs_effects st2)" by blast
  have "execute_run real_request real_world c (start_state_of c) = (Inr (JObj d), st2)"
    by (simp add: execute_run_def step_bind_def p real_fields s)
  then have "run_sandbox real_request real_world run_workspace = (Report (JObj d), rs_effects st2)"
    by (simp add: run_sandbox_def check run_checked_def real_available real_fields try_run_def)
  with d show ?thesis by blast
qed

section \<open>The properties on this run\<close>

text \<open>The approval of this run names a snapshot and an image.\<close>

theorem execution_authorized_contract_witness:
  "authorized_for run_artifact run_gate [''pytest''] run_facts \<and> current_schema run_artifact \<and> has_key run_artifact ''approved_image''
   \<and> image_contract run_facts (JObj run_approved_image)"
proof -
  from run_authorized obtain r
    where r: "validate_execution_authorization (JObj run_artifact) run_gate [''pytest''] run_facts = Inr r"
    and z: "az_execution_authorized r" by blast
  note f = approved_draft_fields [of run_gate "[''pytest'']" "''2200-01-01T00:00:00Z''" "Some run_approved_image" "''alice''"
      "''2026-01-01T00:00:00Z''", folded run_artifact_def]
  have "authorized_for run_artifact run_gate [''pytest''] run_facts"
    using execution_authorized_contract [OF r z] by simp
  moreover from this f(14,15) have "image_contract run_facts (JObj run_approved_image)" by (simp add: authorized_for_def)
  ultimately show ?thesis using f(2,15) by (simp add: current_schema_def)
qed

theorem container_requires_authorization_witness: "permitted real_request real_world run_workspace"
proof -
  from real_run obtain d es argv where r: "run_sandbox real_request real_world run_workspace = (Report (JObj d), es)"
    "RunContainer argv \<in> set es" by blast
  have "rn_name (wd_runner real_world) = ''docker''" by (simp add: real_world_def docker_runner_def)
  from container_requires_authorization [OF r this] show ?thesis ..
qed

theorem container_is_confined_witness:
  "\<exists>es argv. snd (run_sandbox real_request real_world run_workspace) = es \<and> RunContainer argv \<in> set es
     \<and> (\<exists>os. argv = [''docker'', ''run''] @ concat (map option_tokens os) @ [run_image, ''pytest''] \<and> option_values ''--network'' os = [''none'']
        \<and> option_values ''--mount'' os = [''type=bind,src=/tmp/w/workspace,dst=/workspace,readonly''])"
proof -
  from real_run obtain d es argv where r: "run_sandbox real_request real_world run_workspace = (Report (JObj d), es)"
    "RunContainer argv \<in> set es" by blast
  from container_is_confined [OF r, unfolded real_fields] obtain os where
    os: "argv = [''docker'', ''run''] @ concat (map option_tokens os) @ run_image # [''pytest'']" "option_values ''--network'' os = [''none'']"
    and "option_values ''--mount'' os = [''type=bind,src='' @ rp_workspace (wd_paths real_world) @ '',dst=/workspace,readonly'']"
    by (elim exE conjE)
  then have "option_values ''--mount'' os = [''type=bind,src=/tmp/w/workspace,dst=/workspace,readonly'']"
    by (simp add: real_world_def run_root_def)
  with r os show ?thesis by (intro exI [of _ es] exI [of _ argv]) (simp, blast)
qed

theorem zero_exit_is_clean_witness:
  "\<exists>argv. RunContainer argv \<in> set (snd (run_sandbox real_request real_world run_workspace))
     \<and> verify_verified_snapshot default_copy_budget (Some run_snapshot) empty_view = Inr True"
proof -
  from real_run obtain d es argv where r: "run_sandbox real_request real_world run_workspace = (Report (JObj d), es)"
    "dget d ''sandbox_exit_code'' = JInt 0" by blast
  have "wd_runner real_world = docker_runner (\<lambda>_. None) id run_client" by (simp add: real_world_def)
  from zero_exit_is_clean [OF r real_fields(7) this] obtain argv where
    "RunContainer argv \<in> set es"
    "verify_verified_snapshot (dw_budget run_workspace) (dw_snapshot run_workspace) (wd_after_verify_view real_world) = Inr True"
    by (elim exE conjE)
  with r show ?thesis by (auto simp: run_workspace_fields real_world_def)
qed

section \<open>The same run, with an approval file that changes\<close>

definition changed_world :: run_world where
  "changed_world = real_world\<lparr>wd_control_before := (sample_control_answers ''{}'')\<lparr>fa_no_follow := False\<rparr>\<rparr>"

text \<open>The checks and the preparation do not look at the later reads of the file.\<close>

lemma changed_fields:
  "wd_runner (wd\<lparr>wd_control_before := a\<rparr>) = wd_runner wd"
  "wd_parse (wd\<lparr>wd_control_before := a\<rparr>) = wd_parse wd"
  "wd_control (wd\<lparr>wd_control_before := a\<rparr>) = wd_control wd"
  "wd_control_after (wd\<lparr>wd_control_before := a\<rparr>) = wd_control_after wd"
  "wd_uid (wd\<lparr>wd_control_before := a\<rparr>) = wd_uid wd"
  "wd_gid (wd\<lparr>wd_control_before := a\<rparr>) = wd_gid wd"
  "wd_package (wd\<lparr>wd_control_before := a\<rparr>) = wd_package wd"
  "wd_package_again (wd\<lparr>wd_control_before := a\<rparr>) = wd_package_again wd"
  "wd_package_third (wd\<lparr>wd_control_before := a\<rparr>) = wd_package_third wd"
  "wd_profile_file_exists (wd\<lparr>wd_control_before := a\<rparr>) = wd_profile_file_exists wd"
  "wd_run_id (wd\<lparr>wd_control_before := a\<rparr>) = wd_run_id wd"
  "wd_label (wd\<lparr>wd_control_before := a\<rparr>) = wd_label wd"
  "wd_started_at (wd\<lparr>wd_control_before := a\<rparr>) = wd_started_at wd"
  "wd_ended_at (wd\<lparr>wd_control_before := a\<rparr>) = wd_ended_at wd"
  "wd_now (wd\<lparr>wd_control_before := a\<rparr>) = wd_now wd"
  "wd_source_root (wd\<lparr>wd_control_before := a\<rparr>) = wd_source_root wd"
  "wd_paths (wd\<lparr>wd_control_before := a\<rparr>) = wd_paths wd"
  "wd_target_view (wd\<lparr>wd_control_before := a\<rparr>) = wd_target_view wd"
  "wd_before_view (wd\<lparr>wd_control_before := a\<rparr>) = wd_before_view wd"
  "wd_verify_view (wd\<lparr>wd_control_before := a\<rparr>) = wd_verify_view wd"
  "wd_cleanup_ok (wd\<lparr>wd_control_before := a\<rparr>) = wd_cleanup_ok wd"
  by simp_all

lemma changed_parts:
  "require_real_authorization q (wd\<lparr>wd_control_before := a\<rparr>) = require_real_authorization q wd"
  "load_authorization_control_document (wd\<lparr>wd_control_before := a\<rparr>) = load_authorization_control_document wd"
  "execution_facts_of (wd\<lparr>wd_control_before := a\<rparr>) = execution_facts_of wd"
  "target_inventory_of (wd\<lparr>wd_control_before := a\<rparr>) = target_inventory_of wd"
  "prepared_workspace q (wd\<lparr>wd_control_before := a\<rparr>) = prepared_workspace q wd"
  "ending_of q (wd\<lparr>wd_control_before := a\<rparr>) = ending_of q wd"
  by (simp_all add: fun_eq_iff require_real_authorization_def load_authorization_control_document_def execution_facts_of_def
      target_inventory_of_def prepared_workspace_def ending_of_def)

lemma changed_control: "runtime_control q (wd\<lparr>wd_control_before := a\<rparr>) = runtime_control q wd"
  unfolding runtime_control_def changed_parts changed_fields ..

lemma changed_checks: "check_run q (wd\<lparr>wd_control_before := a\<rparr>) given = check_run q wd given"
  unfolding check_run_def run_validation_def run_snapshot_binding_def authorized_run_def run_consistency_def control_reasons_def
    control_unchanged_def configuration_reasons_def real_run_reasons_def other_run_reasons_def subject_reasons_def
    approval_outcome_def checked_report_def changed_control changed_parts changed_fields ..

lemma changed_preparation: "prepare_run q (wd\<lparr>wd_control_before := a\<rparr>) c = prepare_run q wd c"
  unfolding prepare_run_def verify_snapshot_step_def block_run_def materialize_step_def run_argv_def docker_section_def
    changed_parts changed_fields ..

theorem changed_control_file_misreported_witness:
  "\<exists>d. run_sandbox real_request changed_world run_workspace = (Report (JObj d), []) \<and> dget d ''policy_blocked'' = JBool False
     \<and> dget d ''sandbox_exit_code'' = JInt 1"
proof -
  from real_checked obtain c where check: "check_run real_request real_world run_workspace = Inr c" "cr_policy_reasons c = []"
    "cr_infrastructure_reasons c = []" and c: "cr_workspace c = run_workspace" "cr_profile c = get_sandbox_profile 1000 1000 profile_locked_down"
    "ss_profile (cr_seccomp c) = seccomp_runtime_default" by blast
  from real_prepared [OF c] obtain argv st1 where p: "prepare_run real_request real_world c (start_state_of c) = (Inr argv, st1)"
    by blast
  from real_run_validation checked_facts [OF check(1)] c(1) obtain v where v: "cr_validation c = Some v"
    by (auto simp: real_fields authorization_execution_authorized_def split: option.splits)
  have wd: "wd_runner changed_world = wd_runner real_world" by (simp add: changed_world_def)
  have "load_authorization_control_document changed_world (wd_control_before changed_world) = None"
    by (simp add: load_authorization_control_document_def changed_world_def load_bounded_json_document_def
        read_bounded_control_file_def check_listed_def)
  then have "\<not> controls_match (runtime_control real_request changed_world)
      (load_authorization_control_document changed_world (wd_control_before changed_world))"
    by (simp add: controls_match_def split: option.split)
  with changed_control_file_misreported [of real_request changed_world run_workspace c argv st1 "(''/d'', ''a.json'')" v]
    check p v real_available real_fields show ?thesis
    by (auto simp: wd changed_world_def changed_checks changed_preparation)
qed

end
