(* ===== verification/Report_Type.thy ===== *)
theory Report_Type
  imports Sandbox_Run_Sample
begin

text \<open>
  The type of a run report: which fields a report has and of which kind each is.  The base report
  has it, every edit of the report keeps it, and so do the final redaction and every way a run can
  end with a report.
\<close>

section \<open>Field types\<close>

datatype field_type = Text | Flag | Number | Object | Texts | Nullable field_type

fun has_type :: "field_type \<Rightarrow> json \<Rightarrow> bool" where
  "has_type Text v = (case v of JStr s \<Rightarrow> True | _ \<Rightarrow> False)"
| "has_type Flag v = (case v of JBool b \<Rightarrow> True | _ \<Rightarrow> False)"
| "has_type Number v = (case v of JInt n \<Rightarrow> True | _ \<Rightarrow> False)"
| "has_type Object v = (case v of JObj d \<Rightarrow> True | _ \<Rightarrow> False)"
| "has_type Texts v = (case v of JList xs \<Rightarrow> list_all is_str xs | _ \<Rightarrow> False)"
| "has_type (Nullable t) v = (v = JNull \<or> has_type t v)"

definition report_types :: "(string \<times> field_type) list" where
  "report_types =
     [(''schema_version'', Text), (''report_kind'', Text), (''kind'', Text), (''tool'', Text), (''version'', Text),
      (''experimental'', Flag), (''contract'', Object), (''run'', Object), (''target'', Object), (''verified_snapshot'', Object),
      (''subject_consistency'', Object), (''approval'', Object), (''gate'', Object), (''authorization'', Object),
      (''sandbox_profile'', Object), (''seccomp'', Object), (''command'', Object), (''docker'', Object),
      (''disposable_workspace'', Object), (''workspace_diff'', Object), (''result'', Object), (''policy_blocked'', Flag),
      (''command_started'', Flag), (''command_start_state'', Text), (''command_exit_code'', Nullable Number),
      (''sandbox_exit_code'', Number), (''block_reason'', Nullable Text), (''output_summary'', Object),
      (''runtime_write_budget'', Object), (''env_policy'', Object), (''cleanup_policy'', Object),
      (''boundary_statement'', Object), (''limitations'', Texts), (''next_actions'', Texts), (''safety_statement'', Text)]"

definition typed :: "dict \<Rightarrow> bool" where
  "typed d \<longleftrightarrow> list_all (\<lambda>(k, t). has_type t (dget d k)) report_types"

definition typed_report :: "json \<Rightarrow> bool" where
  "typed_report j = (case j of JObj d \<Rightarrow> typed d | _ \<Rightarrow> False)"

section \<open>Edits of a report\<close>

lemma has_type_values [simp]:
  "has_type Text (JStr s)" "has_type Flag (JBool b)" "has_type Number (JInt n)" "has_type Object (JObj d)"
  "has_type Texts (JList [])" "has_type Texts (jstrs xs)" "has_type (Nullable t) JNull"
  by (simp_all add: jstrs_def list_all_iff)

lemma has_type_nullable [simp]: "has_type t v \<Longrightarrow> has_type (Nullable t) v"
  by simp

declare has_type.simps [simp del]

lemma distinct_fields: "distinct (map fst report_types)"
  by code_simp

definition fits :: "string \<Rightarrow> json \<Rightarrow> bool" where
  "fits k v = (case map_of report_types k of None \<Rightarrow> True | Some t \<Rightarrow> has_type t v)"

lemma typed_dset:
  assumes "typed d" and "fits k v"
  shows "typed (dset d k v)"
proof -
  have "has_type t (dget (dset d k v) k')" if f: "(k', t) \<in> set report_types" for k' t
  proof (cases "k' = k")
    case True
    with f have "map_of report_types k = Some t" using map_of_eq_Some_iff [OF distinct_fields] by blast
    with assms(2) True show ?thesis by (simp add: fits_def dget_or_dset)
  next
    case False
    with assms(1) f show ?thesis by (auto simp: typed_def list_all_iff dget_or_dset)
  qed
  then show ?thesis by (auto simp: typed_def list_all_iff)
qed

lemma typed_listed:
  assumes "list_all2 (\<lambda>(k, v) (k', t). k = k' \<and> has_type t v) d report_types"
  shows "typed d"
proof -
  have "list_all (\<lambda>(k, t). has_type t (dget d k)) ts" if "list_all2 (\<lambda>(k, v) (k', t). k = k' \<and> has_type t v) d ts"
      "distinct (map fst ts)" for ts :: "(string \<times> field_type) list" and d
    using that
  proof (induction rule: list_all2_induct)
    case (Cons e d t ts)
    obtain k v t' where e: "e = (k, v)" "t = (k, t')" "has_type t' v" using Cons(1) by (auto split: prod.splits)
    with Cons have "list_all (\<lambda>(k, t). has_type t (dget d k)) ts" "k \<notin> fst ` set ts" by auto
    then have "list_all (\<lambda>(k', t). has_type t (dget ((k, v) # d) k')) ts"
      by (auto simp: list_all_iff dget_Cons rev_image_eqI)
    with e show ?case by (simp add: dget_Cons)
  qed simp
  with assms distinct_fields show ?thesis by (simp add: typed_def)
qed

text \<open>The kinds of the fields that are edited.\<close>

lemma fits_fields:
  "fits ''docker'' v = has_type Object v" "fits ''result'' v = has_type Object v" "fits ''approval'' v = has_type Object v"
  "fits ''authorization'' v = has_type Object v" "fits ''run'' v = has_type Object v"
  "fits ''verified_snapshot'' v = has_type Object v" "fits ''workspace_diff'' v = has_type Object v"
  "fits ''runtime_write_budget'' v = has_type Object v" "fits ''output_summary'' v = has_type Object v"
  "fits ''disposable_workspace'' v = has_type Object v" "fits ''subject_consistency'' v = has_type Object v"
  "fits ''policy_blocked'' v = has_type Flag v" "fits ''command_started'' v = has_type Flag v"
  "fits ''command_start_state'' v = has_type Text v" "fits ''command_exit_code'' v = has_type (Nullable Number) v"
  "fits ''sandbox_exit_code'' v = has_type Number v" "fits ''block_reason'' v = has_type (Nullable Text) v"
  "fits ''limitations'' v = has_type Texts v" "fits ''next_actions'' v = has_type Texts v"
  "fits ''safety_statement'' v = has_type Text v"
  by (simp_all add: fits_def report_types_def)

lemma typed_nested: "typed d \<Longrightarrow> fits k (JObj (dset (sect d k) k2 v)) \<Longrightarrow> typed (nested d k k2 v)"
  by (simp add: nested_def typed_dset)

lemma typed_push: "typed d \<Longrightarrow> typed (push ms d)"
  unfolding push_def by (rule typed_dset) (simp_all add: fits_fields)

lemmas typed_rules = typed_dset typed_nested typed_push

lemma typed_if: "(b \<Longrightarrow> typed x) \<Longrightarrow> (\<not> b \<Longrightarrow> typed y) \<Longrightarrow> typed (if b then x else y)"
  by simp

lemma result_section_object [simp]: "has_type Object (result_section s e t n)"
  by (simp add: result_section_def)

lemma opt_int_typed [simp]: "has_type (Nullable Number) (opt_int n)"
  by (simp add: opt_int_def split: option.split)

section \<open>The base report and the last step\<close>

lemma base_typed:
  assumes "base_report q i reference p s argv name b w run_id stamp = Inr d"
  shows "typed d"
  using assms unfolding base_report_def
  by (elim res_mapE, unfold Let_def) (hypsubst, intro typed_listed, simp add: report_types_def)

lemma checked_report_typed: "typed d \<Longrightarrow> typed (checked_report q wd w v d)"
  by (auto simp: checked_report_def with_binding_def Let_def fits_fields intro!: typed_rules typed_if split: option.split)

lemma uncertain_typed: "typed d \<Longrightarrow> typed (uncertain r l d)"
  by (auto simp: uncertain_def fits_fields intro!: typed_rules)

lemma unredacted_typed: "typed d \<Longrightarrow> typed (unredacted_report e w d)"
  unfolding unredacted_report_def close_run_def workspace_cleanup_check_def container_cleanup_check_def Let_def sets.simps
  by (intro typed_rules typed_if uncertain_typed) (simp_all add: fits_fields)

lemma redact_has_type: "has_type t v \<Longrightarrow> has_type t (redact_report v)"
proof (induction t)
  case Texts
  then obtain xs where "v = JList xs" "list_all is_str xs" by (cases v) (auto simp: has_type.simps)
  moreover have "is_str (redact_report x)" if "is_str x" for x
    using that by (cases x) (simp_all add: redact_report.simps)
  ultimately show ?case by (auto simp: redact_report.simps has_type.simps list_all_iff)
qed (cases v; auto simp: redact_report.simps has_type.simps)+

lemma finalize_typed: "typed d \<Longrightarrow> typed_report (finalize_report e w d)"
  using unredacted_typed [of d e w]
  by (auto simp: typed_report_def finalize_report_def redact_JObj typed_def list_all_iff dget_redacted redact_has_type)

section \<open>The ways a run ends\<close>

lemma blocked_typed: "typed d \<Longrightarrow> policy_blocked_report e w d b rs v acts = Inr j \<Longrightarrow> typed_report j"
  by (auto simp: policy_blocked_report_def policy_blocked_def Let_def fits_fields intro!: finalize_typed typed_rules elim!: res_mapE)

lemma broken_typed: "typed d \<Longrightarrow> infrastructure_error_report e w d b rs v acts paths = Inr j \<Longrightarrow> typed_report j"
  by (auto simp: infrastructure_error_report_def infrastructure_error_def Let_def fits_fields
      intro!: finalize_typed typed_rules elim!: res_mapE)

lemma failed_typed: "typed (rs_report st) \<Longrightarrow> failed_report q wd c e st = Inr j \<Longrightarrow> typed_report j"
  by (auto simp: failed_report_def failed_run_def Let_def fits_fields intro!: finalize_typed typed_rules elim!: res_mapE)

lemma dry_run_typed: "typed d \<Longrightarrow> dry_run_report q wd c i d = Inr j \<Longrightarrow> typed_report j"
  by (auto simp: dry_run_report_def Let_def fits_fields intro!: finalize_typed typed_rules elim!: res_mapE)

lemma completed_typed: "typed d \<Longrightarrow> typed (completed_report q wd r intact i i' ap d)"
  unfolding completed_report_def integrity_lost_def Let_def sets.simps
  by (intro typed_rules typed_if) (simp_all add: fits_fields)

section \<open>The steps keep the type\<close>

definition typed_step :: "'a step \<Rightarrow> bool" where
  "typed_step m \<longleftrightarrow> (\<forall>st. typed (rs_report st) \<longrightarrow>
     typed (rs_report (snd (m st))) \<and> (\<forall>j. fst (m st) = Inl (Ended j) \<longrightarrow> typed_report j))"

definition typed_result :: "json step \<Rightarrow> bool" where
  "typed_result m \<longleftrightarrow> typed_step m \<and> (\<forall>st j. typed (rs_report st) \<longrightarrow> fst (m st) = Inr j \<longrightarrow> typed_report j)"

lemma typed_step_bind: "typed_step m \<Longrightarrow> (\<And>x. typed_step (f x)) \<Longrightarrow> typed_step (step_bind m f)"
  unfolding typed_step_def step_bind_def by (fastforce split: prod.splits sum.splits)

lemma typed_result_bind:
  assumes "typed_step m" and "\<And>x. typed_result (f x)"
  shows "typed_result (step_bind m f)"
  unfolding typed_result_def
proof (intro conjI allI impI)
  show "typed_step (step_bind m f)" using assms by (intro typed_step_bind) (simp_all add: typed_result_def)
  fix st j
  assume "typed (rs_report st)" "fst (step_bind m f st) = Inr j"
  then obtain x st1 where "m st = (Inr x, st1)" "fst (f x st1) = Inr j"
    by (auto simp: step_bind_def split: prod.splits sum.splits)
  moreover from this assms(1) \<open>typed (rs_report st)\<close> have "typed (rs_report st1)" by (fastforce simp: typed_step_def)
  ultimately show "typed_report j" using assms(2) [of x] by (auto simp: typed_result_def)
qed

lemma typed_step_basic:
  "typed_step (step_return x)" "typed_step (step_of m)"
  "typed_step (step_update (\<lambda>st. st\<lparr>rs_before := i\<rparr>))" "typed_step (step_update (\<lambda>st. st\<lparr>rs_after := i\<rparr>))"
  by (auto simp: typed_step_def step_return_def step_of_def step_update_def split: sum.split)

lemma typed_step_edit: "(\<And>d. typed d \<Longrightarrow> typed (g d)) \<Longrightarrow> typed_step (edit_report g)"
  by (simp add: typed_step_def edit_report_def step_update_def)

lemma typed_step_end: "(\<And>st j. typed (rs_report st) \<Longrightarrow> f st = Inr j \<Longrightarrow> typed_report j) \<Longrightarrow> typed_step (step_end f)"
  by (auto simp: typed_step_def step_end_def split: sum.split)

lemma typed_step_result: "(\<And>st j. typed (rs_report st) \<Longrightarrow> f st = Inr j \<Longrightarrow> typed_report j) \<Longrightarrow> typed_result (step_result f)"
  by (auto simp: typed_result_def typed_step_def step_result_def split: sum.split)

lemma typed_step_if: "typed_step m \<Longrightarrow> typed_step n \<Longrightarrow> typed_step (if b then m else n)"
  by simp

lemmas typed_step_rules = typed_step_bind typed_step_basic typed_step_edit typed_step_end typed_step_if

lemma block_run_typed: "typed d \<Longrightarrow> block_run q wd c v rs acts d = Inr j \<Longrightarrow> typed_report j"
  unfolding block_run_def by (rule blocked_typed)

lemma verify_typed: "typed_step (verify_snapshot_step q wd c view)"
  unfolding verify_snapshot_step_def by (intro typed_step_rules block_run_typed)

lemma recheck_typed: "typed_step (recheck_control q wd c a advice)"
  unfolding recheck_control_def by (intro typed_step_rules block_run_typed)

lemma reserve_typed: "typed_step (reserve_step_of wd path)"
  by (auto simp: typed_step_def reserve_step_of_def fits_fields intro!: typed_rules split: option.split)

lemma take_reservation_typed: "typed_step (take_reservation q wd c)"
  unfolding take_reservation_def
  by (cases "rq_authorization_path q") (simp_all, intro typed_step_rules, intro typed_step_rules recheck_typed reserve_typed block_run_typed)

lemma run_container_typed: "typed_step (run_container wd argv n)"
  by (auto simp: typed_step_def run_container_def Let_def split: option.split run_outcome.split)

lemma materialize_typed: "typed_step (materialize_step wd c)"
  unfolding materialize_step_def Let_def by (intro typed_step_rules)

lemma prepare_typed: "typed_step (prepare_run q wd c)"
  unfolding prepare_run_def
  by (intro typed_step_rules verify_typed materialize_typed typed_rules) (simp_all add: fits_fields)

lemma finish_typed: "typed_result (finish_run q wd c r)"
  unfolding finish_run_def
  by (intro typed_result_bind typed_step_basic typed_step_result) (auto intro!: finalize_typed completed_typed elim!: res_mapE)

lemma execute_typed: "typed_result (execute_run q wd c)"
proof -
  have "typed_result (start_run q wd c argv)" for argv
    unfolding start_run_def by (intro typed_result_bind take_reservation_typed verify_typed run_container_typed finish_typed)
  moreover have "typed_result (step_result (\<lambda>st. dry_run_report q wd c (rs_before st) (rs_report st)))"
    by (rule typed_step_result) (rule dry_run_typed)
  ultimately show ?thesis unfolding execute_run_def by (intro typed_result_bind prepare_typed) simp
qed

section \<open>Property\<close>

text \<open>C27: however a run ends with a report, at whatever step and for whatever reason, the report has
  every field of the schema, each of its type.\<close>

theorem every_report_is_typed:
  assumes "run_sandbox q wd given = (Report j, es)"
  shows "typed_report j"
proof -
  from assms obtain c where c: "check_run q wd given = Inr c" and run: "run_checked q wd c = (Report j, es)"
    by (auto simp: run_sandbox_def split: sum.splits)
  from c have d: "typed (cr_report c)"
    unfolding check_run_def Let_def by (auto elim!: res_bindE intro!: checked_report_typed dest: base_typed)
  have early: "of_report m = Report j \<Longrightarrow> m = Inr j" for m by (simp add: of_report_def split: sum.splits)
  show ?thesis
  proof (cases "try_run q wd c = (Report j, es)")
    case True
    obtain r st where e: "execute_run q wd c (start_state_of c) = (r, st)" by (cases "execute_run q wd c (start_state_of c)")
    from d have start: "typed (rs_report (start_state_of c))" by (simp add: start_state_of_def)
    from execute_typed [of q wd c] start e have st: "typed (rs_report st)"
      "r = Inr j' \<Longrightarrow> typed_report j'" "r = Inl (Ended j') \<Longrightarrow> typed_report j'" for j'
      by (fastforce simp: typed_result_def typed_step_def)+
    from True e show ?thesis
      by (auto simp: try_run_def st dest!: early intro: failed_typed [OF st(1)] split: sum.splits stop.splits)
  next
    case False
    with run d show ?thesis
      by (auto simp: run_checked_def break_run_def dest!: early intro: block_run_typed broken_typed split: if_splits)
  qed
qed

theorem every_report_is_typed_witness: "\<exists>d. fst (run_sandbox real_request real_world run_workspace) = Report (JObj d) \<and> typed d"
proof -
  from real_run obtain d es where r: "run_sandbox real_request real_world run_workspace = (Report (JObj d), es)" by blast
  from every_report_is_typed [OF r] r show ?thesis by (simp add: typed_report_def)
qed

end
