(* ===== verification/Spec2Isabelle.thy ===== *)
theory Spec2Isabelle
  imports Doctor_Gate Doctor_Release Snapshot_Safety Report_Type
begin

text \<open>
  A model of repo-health-doctor (the package src/src/repo_health_doctor; the paths below are relative
  to it).  The tool checks a repository, collects evidence about it (static findings, reports of
  external scanners, reports of sandboxed runs), and a pre-execution gate turns the evidence into one
  of five verdicts.  A verdict never authorizes an execution.  That takes a separate artifact, drafted
  by the tool and approved by a person, which binds one gate decision, one command, one snapshot and
  one image and can be used once.  The sandbox run checks the artifact, copies the snapshot, starts a
  container on it, removes the container and reports what happened.

  \<^bold>\<open>How the parts interact.\<close>  A repository is copied into a snapshot: the commit HEAD names, when the
  worktree is exactly that commit, or plain files.  The repository check runs on the snapshot, and its
  report is bound to it in a scan envelope.  The adapter derives evidence items and a candidate
  decision from the report; the evaluator adds the static shape of the repository, validated scanner
  suites and validated reports of earlier sandbox runs, chooses the verdict and checks the decision
  with the validator that readers of a decision use.  A draft of an authorization repeats the
  fingerprint of the decision.  A run with an approved artifact compares it with the decision, the
  command, the snapshot and the image, reads the control file three times and requires the same bytes
  each time, reserves the artifact by creating a marker file exclusively, verifies the copy before and
  after, starts \<open>docker run\<close> with a checked argument vector, reads its output under a budget, removes
  the container and redacts the report.

  \<^bold>\<open>Python.\<close>  \<open>Prelude\<close>: exceptions as values (\<open>'a res\<close>) and error lists built statement by statement.
  \<open>Py_Text\<close>: \<open>str\<close> on code points below 256 and \<open>re\<close> patterns, decided by derivatives and proved equal
  to the language of the pattern.  \<open>Py_Json\<close>: JSON values, dictionaries in insertion order, reads that
  raise.  \<open>Py_Dumps\<close>: \<open>str\<close>, \<open>repr\<close> and the canonical JSON text.  \<open>Py_Time\<close>: \<open>fromisoformat\<close> and
  instants.  \<open>Sha256\<close>: the hash, on 32-bit words.  \<open>Ranking\<close>: the locale of ordered labels (a table of
  ranks and the maximum under it), interpreted for the verdicts and the severities (\<open>Gate_Verdict\<close>), the
  gate effects (\<open>Scanner_Result\<close>) and the risk tiers (\<open>Risk_Mapper\<close>).

  \<^bold>\<open>The repository check\<close> (doctor.py).  \<open>Path_Pattern\<close>: path patterns, with \<open>fnmatch\<close>.  \<open>Doctor_Rules\<close>:
  rules, secret patterns, findings, the report.  \<open>Doctor_Policy\<close>: the policy files, the allows and their
  inventory.  \<open>Doctor_Scan\<close>: the scans and \<open>diagnose_repo\<close>.  \<open>Doctor_Diff\<close>: comparison of reports and the
  release check.  \<open>Doctor_Properties\<close> shows what loading a policy guarantees for every allow, that no
  policy hides a secret outside the fixtures, that an expired allow blocks, and what the secret scan
  reports, against a specification (the first 200 readable files in path order, one finding for each
  pattern at its least matching line) that shares no loop with the code.  \<open>Doctor_Release\<close> does the same
  for the comparison and the release check; \<open>Doctor_Gate\<close> follows a planted secret to the verdict.

  \<^bold>\<open>Evidence.\<close>  \<open>Evidence_Check\<close> (evidence/validation.py, evidence/models.py): the validator of one item
  and the contract an accepted item satisfies.  \<open>Scanner_Result\<close> (external_scanner/result_validator.py)
  and \<open>Risk_Mapper\<close> (external_scanner/risk_policy.py, risk_mapper.py): scanner reports, the twenty risk
  rules, fail-closed and monotone.  \<open>Suite_Check\<close> (gate/external_evidence.py): scanner suites.
  \<open>Sandbox_Normalize\<close> (evidence/sandbox_run.py) and \<open>Sandbox_Check\<close> (gate/sandbox_evidence.py): reports of
  sandbox runs.  \<open>V3_Adapter\<close> (evidence/v3_adapter.py): the items of a check report.

  \<^bold>\<open>The gate.\<close>  \<open>Gate_Verdict\<close> (gate/verdict.py, limitation_policy.py, policy.py), \<open>Gate_Check\<close>
  (gate/validation.py, decision.py), \<open>Gate_Signals\<close>, \<open>Gate_Explanation\<close> and \<open>Gate_Evaluator\<close>
  (gate/evaluator.py: the lists the evaluator appends to are read off one sequence of signals).
  \<open>Repo_Shape\<close> and \<open>V3_Evaluator\<close> (gate/v3_evaluator.py).  \<open>Gate_Properties\<close>, \<open>Gate_Total\<close> and
  \<open>V3_Properties\<close> show that no decision authorizes, what forces a block, what the weakest verdict needs,
  when the evaluator returns, and that the commit that was scanned is the one decided about.

  \<^bold>\<open>The authorization.\<close>  \<open>Authorization\<close> (gate/authorization.py, sandbox/image_binding.py): drafts, the
  validator and its bindings, with \<open>authorized_for\<close> as the contract and the round trip of an approved
  draft as an equivalence.  \<open>Reservation\<close>: the marker file, first as one process runs the function, then
  as a step relation over a \<open>world\<close> of interleaved processes; the function refines the relation, and
  at most one process ever obtains the reservation.

  \<^bold>\<open>Snapshots\<close> (sandbox/run_workspace.py, the tables of sandbox/workspace.py).  \<open>Snapshot_Manifest\<close>: entries,
  budgets, fingerprints.  \<open>Snapshot_Copy\<close>: the walk that copies.  \<open>Pipe_Reader\<close> and \<open>Git_Tree\<close>: reading git.
  \<open>Snapshot\<close>: intake, the second walk that verifies, the difference of two walks.  \<open>Snapshot_Safety\<close>: an
  intake that ends with a snapshot never set an unsafe flag.

  \<^bold>\<open>The sandbox run.\<close>  \<open>Control_File\<close> (control_file.py), \<open>Sandbox_Profile\<close> (sandbox/profiles.py),
  \<open>Docker_Argv\<close> and \<open>Docker_Runner\<close> (sandbox/docker_runner.py; the locale \<open>sandbox_runner\<close> is the protocol
  of a runner, interpreted for the real and for the fake one), \<open>Run_Approval\<close> (sandbox/approval.py),
  \<open>Run_Redaction\<close>, \<open>Run_Report\<close> and \<open>Sandbox_Run\<close> (sandbox/run.py: \<open>run_world\<close> holds what the environment
  answers, the effects of a run are a list in the order in which they happen).
  \<open>Sandbox_Run_Properties\<close> shows what holds when a container is started and what exit code zero means;
  \<open>Report_Type\<close> that every report has its fields; \<open>Sandbox_Run_Sample\<close> is one complete run, to which the
  properties are applied.  Where a property limits what the container gets, it does so in terms of the
  vector itself (\<open>permitted_vector\<close>, \<open>unprivileged_user\<close>, the mount and \<open>--tmpfs\<close> strings) and not through
  the tests of the code.

  \<^bold>\<open>Bounds and loops.\<close>  Every definition terminates.  Loops over data are structural or have a measure
  (the bytes left to read or to search, the size of a value or a tree).  A loop that waits for the outside is
  run over the finite list of what the outside delivered: \<open>stream_loop\<close> over the turns of the output
  loop, the pipe reader over its events; a list that is too short is \<open>None\<close> (the run has not ended)
  or the deadline, and the properties of a report assume that there is a report.  The constants are those
  of the code: six rounds of container removal, 200 scanned files, the budgets of copies, output and
  control files; none is a bound of the model.

  \<^bold>\<open>Arguments.\<close>  What the operating system, git, the docker client, the clock, the JSON parser and the
  UTF-8 decoder answer is an argument of the definitions; where a property needs more than an arbitrary
  answer, it is a hypothesis with a witness.  Two answers are left out: an input error in the middle of
  the read of a control file, and the partial list of tracked paths that a refused listing of a
  tree leaves in the report.

  \<^bold>\<open>Not modelled.\<close>  The command line (cli.py) and the texts of the formatters, which hold no state; the
  programs that run real scanners and the adapters that parse their reports; the planner of the older
  \<open>sandbox\<close> command with its static validators, which nothing above calls; launching git and the query
  about linked worktrees; the scripts beside the package.  Code points from 256 on are outside the
  model of texts, so the restricted terms written in Japanese are not in the rule list.
\<close>

end
